(* ===== verification/Py_Prelude.thy ===== *)
theory Py_Prelude
  imports Main "HOL-Library.Sublist" "HOL-Library.List_Lexorder" "HOL-Library.Char_ord"
begin

text \<open>
  The shared prelude: the parts of Python and of its standard library that the modelled scripts
  use.  Python text and Python bytes are \<^typ>\<open>string\<close> (a list of 8-bit characters; the scripts
  read ASCII sources, so a code point is a character), a Python \<open>dict\<close> whose insertion order
  is observable is an association list with distinct keys, a Python \<open>set\<close> that is only iterated through
  \<open>sorted\<close> is the sorted list of its elements or a HOL set, and a raised exception is the
  left summand of a result.
  The theory provides the string methods (find, rfind, split, strip, join, replace, startswith,
  endswith), list indexing with Python's negative indices and IndexError, dictionary operations,
  the POSIX path functions of \<open>os.path\<close>, and the general lemmas about them.
\<close>

subsection \<open>Lemma collections\<close>

named_theorems pystr \<open>facts about the string methods\<close>
named_theorems pydict \<open>facts about dictionaries kept in insertion order\<close>
named_theorems pyres \<open>facts about results and exceptions\<close>

subsection \<open>Results: a value or a raised exception\<close>

text \<open>
  \<open>OutOfFuel\<close> is no Python exception: it is the value of a loop whose bound in the model is
  exhausted, and the lemmas of such a loop show that it does not occur.
\<close>

datatype pyexc =
    IndexError
  | KeyError string
  | ValueError
  | TypeError
  | StructError
  | AssertionError
  | FileNotFound string
  | ZeroDivision
  | StopIteration
  | OverflowError
  | RecursionError
  | AttributeError
  | OutOfFuel

type_synonym 'a res = "pyexc + 'a"

definition bindR :: "'a res \<Rightarrow> ('a \<Rightarrow> 'b res) \<Rightarrow> 'b res" where
  "bindR m f = (case m of Inl e \<Rightarrow> Inl e | Inr x \<Rightarrow> f x)"

lemma bindR_simps [simp, pyres]:
  "bindR (Inl e) f = Inl e"
  "bindR (Inr x) f = f x"
  by (simp_all add: bindR_def)

lemma bindR_Inr_iff [pyres]: "bindR r k = Inr v \<longleftrightarrow> (\<exists>u. r = Inr u \<and> k u = Inr v)"
  by (cases r) simp_all

lemma bindR_Inl_iff [pyres]:
  "bindR m f = Inl e \<longleftrightarrow> m = Inl e \<or> (\<exists>x. m = Inr x \<and> f x = Inl e)"
  by (cases m) simp_all

lemma bindR_Inr: "bindR m Inr = m"
  by (cases m) simp_all

lemma bindR_assoc: "bindR (bindR m f) g = bindR m (\<lambda>x. bindR (f x) g)"
  by (cases m) simp_all

text \<open>A comprehension whose body may raise: the first exception stops it.\<close>

fun mapR :: "('a \<Rightarrow> 'b res) \<Rightarrow> 'a list \<Rightarrow> 'b list res" where
  "mapR f [] = Inr []"
| "mapR f (x # xs) = bindR (f x) (\<lambda>y. bindR (mapR f xs) (\<lambda>ys. Inr (y # ys)))"

lemma mapR_Inr_iff [pyres]:
  "mapR f xs = Inr ys \<longleftrightarrow> list_all2 (\<lambda>x y. f x = Inr y) xs ys"
proof (induction xs arbitrary: ys)
  case Nil
  then show ?case by auto
next
  case (Cons x xs)
  then show ?case by (cases ys) (auto simp: bindR_Inr_iff)
qed

lemma mapR_total [pyres]: "(\<And>x. x \<in> set xs \<Longrightarrow> \<exists>y. f x = Inr y) \<Longrightarrow> \<exists>ys. mapR f xs = Inr ys"
proof (induction xs)
  case (Cons x xs)
  then obtain y ys where "f x = Inr y" "mapR f xs = Inr ys" by fastforce
  then show ?case by simp
qed simp

lemma mapR_length: "mapR f xs = Inr ys \<Longrightarrow> length ys = length xs"
  by (auto simp: mapR_Inr_iff dest: list_all2_lengthD)

lemma mapR_mem: "mapR f xs = Inr ys \<Longrightarrow> y \<in> set ys \<Longrightarrow> \<exists>x \<in> set xs. f x = Inr y"
proof (induction xs arbitrary: ys)
  case (Cons x xs)
  then show ?case by (auto simp: bindR_Inr_iff)
qed simp

text \<open>A loop that threads a state and may raise.\<close>

fun foldR :: "('s \<Rightarrow> 'a \<Rightarrow> 's res) \<Rightarrow> 's \<Rightarrow> 'a list \<Rightarrow> 's res" where
  "foldR f s [] = Inr s"
| "foldR f s (x # xs) = bindR (f s x) (\<lambda>s'. foldR f s' xs)"

lemma foldR_append: "foldR f s (xs @ ys) = bindR (foldR f s xs) (\<lambda>s'. foldR f s' ys)"
  by (induction xs arbitrary: s) (simp_all add: bindR_assoc)

lemma foldR_pure: "(\<And>d x. x \<in> set xs \<Longrightarrow> f d x = Inr (g d x)) \<Longrightarrow> foldR f d xs = Inr (foldl g d xs)"
  by (induction xs arbitrary: d) simp_all

lemma foldR_map: "foldR f d (map h xs) = foldR (\<lambda>d x. f d (h x)) d xs"
  by (induction xs arbitrary: d) simp_all

lemma foldR_total: "(\<And>d x. x \<in> set xs \<Longrightarrow> \<exists>d'. f d x = Inr d') \<Longrightarrow> \<exists>e. foldR f d xs = Inr e"
proof (induction xs arbitrary: d)
  case (Cons x xs)
  then obtain d' where "f d x = Inr d'" by (metis list.set_intros(1))
  with Cons show ?case by simp
qed simp

lemma foldR_invariant [pyres]:
  assumes "foldR f s xs = Inr t" and "I s"
    and "\<And>s x s'. I s \<Longrightarrow> x \<in> set xs \<Longrightarrow> f s x = Inr s' \<Longrightarrow> I s'"
  shows "I t"
  using assms
proof (induction xs arbitrary: s)
  case (Cons x xs)
  from Cons.prems(1) obtain s' where s': "f s x = Inr s'" "foldR f s' xs = Inr t"
    by (auto simp: bindR_Inr_iff)
  have "I s'" by (rule Cons.prems(3) [OF Cons.prems(2) _ s'(1)]) simp
  moreover have "\<And>s x' s''. I s \<Longrightarrow> x' \<in> set xs \<Longrightarrow> f s x' = Inr s'' \<Longrightarrow> I s''"
    using Cons.prems(3) by (metis list.set_intros(2))
  ultimately show ?case by (rule Cons.IH [OF s'(2)])
qed simp

subsection \<open>Operations on a state\<close>

text \<open>
  A method that reads and updates the object's attributes and may raise: a function from the state to
  a result with the new state.  \<open>refines I q v\<close>: from a state that satisfies \<open>I\<close>, the method
  \<open>q\<close> gives what the pure value \<open>v\<close> says, and \<open>I\<close> holds again.
\<close>

type_synonym ('s, 'a) op = "'s \<Rightarrow> ('a \<times> 's) res"

definition retS :: "'a \<Rightarrow> ('s, 'a) op" where
  "retS x s = Inr (x, s)"

definition liftS :: "'a res \<Rightarrow> ('s, 'a) op" where
  "liftS v s = bindR v (\<lambda>x. Inr (x, s))"

definition bindS :: "('s, 'a) op \<Rightarrow> ('a \<Rightarrow> ('s, 'b) op) \<Rightarrow> ('s, 'b) op" where
  "bindS q f s = bindR (q s) (\<lambda>(x, s'). f x s')"

fun mapS :: "('a \<Rightarrow> ('s, 'b) op) \<Rightarrow> 'a list \<Rightarrow> ('s, 'b list) op" where
  "mapS f [] = retS []"
| "mapS f (x # xs) = bindS (f x) (\<lambda>y. bindS (mapS f xs) (\<lambda>ys. retS (y # ys)))"

fun foldS :: "('b \<Rightarrow> 'a \<Rightarrow> ('s, 'b) op) \<Rightarrow> 'b \<Rightarrow> 'a list \<Rightarrow> ('s, 'b) op" where
  "foldS f b [] = retS b"
| "foldS f b (x # xs) = bindS (f b x) (\<lambda>b'. foldS f b' xs)"

definition refines :: "('s \<Rightarrow> bool) \<Rightarrow> ('s, 'a) op \<Rightarrow> 'a res \<Rightarrow> bool" where
  "refines I q v \<longleftrightarrow>
     (\<forall>s. I s \<longrightarrow> (case q s of Inl e \<Rightarrow> v = Inl e | Inr (x, s') \<Rightarrow> v = Inr x \<and> I s'))"

lemma refines_ret [pyres]: "refines I (retS x) (Inr x)"
  by (simp add: refines_def retS_def)

lemma refines_lift [pyres]: "refines I (liftS v) v"
  by (cases v) (simp_all add: refines_def liftS_def)

lemma refines_bind [pyres]:
  assumes "refines I q v" and "\<And>x. v = Inr x \<Longrightarrow> refines I (f x) (g x)"
  shows "refines I (bindS q f) (bindR v g)"
  unfolding refines_def
proof (intro allI impI)
  fix s assume s: "I s"
  show "case bindS q f s of Inl e \<Rightarrow> bindR v g = Inl e | Inr (x, s') \<Rightarrow> bindR v g = Inr x \<and> I s'"
  proof (cases "q s")
    case (Inl e)
    then have "v = Inl e" using assms(1) s by (auto simp: refines_def)
    with Inl show ?thesis by (simp add: bindS_def)
  next
    case (Inr r)
    obtain x s' where r: "r = (x, s')" by fastforce
    then have v: "v = Inr x" "I s'" using assms(1) s Inr by (auto simp: refines_def)
    have "case f x s' of Inl e \<Rightarrow> g x = Inl e | Inr (y, s'') \<Rightarrow> g x = Inr y \<and> I s''"
      using assms(2) [OF v(1)] v(2) by (auto simp: refines_def)
    then show ?thesis by (auto simp: bindS_def Inr r v(1) split: sum.splits)
  qed
qed

lemma refines_map [pyres]:
  "(\<And>x. x \<in> set xs \<Longrightarrow> refines I (f x) (g x)) \<Longrightarrow> refines I (mapS f xs) (mapR g xs)"
proof (induction xs)
  case (Cons x xs)
  then show ?case by (auto intro!: refines_bind refines_ret)
qed (simp add: refines_ret)

lemma refinesD: "refines I q v \<Longrightarrow> I s \<Longrightarrow> q s = Inr (x, s') \<Longrightarrow> v = Inr x \<and> I s'"
  by (auto simp: refines_def split: sum.splits)

lemma refines_total:
  "refines I q (Inr x) \<Longrightarrow> I s \<Longrightarrow> \<exists>s'. q s = Inr (x, s') \<and> I s'"
  by (cases "q s") (auto simp: refines_def)

lemma foldS_refines [pyres]:
  "(\<And>b x. refines I (f b x) (g b x)) \<Longrightarrow> refines I (foldS f b xs) (foldR g b xs)"
  by (induction xs arbitrary: b) (simp_all add: refines_ret refines_bind)

text \<open>An operation that keeps an invariant of its state where it returns.\<close>

definition keeps :: "('s \<Rightarrow> bool) \<Rightarrow> ('s, 'a) op \<Rightarrow> bool" where
  "keeps I q \<longleftrightarrow> (\<forall>s x s'. q s = Inr (x, s') \<longrightarrow> I s \<longrightarrow> I s')"

named_theorems keeping \<open>operations that keep an invariant\<close>

lemma keeps_ret [keeping]: "keeps I (retS x)"
  by (simp add: keeps_def retS_def)

lemma keeps_lift [keeping]: "keeps I (liftS v)"
  by (auto simp: keeps_def liftS_def bindR_Inr_iff)

lemma keeps_bind [keeping]: "keeps I q \<Longrightarrow> (\<And>x. keeps I (f x)) \<Longrightarrow> keeps I (bindS q f)"
  by (auto simp: keeps_def bindS_def bindR_Inr_iff)

lemma keeps_fold [keeping]: "(\<And>b x. keeps I (f b x)) \<Longrightarrow> keeps I (foldS f b xs)"
  by (induction xs arbitrary: b) (simp_all add: keeps_ret keeps_bind)

lemma bindS_Inr_iff [pyres]:
  "bindS q f s = Inr (y, t) \<longleftrightarrow> (\<exists>x s'. q s = Inr (x, s') \<and> f x s' = Inr (y, t))"
  by (auto simp: bindS_def bindR_Inr_iff)

lemma liftS_Inr_iff [pyres]: "liftS v s = Inr (x, t) \<longleftrightarrow> v = Inr x \<and> t = s"
  by (auto simp: liftS_def bindR_Inr_iff)

lemma retS_Inr_iff [pyres]: "retS x s = Inr (y, t) \<longleftrightarrow> y = x \<and> t = s"
  by (auto simp: retS_def)

text \<open>
  An operation that returns from every state a value with a property, and one whose value has the
  property where it returns.
\<close>

definition returns :: "('s, 'a) op \<Rightarrow> ('a \<Rightarrow> bool) \<Rightarrow> bool" where
  "returns q P \<longleftrightarrow> (\<forall>s. \<exists>x s'. q s = Inr (x, s') \<and> P x)"

definition yields :: "('s, 'a) op \<Rightarrow> ('a \<Rightarrow> bool) \<Rightarrow> bool" where
  "yields q P \<longleftrightarrow> (\<forall>s x s'. q s = Inr (x, s') \<longrightarrow> P x)"

lemma returns_ret: "P x \<Longrightarrow> returns (retS x) P"
  by (simp add: returns_def retS_def)

lemma returns_lift: "v = Inr x \<Longrightarrow> P x \<Longrightarrow> returns (liftS v) P"
  by (simp add: returns_def liftS_def)

lemma returns_bind: "returns q P \<Longrightarrow> (\<And>x. P x \<Longrightarrow> returns (f x) Q) \<Longrightarrow> returns (bindS q f) Q"
  unfolding returns_def bindS_def by (metis bindR_simps(2) case_prod_conv)

lemma yields_ret: "P x \<Longrightarrow> yields (retS x) P"
  by (simp add: yields_def retS_def)

lemma yields_lift: "(\<And>x. v = Inr x \<Longrightarrow> P x) \<Longrightarrow> yields (liftS v) P"
  by (auto simp: yields_def liftS_def bindR_Inr_iff)

lemma yields_bind: "yields q P \<Longrightarrow> (\<And>x. P x \<Longrightarrow> yields (f x) Q) \<Longrightarrow> yields (bindS q f) Q"
  unfolding yields_def bindS_Inr_iff by blast

lemma yields_any: "yields q (\<lambda>_. True)"
  by (simp add: yields_def)

lemma yields_fold: "P b \<Longrightarrow> (\<And>b x. P b \<Longrightarrow> yields (f b x) P) \<Longrightarrow> yields (foldS f b xs) P"
  by (induction xs arbitrary: b) (auto intro: yields_ret yields_bind)

lemma returns_yields: "returns q P \<Longrightarrow> yields q P"
  unfolding returns_def yields_def by (metis Pair_inject sum.inject(2))

text \<open>
  An operation that keeps an invariant and whose value has a property, where it returns: the rule for a sequence hands the
  property of the first value to the second operation.
\<close>

definition secures :: "('s \<Rightarrow> bool) \<Rightarrow> ('s, 'a) op \<Rightarrow> ('a \<Rightarrow> bool) \<Rightarrow> bool" where
  "secures I q P \<longleftrightarrow> (\<forall>s x s'. I s \<longrightarrow> q s = Inr (x, s') \<longrightarrow> I s' \<and> P x)"

lemma secures_ret: "P x \<Longrightarrow> secures I (retS x) P"
  by (simp add: secures_def retS_def)

lemma secures_lift: "(\<And>x. v = Inr x \<Longrightarrow> P x) \<Longrightarrow> secures I (liftS v) P"
  by (auto simp: secures_def liftS_def bindR_Inr_iff)

lemma secures_bind: "secures I q P \<Longrightarrow> (\<And>x. P x \<Longrightarrow> secures I (f x) Q) \<Longrightarrow> secures I (bindS q f) Q"
  unfolding secures_def bindS_Inr_iff by blast

lemma secures_fold: "P b \<Longrightarrow> (\<And>b x. P b \<Longrightarrow> x \<in> set xs \<Longrightarrow> secures I (f b x) P) \<Longrightarrow> secures I (foldS f b xs) P"
  by (induction xs arbitrary: b) (auto intro: secures_ret secures_bind)

lemma secures_pair: "(\<And>a b. p = (a, b) \<Longrightarrow> secures I (f a b) P) \<Longrightarrow> secures I (case p of (a, b) \<Rightarrow> f a b) P"
  by (cases p) simp

lemma secures_weaken: "secures I q P \<Longrightarrow> (\<And>x. P x \<Longrightarrow> Q x) \<Longrightarrow> secures I q Q"
  unfolding secures_def by blast

lemma securesD: "secures I q P \<Longrightarrow> I s \<Longrightarrow> q s = Inr (x, s') \<Longrightarrow> I s' \<and> P x"
  unfolding secures_def by blast

definition raises :: "('s, 'a) op \<Rightarrow> pyexc \<Rightarrow> bool" where
  "raises q e \<longleftrightarrow> (\<forall>s. q s = Inl e)"

lemma raises_lift: "v = Inl e \<Longrightarrow> raises (liftS v) e"
  by (simp add: raises_def liftS_def)

lemma raises_bind: "raises q e \<Longrightarrow> raises (bindS q f) e"
  by (simp add: raises_def bindS_def)

lemma raises_after: "returns q P \<Longrightarrow> (\<And>x. P x \<Longrightarrow> raises (f x) e) \<Longrightarrow> raises (bindS q f) e"
  unfolding returns_def raises_def bindS_def by (metis bindR_simps(2) case_prod_conv)

lemma fold_invariant_simple:
  assumes "I s" and "\<And>x s. x \<in> set xs \<Longrightarrow> I s \<Longrightarrow> I (f x s)"
  shows "I (fold f xs s)"
  using assms by (induction xs arbitrary: s) auto

subsection \<open>Indexing\<close>

definition nth_or :: "'a list \<Rightarrow> nat \<Rightarrow> 'a res" where
  "nth_or xs i = (if i < length xs then Inr (xs ! i) else Inl IndexError)"

lemma nth_or_simps [simp]:
  "i < length xs \<Longrightarrow> nth_or xs i = Inr (xs ! i)"
  "length xs \<le> i \<Longrightarrow> nth_or xs i = Inl IndexError"
  by (simp_all add: nth_or_def)

text \<open>Python's \<open>xs[i]\<close>: a negative index counts from the end, anything else out of range raises.\<close>

definition py_nth :: "'a list \<Rightarrow> int \<Rightarrow> 'a res" where
  "py_nth xs i =
     (if 0 \<le> i then nth_or xs (nat i)
      else if nat (- i) \<le> length xs then nth_or xs (length xs - nat (- i))
      else Inl IndexError)"

lemma py_nth_nat [simp]: "py_nth xs (int i) = nth_or xs i"
  by (simp add: py_nth_def)

lemma py_nth_last [simp]: "xs \<noteq> [] \<Longrightarrow> py_nth xs (- 1) = Inr (last xs)"
  by (cases xs) (simp_all add: py_nth_def last_conv_nth)

text \<open>\<open>x in xs\<close>.\<close>

definition in_list :: "'a \<Rightarrow> 'a list \<Rightarrow> bool" where
  "in_list x xs \<longleftrightarrow> List.member xs x"

lemma in_list_iff [simp]: "in_list x xs \<longleftrightarrow> x \<in> set xs"
  by (simp add: in_list_def)

subsection \<open>Strings\<close>

definition nl :: char where "nl = CHR 0x0A"
definition bslash :: char where "bslash = CHR 0x5C"
definition dquote :: char where "dquote = CHR 0x22"
definition squote :: char where "squote = CHR 0x27"

definition startswith :: "string \<Rightarrow> string \<Rightarrow> bool" where
  "startswith s p \<longleftrightarrow> take (length p) s = p"

definition endswith :: "string \<Rightarrow> string \<Rightarrow> bool" where
  "endswith s p \<longleftrightarrow> startswith (rev s) (rev p)"

definition endswith_any :: "string \<Rightarrow> string list \<Rightarrow> bool" where
  "endswith_any s ps \<longleftrightarrow> list_ex (endswith s) ps"

definition startswith_any :: "string \<Rightarrow> string list \<Rightarrow> bool" where
  "startswith_any s ps \<longleftrightarrow> list_ex (startswith s) ps"

lemma startswith_prefix [pystr]: "startswith s p \<longleftrightarrow> prefix p s"
  by (metis append_take_drop_id prefix_def startswith_def append_eq_conv_conj)

lemma endswith_suffix [pystr]: "endswith s p \<longleftrightarrow> suffix p s"
  by (simp add: endswith_def startswith_prefix suffix_to_prefix)

lemma startswith_Nil [simp]: "startswith s []"
  by (simp add: startswith_def)

lemma startswith_self [simp]: "startswith (p @ s) p"
  by (simp add: startswith_def)

text \<open>
  \<open>s.find(p)\<close> as an option (Python's \<open>-1\<close> is \<^term>\<open>None\<close>); \<open>s.find(p, i)\<close> is
  \<open>find_from\<close>, and \<open>s.rfind(p, 0, e)\<close> is \<open>rfind_upto\<close>.
\<close>

fun str_find :: "string \<Rightarrow> string \<Rightarrow> nat option" where
  "str_find [] p = (if p = [] then Some 0 else None)"
| "str_find (c # cs) p =
     (if startswith (c # cs) p then Some 0 else map_option Suc (str_find cs p))"

definition find_from :: "string \<Rightarrow> string \<Rightarrow> nat \<Rightarrow> nat option" where
  "find_from s p i =
     (if i \<le> length s then map_option (\<lambda>k. i + k) (str_find (drop i s) p) else None)"

definition rfind_upto :: "string \<Rightarrow> string \<Rightarrow> nat \<Rightarrow> nat option" where
  "rfind_upto s p e =
     (case filter (\<lambda>i. startswith (drop i s) p \<and> i + length p \<le> e) (rev [0..<Suc (length s)]) of
        [] \<Rightarrow> None | i # _ \<Rightarrow> Some i)"

lemma str_find_SomeD [pystr]:
  "str_find s p = Some k \<Longrightarrow> k + length p \<le> length s \<and> startswith (drop k s) p"
proof (induction s arbitrary: k)
  case Nil
  then show ?case by (simp split: if_splits)
next
  case (Cons c cs)
  show ?case
  proof (cases "startswith (c # cs) p")
    case True
    with Cons.prems have "k = 0" by simp
    moreover have "length p \<le> length (c # cs)"
      using True by (metis startswith_prefix prefix_length_le)
    ultimately show ?thesis using True by simp
  next
    case False
    with Cons.prems obtain k' where "str_find cs p = Some k'" "k = Suc k'" by auto
    with Cons.IH show ?thesis by auto
  qed
qed

lemma str_find_least [pystr]:
  "str_find s p = Some k \<Longrightarrow> j < k \<Longrightarrow> \<not> startswith (drop j s) p"
proof (induction s arbitrary: k j)
  case Nil
  then show ?case by (simp split: if_splits)
next
  case (Cons c cs)
  then have "\<not> startswith (c # cs) p" by (auto split: if_splits)
  with Cons show ?case by (cases j) auto
qed

lemma str_find_None [pystr]:
  "str_find s p = None \<longleftrightarrow> (\<forall>j \<le> length s. \<not> startswith (drop j s) p)"
proof (induction s)
  case Nil
  then show ?case by (auto simp: startswith_def)
next
  case (Cons c cs)
  have "(\<forall>j \<le> length (c # cs). \<not> startswith (drop j (c # cs)) p) \<longleftrightarrow>
      \<not> startswith (c # cs) p \<and> (\<forall>j \<le> length cs. \<not> startswith (drop j cs) p)"
    by (metis Suc_le_mono drop0 drop_Suc_Cons le0 length_Cons not0_implies_Suc)
  with Cons show ?case by simp
qed

lemma find_from_SomeD [pystr]:
  assumes "find_from s p i = Some k"
  shows "i \<le> k" and "k + length p \<le> length s" and "startswith (drop k s) p"
proof -
  from assms obtain j where j: "i \<le> length s" "str_find (drop i s) p = Some j" "k = i + j"
    by (auto simp: find_from_def split: if_splits)
  note str_find_SomeD [OF j(2)]
  with j show "i \<le> k" "k + length p \<le> length s" "startswith (drop k s) p"
    by (auto simp: add.commute)
qed

lemma find_from_least [pystr]:
  assumes "find_from s p i = Some k" and "i \<le> j" and "j < k"
  shows "\<not> startswith (drop j s) p"
proof -
  from assms obtain d where d: "str_find (drop i s) p = Some d" "k = i + d"
    by (auto simp: find_from_def split: if_splits)
  have "\<not> startswith (drop (j - i) (drop i s)) p"
    using d assms by (intro str_find_least) auto
  with assms(2) show ?thesis by simp
qed

lemma find_from_NoneD [pystr]:
  assumes "find_from s p i = None" and "i \<le> j" and "j \<le> length s"
  shows "\<not> startswith (drop j s) p"
proof -
  from assms have "str_find (drop i s) p = None" by (simp add: find_from_def)
  moreover have "j - i \<le> length (drop i s)" using assms by simp
  ultimately have "\<not> startswith (drop (j - i) (drop i s)) p"
    unfolding str_find_None by blast
  with assms(2) show ?thesis by simp
qed

definition contains :: "string \<Rightarrow> string \<Rightarrow> bool" where
  "contains s p \<longleftrightarrow> str_find s p \<noteq> None"

lemma contains_iff_sublist [pystr]: "contains s p \<longleftrightarrow> sublist p s"
proof
  assume "contains s p"
  then obtain k where "str_find s p = Some k" by (auto simp: contains_def)
  then have "prefix p (drop k s)" using str_find_SomeD startswith_prefix by blast
  then obtain zs where "drop k s = p @ zs" by (auto simp: prefix_def)
  then have "s = take k s @ p @ zs" by (metis append_take_drop_id)
  then show "sublist p s" by (metis sublist_appendI)
next
  assume "sublist p s"
  then obtain u v where "s = u @ p @ v" by (auto simp: sublist_def)
  then have "startswith (drop (length u) s) p" and "length u \<le> length s" by simp_all
  then show "contains s p" unfolding contains_def using str_find_None by blast
qed

text \<open>\<open>s.split(c)\<close> for a one-character separator: always at least one field.\<close>

fun split_on :: "char \<Rightarrow> string \<Rightarrow> string list" where
  "split_on c [] = [[]]"
| "split_on c (x # xs) =
     (if x = c then [] # split_on c xs
      else (case split_on c xs of [] \<Rightarrow> [[x]] | f # fs \<Rightarrow> (x # f) # fs))"

fun join :: "string \<Rightarrow> string list \<Rightarrow> string" where
  "join sep [] = []"
| "join sep [x] = x"
| "join sep (x # y # ys) = x @ sep @ join sep (y # ys)"

lemma split_on_nonempty [simp, pystr]: "split_on c s \<noteq> []"
  by (induction s) (auto split: list.splits)

lemma join_Cons: "fs \<noteq> [] \<Longrightarrow> join sep (f # fs) = f @ sep @ join sep fs"
  by (cases fs) simp_all

theorem join_split_on [pystr]: "join [c] (split_on c s) = s"
proof (induction s)
  case Nil
  then show ?case by simp
next
  case (Cons x xs)
  show ?case
  proof (cases "x = c")
    case True
    then show ?thesis using Cons by (simp add: join_Cons)
  next
    case False
    obtain f fs where f: "split_on c xs = f # fs" using split_on_nonempty by (meson neq_Nil_conv)
    show ?thesis
      using Cons False f by (cases fs) simp_all
  qed
qed

lemma split_on_no_sep [pystr]: "f \<in> set (split_on c s) \<Longrightarrow> c \<notin> set f"
proof (induction s arbitrary: f)
  case (Cons x xs)
  then show ?case by (auto split: if_splits list.splits)
qed simp

lemma split_on_append [pystr]:
  "c \<notin> set f \<Longrightarrow> split_on c (f @ c # s) = f # split_on c s"
  by (induction f) auto

lemma split_on_id [pystr]: "c \<notin> set f \<Longrightarrow> split_on c f = [f]"
  by (induction f) auto

theorem split_on_join [pystr]:
  "fs \<noteq> [] \<Longrightarrow> (\<And>f. f \<in> set fs \<Longrightarrow> c \<notin> set f) \<Longrightarrow> split_on c (join [c] fs) = fs"
proof (induction fs)
  case (Cons f fs)
  then show ?case
    by (cases fs) (simp_all add: split_on_id split_on_append)
qed simp

text \<open>\<open>s.split(c, 1)\<close>: the text before the first separator, and the rest if there is one.\<close>

fun split_once :: "char \<Rightarrow> string \<Rightarrow> string list" where
  "split_once c [] = [[]]"
| "split_once c (x # xs) =
     (if x = c then [[], xs]
      else (case split_once c xs of [] \<Rightarrow> [[x]] | f # fs \<Rightarrow> (x # f) # fs))"

lemma split_once_simps [pystr]:
  "c \<notin> set f \<Longrightarrow> split_once c f = [f]"
  "c \<notin> set f \<Longrightarrow> split_once c (f @ c # s) = [f, s]"
  by (induction f) auto

lemma split_once_nonempty [simp]: "split_once c s \<noteq> []"
  by (induction s) (auto split: list.splits)

lemma split_once_hd: "hd (split_once c s) = takeWhile (\<lambda>x. x \<noteq> c) s"
proof (induction s)
  case (Cons x s)
  then show ?case by (cases "split_once c s") (use split_once_nonempty in auto)
qed simp

text \<open>White space of \<open>str.strip\<close>, \<open>str.split\<close> and the regular expression class \<open>\s\<close>.\<close>

definition is_space :: "char \<Rightarrow> bool" where
  "is_space c \<longleftrightarrow> (let n = of_char c in (9::nat) \<le> n \<and> n \<le> 13 \<or> 28 \<le> n \<and> n \<le> 32)"

definition is_digit :: "char \<Rightarrow> bool" where
  "is_digit c \<longleftrightarrow> (let n = of_char c in (48::nat) \<le> n \<and> n \<le> 57)"

definition is_upper :: "char \<Rightarrow> bool" where
  "is_upper c \<longleftrightarrow> (let n = of_char c in (65::nat) \<le> n \<and> n \<le> 90)"

definition is_lower :: "char \<Rightarrow> bool" where
  "is_lower c \<longleftrightarrow> (let n = of_char c in (97::nat) \<le> n \<and> n \<le> 122)"

definition is_word :: "char \<Rightarrow> bool" where
  "is_word c \<longleftrightarrow> is_digit c \<or> is_upper c \<or> is_lower c \<or> c = CHR ''_''"

definition to_lower :: "char \<Rightarrow> char" where
  "to_lower c = (if is_upper c then char_of (of_char c + 32 :: nat) else c)"

definition lower :: "string \<Rightarrow> string" where
  "lower = map to_lower"

definition lstrip :: "string \<Rightarrow> string" where
  "lstrip = dropWhile is_space"

definition rstrip :: "string \<Rightarrow> string" where
  "rstrip s = rev (dropWhile is_space (rev s))"

definition strip :: "string \<Rightarrow> string" where
  "strip s = rstrip (lstrip s)"

lemma strip_idle [pystr]:
  "s \<noteq> [] \<Longrightarrow> \<not> is_space (hd s) \<Longrightarrow> \<not> is_space (last s) \<Longrightarrow> strip s = s"
proof -
  have id: "dropWhile is_space t = t" if "t = [] \<or> \<not> is_space (hd t)" for t
    using that by (cases t) auto
  assume "s \<noteq> []" "\<not> is_space (hd s)" "\<not> is_space (last s)"
  then show ?thesis by (simp add: strip_def lstrip_def rstrip_def id hd_rev)
qed

lemma strip_sublist [pystr]: "set (strip s) \<subseteq> set s"
proof
  fix x assume "x \<in> set (strip s)"
  then have "x \<in> set (dropWhile is_space (rev (dropWhile is_space s)))"
    by (simp add: strip_def lstrip_def rstrip_def)
  then have "x \<in> set (dropWhile is_space s)" by (metis set_dropWhileD set_rev)
  then show "x \<in> set s" by (metis set_dropWhileD)
qed

text \<open>\<open>s.split()\<close>: the maximal runs of non-space characters.\<close>

fun words_acc :: "string \<Rightarrow> string \<Rightarrow> string list" where
  "words_acc cur [] = (if cur = [] then [] else [rev cur])"
| "words_acc cur (c # cs) =
     (if is_space c then (if cur = [] then words_acc [] cs else rev cur # words_acc [] cs)
      else words_acc (c # cur) cs)"

definition split_ws :: "string \<Rightarrow> string list" where
  "split_ws s = words_acc [] s"

lemma words_acc_no_space [pystr]:
  "w \<in> set (words_acc cur s) \<Longrightarrow> (\<forall>c \<in> set cur. \<not> is_space c) \<Longrightarrow>
   w \<noteq> [] \<and> (\<forall>c \<in> set w. \<not> is_space c)"
proof (induction cur s arbitrary: w rule: words_acc.induct)
  case (1 cur)
  then show ?case by (simp split: if_splits)
next
  case (2 cur c cs)
  show ?case
  proof (cases "is_space c")
    case True
    show ?thesis
    proof (cases "cur = []")
      case True
      with \<open>is_space c\<close> 2(4) have "w \<in> set (words_acc [] cs)" by simp
      then show ?thesis using 2(1) [OF \<open>is_space c\<close> True] by simp
    next
      case False
      with \<open>is_space c\<close> 2(4) have "w = rev cur \<or> w \<in> set (words_acc [] cs)" by simp
      then show ?thesis using 2(2) [OF \<open>is_space c\<close> False] 2(5) False by fastforce
    qed
  next
    case False
    with 2(4) have "w \<in> set (words_acc (c # cur) cs)" by simp
    then show ?thesis using 2(3) [OF False] 2(5) False by simp
  qed
qed

text \<open>\<open>s.replace(a, b)\<close> for a one-character \<open>a\<close>, and for a general non-empty \<open>a\<close>.\<close>

definition replace_char :: "char \<Rightarrow> string \<Rightarrow> string \<Rightarrow> string" where
  "replace_char a b s = concat (map (\<lambda>c. if c = a then b else [c]) s)"

lemma replace_char_append [simp]:
  "replace_char a b (s @ t) = replace_char a b s @ replace_char a b t"
  "replace_char a b [] = []"
  by (simp_all add: replace_char_def)

function replace :: "string \<Rightarrow> string \<Rightarrow> string \<Rightarrow> string" where
  "replace a b s =
     (case s of [] \<Rightarrow> []
      | c # cs \<Rightarrow> if a \<noteq> [] \<and> startswith s a then b @ replace a b (drop (length a) s)
                 else c # replace a b cs)"
  by pat_completeness auto
termination
  by (relation "measure (\<lambda>(a, b, s). length s)") (auto simp: diff_less_Suc)

declare replace.simps [simp del]

lemma replace_simps [simp]:
  "replace a b [] = []"
  "replace a b (c # cs) =
     (if a \<noteq> [] \<and> startswith (c # cs) a then b @ replace a b (drop (length a) (c # cs))
      else c # replace a b cs)"
  by (simp_all add: replace.simps [of a b "[]"] replace.simps [of a b "c # cs"])

text \<open>\<open>s.count(c)\<close> for a single character.\<close>

definition count_char :: "char \<Rightarrow> string \<Rightarrow> nat" where
  "count_char c s = length (filter (\<lambda>x. x = c) s)"

lemma count_char_append [simp]: "count_char c (s @ t) = count_char c s + count_char c t"
  by (simp add: count_char_def)

text \<open>\<open>'%d' % n\<close> and \<open>str(n)\<close> for an integer.\<close>

definition digit_char :: "nat \<Rightarrow> char" where
  "digit_char d = char_of (48 + d)"

fun show_nat :: "nat \<Rightarrow> string" where
  "show_nat n = (if n < 10 then [digit_char n] else show_nat (n div 10) @ [digit_char (n mod 10)])"

declare show_nat.simps [simp del]

definition show_int :: "int \<Rightarrow> string" where
  "show_int i = (if i < 0 then CHR ''-'' # show_nat (nat (- i)) else show_nat (nat i))"

definition digit_val :: "char \<Rightarrow> nat" where
  "digit_val c = of_char c - 48"

definition read_digits :: "string \<Rightarrow> nat" where
  "read_digits s = fold (\<lambda>c n. 10 * n + digit_val c) s 0"

lemma digit_val_char [simp]: "d < 10 \<Longrightarrow> digit_val (digit_char d) = d"
  by (simp add: digit_val_def digit_char_def of_char_of)

lemma is_digit_char [simp]: "d < 10 \<Longrightarrow> is_digit (digit_char d)"
  by (simp add: is_digit_def digit_char_def of_char_of)

theorem read_digits_show [pystr]: "read_digits (show_nat n) = n"
proof (induction n rule: show_nat.induct)
  case (1 n)
  show ?case
  proof (cases "n < 10")
    case True
    then show ?thesis by (subst show_nat.simps) (simp add: read_digits_def)
  next
    case False
    with 1 have "read_digits (show_nat (n div 10)) = n div 10" by blast
    with False show ?thesis
      by (subst show_nat.simps) (simp add: read_digits_def)
  qed
qed

lemma show_nat_digits [pystr]: "c \<in> set (show_nat n) \<Longrightarrow> is_digit c"
proof (induction n rule: show_nat.induct)
  case (1 n)
  then show ?case by (subst (asm) show_nat.simps) (auto split: if_splits)
qed

lemma show_nat_nonempty [simp]: "show_nat n \<noteq> []"
  by (subst show_nat.simps) simp

lemma show_nat_inject [simp]: "show_nat m = show_nat n \<longleftrightarrow> m = n"
  by (metis read_digits_show)

subsection \<open>Dictionaries in insertion order\<close>

type_synonym ('k, 'v) dict = "('k \<times> 'v) list"

abbreviation keys :: "('k, 'v) dict \<Rightarrow> 'k list" where
  "keys d \<equiv> map fst d"

definition dict_ok :: "('k, 'v) dict \<Rightarrow> bool" where
  "dict_ok d \<longleftrightarrow> distinct (keys d)"

text \<open>\<open>d[k] = v\<close>: an existing key keeps its place, a new one goes to the end.\<close>

fun dict_set :: "'k \<Rightarrow> 'v \<Rightarrow> ('k, 'v) dict \<Rightarrow> ('k, 'v) dict" where
  "dict_set k v [] = [(k, v)]"
| "dict_set k v ((k', v') # d) = (if k' = k then (k, v) # d else (k', v') # dict_set k v d)"

definition dict_get :: "('k, 'v) dict \<Rightarrow> 'k \<Rightarrow> 'v option" where
  "dict_get d k = map_of d k"

definition get_or :: "('k, 'v) dict \<Rightarrow> 'k \<Rightarrow> 'v \<Rightarrow> 'v" where
  "get_or d k v = (case dict_get d k of None \<Rightarrow> v | Some x \<Rightarrow> x)"

lemma dict_get_set [simp, pydict]:
  "dict_get (dict_set k v d) = (dict_get d)(k \<mapsto> v)"
  by (induction d) (auto simp: dict_get_def fun_eq_iff)

lemma keys_dict_set [pydict]:
  "keys (dict_set k v d) = (if k \<in> set (keys d) then keys d else keys d @ [k])"
proof (induction d)
  case (Cons x d)
  then show ?case by (cases x) (simp split: if_splits)
qed simp

lemma dict_ok_set [simp, pydict]: "dict_ok d \<Longrightarrow> dict_ok (dict_set k v d)"
  by (simp add: dict_ok_def keys_dict_set)

lemma dict_ok_Nil [simp]: "dict_ok []"
  by (simp add: dict_ok_def)

lemma dict_get_Nil [simp]: "dict_get [] k = None"
  by (simp add: dict_get_def)

lemma dict_get_Some_mem [pydict]: "dict_get d k = Some v \<Longrightarrow> (k, v) \<in> set d"
  by (simp add: dict_get_def map_of_SomeD)

lemma dict_get_mem_iff [pydict]: "dict_ok d \<Longrightarrow> (k, v) \<in> set d \<longleftrightarrow> dict_get d k = Some v"
  by (simp add: dict_get_def dict_ok_def)

lemma dict_get_None_iff [pydict]: "dict_get d k = None \<longleftrightarrow> k \<notin> set (keys d)"
  by (simp add: dict_get_def map_of_eq_None_iff)

text \<open>\<open>d.update(e)\<close>.\<close>

definition dict_update :: "('k, 'v) dict \<Rightarrow> ('k, 'v) dict \<Rightarrow> ('k, 'v) dict" where
  "dict_update d e = fold (\<lambda>(k, v) m. dict_set k v m) e d"

lemma dict_ok_update [simp, pydict]: "dict_ok d \<Longrightarrow> dict_ok (dict_update d e)"
  unfolding dict_update_def by (rule fold_invariant_simple) auto

lemma dict_get_update [pydict]:
  "dict_get (dict_update d e) k = (case map_of (rev e) k of None \<Rightarrow> dict_get d k | Some v \<Rightarrow> Some v)"
  unfolding dict_update_def
proof (induction e arbitrary: d)
  case (Cons x e)
  then show ?case by (cases x) (auto split: option.splits)
qed simp

subsection \<open>Sorted sets\<close>

text \<open>\<open>sorted(set(xs))\<close>.\<close>

definition sorted_set :: "'a::linorder list \<Rightarrow> 'a list" where
  "sorted_set xs = sort (remdups xs)"

lemma sorted_set_props [simp, pystr]:
  "set (sorted_set xs) = set xs"
  "sorted (sorted_set xs)"
  "distinct (sorted_set xs)"
  by (simp_all add: sorted_set_def)

lemma sorted_set_cong [pystr]: "set xs = set ys \<Longrightarrow> sorted_set xs = sorted_set ys"
  by (metis sorted_distinct_set_unique sorted_set_props)

subsection \<open>Paths\<close>

text \<open>\<open>os.path.join\<close> of two components, \<open>basename\<close>, \<open>dirname\<close>, \<open>splitext\<close> and
  \<open>normpath\<close> on a POSIX system.\<close>

definition slash :: char where "slash = CHR ''/''"

definition is_abs :: "string \<Rightarrow> bool" where
  "is_abs p \<longleftrightarrow> startswith p [slash]"

definition path_join :: "string \<Rightarrow> string \<Rightarrow> string" where
  "path_join a b =
     (if is_abs b then b
      else if a = [] \<or> endswith a [slash] then a @ b
      else a @ slash # b)"

definition basename :: "string \<Rightarrow> string" where
  "basename p = last (split_on slash p)"

definition dirname :: "string \<Rightarrow> string" where
  "dirname p =
     (let h = take (length p - length (basename p)) p
      in if list_all (\<lambda>c. c = slash) h then h
         else rev (dropWhile (\<lambda>c. c = slash) (rev h)))"

text \<open>
  \<open>os.path.splitext\<close>: the extension starts at the last dot of the last component, unless only
  dots precede it.
\<close>

definition splitext :: "string \<Rightarrow> string \<times> string" where
  "splitext p =
     (let b = basename p; h = take (length p - length b) p;
          r = dropWhile (\<lambda>c. c \<noteq> CHR ''.'') (rev b)
      in if r = [] then (p, [])
         else let stem = rev (tl r) in
           if list_all (\<lambda>c. c = CHR ''.'') stem then (p, [])
           else (h @ stem, drop (length stem) b))"

fun norm_step :: "bool \<Rightarrow> string list \<Rightarrow> string \<Rightarrow> string list" where
  "norm_step absolute acc c =
     (if c = [] \<or> c = ''.'' then acc
      else if c \<noteq> ''..'' \<or> (\<not> absolute \<and> acc = []) \<or> (acc \<noteq> [] \<and> last acc = ''..'') then acc @ [c]
      else if acc \<noteq> [] then butlast acc else acc)"

definition initial_slashes :: "string \<Rightarrow> nat" where
  "initial_slashes p =
     (if startswith p ''//'' \<and> \<not> startswith p ''///'' then 2 else if is_abs p then 1 else 0)"

definition normpath :: "string \<Rightarrow> string" where
  "normpath p =
     (if p = [] then ''.'' else
      let n = initial_slashes p;
          comps = foldl (norm_step (n > 0)) [] (split_on slash p);
          q = replicate n slash @ join [slash] comps
      in if q = [] then ''.'' else q)"

text \<open>\<open>os.path.relpath(path, start)\<close> for two absolute paths.\<close>

fun drop_common :: "string list \<Rightarrow> string list \<Rightarrow> string list \<times> string list" where
  "drop_common (x # xs) (y # ys) = (if x = y then drop_common xs ys else (x # xs, y # ys))"
| "drop_common xs ys = (xs, ys)"

definition path_parts :: "string \<Rightarrow> string list" where
  "path_parts p = filter (\<lambda>c. c \<noteq> []) (split_on slash (normpath p))"

definition relpath :: "string \<Rightarrow> string \<Rightarrow> string" where
  "relpath path start =
     (let (up, down) = drop_common (path_parts start) (path_parts path);
          rel = replicate (length up) ''..'' @ down
      in if rel = [] then ''.'' else join [slash] rel)"

lemma path_join_abs [simp]: "is_abs b \<Longrightarrow> path_join a b = b"
  by (simp add: path_join_def)

lemma basename_no_slash [pystr]: "slash \<notin> set (basename p)"
  unfolding basename_def by (rule split_on_no_sep [OF last_in_set]) simp

lemma split_on_append2:
  "split_on c (s @ c # t) = split_on c s @ split_on c t"
  by (induction s) (auto split: list.splits)

lemma basename_path_join [pystr]:
  assumes "slash \<notin> set b"
  shows "basename (path_join a b) = b"
proof -
  have nb: "\<not> is_abs b" using assms by (cases b) (auto simp: is_abs_def startswith_def)
  have e: "\<And>u. endswith u [slash] \<Longrightarrow> \<exists>v. u = v @ [slash]"
    by (auto simp: endswith_suffix suffix_def)
  show ?thesis
    using nb assms e
    by (auto simp: path_join_def basename_def split_on_append2 split_on_id dest!: e)
qed

end
