(* ===== verification/Py_Regex.thy ===== *)
theory Py_Regex
  imports Py_Prelude
begin

text \<open>
  Python's \<open>re\<close> module, as far as the scripts use it: a backtracking matcher over an abstract
  syntax of patterns.  \<open>ms r s (i, g)\<close> lists every way to match \<open>r\<close> at position \<open>i\<close> of
  \<open>s\<close>, in the order in which the backtracking engine of the library tries them (greedy
  repetitions longest first, lazy ones shortest first, alternatives from the left), each with its
  end position and its captured groups; \<open>re.match\<close> takes the first one, \<open>re.search\<close> the
  first one at the leftmost position, \<open>finditer\<close>, \<open>findall\<close> and \<open>sub\<close> scan on from the end
  of each match.  The lemmas give the declarative reading of the matcher (\<open>ends\<close>, a
  denotation by sets of end positions), that a search is leftmost and complete, and that the
  matches of a scan are disjoint and in order.
\<close>

named_theorems rxs \<open>facts about patterns and scans\<close>

subsection \<open>Character classes and patterns\<close>

datatype cset =
    CS string
  | CRange char char
  | CSpace
  | CDigit
  | CWord
  | CDot
  | CAll
  | CUn cset cset
  | CNot cset

fun in_cset :: "cset \<Rightarrow> char \<Rightarrow> bool" where
  "in_cset (CS cs) c = List.member cs c"
| "in_cset (CRange a b) c = (a \<le> c \<and> c \<le> b)"
| "in_cset CSpace c = is_space c"
| "in_cset CDigit c = is_digit c"
| "in_cset CWord c = is_word c"
| "in_cset CDot c = (c \<noteq> nl)"
| "in_cset CAll c = True"
| "in_cset (CUn x y) c = (in_cset x c \<or> in_cset y c)"
| "in_cset (CNot x) c = (\<not> in_cset x c)"

datatype rx =
    REps
  | RSet cset
  | RSeq rx rx
  | RAlt rx rx
  | RStar rx
  | RLazy rx
  | RGrp nat rx
  | RBol
  | RMBol
  | REol
  | RWordB
  | RAhead rx
  | RNotAhead rx
  | RNotBehind cset

text \<open>Derived forms: a literal (\<open>re.escape\<close>), \<open>+\<close>, \<open>+?\<close>, \<open>?\<close>, sequences, alternatives.\<close>

fun RSeqs :: "rx list \<Rightarrow> rx" where
  "RSeqs [] = REps"
| "RSeqs [r] = r"
| "RSeqs (r # rs) = RSeq r (RSeqs rs)"

fun RAlts :: "rx list \<Rightarrow> rx" where
  "RAlts [] = RSet (CS [])"
| "RAlts [r] = r"
| "RAlts (r # rs) = RAlt r (RAlts rs)"

fun RLit :: "string \<Rightarrow> rx" where
  "RLit [] = REps"
| "RLit [c] = RSet (CS [c])"
| "RLit (c # cs) = RSeq (RSet (CS [c])) (RLit cs)"

abbreviation RPlus :: "rx \<Rightarrow> rx" where "RPlus r \<equiv> RSeq r (RStar r)"
abbreviation RPlusLazy :: "rx \<Rightarrow> rx" where "RPlusLazy r \<equiv> RSeq r (RLazy r)"
abbreviation ROpt :: "rx \<Rightarrow> rx" where "ROpt r \<equiv> RAlt r REps"
abbreviation RSp :: rx where "RSp \<equiv> RStar (RSet CSpace)"
abbreviation RSp1 :: rx where "RSp1 \<equiv> RPlus (RSet CSpace)"
abbreviation RName :: rx where "RName \<equiv> RPlus (RSet CWord)"

subsection \<open>The matcher\<close>

type_synonym caps = "(nat \<times> nat \<times> nat) list"
type_synonym rstate = "nat \<times> caps"

fun star_greedy :: "(rstate \<Rightarrow> rstate list) \<Rightarrow> nat \<Rightarrow> rstate \<Rightarrow> rstate list" where
  "star_greedy f 0 st = [st]"
| "star_greedy f (Suc n) st =
     concat (map (star_greedy f n) (filter (\<lambda>st'. fst st < fst st') (f st))) @ [st]"

fun star_lazy :: "(rstate \<Rightarrow> rstate list) \<Rightarrow> nat \<Rightarrow> rstate \<Rightarrow> rstate list" where
  "star_lazy f 0 st = [st]"
| "star_lazy f (Suc n) st =
     st # concat (map (star_lazy f n) (filter (\<lambda>st'. fst st < fst st') (f st)))"

definition word_at :: "string \<Rightarrow> nat \<Rightarrow> bool" where
  "word_at s i \<longleftrightarrow> i < length s \<and> is_word (s ! i)"

definition word_before :: "string \<Rightarrow> nat \<Rightarrow> bool" where
  "word_before s i \<longleftrightarrow> 0 < i \<and> word_at s (i - 1)"

primrec ms :: "rx \<Rightarrow> string \<Rightarrow> rstate \<Rightarrow> rstate list" where
  "ms REps s st = [st]"
| "ms (RSet c) s st =
     (if fst st < length s \<and> in_cset c (s ! fst st) then [(Suc (fst st), snd st)] else [])"
| "ms (RSeq p q) s st = concat (map (ms q s) (ms p s st))"
| "ms (RAlt p q) s st = ms p s st @ ms q s st"
| "ms (RStar p) s st = star_greedy (ms p s) (length s - fst st) st"
| "ms (RLazy p) s st = star_lazy (ms p s) (length s - fst st) st"
| "ms (RGrp k p) s st = map (\<lambda>(j, g). (j, (k, fst st, j) # g)) (ms p s st)"
| "ms RBol s st = (if fst st = 0 then [st] else [])"
| "ms RMBol s st = (if fst st = 0 \<or> fst st \<le> length s \<and> s ! (fst st - 1) = nl then [st] else [])"
| "ms REol s st =
     (if fst st = length s \<or> Suc (fst st) = length s \<and> s ! fst st = nl then [st] else [])"
| "ms RWordB s st = (if word_at s (fst st) \<noteq> word_before s (fst st) then [st] else [])"
| "ms (RAhead p) s st = (case ms p s st of [] \<Rightarrow> [] | t # _ \<Rightarrow> [(fst st, snd t)])"
| "ms (RNotAhead p) s st = (if ms p s st = [] then [st] else [])"
| "ms (RNotBehind c) s st =
     (if 0 < fst st \<and> fst st \<le> length s \<and> in_cset c (s ! (fst st - 1)) then [] else [st])"

subsection \<open>What the matcher computes\<close>

lemma star_bounds:
  assumes "\<And>st t. t \<in> set (f st) \<Longrightarrow> fst st \<le> N \<Longrightarrow> fst t \<le> N"
  shows "t \<in> set (star_greedy f n st) \<Longrightarrow> fst st \<le> N \<Longrightarrow> fst st \<le> fst t \<and> fst t \<le> N"
    and "t \<in> set (star_lazy f n st) \<Longrightarrow> fst st \<le> N \<Longrightarrow> fst st \<le> fst t \<and> fst t \<le> N"
proof (induction n arbitrary: st)
  case 0
  { case 1 then show ?case by simp next case 2 then show ?case by simp }
next
  case (Suc n)
  { case 1
    then consider "t = st" | u where "u \<in> set (f st)" "fst st < fst u" "t \<in> set (star_greedy f n u)"
      by auto
    then show ?case
      using Suc(1) [of _] assms "1"(2) by cases (force, meson less_imp_le_nat order_trans)
  next
    case 2
    then consider "t = st" | u where "u \<in> set (f st)" "fst st < fst u" "t \<in> set (star_lazy f n u)"
      by auto
    then show ?case
      using Suc(2) [of _] assms "2"(2) by cases (force, meson less_imp_le_nat order_trans) }
qed

theorem ms_bounds [rxs]:
  "t \<in> set (ms r s st) \<Longrightarrow> fst st \<le> length s \<Longrightarrow> fst st \<le> fst t \<and> fst t \<le> length s"
proof (induction r arbitrary: st t)
  case (RSeq p q)
  then obtain u where "u \<in> set (ms p s st)" "t \<in> set (ms q s u)" by auto
  with RSeq.IH RSeq.prems(2) show ?case by (meson order_trans)
next
  case (RStar p)
  then show ?case using star_bounds(1) [of "ms p s" "length s" t "length s - fst st" st] by auto
next
  case (RLazy p)
  then show ?case using star_bounds(2) [of "ms p s" "length s" t "length s - fst st" st] by auto
next
  case (RGrp k p)
  from RGrp.prems(1) obtain u where u: "u \<in> set (ms p s st)" "fst t = fst u" by auto
  from RGrp.IH [OF u(1) RGrp.prems(2)] u(2) show ?case by simp
next
  case (RAhead p)
  then show ?case by (auto split: list.splits)
qed (auto split: if_splits)

text \<open>
  The denotation of a pattern: the positions at which a match started at \<open>i\<close> can end.  It has no
  order, no groups and no bound on repetitions: a repetition is the reflexive transitive closure.
\<close>

primrec ends :: "rx \<Rightarrow> string \<Rightarrow> nat \<Rightarrow> nat set" where
  "ends REps s i = {i}"
| "ends (RSet c) s i = {j. j = Suc i \<and> i < length s \<and> in_cset c (s ! i)}"
| "ends (RSeq p q) s i = (\<Union>k \<in> ends p s i. ends q s k)"
| "ends (RAlt p q) s i = ends p s i \<union> ends q s i"
| "ends (RStar p) s i = {j. (i, j) \<in> {(a, b). b \<in> ends p s a}\<^sup>*}"
| "ends (RLazy p) s i = {j. (i, j) \<in> {(a, b). b \<in> ends p s a}\<^sup>*}"
| "ends (RGrp k p) s i = ends p s i"
| "ends RBol s i = {j. j = i \<and> i = 0}"
| "ends RMBol s i = {j. j = i \<and> (i = 0 \<or> i \<le> length s \<and> s ! (i - 1) = nl)}"
| "ends REol s i = {j. j = i \<and> (i = length s \<or> Suc i = length s \<and> s ! i = nl)}"
| "ends RWordB s i = {j. j = i \<and> word_at s i \<noteq> word_before s i}"
| "ends (RAhead p) s i = {j. j = i \<and> ends p s i \<noteq> {}}"
| "ends (RNotAhead p) s i = {j. j = i \<and> ends p s i = {}}"
| "ends (RNotBehind c) s i = {j. j = i \<and> \<not> (0 < i \<and> i \<le> length s \<and> in_cset c (s ! (i - 1)))}"

text \<open>
  A repetition never needs an iteration that consumes nothing, and never more iterations than
  there are characters left: the bound of the matcher is enough.
\<close>

lemma star_greedy_ends:
  assumes f: "\<And>st. fst st \<le> N \<Longrightarrow> fst ` set (f st) = E (fst st)"
    and E: "\<And>i j. i \<le> N \<Longrightarrow> j \<in> E i \<Longrightarrow> i \<le> j \<and> j \<le> N"
  shows "fst st \<le> N \<Longrightarrow> N - fst st \<le> n \<Longrightarrow>
    fst ` set (star_greedy f n st) = {j. (fst st, j) \<in> {(a, b). b \<in> E a}\<^sup>*}"
proof (induction n arbitrary: st)
  case 0
  then have N: "fst st = N" by simp
  have "j = N" if "(N, j) \<in> {(a, b). b \<in> E a}\<^sup>*" for j
    using that by (induction rule: rtrancl_induct) (use E in fastforce)+
  then show ?case using N by auto
next
  case (Suc n)
  let ?R = "{(a, b). b \<in> E a}\<^sup>*"
  have split: "(i, j) \<in> ?R \<longleftrightarrow> j = i \<or> (\<exists>k. k \<in> E i \<and> i < k \<and> (k, j) \<in> ?R)" if "i \<le> N" for i j
  proof
    assume "(i, j) \<in> ?R"
    then show "j = i \<or> (\<exists>k. k \<in> E i \<and> i < k \<and> (k, j) \<in> ?R)" using that
    proof (induction rule: converse_rtrancl_induct)
      case (step y z)
      then have "z \<in> E y" by simp
      with step E have "y \<le> z" "z \<le> N" by blast+
      show ?case
      proof (cases "y = z")
        case True
        with step \<open>z \<le> N\<close> show ?thesis by auto
      next
        case False
        with \<open>y \<le> z\<close> \<open>z \<in> E y\<close> step(2) show ?thesis by auto
      qed
    qed simp
  next
    assume "j = i \<or> (\<exists>k. k \<in> E i \<and> i < k \<and> (k, j) \<in> ?R)"
    then show "(i, j) \<in> ?R" by (auto intro: converse_rtrancl_into_rtrancl)
  qed
  have step: "fst ` set (star_greedy f n u) = {j. (fst u, j) \<in> ?R}"
    if "u \<in> set (f st)" "fst st < fst u" for u
  proof (rule Suc.IH)
    from that f Suc.prems have "fst u \<in> E (fst st)" by blast
    with E Suc.prems show "fst u \<le> N" by blast
    with that Suc.prems show "N - fst u \<le> n" by linarith
  qed
  have "fst ` set (star_greedy f (Suc n) st) =
      insert (fst st) (\<Union>u \<in> {u \<in> set (f st). fst st < fst u}. fst ` set (star_greedy f n u))"
    by auto
  also have "\<dots> = insert (fst st) (\<Union>u \<in> {u \<in> set (f st). fst st < fst u}. {j. (fst u, j) \<in> ?R})"
    using step by auto
  also have "\<dots> = insert (fst st) {j. \<exists>k. k \<in> fst ` set (f st) \<and> fst st < k \<and> (k, j) \<in> ?R}"
    by auto
  also have "\<dots> = {j. (fst st, j) \<in> ?R}"
    using f [OF Suc.prems(1)] split [OF Suc.prems(1)] by auto
  finally show ?case .
qed

lemma star_lazy_greedy: "set (star_lazy f n st) = set (star_greedy f n st)"
  by (induction n arbitrary: st) auto

lemma ends_bounds [rxs]: "j \<in> ends r s i \<Longrightarrow> i \<le> length s \<Longrightarrow> i \<le> j \<and> j \<le> length s"
proof (induction r arbitrary: i j)
  case (RSeq p q)
  then obtain k where "k \<in> ends p s i" "j \<in> ends q s k" by auto
  with RSeq.IH RSeq.prems(2) show ?case by (meson order_trans)
next
  case (RStar p)
  then have "(i, j) \<in> {(a, b). b \<in> ends p s a}\<^sup>*" by simp
  then show ?case using RStar(1,3)
    by (induction rule: rtrancl_induct) (auto dest: order_trans)
next
  case (RLazy p)
  then have "(i, j) \<in> {(a, b). b \<in> ends p s a}\<^sup>*" by simp
  then show ?case using RLazy(1,3)
    by (induction rule: rtrancl_induct) (auto dest: order_trans)
qed auto

theorem ms_ends [rxs]: "fst st \<le> length s \<Longrightarrow> fst ` set (ms r s st) = ends r s (fst st)"
proof (induction r arbitrary: st)
  case (RSeq p q)
  have "fst ` set (ms (RSeq p q) s st) = (\<Union>u \<in> set (ms p s st). fst ` set (ms q s u))" by auto
  also have "\<dots> = (\<Union>u \<in> set (ms p s st). ends q s (fst u))"
    using RSeq.IH(2) RSeq.prems ms_bounds by (intro SUP_cong refl) blast
  also have "\<dots> = (\<Union>k \<in> fst ` set (ms p s st). ends q s k)" by auto
  finally show ?case using RSeq.IH(1) [OF RSeq.prems] by simp
next
  case (RAlt p q)
  then show ?case by (simp add: image_Un)
next
  case (RStar p)
  have "fst ` set (star_greedy (ms p s) (length s - fst st) st) =
      {j. (fst st, j) \<in> {(a, b). b \<in> ends p s a}\<^sup>*}"
    by (rule star_greedy_ends [where E = "ends p s" and N = "length s"])
      (use RStar.IH RStar.prems ends_bounds in blast)+
  then show ?case by (simp only: ms.simps ends.simps)
next
  case (RLazy p)
  have "fst ` set (star_greedy (ms p s) (length s - fst st) st) =
      {j. (fst st, j) \<in> {(a, b). b \<in> ends p s a}\<^sup>*}"
    by (rule star_greedy_ends [where E = "ends p s" and N = "length s"])
      (use RLazy.IH RLazy.prems ends_bounds in blast)+
  then show ?case by (simp only: ms.simps ends.simps star_lazy_greedy)
next
  case (RGrp k p)
  then show ?case by (simp add: image_image case_prod_beta)
next
  case (RAhead p)
  from RAhead.IH [OF RAhead.prems] have "ms p s st = [] \<longleftrightarrow> ends p s (fst st) = {}"
    by (metis image_is_empty set_empty)
  then show ?case by (cases "ms p s st") simp_all
next
  case (RNotAhead p)
  from RNotAhead.IH [OF RNotAhead.prems] have "ms p s st = [] \<longleftrightarrow> ends p s (fst st) = {}"
    by (metis image_is_empty set_empty)
  then show ?case by (cases "ms p s st = []") simp_all
qed auto

corollary ms_nonempty_iff [rxs]:
  "fst st \<le> length s \<Longrightarrow> ms r s st \<noteq> [] \<longleftrightarrow> ends r s (fst st) \<noteq> {}"
  using ms_ends [of st s r] by auto

lemma ends_RSeqs_Cons: "ends (RSeqs (r # rs)) s i = (\<Union>k \<in> ends r s i. ends (RSeqs rs) s k)"
  by (cases rs) auto

lemma startswith_drop_Cons [rxs]:
  "startswith (drop i s) (c # cs) \<longleftrightarrow> i < length s \<and> s ! i = c \<and> startswith (drop (Suc i) s) cs"
proof (cases "i < length s")
  case True
  then have "drop i s = s ! i # drop (Suc i) s" by (simp add: Cons_nth_drop_Suc)
  then show ?thesis using True by (auto simp: startswith_def)
qed (simp add: startswith_def)

lemma ends_RLit [rxs]: "ends (RLit p) s i = {j. j = i + length p \<and> (p = [] \<or> startswith (drop i s) p)}"
  by (induction p arbitrary: i rule: RLit.induct) (auto simp: startswith_drop_Cons)

subsection \<open>Match objects, \<open>match\<close> and \<open>search\<close>\<close>

record rmatch =
  m_start :: nat
  m_end :: nat
  m_caps :: caps

definition slice :: "string \<Rightarrow> nat \<Rightarrow> nat \<Rightarrow> string" where
  "slice s a b = take (b - a) (drop a s)"

lemma length_slice [simp]: "a \<le> b \<Longrightarrow> b \<le> length s \<Longrightarrow> length (slice s a b) = b - a"
  by (simp add: slice_def)

text \<open>\<open>m.group(k)\<close>; group 0 is the whole match, a group that took no part is None.\<close>

definition group :: "string \<Rightarrow> rmatch \<Rightarrow> nat \<Rightarrow> string option" where
  "group s m k =
     (if k = 0 then Some (slice s (m_start m) (m_end m))
      else map_option (\<lambda>(a, b). slice s a b) (map_of (m_caps m) k))"

definition group_text :: "string \<Rightarrow> rmatch \<Rightarrow> nat \<Rightarrow> string" where
  "group_text s m k = (case group s m k of None \<Rightarrow> [] | Some t \<Rightarrow> t)"

text \<open>
  A match at a position; with \<open>adv\<close> an empty match is passed over (the rule of the scanning
  functions after an empty match).
\<close>

definition match_at :: "rx \<Rightarrow> string \<Rightarrow> bool \<Rightarrow> nat \<Rightarrow> rmatch option" where
  "match_at r s adv i =
     (case filter (\<lambda>t. adv \<longrightarrow> i < fst t) (ms r s (i, [])) of
        [] \<Rightarrow> None
      | t # _ \<Rightarrow> Some \<lparr>m_start = i, m_end = fst t, m_caps = snd t\<rparr>)"

definition re_match :: "rx \<Rightarrow> string \<Rightarrow> rmatch option" where
  "re_match r s = match_at r s False 0"

fun search_in :: "rx \<Rightarrow> string \<Rightarrow> bool \<Rightarrow> nat \<Rightarrow> nat list \<Rightarrow> rmatch option" where
  "search_in r s adv i0 [] = None"
| "search_in r s adv i0 (i # is) =
     (case match_at r s (adv \<and> i = i0) i of Some m \<Rightarrow> Some m | None \<Rightarrow> search_in r s adv i0 is)"

definition search_from :: "rx \<Rightarrow> string \<Rightarrow> bool \<Rightarrow> nat \<Rightarrow> rmatch option" where
  "search_from r s adv i = search_in r s adv i [i..<Suc (length s)]"

definition re_search :: "rx \<Rightarrow> string \<Rightarrow> rmatch option" where
  "re_search r s = search_from r s False 0"

lemma match_at_SomeD [rxs]:
  assumes "match_at r s adv i = Some m" and "i \<le> length s"
  shows "m_start m = i" and "i \<le> m_end m" and "m_end m \<le> length s"
    and "adv \<Longrightarrow> i < m_end m" and "m_end m \<in> ends r s i"
proof -
  from assms(1) obtain t ts where t: "filter (\<lambda>t. adv \<longrightarrow> i < fst t) (ms r s (i, [])) = t # ts"
    and m: "m = \<lparr>m_start = i, m_end = fst t, m_caps = snd t\<rparr>"
    by (auto simp: match_at_def split: list.splits)
  then have mem: "t \<in> set (ms r s (i, []))" and a: "adv \<longrightarrow> i < fst t"
    by (metis (mono_tags, lifting) filter_eq_ConsD in_set_conv_decomp)+
  from ms_bounds [OF mem] assms(2) a m
  show "m_start m = i" "i \<le> m_end m" "m_end m \<le> length s" "adv \<Longrightarrow> i < m_end m" by simp_all
  from ms_ends [of "(i, [])" s r] assms(2) mem m show "m_end m \<in> ends r s i" by auto
qed

lemma match_at_None_iff [rxs]: "i \<le> length s \<Longrightarrow> match_at r s False i = None \<longleftrightarrow> ends r s i = {}"
  using ms_nonempty_iff [of "(i, [])" s r] by (auto simp: match_at_def split: list.splits)

lemma search_in_SomeD:
  assumes "search_in r s adv i0 is = Some m"
  shows "\<exists>us i vs. is = us @ i # vs \<and> match_at r s (adv \<and> i = i0) i = Some m \<and>
      (\<forall>u \<in> set us. match_at r s (adv \<and> u = i0) u = None)"
  using assms
proof (induction "is")
  case (Cons i "is")
  show ?case
  proof (cases "match_at r s (adv \<and> i = i0) i")
    case None
    with Cons obtain us j vs where "is = us @ j # vs" "match_at r s (adv \<and> j = i0) j = Some m"
      "\<forall>u \<in> set us. match_at r s (adv \<and> u = i0) u = None" by auto
    with None show ?thesis by (intro exI [of _ "i # us"]) auto
  next
    case (Some n)
    with Cons.prems show ?thesis by (intro exI [of _ "[]"]) auto
  qed
qed simp

lemma search_from_SomeD [rxs]:
  assumes "search_from r s adv i = Some m"
  shows "i \<le> m_start m" and "m_start m \<le> m_end m" and "m_end m \<le> length s"
    and "m_end m \<in> ends r s (m_start m)"
    and "adv \<Longrightarrow> i < m_end m"
    and "\<And>k. i \<le> k \<Longrightarrow> k < m_start m \<Longrightarrow> match_at r s (adv \<and> k = i) k = None"
proof -
  from search_in_SomeD [OF assms [unfolded search_from_def]] obtain us j vs
    where split: "[i..<Suc (length s)] = us @ j # vs" and m: "match_at r s (adv \<and> j = i) j = Some m"
      and us: "\<forall>u \<in> set us. match_at r s (adv \<and> u = i) u = None" by blast
  have j: "i \<le> j" "j \<le> length s"
    using split by (metis atLeastLessThan_iff atLeastLessThan_upt in_set_conv_decomp less_Suc_eq_le)+
  have usk: "us = [i..<j]"
  proof -
    have len: "length us < Suc (length s) - i" using split
      by (metis add_Suc_right length_append length_Cons length_upt less_add_Suc1)
    then have "j = i + length us" using split
      by (metis nth_append_length nth_upt add.commute less_diff_conv)
    moreover have "us = take (length us) [i..<Suc (length s)]" using split by simp
    ultimately show ?thesis using len by (metis take_upt less_imp_le_nat less_diff_conv add.commute)
  qed
  note mm = match_at_SomeD [OF m j(2)]
  show "i \<le> m_start m" "m_start m \<le> m_end m" "m_end m \<le> length s" "m_end m \<in> ends r s (m_start m)"
    using mm j by simp_all
  show "i < m_end m" if adv using mm j that by (cases "j = i") auto
  show "match_at r s (adv \<and> k = i) k = None" if "i \<le> k" "k < m_start m" for k
    using us usk that mm(1) by simp
qed

lemma search_in_None: "search_in r s adv i0 is = None \<longleftrightarrow>
    (\<forall>i \<in> set is. match_at r s (adv \<and> i = i0) i = None)"
  by (induction "is") (auto split: option.splits)

theorem re_search_leftmost [rxs]:
  "re_search r s = Some m \<Longrightarrow> ends r s (m_start m) \<noteq> {} \<and> (\<forall>k < m_start m. ends r s k = {})"
  using search_from_SomeD [of r s False 0 m]
  by (auto simp: re_search_def) (metis empty_iff match_at_None_iff less_imp_le_nat order_trans)

theorem re_search_None_iff [rxs]:
  "re_search r s = None \<longleftrightarrow> (\<forall>k \<le> length s. ends r s k = {})"
  by (auto simp: re_search_def search_from_def search_in_None match_at_None_iff less_Suc_eq_le)

subsection \<open>Scanning: \<open>finditer\<close>, \<open>findall\<close>, \<open>sub\<close>\<close>

function finditer_from :: "rx \<Rightarrow> string \<Rightarrow> bool \<Rightarrow> nat \<Rightarrow> rmatch list" where
  "finditer_from r s adv i =
     (case search_from r s adv i of
        None \<Rightarrow> []
      | Some m \<Rightarrow> m # finditer_from r s (m_start m = m_end m) (m_end m))"
  by pat_completeness auto
termination
proof (relation "measure (\<lambda>(r, s, adv, i). 2 * (Suc (length s) - i) + (if adv then 0 else 1))", goal_cases)
  case (2 r s adv i m)
  note b = search_from_SomeD [OF 2]
  show ?case
  proof (cases "i < m_end m")
    case True
    then show ?thesis using b(3) by auto
  next
    case False
    then have "m_end m = i" "m_start m = m_end m" "\<not> adv" using b by auto
    then show ?thesis by simp
  qed
qed simp

declare finditer_from.simps [simp del]

definition finditer :: "rx \<Rightarrow> string \<Rightarrow> rmatch list" where
  "finditer r s = finditer_from r s False 0"

text \<open>\<open>re.findall\<close> with one group gives the group's text, with none the whole match (group 0).\<close>

definition findall :: "rx \<Rightarrow> nat \<Rightarrow> string \<Rightarrow> string list" where
  "findall r k s = map (\<lambda>m. group_text s m k) (finditer r s)"

text \<open>\<open>re.sub\<close> with a replacement function: the text between the matches is kept.\<close>

fun sub_pieces :: "(rmatch \<Rightarrow> string) \<Rightarrow> string \<Rightarrow> nat \<Rightarrow> rmatch list \<Rightarrow> string" where
  "sub_pieces f s i [] = drop i s"
| "sub_pieces f s i (m # rest) =
     slice s i (m_start m) @ f m @ sub_pieces f s (m_end m) rest"

definition re_sub :: "rx \<Rightarrow> (rmatch \<Rightarrow> string) \<Rightarrow> string \<Rightarrow> string" where
  "re_sub r f s = sub_pieces f s 0 (finditer r s)"

text \<open>The matches of a scan: in order, disjoint, inside the text.\<close>

fun scan_ok :: "string \<Rightarrow> nat \<Rightarrow> rmatch list \<Rightarrow> bool" where
  "scan_ok s i [] = True"
| "scan_ok s i (m # rest) =
     (i \<le> m_start m \<and> m_start m \<le> m_end m \<and> m_end m \<le> length s \<and> scan_ok s (m_end m) rest)"

theorem finditer_from_ok [rxs]: "scan_ok s i (finditer_from r s adv i)"
proof (induction r s adv i rule: finditer_from.induct)
  case (1 r s adv i)
  show ?case
  proof (cases "search_from r s adv i")
    case None
    then show ?thesis by (simp add: finditer_from.simps [of r s adv i])
  next
    case (Some m)
    then show ?thesis
      using 1 [OF Some] search_from_SomeD [OF Some]
      by (simp add: finditer_from.simps [of r s adv i])
  qed
qed

lemma finditer_ok [rxs]: "scan_ok s 0 (finditer r s)"
  by (simp add: finditer_def finditer_from_ok)

lemma finditer_from_ends [rxs]:
  "m \<in> set (finditer_from r s adv i) \<Longrightarrow> m_end m \<in> ends r s (m_start m)"
proof (induction r s adv i rule: finditer_from.induct)
  case (1 r s adv i)
  show ?case
  proof (cases "search_from r s adv i")
    case None
    with 1(2) show ?thesis by (simp add: finditer_from.simps [of r s adv i])
  next
    case (Some n)
    with 1 search_from_SomeD(4) [OF Some] show ?thesis
      by (auto simp: finditer_from.simps [of r s adv i])
  qed
qed

lemma scan_ok_mem [rxs]:
  "scan_ok s i mts \<Longrightarrow> m \<in> set mts \<Longrightarrow> i \<le> m_start m \<and> m_start m \<le> m_end m \<and> m_end m \<le> length s"
  by (induction s i mts rule: scan_ok.induct) auto

lemma sub_pieces_length [rxs]:
  assumes "scan_ok s i mts" and "i \<le> length s"
    and "\<And>m. m \<in> set mts \<Longrightarrow> length (f m) = m_end m - m_start m"
  shows "length (sub_pieces f s i mts) = length s - i"
  using assms
proof (induction f s i mts rule: sub_pieces.induct)
  case (2 f s i m rest)
  then show ?case by simp
qed simp

theorem re_sub_length [rxs]:
  "(\<And>m. m \<in> set (finditer r s) \<Longrightarrow> length (f m) = m_end m - m_start m) \<Longrightarrow>
   length (re_sub r f s) = length s"
  using sub_pieces_length [OF finditer_ok] by (simp add: re_sub_def)

text \<open>
  A pointwise fact about the output of a length-preserving substitution: it is enough that it
  holds of the characters outside the matches and of the replacement of each match.
\<close>

lemma sub_pieces_pointwise:
  assumes "scan_ok s i mts" and "i \<le> length s"
    and "\<And>m. m \<in> set mts \<Longrightarrow> length (f m) = m_end m - m_start m"
    and "i \<le> k" and "k < length s"
    and "P (s ! k) k"
    and "\<And>m. m \<in> set mts \<Longrightarrow> m_start m \<le> k \<Longrightarrow> k < m_end m \<Longrightarrow> P (f m ! (k - m_start m)) k"
  shows "P (sub_pieces f s i mts ! (k - i)) k"
  using assms
proof (induction f s i mts rule: sub_pieces.induct)
  case (1 f s i)
  then show ?case by simp
next
  case (2 f s i m rest)
  note b = 2(2)
  have lf: "length (f m) = m_end m - m_start m" using 2(4) by simp
  have ls: "length (slice s i (m_start m)) = m_start m - i" using b by simp
  consider "k < m_start m" | "m_start m \<le> k" "k < m_end m" | "m_end m \<le> k" by linarith
  then show ?case
  proof cases
    case 1
    then have "(slice s i (m_start m) @ f m @ sub_pieces f s (m_end m) rest) ! (k - i) = s ! k"
      using 2(5) ls b by (simp add: nth_append diff_less_mono slice_def)
    then show ?thesis using 2(7) by simp
  next
    case 2
    have "\<not> k - i < m_start m - i" "k - i - (m_start m - i) = k - m_start m"
      "k - m_start m < m_end m - m_start m" using 2 b by auto
    then show ?thesis using 2 "2.prems"(7) [of m] ls lf by (simp add: nth_append)
  next
    case 3
    have IH: "P (sub_pieces f s (m_end m) rest ! (k - m_end m)) k"
      using "2.IH" b "2.prems" 3 by simp
    have "\<not> k - i < m_start m - i" "k - i - (m_start m - i) - (m_end m - m_start m) = k - m_end m"
      "\<not> k - i - (m_start m - i) < m_end m - m_start m"
      using 3 b by auto
    then show ?thesis using IH ls lf by (simp add: nth_append)
  qed
qed

theorem re_sub_pointwise [rxs]:
  assumes "\<And>m. m \<in> set (finditer r s) \<Longrightarrow> length (f m) = m_end m - m_start m"
    and "k < length s" and "P (s ! k) k"
    and "\<And>m. m \<in> set (finditer r s) \<Longrightarrow> m_start m \<le> k \<Longrightarrow> k < m_end m \<Longrightarrow>
      P (f m ! (k - m_start m)) k"
  shows "P (re_sub r f s ! k) k"
  using sub_pieces_pointwise [OF finditer_ok, of s r f k P] assms by (simp add: re_sub_def)

subsection \<open>Names between two literals\<close>

text \<open>The matches of a repeated character class over a run of the class: every length, longest first.\<close>

lemma star_greedy_run:
  assumes "\<And>j. j < k \<Longrightarrow> i + j < length s \<and> in_cset c (s ! (i + j))"
    and "i + k < length s \<Longrightarrow> \<not> in_cset c (s ! (i + k))" and "k \<le> n"
  shows "star_greedy (ms (RSet c) s) n (i, g) = map (\<lambda>j. (j, g)) (rev [i..<Suc (i + k)])"
  using assms
proof (induction k arbitrary: i n)
  case 0
  then show ?case by (cases n) auto
next
  case (Suc k)
  obtain m where n: "n = Suc m" using Suc.prems(3) by (cases n) auto
  have "ms (RSet c) s (i, g) = [(Suc i, g)]" using Suc.prems(1) [of 0] by simp
  moreover have "star_greedy (ms (RSet c) s) m (Suc i, g) = map (\<lambda>j. (j, g)) (rev [Suc i..<Suc (Suc i + k)])"
    using Suc.prems(1) [of "Suc _"] Suc.prems(2,3) n by (intro Suc.IH) auto
  ultimately show ?case by (simp add: n upt_conv_Cons [of i] del: ms.simps upt_Suc)
qed

lemma startswith_hd: "startswith (drop j s) b \<Longrightarrow> b \<noteq> [] \<Longrightarrow> s ! j = hd b"
  by (cases b) (simp_all add: startswith_drop_Cons)

lemma concat_map_unique:
  assumes "xs = a # ys" and "\<And>y. y \<in> set ys \<Longrightarrow> f y = []"
  shows "concat (map f xs) = f a"
  using assms by (auto simp: concat_eq_Nil_conv)

lemma ms_RLit: "ms (RLit p) s (i, g) = (if p = [] \<or> startswith (drop i s) p then [(i + length p, g)] else [])"
  by (induction p arbitrary: i rule: RLit.induct) (auto simp: startswith_drop_Cons)

text \<open>A bracketed name: a literal, a captured run of a class, a literal that starts outside the class.\<close>

definition name_rx :: "string \<Rightarrow> cset \<Rightarrow> string \<Rightarrow> rx" where
  "name_rx a c b = RSeqs [RLit a, RGrp 1 (RPlus (RSet c)), RLit b]"

lemma ms_name_rx:
  assumes x: "x \<noteq> []" "list_all (in_cset c) x" and b: "b \<noteq> []" "\<not> in_cset c (hd b)"
  shows "ms (name_rx a c b) (u @ a @ x @ b @ v) (length u, []) =
    [(length u + length a + length x + length b, [(1, length u + length a, length u + length a + length x)])]"
proof -
  let ?s = "u @ a @ x @ b @ v" and ?i = "length u + length a"
  obtain y ys where xs: "x = y # ys" using x(1) by (cases x) auto
  have lit: "ms (RLit a) ?s (length u, []) = [(?i, [])]" by (simp add: ms_RLit)
  have at: "?s ! (?i + j) = x ! j" if "j < length x" for j
    using that by (simp add: nth_append)
  have stop: "?s ! (?i + length x) = hd b" using b(1) by (cases b) (simp_all add: nth_append)
  have first: "ms (RSet c) ?s (?i, []) = [(Suc ?i, [])]"
    using at [of 0] x xs by simp
  have run: "star_greedy (ms (RSet c) ?s) (length ?s - Suc ?i) (Suc ?i, []) =
      map (\<lambda>j. (j, [])) (rev [Suc ?i..<Suc (Suc ?i + length ys)])"
  proof (rule star_greedy_run)
    show "Suc ?i + j < length ?s \<and> in_cset c (?s ! (Suc ?i + j))" if "j < length ys" for j
      using at [of "Suc j"] that x(2) xs by (auto simp: list_all_length)
    show "\<not> in_cset c (?s ! (Suc ?i + length ys))" using stop b xs by simp
    show "length ys \<le> length ?s - Suc ?i" using xs by simp
  qed
  have grp: "ms (RGrp 1 (RPlus (RSet c))) ?s (?i, []) =
      map (\<lambda>j. (j, [(1, ?i, j)])) (rev [Suc ?i..<Suc (Suc ?i + length ys)])"
    using first run by (simp add: comp_def del: upt_Suc)
  have nomatch: "ms (RLit b) ?s (j, h) = []" if "Suc ?i \<le> j" "j < ?i + length x" for j h
  proof -
    from that have "in_cset c (?s ! j)" using at [of "j - ?i"] x(2) by (simp add: list_all_length)
    then have "\<not> startswith (drop j ?s) b" using startswith_hd [of j ?s b] b by metis
    then show ?thesis using b(1) by (simp add: ms_RLit)
  qed
  have "rev [Suc ?i..<Suc (Suc ?i + length ys)] = (?i + length x) # rev [Suc ?i..<?i + length x]"
    using xs by simp
  then have "concat (map (ms (RLit b) ?s) (ms (RGrp 1 (RPlus (RSet c))) ?s (?i, []))) =
      ms (RLit b) ?s (?i + length x, [(1, ?i, ?i + length x)])"
    by (intro concat_map_unique) (use grp nomatch in auto)
  also have "\<dots> = [(?i + length x + length b, [(1, ?i, ?i + length x)])]" by (simp add: ms_RLit)
  finally show ?thesis using lit by (simp add: name_rx_def)
qed

lemma ends_name_rx_None: "a \<noteq> [] \<Longrightarrow> i < length s \<Longrightarrow> s ! i \<noteq> hd a \<Longrightarrow> ends (name_rx a c b) s i = {}"
  using startswith_hd [of i s a] by (auto simp: name_rx_def ends_RLit)

lemma ends_name_rx_end: "a \<noteq> [] \<Longrightarrow> ends (name_rx a c b) s (length s) = {}"
  by (auto simp: name_rx_def ends_RLit startswith_def)

lemma search_from_step:
  "i \<le> length s \<Longrightarrow> search_from r s False i =
     (case match_at r s False i of Some m \<Rightarrow> Some m | None \<Rightarrow> search_from r s False (Suc i))"
proof -
  have "search_in r s False i is = search_in r s False j is" for i j "is"
    by (induction "is") (simp_all split: option.split)
  then show "i \<le> length s \<Longrightarrow> ?thesis"
    by (simp add: search_from_def upt_conv_Cons [of i "Suc (length s)"] del: upt_Suc split: option.split)
qed

lemma finditer_from_hit:
  "match_at r s False i = Some m \<Longrightarrow> i \<le> length s \<Longrightarrow>
     finditer_from r s False i = m # finditer_from r s (m_start m = m_end m) (m_end m)"
  using search_from_step [of i s r] by (simp add: finditer_from.simps [of r s False i])

lemma finditer_from_skip:
  "i \<le> length s \<Longrightarrow> ends r s i = {} \<Longrightarrow> finditer_from r s False i = finditer_from r s False (Suc i)"
  using match_at_None_iff [of i s r] search_from_step [of i s r]
  by (simp add: finditer_from.simps [of r s False i] finditer_from.simps [of r s False "Suc i"])

lemma finditer_from_end: "length s < i \<Longrightarrow> finditer_from r s False i = []"
  by (simp add: finditer_from.simps [of r s False i] search_from_def)

text \<open>
  The scan of the lines a \<open>grep -o\<close> prints for such a pattern gives back the names, in order.
\<close>

definition name_lines :: "string \<Rightarrow> string \<Rightarrow> string list \<Rightarrow> string" where
  "name_lines a b xs = concat (map (\<lambda>x. a @ x @ b @ [nl]) xs)"

lemma finditer_name_lines:
  assumes a: "a \<noteq> []" "hd a \<noteq> nl" and b: "b \<noteq> []" "\<not> in_cset c (hd b)"
    and xs: "list_all (\<lambda>x. x \<noteq> [] \<and> list_all (in_cset c) x) xs"
  shows "map (\<lambda>m. group_text (u @ name_lines a b xs) m 1)
    (finditer_from (name_rx a c b) (u @ name_lines a b xs) False (length u)) = xs"
  using xs
proof (induction xs arbitrary: u)
  case Nil
  then show ?case
    using finditer_from_skip [OF order_refl ends_name_rx_end [OF a(1), of c b u]]
    by (simp add: name_lines_def finditer_from_end)
next
  case (Cons x xs)
  let ?r = "name_rx a c b" and ?v = "[nl] @ name_lines a b xs" and ?u = "u @ a @ x @ b @ [nl]"
  let ?s = "u @ a @ x @ b @ ?v" and ?e = "length u + length a + length x + length b"
  let ?m = "\<lparr>m_start = length u, m_end = ?e, m_caps = [(1, length u + length a, length u + length a + length x)]\<rparr>"
  have x: "x \<noteq> []" "list_all (in_cset c) x" using Cons.prems by simp_all
  have "match_at ?r ?s False (length u) = Some ?m"
    by (simp only: match_at_def ms_name_rx [OF x b]) simp
  from finditer_from_hit [OF this] have "finditer_from ?r ?s False (length u) = ?m # finditer_from ?r ?s False ?e"
    using a(1) by simp
  also have "finditer_from ?r ?s False ?e = finditer_from ?r ?s False (Suc ?e)"
    using a by (intro finditer_from_skip ends_name_rx_None) (auto simp: nth_append)
  finally have "finditer_from ?r ?s False (length u) = ?m # finditer_from ?r (?u @ name_lines a b xs) False (length ?u)"
    by (simp add: add.assoc)
  moreover have "group_text ?s ?m 1 = x"
    by (simp add: group_text_def group_def slice_def)
  moreover have "map (\<lambda>m. group_text (?u @ name_lines a b xs) m 1)
      (finditer_from ?r (?u @ name_lines a b xs) False (length ?u)) = xs"
    using Cons.prems by (intro Cons.IH) simp
  moreover have "u @ name_lines a b (x # xs) = ?s" "?u @ name_lines a b xs = ?s" by (simp_all add: name_lines_def)
  ultimately show ?case by simp
qed

theorem findall_name_lines:
  assumes "a \<noteq> []" "hd a \<noteq> nl" "b \<noteq> []" "\<not> in_cset c (hd b)" "list_all (\<lambda>x. x \<noteq> [] \<and> list_all (in_cset c) x) xs"
  shows "findall (name_rx a c b) 1 (name_lines a b xs) = xs"
  using finditer_name_lines [OF assms, of "[]"] by (simp add: findall_def finditer_def)

end
