(* ===== verification/Py_Os.thy ===== *)
theory Py_Os
  imports Py_Prelude
begin

text \<open>
  The file system as the scripts see it, and the two idioms the audits share: the walk over the
  source files of some root directories, and the ledger of accepted findings.  The file system is a
  record of the answers of \<open>os.path\<close>, \<open>os.walk\<close>, \<open>os.stat\<close> and \<open>open\<close>; it stands for
  the state of the machine and is an argument of every operation that reads it.
  The locale \<open>ledger\<close> is the contract every audit states in its header: it passes exactly
  when no finding is unlisted and no ledger entry is stale.
\<close>

record fsys =
  fs_isfile :: "string \<Rightarrow> bool"
  fs_isdir :: "string \<Rightarrow> bool"
  fs_text :: "string \<Rightarrow> string option"
  fs_walk :: "string \<Rightarrow> (string \<times> string list \<times> string list) list"
  fs_realpath :: "string \<Rightarrow> string"
  fs_relpath :: "string \<Rightarrow> string"
  fs_size :: "string \<Rightarrow> int"
  fs_mtime :: "string \<Rightarrow> int"

definition fs_exists :: "fsys \<Rightarrow> string \<Rightarrow> bool" where
  "fs_exists fs p \<longleftrightarrow> fs_isfile fs p \<or> fs_isdir fs p"

text \<open>\<open>open(p).read()\<close>.\<close>

definition read_text :: "fsys \<Rightarrow> string \<Rightarrow> string res" where
  "read_text fs p = (case fs_text fs p of None \<Rightarrow> Inl (FileNotFound p) | Some t \<Rightarrow> Inr t)"

text \<open>Every file under the roots whose name has one of the suffixes, in walk order.\<close>

definition walk_files :: "fsys \<Rightarrow> string list \<Rightarrow> string list \<Rightarrow> string list" where
  "walk_files fs sufs roots =
     concat (map (\<lambda>root. concat (map (\<lambda>(r, _, ns).
       map (path_join r) (filter (\<lambda>n. endswith_any n sufs) ns)) (fs_walk fs root))) roots)"

definition cu_suffixes :: "string list" where
  "cu_suffixes = [''.cu'', ''.cuh'']"

definition ljust :: "nat \<Rightarrow> string \<Rightarrow> string" where
  "ljust n s = s @ replicate (n - length s) (CHR '' '')"

definition rjust :: "nat \<Rightarrow> string \<Rightarrow> string" where
  "rjust n s = replicate (n - length s) (CHR '' '') @ s"

text \<open>
  \<open>if '--allow' in argv: i = argv.index('--allow'); v = argv[i + 1]; argv = argv[:i] + argv[i + 2:]\<close>:
  a flag without its value raises IndexError.
\<close>

fun take_option :: "string \<Rightarrow> string list \<Rightarrow> (string option \<times> string list) res" where
  "take_option flag [] = Inr (None, [])"
| "take_option flag (a # as) =
     (if a = flag then (case as of [] \<Rightarrow> Inl IndexError | v # rest \<Rightarrow> Inr (Some v, rest))
      else bindR (take_option flag as) (\<lambda>(v, rest). Inr (v, a # rest)))"

text \<open>
  The lines of a ledger file: what precedes \<open>#\<close>, stripped, blank lines dropped; no file, no
  entries.
\<close>

definition ledger_lines :: "string \<Rightarrow> string list" where
  "ledger_lines text =
     filter (\<lambda>l. l \<noteq> []) (map (\<lambda>l. strip (hd (split_on (CHR ''#'') l))) (split_on nl text))"

definition read_ledger :: "fsys \<Rightarrow> string option \<Rightarrow> string list res" where
  "read_ledger fs p =
     (case p of None \<Rightarrow> Inr []
      | Some f \<Rightarrow> if f \<noteq> [] \<and> fs_exists fs f
                 then bindR (read_text fs f) (\<lambda>t. Inr (ledger_lines t)) else Inr [])"

lemma ledger_lines_nonempty: "l \<in> set (ledger_lines t) \<Longrightarrow> l \<noteq> [] \<and> CHR ''#'' \<notin> set l"
proof -
  assume "l \<in> set (ledger_lines t)"
  then obtain x where "l = strip (hd (split_on (CHR ''#'') x))" "l \<noteq> []"
    by (auto simp: ledger_lines_def)
  moreover have "CHR ''#'' \<notin> set (hd (split_on (CHR ''#'') x))"
    by (rule split_on_no_sep [OF hd_in_set]) simp
  ultimately show ?thesis using strip_sublist by blast
qed

subsection \<open>The ledger contract\<close>

text \<open>
  An audit finds sites, each with a key, and has a ledger of accepted keys.  \<open>fails\<close> is its
  non-zero exit status.
\<close>

locale ledger =
  fixes key_of :: "'h \<Rightarrow> 'k"
    and fails :: "'h list \<Rightarrow> 'k list \<Rightarrow> bool"
  assumes fails_iff:
    "fails hits allow \<longleftrightarrow> (\<exists>h \<in> set hits. key_of h \<notin> set allow) \<or> (\<exists>a \<in> set allow. a \<notin> key_of ` set hits)"
begin

text \<open>The audit passes exactly when the ledger lists the findings, no more and no fewer.\<close>

lemma passes_iff: "\<not> fails hits allow \<longleftrightarrow> set allow = key_of ` set hits"
  by (auto simp: fails_iff)

lemma exact_ledger_passes: "\<not> fails hits (map key_of hits)"
  by (auto simp: passes_iff)

lemma new_finding_fails:
  "\<not> fails hits allow \<Longrightarrow> key_of h \<notin> set allow \<Longrightarrow> fails (hits @ [h]) allow"
  by (auto simp: fails_iff)

lemma stale_entry_fails: "a \<notin> key_of ` set hits \<Longrightarrow> fails hits (a # allow)"
  by (auto simp: fails_iff)

end

end
