(* ===== verification/Cxx_Scan.thy ===== *)
theory Cxx_Scan
  imports Py_Regex
begin

text \<open>
  The scanners over C++/CUDA source text that the audits of \<open>src/tools\<close> share:
  comment removal (\<open>cache_key_audit.py\<close>, \<open>resize_audit.py\<close>, \<open>default_audit.py\<close> and
  \<open>header_odr_audit.py\<close>, one definition each, since the four scripts carry four variants), the
  bracket matching loops, the splitting of an argument list at top-level commas, and
  \<open>enclosing_scope\<close>.  An audit reports \<open>file:line\<close> from an offset into the filtered text,
  so what a filter owes its callers is that offsets and line numbers are those of the file: the
  locales \<open>text_filter\<close> and \<open>line_filter\<close> state that contract and its consequence for
  reported line numbers, and are interpreted on the filters that keep it.
\<close>

subsection \<open>The contract of a source filter\<close>

text \<open>\<open>t[:k].count('\n') + 1\<close>, the line an audit reports for offset \<open>k\<close>.\<close>

definition line_of :: "string \<Rightarrow> nat \<Rightarrow> nat" where
  "line_of t k = count_char nl (take k t) + 1"

locale text_filter =
  fixes flt :: "string \<Rightarrow> string"
  assumes flt_length: "length (flt t) = length t"

locale line_filter = text_filter +
  assumes flt_nl: "k < length t \<Longrightarrow> flt t ! k = nl \<longleftrightarrow> t ! k = nl"
begin

lemma take_nl: "map (\<lambda>c. c = nl) (take k (flt t)) = map (\<lambda>c. c = nl) (take k t)"
  by (rule nth_equalityI) (simp_all add: flt_length flt_nl)

lemma line_kept: "line_of (flt t) k = line_of t k"
proof -
  have count: "count_char nl s = length (filter id (map (\<lambda>c. c = nl) s))" for s
    by (simp add: count_char_def filter_map comp_def)
  show ?thesis by (simp add: line_of_def count take_nl)
qed

lemma lines_kept: "count_char nl (flt t) = count_char nl t"
  using line_kept [of t "length t"] by (simp add: line_of_def flt_length)

end

text \<open>A filter that only ever blanks: every character is kept or becomes a space.\<close>

locale blanking_filter = text_filter +
  assumes flt_blank: "k < length t \<Longrightarrow> flt t ! k = t ! k \<or> flt t ! k = CHR '' ''"
begin

lemma kept_nonblank: "k < length t \<Longrightarrow> flt t ! k \<noteq> CHR '' '' \<Longrightarrow> t ! k = flt t ! k"
  using flt_blank by metis

lemma occurrence_kept:
  assumes "startswith (drop k (flt t)) p" and "CHR '' '' \<notin> set p"
  shows "startswith (drop k t) p"
  using assms
proof (induction p arbitrary: k)
  case (Cons c p)
  then have k: "k < length t" "flt t ! k = c" "startswith (drop (Suc k) (flt t)) p"
    by (auto simp: startswith_drop_Cons flt_length)
  moreover have "t ! k = c" using kept_nonblank [OF k(1)] k(2) Cons.prems(2) by auto
  ultimately show ?case using Cons by (simp add: startswith_drop_Cons)
qed simp

end

subsection \<open>Comments\<close>

definition line_end :: "string \<Rightarrow> nat \<Rightarrow> nat" where
  "line_end t i = (case find_from t [nl] i of None \<Rightarrow> length t | Some j \<Rightarrow> j)"

definition block_end :: "string \<Rightarrow> nat \<Rightarrow> nat" where
  "block_end t i = (case find_from t ''*/'' (i + 2) of None \<Rightarrow> length t | Some j \<Rightarrow> j + 2)"

definition blanks :: "nat \<Rightarrow> string" where
  "blanks n = replicate n (CHR '' '')"

definition blank_keep_nl :: "string \<Rightarrow> string" where
  "blank_keep_nl s = map (\<lambda>c. if c = nl then c else CHR '' '') s"

abbreviation at_line_comment :: "string \<Rightarrow> nat \<Rightarrow> bool" where
  "at_line_comment t i \<equiv> startswith (drop i t) ''//''"

abbreviation at_block_comment :: "string \<Rightarrow> nat \<Rightarrow> bool" where
  "at_block_comment t i \<equiv> startswith (drop i t) ''/*''"

lemma line_end_bounds:
  assumes "at_line_comment t i"
  shows "i < line_end t i" and "line_end t i \<le> length t"
    and "\<And>k. i \<le> k \<Longrightarrow> k < line_end t i \<Longrightarrow> t ! k \<noteq> nl"
proof -
  have i: "i < length t" "t ! i \<noteq> nl" using assms by (auto simp: startswith_drop_Cons nl_def)
  show le: "line_end t i \<le> length t"
    using find_from_SomeD(2) [of t "[nl]" i] by (auto simp: line_end_def split: option.splits)
  show no: "t ! k \<noteq> nl" if k: "i \<le> k" "k < line_end t i" for k
  proof (cases "find_from t [nl] i")
    case None
    then show ?thesis
      using find_from_NoneD [OF None, of k] k le by (auto simp: startswith_drop_Cons line_end_def)
  next
    case (Some j)
    then show ?thesis
      using find_from_least [OF Some k(1)] k le by (auto simp: startswith_drop_Cons line_end_def)
  qed
  show "i < line_end t i"
  proof (cases "find_from t [nl] i")
    case None
    then show ?thesis using i by (simp add: line_end_def)
  next
    case (Some j)
    then have "i \<le> j" "t ! j = nl"
      using find_from_SomeD [OF Some] by (auto simp: startswith_drop_Cons)
    with i Some show ?thesis by (cases "i = j") (auto simp: line_end_def)
  qed
qed

lemma block_end_bounds:
  assumes "at_block_comment t i"
  shows "i < block_end t i" and "block_end t i \<le> length t"
proof -
  have i: "i < length t" using assms by (auto simp: startswith_drop_Cons)
  show "i < block_end t i" "block_end t i \<le> length t"
    using i find_from_SomeD [of t "''*/''" "i + 2"]
    by (auto simp: block_end_def split: option.splits)
qed

text \<open>\<open>strip_comments\<close> of \<open>cache_key_audit.py\<close>: comments blanked, lengths and lines kept.\<close>

function ck_strip_from :: "string \<Rightarrow> nat \<Rightarrow> string" where
  "ck_strip_from t i =
     (if i < length t then
        if at_line_comment t i then blanks (line_end t i - i) @ ck_strip_from t (line_end t i)
        else if at_block_comment t i then
          blank_keep_nl (slice t i (block_end t i)) @ ck_strip_from t (block_end t i)
        else t ! i # ck_strip_from t (Suc i)
      else [])"
  by pat_completeness auto
termination
  by (relation "measure (\<lambda>(t, i). length t - i)")
    (auto intro: diff_less_mono2 line_end_bounds(1) block_end_bounds(1))

declare ck_strip_from.simps [simp del]

definition ck_strip_comments :: "string \<Rightarrow> string" where
  "ck_strip_comments t = ck_strip_from t 0"

text \<open>
  \<open>strip_comments\<close> of \<open>resize_audit.py\<close>: the same, with string and character literals blanked
  too (\<open>skip_quoted\<close> is the inner loop over a literal).
\<close>

function skip_quoted :: "string \<Rightarrow> char \<Rightarrow> nat \<Rightarrow> nat" where
  "skip_quoted t q j =
     (if j < length t \<and> t ! j \<noteq> q then skip_quoted t q (j + (if t ! j = bslash then 2 else 1))
      else j)"
  by pat_completeness auto
termination
  by (relation "measure (\<lambda>(t, q, j). length t - j)") auto

declare skip_quoted.simps [simp del]

lemma skip_quoted_ge [simp]: "j \<le> skip_quoted t q j"
proof (induction t q j rule: skip_quoted.induct)
  case (1 t q j)
  show ?case
  proof (cases "j < length t \<and> t ! j \<noteq> q")
    case True
    then have "j + (if t ! j = bslash then 2 else 1) \<le> skip_quoted t q j"
      using 1 [OF True] by (simp add: skip_quoted.simps [of t q j])
    then show ?thesis by linarith
  next
    case False
    then have "skip_quoted t q j = j" by (subst skip_quoted.simps) (rule if_not_P)
    then show ?thesis by simp
  qed
qed

definition quoted_end :: "string \<Rightarrow> nat \<Rightarrow> nat" where
  "quoted_end t i = min (Suc (skip_quoted t (t ! i) (Suc i))) (length t)"

lemma quoted_end_bounds: "i < length t \<Longrightarrow> i < quoted_end t i \<and> quoted_end t i \<le> length t"
  using skip_quoted_ge [of "Suc i" t "t ! i"] by (simp add: quoted_end_def del: skip_quoted_ge)

function rs_strip_from :: "string \<Rightarrow> nat \<Rightarrow> string" where
  "rs_strip_from t i =
     (if i < length t then
        if at_line_comment t i then blanks (line_end t i - i) @ rs_strip_from t (line_end t i)
        else if at_block_comment t i then
          blank_keep_nl (slice t i (block_end t i)) @ rs_strip_from t (block_end t i)
        else if t ! i = dquote \<or> t ! i = squote then
          blanks (quoted_end t i - i) @ rs_strip_from t (quoted_end t i)
        else t ! i # rs_strip_from t (Suc i)
      else [])"
  by pat_completeness auto
termination
  by (relation "measure (\<lambda>(t, i). length t - i)")
    (auto intro!: diff_less_mono2 simp: line_end_bounds(1) block_end_bounds(1) quoted_end_bounds)

declare rs_strip_from.simps [simp del]

definition rs_strip_comments :: "string \<Rightarrow> string" where
  "rs_strip_comments t = rs_strip_from t 0"

text \<open>One step of either filter produces as many characters as it consumes.\<close>

lemma length_blank [simp]:
  "length (blanks n) = n" "length (blank_keep_nl s) = length s"
  by (simp_all add: blanks_def blank_keep_nl_def)

lemma ck_strip_from_length: "length (ck_strip_from t i) = length t - i"
proof (induction t i rule: ck_strip_from.induct)
  case (1 t i)
  then show ?case
    using line_end_bounds [of i t] block_end_bounds [of i t]
    by (auto simp: ck_strip_from.simps [of t i])
qed

lemma rs_strip_from_length: "length (rs_strip_from t i) = length t - i"
proof (induction t i rule: rs_strip_from.induct)
  case (1 t i)
  then show ?case
    using line_end_bounds [of i t] block_end_bounds [of i t] quoted_end_bounds [of i t]
    by (auto simp: rs_strip_from.simps [of t i])
qed

text \<open>
  Where a filter emits the piece \<open>p\<close> for \<open>[i, j)\<close> and goes on from \<open>j\<close>, a pointwise fact
  about the whole output follows from the piece and from the rest.
\<close>

lemma nth_piece:
  assumes "length p = j - i" and "i \<le> j" and "k < j \<Longrightarrow> P (p ! (k - i)) k"
    and "j \<le> k \<Longrightarrow> P (rest ! (k - j)) k" and "i \<le> k"
  shows "P ((p @ rest) ! (k - i)) k"
proof (cases "k < j")
  case True
  then show ?thesis using assms by (simp add: nth_append diff_less_mono)
next
  case False
  then have "\<not> k - i < length p" "k - i - length p = k - j" using assms(1,2) by auto
  then show ?thesis using assms(4) False by (simp add: nth_append)
qed

lemma nth_blanks [simp]: "k < n \<Longrightarrow> blanks n ! k = CHR '' ''"
  by (simp add: blanks_def)

lemma nth_blank_keep_nl [simp]:
  "k < length s \<Longrightarrow> blank_keep_nl s ! k = (if s ! k = nl then nl else CHR '' '')"
  by (simp add: blank_keep_nl_def)

lemma nth_slice [simp]: "a \<le> k \<Longrightarrow> k < b \<Longrightarrow> b \<le> length s \<Longrightarrow> slice s a b ! (k - a) = s ! k"
  by (simp add: slice_def)

definition blanked :: "string \<Rightarrow> char \<Rightarrow> nat \<Rightarrow> bool" where
  "blanked t c k \<longleftrightarrow> (c = t ! k \<or> c = CHR '' '') \<and> (c = nl \<longleftrightarrow> t ! k = nl)"

lemma space_not_nl [simp]: "CHR '' '' \<noteq> nl" "nl \<noteq> CHR '' ''"
  by (simp_all add: nl_def)

lemma ck_strip_from_blanked:
  "i \<le> k \<Longrightarrow> k < length t \<Longrightarrow> blanked t (ck_strip_from t i ! (k - i)) k"
proof (induction t i rule: ck_strip_from.induct)
  case (1 t i)
  have i: "i < length t" using 1 by simp
  consider (line) "at_line_comment t i" | (block) "\<not> at_line_comment t i" "at_block_comment t i"
    | (code) "\<not> at_line_comment t i" "\<not> at_block_comment t i" by blast
  then show ?case
  proof cases
    case line
    note b = line_end_bounds [OF line]
    have "blanked t ((blanks (line_end t i - i) @ ck_strip_from t (line_end t i)) ! (k - i)) k"
      by (rule nth_piece [where P = "blanked t" and j = "line_end t i"])
        (use 1 i line b in \<open>auto simp: blanked_def diff_less_mono\<close>)
    then show ?thesis using i line by (simp add: ck_strip_from.simps [of t i])
  next
    case block
    note b = block_end_bounds [OF block(2)]
    have "blanked t ((blank_keep_nl (slice t i (block_end t i)) @ ck_strip_from t (block_end t i)) ! (k - i)) k"
      by (rule nth_piece [where P = "blanked t" and j = "block_end t i"])
        (use 1 i block b in \<open>auto simp: blanked_def diff_less_mono\<close>)
    then show ?thesis using i block by (simp add: ck_strip_from.simps [of t i])
  next
    case code
    have "blanked t (([t ! i] @ ck_strip_from t (Suc i)) ! (k - i)) k"
      by (rule nth_piece [where P = "blanked t" and j = "Suc i"])
        (use 1 i code in \<open>auto simp: blanked_def less_Suc_eq\<close>)
    then show ?thesis using i code by (simp add: ck_strip_from.simps [of t i])
  qed
qed

lemma rs_strip_from_blank:
  "i \<le> k \<Longrightarrow> k < length t \<Longrightarrow>
   rs_strip_from t i ! (k - i) = t ! k \<or> rs_strip_from t i ! (k - i) = CHR '' ''"
proof (induction t i rule: rs_strip_from.induct)
  case (1 t i)
  let ?P = "\<lambda>c k. c = t ! k \<or> c = CHR '' ''"
  have i: "i < length t" using 1 by simp
  consider (line) "at_line_comment t i" | (block) "\<not> at_line_comment t i" "at_block_comment t i"
    | (quote) "\<not> at_line_comment t i" "\<not> at_block_comment t i" "t ! i = dquote \<or> t ! i = squote"
    | (code) "\<not> at_line_comment t i" "\<not> at_block_comment t i" "\<not> (t ! i = dquote \<or> t ! i = squote)"
    by blast
  then show ?case
  proof cases
    case line
    note b = line_end_bounds [OF line]
    have "?P ((blanks (line_end t i - i) @ rs_strip_from t (line_end t i)) ! (k - i)) k"
      by (rule nth_piece [where P = ?P and j = "line_end t i"])
        (use 1 i line b in \<open>auto simp: diff_less_mono\<close>)
    then show ?thesis using i line by (simp add: rs_strip_from.simps [of t i])
  next
    case block
    note b = block_end_bounds [OF block(2)]
    have "?P ((blank_keep_nl (slice t i (block_end t i)) @ rs_strip_from t (block_end t i)) ! (k - i)) k"
      by (rule nth_piece [where P = ?P and j = "block_end t i"])
        (use 1 i block b in \<open>auto simp: diff_less_mono\<close>)
    then show ?thesis using i block by (simp add: rs_strip_from.simps [of t i])
  next
    case quote
    note b = quoted_end_bounds [OF i]
    have "?P ((blanks (quoted_end t i - i) @ rs_strip_from t (quoted_end t i)) ! (k - i)) k"
      by (rule nth_piece [where P = ?P and j = "quoted_end t i"])
        (use 1 i quote b in \<open>auto simp: diff_less_mono\<close>)
    then show ?thesis using i quote by (simp add: rs_strip_from.simps [of t i])
  next
    case code
    have "?P (([t ! i] @ rs_strip_from t (Suc i)) ! (k - i)) k"
      by (rule nth_piece [where P = ?P and j = "Suc i"])
        (use 1 i code in \<open>auto simp: less_Suc_eq\<close>)
    then show ?thesis using i code by (simp add: rs_strip_from.simps [of t i])
  qed
qed

interpretation ck: line_filter ck_strip_comments
proof
  show "length (ck_strip_comments t) = length t" for t
    by (simp add: ck_strip_comments_def ck_strip_from_length)
  show "ck_strip_comments t ! k = nl \<longleftrightarrow> t ! k = nl" if "k < length t" for t k
    using ck_strip_from_blanked [of 0 k t] that by (auto simp: ck_strip_comments_def blanked_def)
qed

interpretation ck: blanking_filter ck_strip_comments
proof
  show "ck_strip_comments t ! k = t ! k \<or> ck_strip_comments t ! k = CHR '' ''"
    if "k < length t" for t k
    using ck_strip_from_blanked [of 0 k t] that by (auto simp: ck_strip_comments_def blanked_def)
qed

interpretation rs: blanking_filter rs_strip_comments
proof
  show "length (rs_strip_comments t) = length t" for t
    by (simp add: rs_strip_comments_def rs_strip_from_length)
  show "rs_strip_comments t ! k = t ! k \<or> rs_strip_comments t ! k = CHR '' ''"
    if "k < length t" for t k
    using rs_strip_from_blank [of 0 k t] that by (auto simp: rs_strip_comments_def)
qed

text \<open>No comment survives: a kept slash is never the first of two, nor followed by a star.\<close>

definition comment_open :: "string \<Rightarrow> bool" where
  "comment_open s \<longleftrightarrow> startswith s ''//'' \<or> startswith s ''/*''"

lemma comment_open_Cons [simp]:
  "comment_open (c # s) \<longleftrightarrow> c = CHR ''/'' \<and> s \<noteq> [] \<and> (hd s = CHR ''/'' \<or> hd s = CHR ''*'')"
  "\<not> comment_open []"
  by (cases s; auto simp: comment_open_def startswith_def)+

lemma ck_strip_from_hd:
  assumes "i < length t"
  shows "ck_strip_from t i \<noteq> []"
    and "hd (ck_strip_from t i) = t ! i \<or> hd (ck_strip_from t i) = CHR '' ''"
proof -
  have l: "length (ck_strip_from t i) = length t - i" by (rule ck_strip_from_length)
  then show n: "ck_strip_from t i \<noteq> []" using assms by auto
  show "hd (ck_strip_from t i) = t ! i \<or> hd (ck_strip_from t i) = CHR '' ''"
    using ck_strip_from_blanked [of i i t] assms n by (simp add: hd_conv_nth blanked_def)
qed

lemma comment_open_append_blanks:
  "(\<And>c. c \<in> set p \<Longrightarrow> c = CHR '' '' \<or> c = nl) \<Longrightarrow> k < length p \<Longrightarrow> \<not> comment_open (drop k (p @ s))"
proof -
  assume p: "\<And>c. c \<in> set p \<Longrightarrow> c = CHR '' '' \<or> c = nl" and k: "k < length p"
  then have "drop k (p @ s) = p ! k # drop (Suc k) (p @ s)"
    by (metis Cons_nth_drop_Suc length_append nth_append trans_less_add1)
  moreover have "p ! k \<noteq> CHR ''/''" using p [of "p ! k"] k by (auto simp: nl_def)
  ultimately show ?thesis by simp
qed

lemma ck_strip_from_no_comment: "\<not> comment_open (drop k (ck_strip_from t i))"
proof (induction t i arbitrary: k rule: ck_strip_from.induct)
  case (1 t i)
  show ?case
  proof (cases "i < length t")
    case i: True
    consider (line) "at_line_comment t i" | (block) "\<not> at_line_comment t i" "at_block_comment t i"
      | (code) "\<not> at_line_comment t i" "\<not> at_block_comment t i" by blast
    then show ?thesis
    proof cases
      case line
      then show ?thesis
        using i 1(1) [OF i line, of "k - (line_end t i - i)"]
          comment_open_append_blanks [of "blanks (line_end t i - i)" k "ck_strip_from t (line_end t i)"]
        by (cases "k < line_end t i - i") (auto simp: ck_strip_from.simps [of t i] blanks_def)
    next
      case block
      let ?p = "blank_keep_nl (slice t i (block_end t i))"
      from block show ?thesis
        using i 1(2) [OF i block, of "k - length ?p"]
          comment_open_append_blanks [of ?p k "ck_strip_from t (block_end t i)"]
        by (cases "k < length ?p") (auto simp: ck_strip_from.simps [of t i] blank_keep_nl_def)
    next
      case code
      have eq: "ck_strip_from t i = t ! i # ck_strip_from t (Suc i)"
        using i code by (simp add: ck_strip_from.simps [of t i])
      have hd: "t ! i = CHR ''/'' \<Longrightarrow> Suc i < length t \<Longrightarrow> t ! Suc i \<noteq> CHR ''/'' \<and> t ! Suc i \<noteq> CHR ''*''"
        using code i by (auto simp: startswith_drop_Cons)
      have "\<not> comment_open (t ! i # ck_strip_from t (Suc i))"
        using hd ck_strip_from_hd [of "Suc i" t]
        by (cases "Suc i < length t") (auto simp: ck_strip_from.simps [of t "Suc i"])
      then show ?thesis
        using 1(3) [OF i code] eq by (cases k) auto
    qed
  qed (simp add: ck_strip_from.simps [of t i])
qed

subsection \<open>\<open>blank_comments\<close> and the two substitutions of \<open>header_odr_audit.py\<close>\<close>

text \<open>The pattern \<open>//[^\n]*\<close>.\<close>

definition line_comment_rx :: rx where
  "line_comment_rx = RSeq (RLit ''//'') (RStar (RSet (CNot (CS [nl]))))"

text \<open>The pattern \<open>/\*.*?\*/\<close> with \<open>re.S\<close>.\<close>

definition block_comment_rx :: rx where
  "block_comment_rx = RSeqs [RLit ''/*'', RLazy (RSet CAll), RLit ''*/'']"

definition blank_comments :: "string \<Rightarrow> string" where
  "blank_comments s = re_sub line_comment_rx (\<lambda>m. blanks (length (group_text s m 0))) s"

definition ho_strip_comments :: "string \<Rightarrow> string" where
  "ho_strip_comments src =
     (let src' = re_sub block_comment_rx
            (\<lambda>m. replicate (count_char nl (group_text src m 0)) nl) src
      in re_sub line_comment_rx (\<lambda>m. []) src')"

lemma group_text_0 [simp]: "group_text s m 0 = slice s (m_start m) (m_end m)"
  by (simp add: group_text_def group_def)

lemma line_comment_no_nl:
  assumes "j \<in> ends line_comment_rx s i" and "i \<le> k" and "k < j"
  shows "s ! k \<noteq> nl"
proof -
  let ?R = "{(a, b). b = Suc a \<and> a < length s \<and> s ! a \<noteq> nl}"
  from assms(1) have st: "startswith (drop i s) ''//''" and run: "(i + 2, j) \<in> ?R\<^sup>*"
    by (auto simp: line_comment_rx_def ends_RLit simp del: RLit.simps)
  have "\<forall>k. i + 2 \<le> k \<and> k < j \<longrightarrow> s ! k \<noteq> nl"
    using run by (induction rule: rtrancl_induct) (auto simp: less_Suc_eq)
  moreover have "s ! i \<noteq> nl" "s ! Suc i \<noteq> nl"
    using st by (auto simp: startswith_drop_Cons nl_def)
  moreover have "k = i \<or> k = Suc i \<or> i + 2 \<le> k" using assms(2) by linarith
  ultimately show ?thesis using assms(3) by blast
qed

interpretation bc: line_filter blank_comments
proof
  fix t
  have len: "m \<in> set (finditer line_comment_rx t) \<Longrightarrow>
      length (blanks (length (group_text t m 0))) = m_end m - m_start m" for m
    using scan_ok_mem [OF finditer_ok] by fastforce
  show "length (blank_comments t) = length t"
    unfolding blank_comments_def using len by (rule re_sub_length)
  show "blank_comments t ! k = nl \<longleftrightarrow> t ! k = nl" if k: "k < length t" for k
    unfolding blank_comments_def
  proof (rule re_sub_pointwise [where P = "\<lambda>c k. c = nl \<longleftrightarrow> t ! k = nl"])
    fix m assume m: "m \<in> set (finditer line_comment_rx t)" "m_start m \<le> k" "k < m_end m"
    then have "t ! k \<noteq> nl"
      using line_comment_no_nl finditer_from_ends unfolding finditer_def by blast
    then show "blanks (length (group_text t m 0)) ! (k - m_start m) = nl \<longleftrightarrow> t ! k = nl"
      using len [OF m(1)] m by simp
  qed (use len k in auto)
qed

interpretation bc: blanking_filter blank_comments
proof
  show "blank_comments t ! k = t ! k \<or> blank_comments t ! k = CHR '' ''" if "k < length t" for t k
  proof -
    have len: "m \<in> set (finditer line_comment_rx t) \<Longrightarrow>
        length (blanks (length (group_text t m 0))) = m_end m - m_start m" for m
      using scan_ok_mem [OF finditer_ok] by fastforce
    show ?thesis
      unfolding blank_comments_def
      by (rule re_sub_pointwise [where P = "\<lambda>c k. c = t ! k \<or> c = CHR '' ''"])
        (use len that in auto)
  qed
qed

text \<open>A substitution that keeps the line breaks of every match keeps the number of lines.\<close>

lemma slice_append: "a \<le> b \<Longrightarrow> b \<le> length s \<Longrightarrow> slice s a b @ drop b s = drop a s"
  by (metis append_take_drop_id drop_drop le_add_diff_inverse2 slice_def)

lemma sub_pieces_count:
  assumes "scan_ok s i mts" and "i \<le> length s"
    and "\<And>m. m \<in> set mts \<Longrightarrow> count_char c (f m) = count_char c (slice s (m_start m) (m_end m))"
  shows "count_char c (sub_pieces f s i mts) = count_char c (drop i s)"
  using assms
proof (induction f s i mts rule: sub_pieces.induct)
  case (2 f s i m rest)
  then have b: "i \<le> m_start m" "m_start m \<le> m_end m" "m_end m \<le> length s" by simp_all
  have "drop i s = slice s i (m_start m) @ slice s (m_start m) (m_end m) @ drop (m_end m) s"
    using b by (simp add: slice_append)
  then have "count_char c (drop i s) = count_char c (slice s i (m_start m)) +
      count_char c (slice s (m_start m) (m_end m)) + count_char c (drop (m_end m) s)"
    by simp
  then show ?case using 2 b by simp
qed simp

lemma count_no_char: "c \<notin> set s \<Longrightarrow> count_char c s = 0"
  by (auto simp: count_char_def filter_empty_conv)

lemma line_comment_slice:
  assumes "m \<in> set (finditer line_comment_rx s)"
  shows "count_char nl (slice s (m_start m) (m_end m)) = 0"
proof -
  have b: "m_start m \<le> m_end m" "m_end m \<le> length s"
    using scan_ok_mem [OF finditer_ok assms] by auto
  have "s ! k \<noteq> nl" if "m_start m \<le> k" "k < m_end m" for k
    using assms line_comment_no_nl finditer_from_ends that unfolding finditer_def by blast
  then have "nl \<notin> set (slice s (m_start m) (m_end m))"
    using b by (auto simp: in_set_conv_nth slice_def)
  then show ?thesis by (rule count_no_char)
qed

lemma ho_strip_lines: "count_char nl (ho_strip_comments src) = count_char nl src"
proof -
  let ?f = "\<lambda>m. replicate (count_char nl (group_text src m 0)) nl"
  let ?s = "re_sub block_comment_rx ?f src"
  have "count_char nl (re_sub line_comment_rx (\<lambda>m. []) ?s) = count_char nl (drop 0 ?s)"
    unfolding re_sub_def [of line_comment_rx]
    by (rule sub_pieces_count [OF finditer_ok]) (simp_all add: line_comment_slice count_no_char)
  moreover have "count_char nl ?s = count_char nl (drop 0 src)"
    unfolding re_sub_def [of block_comment_rx]
    by (rule sub_pieces_count [OF finditer_ok]) (simp_all add: count_char_def)
  ultimately show ?thesis by (simp add: ho_strip_comments_def Let_def)
qed

subsection \<open>Matching brackets\<close>

text \<open>
  The loop that walks from an opening bracket to the one that closes it: \<open>j\<close> moves on until the
  depth is back at zero at a closing bracket, or the text ends.
\<close>

function match_close :: "char \<Rightarrow> char \<Rightarrow> string \<Rightarrow> int \<Rightarrow> nat \<Rightarrow> nat" where
  "match_close op cl t depth j =
     (if j < length t then
        if t ! j = op then match_close op cl t (depth + 1) (Suc j)
        else if t ! j = cl then
          (if depth - 1 = 0 then j else match_close op cl t (depth - 1) (Suc j))
        else match_close op cl t depth (Suc j)
      else j)"
  by pat_completeness auto
termination
  by (relation "measure (\<lambda>(op, cl, t, depth, j). length t - j)") auto

declare match_close.simps [simp del]

text \<open>The depth reached between \<open>i\<close> and \<open>k\<close>: opening minus closing brackets.\<close>

definition depth_between :: "char \<Rightarrow> char \<Rightarrow> string \<Rightarrow> nat \<Rightarrow> nat \<Rightarrow> int" where
  "depth_between op cl t i k =
     int (count_char op (slice t i k)) - int (count_char cl (slice t i k))"

lemma slice_Suc: "i \<le> k \<Longrightarrow> k < length t \<Longrightarrow> slice t i (Suc k) = slice t i k @ [t ! k]"
  by (simp add: slice_def Suc_diff_le take_Suc_conv_app_nth)

lemma slice_self [simp]: "slice t i i = []"
  by (simp add: slice_def)

lemma depth_between_Suc:
  "i \<le> k \<Longrightarrow> k < length t \<Longrightarrow> op \<noteq> cl \<Longrightarrow>
   depth_between op cl t i (Suc k) =
     depth_between op cl t i k + (if t ! k = op then 1 else if t ! k = cl then -1 else 0)"
  by (auto simp: depth_between_def slice_Suc count_char_def)

text \<open>
  \<open>closes_at\<close>: the depth counted from \<open>i\<close> stays positive from \<open>j\<close> up to \<open>e\<close>, and \<open>e\<close> is the
  end of the text or the closing bracket that brings it to zero.
\<close>

definition closes_at :: "char \<Rightarrow> char \<Rightarrow> string \<Rightarrow> nat \<Rightarrow> nat \<Rightarrow> nat \<Rightarrow> bool" where
  "closes_at op cl t i j e \<longleftrightarrow> j \<le> e \<and> e \<le> length t \<and>
     (\<forall>k. j \<le> k \<and> k \<le> e \<longrightarrow> 0 < depth_between op cl t i k) \<and>
     (e < length t \<longrightarrow> t ! e = cl \<and> depth_between op cl t i (Suc e) = 0)"

lemma closes_at_step:
  "closes_at op cl t i (Suc j) e \<Longrightarrow> 0 < depth_between op cl t i j \<Longrightarrow> closes_at op cl t i j e"
proof -
  assume c: "closes_at op cl t i (Suc j) e" and d: "0 < depth_between op cl t i j"
  have "0 < depth_between op cl t i k" if "j \<le> k" "k \<le> e" for k
    using c d that by (cases "k = j") (auto simp: closes_at_def)
  then show ?thesis using c by (simp add: closes_at_def)
qed

lemma match_close_closes:
  assumes "op \<noteq> cl" and "i \<le> j" and "j \<le> length t"
    and "depth = depth_between op cl t i j" and "0 < depth"
  shows "closes_at op cl t i j (match_close op cl t depth j)"
  using assms
proof (induction op cl t depth j rule: match_close.induct)
  case (1 op cl t depth j)
  note pos = 1(8) [unfolded 1(7)]
  show ?case
  proof (cases "j < length t")
    case False
    then have "match_close op cl t depth j = j" by (subst match_close.simps) (rule if_not_P)
    then show ?thesis using 1 False by (auto simp: closes_at_def)
  next
    case j: True
    note d = depth_between_Suc [OF 1(5) j 1(4)]
    have i: "i \<le> Suc j" "Suc j \<le> length t" using 1(5) j by simp_all
    consider (op) "t ! j = op" | (close) "t ! j \<noteq> op" "t ! j = cl" "depth - 1 = 0"
      | (cl) "t ! j \<noteq> op" "t ! j = cl" "depth - 1 \<noteq> 0" | (other) "t ! j \<noteq> op" "t ! j \<noteq> cl" by blast
    then show ?thesis
    proof cases
      case op
      have "closes_at op cl t i (Suc j) (match_close op cl t (depth + 1) (Suc j))"
        by (rule 1(1) [OF j op 1(4) i]) (use d op 1(7,8) in simp_all)
      then have "closes_at op cl t i j (match_close op cl t (depth + 1) (Suc j))"
        by (rule closes_at_step) (rule pos)
      then show ?thesis using j op by (simp add: match_close.simps [of op cl t depth j])
    next
      case close
      then have "match_close op cl t depth j = j"
        using j by (subst match_close.simps) simp
      then show ?thesis using j close d 1(7,8) by (auto simp: closes_at_def dest: le_antisym)
    next
      case cl
      have "closes_at op cl t i (Suc j) (match_close op cl t (depth - 1) (Suc j))"
        by (rule 1(2) [OF j cl 1(4) i]) (use d cl 1(7,8) in simp_all)
      then have "closes_at op cl t i j (match_close op cl t (depth - 1) (Suc j))"
        by (rule closes_at_step) (rule pos)
      then show ?thesis using j cl by (simp add: match_close.simps [of op cl t depth j])
    next
      case other
      have "closes_at op cl t i (Suc j) (match_close op cl t depth (Suc j))"
        by (rule 1(3) [OF j other 1(4) i]) (use d other 1(7,8) in simp_all)
      then have "closes_at op cl t i j (match_close op cl t depth (Suc j))"
        by (rule closes_at_step) (rule pos)
      then show ?thesis using j other by (simp add: match_close.simps [of op cl t depth j])
    qed
  qed
qed

subsection \<open>Argument lists\<close>

text \<open>
  The character loop that cuts an argument list at the commas outside brackets; \<open>(\<close>, \<open><\<close> and
  \<open>[\<close> open, \<open>)\<close>, \<open>>\<close> and \<open>]\<close> close.  \<open>split_raw\<close> is the loop, with the pieces as they
  stand; the script strips each piece as it appends it.
\<close>

fun split_raw :: "int \<Rightarrow> string \<Rightarrow> string \<Rightarrow> string list" where
  "split_raw depth cur [] = [cur]"
| "split_raw depth cur (ch # rest) =
     (let depth' = (if List.member ''(<['' ch then depth + 1
                    else if List.member '')>]'' ch then depth - 1 else depth)
      in if ch = CHR '','' \<and> depth' = 0 then cur # split_raw depth' [] rest
         else split_raw depth' (cur @ [ch]) rest)"

definition split_args :: "string \<Rightarrow> string list" where
  "split_args s = map strip (split_raw 0 [] s)"

lemma split_raw_nonempty [simp]: "split_raw depth cur s \<noteq> []"
  by (induction depth cur s rule: split_raw.induct) (auto simp: Let_def)

lemma join_split_raw: "join '','' (split_raw depth cur s) = cur @ s"
  by (induction depth cur s rule: split_raw.induct) (auto simp: Let_def join_Cons)

subsection \<open>\<open>enclosing_scope\<close> of \<open>default_audit.py\<close>\<close>

text \<open>
  Where the block around \<open>start\<close> closes: the position of the first brace that takes the depth below
  zero, comments and string literals passed over, or the end of the text.
\<close>

function scope_end :: "string \<Rightarrow> int \<Rightarrow> nat \<Rightarrow> nat" where
  "scope_end s depth i =
     (if i < length s then
        if at_line_comment s i then
          (case find_from s [nl] i of None \<Rightarrow> length s | Some j \<Rightarrow> scope_end s depth j)
        else if at_block_comment s i then scope_end s depth (block_end s i)
        else if s ! i = dquote then scope_end s depth (Suc (skip_quoted s dquote (Suc i)))
        else if s ! i = CHR ''{'' then scope_end s (depth + 1) (Suc i)
        else if s ! i = CHR ''}'' then
          (if depth - 1 < 0 then i else scope_end s (depth - 1) (Suc i))
        else scope_end s depth (Suc i)
      else length s)"
  by pat_completeness auto
termination
proof (relation "measure (\<lambda>(s, depth, i). length s - i)", goal_cases)
  case (2 s depth i j)
  then have "line_end s i = j" by (simp add: line_end_def)
  with line_end_bounds(1) [of i s] 2 show ?case by auto
next
  case (3 s depth i)
  with block_end_bounds(1) [of i s] show ?case by auto
next
  case (4 s depth i)
  have "Suc i \<le> skip_quoted s dquote (Suc i)" by simp
  with 4 show ?case by (simp add: diff_less_mono2 del: skip_quoted_ge)
qed auto

declare scope_end.simps [simp del]

definition enclosing_scope :: "string \<Rightarrow> nat \<Rightarrow> string" where
  "enclosing_scope s start = slice s start (scope_end s 0 start)"

text \<open>
  On text without slashes and quotes the scan is a plain count of braces: \<open>leaves_at\<close> says that the
  depth counted from \<open>i\<close> stays non-negative up to \<open>e\<close>, which is the end of the text or the
  brace that takes it to minus one.
\<close>

abbreviation brace_depth :: "string \<Rightarrow> nat \<Rightarrow> nat \<Rightarrow> int" where
  "brace_depth \<equiv> depth_between (CHR ''{'') (CHR ''}'')"

definition leaves_at :: "string \<Rightarrow> nat \<Rightarrow> nat \<Rightarrow> nat \<Rightarrow> bool" where
  "leaves_at s i j e \<longleftrightarrow> j \<le> e \<and> e \<le> length s \<and>
     (\<forall>k. j \<le> k \<and> k \<le> e \<longrightarrow> 0 \<le> brace_depth s i k) \<and>
     (e < length s \<longrightarrow> s ! e = CHR ''}'' \<and> brace_depth s i (Suc e) = -1)"

lemma leaves_at_step:
  "leaves_at s i (Suc j) e \<Longrightarrow> 0 \<le> brace_depth s i j \<Longrightarrow> leaves_at s i j e"
proof -
  assume c: "leaves_at s i (Suc j) e" and d: "0 \<le> brace_depth s i j"
  have "0 \<le> brace_depth s i k" if "j \<le> k" "k \<le> e" for k
    using c d that by (cases "k = j") (auto simp: leaves_at_def)
  then show ?thesis using c by (simp add: leaves_at_def)
qed

lemma scope_end_leaves:
  assumes "CHR ''/'' \<notin> set s" and "dquote \<notin> set s" and "i \<le> j" and "j \<le> length s"
    and "depth = brace_depth s i j" and "0 \<le> depth"
  shows "leaves_at s i j (scope_end s depth j)"
  using assms
proof (induction s depth j rule: scope_end.induct)
  case (1 s depth j)
  note pos = 1(12) [unfolded 1(11)]
  show ?case
  proof (cases "j < length s")
    case False
    then have "scope_end s depth j = length s" by (subst scope_end.simps) (rule if_not_P)
    moreover have "j = length s" using False 1(10) by simp
    ultimately have "scope_end s depth j = j" by simp
    then show ?thesis using 1 False by (auto simp: leaves_at_def)
  next
    case j: True
    have "s ! j \<noteq> CHR ''/''" "s ! j \<noteq> dquote" using 1(7,8) nth_mem [OF j] by metis+
    then have cs: "\<not> at_line_comment s j" "\<not> at_block_comment s j" "s ! j \<noteq> dquote"
      by (auto simp: startswith_drop_Cons)
    have d: "brace_depth s i (Suc j) = depth +
        (if s ! j = CHR ''{'' then 1 else if s ! j = CHR ''}'' then -1 else 0)"
      using depth_between_Suc [OF 1(9) j, of "CHR ''{''" "CHR ''}''"] 1(11) by simp
    have i: "i \<le> Suc j" "Suc j \<le> length s" using 1(9) j by simp_all
    consider (op) "s ! j = CHR ''{''" | (close) "s ! j \<noteq> CHR ''{''" "s ! j = CHR ''}''" "depth - 1 < 0"
      | (cl) "s ! j \<noteq> CHR ''{''" "s ! j = CHR ''}''" "\<not> depth - 1 < 0"
      | (other) "s ! j \<noteq> CHR ''{''" "s ! j \<noteq> CHR ''}''" by blast
    then show ?thesis
    proof cases
      case op
      have "leaves_at s i (Suc j) (scope_end s (depth + 1) (Suc j))"
        by (rule 1(4) [OF j cs op 1(7,8) i]) (use d op 1(12) in simp_all)
      then have "leaves_at s i j (scope_end s (depth + 1) (Suc j))"
        by (rule leaves_at_step) (rule pos)
      then show ?thesis using j cs op by (simp add: scope_end.simps [of s depth j])
    next
      case close
      then have "scope_end s depth j = j" using j cs by (subst scope_end.simps) simp
      then show ?thesis using j close d 1(11,12) by (auto simp: leaves_at_def dest: le_antisym)
    next
      case cl
      have "leaves_at s i (Suc j) (scope_end s (depth - 1) (Suc j))"
        by (rule 1(5) [OF j cs cl 1(7,8) i]) (use d cl 1(12) in simp_all)
      then have "leaves_at s i j (scope_end s (depth - 1) (Suc j))"
        by (rule leaves_at_step) (rule pos)
      then show ?thesis using j cs cl by (simp add: scope_end.simps [of s depth j])
    next
      case other
      have "leaves_at s i (Suc j) (scope_end s depth (Suc j))"
        by (rule 1(6) [OF j cs other 1(7,8) i]) (use d other 1(12) in simp_all)
      then have "leaves_at s i j (scope_end s depth (Suc j))"
        by (rule leaves_at_step) (rule pos)
      then show ?thesis using j cs other by (simp add: scope_end.simps [of s depth j])
    qed
  qed
qed

subsection \<open>Properties\<close>

text \<open>\<open>strip_comments\<close> of the cache-key audit keeps every offset on its line, keeps or blanks each character, and leaves
  no comment opener in the text, so that a match in the stripped text is code and its line is the line of the file.\<close>

theorem cache_key_strip_comments:
  "length (ck_strip_comments t) = length t \<and> line_of (ck_strip_comments t) k = line_of t k
    \<and> \<not> comment_open (drop k (ck_strip_comments t))"
  unfolding ck_strip_comments_def [of t, symmetric]
  by (intro conjI ck.flt_length ck.line_kept) (simp add: ck_strip_comments_def ck_strip_from_no_comment)

text \<open>\<open>blank_comments\<close> of the default audit keeps every offset and every line: a match in the blanked text
  points where it did.\<close>

theorem default_blank_comments:
  "length (blank_comments t) = length t \<and> line_of (blank_comments t) k = line_of t k
    \<and> count_char nl (blank_comments t) = count_char nl t"
  by (intro conjI bc.flt_length bc.line_kept bc.lines_kept)

text \<open>\<open>strip_comments\<close> of the resize audit does not keep the lines, as its docstring says it does: a newline
  inside a quoted literal becomes a space.\<close>

theorem resize_strip_comments_loses_a_line:
  "count_char nl (rs_strip_comments ([dquote] @ [nl] @ [dquote] @ ''x'')) = 0"
  by code_simp

text \<open>The block a hand-built struct sits in ends where the braces counted from its declaration first go below zero (or
  at the end of the text): every assignment up to there is seen, and none after it.\<close>

theorem enclosing_scope_is_the_block:
  assumes "CHR ''/'' \<notin> set s" and "dquote \<notin> set s" and "start \<le> length s"
  shows "\<exists>e. enclosing_scope s start = slice s start e \<and> leaves_at s start start e"
proof -
  have "leaves_at s start start (scope_end s 0 start)"
    by (rule scope_end_leaves [OF assms(1,2) order_refl assms(3)]) (simp_all add: depth_between_def count_char_def)
  then show ?thesis unfolding enclosing_scope_def by blast
qed

theorem enclosing_scope_is_the_block_witness:
  "\<exists>e. enclosing_scope ''{ C c; { c.x = 1; } } c.y = 2;'' 6 = slice ''{ C c; { c.x = 1; } } c.y = 2;'' 6 e
     \<and> leaves_at ''{ C c; { c.x = 1; } } c.y = 2;'' 6 6 e"
  by (rule enclosing_scope_is_the_block) (simp_all add: dquote_def)

text \<open>Cutting an argument list loses nothing: the pieces joined by commas are the list.\<close>

theorem argument_pieces_join: "join '','' (split_raw 0 [] s) = s"
  by (simp add: join_split_raw)

text \<open>The cutter of argument lists counts the \<open>>\<close> of an arrow as a closing bracket, so that a list with \<open>p->data()\<close> is not cut at
  the commas after it.\<close>

theorem argument_cutter_arrow:
  "split_args ''n, a->data(), b.data()'' = [''n'', ''a->data(), b.data()'']
    \<and> split_args ''n, a.data(), b.data()'' = [''n'', ''a.data()'', ''b.data()'']"
  by code_simp

end
