(* ===== verification/Cache_Key_Audit.thy ===== *)
theory Cache_Key_Audit
  imports Cxx_Scan Py_Os
begin

text \<open>
  \<open>src/tools/cache_key_audit.py\<close>: device caches whose guard compares a device pointer and no
  identity that survives the recycling of a pool block.  The patterns, the classification of one
  match (\<open>ck_is_guard\<close>, \<open>ck_is_hit\<close>), the loop over the files and the verdict of \<open>main\<close>.
\<close>

subsection \<open>The patterns\<close>

definition const_void_rx :: rx where
  "const_void_rx = ROpt (RSeqs [RLit ''(const'', RSp1, RLit ''void'', RSp, RLit ''*)'', RSp])"

definition POINTER_CMP :: rx where
  "POINTER_CMP = RSeqs
     [RGrp 1 RName, RSp, RLit ''.'', RSp, RGrp 2 RName, RSp, RLit ''!='', RSp, const_void_rx,
      RStar (RSet (CUn CWord (CS ''.->''))), RWordB,
      RGrp 3 (RAlts [RLit ''diag'', RLit ''owner'', RLit ''nei'', RLit ''upper'', RLit ''lower'',
                     RLit ''psi'', RLit ''data()''])]"

definition SURVIVORS :: "string list" where
  "SURVIVORS = [''addressingId'', ''buildCount'', ''Epoch'', ''epoch'', ''generation'', ''Generation'']"

definition RHS_OBJ :: rx where
  "RHS_OBJ = RSeqs
     [RStar (RSet (CNot (CS ''!''))), RLit ''!='', RSp, const_void_rx, RGrp 1 RName]"

subsection \<open>One match\<close>

text \<open>The statement around a comparison: back to the last \<open>;\<close>, \<open>{\<close> or \<open>}\<close>, on to the next \<open>;\<close>.\<close>

definition after_last :: "string \<Rightarrow> string \<Rightarrow> nat \<Rightarrow> nat" where
  "after_last t p e = (case rfind_upto t p e of None \<Rightarrow> 0 | Some k \<Rightarrow> Suc k)"

definition stmt_start :: "string \<Rightarrow> rmatch \<Rightarrow> nat" where
  "stmt_start t m =
     max (max (after_last t '';'' (m_start m)) (after_last t ''{'' (m_start m)))
         (after_last t ''}'' (m_start m))"

definition stmt_end :: "string \<Rightarrow> rmatch \<Rightarrow> nat" where
  "stmt_end t m = (case find_from t '';'' (m_end m) of None \<Rightarrow> m_end m | Some k \<Rightarrow> k)"

definition stmt_of :: "string \<Rightarrow> rmatch \<Rightarrow> string" where
  "stmt_of t m = slice t (stmt_start t m) (stmt_end t m)"

text \<open>The two sides are members of one object: a symmetry check, not a cache guard.\<close>

definition same_object :: "string \<Rightarrow> rmatch \<Rightarrow> bool" where
  "same_object t m =
     (let rhs = group_text t m 0
      in case re_match RHS_OBJ rhs of
           None \<Rightarrow> False
         | Some r \<Rightarrow> group rhs r 1 = group t m 1)"

definition refuses :: "string \<Rightarrow> rmatch \<Rightarrow> bool" where
  "refuses t m =
     (let body = slice t (stmt_end t m) (stmt_end t m + 400)
      in contains body ''throw'' \<or> contains body ''refuse('')"

definition ck_is_guard :: "string \<Rightarrow> rmatch \<Rightarrow> bool" where
  "ck_is_guard t m \<longleftrightarrow>
     (contains (stmt_of t m) ''if'' \<or> contains (stmt_of t m) ''='') \<and>
     \<not> same_object t m \<and> \<not> refuses t m"

definition survivor_in :: "string \<Rightarrow> bool" where
  "survivor_in stmt \<longleftrightarrow> list_ex (contains stmt) SURVIVORS"

definition ck_is_hit :: "string \<Rightarrow> rmatch \<Rightarrow> bool" where
  "ck_is_hit t m \<longleftrightarrow> ck_is_guard t m \<and> \<not> survivor_in (stmt_of t m)"

subsection \<open>The files and the verdict\<close>

record ck_hit =
  ck_rel :: string
  ck_line :: nat
  ck_key :: string
  ck_what :: string

definition ck_hit_of :: "fsys \<Rightarrow> string \<Rightarrow> string \<Rightarrow> rmatch \<Rightarrow> ck_hit" where
  "ck_hit_of fs f t m =
     \<lparr>ck_rel = fs_relpath fs f,
      ck_line = count_char nl (take (m_start m) t) + 1,
      ck_key = basename f @ '' '' @ group_text t m 1 @ ''.'' @ group_text t m 2,
      ck_what = group_text t m 3\<rparr>"

definition ck_file :: "fsys \<Rightarrow> string \<Rightarrow> string \<Rightarrow> nat \<times> ck_hit list" where
  "ck_file fs f text =
     (let t = ck_strip_comments text; mts = finditer POINTER_CMP t
      in (length (filter (ck_is_guard t) mts),
          map (ck_hit_of fs f t) (filter (ck_is_hit t) mts)))"

definition ck_unlisted :: "ck_hit list \<Rightarrow> string list \<Rightarrow> ck_hit list" where
  "ck_unlisted hits allow = filter (\<lambda>h. \<not> in_list (ck_key h) allow) hits"

definition ck_stale :: "ck_hit list \<Rightarrow> string list \<Rightarrow> string list" where
  "ck_stale hits allow = filter (\<lambda>a. \<not> list_ex (\<lambda>h. ck_key h = a) hits) (sorted_set allow)"

definition ck_fails :: "ck_hit list \<Rightarrow> string list \<Rightarrow> bool" where
  "ck_fails hits allow \<longleftrightarrow> ck_unlisted hits allow \<noteq> [] \<or> ck_stale hits allow \<noteq> []"

definition ck_report :: "nat \<Rightarrow> nat \<Rightarrow> ck_hit list \<Rightarrow> string list \<Rightarrow> string list" where
  "ck_report nfiles guards hits allow =
     [''cache_key_audit: '' @ show_nat nfiles @ '' files, '' @ show_nat guards
        @ '' cache guards comparing a device pointer'',
      ''guards with NO identity that survives pool recycling: '' @ show_nat (length hits) @ '' (''
        @ show_nat (length (ck_unlisted hits allow)) @ '' unlisted)'']
     @ map (\<lambda>h. ''  '' @ (if in_list (ck_key h) allow then '' '' else ''*'') @ '' '' @ ck_rel h @ '':''
              @ show_nat (ck_line h) @ ''  keyed on `'' @ ck_what h @ ''` alone'') hits
     @ map (\<lambda>a. ''STALE ledger entry, no such guard: '' @ a) (ck_stale hits allow)"

definition ck_main :: "fsys \<Rightarrow> string list \<Rightarrow> (nat \<times> string list) res" where
  "ck_main fs argv =
     bindR (take_option ''--allow'' argv) (\<lambda>(allow_path, rest).
     bindR (read_ledger fs allow_path) (\<lambda>allow.
       let roots = (if rest = [] then [''src''] else rest);
           files = sort (walk_files fs cu_suffixes roots)
       in bindR (mapR (\<lambda>f. bindR (read_text fs f) (\<lambda>t. Inr (ck_file fs f t))) files) (\<lambda>rows.
            let guards = sum_list (map fst rows); hits = concat (map snd rows)
            in Inr (if ck_fails hits allow then 1 else 0,
                    ck_report (length files) guards hits allow))))"

subsection \<open>The verdict keeps the ledger contract\<close>

lemma ck_fails_iff:
  "ck_fails hits allow \<longleftrightarrow>
     (\<exists>h \<in> set hits. ck_key h \<notin> set allow) \<or> (\<exists>a \<in> set allow. a \<notin> ck_key ` set hits)"
  by (auto simp: ck_fails_def ck_unlisted_def ck_stale_def filter_empty_conv list_ex_iff image_iff)
    metis+

interpretation ck_ledger: ledger ck_key ck_fails
  by unfold_locales (rule ck_fails_iff)

lemma ck_hit_line: "h \<in> set (snd (ck_file fs f text)) \<Longrightarrow>
    \<exists>m \<in> set (finditer POINTER_CMP (ck_strip_comments text)).
      ck_line h = line_of text (m_start m) \<and> \<not> survivor_in (stmt_of (ck_strip_comments text) m)"
  using ck.line_kept [of "text"]
  by (auto simp: ck_file_def Let_def ck_hit_of_def line_of_def ck_is_hit_def)

subsection \<open>Properties\<close>

text \<open>The cache-key audit passes exactly when its ledger lists the keys of its findings: no finding is unlisted and no
  entry is stale.\<close>

theorem cache_key_audit_passes_iff: "\<not> ck_fails hits allow \<longleftrightarrow> set allow = ck_key ` set hits"
  by (rule ck_ledger.passes_iff)

text \<open>C35: Every finding of the cache-key audit is a pointer comparison of the stripped file in whose statement no surviving identity
  appears, reported with the line it has in the file as it is.\<close>

theorem cache_key_findings:
  "ck_line ` set (snd (ck_file fs f t)) \<subseteq>
     line_of t ` m_start ` {m \<in> set (finditer POINTER_CMP (ck_strip_comments t)).
        ck_is_guard (ck_strip_comments t) m \<and> \<not> survivor_in (stmt_of (ck_strip_comments t) m)}"
  using ck.line_kept [of t]
  by (auto simp: ck_file_def Let_def ck_hit_of_def line_of_def ck_is_hit_def)

end
