(* ===== verification/Header_Odr_Audit.thy ===== *)
theory Header_Odr_Audit
  imports Cxx_Scan Py_Os
begin

text \<open>
  \<open>src/tools/header_odr_audit.py\<close>: functions defined in a header with external linkage.
  \<open>odr_step\<close> is the body of the character loop of \<open>scan\<close> as a state machine (the stack of
  open blocks, the parenthesis depth, the text since the last delimiter, the findings),
  \<open>odr_line\<close> one line of the file and \<open>odr_scan\<close> the whole scan; \<open>odr_main\<close> is the
  verdict with its ledger.
\<close>

subsection \<open>The patterns\<close>

definition KEYWORDS :: "string list" where
  "KEYWORDS = [''if'', ''for'', ''while'', ''switch'', ''return'', ''else'', ''catch'', ''namespace'',
     ''class'', ''struct'', ''enum'', ''union'', ''using'', ''typedef'', ''template'',
     ''static_assert'', ''extern'', ''friend'', ''do'', ''try'', ''public'', ''private'',
     ''protected'', ''operator'']"

definition keyword_rx :: rx where
  "keyword_rx = RSeqs [RBol, RGrp 1 (RAlts (map RLit KEYWORDS)), RWordB]"

definition namespace_rx :: rx where
  "namespace_rx = RSeqs [RWordB, RLit ''namespace'', RWordB, RStar (RSet (CNot (CS '';{}''))), REol]"

definition signature_rx :: rx where
  "signature_rx = RSeqs
     [RBol,
      RGrp 1 (RSeq (RSet (CUn (CRange (CHR ''A'') (CHR ''Z''))
                    (CUn (CRange (CHR ''a'') (CHR ''z'')) (CS ''_''))))
                   (RLazy (RSet (CUn CWord (CUn CSpace (CS '':<>,*&'')))))),
      RSet CSpace,
      RGrp 2 (RPlus (RSet (CUn CWord (CS '':~'')))), RSp, RLit ''('']"

text \<open>\<open>re.sub(r'\s+', ' ', pending).strip()\<close>.\<close>

definition squeeze :: "string \<Rightarrow> string" where
  "squeeze p = strip (re_sub RSp1 (\<lambda>m. '' '') p)"

text \<open>The test on a signature that opens an outermost block: the name of the external function.\<close>

definition external_def :: "string \<Rightarrow> (string \<times> string) option" where
  "external_def sig =
     (case re_match signature_rx sig of
        None \<Rightarrow> None
      | Some m \<Rightarrow>
          if re_match keyword_rx sig = None
             \<and> \<not> contains (group_text sig m 1) ''inline''
             \<and> \<not> contains (group_text sig m 1) ''static''
             \<and> \<not> contains (group_text sig m 1) ''constexpr''
             \<and> \<not> contains sig ''template''
             \<and> \<not> contains (hd (split_on (CHR ''('') sig)) ''=''
          then Some (group_text sig m 2, take 110 sig) else None)"

subsection \<open>The scan\<close>

datatype block = NS | BLK

record odr =
  stack :: "block list"
  par :: nat
  pending :: string
  found :: "(nat \<times> string \<times> string) list"

definition odr_init :: odr where
  "odr_init = \<lparr>stack = [], par = 0, pending = [], found = []\<rparr>"

definition block_kind :: "string \<Rightarrow> block" where
  "block_kind p = (if re_search namespace_rx p \<noteq> None then NS else BLK)"

definition odr_step :: "nat \<Rightarrow> odr \<Rightarrow> char \<Rightarrow> odr" where
  "odr_step line st ch =
     (if ch = CHR ''('' then st\<lparr>par := Suc (par st), pending := pending st @ [ch]\<rparr>
      else if ch = CHR '')'' then st\<lparr>par := par st - 1, pending := pending st @ [ch]\<rparr>
      else if 0 < par st then st\<lparr>pending := pending st @ [ch]\<rparr>
      else if ch = CHR ''{'' then
        (let kind = block_kind (pending st);
             found' = (if kind = BLK \<and> BLK \<notin> set (stack st) then
                         (case external_def (squeeze (pending st)) of
                            None \<Rightarrow> found st
                          | Some (name, sig) \<Rightarrow> found st @ [(line, name, sig)])
                       else found st)
         in st\<lparr>stack := stack st @ [kind], pending := [], found := found'\<rparr>)
      else if ch = CHR ''}'' then st\<lparr>stack := butlast (stack st), pending := []\<rparr>
      else if ch = CHR '';'' then st\<lparr>pending := []\<rparr>
      else st\<lparr>pending := pending st @ [ch]\<rparr>)"

definition odr_line :: "nat \<Rightarrow> string \<Rightarrow> odr \<Rightarrow> odr" where
  "odr_line line raw st =
     (if startswith (strip raw) ''#'' then st\<lparr>pending := []\<rparr>
      else let st' = foldl (odr_step line) st raw in st'\<lparr>pending := pending st' @ '' ''\<rparr>)"

fun odr_lines :: "nat \<Rightarrow> string list \<Rightarrow> odr \<Rightarrow> odr" where
  "odr_lines i [] st = st"
| "odr_lines i (raw # rest) st = odr_lines (Suc i) rest (odr_line (Suc i) raw st)"

definition odr_scan :: "string \<Rightarrow> (nat \<times> string \<times> string) list" where
  "odr_scan src = found (odr_lines 0 (split_on nl (ho_strip_comments src)) odr_init)"

subsection \<open>Findings lie on lines of the file, in order\<close>

definition found_ok :: "nat \<Rightarrow> odr \<Rightarrow> bool" where
  "found_ok n st \<longleftrightarrow> sorted (map fst (found st)) \<and> (\<forall>r \<in> set (found st). 1 \<le> fst r \<and> fst r \<le> n)"

lemma odr_step_found:
  "found (odr_step line st ch) = found st \<or> (\<exists>name sig. found (odr_step line st ch) = found st @ [(line, name, sig)])"
  by (auto simp: odr_step_def Let_def split: option.splits)

lemma odr_step_ok: "found_ok n st \<Longrightarrow> n \<le> line \<Longrightarrow> 1 \<le> line \<Longrightarrow> found_ok line (odr_step line st ch)"
  using odr_step_found [of line st ch]
  by (fastforce simp: found_ok_def sorted_append)

lemma odr_line_ok: "found_ok n st \<Longrightarrow> n \<le> line \<Longrightarrow> 1 \<le> line \<Longrightarrow> found_ok line (odr_line line raw st)"
proof -
  assume st: "found_ok n st" "n \<le> line" "1 \<le> line"
  then have "found_ok line st" by (auto simp: found_ok_def)
  then have "found_ok line (foldl (odr_step line) st raw)"
    using st(3) by (induction raw arbitrary: st) (simp_all add: odr_step_ok [OF _ order_refl])
  then show ?thesis using \<open>found_ok line st\<close> by (simp add: odr_line_def Let_def found_ok_def)
qed

lemma odr_lines_ok: "found_ok i st \<Longrightarrow> found_ok (i + length ls) (odr_lines i ls st)"
proof (induction i ls st rule: odr_lines.induct)
  case (2 i raw rest st)
  have "found_ok (Suc i) (odr_line (Suc i) raw st)" by (rule odr_line_ok [OF 2(2)]) simp_all
  with 2 show ?case by simp
qed simp

lemma length_split_on: "length (split_on c s) = Suc (count_char c s)"
proof (induction s)
  case (Cons x xs)
  then show ?case by (cases "split_on c xs") (auto simp: count_char_def)
qed (simp add: count_char_def)

lemma odr_scan_lines:
  "sorted (map fst (odr_scan src)) \<and> (\<forall>r \<in> set (odr_scan src). 1 \<le> fst r \<and> fst r \<le> count_char nl src + 1)"
proof -
  have "found_ok (0 + length (split_on nl (ho_strip_comments src)))
      (odr_lines 0 (split_on nl (ho_strip_comments src)) odr_init)"
    by (rule odr_lines_ok) (simp add: found_ok_def odr_init_def)
  then show ?thesis by (simp add: found_ok_def odr_scan_def length_split_on ho_strip_lines)
qed

text \<open>
  What is inside a block that is no namespace is never reported: from a state with a \<^const>\<open>BLK\<close>
  on the stack, findings appear only after that block has been closed.
\<close>

lemma odr_step_inside:
  "BLK \<in> set (stack st) \<Longrightarrow> found (odr_step line st ch) = found st"
  by (simp add: odr_step_def Let_def)

lemma odr_step_inside_stack:
  "BLK \<in> set (stack st) \<Longrightarrow> ch \<noteq> CHR ''}'' \<Longrightarrow> BLK \<in> set (stack (odr_step line st ch))"
  by (simp add: odr_step_def Let_def)

lemma odr_body_silent:
  "BLK \<in> set (stack st) \<Longrightarrow> CHR ''}'' \<notin> set body \<Longrightarrow>
   found (foldl (odr_step line) st body) = found st \<and> BLK \<in> set (stack (foldl (odr_step line) st body))"
proof (induction body arbitrary: st)
  case (Cons ch body)
  have "found (foldl (odr_step line) (odr_step line st ch) body) = found (odr_step line st ch) \<and>
      BLK \<in> set (stack (foldl (odr_step line) (odr_step line st ch) body))"
    by (rule Cons.IH) (use Cons.prems odr_step_inside_stack in auto)
  then show ?case using Cons.prems(1) odr_step_inside by simp
qed simp

subsection \<open>The verdict\<close>

text \<open>\<open>for a in it: if a == "--allow": allow_path = next(it)\<close>.\<close>

fun odr_args :: "string list \<Rightarrow> (string option \<times> string list) \<Rightarrow> (string option \<times> string list) res" where
  "odr_args [] acc = Inr acc"
| "odr_args (a # as) (allow, roots) =
     (if a = ''--allow'' then
        (case as of [] \<Rightarrow> Inl StopIteration | v # rest \<Rightarrow> odr_args rest (Some v, roots))
      else odr_args as (allow, roots @ [a]))"

text \<open>\<open>line.split(None, 1)\<close> on a stripped, non-empty line: the first word and the rest.\<close>

definition first_word :: "string \<Rightarrow> string" where
  "first_word l = takeWhile (\<lambda>c. \<not> is_space c) l"

definition rest_words :: "string \<Rightarrow> string" where
  "rest_words l = lstrip (dropWhile (\<lambda>c. \<not> is_space c) l)"

definition odr_allow :: "string list \<Rightarrow> (string, string) dict" where
  "odr_allow ls = fold (\<lambda>l d. dict_set (first_word l) (rest_words l) d) ls []"

record odr_hit =
  oh_path :: string
  oh_line :: nat
  oh_name :: string
  oh_sig :: string
  oh_key :: string

definition odr_hits_of :: "string \<Rightarrow> string \<Rightarrow> string \<Rightarrow> odr_hit list" where
  "odr_hits_of d fn src =
     map (\<lambda>(line, name, sig).
       \<lparr>oh_path = path_join d fn, oh_line = line, oh_name = name, oh_sig = sig,
        oh_key = fn @ '' '' @ name\<rparr>) (odr_scan src)"

definition odr_headers :: "fsys \<Rightarrow> string list \<Rightarrow> (string \<times> string) list" where
  "odr_headers fs roots =
     concat (map (\<lambda>root. concat (map (\<lambda>(d, _, files).
       map (Pair d) (filter (\<lambda>fn. endswith fn ''.cuh'') (sort files))) (fs_walk fs root))) roots)"

definition odr_reported :: "odr_hit list \<Rightarrow> (string, string) dict \<Rightarrow> odr_hit list" where
  "odr_reported hits allow = filter (\<lambda>h. dict_get allow (oh_key h) = None) hits"

definition odr_stale :: "odr_hit list \<Rightarrow> (string, string) dict \<Rightarrow> string list" where
  "odr_stale hits allow = filter (\<lambda>k. \<not> in_list k (map oh_key hits)) (sort (keys allow))"

definition odr_fails :: "odr_hit list \<Rightarrow> (string, string) dict \<Rightarrow> bool" where
  "odr_fails hits allow \<longleftrightarrow> odr_reported hits allow \<noteq> [] \<or> odr_stale hits allow \<noteq> []"

definition odr_report :: "nat \<Rightarrow> odr_hit list \<Rightarrow> (string, string) dict \<Rightarrow> string list" where
  "odr_report headers hits allow =
     concat (map (\<lambda>h.
       [''EXTERNAL  '' @ oh_path h @ '':'' @ show_nat (oh_line h) @ ''  `'' @ oh_name h
          @ ''` is defined here with external linkage -- one strong symbol per including object'',
        ''          '' @ oh_sig h]) (odr_reported hits allow))
     @ map (\<lambda>k. ''STALE     '' @ k @ '' -- no such definition any more; remove the entry'')
         (odr_stale hits allow)
     @ [''header_odr_audit: '' @ show_nat headers @ '' headers, '' @ show_nat (length hits)
          @ '' external definitions, '' @ show_nat (length (odr_reported hits allow))
          @ '' unlisted, '' @ show_nat (length (odr_stale hits allow)) @ '' stale entries'']"

text \<open>\<open>doc\<close> is the module's docstring, which a call without roots prints.\<close>

definition odr_main :: "string \<Rightarrow> fsys \<Rightarrow> string list \<Rightarrow> (nat \<times> string list) res" where
  "odr_main doc fs argv =
     bindR (odr_args argv (None, [])) (\<lambda>(allow_path, roots).
       if roots = [] then Inr (2, [doc])
       else bindR (read_ledger fs allow_path) (\<lambda>ls.
         let allow = odr_allow ls; hs = odr_headers fs roots
         in bindR (mapR (\<lambda>(d, fn). bindR (read_text fs (path_join d fn))
                     (\<lambda>t. Inr (odr_hits_of d fn t))) hs) (\<lambda>rows.
              let hits = concat rows
              in Inr (if odr_fails hits allow then 1 else 0,
                      odr_report (length hs) hits allow))))"

subsection \<open>What the ledger does\<close>

lemma first_word_no_space: "c \<in> set (first_word l) \<Longrightarrow> \<not> is_space c"
  by (auto simp: first_word_def dest: set_takeWhileD)

lemma keys_odr_allow: "k \<in> set (keys (odr_allow ls)) \<Longrightarrow> k \<in> first_word ` set ls"
proof -
  have "set (keys (fold (\<lambda>l d. dict_set (first_word l) (rest_words l) d) xs d)) \<subseteq>
      set (keys d) \<union> first_word ` set xs" for xs and d :: "(string, string) dict"
  proof (induction xs arbitrary: d)
    case (Cons x xs)
    have "set (keys (dict_set (first_word x) (rest_words x) d)) \<subseteq> insert (first_word x) (set (keys d))"
      by (simp only: keys_dict_set split: if_splits) auto
    with Cons [of "dict_set (first_word x) (rest_words x) d"] show ?case by auto
  qed simp
  from this [of ls "[]"] show "k \<in> set (keys (odr_allow ls)) \<Longrightarrow> k \<in> first_word ` set ls"
    by (auto simp: odr_allow_def)
qed

lemma keys_odr_allow_nonempty: "ls \<noteq> [] \<Longrightarrow> odr_allow ls \<noteq> []"
proof -
  have ne: "dict_set k v d \<noteq> []" for k v and d :: "(string, string) dict"
    by (cases "(k, v, d)" rule: dict_set.cases) (simp_all split: if_splits)
  show "ls \<noteq> [] \<Longrightarrow> odr_allow ls \<noteq> []"
    by (cases ls rule: rev_cases) (simp_all add: odr_allow_def ne)
qed

lemma odr_key_has_space: "CHR '' '' \<in> set (fn @ '' '' @ name)"
  by simp

lemma odr_key_not_in_ledger:
  assumes "h \<in> set (odr_hits_of d fn src)"
  shows "dict_get (odr_allow ls) (oh_key h) = None"
proof -
  have "CHR '' '' \<in> set (oh_key h)" using assms by (auto simp: odr_hits_of_def)
  moreover have "is_space (CHR '' '')" by (simp add: is_space_def)
  moreover have "\<not> is_space c" if k: "k \<in> set (keys (odr_allow ls))" and c: "c \<in> set k" for k c
    using keys_odr_allow [OF k] c first_word_no_space by auto
  ultimately have "oh_key h \<notin> set (keys (odr_allow ls))" by blast
  then show ?thesis by (simp add: dict_get_None_iff)
qed

lemma odr_ledger_useless:
  assumes "\<And>h. h \<in> set hits \<Longrightarrow> \<exists>d fn src. h \<in> set (odr_hits_of d fn src)"
  shows "odr_reported hits (odr_allow ls) = hits"
    and "odr_fails hits (odr_allow ls) \<longleftrightarrow> hits \<noteq> [] \<or> ls \<noteq> []"
proof -
  have none: "dict_get (odr_allow ls) (oh_key h) = None" if "h \<in> set hits" for h
    using assms [OF that] odr_key_not_in_ledger by blast
  show r: "odr_reported hits (odr_allow ls) = hits"
    using none by (simp add: odr_reported_def filter_id_conv)
  have st: "odr_stale hits (odr_allow ls) = sort (keys (odr_allow ls))"
    unfolding odr_stale_def using none
    by (intro filter_True) (auto simp: dict_get_None_iff image_iff; metis fst_conv)
  have "odr_allow ls \<noteq> [] \<longleftrightarrow> ls \<noteq> []"
    using keys_odr_allow_nonempty by (auto simp: odr_allow_def)
  then show "odr_fails hits (odr_allow ls) \<longleftrightarrow> hits \<noteq> [] \<or> ls \<noteq> []"
    using r st by (metis (no_types, lifting) odr_fails_def map_is_Nil_conv set_empty set_sort)
qed

subsection \<open>Properties\<close>

text \<open>The findings of the header audit come in the order of the file and lie on lines of the file.\<close>

theorem odr_findings_on_lines:
  "sorted (map fst (odr_scan src)) \<and> fst ` set (odr_scan src) \<subseteq> {1 .. count_char nl src + 1}"
  using odr_scan_lines [of src] by auto

text \<open>Inside a block that is no namespace (a function body, a class) the header audit reports nothing until that
  block closes.\<close>

theorem odr_nothing_inside_a_body:
  assumes "BLK \<in> set (stack st)" and "CHR ''}'' \<notin> set body"
  shows "found (foldl (odr_step line) st body) = found st"
  using odr_body_silent [OF assms] by simp

theorem odr_nothing_inside_a_body_witness:
  "found (foldl (odr_step 3) (odr_init\<lparr>stack := [NS, BLK]\<rparr>) ''int g() { return 1;'') = []"
  using odr_nothing_inside_a_body [of "odr_init\<lparr>stack := [NS, BLK]\<rparr>" "''int g() { return 1;''" 3]
  by (simp add: odr_init_def)



end
