(* ===== verification/Resize_Audit.thy ===== *)
theory Resize_Audit
  imports Cxx_Scan Py_Os "HOL-Library.Product_Lexorder"
begin

text \<open>
  \<open>src/tools/resize_audit.py\<close>: device buffers that a kernel accumulates into after a resize
  without being zeroed.  The table of kernels with the pointer parameters each accumulates and
  assigns (\<open>kernels_of\<close>), the enclosing function of a position, the classification of one launch
  (\<open>rs_param_event\<close>), the second pass over the callers of a function that only carries its buffer
  (\<open>rs_cross_call\<close>), and \<open>rs_main\<close> with its ledger.
\<close>

subsection \<open>What counts as zeroing\<close>

text \<open>The patterns of \<open>ZEROERS\<close> for a buffer text \<open>b\<close> (the script formats \<open>re.escape(b)\<close> in).\<close>

definition zero_call_rx :: "string \<Rightarrow> rx \<Rightarrow> string \<Rightarrow> rx" where
  "zero_call_rx fn tl_rx b =
     RSeqs [RLit fn, tl_rx, RSp, RLit ''('', RSp, RLit b, RSp, RSet (CS ''.,)'')]"

definition ZEROERS :: "string \<Rightarrow> rx list" where
  "ZEROERS b =
     [zero_call_rx ''cudaMemset'' (RStar (RSet CWord)) b,
      RSeq RWordB (zero_call_rx ''deviceFill'' REps b),
      RSeq RWordB (zero_call_rx ''deviceZero'' REps b),
      RSeq RWordB (zero_call_rx ''zeroBuffer'' REps b),
      RSeqs [RLit b, RSp, RLit ''.'', RSp, RLit ''copyFrom'', RSp, RLit ''(''],
      RSeq RWordB (zero_call_rx ''deviceCopy'' REps b),
      RSeq RWordB (zero_call_rx ''deviceScale'' REps b)]"

definition zeroed_in :: "string \<Rightarrow> string \<Rightarrow> bool" where
  "zeroed_in b before \<longleftrightarrow> list_ex (\<lambda>r. re_search r before \<noteq> None) (ZEROERS b)"

definition resize_rx :: "string \<Rightarrow> rx" where
  "resize_rx b = RSeqs [RLit b, RSp, RLit ''.'', RSp, RLit ''resize'', RSp, RLit ''('']"

definition resized_in :: "string \<Rightarrow> string \<Rightarrow> bool" where
  "resized_in b before \<longleftrightarrow> re_search (resize_rx b) before \<noteq> None"

subsection \<open>The kernel table\<close>

record kernel =
  k_names :: "string list"
  k_acc :: "string list"
  k_assign :: "string list"

definition kernel_rx :: rx where
  "kernel_rx = RSeqs
     [RLit ''__global__'', RSp1, ROpt (RSeq (RLit ''static'') RSp1), RSet CWord,
      RStar (RSet (CUn CWord (CS '':<>, ''))), RSp1, RGrp 1 RName, RSp, RLit ''('']"

definition last_name_rx :: rx where
  "last_name_rx = RSeqs [RGrp 1 RName, RSp, REol]"

definition index_rx :: "string \<Rightarrow> rx" where
  "index_rx pn = RSeqs [RWordB, RLit pn, RSp, RLit ''['', RStar (RSet (CNot (CS '']''))), RLit '']'', RSp]"

definition accumulates :: "string \<Rightarrow> string \<Rightarrow> bool" where
  "accumulates pn body \<longleftrightarrow>
     re_search (RSeq (index_rx pn) (RLit ''+='')) body \<noteq> None \<or>
     re_search (RSeqs [RLit ''atomicAdd'', RSp, RLit ''('', RSp, ROpt (RLit ''&''), RSp, RLit pn, RWordB])
       body \<noteq> None"

definition assigns :: "string \<Rightarrow> string \<Rightarrow> bool" where
  "assigns pn body \<longleftrightarrow>
     re_search (RSeqs [index_rx pn, RLit ''='', RSet (CNot (CS ''=''))]) body \<noteq> None"

definition last_name :: "string \<Rightarrow> string option" where
  "last_name p = (case re_search last_name_rx p of None \<Rightarrow> None | Some m \<Rightarrow> group p m 1)"

definition pointer_names :: "string \<Rightarrow> string list" where
  "pointer_names params =
     List.map_filter (\<lambda>p. if contains p ''*'' then last_name p else None)
       (map strip (split_on (CHR '','') params))"

definition kernel_at :: "string \<Rightarrow> rmatch \<Rightarrow> (string \<times> kernel) option" where
  "kernel_at t m =
     (let j = match_close (CHR ''('') (CHR '')'') t 0 (m_end m - 1);
          params = slice t (m_end m) j
      in case find_from t ''{'' j of
           None \<Rightarrow> None
         | Some k \<Rightarrow>
             let e = match_close (CHR ''{'') (CHR ''}'') t 0 k;
                 body = slice t k e;
                 names = pointer_names params
             in Some (group_text t m 1,
                  \<lparr>k_names = names,
                   k_acc = sorted_set (filter (\<lambda>pn. accumulates pn body) names),
                   k_assign = sorted_set (filter (\<lambda>pn. assigns pn body) names)\<rparr>))"

definition kernels_of :: "string \<Rightarrow> (string, kernel) dict" where
  "kernels_of t =
     fold (\<lambda>m d. case kernel_at t m of None \<Rightarrow> d | Some (n, k) \<Rightarrow> dict_set n k d)
       (finditer kernel_rx t) []"

subsection \<open>The enclosing function\<close>

definition enclosing_function :: "string \<Rightarrow> nat \<Rightarrow> nat" where
  "enclosing_function t pos = (case rfind_upto t [nl, CHR ''{''] pos of None \<Rightarrow> 0 | Some i \<Rightarrow> i + 1)"

definition header_rx :: rx where
  "header_rx = RSeqs [RGrp 1 RName, RSp, RLit ''('', RGrp 2 (RStar (RSet (CNot (CS '';{}'')))),
                      RLit '')'', RSp, REol]"

definition function_at :: "string \<Rightarrow> nat \<Rightarrow> string option \<times> string list" where
  "function_at t pos =
     (let ob = enclosing_function t pos;
          head = rstrip (slice t (ob - 4000) ob);
          mts = finditer header_rx head
      in if mts = [] then (None, [])
         else let m = last mts
              in (group head m 1,
                  List.map_filter (\<lambda>prm. last_name (strip prm))
                    (split_on (CHR '','') (group_text head m 2))))"

subsection \<open>One launch\<close>

definition launch_rx :: rx where
  "launch_rx = RSeqs [RWordB, RGrp 1 RName, RSp, RLit ''<<<'', RGrp 2 (RStar (RSet (CNot (CS ''>'')))),
                      RLit ''>>>'', RSp, RLit ''('']"

definition call_args :: "string \<Rightarrow> nat \<Rightarrow> string list" where
  "call_args t e =
     split_args (slice t e (match_close (CHR ''('') (CHR '')'') t 0 (e - 1)))"

definition pointer_args :: "string list \<Rightarrow> string list" where
  "pointer_args args = filter (\<lambda>a. contains a ''.data()'' \<or> endswith a ''data()'') args"

definition data_rx :: rx where
  "data_rx = RSeqs [RGrp 1 (RPlus (RSet (CUn CWord (CS ''.->[]'')))), RSp, RLit ''.'', RSp,
                    RLit ''data'', RSp, RLit ''()'', RSp, REol]"

definition buffer_of :: "string \<Rightarrow> string option" where
  "buffer_of arg = (case re_search data_rx arg of None \<Rightarrow> None | Some m \<Rightarrow> group arg m 1)"

text \<open>
  An earlier launch in the function that assigns, with the buffer's name among its arguments.  The two
  passes of the script cut the argument text differently where no semicolon follows (\<open>stop\<close>).
\<close>

definition assigned_before :: "(string, kernel) dict \<Rightarrow> string \<Rightarrow> string \<Rightarrow> nat \<Rightarrow> bool" where
  "assigned_before table buf before stop \<longleftrightarrow>
     list_ex (\<lambda>m2. case dict_get table (group_text before m2 1) of
         None \<Rightarrow> False
       | Some k2 \<Rightarrow>
           k_assign k2 \<noteq> [] \<and>
           contains (slice before (m_end m2)
             (case find_from before '';'' (m_end m2) of None \<Rightarrow> stop | Some e \<Rightarrow> e)) buf)
       (finditer launch_rx before)"

record rs_site =
  rs_rel :: string
  rs_line :: nat
  rs_kernel :: string
  rs_param :: string
  rs_buf :: string
  rs_key :: string

fun index_of :: "'a \<Rightarrow> 'a list \<Rightarrow> nat" where
  "index_of x [] = 0"
| "index_of x (y # ys) = (if y = x then 0 else Suc (index_of x ys))"

datatype rs_event = Safe | Resized rs_site | Carried rs_site

definition rs_param_event ::
  "fsys \<Rightarrow> (string, kernel) dict \<Rightarrow> string \<Rightarrow> string \<Rightarrow> rmatch \<Rightarrow> kernel \<Rightarrow> string \<Rightarrow> rs_event" where
  "rs_param_event fs table f t m k pn =
     (let kname = group_text t m 1;
          ptrs = pointer_args (call_args t (m_end m));
          before = slice t (enclosing_function t (m_start m)) (m_start m);
          line = count_char nl (take (m_start m) t) + 1;
          i = index_of pn (k_names k)
      in if pn \<notin> set (k_names k) \<or> length ptrs \<le> i then Safe
         else case buffer_of (ptrs ! i) of
             None \<Rightarrow> Safe
           | Some buf \<Rightarrow>
               let site = \<lparr>rs_rel = fs_relpath fs f, rs_line = line, rs_kernel = kname, rs_param = pn,
                           rs_buf = buf, rs_key = basename f @ '' '' @ kname @ '' '' @ buf\<rparr>
               in if zeroed_in buf before \<or> assigned_before table buf before (length before - 1) then Safe
                  else if resized_in buf before then Resized site else Carried site)"

definition rs_launch_events :: "fsys \<Rightarrow> (string, kernel) dict \<Rightarrow> string \<Rightarrow> string \<Rightarrow> rmatch \<Rightarrow>
    (nat \<times> rs_event) list" where
  "rs_launch_events fs table f t m =
     (case dict_get table (group_text t m 1) of
        None \<Rightarrow> []
      | Some k \<Rightarrow> map (\<lambda>pn. (m_start m, rs_param_event fs table f t m k pn)) (k_acc k))"

definition rs_file_events :: "fsys \<Rightarrow> (string, kernel) dict \<Rightarrow> string \<Rightarrow> string \<Rightarrow> (nat \<times> rs_event) list" where
  "rs_file_events fs table f t = concat (map (rs_launch_events fs table f t) (finditer launch_rx t))"

subsection \<open>The callers of a function that carries its buffer\<close>

type_synonym risky = "((string \<times> nat), (string \<times> nat \<times> string \<times> string) list) dict"

definition risky_add :: "string \<Rightarrow> risky \<Rightarrow> nat \<times> rs_event \<Rightarrow> risky" where
  "risky_add t d ev =
     (case ev of
        (pos, Carried s) \<Rightarrow>
          (case function_at t pos of
             (Some fname, fparams) \<Rightarrow>
               if fname \<noteq> [] \<and> rs_buf s \<in> set fparams then
                 let key = (fname, index_of (rs_buf s) fparams);
                     row = (rs_rel s, rs_line s, rs_kernel s, rs_buf s)
                 in dict_set key (get_or d key [] @ [row]) d
               else d
           | _ \<Rightarrow> d)
      | _ \<Rightarrow> d)"

record rs_cross =
  rc_rel :: string
  rc_line :: nat
  rc_fun :: string
  rc_buf :: string
  rc_site :: string
  rc_sline :: nat

definition rc_key :: "rs_cross \<Rightarrow> string" where
  "rc_key c = basename (rc_rel c) @ '' '' @ rc_fun c @ '' '' @ rc_buf c"

definition call_rx :: "string \<Rightarrow> rx" where
  "call_rx fname = RSeqs [RNotBehind (CUn CWord (CS '':>.'')), RLit fname, RSp, RLit ''('']"

definition plain_buffer_rx :: rx where
  "plain_buffer_rx = RSeqs [RBol, RStar (RSet (CUn (CS ''*&'') CSpace)),
                            RGrp 1 (RPlus (RSet (CUn CWord (CS ''.->[]'')))), REol]"

definition rs_cross_call ::
  "fsys \<Rightarrow> (string, kernel) dict \<Rightarrow> string \<Rightarrow> string \<Rightarrow> string \<Rightarrow> nat \<Rightarrow>
   (string \<times> nat \<times> string \<times> string) list \<Rightarrow> rmatch \<Rightarrow> rs_cross option" where
  "rs_cross_call fs table f t fname k sites c =
     (let head = slice t (m_start c - 40) (m_start c);
          args = call_args t (m_end c);
          before = slice t (enclosing_function t (m_start c)) (m_start c)
      in if contains head ''__global__'' \<or> contains (slice t (m_end c) (m_end c + 40)) ''<<<''
            \<or> length args \<le> k then None
         else case re_match plain_buffer_rx (args ! k) of
             None \<Rightarrow> None
           | Some bm \<Rightarrow>
               let buf = group_text (args ! k) bm 1
               in if \<not> resized_in buf before \<or> zeroed_in buf before
                     \<or> assigned_before table buf before (length before) then None
                  else Some \<lparr>rc_rel = fs_relpath fs f,
                             rc_line = count_char nl (take (m_start c) t) + 1,
                             rc_fun = fname, rc_buf = buf,
                             rc_site = (case sites of [] \<Rightarrow> [] | s # _ \<Rightarrow> fst s),
                             rc_sline = (case sites of [] \<Rightarrow> 0 | s # _ \<Rightarrow> fst (snd s))\<rparr>)"

definition rs_crossed :: "fsys \<Rightarrow> (string, kernel) dict \<Rightarrow> (string \<times> string) list \<Rightarrow> risky \<Rightarrow> rs_cross list" where
  "rs_crossed fs table texts risky =
     concat (map (\<lambda>((fname, k), sites).
       concat (map (\<lambda>(f, t).
         List.map_filter (rs_cross_call fs table f t fname k sites) (finditer (call_rx fname) t)) texts))
       (sort_key fst risky))"

subsection \<open>The verdict\<close>

definition rs_unlisted :: "rs_site list \<Rightarrow> string list \<Rightarrow> rs_site list" where
  "rs_unlisted hits allow = filter (\<lambda>h. \<not> in_list (rs_key h) allow) hits"

definition rs_unlisted_cross :: "rs_cross list \<Rightarrow> string list \<Rightarrow> rs_cross list" where
  "rs_unlisted_cross crossed allow = filter (\<lambda>c. \<not> in_list (rc_key c) allow) crossed"

definition rs_stale :: "rs_site list \<Rightarrow> rs_cross list \<Rightarrow> string list \<Rightarrow> string list" where
  "rs_stale hits crossed allow =
     filter (\<lambda>a. \<not> in_list a (map rs_key hits @ map rc_key crossed)) allow"

definition rs_fails :: "rs_site list \<Rightarrow> rs_cross list \<Rightarrow> string list \<Rightarrow> bool" where
  "rs_fails hits crossed allow \<longleftrightarrow>
     rs_unlisted hits allow \<noteq> [] \<or> rs_unlisted_cross crossed allow \<noteq> [] \<or> rs_stale hits crossed allow \<noteq> []"

definition rs_report :: "nat \<Rightarrow> nat \<Rightarrow> rs_site list \<Rightarrow> rs_site list \<Rightarrow> rs_cross list \<Rightarrow> string list \<Rightarrow> bool
    \<Rightarrow> string list" where
  "rs_report nfiles nacc hits carried crossed allow show_carried =
     [''resize_audit: '' @ show_nat nfiles @ '' files, '' @ show_nat nacc @ '' accumulating kernels'',
      ''accumulated into a buffer this function RESIZED and did not zero: '' @ show_nat (length hits)
        @ '' ('' @ show_nat (length (rs_unlisted hits allow)) @ '' unlisted)'']
     @ map (\<lambda>h. ''  '' @ (if in_list (rs_key h) allow then '' '' else ''*'') @ '' '' @ rs_rel h @ '':''
          @ show_nat (rs_line h) @ ''  '' @ rs_kernel h @ '' accumulates into `'' @ rs_param h @ ''` (''
          @ rs_buf h @ '')'') hits
     @ [''accumulated into a buffer the function only carries (owner decides): ''
          @ show_nat (length carried),
        ''...of those, a CALLER that resized the buffer and did not zero it: ''
          @ show_nat (length crossed) @ '' ('' @ show_nat (length (rs_unlisted_cross crossed allow))
          @ '' unlisted)'']
     @ map (\<lambda>c. ''  '' @ (if in_list (rc_key c) allow then '' '' else ''*'') @ '' '' @ rc_rel c @ '':''
          @ show_nat (rc_line c) @ ''  '' @ rc_fun c @ ''('' @ rc_buf c @ '') -- accumulated at ''
          @ rc_site c @ '':'' @ show_nat (rc_sline c)) crossed
     @ (if show_carried then map (\<lambda>h. ''    '' @ rs_rel h @ '':'' @ show_nat (rs_line h) @ ''  ''
          @ rs_kernel h @ '' += '' @ rs_param h @ '' ('' @ rs_buf h @ '')'') carried else [])
     @ map (\<lambda>a. ''STALE ledger entry, no such site: '' @ a) (sort (rs_stale hits crossed allow))"

definition event_hits :: "(nat \<times> rs_event) list \<Rightarrow> rs_site list" where
  "event_hits evs = List.map_filter (\<lambda>(_, e). case e of Resized s \<Rightarrow> Some s | _ \<Rightarrow> None) evs"

definition event_carried :: "(nat \<times> rs_event) list \<Rightarrow> rs_site list" where
  "event_carried evs = List.map_filter (\<lambda>(_, e). case e of Carried s \<Rightarrow> Some s | _ \<Rightarrow> None) evs"

definition kernel_table :: "string list \<Rightarrow> (string, kernel) dict" where
  "kernel_table ts =
     fold (\<lambda>t d. fold (\<lambda>(n, k) d. if dict_get d n = None then dict_set n k d else d) (kernels_of t) d) ts []"

definition rs_main :: "fsys \<Rightarrow> string list \<Rightarrow> (nat \<times> string list) res" where
  "rs_main fs argv0 =
     (let show_carried = in_list ''--carried'' argv0;
          argv1 = filter (\<lambda>a. a \<noteq> ''--carried'') argv0
      in bindR (take_option ''--allow'' argv1) (\<lambda>(allow_path, argv).
         bindR (read_ledger fs allow_path) (\<lambda>ls.
           let allow = remdups ls;
               roots = (if argv = [] then [''src''] else argv);
               files = sort (walk_files fs cu_suffixes roots)
           in bindR (mapR (\<lambda>f. bindR (read_text fs f) (\<lambda>t. Inr (f, rs_strip_comments t))) files) (\<lambda>texts.
                let table = kernel_table (map snd texts);
                    evs = map (\<lambda>(f, t). (t, rs_file_events fs table f t)) texts;
                    hits = concat (map (\<lambda>(_, es). event_hits es) evs);
                    carried = concat (map (\<lambda>(_, es). event_carried es) evs);
                    risky = foldl (\<lambda>d (t, es). foldl (risky_add t) d es) [] evs;
                    crossed = rs_crossed fs table texts risky
                in Inr (if rs_fails hits crossed allow then 1 else 0,
                        rs_report (length files) (length (filter (\<lambda>k. k_acc (snd k) \<noteq> []) table))
                          hits carried crossed allow show_carried)))))"

subsection \<open>The verdict keeps the ledger contract\<close>

datatype rs_finding = InFunction rs_site | AtCaller rs_cross

fun finding_key :: "rs_finding \<Rightarrow> string" where
  "finding_key (InFunction h) = rs_key h"
| "finding_key (AtCaller c) = rc_key c"

definition in_function :: "rs_finding list \<Rightarrow> rs_site list" where
  "in_function xs = List.map_filter (\<lambda>x. case x of InFunction h \<Rightarrow> Some h | AtCaller c \<Rightarrow> None) xs"

definition at_caller :: "rs_finding list \<Rightarrow> rs_cross list" where
  "at_caller xs = List.map_filter (\<lambda>x. case x of InFunction h \<Rightarrow> None | AtCaller c \<Rightarrow> Some c) xs"

lemma mem_findings:
  "h \<in> set (in_function xs) \<longleftrightarrow> InFunction h \<in> set xs"
  "c \<in> set (at_caller xs) \<longleftrightarrow> AtCaller c \<in> set xs"
  by (induction xs) (auto simp: in_function_def at_caller_def map_filter_simps split: rs_finding.splits)

lemma rs_fails_iff:
  "rs_fails hits crossed allow \<longleftrightarrow>
     (\<exists>k \<in> rs_key ` set hits \<union> rc_key ` set crossed. k \<notin> set allow) \<or>
     (\<exists>a \<in> set allow. a \<notin> rs_key ` set hits \<union> rc_key ` set crossed)"
  by (auto simp: rs_fails_def rs_unlisted_def rs_unlisted_cross_def rs_stale_def filter_empty_conv)

lemma finding_keys:
  "finding_key ` set xs = rs_key ` set (in_function xs) \<union> rc_key ` set (at_caller xs)"
proof (intro equalityI subsetI)
  fix k assume "k \<in> finding_key ` set xs"
  then obtain x where x: "x \<in> set xs" "k = finding_key x" by blast
  show "k \<in> rs_key ` set (in_function xs) \<union> rc_key ` set (at_caller xs)"
    by (cases x) (use x in \<open>auto simp: mem_findings\<close>)
next
  fix k assume "k \<in> rs_key ` set (in_function xs) \<union> rc_key ` set (at_caller xs)"
  then show "k \<in> finding_key ` set xs"
    by (auto simp: mem_findings image_iff) (metis finding_key.simps)+
qed

interpretation rs_ledger: ledger finding_key "\<lambda>xs. rs_fails (in_function xs) (at_caller xs)"
proof
  fix hits allow
  show "rs_fails (in_function hits) (at_caller hits) allow \<longleftrightarrow>
      (\<exists>h \<in> set hits. finding_key h \<notin> set allow) \<or> (\<exists>a \<in> set allow. a \<notin> finding_key ` set hits)"
    unfolding rs_fails_iff finding_keys [symmetric] by blast
qed

text \<open>The text of a parameter list or a body is what lies between the brackets that match.\<close>

lemma matching_bracket:
  assumes "t ! i = op" and "i < length t" and "op \<noteq> cl"
  shows "closes_at op cl t i (Suc i) (match_close op cl t 0 i)"
proof -
  have d: "depth_between op cl t i (Suc i) = 1"
    using assms depth_between_Suc [of i i t op cl] by (simp add: depth_between_def count_char_def)
  have "match_close op cl t 0 i = match_close op cl t (0 + 1) (Suc i)"
    using assms by (subst match_close.simps) simp
  then show ?thesis
    using match_close_closes [OF assms(3), of i "Suc i" t 1] d assms(2) by simp
qed

subsection \<open>Properties\<close>

text \<open>The resize audit passes exactly when its ledger lists the keys of its findings, those inside a function and
  those at a caller: none unlisted, no entry stale.\<close>

theorem resize_audit_passes_iff:
  "\<not> rs_fails (in_function xs) (at_caller xs) allow \<longleftrightarrow> set allow = finding_key ` set xs"
  by (rule rs_ledger.passes_iff)

text \<open>C34: The parameter list or body of a kernel that the resize audit takes ends at the bracket that matches the opening
  one: the depth is positive up to there and zero after it, or the text ends first.\<close>

theorem kernel_text_is_bracketed:
  assumes "t ! i = op" and "i < length t" and "op \<noteq> cl"
  shows "closes_at op cl t i (Suc i) (match_close op cl t 0 i)"
  using assms by (rule matching_bracket)

theorem kernel_text_is_bracketed_witness:
  "closes_at (CHR ''('') (CHR '')'') ''k(f(x), y) {'' 1 2 (match_close (CHR ''('') (CHR '')'') ''k(f(x), y) {'' 0 1)
    \<and> match_close (CHR ''('') (CHR '')'') ''k(f(x), y) {'' 0 1 = 9"
proof -
  have "match_close (CHR ''('') (CHR '')'') ''k(f(x), y) {'' 0 1 = 9" by code_simp
  then show ?thesis
    using kernel_text_is_bracketed [of "''k(f(x), y) {''" 1 "CHR ''(''" "CHR '')''"]
    by (simp add: numeral_2_eq_2)
qed

text \<open>A launch whose configuration holds an arrow is not seen by the resize audit, although the same launch with a dot is.\<close>

theorem launch_with_arrow_unseen:
  "finditer launch_rx ''addK<<<n(c->n), T>>>(x);'' = [] \<and> finditer launch_rx ''addK<<<n(c.n), T>>>(x);'' \<noteq> []"
  by code_simp

end
