(* ===== verification/Default_Audit.thy ===== *)
theory Default_Audit
  imports Cxx_Scan Py_Os "HOL-Library.Product_Lexorder"
begin

text \<open>
  \<open>src/tools/default_audit.py\<close>: structs with default member initialisers that are built by
  hand at several sites, with a field set at some sites and not at others.  The struct parser, the
  functions that fill or return a struct (with the transitive closure over readers that hand the
  struct on), the hand-built sites, and \<open>da_main\<close>: the omissions, their ledger and the verdict.
  A Python set of names is the sorted list of its elements.
\<close>

subsection \<open>\<open>parse_structs\<close>\<close>

type_synonym field = "string \<times> bool"

record struct_def =
  sd_file :: string
  sd_fields :: "field list"
  sd_ns :: "string option"

definition struct_rx :: rx where
  "struct_rx = RSeqs
     [RWordB, RLit ''struct'', RSp1, RGrp 1 RName, RSp,
      ROpt (RSeqs [RLit '':'', RSp, RPlus (RSet (CNot (CS ''{'')))]), RLit ''{'',
      RGrp 2 (RLazy (RSet CAll)), RLit ([nl] @ ''};'')]"

definition declarator_rx :: rx where
  "declarator_rx = RSeqs [RName, RSp, ROpt (RSeq (RLit ''='') (RPlus (RSet (CNot (CS '',;'')))))]"

definition field_rx :: rx where
  "field_rx = RSeqs
     [RStar (RAlts [RSeq (RLit ''mutable'') RSp1, RSeq (RLit ''static'') RSp1, RSeq (RLit ''const'') RSp1]),
      RPlus (RSet (CUn CWord (CS '':<>*&''))), ROpt (RSeq RSp (RSet (CS ''*&''))), RSp1,
      RGrp 1 (RSeq declarator_rx (RStar (RSeqs [RSp, RLit '','', RSp, declarator_rx]))),
      RSp, RGrp 2 (RAlts [RLit ''='', RLit ''{'', RLit '';''])]"

definition namespace_open_rx :: rx where
  "namespace_open_rx = RSeqs [RWordB, RLit ''namespace'', RSp1, RGrp 1 RName, RSp, RLit ''{'']"

definition namespace_of :: "string \<Rightarrow> nat \<Rightarrow> string option" where
  "namespace_of s pos =
     (let opens = findall namespace_open_rx 1 (take pos s)
      in if opens = [] then None else Some (last opens))"

definition is_method_line :: "string \<Rightarrow> bool" where
  "is_method_line l \<longleftrightarrow>
     contains l ''('' \<and> contains l '')'' \<and> \<not> contains (hd (split_on (CHR ''('') l)) ''=''"

definition declarators :: "string \<Rightarrow> rmatch \<Rightarrow> field list" where
  "declarators l m =
     List.map_filter (\<lambda>d0. let d = strip d0; nm = strip (hd (split_on (CHR ''='') d))
        in if d = [] \<or> nm = [] then None
           else Some (nm, contains d ''='' \<or> group_text l m 2 \<noteq> '';''))
       (split_on (CHR '','') (group_text l m 1))"

definition line_fields :: "string \<Rightarrow> field list" where
  "line_fields l0 =
     (let l = strip l0
      in if l = [] \<or> startswith_any l [''struct'', ''enum'', ''class'', ''using'', ''typedef'', ''#'']
            \<or> is_method_line l then []
         else case re_match field_rx l of None \<Rightarrow> [] | Some m \<Rightarrow> declarators l m)"

definition struct_at :: "string \<Rightarrow> string \<Rightarrow> rmatch \<Rightarrow> (string \<times> struct_def) option" where
  "struct_at f s m =
     (let body = re_sub (RSeq (RLit ''//'') (RStar (RSet CDot))) (\<lambda>_. []) (group_text s m 2);
          fields = concat (map line_fields (split_on nl body))
      in if 3 \<le> length fields \<and> list_ex snd fields
         then Some (group_text s m 1, \<lparr>sd_file = f, sd_fields = fields, sd_ns = namespace_of s (m_start m)\<rparr>)
         else None)"

definition dict_append :: "'k \<Rightarrow> 'v \<Rightarrow> ('k, 'v list) dict \<Rightarrow> ('k, 'v list) dict" where
  "dict_append k v d = dict_set k (get_or d k [] @ [v]) d"

definition parse_structs :: "(string, string) dict \<Rightarrow> (string, struct_def list) dict" where
  "parse_structs srcs =
     fold (\<lambda>(n, d) out. dict_append n d out)
       (concat (map (\<lambda>(f, s). List.map_filter (struct_at f s) (finditer struct_rx s)) srcs)) []"

subsection \<open>The fields a piece of code assigns\<close>

definition assign_rx :: "string \<Rightarrow> rx" where
  "assign_rx var = RSeqs [RWordB, RLit var, RLit ''.'', RGrp 1 RName, RSp, RLit ''='', RNotAhead (RLit ''='')]"

definition fill_rx :: "string \<Rightarrow> rx" where
  "fill_rx var = RSeqs [RWordB, RLit var, RLit ''.'', RGrp 1 RName, RSp, RLit ''.'',
                        RAlts [RLit ''push_back'', RLit ''assign'', RLit ''resize'']]"

definition assigned_fields :: "string \<Rightarrow> string \<Rightarrow> string list" where
  "assigned_fields var body = sorted_set (findall (assign_rx var) 1 body @ findall (fill_rx var) 1 body)"

definition add_fields :: "string \<Rightarrow> string list \<Rightarrow> (string, string list) dict \<Rightarrow> (string, string list) dict" where
  "add_fields fn fs d = dict_set fn (sorted_set (get_or d fn [] @ fs)) d"

definition instance_rx :: "string \<Rightarrow> rx" where
  "instance_rx name = RSeqs [RWordB, RLit name, RSp1, RGrp 1 RName, RSp,
                             ROpt (RSeqs [RLit ''{'', RSp, RLit ''}'']), RLit '';'']"

subsection \<open>\<open>returning_builders\<close>\<close>

definition builder_rx :: "string \<Rightarrow> rx" where
  "builder_rx name = RSeqs [RWordB, RLit name, RSp1, RGrp 1 RName, RSp, RLit ''('',
     RGrp 2 (RStar (RSet (CNot (CS '';{}'')))), RLit '')'', RSp, ROpt (RSeq (RLit ''const'') RSp), RLit ''{'']"

definition control_words :: "string list" where
  "control_words = [''if'', ''for'', ''while'', ''switch'']"

definition builder_at :: "string \<Rightarrow> string \<Rightarrow> rmatch \<Rightarrow> (string \<times> string list) option" where
  "builder_at name s m =
     (let fname = group_text s m 1; body = enclosing_scope s (m_end m)
      in if fname \<in> set (control_words @ [''return'']) then None
         else case re_search (instance_rx name) body of
             None \<Rightarrow> None
           | Some l \<Rightarrow>
               let fields = assigned_fields (group_text body l 1) body
               in if fields = [] then None else Some (fname, fields))"

definition returning_builders :: "string \<Rightarrow> (string, string) dict \<Rightarrow> (string, string list) dict" where
  "returning_builders name srcs =
     fold (\<lambda>(fn, fs) d. add_fields fn fs d)
       (concat (map (\<lambda>(_, s). List.map_filter (builder_at name s) (finditer (builder_rx name) s)) srcs)) []"

subsection \<open>\<open>filler_functions\<close>\<close>

definition filler_rx :: "string \<Rightarrow> rx" where
  "filler_rx name = RSeqs [RWordB, RGrp 1 RName, RSp, RLit ''('',
     RGrp 2 (RSeqs [RLazy (RSet (CNot (CS '';()''))), RWordB, RLit name, RSp, RLit ''&'', RSp,
                    RGrp 3 RName, RWordB, RLazy (RSet (CNot (CS '';()'')))]),
     RLit '')'', RSp, ROpt (RSeq (RLit ''const'') RSp), RLit ''{'']"

record filler_scan =
  fl_fields :: "(string, string list) dict"
  fl_bodies :: "(string, string) dict"
  fl_params :: "(string, string) dict"

definition filler_add :: "string \<Rightarrow> filler_scan \<Rightarrow> rmatch \<Rightarrow> filler_scan" where
  "filler_add s st m =
     (let fname = group_text s m 1; param = group_text s m 3; body = enclosing_scope s (m_end m)
      in if fname \<in> set control_words then st
         else \<lparr>fl_fields = add_fields fname (assigned_fields param body) (fl_fields st),
               fl_bodies = dict_set fname (get_or (fl_bodies st) fname [] @ body) (fl_bodies st),
               fl_params = dict_set fname param (fl_params st)\<rparr>)"

definition filler_scan_all :: "string \<Rightarrow> (string, string) dict \<Rightarrow> filler_scan" where
  "filler_scan_all name srcs =
     foldl (\<lambda>st (_, s0). let s = blank_comments s0 in foldl (filler_add s) st (finditer (filler_rx name) s))
       \<lparr>fl_fields = [], fl_bodies = [], fl_params = []\<rparr> srcs"

definition passed_rx :: "string \<Rightarrow> rx" where
  "passed_rx var = RSeqs [RGrp 1 (RAlt RBol (RSet (CNot (CUn CWord (CS ''.''))))), RLit var, RWordB]"

definition call_stmt_rx :: "string \<Rightarrow> rx" where
  "call_stmt_rx fn = RSeqs [RWordB, RLit fn, RSp, RLit ''('', RGrp 1 (RLazy (RSet (CNot (CS '';'')))),
                            RLit '')'', RSp, RLit '';'']"

text \<open>Does \<open>body\<close> hand \<open>var\<close> to a call of \<open>fn\<close>?\<close>

definition hands_to :: "string \<Rightarrow> string \<Rightarrow> string \<Rightarrow> bool" where
  "hands_to body var fn \<longleftrightarrow>
     list_ex (\<lambda>call. re_search (passed_rx var) (group_text body call 1) \<noteq> None) (finditer (call_stmt_rx fn) body)"

definition filler_calls :: "filler_scan \<Rightarrow> string \<Rightarrow> string \<Rightarrow> bool" where
  "filler_calls st fname other \<longleftrightarrow>
     hands_to (get_or (fl_bodies st) fname []) (get_or (fl_params st) fname []) other"

text \<open>
  One pair of the inner loops of the closure: what \<open>other\<close> sets, \<open>fname\<close> sets, when it hands the struct
  on.  The sets are updated in place, so a later pair of the same round sees the growth.
\<close>

definition filler_pair :: "(string \<Rightarrow> string \<Rightarrow> bool) \<Rightarrow> string \<times> string \<Rightarrow>
    (string, string list) dict \<times> bool \<Rightarrow> (string, string list) dict \<times> bool" where
  "filler_pair calls p st =
     (case (p, st) of ((fname, other), (fl, changed)) \<Rightarrow>
        let fields = get_or fl other []; mine = get_or fl fname []
        in if other = fname \<or> fields = [] \<or> \<not> calls fname other \<or> list_all (\<lambda>x. in_list x mine) fields
           then (fl, changed)
           else (dict_set fname (sorted_set (mine @ fields)) fl, True))"

definition filler_round :: "(string \<Rightarrow> string \<Rightarrow> bool) \<Rightarrow> string list \<Rightarrow> (string, string list) dict \<Rightarrow>
    (string, string list) dict \<times> bool" where
  "filler_round calls names fl =
     fold (filler_pair calls) (List.product names (keys fl)) (fl, False)"

text \<open>\<open>while changed\<close>, with the number of rounds as fuel: None if it is not enough.\<close>

fun filler_loop :: "nat \<Rightarrow> (string \<Rightarrow> string \<Rightarrow> bool) \<Rightarrow> string list \<Rightarrow> (string, string list) dict \<Rightarrow>
    (string, string list) dict option" where
  "filler_loop 0 calls names fl = None"
| "filler_loop (Suc n) calls names fl =
     (case filler_round calls names fl of
        (fl', True) \<Rightarrow> filler_loop n calls names fl'
      | (fl', False) \<Rightarrow> Some fl')"

definition all_fields :: "(string, string list) dict \<Rightarrow> string list" where
  "all_fields fl = sorted_set (concat (map snd fl))"

definition filler_fuel :: "(string, string list) dict \<Rightarrow> nat" where
  "filler_fuel fl = Suc (length fl * length (all_fields fl))"

definition filler_functions :: "string \<Rightarrow> (string, string) dict \<Rightarrow> (string, string list) dict" where
  "filler_functions name srcs =
     (let st = filler_scan_all name srcs; fl = fl_fields st
      in case filler_loop (filler_fuel fl) (filler_calls st) (keys (fl_bodies st)) fl of
           None \<Rightarrow> [] | Some fl' \<Rightarrow> filter (\<lambda>(_, fs). fs \<noteq> []) fl')"

subsection \<open>\<open>in_builder\<close> and \<open>hand_built_sites\<close>\<close>

definition in_builder :: "string \<Rightarrow> nat \<Rightarrow> string \<Rightarrow> bool" where
  "in_builder s pos name =
     (case rfind_upto s ([nl] @ name @ '' '') pos of
        None \<Rightarrow> False
      | Some head \<Rightarrow>
          (case re_match (RSeqs [RLit ([nl] @ name), RSp1, RName, RSp, RLit ''('',
               RStar (RSet (CNot (CS '';{}''))), RLit '')'', RSp, ROpt (RSeq (RLit ''const'') RSp), RLit ''{''])
               (drop head s) of
             None \<Rightarrow> False
           | Some m \<Rightarrow> head + m_end m \<le> pos))"

record site =
  st_file :: string
  st_line :: nat
  st_var :: string
  st_assigned :: "string list"
  st_ns :: "string option"

definition inst_rx :: "string \<Rightarrow> rx" where
  "inst_rx name = RSeqs [ROpt (RSeqs [RGrp 1 RName, RSp, RLit ''::'', RSp]), RWordB, RLit name, RSp1,
     RGrp 2 RName, RSp, ROpt (RSeqs [RLit ''{'', RSp, RLit ''}'']), RLit '';'']"

definition takes_from :: "string \<Rightarrow> string \<Rightarrow> string \<Rightarrow> bool" where
  "takes_from window var fn \<longleftrightarrow>
     re_search (RSeqs [RWordB, RLit var, RSp, RLit ''='', RSp, RLit fn, RSp, RLit ''('']) window \<noteq> None"

definition site_at :: "string \<Rightarrow> (string, string list) dict \<Rightarrow> (string, string list) dict \<Rightarrow>
    string \<Rightarrow> string \<Rightarrow> rmatch \<Rightarrow> site option" where
  "site_at name fillers builders f s m =
     (let var = group_text s m 2;
          window = enclosing_scope s (m_end m);
          assigned = sorted_set (assigned_fields var window
            @ concat (map (\<lambda>(fn, fs). if hands_to window var fn then fs else []) fillers)
            @ concat (map (\<lambda>(fn, fs). if takes_from window var fn then fs else []) builders))
      in if assigned \<noteq> [] \<and> \<not> in_builder s (m_start m) name
         then Some \<lparr>st_file = f, st_line = count_char nl (take (m_start m) s) + 1, st_var = var,
                    st_assigned = assigned, st_ns = group s m 1\<rparr>
         else None)"

definition hand_built_sites :: "string \<Rightarrow> (string, string) dict \<Rightarrow> (string, string list) dict \<Rightarrow>
    (string, string list) dict \<Rightarrow> site list" where
  "hand_built_sites name srcs fillers builders =
     concat (map (\<lambda>(f, s). List.map_filter (site_at name fillers builders f s) (finditer (inst_rx name) s)) srcs)"

subsection \<open>The omissions\<close>

type_synonym ledger_key = "string \<times> string \<times> string"

record omission =
  om_name :: string
  om_qual :: string
  om_qualify :: bool
  om_site :: site
  om_missing :: string
  om_nsites :: nat
  om_where :: "string list"

definition namespaces :: "struct_def list \<Rightarrow> string list" where
  "namespaces defs = sorted_set (List.map_filter sd_ns defs)"

definition qual_name :: "string \<Rightarrow> bool \<Rightarrow> struct_def \<Rightarrow> string" where
  "qual_name name qualify d =
     (case sd_ns d of Some ns \<Rightarrow> if qualify then ns @ ''::'' @ name else name | None \<Rightarrow> name)"

definition field_names :: "struct_def \<Rightarrow> string list" where
  "field_names d = sorted_set (map fst (sd_fields d))"

definition sites_for :: "bool \<Rightarrow> struct_def \<Rightarrow> site list \<Rightarrow> site list" where
  "sites_for qualify d sites =
     filter (\<lambda>s. list_all (\<lambda>x. in_list x (field_names d)) (st_assigned s)
                \<and> (\<not> qualify \<or> st_ns s = None \<or> st_ns s = sd_ns d)) sites"

definition omissions_at :: "string \<Rightarrow> bool \<Rightarrow> string list \<Rightarrow> struct_def \<Rightarrow> site list \<Rightarrow> omission list" where
  "omissions_at name qualify nss d sites =
     (if length sites < 2 then []
      else let union = concat (map st_assigned sites)
           in concat (map (\<lambda>s. map (\<lambda>missing.
                \<lparr>om_name = name, om_qual = qual_name name qualify d, om_qualify = qualify, om_site = s,
                 om_missing = missing, om_nsites = length sites, om_where = nss\<rparr>)
                (sorted_set (filter (\<lambda>x. \<not> in_list x (st_assigned s) \<and> in_list x (field_names d)) union)))
              sites))"

definition struct_omissions :: "(string, string) dict \<Rightarrow> string \<times> struct_def list \<Rightarrow> omission list" where
  "struct_omissions srcs nd =
     (case nd of (name, defs) \<Rightarrow>
        let sites = hand_built_sites name srcs (filler_functions name srcs) (returning_builders name srcs);
            nss = namespaces defs; qualify = (1 < length nss)
        in concat (map (\<lambda>d. omissions_at name qualify nss d (sites_for qualify d sites)) defs))"

definition struct_evaluated :: "(string, string) dict \<Rightarrow> string \<times> struct_def list \<Rightarrow> string list" where
  "struct_evaluated srcs nd =
     (case nd of (name, defs) \<Rightarrow>
        let sites = hand_built_sites name srcs (filler_functions name srcs) (returning_builders name srcs);
            qualify = (1 < length (namespaces defs))
        in map (qual_name name qualify)
             (filter (\<lambda>d. \<not> length (sites_for qualify d sites) < 2) defs))"

subsection \<open>The verdict\<close>

text \<open>The ledger: three words to a line, the value is the whole line.\<close>

definition da_allow :: "string \<Rightarrow> (ledger_key, string) dict" where
  "da_allow t =
     fold (\<lambda>l d. case split_ws (strip (hd (split_once (CHR ''#'') l))) of
                   [a, b, c] \<Rightarrow> dict_set (a, b, c) (strip l) d | _ \<Rightarrow> d) (split_on nl t) []"

record da_state =
  da_used :: "ledger_key list"
  da_unlisted :: "omission list"
  da_ambiguous :: "omission list"

definition om_seen_key :: "fsys \<Rightarrow> omission \<Rightarrow> string \<times> string \<times> nat \<times> string \<times> string" where
  "om_seen_key fs o1 =
     (om_qual o1, fs_relpath fs (st_file (om_site o1)), st_line (om_site o1), st_var (om_site o1), om_missing o1)"

definition om_key :: "omission \<Rightarrow> ledger_key" where
  "om_key o1 = (om_qual o1, st_var (om_site o1), om_missing o1)"

definition om_star :: "omission \<Rightarrow> ledger_key" where
  "om_star o1 = (om_qual o1, st_var (om_site o1), ''*'')"

definition om_bare :: "omission \<Rightarrow> ledger_key" where
  "om_bare o1 = (om_name o1, st_var (om_site o1), om_missing o1)"

definition listed :: "(ledger_key, string) dict \<Rightarrow> ledger_key \<Rightarrow> bool" where
  "listed allow k \<longleftrightarrow> dict_get allow k \<noteq> None"

text \<open>The innermost body of the loop, for one omission.\<close>

definition da_step :: "fsys \<Rightarrow> (ledger_key, string) dict \<Rightarrow> omission \<Rightarrow> da_state \<Rightarrow> da_state" where
  "da_step fs allow o1 st0 =
     (let st = (if om_qualify o1 \<and> listed allow (om_bare o1)
                then st0\<lparr>da_ambiguous := da_ambiguous st0 @ [o1], da_used := da_used st0 @ [om_bare o1]\<rparr>
                else st0)
      in if listed allow (om_key o1) then st\<lparr>da_used := da_used st @ [om_key o1]\<rparr>
         else if listed allow (om_star o1) then st\<lparr>da_used := da_used st @ [om_star o1]\<rparr>
         else if om_seen_key fs o1 \<notin> om_seen_key fs ` set (da_unlisted st)
              then st\<lparr>da_unlisted := da_unlisted st @ [o1]\<rparr> else st)"

definition da_run :: "fsys \<Rightarrow> (ledger_key, string) dict \<Rightarrow> omission list \<Rightarrow> da_state" where
  "da_run fs allow oms =
     fold (da_step fs allow) oms \<lparr>da_used = [], da_unlisted = [], da_ambiguous = []\<rparr>"

definition da_stale :: "(ledger_key, string) dict \<Rightarrow> da_state \<Rightarrow> string list \<Rightarrow> ledger_key list" where
  "da_stale allow st evaluated =
     sorted_set (filter (\<lambda>k. \<not> in_list k (da_used st) \<and> in_list (fst k) evaluated) (keys allow))"

fun da_args :: "string list \<Rightarrow> string option \<times> string list \<Rightarrow> (string option \<times> string list) res" where
  "da_args [] acc = Inr acc"
| "da_args (a # as) (allow, dirs) =
     (if a = ''--allow'' then (case as of [] \<Rightarrow> Inl IndexError | v # rest \<Rightarrow> da_args rest (Some v, dirs))
      else da_args as (allow, dirs @ [a]))"

definition da_report :: "fsys \<Rightarrow> nat \<Rightarrow> da_state \<Rightarrow> ledger_key list \<Rightarrow> (ledger_key, string) dict \<Rightarrow> string list" where
  "da_report fs nstructs st stale allow =
     map (\<lambda>u. ''UNLISTED  '' @ ljust 40 (om_qual u) @ '' '' @ fs_relpath fs (st_file (om_site u)) @ '':''
        @ show_nat (st_line (om_site u)) @ ''  '' @ ljust 10 (st_var (om_site u)) @ '' field `''
        @ om_missing u @ ''` set at another of the '' @ show_nat (om_nsites u) @ '' sites, not here'')
       (da_unlisted st)
     @ map (\<lambda>u. ''AMBIGUOUS '' @ om_name u @ '' '' @ st_var (om_site u) @ '' '' @ om_missing u @ '' -- `''
        @ om_name u @ ''` is defined in namespace '' @ join '' and '' (om_where u)
        @ ''; name the one this line is about, as `<namespace>::'' @ om_name u @ '' ''
        @ st_var (om_site u) @ '' '' @ om_missing u @ ''`'') (da_ambiguous st)
     @ map (\<lambda>k. ''STALE     '' @ get_or allow k [] @ '' -- no such omission any more; remove the entry'') stale
     @ [''default_audit: '' @ show_nat nstructs @ '' structs with defaults, ''
        @ show_nat (length (da_unlisted st)) @ '' unlisted omissions, ''
        @ show_nat (length (da_ambiguous st)) @ '' ambiguous entries, '' @ show_nat (length stale)
        @ '' stale entries'']"

definition all_omissions :: "(string, string) dict \<Rightarrow> omission list" where
  "all_omissions srcs = concat (map (struct_omissions srcs) (sort_key fst (parse_structs srcs)))"

definition da_main :: "fsys \<Rightarrow> string list \<Rightarrow> (nat \<times> string list) res" where
  "da_main fs argv =
     bindR (da_args argv (None, [])) (\<lambda>(allow_path, dirs).
     bindR (mapR (\<lambda>f. bindR (read_text fs f) (\<lambda>t. Inr (f, t))) (walk_files fs cu_suffixes dirs)) (\<lambda>rows.
     bindR (case allow_path of None \<Rightarrow> Inr []
            | Some p \<Rightarrow> if p \<noteq> [] \<and> fs_exists fs p
                       then bindR (read_text fs p) (\<lambda>t. Inr (da_allow t)) else Inr []) (\<lambda>allow.
       let srcs = dict_update [] rows;
           structs = sort_key fst (parse_structs srcs);
           st = da_run fs allow (all_omissions srcs);
           evaluated = concat (map (struct_evaluated srcs) structs);
           stale = da_stale allow st evaluated
       in Inr (if da_unlisted st \<noteq> [] \<or> da_ambiguous st \<noteq> [] \<or> stale \<noteq> [] then 1 else 0,
               da_report fs (length structs) st stale allow))))"


subsection \<open>The closure over readers that hand the struct on\<close>

text \<open>
  What the \<open>while changed\<close> loop has to compute: a reader sets a field when its own body assigns it,
  or when it hands the struct to a reader that sets it.
\<close>

inductive fills :: "(string \<Rightarrow> string \<Rightarrow> bool) \<Rightarrow> string list \<Rightarrow> (string, string list) dict \<Rightarrow>
    string \<Rightarrow> string \<Rightarrow> bool"
  for calls names fl where
  own: "x \<in> set (get_or fl f []) \<Longrightarrow> fills calls names fl f x"
| handed: "f \<in> set names \<Longrightarrow> g \<in> set (keys fl) \<Longrightarrow> calls f g \<Longrightarrow> fills calls names fl g x
    \<Longrightarrow> fills calls names fl f x"

abbreviation fields_of :: "(string, string list) dict \<Rightarrow> string \<Rightarrow> string set" where
  "fields_of fl f \<equiv> set (get_or fl f [])"

definition grows_to :: "(string, string list) dict \<Rightarrow> (string, string list) dict \<Rightarrow> bool" where
  "grows_to fl fl' \<longleftrightarrow> keys fl' = keys fl \<and> (\<forall>f. fields_of fl f \<subseteq> fields_of fl' f)"

lemma grows_to_refl [simp]: "grows_to fl fl"
  by (simp add: grows_to_def)

lemma grows_to_trans: "grows_to a b \<Longrightarrow> grows_to b c \<Longrightarrow> grows_to a c"
  by (auto simp: grows_to_def)

lemma get_or_set [simp, pydict]:
  "get_or (dict_set k v d) j x = (if j = k then v else get_or d j x)"
  by (simp add: get_or_def)

lemma filler_pair_cases:
  obtains (same) "filler_pair calls (f, g) (fl, c) = (fl, c)"
      "calls f g \<Longrightarrow> fields_of fl g \<subseteq> fields_of fl f"
  | (grown) "filler_pair calls (f, g) (fl, c)
        = (dict_set f (sorted_set (get_or fl f [] @ get_or fl g [])) fl, True)"
      "calls f g" "\<not> fields_of fl g \<subseteq> fields_of fl f"
proof (cases "g = f \<or> get_or fl g [] = [] \<or> \<not> calls f g
    \<or> list_all (\<lambda>x. in_list x (get_or fl f [])) (get_or fl g [])")
  case True
  then have "filler_pair calls (f, g) (fl, c) = (fl, c)"
    by (simp add: filler_pair_def Let_def)
  moreover have "calls f g \<Longrightarrow> fields_of fl g \<subseteq> fields_of fl f"
    using True by (auto simp: list_all_iff)
  ultimately show ?thesis by (rule same)
next
  case False
  then show ?thesis
    by (intro grown) (auto simp: filler_pair_def Let_def list_all_iff)
qed

lemma filler_pair_grows:
  assumes "filler_pair calls (f, g) (fl, c) = (fl', c')" and "f \<in> set (keys fl)"
  shows "grows_to fl fl'"
  by (rule filler_pair_cases [of calls f g fl c])
     (use assms in \<open>auto simp: grows_to_def keys_dict_set\<close>)

lemma filler_pair_sound:
  assumes "filler_pair calls (f, g) (fl, c) = (fl', c')" "f \<in> set names" "g \<in> set (keys fl0)"
    and "\<And>h x. x \<in> fields_of fl h \<Longrightarrow> fills calls names fl0 h x"
    and "x \<in> fields_of fl' h"
  shows "fills calls names fl0 h x"
proof (rule filler_pair_cases [of calls f g fl c])
  assume "filler_pair calls (f, g) (fl, c) = (fl, c)"
  with assms show ?thesis by auto
next
  assume e: "filler_pair calls (f, g) (fl, c)
      = (dict_set f (sorted_set (get_or fl f [] @ get_or fl g [])) fl, True)" and "calls f g"
  then have g: "\<And>y. y \<in> fields_of fl g \<Longrightarrow> fills calls names fl0 f y"
    using assms(2-4) fills.handed by blast
  have "x \<in> fields_of (dict_set f (sorted_set (get_or fl f [] @ get_or fl g [])) fl) h"
    using e assms(1,5) by simp
  then show ?thesis using g assms(4) by (auto split: if_splits)
qed

text \<open>The number of (reader, field) pairs: every round that reports a change increases it.\<close>

definition weight :: "(string, string list) dict \<Rightarrow> nat" where
  "weight fl = sum_list (map (\<lambda>(_, fs). card (set fs)) fl)"

lemma weight_set:
  "k \<in> set (keys fl) \<Longrightarrow> weight (dict_set k v fl) + card (fields_of fl k) = weight fl + card (set v)"
proof (induction fl)
  case (Cons x fl)
  obtain k' fs where x: "x = (k', fs)" by fastforce
  show ?case
  proof (cases "k' = k")
    case True
    then show ?thesis by (simp add: x weight_def get_or_def dict_get_def)
  next
    case False
    with Cons.prems x have "k \<in> set (keys fl)" by auto
    from Cons.IH [OF this] False show ?thesis by (simp add: x weight_def get_or_def dict_get_def)
  qed
qed simp

lemma filler_pair_weight:
  assumes "filler_pair calls (f, g) (fl, c) = (fl', c')" and "f \<in> set (keys fl)"
  shows "weight fl \<le> weight fl' \<and> (c \<longrightarrow> c') \<and> (c' \<and> \<not> c \<longrightarrow> weight fl < weight fl')"
proof (rule filler_pair_cases [of calls f g fl c])
  assume "filler_pair calls (f, g) (fl, c) = (fl, c)"
  with assms show ?thesis by auto
next
  let ?v = "sorted_set (get_or fl f [] @ get_or fl g [])"
  assume e: "filler_pair calls (f, g) (fl, c) = (dict_set f ?v fl, True)"
    and n: "\<not> fields_of fl g \<subseteq> fields_of fl f"
  have "card (fields_of fl f) < card (set ?v)"
    by (rule psubset_card_mono) (use n in auto)
  with weight_set [OF assms(2), of ?v] e assms(1) show ?thesis by auto
qed

lemma filler_pairs_facts:
  assumes "fold (filler_pair calls) ps (fl, c) = (fl', c')" and "fst ` set ps \<subseteq> set (keys fl)"
  shows "grows_to fl fl' \<and> weight fl \<le> weight fl' \<and> (c \<longrightarrow> c') \<and> (c' \<and> \<not> c \<longrightarrow> weight fl < weight fl')"
  using assms
proof (induction ps arbitrary: fl c)
  case (Cons p ps)
  obtain f g where p: "p = (f, g)" by fastforce
  obtain fl1 c1 where 1: "filler_pair calls (f, g) (fl, c) = (fl1, c1)" by fastforce
  have f: "f \<in> set (keys fl)" using Cons.prems p by auto
  note g1 = filler_pair_grows [OF 1 f] and w1 = filler_pair_weight [OF 1 f]
  have "fst ` set ps \<subseteq> set (keys fl1)"
    using Cons.prems(2) g1 by (auto simp: grows_to_def)
  moreover have "fold (filler_pair calls) ps (fl1, c1) = (fl', c')"
    using Cons.prems(1) 1 p by simp
  ultimately have 2: "grows_to fl1 fl' \<and> weight fl1 \<le> weight fl' \<and> (c1 \<longrightarrow> c')
      \<and> (c' \<and> \<not> c1 \<longrightarrow> weight fl1 < weight fl')"
    using Cons.IH by blast
  then show ?case using g1 w1 grows_to_trans by (meson le_trans less_le_trans le_less_trans)
qed simp

lemma filler_pairs_sound:
  assumes "fold (filler_pair calls) ps (fl, c) = (fl', c')"
    and "set ps \<subseteq> set names \<times> set (keys fl0)"
    and "\<And>h x. x \<in> fields_of fl h \<Longrightarrow> fills calls names fl0 h x"
    and "x \<in> fields_of fl' h"
  shows "fills calls names fl0 h x"
  using assms
proof (induction ps arbitrary: fl c)
  case (Cons p ps)
  obtain f g where p: "p = (f, g)" by fastforce
  obtain fl1 c1 where 1: "filler_pair calls (f, g) (fl, c) = (fl1, c1)" by fastforce
  have fg: "f \<in> set names" "g \<in> set (keys fl0)" using Cons.prems(2) p by auto
  have "\<And>h x. x \<in> fields_of fl1 h \<Longrightarrow> fills calls names fl0 h x"
    by (rule filler_pair_sound [OF 1 fg Cons.prems(3)])
  moreover have "fold (filler_pair calls) ps (fl1, c1) = (fl', c')"
    using Cons.prems(1) 1 p by simp
  ultimately show ?case using Cons.prems(2,4) by (intro Cons.IH) auto
qed simp

text \<open>A round that reports no change has changed nothing, and nothing is left to hand on.\<close>

lemma filler_pairs_quiet:
  assumes "fold (filler_pair calls) ps (fl, False) = (fl', False)" and "fst ` set ps \<subseteq> set (keys fl)"
  shows "fl' = fl \<and> (\<forall>(f, g) \<in> set ps. calls f g \<longrightarrow> fields_of fl g \<subseteq> fields_of fl f)"
  using assms
proof (induction ps)
  case (Cons p ps)
  obtain f g where p: "p = (f, g)" by fastforce
  show ?case
  proof (rule filler_pair_cases [of calls f g fl False])
    assume "filler_pair calls (f, g) (fl, False) = (fl, False)"
      "calls f g \<Longrightarrow> fields_of fl g \<subseteq> fields_of fl f"
    with Cons p show ?thesis by auto
  next
    let ?fl1 = "dict_set f (sorted_set (get_or fl f [] @ get_or fl g [])) fl"
    assume "filler_pair calls (f, g) (fl, False) = (?fl1, True)"
    then have "fold (filler_pair calls) ps (?fl1, True) = (fl', False)" using Cons.prems(1) p by simp
    moreover have "fst ` set ps \<subseteq> set (keys ?fl1)"
      using Cons.prems(2) by (auto simp: keys_dict_set)
    ultimately show ?thesis using filler_pairs_facts by blast
  qed
qed simp


lemma round_pairs: "fst ` set (List.product names ks) \<subseteq> set names"
  by auto

lemma filler_loop_exact:
  assumes "filler_loop n calls names fl = Some fl'" and "set names \<subseteq> set (keys fl)"
    and "keys fl = keys fl0" and "\<And>h. fields_of fl0 h \<subseteq> fields_of fl h"
    and "\<And>h x. x \<in> fields_of fl h \<Longrightarrow> fills calls names fl0 h x"
  shows "keys fl' = keys fl0 \<and> (\<forall>h x. x \<in> fields_of fl' h \<longleftrightarrow> fills calls names fl0 h x)"
  using assms
proof (induction n arbitrary: fl)
  case (Suc n)
  obtain fl1 c where r: "filler_round calls names fl = (fl1, c)" by fastforce
  then have fold: "fold (filler_pair calls) (List.product names (keys fl)) (fl, False) = (fl1, c)"
    by (simp add: filler_round_def)
  have sub: "fst ` set (List.product names (keys fl)) \<subseteq> set (keys fl)"
    using Suc.prems(2) by auto
  show ?case
  proof (cases c)
    case True
    note facts = filler_pairs_facts [OF fold sub]
    have s1: "\<And>h x. x \<in> fields_of fl1 h \<Longrightarrow> fills calls names fl0 h x"
      by (rule filler_pairs_sound [OF fold _ Suc.prems(5)]) (auto simp: Suc.prems(3))
    have k: "keys fl1 = keys fl" and g: "\<And>h. fields_of fl h \<subseteq> fields_of fl1 h"
      using facts by (auto simp: grows_to_def)
    show ?thesis
    proof (rule Suc.IH [of fl1])
      show "fields_of fl0 h \<subseteq> fields_of fl1 h" for h
        using Suc.prems(4) g by (rule order_trans)
    qed (use Suc.prems(1-3) r True k s1 in simp_all)
  next
    case False
    then have q: "fl1 = fl" "\<And>f g. f \<in> set names \<Longrightarrow> g \<in> set (keys fl) \<Longrightarrow> calls f g
        \<Longrightarrow> fields_of fl g \<subseteq> fields_of fl f"
    proof -
      note quiet = filler_pairs_quiet [OF _ sub, of calls fl1]
      from quiet fold False have q1: "fl1 = fl" and
        q2: "\<forall>(f, g) \<in> set (List.product names (keys fl)). calls f g \<longrightarrow> fields_of fl g \<subseteq> fields_of fl f"
        by simp_all
      show "fl1 = fl" by (rule q1)
      fix f g assume "f \<in> set names" "g \<in> set (keys fl)" "calls f g"
      then have "(f, g) \<in> set (List.product names (keys fl))" by simp
      with q2 \<open>calls f g\<close> show "fields_of fl g \<subseteq> fields_of fl f" by fast
    qed
    have "fills calls names fl0 h x \<Longrightarrow> x \<in> fields_of fl h" for h x
    proof (induction rule: fills.induct)
      case (own x f)
      then show ?case using Suc.prems(4) by blast
    next
      case (handed f g x)
      then have "g \<in> set (keys fl)" using Suc.prems(3) by simp
      with q(2) [OF handed(1) this handed(3)] handed show ?case by blast
    qed
    moreover have "fl' = fl" using Suc.prems(1) r False q(1) by simp
    ultimately show ?thesis using Suc.prems(3,5) by blast
  qed
qed simp

lemma weight_bound:
  assumes "\<And>f. fields_of fl f \<subseteq> U" and "finite U" and "dict_ok fl"
  shows "weight fl \<le> length fl * card U"
proof -
  have "card (set fs) \<le> card U" if "(f, fs) \<in> set fl" for f fs
  proof -
    have "get_or fl f [] = fs" using that assms(3) dict_get_mem_iff by (fastforce simp: get_or_def)
    then show ?thesis using assms(1,2) card_mono by metis
  qed
  then have "sum_list (map (\<lambda>(_, fs). card (set fs)) fl) \<le> sum_list (map (\<lambda>_. card U) fl)"
    by (intro sum_list_mono) auto
  then show ?thesis by (simp add: weight_def sum_list_triv)
qed

lemma filler_loop_returns:
  assumes "length fl * card U < n + weight fl" and "set names \<subseteq> set (keys fl)" and "finite U" and "dict_ok fl"
    and "\<And>h x. x \<in> fields_of fl h \<Longrightarrow> fills calls names fl0 h x" and "keys fl = keys fl0"
    and "\<And>h x. fills calls names fl0 h x \<Longrightarrow> x \<in> U"
  shows "\<exists>fl'. filler_loop n calls names fl = Some fl'"
  using assms
proof (induction n arbitrary: fl)
  case 0
  have "weight fl \<le> length fl * card U"
    by (rule weight_bound) (use 0 in blast)+
  with 0 show ?case by simp
next
  case (Suc n)
  obtain fl1 c where r: "filler_round calls names fl = (fl1, c)" by fastforce
  then have fold: "fold (filler_pair calls) (List.product names (keys fl)) (fl, False) = (fl1, c)"
    by (simp add: filler_round_def)
  have sub: "fst ` set (List.product names (keys fl)) \<subseteq> set (keys fl)"
    using Suc.prems(2) by auto
  note facts = filler_pairs_facts [OF fold sub]
  show ?case
  proof (cases c)
    case True
    have s1: "\<And>h x. x \<in> fields_of fl1 h \<Longrightarrow> fills calls names fl0 h x"
      by (rule filler_pairs_sound [OF fold _ Suc.prems(5)]) (auto simp: Suc.prems(6))
    have k: "keys fl1 = keys fl" using facts by (simp add: grows_to_def)
    then have "length fl1 = length fl" by (metis length_map)
    then have "length fl1 * card U < n + weight fl1" using facts True Suc.prems(1) by simp
    then have "\<exists>fl'. filler_loop n calls names fl1 = Some fl'"
      by (rule Suc.IH) (use Suc.prems s1 k in \<open>auto simp: dict_ok_def\<close>)
    with r True show ?thesis by simp
  qed (use r in simp)
qed

lemma fills_in_all_fields: "fills calls names fl h x \<Longrightarrow> x \<in> set (all_fields fl)"
proof (induction rule: fills.induct)
  case (own x f)
  then obtain fs where "(f, fs) \<in> set fl" "x \<in> set fs"
    by (cases "dict_get fl f") (auto simp: get_or_def dest: dict_get_Some_mem)
  then show ?case by (force simp: all_fields_def)
qed

lemma filler_loop_fills:
  assumes "dict_ok fl" and "set names \<subseteq> set (keys fl)"
  obtains fl' where "filler_loop (filler_fuel fl) calls names fl = Some fl'"
    "keys fl' = keys fl" "\<And>h. fields_of fl' h = {x. fills calls names fl h x}"
proof -
  have "card (set (all_fields fl)) = length (all_fields fl)"
    by (rule distinct_card) (simp add: all_fields_def)
  then have "length fl * card (set (all_fields fl)) < filler_fuel fl + weight fl"
    by (simp add: filler_fuel_def)
  then obtain fl' where fl': "filler_loop (filler_fuel fl) calls names fl = Some fl'"
    using filler_loop_returns [of fl "set (all_fields fl)" _ names calls fl] assms
      fills.own fills_in_all_fields by (metis List.finite_set)
  have "keys fl' = keys fl \<and> (\<forall>h x. x \<in> fields_of fl' h \<longleftrightarrow> fills calls names fl h x)"
    by (rule filler_loop_exact [OF fl' assms(2)]) (simp_all add: fills.own)
  with fl' that show ?thesis by blast
qed

definition scan_keys_ok :: "filler_scan \<Rightarrow> bool" where
  "scan_keys_ok st \<longleftrightarrow> keys (fl_bodies st) = keys (fl_fields st) \<and> dict_ok (fl_fields st)"

lemma filler_add_keys: "scan_keys_ok st \<Longrightarrow> scan_keys_ok (filler_add s st m)"
  by (simp add: scan_keys_ok_def filler_add_def Let_def add_fields_def keys_dict_set)

lemma foldl_invariant:
  "I s \<Longrightarrow> (\<And>s x. x \<in> set xs \<Longrightarrow> I s \<Longrightarrow> I (f s x)) \<Longrightarrow> I (foldl f s xs)"
  by (induction xs arbitrary: s) auto

lemma filler_scan_keys: "scan_keys_ok (filler_scan_all name srcs)"
  unfolding filler_scan_all_def
proof (rule foldl_invariant [where I = scan_keys_ok])
  show "scan_keys_ok \<lparr>fl_fields = [], fl_bodies = [], fl_params = []\<rparr>"
    by (simp add: scan_keys_ok_def)
next
  fix st and x :: "string \<times> string"
  assume "scan_keys_ok st"
  then show "scan_keys_ok (case x of (_, s0) \<Rightarrow> let s = blank_comments s0
      in foldl (filler_add s) st (finditer (filler_rx name) s))"
    by (simp add: Let_def split_def foldl_invariant [where I = scan_keys_ok] filler_add_keys)
qed

text \<open>\<open>filler_functions\<close> returns exactly the readers that set a field, each with all it sets.\<close>

lemma map_of_filter_values:
  "distinct (map fst d) \<Longrightarrow> map_of (filter (\<lambda>(_, v). P v) d) k
    = (case map_of d k of None \<Rightarrow> None | Some v \<Rightarrow> if P v then Some v else None)"
proof (induction d)
  case (Cons x d)
  obtain k' v where x: "x = (k', v)" by fastforce
  show ?case
  proof (cases "k' = k")
    case True
    then have "k \<notin> fst ` set d" using Cons.prems x by auto
    then have "map_of d k = None" by (simp add: map_of_eq_None_iff)
    then show ?thesis using Cons x True by simp
  qed (use Cons x in simp)
qed simp

lemma get_or_filter:
  "dict_ok d \<Longrightarrow> get_or (filter (\<lambda>(_, fs). fs \<noteq> []) d) k [] = get_or d k []"
  unfolding get_or_def dict_get_def dict_ok_def
  by (subst map_of_filter_values) (auto split: option.splits)

lemma filler_functions_fills:
  fixes name :: string and srcs :: "(string, string) dict"
  defines "st \<equiv> filler_scan_all name srcs"
  shows "fields_of (filler_functions name srcs) f
    = {x. fills (filler_calls st) (keys (fl_bodies st)) (fl_fields st) f x}"
proof -
  have ok: "dict_ok (fl_fields st)" "set (keys (fl_bodies st)) \<subseteq> set (keys (fl_fields st))"
    using filler_scan_keys by (simp_all add: st_def scan_keys_ok_def)
  obtain fl' where fl': "filler_loop (filler_fuel (fl_fields st)) (filler_calls st) (keys (fl_bodies st)) (fl_fields st) = Some fl'"
    "keys fl' = keys (fl_fields st)"
    "\<And>h. fields_of fl' h = {x. fills (filler_calls st) (keys (fl_bodies st)) (fl_fields st) h x}"
    using filler_loop_fills [OF ok, of "filler_calls st"] by blast
  have "dict_ok fl'" using fl'(2) ok(1) by (simp add: dict_ok_def)
  then have "get_or (filler_functions name srcs) f [] = get_or fl' f []"
    using fl'(1) by (simp add: filler_functions_def Let_def st_def get_or_filter)
  then show ?thesis using fl'(3) by simp
qed

subsection \<open>Omissions and the verdict\<close>

text \<open>An omission is a field of the definition, set at another site that builds it and not at this one.\<close>

lemma omissions_at_iff:
  "o1 \<in> set (omissions_at name qualify nss d sites) \<longleftrightarrow>
     2 \<le> length sites \<and> om_site o1 \<in> set sites
     \<and> om_missing o1 \<in> set (field_names d) \<and> om_missing o1 \<notin> set (st_assigned (om_site o1))
     \<and> (\<exists>s \<in> set sites. om_missing o1 \<in> set (st_assigned s))
     \<and> o1 = \<lparr>om_name = name, om_qual = qual_name name qualify d, om_qualify = qualify, om_site = om_site o1,
            om_missing = om_missing o1, om_nsites = length sites, om_where = nss\<rparr>"
  by (cases o1) (auto simp: omissions_at_def Let_def)

lemma da_step_unlisted:
  "da_unlisted (da_step fs allow o1 st) =
     (if listed allow (om_key o1) \<or> listed allow (om_star o1)
         \<or> om_seen_key fs o1 \<in> om_seen_key fs ` set (da_unlisted st)
      then da_unlisted st else da_unlisted st @ [o1])"
  by (simp add: da_step_def Let_def)

lemma da_step_ambiguous:
  "da_ambiguous (da_step fs allow o1 st) =
     da_ambiguous st @ (if om_qualify o1 \<and> listed allow (om_bare o1) then [o1] else [])"
  by (simp add: da_step_def Let_def)

definition uses :: "(ledger_key, string) dict \<Rightarrow> omission \<Rightarrow> ledger_key set" where
  "uses allow o1 =
     {k. listed allow k \<and> (om_qualify o1 \<and> k = om_bare o1 \<or> k = om_key o1
                           \<or> \<not> listed allow (om_key o1) \<and> k = om_star o1)}"

lemma da_step_used: "set (da_used (da_step fs allow o1 st)) = set (da_used st) \<union> uses allow o1"
  by (auto simp: da_step_def Let_def uses_def)

lemma da_fold_facts:
  "set (da_used (fold (da_step fs allow) oms st)) = set (da_used st) \<union> (\<Union>o1 \<in> set oms. uses allow o1)"
  "da_ambiguous (fold (da_step fs allow) oms st) =
     da_ambiguous st @ filter (\<lambda>o1. om_qualify o1 \<and> listed allow (om_bare o1)) oms"
  by (induction oms arbitrary: st) (auto simp: da_step_used da_step_ambiguous)

lemma da_fold_unlisted:
  "om_seen_key fs ` set (da_unlisted (fold (da_step fs allow) oms st)) =
     om_seen_key fs ` set (da_unlisted st)
     \<union> om_seen_key fs ` {o1 \<in> set oms. \<not> listed allow (om_key o1) \<and> \<not> listed allow (om_star o1)}"
proof (induction oms arbitrary: st)
  case (Cons a oms)
  show ?case
    by (auto simp: Cons.IH da_step_unlisted)
qed simp

lemma da_fold_distinct:
  "distinct (map (om_seen_key fs) (da_unlisted st)) \<Longrightarrow>
   distinct (map (om_seen_key fs) (da_unlisted (fold (da_step fs allow) oms st)))"
  by (induction oms arbitrary: st) (auto simp: da_step_unlisted)

lemma da_run_facts:
  "set (da_used (da_run fs allow oms)) = (\<Union>o1 \<in> set oms. uses allow o1)"
  "da_ambiguous (da_run fs allow oms) = filter (\<lambda>o1. om_qualify o1 \<and> listed allow (om_bare o1)) oms"
  "om_seen_key fs ` set (da_unlisted (da_run fs allow oms)) =
     om_seen_key fs ` {o1 \<in> set oms. \<not> listed allow (om_key o1) \<and> \<not> listed allow (om_star o1)}"
  "distinct (map (om_seen_key fs) (da_unlisted (da_run fs allow oms)))"
  by (simp_all add: da_run_def da_fold_facts da_fold_unlisted da_fold_distinct)

lemma da_unlisted_empty_iff:
  "da_unlisted (da_run fs allow oms) = [] \<longleftrightarrow>
     (\<forall>o1 \<in> set oms. listed allow (om_key o1) \<or> listed allow (om_star o1))"
proof -
  have "da_unlisted (da_run fs allow oms) = [] \<longleftrightarrow> om_seen_key fs ` set (da_unlisted (da_run fs allow oms)) = {}"
    by simp
  also have "\<dots> \<longleftrightarrow> (\<forall>o1 \<in> set oms. listed allow (om_key o1) \<or> listed allow (om_star o1))"
    unfolding da_run_facts(3) by auto
  finally show ?thesis .
qed

lemma da_stale_iff:
  "k \<in> set (da_stale allow (da_run fs allow oms) evaluated) \<longleftrightarrow>
     listed allow k \<and> fst k \<in> set evaluated \<and> (\<forall>o1 \<in> set oms. k \<notin> uses allow o1)"
  by (auto simp: da_stale_def da_run_facts listed_def dict_get_None_iff)

subsection \<open>Properties\<close>

text \<open>C7: The readers of a struct and the fields each sets: the closing loop always ends, and its result is the least one
  closed under handing the struct on, i.e. a reader has a field exactly when its own body assigns it or it
  hands the struct to a reader that has it.\<close>

theorem filler_functions_are_the_closure:
  "set (get_or (filler_functions name srcs) f [])
     = {x. fills (filler_calls (filler_scan_all name srcs)) (keys (fl_bodies (filler_scan_all name srcs)))
             (fl_fields (filler_scan_all name srcs)) f x}"
  by (rule filler_functions_fills)

text \<open>An omission is exactly a field of the struct's definition that another of at least two sites building it sets and this
  site does not.\<close>

theorem omission_iff:
  "o1 \<in> set (omissions_at name qualify nss d sites) \<longleftrightarrow>
     2 \<le> length sites \<and> om_site o1 \<in> set sites
     \<and> om_missing o1 \<in> set (field_names d) \<and> om_missing o1 \<notin> set (st_assigned (om_site o1))
     \<and> om_missing o1 \<in> \<Union> (set ` st_assigned ` set sites)
     \<and> o1 = \<lparr>om_name = name, om_qual = qual_name name qualify d, om_qualify = qualify, om_site = om_site o1,
            om_missing = om_missing o1, om_nsites = length sites, om_where = nss\<rparr>"
  unfolding omissions_at_iff by blast


text \<open>The namespace the default audit gives a struct is the last one opened before it, closed or not.\<close>

theorem namespace_of_a_closed_one: "namespace_of ''namespace a { } struct S'' 16 = Some ''a''"
  by code_simp

end
