(* ===== verification/Elf_Hash.thy ===== *)
theory Elf_Hash
  imports Py_Prelude
begin

text \<open>
  \<open>loadedBytesHash\<close> of \<open>src/tools/ctest_cached.py\<close>: the fingerprint of a 64-bit little-endian ELF file
  by the sections it loads.  \<open>struct.unpack_from\<close> and \<open>struct.pack\<close> at the widths the function uses,
  the reads of an open file (\<open>seek\<close> and \<open>read\<close>, with their range errors), the loop that feeds
  a section to the digest in blocks, and the function itself.  The digest is a parameter \<open>sha\<close>
  (bytes to hexadecimal text).  The lemmas show that what is hashed is the encoding of the list of
  loaded sections, that this encoding is injective on files whose loaded sections are complete, and that
  a byte outside the header, the section table, the names and the loaded sections has no influence.
\<close>

subsection \<open>Little-endian integers\<close>

definition le_nat :: "string \<Rightarrow> nat" where
  "le_nat bs = foldr (\<lambda>c n. of_char c + 256 * n) bs 0"

fun le_bytes :: "nat \<Rightarrow> nat \<Rightarrow> string" where
  "le_bytes 0 n = []"
| "le_bytes (Suc w) n = char_of (n mod 256) # le_bytes w (n div 256)"

definition unpack_le :: "nat \<Rightarrow> string \<Rightarrow> nat \<Rightarrow> nat" where
  "unpack_le w b off = le_nat (take w (drop off b))"

lemma length_le_bytes [simp]: "length (le_bytes w n) = w"
  by (induction w arbitrary: n) simp_all

lemma le_nat_Nil [simp]: "le_nat [] = 0"
  by (simp add: le_nat_def)

lemma le_nat_Cons [simp]: "le_nat (c # cs) = of_char c + 256 * le_nat cs"
  by (simp add: le_nat_def)

lemma le_nat_bytes [simp]: "le_nat (le_bytes w n) = n mod 256 ^ w"
proof (induction w arbitrary: n)
  case (Suc w)
  have "n mod 256 ^ Suc w = n mod 256 + 256 * (n div 256 mod 256 ^ w)"
    by (simp add: mod_mult2_eq)
  with Suc show ?case by simp
qed simp

lemma le_nat_bound: "le_nat bs < 256 ^ length bs"
proof (induction bs)
  case (Cons c bs)
  have "d + 256 * n < 256 * P" if "d < 256" "n < P" for d n P :: nat
    using that by linarith
  from this [OF nat_of_char_less_256 Cons] show ?case by simp
qed simp

lemma unpack_le_bound: "unpack_le w b off < 256 ^ w"
proof -
  have "length (take w (drop off b)) \<le> w" by simp
  then have "(256::nat) ^ length (take w (drop off b)) \<le> 256 ^ w" by (rule power_increasing) simp
  then show ?thesis unfolding unpack_le_def using le_nat_bound less_le_trans by blast
qed

lemma le_bytes_inject:
  "m < 256 ^ w \<Longrightarrow> n < 256 ^ w \<Longrightarrow> le_bytes w m = le_bytes w n \<longleftrightarrow> m = n"
  by (metis le_nat_bytes mod_less)

subsection \<open>Reads of an open file\<close>

definition off_limit :: nat where "off_limit = 2 ^ 63"

definition seek_read :: "string \<Rightarrow> nat \<Rightarrow> nat \<Rightarrow> string res" where
  "seek_read data off n =
     (if off_limit \<le> off then Inl ValueError
      else if off_limit \<le> n then Inl OverflowError
      else Inr (take n (drop off data)))"

definition block_size :: nat where "block_size = 4194304"

text \<open>The loop \<open>while left > 0\<close>: blocks of at most \<open>1 << 22\<close> bytes, until the section or the file ends.\<close>

function read_blocks :: "string \<Rightarrow> nat \<Rightarrow> nat \<Rightarrow> string list" where
  "read_blocks data pos left =
     (if left = 0 then []
      else let block = take (min left block_size) (drop pos data)
           in if block = [] then [] else block # read_blocks data (pos + length block) (left - length block))"
  by pat_completeness auto
termination
proof (relation "measure (\<lambda>(data, pos, left). left)", goal_cases)
  case (2 data pos left block)
  then have "0 < length block" "block = take (min left block_size) (drop pos data)" by auto
  with 2 show ?case by (simp add: block_size_def)
qed simp

declare read_blocks.simps [simp del]

lemma read_blocks_concat: "concat (read_blocks data pos left) = take left (drop pos data)"
proof (induction data pos left rule: read_blocks.induct)
  case (1 data pos left)
  define block where "block = take (min left block_size) (drop pos data)"
  show ?case
  proof (cases "left = 0 \<or> block = []")
    case True
    then show ?thesis
      by (subst read_blocks.simps) (auto simp: Let_def block_def [symmetric], auto simp: block_def block_size_def)
  next
    case False
    then have IH: "concat (read_blocks data (pos + length block) (left - length block))
        = take (left - length block) (drop (pos + length block) data)"
      using 1 [OF _ block_def] by simp
    have "take left (drop pos data) = block @ take (left - length block) (drop (length block) (drop pos data))"
    proof -
      have "block = take (length block) (take left (drop pos data))"
        by (simp add: block_def min_def)
      then have "take left (drop pos data) = block @ drop (length block) (take left (drop pos data))"
        by (metis append_take_drop_id)
      then show ?thesis by (simp add: drop_take)
    qed
    then show ?thesis
      using False IH by (subst read_blocks.simps) (simp add: Let_def block_def [symmetric] add.commute)
  qed
qed

subsection \<open>The section table\<close>

record elf_section =
  sc_name :: nat
  sc_kind :: nat
  sc_flags :: nat
  sc_offset :: nat
  sc_size :: nat

record elf_header =
  eh_shoff :: nat
  eh_shentsize :: nat
  eh_shnum :: nat
  eh_shstrndx :: nat

definition elf_magic :: string where
  "elf_magic = CHR 0x7F # ''ELF''"

text \<open>The first 64 bytes; None for a file that is not a 64-bit little-endian ELF with a section table.\<close>

definition read_header :: "string \<Rightarrow> elf_header option" where
  "read_header data =
     (let head = take 64 data
      in if length head < 64 \<or> take 4 head \<noteq> elf_magic \<or> head ! 4 \<noteq> CHR 0x02 \<or> head ! 5 \<noteq> CHR 0x01 then None
         else let h = \<lparr>eh_shoff = unpack_le 8 head 40, eh_shentsize = unpack_le 2 head 58,
                       eh_shnum = unpack_le 2 head 60, eh_shstrndx = unpack_le 2 head 62\<rparr>
              in if eh_shoff h = 0 \<or> eh_shnum h = 0 \<or> eh_shentsize h < 64 then None else Some h)"

text \<open>\<open>struct.unpack_from('<IIQQQQ', table, at)\<close>: 40 bytes, or \<open>struct.error\<close>.\<close>

definition unpack_section :: "string \<Rightarrow> nat \<Rightarrow> elf_section res" where
  "unpack_section tab at =
     (if at + 40 \<le> length tab
      then Inr \<lparr>sc_name = unpack_le 4 tab at, sc_kind = unpack_le 4 tab (at + 4),
                sc_flags = unpack_le 8 tab (at + 8), sc_offset = unpack_le 8 tab (at + 24),
                sc_size = unpack_le 8 tab (at + 32)\<rparr>
      else Inl StructError)"

definition read_sections :: "string \<Rightarrow> elf_header \<Rightarrow> elf_section list res" where
  "read_sections data h =
     bindR (seek_read data (eh_shoff h) (eh_shentsize h * eh_shnum h)) (\<lambda>tab.
       mapR (\<lambda>k. unpack_section tab (k * eh_shentsize h)) [0..<eh_shnum h])"

definition read_names :: "string \<Rightarrow> elf_header \<Rightarrow> elf_section list \<Rightarrow> string res" where
  "read_names data h secs =
     bindR (nth_or secs (eh_shstrndx h)) (\<lambda>s. seek_read data (sc_offset s) (sc_size s))"

text \<open>\<open>names[name:names.index(b'\0', name)]\<close>.\<close>

definition nul :: char where "nul = CHR 0x00"

definition section_label :: "string \<Rightarrow> nat \<Rightarrow> string res" where
  "section_label names i =
     (case find_from names [nul] i of None \<Rightarrow> Inl ValueError | Some j \<Rightarrow> Inr (take (j - i) (drop i names)))"

definition build_id :: string where "build_id = ''.note.gnu.build-id''"

text \<open>SHF_ALLOC, not SHT_NOBITS, and not the linker's id of the whole file.\<close>

definition section_skipped :: "elf_section \<Rightarrow> string \<Rightarrow> bool" where
  "section_skipped s label \<longleftrightarrow> sc_flags s div 2 mod 2 = 0 \<or> sc_kind s = 8 \<or> label = build_id"

definition hash_section :: "string \<Rightarrow> string \<Rightarrow> string list \<Rightarrow> elf_section \<Rightarrow> string list res" where
  "hash_section data names fed s =
     bindR (section_label names (sc_name s)) (\<lambda>label.
       if section_skipped s label then Inr fed
       else if off_limit \<le> sc_offset s then Inl ValueError
       else Inr (fed @ [label @ [nul] @ le_bytes 8 (sc_flags s) @ le_bytes 8 (sc_size s)]
                     @ read_blocks data (sc_offset s) (sc_size s)))"

definition loadedBytesHash :: "(string \<Rightarrow> string) \<Rightarrow> string \<Rightarrow> string option res" where
  "loadedBytesHash sha data =
     (case read_header data of None \<Rightarrow> Inr None
      | Some h \<Rightarrow>
          bindR (read_sections data h) (\<lambda>secs.
          bindR (read_names data h secs) (\<lambda>names.
          bindR (foldR (hash_section data names) [] secs) (\<lambda>fed.
            Inr (Some (''loaded:'' @ sha (concat fed)))))))"


subsection \<open>What is hashed: the loaded sections\<close>

record loaded =
  ld_label :: string
  ld_flags :: nat
  ld_size :: nat
  ld_bytes :: string

definition label_of :: "string \<Rightarrow> elf_section \<Rightarrow> string" where
  "label_of names s = takeWhile (\<lambda>c. c \<noteq> nul) (drop (sc_name s) names)"

definition loaded_of :: "string \<Rightarrow> string \<Rightarrow> elf_section list \<Rightarrow> loaded list" where
  "loaded_of data names secs =
     map (\<lambda>s. \<lparr>ld_label = label_of names s, ld_flags = sc_flags s, ld_size = sc_size s,
              ld_bytes = take (sc_size s) (drop (sc_offset s) data)\<rparr>)
       (filter (\<lambda>s. \<not> section_skipped s (label_of names s)) secs)"

definition encode :: "loaded \<Rightarrow> string" where
  "encode l = ld_label l @ [nul] @ le_bytes 8 (ld_flags l) @ le_bytes 8 (ld_size l) @ ld_bytes l"

text \<open>The loaded sections of a file, where the function reads it without an error.\<close>

definition loaded_sections :: "string \<Rightarrow> loaded list res" where
  "loaded_sections data =
     (case read_header data of None \<Rightarrow> Inl ValueError
      | Some h \<Rightarrow> bindR (read_sections data h) (\<lambda>secs.
          bindR (read_names data h secs) (\<lambda>names. Inr (loaded_of data names secs))))"

lemma section_label_Inr:
  "section_label names i = Inr l \<Longrightarrow> l = takeWhile (\<lambda>c. c \<noteq> nul) (drop i names)"
proof -
  assume "section_label names i = Inr l"
  then obtain j where j: "find_from names [nul] i = Some j" "l = take (j - i) (drop i names)"
    by (auto simp: section_label_def split: option.splits)
  note f = find_from_SomeD [OF j(1)]
  have hit: "\<exists>ys. drop j names = nul # ys"
    using f(2,3) by (cases "drop j names") (auto simp: startswith_def)
  have miss: "names ! k \<noteq> nul" if "i \<le> k" "k < j" for k
  proof -
    have "\<not> startswith (drop k names) [nul]" by (rule find_from_least [OF j(1) that])
    moreover have "drop k names = names ! k # drop (Suc k) names"
      using that f(2) by (intro Cons_nth_drop_Suc [symmetric]) simp
    ultimately show ?thesis by (simp add: startswith_def)
  qed
  have "drop i names = l @ drop j names"
    using f(1) j(2) by (metis append_take_drop_id drop_drop le_add_diff_inverse2)
  moreover have "\<forall>c \<in> set l. c \<noteq> nul"
    using j(2) f(1,2) miss by (auto simp: in_set_conv_nth)
  ultimately show ?thesis
    using hit by (auto simp: takeWhile_append2)
qed

lemma hash_section_Inr:
  assumes "hash_section data names fed s = Inr fed'"
  shows "concat fed' = concat fed @ concat (map encode (loaded_of data names [s]))"
proof -
  from assms obtain label where l: "section_label names (sc_name s) = Inr label"
    by (auto simp: hash_section_def bindR_Inr_iff)
  then have "label = label_of names s" using section_label_Inr label_of_def by simp
  with assms l show ?thesis
    by (auto simp: hash_section_def loaded_of_def encode_def read_blocks_concat split: if_splits)
qed

lemma hash_sections_Inr:
  "foldR (hash_section data names) fed secs = Inr fed' \<Longrightarrow>
   concat fed' = concat fed @ concat (map encode (loaded_of data names secs))"
proof (induction secs arbitrary: fed)
  case (Cons s secs)
  then obtain fed1 where 1: "hash_section data names fed s = Inr fed1"
    "foldR (hash_section data names) fed1 secs = Inr fed'"
    by (auto simp: bindR_Inr_iff)
  show ?case
    using Cons.IH [OF 1(2)] hash_section_Inr [OF 1(1)] by (simp add: loaded_of_def)
qed (simp add: loaded_of_def)

lemma loadedBytesHash_sections:
  assumes "loadedBytesHash sha data = Inr (Some h)"
  obtains ls where "loaded_sections data = Inr ls" "h = ''loaded:'' @ sha (concat (map encode ls))"
proof -
  from assms obtain hd secs names fed where r: "read_header data = Some hd"
      "read_sections data hd = Inr secs" "read_names data hd secs = Inr names"
      "foldR (hash_section data names) [] secs = Inr fed" "h = ''loaded:'' @ sha (concat fed)"
    by (auto simp: loadedBytesHash_def bindR_Inr_iff split: option.splits)
  show ?thesis
    by (rule that [of "loaded_of data names secs"])
       (use r hash_sections_Inr [OF r(4)] in \<open>simp_all add: loaded_sections_def\<close>)
qed

subsection \<open>The encoding is injective\<close>

definition u64_limit :: nat where "u64_limit = 256 ^ 8"

text \<open>A section whose bytes are all in the file, with a name free of NUL and 64-bit fields.\<close>

definition loaded_ok :: "loaded \<Rightarrow> bool" where
  "loaded_ok l \<longleftrightarrow> nul \<notin> set (ld_label l) \<and> ld_flags l < u64_limit \<and> ld_size l < u64_limit
     \<and> length (ld_bytes l) = ld_size l"

lemma label_prefix_unique:
  assumes "a @ nul # x = b @ nul # y" and "nul \<notin> set a" and "nul \<notin> set b"
  shows "a = b \<and> x = y"
proof -
  have "takeWhile (\<lambda>c. c \<noteq> nul) (a @ nul # x) = a"
    using assms(2) by (subst takeWhile_append2) auto
  moreover have "takeWhile (\<lambda>c. c \<noteq> nul) (b @ nul # y) = b"
    using assms(3) by (subst takeWhile_append2) auto
  ultimately show ?thesis using assms(1) by simp
qed

lemma encode_prefix:
  assumes "encode k @ u = encode l @ v" and "loaded_ok k" and "loaded_ok l"
  shows "k = l \<and> u = v"
proof -
  have "ld_label k @ nul # (le_bytes 8 (ld_flags k) @ le_bytes 8 (ld_size k) @ ld_bytes k @ u)
      = ld_label l @ nul # (le_bytes 8 (ld_flags l) @ le_bytes 8 (ld_size l) @ ld_bytes l @ v)"
    using assms(1) by (simp add: encode_def)
  then have 1: "ld_label k = ld_label l" and
    2: "le_bytes 8 (ld_flags k) @ le_bytes 8 (ld_size k) @ ld_bytes k @ u
      = le_bytes 8 (ld_flags l) @ le_bytes 8 (ld_size l) @ ld_bytes l @ v"
    using label_prefix_unique assms(2,3) unfolding loaded_ok_def by metis+
  have 3: "le_bytes 8 (ld_flags k) = le_bytes 8 (ld_flags l)"
      "le_bytes 8 (ld_size k) = le_bytes 8 (ld_size l)" "ld_bytes k @ u = ld_bytes l @ v"
    using 2 append_eq_append_conv length_le_bytes by metis+
  then have "ld_flags k = ld_flags l" "ld_size k = ld_size l"
    using le_bytes_inject [of _ 8] assms(2,3) unfolding loaded_ok_def u64_limit_def by blast+
  with 1 3 assms(2,3) show ?thesis by (simp add: loaded_ok_def)
qed

lemma encode_nonempty: "encode l \<noteq> []"
  by (simp add: encode_def)

lemma encode_list_inject:
  "concat (map encode ks) = concat (map encode ls) \<Longrightarrow> list_all loaded_ok ks \<Longrightarrow> list_all loaded_ok ls
   \<Longrightarrow> ks = ls"
proof (induction ks arbitrary: ls)
  case Nil
  then show ?case by (cases ls) (auto simp: encode_nonempty)
next
  case (Cons k ks)
  then show ?case
  proof (cases ls)
    case (Cons l ls')
    with Cons.prems have "k = l \<and> concat (map encode ks) = concat (map encode ls')"
      by (intro encode_prefix) simp_all
    with Cons.IH Cons.prems Cons show ?thesis by simp
  qed (simp add: encode_nonempty)
qed

text \<open>Every loaded section of a file lies inside it.\<close>

definition complete :: "string \<Rightarrow> bool" where
  "complete data \<longleftrightarrow>
     (case loaded_sections data of Inl _ \<Rightarrow> False
      | Inr ls \<Rightarrow> list_all (\<lambda>l. length (ld_bytes l) = ld_size l) ls)"

lemma read_sections_bounds:
  assumes "read_sections data h = Inr secs" and "s \<in> set secs"
  shows "sc_flags s < u64_limit \<and> sc_size s < u64_limit"
proof -
  obtain tab where "mapR (\<lambda>k. unpack_section tab (k * eh_shentsize h)) [0..<eh_shnum h] = Inr secs"
    using assms(1) by (auto simp: read_sections_def bindR_Inr_iff)
  then obtain k where "unpack_section tab (k * eh_shentsize h) = Inr s"
    using mapR_mem [OF _ assms(2)] by blast
  then have "sc_flags s = unpack_le 8 tab (k * eh_shentsize h + 8)"
      "sc_size s = unpack_le 8 tab (k * eh_shentsize h + 32)"
    by (auto simp: unpack_section_def split: if_splits)
  then show ?thesis by (simp only: u64_limit_def unpack_le_bound simp_thms)
qed

lemma loaded_sections_ok:
  assumes "loaded_sections data = Inr ls" and "complete data"
  shows "list_all loaded_ok ls"
proof -
  from assms(1) obtain h secs names where r: "read_sections data h = Inr secs" "ls = loaded_of data names secs"
    by (auto simp: loaded_sections_def bindR_Inr_iff split: option.splits)
  have "nul \<notin> set (label_of names s)" for s
    by (auto simp: label_of_def dest: set_takeWhileD)
  moreover have "\<forall>l \<in> set ls. length (ld_bytes l) = ld_size l"
    using assms by (simp add: complete_def list_all_iff)
  ultimately show ?thesis
    using r(2) read_sections_bounds [OF r(1)] by (auto simp: loaded_ok_def list_all_iff loaded_of_def)
qed

lemma loadedBytesHash_eq_iff:
  assumes "loadedBytesHash sha a = Inr (Some h)" and "loadedBytesHash sha b = Inr (Some k)"
    and "inj sha" and "complete a" and "complete b"
  shows "h = k \<longleftrightarrow> loaded_sections a = loaded_sections b"
proof -
  obtain la where a: "loaded_sections a = Inr la" "h = ''loaded:'' @ sha (concat (map encode la))"
    using loadedBytesHash_sections [OF assms(1)] .
  obtain lb where b: "loaded_sections b = Inr lb" "k = ''loaded:'' @ sha (concat (map encode lb))"
    using loadedBytesHash_sections [OF assms(2)] .
  have "h = k \<longleftrightarrow> concat (map encode la) = concat (map encode lb)"
    using a(2) b(2) assms(3) by (simp add: inj_eq)
  also have "\<dots> \<longleftrightarrow> la = lb"
    using encode_list_inject [OF _ loaded_sections_ok [OF a(1) assms(4)] loaded_sections_ok [OF b(1) assms(5)]]
    by auto
  finally show ?thesis using a b by simp
qed

subsection \<open>Bytes that have no influence\<close>

definition agree :: "string \<Rightarrow> string \<Rightarrow> nat \<Rightarrow> nat \<Rightarrow> bool" where
  "agree a b off n \<longleftrightarrow> take n (drop off a) = take n (drop off b)"

text \<open>The ranges of a file the function looks at: the header, the section table, the names, and the
  sections that are loaded.\<close>

definition looked_at :: "string \<Rightarrow> (nat \<times> nat) list" where
  "looked_at data = (0, 64) #
     (case read_header data of None \<Rightarrow> []
      | Some h \<Rightarrow> (eh_shoff h, eh_shentsize h * eh_shnum h) #
          (case read_sections data h of Inl _ \<Rightarrow> []
           | Inr secs \<Rightarrow>
               (case nth_or secs (eh_shstrndx h) of Inl _ \<Rightarrow> []
                | Inr s \<Rightarrow> (sc_offset s, sc_size s) #
                    (case read_names data h secs of Inl _ \<Rightarrow> []
                     | Inr names \<Rightarrow> map (\<lambda>s. (sc_offset s, sc_size s))
                         (filter (\<lambda>s. \<not> section_skipped s (label_of names s)) secs)))))"

lemma seek_read_agree: "agree a b off n \<Longrightarrow> seek_read a off n = seek_read b off n"
  by (simp add: seek_read_def agree_def)

lemma read_blocks_agree: "agree a b pos left \<Longrightarrow> read_blocks a pos left = read_blocks b pos left"
proof (induction a pos left rule: read_blocks.induct)
  case (1 a pos left)
  define block where "block = take (min left block_size) (drop pos a)"
  have same: "block = take (min left block_size) (drop pos b)"
    using 1(2) by (metis agree_def block_def min.commute take_take)
  show ?case
  proof (cases "left = 0 \<or> block = []")
    case True
    then show ?thesis
      by (subst (1 2) read_blocks.simps) (auto simp: Let_def block_def [symmetric] same [symmetric])
  next
    case False
    have "agree a b (pos + length block) (left - length block)"
      using 1(2) unfolding agree_def
      by (metis add.commute drop_drop drop_take)
    then have "read_blocks a (pos + length block) (left - length block)
        = read_blocks b (pos + length block) (left - length block)"
      using False 1(1) [OF _ block_def] by simp
    with False show ?thesis
      by (subst (1 2) read_blocks.simps) (simp add: Let_def block_def [symmetric] same [symmetric])
  qed
qed

lemma hash_sections_agree:
  assumes "\<And>s. s \<in> set secs \<Longrightarrow> \<not> section_skipped s (label_of names s) \<Longrightarrow> agree a b (sc_offset s) (sc_size s)"
  shows "foldR (hash_section a names) fed secs = foldR (hash_section b names) fed secs"
  using assms
proof (induction secs arbitrary: fed)
  case (Cons s secs)
  have "hash_section a names fed s = hash_section b names fed s"
  proof (cases "section_label names (sc_name s)")
    case (Inr label)
    then have "label = label_of names s" using section_label_Inr label_of_def by simp
    then show ?thesis
      using Inr Cons.prems [of s] read_blocks_agree by (auto simp: hash_section_def)
  qed (simp add: hash_section_def)
  then show ?case using Cons by (cases "hash_section b names fed s") simp_all
qed simp

lemma loadedBytesHash_agree:
  assumes "\<And>off n. (off, n) \<in> set (looked_at a) \<Longrightarrow> agree a b off n"
  shows "loadedBytesHash sha a = loadedBytesHash sha b"
proof -
  have "take 64 a = take 64 b" using assms [of 0 64] by (simp add: looked_at_def agree_def)
  then have head: "read_header b = read_header a" by (simp add: read_header_def)
  show ?thesis
  proof (cases "read_header a")
    case h: (Some h)
    have secs: "read_sections b h = read_sections a h"
      using assms [of "eh_shoff h" "eh_shentsize h * eh_shnum h"] h
      by (simp add: read_sections_def looked_at_def seek_read_agree)
    show ?thesis
    proof (cases "read_sections a h")
      case s: (Inr ss)
      show ?thesis
      proof (cases "nth_or ss (eh_shstrndx h)")
        case x: (Inr x)
        have "agree a b (sc_offset x) (sc_size x)"
          by (rule assms) (simp add: looked_at_def h s x)
        then have names: "read_names b h ss = read_names a h ss"
          by (simp add: read_names_def x seek_read_agree)
        show ?thesis
        proof (cases "read_names a h ss")
          case n: (Inr names)
          have "foldR (hash_section a names) [] ss = foldR (hash_section b names) [] ss"
            by (rule hash_sections_agree, rule assms) (auto simp: looked_at_def h s x n)
          then show ?thesis by (simp add: loadedBytesHash_def head h secs s names n)
        qed (simp add: loadedBytesHash_def head h secs s names)
      qed (simp add: loadedBytesHash_def read_names_def head h secs s)
    qed (simp add: loadedBytesHash_def head h secs)
  qed (simp add: loadedBytesHash_def head)
qed


subsection \<open>An example file\<close>

text \<open>One loaded section \<open>.text\<close> with the two bytes \<open>code\<close>, and \<open>junk\<close> that no section names after it.\<close>

definition ex_elf :: "string \<Rightarrow> string \<Rightarrow> string" where
  "ex_elf junk code =
     elf_magic @ [CHR 0x02, CHR 0x01] @ replicate 34 nul @ le_bytes 8 64 @ replicate 10 nul
     @ le_bytes 2 64 @ le_bytes 2 2 @ le_bytes 2 0
     @ le_bytes 4 0 @ le_bytes 4 3 @ le_bytes 8 0 @ le_bytes 8 0 @ le_bytes 8 192 @ le_bytes 8 7 @ replicate 24 nul
     @ le_bytes 4 1 @ le_bytes 4 1 @ le_bytes 8 2 @ le_bytes 8 0 @ le_bytes 8 199 @ le_bytes 8 2 @ replicate 24 nul
     @ [nul] @ ''.text'' @ [nul] @ code @ junk"

abbreviation ex_header :: elf_header where
  "ex_header \<equiv> \<lparr>eh_shoff = 64, eh_shentsize = 64, eh_shnum = 2, eh_shstrndx = 0\<rparr>"

abbreviation ex_sections :: "elf_section list" where
  "ex_sections \<equiv> [\<lparr>sc_name = 0, sc_kind = 3, sc_flags = 0, sc_offset = 192, sc_size = 7\<rparr>,
                  \<lparr>sc_name = Suc 0, sc_kind = Suc 0, sc_flags = 2, sc_offset = 199, sc_size = 2\<rparr>]"

lemmas elf_eval = ex_elf_def elf_magic_def unpack_le_def

lemma ex_elf_header: "read_header (ex_elf junk code) = Some ex_header"
  by (simp add: read_header_def Let_def elf_eval nth_append)

lemma ex_elf_sections: "read_sections (ex_elf junk code) ex_header = Inr ex_sections"
  by (simp add: read_sections_def seek_read_def off_limit_def unpack_section_def elf_eval upt_rec)

lemma ex_elf_names: "read_names (ex_elf junk code) ex_header ex_sections = Inr ([nul] @ ''.text'' @ [nul])"
  by (simp add: read_names_def seek_read_def off_limit_def elf_eval)

lemma ex_elf_code: "length code = 2 \<Longrightarrow> take 2 (drop 199 (ex_elf junk code)) = code"
  by (simp add: elf_eval)

lemmas ex_elf_facts = ex_elf_header ex_elf_sections ex_elf_names

lemma ex_elf_loaded:
  "length code = 2 \<Longrightarrow>
   loaded_sections (ex_elf junk code) = Inr [\<lparr>ld_label = ''.text'', ld_flags = 2, ld_size = 2, ld_bytes = code\<rparr>]"
  by (simp add: loaded_sections_def ex_elf_facts loaded_of_def section_skipped_def label_of_def build_id_def nul_def
      ex_elf_code)

lemma ex_elf_hashed: "length code = 2 \<Longrightarrow> \<exists>k. loadedBytesHash sha (ex_elf junk code) = Inr (Some k)"
  by (simp add: loadedBytesHash_def ex_elf_facts hash_section_def section_label_def find_from_def startswith_def
      section_skipped_def nul_def off_limit_def build_id_def)

lemma ex_elf_complete: "length code = 2 \<Longrightarrow> complete (ex_elf junk code)"
  by (simp add: complete_def ex_elf_loaded)

lemma ex_elf_looked_at: "looked_at (ex_elf junk code) = [(0, 64), (64, 128), (192, 7), (199, 2)]"
  by (simp add: looked_at_def ex_elf_facts section_skipped_def label_of_def build_id_def nul_def)

subsection \<open>Properties\<close>



text \<open>C6: A byte outside the ELF header, the section table, the section names and the loaded sections has no
  influence on the fingerprint: two files that agree on those ranges have the same one (or raise alike),
  whatever their symbol tables and build ids are.\<close>

theorem loaded_hash_ignores_the_rest:
  assumes "list_all (\<lambda>(off, n). agree a b off n) (looked_at a)"
  shows "loadedBytesHash sha a = loadedBytesHash sha b"
  by (rule loadedBytesHash_agree) (use assms in \<open>auto simp: list_all_iff\<close>)

theorem loaded_hash_ignores_the_rest_witness:
  "loadedBytesHash id (ex_elf ''symbols'' ''AB'') = loadedBytesHash id (ex_elf ''other'' ''AB'')"
  by (rule loaded_hash_ignores_the_rest, unfold ex_elf_looked_at) (simp add: agree_def elf_eval)

text \<open>Reading a section in blocks of at most 4 MiB feeds the digest exactly the bytes of the section
  that the file has.\<close>

theorem block_loop_reads_the_section:
  "concat (read_blocks data pos left) = take left (drop pos data)"
  by (rule read_blocks_concat)

end
