(* ===== verification/Ctest_Inputs.thy ===== *)
theory Ctest_Inputs
  imports Elf_Hash Py_Regex
begin

text \<open>
  The inputs of a test, \<open>src/tools/ctest_cached.py\<close>: the classes \<open>Inputs\<close> (file and directory
  fingerprints with their memo of earlier runs) and \<open>Closure\<close> (what a script or a binary
  reaches).  The attributes that change are one record \<open>caches\<close>; a method is an operation on it.
  The disk is a finite record: the regular files by path with their bytes, size and time, the
  directories with their entries, and \<open>realpath\<close>.  Each method has a pure counterpart without the
  caches (\<open>file_digest\<close>, \<open>tree_digest\<close>, \<open>direct_of\<close>, \<open>closure_of\<close>, \<open>embedded_of\<close>); the lemmas show that
  the method refines it whenever every cache entry is right, and that it keeps the caches right.
\<close>

subsection \<open>The disk\<close>

record finfo =
  fi_data :: "string option"
  fi_size :: int
  fi_mtime :: int

record disk =
  dk_files :: "(string \<times> finfo) list"
  dk_dirs :: "(string \<times> string list \<times> string list) list"
  dk_real :: "string \<Rightarrow> string"
  dk_exec :: "string list"

definition isfile :: "disk \<Rightarrow> string \<Rightarrow> bool" where
  "isfile dk p \<longleftrightarrow> map_of (dk_files dk) p \<noteq> None"

definition isdir :: "disk \<Rightarrow> string \<Rightarrow> bool" where
  "isdir dk p \<longleftrightarrow> map_of (dk_dirs dk) p \<noteq> None"

definition stat :: "disk \<Rightarrow> string \<Rightarrow> finfo res" where
  "stat dk p = (case map_of (dk_files dk) p of None \<Rightarrow> Inl (FileNotFound p) | Some fi \<Rightarrow> Inr fi)"

definition read_bytes :: "disk \<Rightarrow> string \<Rightarrow> string res" where
  "read_bytes dk p = bindR (stat dk p) (\<lambda>fi.
     case fi_data fi of None \<Rightarrow> Inl (FileNotFound p) | Some d \<Rightarrow> Inr d)"

text \<open>
  \<open>os.walk\<close> from the top with the directories of each level filtered and sorted in place.  The depth of
  a walk is bounded by the number of directories.
\<close>

fun walk_from :: "(string \<times> string list \<times> string list) list \<Rightarrow> (string \<Rightarrow> bool) \<Rightarrow> nat \<Rightarrow> string \<Rightarrow>
    (string \<times> string list) list" where
  "walk_from D keep 0 b = []"
| "walk_from D keep (Suc n) b =
     (case map_of D b of None \<Rightarrow> []
      | Some (ds, fs) \<Rightarrow> (b, fs) # concat (map (\<lambda>d. walk_from D keep n (path_join b d)) (sort (filter keep ds))))"

definition walk_sorted :: "disk \<Rightarrow> (string \<Rightarrow> bool) \<Rightarrow> string \<Rightarrow> (string \<times> string list) list" where
  "walk_sorted dk keep root = walk_from (dk_dirs dk) keep (Suc (length (dk_dirs dk))) root"

subsection \<open>Constants\<close>

definition DATA_ROOTS :: "string list" where
  "DATA_ROOTS = [''validation'', ''demo'', ''bench'', ''manifest'', ''factory'', ''src'', ''tests'', ''tools'', ''docs'']"

definition SKIP_DIRS :: "string list" where
  "SKIP_DIRS = [''__pycache__'', ''.git'', ''build'', ''Testing'', ''processor0'']"

definition SCRIPT_SUFFIXES :: "string list" where
  "SCRIPT_SUFFIXES = [''.sh'', ''.py'', ''.cmake'']"

subsection \<open>\<open>class Inputs\<close>\<close>

type_synonym reach = "string list \<times> string list \<times> string list"

text \<open>
  The attributes of \<open>Inputs\<close> and the two caches of \<open>Closure\<close>.  The memo keys a digest by
  the path and the embedded paths of a binary by \<open>embedded:\<close> and the path; a real path is absolute, so the
  two kinds of keys are two tables here.
\<close>

record caches =
  memo :: "(string, string \<times> string) dict"
  fresh :: "(string, string \<times> string) dict"
  memo_embedded :: "(string, string \<times> string list) dict"
  fresh_embedded :: "(string, string \<times> string list) dict"
  trees :: "(string \<times> bool, string) dict"
  scripts :: "(string, reach) dict"
  closures :: "(string, reach) dict"

definition stamp :: "disk \<Rightarrow> string \<Rightarrow> string res" where
  "stamp dk p = bindR (stat dk p) (\<lambda>fi. Inr (show_int (fi_size fi) @ '':'' @ show_int (fi_mtime fi)))"

definition digest_bytes :: "(string \<Rightarrow> string) \<Rightarrow> string res \<Rightarrow> string res" where
  "digest_bytes sha bs =
     bindR bs (\<lambda>d. bindR (loadedBytesHash sha d) (\<lambda>r. Inr (case r of Some h \<Rightarrow> h | None \<Rightarrow> sha d)))"

definition file_digest :: "(string \<Rightarrow> string) \<Rightarrow> disk \<Rightarrow> string \<Rightarrow> string res" where
  "file_digest sha dk p = digest_bytes sha (read_bytes dk p)"

definition lookup_stamped :: "(string, string \<times> 'a) dict \<Rightarrow> string \<Rightarrow> string \<Rightarrow> 'a option" where
  "lookup_stamped d p st =
     (case dict_get d p of None \<Rightarrow> None | Some (st', x) \<Rightarrow> if st' = st then Some x else None)"

definition fileHash :: "(string \<Rightarrow> string) \<Rightarrow> disk \<Rightarrow> string \<Rightarrow> (caches, string) op" where
  "fileHash sha dk path c =
     (let p = dk_real dk path
      in bindR (stamp dk p) (\<lambda>st.
         case lookup_stamped (fresh c) p st of Some d \<Rightarrow> Inr (d, c)
         | None \<Rightarrow>
             (case lookup_stamped (memo c) p st of
                Some d \<Rightarrow> Inr (d, c\<lparr>fresh := dict_set p (st, d) (fresh c)\<rparr>)
              | None \<Rightarrow> bindR (file_digest sha dk p) (\<lambda>d.
                  Inr (d, c\<lparr>fresh := dict_set p (st, d) (fresh c)\<rparr>)))))"

text \<open>
  \<open>hashMany\<close>: the pool's threads run \<open>fileHash\<close> on distinct files, in any order; the model takes
  the order of \<open>todo\<close>.
\<close>

definition hash_todo :: "disk \<Rightarrow> string list \<Rightarrow> string list" where
  "hash_todo dk paths = sorted_set (map (dk_real dk) (filter (isfile dk) paths))"

definition hashMany :: "(string \<Rightarrow> string) \<Rightarrow> disk \<Rightarrow> string list \<Rightarrow> (caches, string list) op" where
  "hashMany sha dk paths = mapS (fileHash sha dk) (hash_todo dk paths)"

definition tree_files :: "disk \<Rightarrow> string \<Rightarrow> string list" where
  "tree_files dk root =
     concat (map (\<lambda>(base, files).
       filter (isfile dk) (map (path_join base) (filter (\<lambda>n. \<not> endswith n ''.pyc'') (sort files))))
       (walk_sorted dk (\<lambda>d. \<not> in_list d SKIP_DIRS) root))"

definition treeHash :: "(string \<Rightarrow> string) \<Rightarrow> disk \<Rightarrow> string \<Rightarrow> bool \<Rightarrow> (caches, string) op" where
  "treeHash sha dk root byContent c =
     (let key = (dk_real dk root, byContent)
      in case dict_get (trees c) key of Some h \<Rightarrow> Inr (h, c)
         | None \<Rightarrow>
             bindR (mapS (\<lambda>full. bindS (if byContent then fileHash sha dk full else liftS (stamp dk full)) (\<lambda>h.
                 retS (relpath full (fst key) @ '' '' @ h))) (tree_files dk (fst key)) c) (\<lambda>(rows, c').
               let h = sha (join [nl] rows) in Inr (h, c'\<lparr>trees := dict_set key h (trees c')\<rparr>)))"

text \<open>
  \<open>save\<close>: the memo takes the fresh entries; the file it writes has those whose path still exists,
  the part of the key after its first colon.
\<close>

definition key_path :: "string \<Rightarrow> string" where
  "key_path k = last (split_once (CHR '':'') k)"

definition dk_exists :: "disk \<Rightarrow> string \<Rightarrow> bool" where
  "dk_exists dk p \<longleftrightarrow> isfile dk p \<or> isdir dk p"

definition save :: "caches \<Rightarrow> caches" where
  "save c = c\<lparr>memo := dict_update (memo c) (fresh c),
              memo_embedded := dict_update (memo_embedded c) (fresh_embedded c)\<rparr>"

definition saved_files :: "disk \<Rightarrow> caches \<Rightarrow> (string, string \<times> string) dict" where
  "saved_files dk c = filter (\<lambda>(k, _). dk_exists dk (key_path k)) (memo (save c))"

definition saved_embedded :: "disk \<Rightarrow> caches \<Rightarrow> (string, string \<times> string list) dict" where
  "saved_embedded dk c =
     filter (\<lambda>(k, _). dk_exists dk (key_path (''embedded:'' @ k))) (memo_embedded (save c))"

subsection \<open>\<open>codeLines\<close> and \<open>class Closure\<close>\<close>

definition codeLines :: "disk \<Rightarrow> string \<Rightarrow> string" where
  "codeLines dk p =
     (case read_bytes dk p of Inl _ \<Rightarrow> []
      | Inr t \<Rightarrow> join [nl] (filter (\<lambda>l. \<not> startswith (lstrip l) ''#'') (split_on nl t)))"

record closure =
  cl_repo :: string
  cl_build :: string
  cl_exes :: "string list"

definition exeNames :: "disk \<Rightarrow> string \<Rightarrow> string list res" where
  "exeNames dk build =
     (case map_of (dk_dirs dk) build of None \<Rightarrow> Inl (FileNotFound build)
      | Some (ds, fs) \<Rightarrow> Inr (filter (\<lambda>n. isfile dk (path_join build n) \<and> in_list (path_join build n) (dk_exec dk)
            \<and> \<not> in_list (CHR ''.'') n) (sort (ds @ fs))))"

definition new_closure :: "disk \<Rightarrow> string \<Rightarrow> string \<Rightarrow> closure res" where
  "new_closure dk repo build = bindR (exeNames dk build) (\<lambda>names.
     Inr \<lparr>cl_repo = repo, cl_build = build, cl_exes = names\<rparr>)"

definition path_char :: cset where
  "path_char = CUn CWord (CS ''.-'')"

definition exe_rx :: "string list \<Rightarrow> rx option" where
  "exe_rx names =
     (let others = sort_key (\<lambda>n. - int (length n)) (filter (\<lambda>n. n \<noteq> ''brae'') names)
      in if others = [] then None
         else Some (RSeqs [RNotBehind CWord, RGrp 1 (RAlts (map RLit others)), RNotAhead (RSet CWord)]))"

definition brae_rx :: rx where
  "brae_rx = RSeq (RLit ''/brae'') (RNotAhead (RSet (CUn path_char (CS ''/''))))"

definition path_rx :: rx where
  "path_rx = RSeqs [RStar (RSeqs [RLit ''.'', ROpt (RLit ''.''), RLit ''/'']), RPlus (RSet path_char),
                    RStar (RSeq (RLit ''/'') (RPlus (RSet path_char)))]"

definition repo_rx :: "string \<Rightarrow> rx" where
  "repo_rx repo = RSeqs [RLit repo, RLit ''/'', RPlus (RSet (CUn path_char (CS ''/'')))]"

definition computed_rx :: "string \<Rightarrow> rx" where
  "computed_rx root = RSeqs [RNotBehind (CUn CWord (CS ''.'')), RLit root, RLit ''/'',
                             ROpt (RSet (CS [dquote, squote])), RSet (CS ''$`'')]"

definition variable_rx :: rx where
  "variable_rx = RSeqs [RLit ''$'', ROpt (RLit ''{''),
     RSet (CUn (CUn (CRange (CHR ''A'') (CHR ''Z'')) (CRange (CHR ''a'') (CHR ''z''))) (CS ''_'')),
     RStar (RSet CWord), ROpt (RLit ''}''), RLit ''/'']"

definition under :: "string \<Rightarrow> string \<Rightarrow> bool" where
  "under root real \<longleftrightarrow> real = root \<or> startswith real (root @ [slash])"

definition inRepo :: "disk \<Rightarrow> closure \<Rightarrow> string \<Rightarrow> bool" where
  "inRepo dk cl p \<longleftrightarrow> under (cl_repo cl) (dk_real dk p)"

definition inBuild :: "disk \<Rightarrow> closure \<Rightarrow> string \<Rightarrow> bool" where
  "inBuild dk cl p \<longleftrightarrow> under (cl_build cl) (dk_real dk p)"

datatype token_hit = HitFile string | HitTree string | NoHit

fun resolve_token :: "disk \<Rightarrow> closure \<Rightarrow> string \<Rightarrow> string list \<Rightarrow> token_hit" where
  "resolve_token dk cl token [] = NoHit"
| "resolve_token dk cl token (base # bases) =
     (let cand = normpath (path_join base token)
      in if \<not> inRepo dk cl cand \<or> inBuild dk cl cand then resolve_token dk cl token bases
         else if isfile dk cand then HitFile cand
         else if isdir dk cand \<and> in_list slash token \<and> cand \<noteq> cl_repo cl
           then (let rel = split_on slash (relpath cand (cl_repo cl))
                 in if in_list (hd rel) DATA_ROOTS \<and> 2 \<le> length rel then HitTree cand else NoHit)
         else resolve_token dk cl token bases)"

definition script_bases :: "closure \<Rightarrow> string \<Rightarrow> string list" where
  "script_bases cl path =
     [dirname path, dirname (dirname path), cl_repo cl, path_join (cl_repo cl) ''tests'',
      path_join (cl_repo cl) ''tools'']"

definition script_tokens :: "string \<Rightarrow> string list" where
  "script_tokens code =
     filter (\<lambda>t. in_list slash t \<or> in_list (CHR ''.'') t)
       (sorted_set (findall path_rx 0 code @ findall path_rx 0 (re_sub variable_rx (\<lambda>_. '' '') code)))"

definition direct_of :: "disk \<Rightarrow> closure \<Rightarrow> string \<Rightarrow> reach" where
  "direct_of dk cl path =
     (let code = codeLines dk path;
          hits = map (\<lambda>t. resolve_token dk cl t (script_bases cl path)) (script_tokens code)
      in (sorted_set (List.map_filter (\<lambda>h. case h of HitFile f \<Rightarrow> Some f | _ \<Rightarrow> None) hits),
          sorted_set ((case exe_rx (cl_exes cl) of None \<Rightarrow> [] | Some r \<Rightarrow> findall r 1 code)
            @ (if re_search brae_rx code \<noteq> None then [''brae''] else [])),
          sorted_set (map (path_join (cl_repo cl)) (filter (\<lambda>r. re_search (computed_rx r) code \<noteq> None) DATA_ROOTS)
            @ List.map_filter (\<lambda>h. case h of HitTree t \<Rightarrow> Some t | _ \<Rightarrow> None) hits)))"

definition direct :: "disk \<Rightarrow> closure \<Rightarrow> string \<Rightarrow> (caches, reach) op" where
  "direct dk cl path c =
     (case dict_get (scripts c) path of Some r \<Rightarrow> Inr (r, c)
      | None \<Rightarrow> let r = direct_of dk cl path in Inr (r, c\<lparr>scripts := dict_set path r (scripts c)\<rparr>))"

definition join_reach :: "reach \<Rightarrow> reach \<Rightarrow> reach" where
  "join_reach a b =
     (case (a, b) of ((f, e, t), (f', e', t')) \<Rightarrow>
        (sorted_set (f @ f'), sorted_set (e @ e'), sorted_set (t @ t')))"

text \<open>The worklist of \<open>ofScript\<close>: the last path pushed is the first taken.\<close>

fun closure_loop :: "nat \<Rightarrow> (string \<Rightarrow> ('s, reach) op) \<Rightarrow> string list \<Rightarrow> string list \<Rightarrow> reach \<Rightarrow> ('s, reach) op" where
  "closure_loop n dir [] seen acc = retS acc"
| "closure_loop 0 dir (one # todo) seen acc = liftS (Inl OutOfFuel)"
| "closure_loop (Suc n) dir (one # todo) seen acc =
     (if in_list one seen then closure_loop n dir todo seen acc
      else bindS (dir one) (\<lambda>r.
        closure_loop n dir
          (rev (filter (\<lambda>x. endswith_any x SCRIPT_SUFFIXES \<and> \<not> in_list x (one # seen)) (fst r)) @ todo)
          (one # seen) (join_reach acc r)))"

definition closure_fuel :: "disk \<Rightarrow> nat" where
  "closure_fuel dk = (let n = length (dk_files dk) in Suc (Suc (n + n * n)))"

definition no_reach :: reach where "no_reach = ([], [], [])"

definition ofScript :: "disk \<Rightarrow> closure \<Rightarrow> string \<Rightarrow> (caches, reach) op" where
  "ofScript dk cl path c =
     (let p = dk_real dk path
      in case dict_get (closures c) p of Some r \<Rightarrow> Inr (r, c)
         | None \<Rightarrow> bindR (closure_loop (closure_fuel dk) (direct dk cl) [p] [] no_reach c) (\<lambda>(r, c').
             Inr (r, c'\<lparr>closures := dict_set p r (closures c')\<rparr>)))"

definition embedded_in :: "(string \<Rightarrow> string) \<Rightarrow> closure \<Rightarrow> string res \<Rightarrow> string list" where
  "embedded_in real cl bs =
     (let d = (case bs of Inl _ \<Rightarrow> [] | Inr d \<Rightarrow> d)
      in sorted_set (filter (\<lambda>cand. \<not> under (cl_build cl) (real cand) \<and> cand \<noteq> cl_repo cl)
           (map normpath (findall (repo_rx (cl_repo cl)) 0 d))))"

definition embedded_of :: "disk \<Rightarrow> closure \<Rightarrow> string \<Rightarrow> string list" where
  "embedded_of dk cl p = embedded_in (dk_real dk) cl (read_bytes dk p)"

definition ofBinary :: "disk \<Rightarrow> closure \<Rightarrow> string \<Rightarrow> (caches, string list \<times> string list) op" where
  "ofBinary dk cl path c =
     (let p = dk_real dk path
      in bindR (stamp dk p) (\<lambda>st.
         let got = (case dict_get (fresh_embedded c) p of Some g \<Rightarrow> Some g | None \<Rightarrow> dict_get (memo_embedded c) p);
             got' = (case got of Some (st', found) \<Rightarrow> if st' = st then (st', found) else (st, embedded_of dk cl p)
                     | None \<Rightarrow> (st, embedded_of dk cl p))
         in Inr ((filter (isfile dk) (snd got'), filter (isdir dk) (snd got')),
                 c\<lparr>fresh_embedded := dict_set p got' (fresh_embedded c)\<rparr>)))"


subsection \<open>The walk\<close>

text \<open>Directory entries are names: not empty and without a slash.\<close>

definition names_ok :: "(string \<times> string list \<times> string list) list \<Rightarrow> bool" where
  "names_ok D \<longleftrightarrow> list_all (\<lambda>(_, ds, _). list_all (\<lambda>d. d \<noteq> [] \<and> slash \<notin> set d) ds) D"

lemma path_join_longer: "d \<noteq> [] \<Longrightarrow> slash \<notin> set d \<Longrightarrow> length b < length (path_join b d)"
  by (cases d) (auto simp: path_join_def is_abs_def startswith_def)

definition deeper :: "(string \<times> 'a) list \<Rightarrow> string \<Rightarrow> string set" where
  "deeper D b = {x \<in> fst ` set D. length b \<le> length x}"

lemma deeper_finite [simp]: "finite (deeper D b)"
  by (simp add: deeper_def)

lemma deeper_child:
  assumes "b \<in> fst ` set D" and "length b < length b'"
  shows "card (deeper D b') < card (deeper D b)"
proof (rule psubset_card_mono)
  have "b \<in> deeper D b" "b \<notin> deeper D b'" using assms by (auto simp: deeper_def)
  moreover have "deeper D b' \<subseteq> deeper D b" using assms(2) by (auto simp: deeper_def)
  ultimately show "deeper D b' \<subset> deeper D b" by blast
qed simp

text \<open>A bound above the number of deeper directories is as good as any other.\<close>

lemma walk_from_stable:
  assumes "names_ok D" and "card (deeper D b) < n" and "card (deeper D b) < m"
  shows "walk_from D keep n b = walk_from D keep m b"
  using assms(2,3)
proof (induction n arbitrary: m b)
  case (Suc n)
  then obtain m' where m: "m = Suc m'" by (cases m) auto
  show ?case
  proof (cases "map_of D b")
    case (Some e)
    obtain ds fs where e: "e = (ds, fs)" by fastforce
    have mem: "(b, ds, fs) \<in> set D" using Some e map_of_SomeD by fast
    have "walk_from D keep n (path_join b d) = walk_from D keep m' (path_join b d)" if "d \<in> set ds" for d
    proof (rule Suc.IH)
      have "d \<noteq> [] \<and> slash \<notin> set d"
        using assms(1) mem that by (auto simp: names_ok_def list_all_iff)
      then have "card (deeper D (path_join b d)) < card (deeper D b)"
        using imageI [OF mem, of fst] by (intro deeper_child path_join_longer) simp_all
      then show "card (deeper D (path_join b d)) < n" "card (deeper D (path_join b d)) < m'"
        using Suc.prems m by simp_all
    qed
    then have "map (\<lambda>d. walk_from D keep n (path_join b d)) (sort (filter keep ds))
        = map (\<lambda>d. walk_from D keep m' (path_join b d)) (sort (filter keep ds))"
      by (intro map_cong) simp_all
    then show ?thesis unfolding m walk_from.simps Some option.case e prod.case by (simp only:)
  qed (simp add: m)
qed simp

text \<open>So the walk is the recursive descent of \<open>os.walk\<close>, with no bound.\<close>

lemma walk_sorted_rec:
  assumes "names_ok (dk_dirs dk)"
  shows "walk_sorted dk keep b =
    (case map_of (dk_dirs dk) b of None \<Rightarrow> []
     | Some (ds, fs) \<Rightarrow> (b, fs) # concat (map (\<lambda>d. walk_sorted dk keep (path_join b d)) (sort (filter keep ds))))"
proof -
  let ?D = "dk_dirs dk"
  have le: "card (deeper ?D x) \<le> length ?D" for x
  proof -
    have "card (deeper ?D x) \<le> card (fst ` set ?D)" by (rule card_mono) (auto simp: deeper_def)
    also have "\<dots> \<le> length ?D" by (metis card_length length_map set_map)
    finally show ?thesis .
  qed
  then have "walk_sorted dk keep b = walk_from ?D keep (Suc (Suc (length ?D))) b"
    unfolding walk_sorted_def by (intro walk_from_stable [OF assms]) (simp_all add: le_imp_less_Suc le_SucI)
  also have "\<dots> = (case map_of ?D b of None \<Rightarrow> []
     | Some (ds, fs) \<Rightarrow> (b, fs) # concat (map (\<lambda>d. walk_sorted dk keep (path_join b d)) (sort (filter keep ds))))"
    by (subst walk_from.simps) (simp only: walk_sorted_def)
  finally show ?thesis .
qed

subsection \<open>What the methods compute\<close>

definition tree_digest :: "(string \<Rightarrow> string) \<Rightarrow> disk \<Rightarrow> string \<Rightarrow> bool \<Rightarrow> string res" where
  "tree_digest sha dk root byContent =
     bindR (mapR (\<lambda>full. bindR (if byContent then file_digest sha dk (dk_real dk full) else stamp dk full) (\<lambda>h.
         Inr (relpath full root @ '' '' @ h))) (tree_files dk root)) (\<lambda>rows. Inr (sha (join [nl] rows)))"

fun closure_pure :: "nat \<Rightarrow> (string \<Rightarrow> reach) \<Rightarrow> string list \<Rightarrow> string list \<Rightarrow> reach \<Rightarrow> reach res" where
  "closure_pure n d [] seen acc = Inr acc"
| "closure_pure 0 d (one # todo) seen acc = Inl OutOfFuel"
| "closure_pure (Suc n) d (one # todo) seen acc =
     (if in_list one seen then closure_pure n d todo seen acc
      else closure_pure n d
        (rev (filter (\<lambda>x. endswith_any x SCRIPT_SUFFIXES \<and> \<not> in_list x (one # seen)) (fst (d one))) @ todo)
        (one # seen) (join_reach acc (d one)))"

definition closure_of :: "disk \<Rightarrow> closure \<Rightarrow> string \<Rightarrow> reach res" where
  "closure_of dk cl p = closure_pure (closure_fuel dk) (direct_of dk cl) [p] [] no_reach"

definition binary_of :: "disk \<Rightarrow> closure \<Rightarrow> string \<Rightarrow> (string list \<times> string list) res" where
  "binary_of dk cl p =
     bindR (stamp dk p) (\<lambda>_. Inr (filter (isfile dk) (embedded_of dk cl p), filter (isdir dk) (embedded_of dk cl p)))"

text \<open>
  What the memo relies on: over the life of the store, the size and the time of a file tell its contents
  (\<open>C p st\<close> is what the file \<open>p\<close> holds whenever its stamp is \<open>st\<close>), and links stay where they are.
\<close>

definition timeline :: "(string \<Rightarrow> string \<Rightarrow> string res) \<Rightarrow> (string \<Rightarrow> string) \<Rightarrow> disk \<Rightarrow> bool" where
  "timeline C R dk \<longleftrightarrow> dk_real dk = R \<and> (\<forall>p st. stamp dk p = Inr st \<longrightarrow> read_bytes dk p = C p st)"

definition digests_ok :: "(string \<Rightarrow> string) \<Rightarrow> (string \<Rightarrow> string \<Rightarrow> string res) \<Rightarrow> (string, string \<times> string) dict \<Rightarrow> bool" where
  "digests_ok sha C m \<longleftrightarrow> (\<forall>p st d. dict_get m p = Some (st, d) \<longrightarrow> digest_bytes sha (C p st) = Inr d)"

definition embedded_ok :: "(string \<Rightarrow> string \<Rightarrow> string res) \<Rightarrow> (string \<Rightarrow> string) \<Rightarrow> closure \<Rightarrow>
    (string, string \<times> string list) dict \<Rightarrow> bool" where
  "embedded_ok C R cl m \<longleftrightarrow> (\<forall>p st l. dict_get m p = Some (st, l) \<longrightarrow> l = embedded_in R cl (C p st))"

text \<open>Every entry of every cache is what its method would compute on the disk as it is.\<close>

definition caches_ok :: "(string \<Rightarrow> string) \<Rightarrow> (string \<Rightarrow> string \<Rightarrow> string res) \<Rightarrow> disk \<Rightarrow> closure \<Rightarrow> caches \<Rightarrow> bool" where
  "caches_ok sha C dk cl c \<longleftrightarrow>
     digests_ok sha C (fresh c) \<and> digests_ok sha C (memo c)
     \<and> embedded_ok C (dk_real dk) cl (fresh_embedded c) \<and> embedded_ok C (dk_real dk) cl (memo_embedded c)
     \<and> dict_ok (fresh c) \<and> dict_ok (fresh_embedded c)
     \<and> (\<forall>r b h. dict_get (trees c) (r, b) = Some h \<longrightarrow> tree_digest sha dk r b = Inr h)
     \<and> (\<forall>p r. dict_get (scripts c) p = Some r \<longrightarrow> r = direct_of dk cl p)
     \<and> (\<forall>p r. dict_get (closures c) p = Some r \<longrightarrow> closure_of dk cl p = Inr r)"

lemma stamp_missing: "stamp dk p = Inl e \<Longrightarrow> file_digest sha dk p = Inl e"
  by (auto simp: stamp_def file_digest_def digest_bytes_def read_bytes_def bindR_Inl_iff)

lemma timeline_digest:
  "timeline C R dk \<Longrightarrow> stamp dk p = Inr st \<Longrightarrow> digest_bytes sha (C p st) = file_digest sha dk p"
  by (simp add: timeline_def file_digest_def)

lemma digests_ok_set:
  "digests_ok sha C m \<Longrightarrow> digest_bytes sha (C p st) = Inr d \<Longrightarrow> digests_ok sha C (dict_set p (st, d) m)"
  by (auto simp: digests_ok_def)

lemma embedded_ok_set:
  "embedded_ok C R cl m \<Longrightarrow> embedded_ok C R cl (dict_set p (st, embedded_in R cl (C p st)) m)"
  by (auto simp: embedded_ok_def)

lemma lookup_stamped_ok:
  "digests_ok sha C m \<Longrightarrow> lookup_stamped m p st = Some d \<Longrightarrow> digest_bytes sha (C p st) = Inr d"
  by (auto simp: lookup_stamped_def digests_ok_def split: option.splits if_splits)

lemma fileHash_refines:
  assumes "timeline C R dk"
  shows "refines (caches_ok sha C dk cl) (fileHash sha dk path) (file_digest sha dk (dk_real dk path))"
  unfolding refines_def
proof (intro allI impI)
  fix c assume ok: "caches_ok sha C dk cl c"
  let ?p = "dk_real dk path"
  show "case fileHash sha dk path c of Inl e \<Rightarrow> file_digest sha dk ?p = Inl e
      | Inr (x, c') \<Rightarrow> file_digest sha dk ?p = Inr x \<and> caches_ok sha C dk cl c'"
  proof (cases "stamp dk ?p")
    case (Inl e)
    then show ?thesis by (simp add: fileHash_def stamp_missing)
  next
    case st: (Inr st)
    note D = timeline_digest [OF assms st, of sha]
    have set: "caches_ok sha C dk cl (c\<lparr>fresh := dict_set ?p (st, d) (fresh c)\<rparr>)"
      if "file_digest sha dk ?p = Inr d" for d
      using ok that D by (simp add: caches_ok_def digests_ok_set)
    show ?thesis
    proof (cases "lookup_stamped (fresh c) ?p st")
      case (Some d)
      then have "file_digest sha dk ?p = Inr d"
        using lookup_stamped_ok D ok unfolding caches_ok_def by metis
      then show ?thesis using ok Some by (simp add: fileHash_def Let_def st)
    next
      case None
      show ?thesis
      proof (cases "lookup_stamped (memo c) ?p st")
        case (Some d)
        then have "file_digest sha dk ?p = Inr d"
          using lookup_stamped_ok D ok unfolding caches_ok_def by metis
        then show ?thesis using None Some set by (simp add: fileHash_def Let_def st)
      next
        case no: None
        show ?thesis using None set
          by (cases "file_digest sha dk ?p") (simp_all add: fileHash_def Let_def st no)
      qed
    qed
  qed
qed

lemma treeHash_refines:
  assumes "timeline C R dk"
  shows "refines (caches_ok sha C dk cl) (treeHash sha dk root b) (tree_digest sha dk (dk_real dk root) b)"
  unfolding refines_def
proof (intro allI impI)
  fix c assume ok: "caches_ok sha C dk cl c"
  let ?r = "dk_real dk root"
  let ?row = "\<lambda>full. bindS (if b then fileHash sha dk full else liftS (stamp dk full)) (\<lambda>h.
      retS (relpath full ?r @ '' '' @ h))"
  let ?pure = "\<lambda>full. bindR (if b then file_digest sha dk (dk_real dk full) else stamp dk full) (\<lambda>h.
      Inr (relpath full ?r @ '' '' @ h))"
  have rows: "refines (caches_ok sha C dk cl) (mapS ?row (tree_files dk ?r)) (mapR ?pure (tree_files dk ?r))"
    by (intro refines_map refines_bind) (auto intro: fileHash_refines [OF assms] refines_lift refines_ret)
  show "case treeHash sha dk root b c of Inl e \<Rightarrow> tree_digest sha dk ?r b = Inl e
      | Inr (x, c') \<Rightarrow> tree_digest sha dk ?r b = Inr x \<and> caches_ok sha C dk cl c'"
  proof (cases "dict_get (trees c) (?r, b)")
    case (Some h)
    then show ?thesis using ok by (auto simp: treeHash_def caches_ok_def)
  next
    case None
    show ?thesis
    proof (cases "mapS ?row (tree_files dk ?r) c")
      case (Inl e)
      then have "mapR ?pure (tree_files dk ?r) = Inl e" using rows ok by (auto simp: refines_def)
      then show ?thesis using None Inl by (simp add: treeHash_def tree_digest_def)
    next
      case (Inr x)
      obtain rs c1 where x: "x = (rs, c1)" by fastforce
      then have "mapR ?pure (tree_files dk ?r) = Inr rs" "caches_ok sha C dk cl c1"
        using refinesD [OF rows ok] Inr by auto
      then have t: "tree_digest sha dk ?r b = Inr (sha (join [nl] rs))" by (simp add: tree_digest_def)
      then have "caches_ok sha C dk cl (c1\<lparr>trees := dict_set (?r, b) (sha (join [nl] rs)) (trees c1)\<rparr>)"
        using \<open>caches_ok sha C dk cl c1\<close> by (auto simp: caches_ok_def)
      then show ?thesis using None Inr x t by (simp add: treeHash_def Let_def)
    qed
  qed
qed

lemma direct_refines: "refines (caches_ok sha C dk cl) (direct dk cl path) (Inr (direct_of dk cl path))"
  by (auto simp: refines_def direct_def caches_ok_def Let_def split: option.splits)

lemma closure_loop_refines:
  assumes "\<And>p. refines I (dir p) (Inr (d p))"
  shows "refines I (closure_loop n dir todo seen acc) (closure_pure n d todo seen acc)"
proof (induction n arbitrary: todo seen acc)
  case 0
  then show ?case by (cases todo) (simp_all add: refines_ret refines_lift)
next
  case (Suc n)
  show ?case
  proof (cases todo)
    case (Cons one rest)
    show ?thesis
    proof (cases "one \<in> set seen")
      case False
      let ?next = "\<lambda>r. rev (filter (\<lambda>x. endswith_any x SCRIPT_SUFFIXES \<and> \<not> in_list x (one # seen)) (fst r)) @ rest"
      have "refines I (bindS (dir one) (\<lambda>r. closure_loop n dir (?next r) (one # seen) (join_reach acc r)))
          (bindR (Inr (d one)) (\<lambda>r. closure_pure n d (?next r) (one # seen) (join_reach acc r)))"
        by (rule refines_bind [OF assms]) (rule Suc.IH)
      then show ?thesis using Cons False by simp
    qed (use Suc.IH Cons in simp)
  qed (simp add: refines_ret)
qed

lemma ofScript_refines: "refines (caches_ok sha C dk cl) (ofScript dk cl path) (closure_of dk cl (dk_real dk path))"
  unfolding refines_def
proof (intro allI impI)
  fix c assume ok: "caches_ok sha C dk cl c"
  let ?p = "dk_real dk path"
  let ?loop = "closure_loop (closure_fuel dk) (direct dk cl) [?p] [] no_reach"
  have loop: "refines (caches_ok sha C dk cl) ?loop (closure_of dk cl ?p)"
    unfolding closure_of_def by (rule closure_loop_refines [OF direct_refines])
  show "case ofScript dk cl path c of Inl e \<Rightarrow> closure_of dk cl ?p = Inl e
      | Inr (x, c') \<Rightarrow> closure_of dk cl ?p = Inr x \<and> caches_ok sha C dk cl c'"
  proof (cases "dict_get (closures c) ?p")
    case (Some r)
    then have "closure_of dk cl ?p = Inr r" using ok unfolding caches_ok_def by blast
    then show ?thesis using ok Some by (simp add: ofScript_def)
  next
    case None
    show ?thesis
    proof (cases "?loop c")
      case (Inl e)
      then show ?thesis using None loop ok by (auto simp: ofScript_def refines_def)
    next
      case (Inr x)
      obtain r c1 where x: "x = (r, c1)" by fastforce
      then have "closure_of dk cl ?p = Inr r" "caches_ok sha C dk cl c1"
        using refinesD [OF loop ok] Inr by auto
      moreover from this have "caches_ok sha C dk cl (c1\<lparr>closures := dict_set ?p r (closures c1)\<rparr>)"
        by (simp add: caches_ok_def)
      ultimately show ?thesis using None Inr x by (simp add: ofScript_def)
    qed
  qed
qed

lemma ofBinary_refines:
  assumes "timeline C R dk"
  shows "refines (caches_ok sha C dk cl) (ofBinary dk cl path) (binary_of dk cl (dk_real dk path))"
  unfolding refines_def
proof (intro allI impI)
  fix c assume ok: "caches_ok sha C dk cl c"
  let ?p = "dk_real dk path"
  show "case ofBinary dk cl path c of Inl e \<Rightarrow> binary_of dk cl ?p = Inl e
      | Inr (x, c') \<Rightarrow> binary_of dk cl ?p = Inr x \<and> caches_ok sha C dk cl c'"
  proof (cases "stamp dk ?p")
    case (Inl e)
    then show ?thesis by (simp add: ofBinary_def binary_of_def)
  next
    case (Inr st)
    then have E: "embedded_of dk cl ?p = embedded_in (dk_real dk) cl (C ?p st)"
      using assms by (simp add: embedded_of_def timeline_def)
    have "l = embedded_of dk cl ?p"
      if "dict_get (fresh_embedded c) ?p = Some (st, l) \<or> dict_get (memo_embedded c) ?p = Some (st, l)" for l
      using that ok unfolding caches_ok_def embedded_ok_def E by blast
    then have "ofBinary dk cl path c = Inr ((filter (isfile dk) (embedded_of dk cl ?p),
        filter (isdir dk) (embedded_of dk cl ?p)),
        c\<lparr>fresh_embedded := dict_set ?p (st, embedded_of dk cl ?p) (fresh_embedded c)\<rparr>)"
      by (auto simp: ofBinary_def Inr Let_def split: option.splits)
    moreover have "caches_ok sha C dk cl (c\<lparr>fresh_embedded := dict_set ?p (st, embedded_of dk cl ?p) (fresh_embedded c)\<rparr>)"
      using ok by (simp add: caches_ok_def E embedded_ok_set)
    ultimately show ?thesis by (simp add: binary_of_def Inr)
  qed
qed

subsection \<open>The closure of a script is what it reaches\<close>

inductive reaches :: "disk \<Rightarrow> closure \<Rightarrow> string \<Rightarrow> string \<Rightarrow> bool" for dk cl p where
  start: "reaches dk cl p p"
| names: "reaches dk cl p x \<Longrightarrow> y \<in> set (fst (direct_of dk cl x)) \<Longrightarrow> endswith_any y SCRIPT_SUFFIXES
    \<Longrightarrow> reaches dk cl p y"

abbreviation r_files :: "reach \<Rightarrow> string set" where "r_files r \<equiv> set (fst r)"
abbreviation r_exes :: "reach \<Rightarrow> string set" where "r_exes r \<equiv> set (fst (snd r))"
abbreviation r_trees :: "reach \<Rightarrow> string set" where "r_trees r \<equiv> set (snd (snd r))"

lemma join_reach_sets [simp]:
  "r_files (join_reach a b) = r_files a \<union> r_files b"
  "r_exes (join_reach a b) = r_exes a \<union> r_exes b"
  "r_trees (join_reach a b) = r_trees a \<union> r_trees b"
  by (simp_all add: join_reach_def split_def)

text \<open>What holds at every turn of the worklist loop.\<close>

definition loop_inv :: "disk \<Rightarrow> closure \<Rightarrow> string \<Rightarrow> string list \<Rightarrow> string list \<Rightarrow> reach \<Rightarrow> bool" where
  "loop_inv dk cl p todo seen acc \<longleftrightarrow>
     p \<in> set seen \<union> set todo \<and> (\<forall>x \<in> set seen \<union> set todo. reaches dk cl p x)
     \<and> (\<forall>x \<in> set seen. \<forall>y \<in> r_files (direct_of dk cl x). endswith_any y SCRIPT_SUFFIXES \<longrightarrow> y \<in> set seen \<union> set todo)
     \<and> r_files acc = (\<Union>x \<in> set seen. r_files (direct_of dk cl x))
     \<and> r_exes acc = (\<Union>x \<in> set seen. r_exes (direct_of dk cl x))
     \<and> r_trees acc = (\<Union>x \<in> set seen. r_trees (direct_of dk cl x))"

lemma loop_inv_skip: "loop_inv dk cl p (one # todo) seen acc \<Longrightarrow> one \<in> set seen \<Longrightarrow> loop_inv dk cl p todo seen acc"
  unfolding loop_inv_def by (simp add: insert_absorb)

lemma loop_inv_take:
  assumes "loop_inv dk cl p (one # todo) seen acc"
  shows "loop_inv dk cl p
    (rev (filter (\<lambda>x. endswith_any x SCRIPT_SUFFIXES \<and> \<not> in_list x (one # seen)) (fst (direct_of dk cl one))) @ todo)
    (one # seen) (join_reach acc (direct_of dk cl one))"
proof -
  have "reaches dk cl p one" using assms by (simp add: loop_inv_def)
  then have "reaches dk cl p y" if "y \<in> r_files (direct_of dk cl one)" "endswith_any y SCRIPT_SUFFIXES" for y
    using that by (rule reaches.names)
  then show ?thesis using assms unfolding loop_inv_def by auto
qed

lemma loop_inv_done:
  assumes "loop_inv dk cl p [] seen acc"
  shows "set seen = {x. reaches dk cl p x}"
proof -
  have "x \<in> set seen" if "reaches dk cl p x" for x
    using that
  proof induction
    case start
    then show ?case using assms by (simp add: loop_inv_def)
  next
    case (names x y)
    then show ?case using assms unfolding loop_inv_def by fastforce
  qed
  moreover have "\<forall>x \<in> set seen. reaches dk cl p x" using assms by (simp add: loop_inv_def)
  ultimately show ?thesis by blast
qed

lemma loop_inv_result:
  assumes "loop_inv dk cl p [] seen r"
  shows "r_files r = (\<Union>x \<in> {x. reaches dk cl p x}. r_files (direct_of dk cl x))
    \<and> r_exes r = (\<Union>x \<in> {x. reaches dk cl p x}. r_exes (direct_of dk cl x))
    \<and> r_trees r = (\<Union>x \<in> {x. reaches dk cl p x}. r_trees (direct_of dk cl x))"
  unfolding loop_inv_done [OF assms, symmetric] using assms unfolding loop_inv_def by simp

lemma closure_pure_reaches:
  assumes "closure_pure n (direct_of dk cl) todo seen acc = Inr r" and "loop_inv dk cl p todo seen acc"
  shows "r_files r = (\<Union>x \<in> {x. reaches dk cl p x}. r_files (direct_of dk cl x))
    \<and> r_exes r = (\<Union>x \<in> {x. reaches dk cl p x}. r_exes (direct_of dk cl x))
    \<and> r_trees r = (\<Union>x \<in> {x. reaches dk cl p x}. r_trees (direct_of dk cl x))"
  using assms
proof (induction n arbitrary: todo seen acc)
  case 0
  then have "todo = []" "r = acc" by (cases todo; simp)+
  with 0 loop_inv_result show ?case by simp
next
  case (Suc n)
  show ?case
  proof (cases todo)
    case Nil
    with Suc.prems have "r = acc" by simp
    with Suc.prems Nil loop_inv_result show ?thesis by simp
  next
    case (Cons one rest)
    show ?thesis
    proof (cases "one \<in> set seen")
      case True
      then show ?thesis using Suc.prems Cons by (intro Suc.IH [of rest seen acc]) (auto intro: loop_inv_skip)
    next
      case False
      then show ?thesis
        using Suc.prems Cons by (intro Suc.IH [OF _ loop_inv_take]) simp_all
    qed
  qed
qed

subsection \<open>The worklist loop ends\<close>

lemma scan_empty: "script_tokens [] = []"
proof -
  have "finditer path_rx [] = []" "finditer variable_rx [] = []"
    by code_simp+
  then show ?thesis by (simp add: script_tokens_def findall_def re_sub_def sorted_set_def)
qed

lemma direct_files_isfile: "y \<in> r_files (direct_of dk cl x) \<Longrightarrow> isfile dk y"
proof -
  have "resolve_token dk cl t bs = HitFile f \<Longrightarrow> isfile dk f" for t bs f
    by (induction bs) (auto simp: Let_def split: if_splits)
  moreover assume "y \<in> r_files (direct_of dk cl x)"
  ultimately show ?thesis
    by (auto simp: direct_of_def Let_def List.map_filter_def split: token_hit.splits)
qed

lemma direct_no_file: "\<not> isfile dk x \<Longrightarrow> fst (direct_of dk cl x) = []"
  by (simp add: direct_of_def codeLines_def read_bytes_def stat_def isfile_def scan_empty sorted_set_def
      List.map_filter_def)

lemma direct_files_distinct: "distinct (fst (direct_of dk cl x))"
  by (simp add: direct_of_def Let_def)

abbreviation all_files :: "disk \<Rightarrow> string set" where
  "all_files dk \<equiv> fst ` set (dk_files dk)"

lemma isfile_iff: "isfile dk x \<longleftrightarrow> x \<in> all_files dk"
  by (simp add: isfile_def map_of_eq_None_iff)

definition pending :: "disk \<Rightarrow> closure \<Rightarrow> string list \<Rightarrow> string list \<Rightarrow> nat" where
  "pending dk cl todo seen = length todo + (\<Sum>x \<in> all_files dk - set seen. length (fst (direct_of dk cl x)))"

lemma pending_take:
  assumes "one \<notin> set seen"
  shows "length (fst (direct_of dk cl one)) + pending dk cl todo (one # seen) < pending dk cl (one # todo) seen"
proof (cases "isfile dk one")
  case True
  have "(\<Sum>x \<in> all_files dk - set seen. length (fst (direct_of dk cl x)))
      = length (fst (direct_of dk cl one)) + (\<Sum>x \<in> all_files dk - set seen - {one}. length (fst (direct_of dk cl x)))"
    by (rule sum.remove) (use True assms in \<open>auto simp: isfile_iff\<close>)
  moreover have "all_files dk - set seen - {one} = all_files dk - set (one # seen)" by auto
  ultimately show ?thesis by (simp add: pending_def)
next
  case False
  then have "all_files dk - set (one # seen) = all_files dk - set seen" by (auto simp: isfile_iff)
  with False show ?thesis by (simp add: pending_def direct_no_file)
qed

lemma closure_pure_returns:
  "pending dk cl todo seen \<le> n \<Longrightarrow> \<exists>r. closure_pure n (direct_of dk cl) todo seen acc = Inr r"
proof (induction n arbitrary: todo seen acc)
  case 0
  then have "todo = []" by (simp add: pending_def)
  then show ?case by (simp only: closure_pure.simps) blast
next
  case (Suc n)
  show ?case
  proof (cases todo)
    case (Cons one rest)
    show ?thesis
    proof (cases "one \<in> set seen")
      case True
      then show ?thesis using Suc Cons by (simp add: pending_def)
    next
      case False
      let ?push = "filter (\<lambda>x. endswith_any x SCRIPT_SUFFIXES \<and> \<not> in_list x (one # seen)) (fst (direct_of dk cl one))"
      have arith: "q \<le> n" if "a \<le> b" "q = a + r" "b + r < s" "s \<le> Suc n" for a b q r s :: nat
        using that by linarith
      have p: "pending dk cl (rev ?push @ rest) (one # seen) = length ?push + pending dk cl rest (one # seen)"
        unfolding pending_def length_append length_rev by (rule add.assoc)
      have "pending dk cl (rev ?push @ rest) (one # seen) \<le> n"
        by (rule arith [OF length_filter_le p pending_take [OF False]])
           (use Suc.prems Cons in simp)
      from Suc.IH [OF this] show ?thesis using Cons False by simp
    qed
  qed (simp only: closure_pure.simps, blast)
qed

lemma pending_start: "pending dk cl [p] [] \<le> closure_fuel dk"
proof -
  let ?n = "length (dk_files dk)"
  have card: "card (all_files dk) \<le> ?n" by (metis card_length length_map set_map)
  have "length (fst (direct_of dk cl x)) \<le> ?n" for x
  proof -
    have "length (fst (direct_of dk cl x)) = card (r_files (direct_of dk cl x))"
      using direct_files_distinct by (rule distinct_card [symmetric])
    also have "\<dots> \<le> card (all_files dk)"
      by (rule card_mono) (auto dest: direct_files_isfile simp: isfile_iff simp del: image_iff)
    finally show ?thesis using card by simp
  qed
  then have "(\<Sum>x \<in> all_files dk. length (fst (direct_of dk cl x))) \<le> card (all_files dk) * ?n"
    by (intro sum_bounded_above [where 'a = nat, simplified]) 
  also have "\<dots> \<le> ?n * ?n" using card by simp
  finally show ?thesis by (simp add: pending_def closure_fuel_def Let_def)
qed

lemma closure_of_reaches:
  obtains r where "closure_of dk cl p = Inr r"
    "r_files r = (\<Union>x \<in> {x. reaches dk cl p x}. r_files (direct_of dk cl x))"
    "r_exes r = (\<Union>x \<in> {x. reaches dk cl p x}. r_exes (direct_of dk cl x))"
    "r_trees r = (\<Union>x \<in> {x. reaches dk cl p x}. r_trees (direct_of dk cl x))"
proof -
  obtain r where r: "closure_of dk cl p = Inr r"
    unfolding closure_of_def using closure_pure_returns [OF pending_start] by blast
  have "loop_inv dk cl p [p] [] no_reach"
    by (simp add: loop_inv_def no_reach_def reaches.start)
  from closure_pure_reaches [OF r [unfolded closure_of_def] this] r that show ?thesis by blast
qed


subsection \<open>The memo across runs\<close>

lemma map_of_rev_get: "dict_ok e \<Longrightarrow> map_of (rev e) k = dict_get e k"
proof -
  assume "dict_ok e"
  then have "map_of (rev e) = map_of e"
    by (subst map_of_inject_set) (simp_all add: dict_ok_def rev_map [symmetric])
  then show ?thesis by (simp add: dict_get_def)
qed

lemma digests_ok_update:
  assumes "digests_ok sha C a" and "digests_ok sha C b" and "dict_ok b"
  shows "digests_ok sha C (dict_update a b)"
  using assms unfolding digests_ok_def
  by (auto simp: dict_get_update map_of_rev_get split: option.splits)

lemma embedded_ok_update:
  assumes "embedded_ok C R cl a" and "embedded_ok C R cl b" and "dict_ok b"
  shows "embedded_ok C R cl (dict_update a b)"
  using assms unfolding embedded_ok_def
  by (auto simp: dict_get_update map_of_rev_get split: option.splits)

lemma save_ok: "caches_ok sha C dk cl c \<Longrightarrow> caches_ok sha C dk cl (save c)"
  by (simp add: caches_ok_def save_def digests_ok_update embedded_ok_update)

lemma dict_get_filter_keys:
  "dict_get (filter (\<lambda>(k, _). P k) m) p = (if P p then dict_get m p else None)"
proof (induction m)
  case (Cons x m)
  then show ?case by (cases x) (auto simp: dict_get_def)
qed (simp add: dict_get_def)

lemma saved_ok:
  assumes "caches_ok sha C dk cl c"
  shows "digests_ok sha C (saved_files dk' c)" and "embedded_ok C (dk_real dk) cl (saved_embedded dk' c)"
  using save_ok [OF assms]
  by (auto simp: saved_files_def saved_embedded_def caches_ok_def digests_ok_def embedded_ok_def
      dict_get_filter_keys split: if_splits)

subsection \<open>The order of the pool's threads\<close>

lemma fileHash_fresh:
  assumes "fileHash sha dk p c = Inr (d, c')" and "digests_ok sha C (fresh c)" and "digests_ok sha C (memo c)"
    and "timeline C R dk"
  obtains st where "stamp dk (dk_real dk p) = Inr st" "file_digest sha dk (dk_real dk p) = Inr d"
    "dict_get (fresh c') = (dict_get (fresh c))(dk_real dk p \<mapsto> (st, d))" "c' = c\<lparr>fresh := fresh c'\<rparr>"
proof -
  let ?p = "dk_real dk p"
  obtain st where st: "stamp dk ?p = Inr st"
    using assms(1) by (auto simp: fileHash_def Let_def bindR_Inr_iff)
  note D = timeline_digest [OF assms(4) st, of sha]
  show ?thesis
  proof (cases "lookup_stamped (fresh c) ?p st")
    case (Some d')
    then have r: "c' = c" "d' = d" using assms(1) by (simp_all add: fileHash_def Let_def st)
    have "dict_get (fresh c) ?p = Some (st, d)"
      using Some r by (auto simp: lookup_stamped_def split: option.splits if_splits)
    then show ?thesis
      using that [OF st lookup_stamped_ok [OF assms(2) Some, unfolded D r(2)]] r
      by (simp add: fun_upd_idem)
  next
    case None
    show ?thesis
    proof (cases "lookup_stamped (memo c) ?p st")
      case (Some d')
      then have r: "c' = c\<lparr>fresh := dict_set ?p (st, d') (fresh c)\<rparr>" "d' = d"
        using assms(1) None by (auto simp: fileHash_def Let_def st)
      then show ?thesis
        using that [OF st lookup_stamped_ok [OF assms(3) Some, unfolded D r(2)]] by simp
    next
      case no: None
      then have "file_digest sha dk ?p = Inr d \<and> c' = c\<lparr>fresh := dict_set ?p (st, d) (fresh c)\<rparr>"
        using assms(1) None by (auto simp: fileHash_def Let_def st bindR_Inr_iff)
      then show ?thesis using that [OF st] by simp
    qed
  qed
qed

lemma fileHash_all_fresh:
  assumes "mapS (fileHash sha dk) ps c = Inr (ds, c')" and "digests_ok sha C (fresh c)" and "digests_ok sha C (memo c)"
    and "timeline C R dk"
  shows "dict_get (fresh c') = (\<lambda>q. if q \<in> dk_real dk ` set ps
      then case (stamp dk q, file_digest sha dk q) of (Inr st, Inr d) \<Rightarrow> Some (st, d) | _ \<Rightarrow> None
      else dict_get (fresh c) q) \<and> c' = c\<lparr>fresh := fresh c'\<rparr>"
  using assms
proof (induction ps arbitrary: c ds)
  case (Cons p ps)
  then obtain d c1 ds' where 1: "fileHash sha dk p c = Inr (d, c1)" "mapS (fileHash sha dk) ps c1 = Inr (ds', c')"
    by (auto simp: bindS_def retS_def bindR_Inr_iff)
  obtain st where st: "stamp dk (dk_real dk p) = Inr st" "file_digest sha dk (dk_real dk p) = Inr d"
    "dict_get (fresh c1) = (dict_get (fresh c))(dk_real dk p \<mapsto> (st, d))" "c1 = c\<lparr>fresh := fresh c1\<rparr>"
    using fileHash_fresh [OF 1(1) Cons.prems(2-4)] .
  have "digests_ok sha C (fresh c1)"
    using Cons.prems(2) st timeline_digest [OF Cons.prems(4) st(1), of sha] by (auto simp: digests_ok_def)
  moreover have "digests_ok sha C (memo c1)"
    using Cons.prems(3) by (subst st(4)) simp
  ultimately have IH: "dict_get (fresh c') = (\<lambda>q. if q \<in> dk_real dk ` set ps
      then case (stamp dk q, file_digest sha dk q) of (Inr st, Inr d) \<Rightarrow> Some (st, d) | _ \<Rightarrow> None
      else dict_get (fresh c1) q)" "c' = c1\<lparr>fresh := fresh c'\<rparr>"
    using Cons.IH [OF 1(2) _ _ Cons.prems(4)] by blast+
  have "c' = c\<lparr>fresh := fresh c'\<rparr>"
    by (subst IH(2), subst st(4)) simp
  then show ?case using IH(1) st by (auto simp: fun_eq_iff)
qed (simp add: retS_def)


lemma hashMany_fresh:
  assumes "mapS (fileHash sha dk) ps c = Inr (ds, c')" and "mapS (fileHash sha dk) qs c = Inr (es, c'')"
    and "set ps = set qs" and "digests_ok sha C (fresh c)" and "digests_ok sha C (memo c)" and "timeline C R dk"
  shows "dict_get (fresh c') = dict_get (fresh c'')" and "c'\<lparr>fresh := fresh c''\<rparr> = c''"
proof -
  note a = fileHash_all_fresh [OF assms(1,4,5,6)] and b = fileHash_all_fresh [OF assms(2,4,5,6)]
  show "dict_get (fresh c') = dict_get (fresh c'')" using a b assms(3) by simp
  show "c'\<lparr>fresh := fresh c''\<rparr> = c''"
    by (subst conjunct2 [OF a], subst (2) conjunct2 [OF b]) simp
qed

subsection \<open>An example disk\<close>

text \<open>Two scripts that name each other, and a data directory.\<close>

definition ex_file :: "string \<Rightarrow> finfo" where
  "ex_file t = \<lparr>fi_data = Some t, fi_size = int (length t), fi_mtime = 7\<rparr>"

definition ex_disk :: disk where
  "ex_disk = \<lparr>dk_files = [(''/r/tests/a.sh'', ex_file (''sh b.sh'' @ [nl] @ ''# c.sh'')), (''/r/tests/b.sh'', ex_file ''sh a.sh''),
       (''/r/tests/c.sh'', ex_file ''echo'')],
     dk_dirs = [(''/r'', [''tests''], []), (''/r/tests'', [], [''b.sh'', ''a.sh'', ''c.sh''])],
     dk_real = id, dk_exec = []\<rparr>"

definition ex_closure :: closure where
  "ex_closure = \<lparr>cl_repo = ''/r'', cl_build = ''/b'', cl_exes = []\<rparr>"

definition ex_caches :: caches where
  "ex_caches = \<lparr>memo = [], fresh = [], memo_embedded = [], fresh_embedded = [], trees = [], scripts = [], closures = []\<rparr>"

definition ex_content :: "string \<Rightarrow> string \<Rightarrow> string res" where
  "ex_content p st = read_bytes ex_disk p"

lemma ex_timeline: "timeline ex_content id ex_disk"
  by (simp add: timeline_def ex_content_def) (simp add: ex_disk_def)

lemma ex_caches_ok: "caches_ok id ex_content ex_disk ex_closure ex_caches"
  by (simp add: caches_ok_def ex_caches_def digests_ok_def embedded_ok_def)

subsection \<open>Properties\<close>


text \<open>With caches that are right, \<open>ofScript\<close> returns the closure computed without them, and leaves the
  caches right.\<close>

theorem ofScript_with_caches:
  assumes "caches_ok sha C dk cl c"
  shows "\<exists>r c'. ofScript dk cl path c = Inr (r, c') \<and> closure_of dk cl (dk_real dk path) = Inr r \<and> caches_ok sha C dk cl c'"
proof -
  obtain r where r: "closure_of dk cl (dk_real dk path) = Inr r" by (rule closure_of_reaches)
  from refines_total [OF ofScript_refines [of sha C dk cl path, unfolded r] assms] r show ?thesis by blast
qed

theorem ofScript_with_caches_witness:
  "\<exists>r c'. ofScript ex_disk ex_closure ''/r/tests/a.sh'' ex_caches = Inr (r, c')
     \<and> closure_of ex_disk ex_closure (dk_real ex_disk ''/r/tests/a.sh'') = Inr r \<and> caches_ok id ex_content ex_disk ex_closure c'"
  by (rule ofScript_with_caches [OF ex_caches_ok])

text \<open>On a disk whose stamps tell the contents, the fingerprint of a file taken from the memo of an earlier
  run or from this run is the fingerprint of its bytes, and the memo stays right.\<close>

theorem fileHash_with_memo:
  assumes "timeline C R dk" and "caches_ok sha C dk cl c" and "fileHash sha dk path c = Inr (d, c')"
  shows "file_digest sha dk (dk_real dk path) = Inr d \<and> caches_ok sha C dk cl c'"
  by (rule refinesD [OF fileHash_refines [OF assms(1)] assms(2,3)])

theorem fileHash_with_memo_witness:
  "\<exists>d c'. fileHash id ex_disk ''/r/tests/b.sh'' ex_caches = Inr (d, c')
     \<and> file_digest id ex_disk (dk_real ex_disk ''/r/tests/b.sh'') = Inr d \<and> caches_ok id ex_content ex_disk ex_closure c'"
proof -
  have "case fileHash id ex_disk ''/r/tests/b.sh'' ex_caches of Inl _ \<Rightarrow> False | Inr _ \<Rightarrow> True" by code_simp
  then obtain d c' where f: "fileHash id ex_disk ''/r/tests/b.sh'' ex_caches = Inr (d, c')"
    by (cases "fileHash id ex_disk ''/r/tests/b.sh'' ex_caches") (simp, metis surj_pair)
  from fileHash_with_memo [OF ex_timeline ex_caches_ok f] f show ?thesis by blast
qed

text \<open>The threads of the pool may hash the files in any order: two orders of the same files leave the same
  digests, and nothing else of the state differs.\<close>

theorem hashMany_any_order:
  assumes "mapS (fileHash sha dk) ps c = Inr (ds, c')" and "mapS (fileHash sha dk) qs c = Inr (es, c'')"
    and "set ps = set qs" and "caches_ok sha C dk cl c" and "timeline C R dk"
  shows "dict_get (fresh c') = dict_get (fresh c'') \<and> c'\<lparr>fresh := fresh c''\<rparr> = c''"
  using hashMany_fresh [OF assms(1-3) _ _ assms(5)] assms(4) by (simp add: caches_ok_def)

theorem hashMany_any_order_witness:
  "\<exists>ds c' es c''. mapS (fileHash id ex_disk) [''/r/tests/a.sh'', ''/r/tests/b.sh''] ex_caches = Inr (ds, c')
     \<and> mapS (fileHash id ex_disk) [''/r/tests/b.sh'', ''/r/tests/a.sh''] ex_caches = Inr (es, c'')
     \<and> dict_get (fresh c') = dict_get (fresh c'')"
proof -
  let ?A = "mapS (fileHash id ex_disk) [''/r/tests/a.sh'', ''/r/tests/b.sh''] ex_caches"
  let ?B = "mapS (fileHash id ex_disk) [''/r/tests/b.sh'', ''/r/tests/a.sh''] ex_caches"
  have "case ?A of Inl _ \<Rightarrow> False | Inr _ \<Rightarrow> True" "case ?B of Inl _ \<Rightarrow> False | Inr _ \<Rightarrow> True" by code_simp+
  then obtain ds c' es c'' where r: "?A = Inr (ds, c')" "?B = Inr (es, c'')"
    by (metis old.sum.simps(5) sumE surj_pair)
  have "dict_get (fresh c') = dict_get (fresh c'') \<and> c'\<lparr>fresh := fresh c''\<rparr> = c''"
    by (rule hashMany_any_order [OF r _ ex_caches_ok ex_timeline]) auto
  with r show ?thesis by blast
qed

text \<open>The walk of a directory, whose bound is the number of directories of the disk, is the recursive descent
  of \<open>os.walk\<close> with the directories filtered and sorted: the bound is never met.\<close>

theorem walk_is_the_descent:
  assumes "names_ok (dk_dirs dk)"
  shows "walk_sorted dk keep b =
    (case map_of (dk_dirs dk) b of None \<Rightarrow> []
     | Some (ds, fs) \<Rightarrow> (b, fs) # concat (map (\<lambda>d. walk_sorted dk keep (path_join b d)) (sort (filter keep ds))))"
  using assms by (rule walk_sorted_rec)

theorem walk_is_the_descent_witness:
  "walk_sorted ex_disk (\<lambda>_. True) ''/r'' = [(''/r'', []), (''/r/tests'', [''b.sh'', ''a.sh'', ''c.sh''])]"
proof -
  have "names_ok (dk_dirs ex_disk)" by code_simp
  from walk_is_the_descent [OF this, of "\<lambda>_. True" "''/r''"]
  show ?thesis by (simp add: ex_disk_def path_join_def is_abs_def startswith_def endswith_def slash_def walk_sorted_def)
qed

end
