(* ===== verification/Ctest_Cached.thy ===== *)
theory Ctest_Cached
  imports Ctest_Inputs "HOL-Library.Product_Lexorder"
begin

text \<open>
  The rest of \<open>src/tools/ctest_cached.py\<close>: the identity of the machine, the fingerprint of a test,
  the command line, and \<open>main\<close>: which tests are held because their fingerprint has a recorded pass,
  which run, and which passes are recorded afterwards.  What \<open>main\<close> asks of other programs
  (the list of tests and the result file of \<open>ctest\<close>, \<open>nvidia-smi\<close>, \<open>git\<close>, the clock) and the disk before
  and after the tests ran are the fields of a record \<open>world\<close>; the store of passes and the file
  memo are a record \<open>store\<close> that a run reads and returns updated.  The lemmas show that a
  fingerprint computed with the caches is the one computed without them, and, over every sequence of
  runs, that a recorded key is the fingerprint of a test that passed and whose run left the
  fingerprint standing.
\<close>

subsection \<open>Python text of JSON and list values\<close>

definition hex_digit :: "nat \<Rightarrow> char" where
  "hex_digit d = (if d < 10 then char_of (48 + d) else char_of (87 + d))"

definition json_char :: "char \<Rightarrow> string" where
  "json_char c =
     (if c = dquote then [bslash, dquote] else if c = bslash then [bslash, bslash]
      else if c = nl then bslash # ''n'' else if c = CHR 0x0D then bslash # ''r''
      else if c = CHR 0x09 then bslash # ''t'' else if c = CHR 0x08 then bslash # ''b''
      else if c = CHR 0x0C then bslash # ''f''
      else let n = of_char c :: nat
           in if 32 \<le> n \<and> n \<le> 126 then [c]
              else bslash # ''u00'' @ [hex_digit (n div 16), hex_digit (n mod 16)])"

definition json_str :: "string \<Rightarrow> string" where
  "json_str s = [dquote] @ concat (map json_char s) @ [dquote]"

definition json_list :: "string list \<Rightarrow> string" where
  "json_list xs = ''['' @ join '', '' (map json_str xs) @ '']''"

subsection \<open>\<open>machineIdentity\<close> and \<open>property_\<close>\<close>

definition of_row :: "disk \<Rightarrow> string \<Rightarrow> string \<Rightarrow> string res" where
  "of_row dk name full = bindR (stat dk full) (\<lambda>fi.
     Inr (''of '' @ name @ '' '' @ show_int (fi_size fi) @ '' '' @ show_int (fi_mtime fi)))"

definition machine_sub :: "disk \<Rightarrow> string \<Rightarrow> string \<Rightarrow> string list res" where
  "machine_sub dk root sub =
     (let full = path_join root sub
      in if isfile dk full then bindR (of_row dk sub full) (\<lambda>r. Inr [r])
         else if isdir dk full then
           mapR (\<lambda>(base, name). of_row dk name (path_join base name))
             (concat (map (\<lambda>(base, files). map (Pair base)
                (filter (\<lambda>n. endswith base ''/bin'' \<or> startswith_any n [''libOpenFOAM'', ''libfiniteVolume'']) (sort files)))
                (walk_sorted dk (\<lambda>_. True) full)))
         else Inr [])"

definition of_root :: "(string, string) dict \<Rightarrow> string" where
  "of_root env = (case get_or env ''WM_PROJECT_DIR'' [] of [] \<Rightarrow> ''/usr/lib/openfoam/openfoam2412'' | d \<Rightarrow> d)"

definition machineIdentity :: "disk \<Rightarrow> (string, string) dict \<Rightarrow> string option \<Rightarrow> string list res" where
  "machineIdentity dk env smi =
     bindR (mapR (machine_sub dk (of_root env)) [''etc/bashrc'', ''platforms'']) (\<lambda>rows.
       Inr (concat rows @ [''gpu '' @ (case smi of Some out \<Rightarrow> strip out | None \<Rightarrow> ''no nvidia-smi'')]))"

datatype pvalue = PList "string list" | PText string

record ctest =
  t_name :: string
  t_command :: "string list"
  t_properties :: "(string \<times> pvalue) list"

definition test_property :: "ctest \<Rightarrow> string \<Rightarrow> pvalue \<Rightarrow> pvalue" where
  "test_property t name dflt = (case map_of (t_properties t) name of Some v \<Rightarrow> v | None \<Rightarrow> dflt)"

text \<open>A property used as a sequence: a text is the sequence of its characters.\<close>

definition pv_list :: "pvalue \<Rightarrow> string list" where
  "pv_list v = (case v of PList l \<Rightarrow> l | PText s \<Rightarrow> map (\<lambda>c. [c]) s)"

text \<open>\<open>str\<close> of a property; ctest gives the working directory as a text.\<close>

definition pv_str :: "pvalue \<Rightarrow> string" where
  "pv_str v = (case v of PText s \<Rightarrow> s | PList l \<Rightarrow> ''['' @ join '', '' (map (\<lambda>x. [squote] @ x @ [squote]) l) @ '']'')"

subsection \<open>\<open>fingerprint\<close>\<close>

record taken =
  tk_files :: "string list"
  tk_trees :: "string list"
  tk_outside :: "string list"

definition add_files_to :: "string list \<Rightarrow> taken \<Rightarrow> taken" where
  "add_files_to xs a = a\<lparr>tk_files := sorted_set (tk_files a @ xs)\<rparr>"

definition add_trees_to :: "string list \<Rightarrow> taken \<Rightarrow> taken" where
  "add_trees_to xs a = a\<lparr>tk_trees := sorted_set (tk_trees a @ xs)\<rparr>"

definition add_outside_to :: "string list \<Rightarrow> taken \<Rightarrow> taken" where
  "add_outside_to xs a = a\<lparr>tk_outside := sorted_set (tk_outside a @ xs)\<rparr>"

definition repo_parts :: "string list" where
  "repo_parts = [''CMakeLists.txt'', ''src'', ''tests'', ''tools'']"

text \<open>
  The inner function \<open>take\<close>, with the interpreter's recursion limit as its bound: a call too deep
  raises RecursionError.
\<close>

primrec take_path :: "nat \<Rightarrow> disk \<Rightarrow> closure \<Rightarrow> taken \<Rightarrow> string \<Rightarrow> (caches, taken) op" where
  "take_path 0 dk cl a path = liftS (Inl RecursionError)"
| "take_path (Suc n) dk cl a path =
     (if isfile dk path then
        (let a1 = add_files_to [dk_real dk path] a
         in if endswith_any path SCRIPT_SUFFIXES
            then bindS (ofScript dk cl path) (\<lambda>r.
              foldS (take_path n dk cl) (add_trees_to (snd (snd r)) (add_files_to (fst r) a1))
                (map (path_join (cl_build cl)) (fst (snd r))))
            else if inBuild dk cl path
            then bindS (ofBinary dk cl path) (\<lambda>r. retS (add_trees_to (snd r) (add_files_to (fst r) a1)))
            else retS a1)
      else if isdir dk path \<and> \<not> inBuild dk cl path then
        (let real = dk_real dk path
         in if real = cl_repo cl then foldS (take_path n dk cl) a (map (path_join (cl_repo cl)) repo_parts)
            else if inRepo dk cl real then retS (add_trees_to [real] a)
            else retS (add_outside_to [real] a))
      else retS a)"

definition recursion_limit :: nat where "recursion_limit = 1000"

text \<open>The paths the fingerprint takes, in the order of its three loops.\<close>

definition command_paths :: "string list \<Rightarrow> string list" where
  "command_paths command =
     filter is_abs (concat (map (\<lambda>t. [t, last (split_once (CHR ''='') t)]) command))"

definition environment_paths :: "string list \<Rightarrow> string list" where
  "environment_paths entries =
     filter is_abs (map (\<lambda>e. last (split_once (CHR ''='') e)) (filter (in_list (CHR ''='')) entries))"

definition taken_paths :: "closure \<Rightarrow> ctest \<Rightarrow> string list" where
  "taken_paths cl t =
     command_paths (t_command t) @ environment_paths (pv_list (test_property t ''ENVIRONMENT'' (PList [])))
     @ map (path_join (cl_build cl)) (pv_list (test_property t ''DEPENDS'' (PList [])))"

definition FORMAT :: string where "FORMAT = ''ctest-cached-2''"

definition head_rows :: "(string, string) dict \<Rightarrow> string list \<Rightarrow> string list \<Rightarrow> ctest \<Rightarrow> string list" where
  "head_rows env machine globalEnv t =
     [FORMAT, ''salt '' @ get_or env ''BRAE_TEST_CACHE_SALT'' [],
      ''command '' @ json_list (t_command t),
      ''environment '' @ json_list (sort (pv_list (test_property t ''ENVIRONMENT'' (PList [])))),
      ''cwd '' @ pv_str (test_property t ''WORKING_DIRECTORY'' (PText []))] @ globalEnv @ machine"

definition fingerprint_rows :: "(string \<Rightarrow> string) \<Rightarrow> disk \<Rightarrow> closure \<Rightarrow> (string, string) dict \<Rightarrow> string list \<Rightarrow>
    string list \<Rightarrow> ctest \<Rightarrow> (caches, string list) op" where
  "fingerprint_rows sha dk cl env machine globalEnv t =
     bindS (foldS (take_path recursion_limit dk cl) \<lparr>tk_files = [], tk_trees = [], tk_outside = []\<rparr> (taken_paths cl t)) (\<lambda>a.
     bindS (mapS (\<lambda>f. bindS (fileHash sha dk f) (\<lambda>h. retS (''file '' @ f @ '' '' @ h))) (tk_files a)) (\<lambda>fr.
     bindS (mapS (\<lambda>r. bindS (treeHash sha dk r True) (\<lambda>h. retS (''tree '' @ r @ '' '' @ h))) (tk_trees a)) (\<lambda>tr.
     bindS (mapS (\<lambda>r. bindS (treeHash sha dk r False) (\<lambda>h. retS (''outside '' @ r @ '' '' @ h))) (tk_outside a)) (\<lambda>outr.
       retS (head_rows env machine globalEnv t @ fr @ tr @ outr)))))"

definition fingerprint :: "(string \<Rightarrow> string) \<Rightarrow> disk \<Rightarrow> closure \<Rightarrow> (string, string) dict \<Rightarrow> string list \<Rightarrow>
    string list \<Rightarrow> ctest \<Rightarrow> (caches, string) op" where
  "fingerprint sha dk cl env machine globalEnv t =
     bindS (fingerprint_rows sha dk cl env machine globalEnv t) (\<lambda>rows. retS (sha (join [nl] rows)))"

subsection \<open>\<open>splitArguments\<close>\<close>

record ours =
  o_testDir :: string
  o_noCache :: bool
  o_list :: bool
  o_explain :: "string option"
  o_store :: "string option"

definition FILTER_OPTIONS :: "string list" where
  "FILTER_OPTIONS = [''-R'', ''--tests-regex'', ''-E'', ''--exclude-regex'', ''-L'', ''--label-regex'', ''-LE'',
     ''--label-exclude'', ''-I'', ''--tests-information'']"

definition default_ours :: ours where
  "default_ours = \<lparr>o_testDir = ''build'', o_noCache = False, o_list = False, o_explain = None, o_store = None\<rparr>"

type_synonym split_result = "ours \<times> string list \<times> string list"

fun split_args_from :: "string list \<Rightarrow> split_result \<Rightarrow> split_result res" where
  "split_args_from [] acc = Inr acc"
| "split_args_from (a # as) (ours, filters, rest) =
     (if a = ''--no-cache'' then split_args_from as (ours\<lparr>o_noCache := True\<rparr>, filters, rest)
      else if a = ''--list'' then split_args_from as (ours\<lparr>o_list := True\<rparr>, filters, rest)
      else if a \<in> set ([''--test-dir'', ''--explain'', ''--store''] @ FILTER_OPTIONS) then
        (case as of [] \<Rightarrow> Inl IndexError
         | v # as' \<Rightarrow>
             if a = ''--test-dir'' then split_args_from as' (ours\<lparr>o_testDir := v\<rparr>, filters, rest)
             else if a = ''--explain'' then split_args_from as' (ours\<lparr>o_explain := Some v\<rparr>, filters, rest)
             else if a = ''--store'' then split_args_from as' (ours\<lparr>o_store := Some v\<rparr>, filters, rest)
             else split_args_from as' (ours, filters @ [a, v], rest))
      else split_args_from as (ours, filters, rest @ [a]))"

definition splitArguments :: "string list \<Rightarrow> split_result res" where
  "splitArguments argv = split_args_from argv (default_ours, [], [])"


subsection \<open>\<open>main\<close>\<close>

text \<open>One \<open>testcase\<close> of the result file: its name, its status and whether it has a failure, an error or a skip.\<close>

record testcase =
  tc_name :: string
  tc_status :: string
  tc_bad :: bool

record world =
  w_env :: "(string, string) dict"
  w_home :: string
  w_listing :: "string list \<Rightarrow> int \<times> string \<times> ctest list"
  w_before :: disk
  w_after :: disk
  w_smi :: "string option"
  w_seconds :: string
  w_run :: int
  w_junit :: "testcase list option"
  w_head :: string
  w_when :: string

record store =
  s_memo :: "(string, string \<times> string) dict"
  s_memo_embedded :: "(string, string \<times> string list) dict"
  s_passed :: "(string, string \<times> string \<times> string) dict"

record outcome =
  oc_code :: int
  oc_out :: "string list"
  oc_err :: string
  oc_ctest :: "string list option"
  oc_store :: store

definition new_caches :: "store \<Rightarrow> caches" where
  "new_caches s = \<lparr>memo = s_memo s, fresh = [], memo_embedded = s_memo_embedded s, fresh_embedded = [],
                   trees = [], scripts = [], closures = []\<rparr>"

text \<open>The repository, from the last \<open>CMAKE_HOME_DIRECTORY\<close> line of the build's cache.\<close>

definition home_line :: "disk \<Rightarrow> string res \<Rightarrow> string \<Rightarrow> string res" where
  "home_line dk repo line =
     (if startswith line ''CMAKE_HOME_DIRECTORY:''
      then bindR repo (\<lambda>_. bindR (nth_or (split_once (CHR ''='') line) 1) (\<lambda>v. Inr (dk_real dk (strip v))))
      else repo)"

definition find_repo :: "disk \<Rightarrow> string \<Rightarrow> string res" where
  "find_repo dk build =
     bindR (read_bytes dk (path_join build ''CMakeCache.txt'')) (\<lambda>t.
       foldl (home_line dk) (Inr build) (split_on nl t))"

definition global_env :: "(string, string) dict \<Rightarrow> string list" where
  "global_env env =
     map (\<lambda>(k, v). ''env '' @ k @ ''='' @ v)
       (filter (\<lambda>(k, v). (startswith k ''BRAE_'' \<or> k = ''CUDA_VISIBLE_DEVICES'')
           \<and> \<not> in_list k [''BRAE_TEST_CACHE'', ''BRAE_TEST_CACHE_SALT'', ''BRAE_CTEST''])
         (sort env))"

definition store_name :: "ours \<Rightarrow> world \<Rightarrow> string" where
  "store_name o1 w =
     (case o_store o1 of Some (c # cs) \<Rightarrow> c # cs
      | _ \<Rightarrow> (case get_or (w_env w) ''BRAE_TEST_CACHE'' [] of
                [] \<Rightarrow> path_join (w_home w) ''.cache/brae/test-results'' | d \<Rightarrow> d))"

definition keysOf :: "(ctest \<Rightarrow> (caches, string) op) \<Rightarrow> ctest list \<Rightarrow> (caches, (string, string) dict) op" where
  "keysOf fp ts =
     bindS (mapS (\<lambda>t. bindS (fp t) (\<lambda>k. retS (t_name t, k))) ts) (\<lambda>kvs. retS (dict_update [] kvs))"

definition recorded :: "store \<Rightarrow> string \<Rightarrow> bool" where
  "recorded s key \<longleftrightarrow> dict_get (s_passed s) key \<noteq> None"

definition held_names :: "store \<Rightarrow> bool \<Rightarrow> (string, string) dict \<Rightarrow> ctest list \<Rightarrow> string list" where
  "held_names s noCache ks tests =
     map t_name (filter (\<lambda>t. recorded s (get_or ks (t_name t) []) \<and> \<not> noCache) tests)"

definition to_run :: "string list \<Rightarrow> ctest list \<Rightarrow> ctest list" where
  "to_run held tests = filter (\<lambda>t. \<not> in_list (t_name t) held) tests"

text \<open>\<open>re.escape\<close>.\<close>

definition re_escape :: "string \<Rightarrow> string" where
  "re_escape s =
     concat (map (\<lambda>c. if in_list c (''()[]{}?*+-|^$.&~# '' @ [bslash, nl, CHR 0x09, CHR 0x0D, CHR 0x0B, CHR 0x0C])
                      then [bslash, c] else [c]) s)"

definition run_pattern :: "ctest list \<Rightarrow> string" where
  "run_pattern ts = ''^('' @ join ''|'' (map (\<lambda>t. re_escape (t_name t)) ts) @ '')$''"

definition case_passed :: "testcase \<Rightarrow> bool" where
  "case_passed c \<longleftrightarrow> tc_status c = ''run'' \<and> \<not> tc_bad c"

definition passed_names :: "testcase list \<Rightarrow> string list" where
  "passed_names cs = map tc_name (filter case_passed cs)"

definition other_names :: "testcase list \<Rightarrow> string list" where
  "other_names cs = map tc_name (filter (\<lambda>c. \<not> case_passed c) cs)"

definition forget_tree :: "caches \<Rightarrow> caches" where
  "forget_tree c = c\<lparr>trees := [], scripts := [], closures := []\<rparr>"

definition by_name :: "ctest list \<Rightarrow> (string, ctest) dict" where
  "by_name tests = dict_update [] (map (\<lambda>t. (t_name t, t)) tests)"

definition moved_names :: "(string, string) dict \<Rightarrow> (string, string) dict \<Rightarrow> string list \<Rightarrow> string list" where
  "moved_names ks after passed = filter (\<lambda>n. dict_get after n \<noteq> dict_get ks n) passed"

definition record_pass :: "(string, string) dict \<Rightarrow> string list \<Rightarrow> string \<Rightarrow> string \<Rightarrow>
    string \<Rightarrow> (string, string \<times> string \<times> string) dict \<Rightarrow> (string, string \<times> string \<times> string) dict" where
  "record_pass ks moved when head n passed =
     (if in_list n moved then passed
      else case dict_get ks n of None \<Rightarrow> passed | Some k \<Rightarrow> dict_set k (n, when, head) passed)"

definition record_passes :: "(string, string) dict \<Rightarrow> string list \<Rightarrow> string \<Rightarrow> string \<Rightarrow> string list \<Rightarrow> store \<Rightarrow> store" where
  "record_passes ks moved when head names s =
     s\<lparr>s_passed := fold (record_pass ks moved when head) names (s_passed s)\<rparr>"

definition save_memo :: "disk \<Rightarrow> caches \<Rightarrow> store \<Rightarrow> store" where
  "save_memo dk c s = s\<lparr>s_memo := saved_files dk c, s_memo_embedded := saved_embedded dk c\<rparr>"

definition selected_line :: "nat \<Rightarrow> nat \<Rightarrow> nat \<Rightarrow> string \<Rightarrow> string \<Rightarrow> string" where
  "selected_line n h r secs name =
     ''ctest_cached: '' @ show_nat n @ '' tests selected, '' @ show_nat h
     @ '' passed before on the same inputs, '' @ show_nat r @ '' to run (fingerprints in '' @ secs @ '' s; store ''
     @ name @ '')''"

definition moved_line :: "string list \<Rightarrow> string" where
  "moved_line moved =
     ''ctest_cached: '' @ show_nat (length moved)
     @ '' passed and are NOT recorded -- their own run changed their inputs: ''
     @ join '' '' (take 12 (sort moved)) @ (if 12 < length moved then '' ...'' else [])"

definition ran_line :: "nat \<Rightarrow> nat \<Rightarrow> nat \<Rightarrow> string" where
  "ran_line p q h =
     ''ctest_cached: ran '' @ show_nat (p + q) @ '': '' @ show_nat p @ '' passed, '' @ show_nat q
     @ '' did not; '' @ show_nat h @ '' held from earlier runs''"

text \<open>After ctest ran: the passes that are recorded, and the verdict.\<close>

definition after_run :: "(string \<Rightarrow> string) \<Rightarrow> world \<Rightarrow> closure \<Rightarrow> string list \<Rightarrow> string list \<Rightarrow> ctest list \<Rightarrow>
    (string, string) dict \<Rightarrow> nat \<Rightarrow> testcase list \<Rightarrow> caches \<Rightarrow> store \<Rightarrow> (int \<times> string list \<times> store) res" where
  "after_run sha w cl machine genv tests ks nheld cs c s =
     (let passed = passed_names cs; other = other_names cs;
          again = List.map_filter (dict_get (by_name tests)) passed
      in bindR (keysOf (fingerprint sha (w_after w) cl (w_env w) machine genv) again (forget_tree c)) (\<lambda>(after, c').
           let moved = moved_names ks after passed;
               s' = record_passes ks moved (w_when w) (w_head w) passed (save_memo (w_after w) c' s)
           in Inr (w_run w,
                   ran_line (length passed) (length other) nheld
                     # (if moved = [] then [] else [moved_line moved]), s')))"

definition finish :: "int \<Rightarrow> string list \<Rightarrow> string \<Rightarrow> string list option \<Rightarrow> store \<Rightarrow> outcome" where
  "finish code out err cmd s = \<lparr>oc_code = code, oc_out = out, oc_err = err, oc_ctest = cmd, oc_store = s\<rparr>"

definition run_tests :: "(string \<Rightarrow> string) \<Rightarrow> world \<Rightarrow> closure \<Rightarrow> string list \<Rightarrow> string list \<Rightarrow> string \<Rightarrow> string list \<Rightarrow>
    ctest list \<Rightarrow> (string, string) dict \<Rightarrow> string list \<Rightarrow> string list \<Rightarrow> caches \<Rightarrow> store \<Rightarrow> outcome res" where
  "run_tests sha w cl machine genv build rest tests ks held out c s =
     (let pattern = run_pattern (to_run held tests);
          cmd = Some ([get_or (w_env w) ''BRAE_CTEST'' ''ctest'', ''--test-dir'', build, ''-R'', pattern, ''--output-junit'',
                  path_join (path_join build ''Testing'') ''ctest_cached_junit.xml''] @ rest)
      in case w_junit w of
           None \<Rightarrow> Inr (finish (if w_run w = 0 then 1 else w_run w) out
             (''ctest_cached: ctest left no result file; nothing is recorded'' @ [nl]) cmd s)
         | Some cs \<Rightarrow>
             bindR (after_run sha w cl machine genv tests ks (length held) cs c s) (\<lambda>(code, lines, s').
               Inr (finish code (out @ lines) [] cmd s')))"

definition explain_test :: "(string \<Rightarrow> string) \<Rightarrow> world \<Rightarrow> closure \<Rightarrow> string list \<Rightarrow> string list \<Rightarrow> string \<Rightarrow>
    ctest list \<Rightarrow> caches \<Rightarrow> store \<Rightarrow> outcome res" where
  "explain_test sha w cl machine genv name tests c s =
     (case filter (\<lambda>t. t_name t = name) tests of
        [] \<Rightarrow> Inr (finish 2 [] (''no test named '' @ name @ '' among the '' @ show_nat (length tests) @ '' selected'' @ [nl]) None s)
      | t # _ \<Rightarrow>
          bindR (fingerprint_rows sha (w_before w) cl (w_env w) machine genv t c) (\<lambda>(rows, _).
            let key = sha (join [nl] rows)
            in Inr (finish 0 [join [nl] rows, ''fingerprint '' @ key @ '', ''
                 @ (if recorded s key then ''a pass is recorded'' else ''no pass recorded'')] [] None s)))"

definition choose_and_run :: "(string \<Rightarrow> string) \<Rightarrow> world \<Rightarrow> ours \<Rightarrow> closure \<Rightarrow> string list \<Rightarrow> string list \<Rightarrow> string \<Rightarrow>
    string list \<Rightarrow> ctest list \<Rightarrow> (string, string) dict \<Rightarrow> caches \<Rightarrow> store \<Rightarrow> outcome res" where
  "choose_and_run sha w o1 cl machine genv build rest tests ks c s =
     (let held = held_names s (o_noCache o1) ks tests;
          torun = to_run held tests;
          line = selected_line (length tests) (length held) (length torun) (w_seconds w) (store_name o1 w)
      in if o_list o1 then
           Inr (finish 0 (line # map (\<lambda>t. (if in_list (t_name t) held then ''held'' else ''run '') @ '' '' @ t_name t) tests)
                  [] None s)
         else if torun = [] then Inr (finish 0 [line, ''ctest_cached: nothing to run''] [] None s)
         else run_tests sha w cl machine genv build rest tests ks held [line] c s)"

definition cc_main :: "(string \<Rightarrow> string) \<Rightarrow> world \<Rightarrow> string list \<Rightarrow> store \<Rightarrow> outcome res" where
  "cc_main sha w argv s =
     bindR (splitArguments argv) (\<lambda>(o1, filters, rest).
     let dk = w_before w; build = dk_real dk (o_testDir o1) in
     case w_listing w ([''--test-dir'', build, ''--show-only=json-v1''] @ filters) of (rc, err, all) \<Rightarrow>
     if rc \<noteq> 0 then Inr (finish rc [] err None s)
     else let tests = filter (\<lambda>t. t_command t \<noteq> []) all in
     bindR (find_repo dk build) (\<lambda>repo.
     bindR (new_closure dk repo build) (\<lambda>cl.
     bindR (machineIdentity dk (w_env w) (w_smi w)) (\<lambda>machine.
     let genv = global_env (w_env w) in
     bindR (hashMany sha dk (map (path_join build) (cl_exes cl)) (new_caches s)) (\<lambda>(_, c0).
     bindR (keysOf (fingerprint sha dk cl (w_env w) machine genv) tests c0) (\<lambda>(ks, c1).
     let c2 = save c1; s1 = save_memo dk c1 s in
     case o_explain o1 of
       Some (e # es) \<Rightarrow> explain_test sha w cl machine genv (e # es) tests c2 s1
     | _ \<Rightarrow> choose_and_run sha w o1 cl machine genv build rest tests ks c2 s1))))))"


subsection \<open>The fingerprint without the caches\<close>

primrec take_pure :: "nat \<Rightarrow> disk \<Rightarrow> closure \<Rightarrow> taken \<Rightarrow> string \<Rightarrow> taken res" where
  "take_pure 0 dk cl a path = Inl RecursionError"
| "take_pure (Suc n) dk cl a path =
     (if isfile dk path then
        (let a1 = add_files_to [dk_real dk path] a
         in if endswith_any path SCRIPT_SUFFIXES
            then bindR (closure_of dk cl (dk_real dk path)) (\<lambda>r.
              foldR (take_pure n dk cl) (add_trees_to (snd (snd r)) (add_files_to (fst r) a1))
                (map (path_join (cl_build cl)) (fst (snd r))))
            else if inBuild dk cl path
            then bindR (binary_of dk cl (dk_real dk path)) (\<lambda>r. Inr (add_trees_to (snd r) (add_files_to (fst r) a1)))
            else Inr a1)
      else if isdir dk path \<and> \<not> inBuild dk cl path then
        (let real = dk_real dk path
         in if real = cl_repo cl then foldR (take_pure n dk cl) a (map (path_join (cl_repo cl)) repo_parts)
            else if inRepo dk cl real then Inr (add_trees_to [real] a)
            else Inr (add_outside_to [real] a))
      else Inr a)"

definition rows_of :: "(string \<Rightarrow> string) \<Rightarrow> disk \<Rightarrow> closure \<Rightarrow> (string, string) dict \<Rightarrow> string list \<Rightarrow>
    string list \<Rightarrow> ctest \<Rightarrow> string list res" where
  "rows_of sha dk cl env machine globalEnv t =
     bindR (foldR (take_pure recursion_limit dk cl) \<lparr>tk_files = [], tk_trees = [], tk_outside = []\<rparr> (taken_paths cl t)) (\<lambda>a.
     bindR (mapR (\<lambda>f. bindR (file_digest sha dk (dk_real dk f)) (\<lambda>h. Inr (''file '' @ f @ '' '' @ h))) (tk_files a)) (\<lambda>fr.
     bindR (mapR (\<lambda>r. bindR (tree_digest sha dk (dk_real dk r) True) (\<lambda>h. Inr (''tree '' @ r @ '' '' @ h))) (tk_trees a)) (\<lambda>tr.
     bindR (mapR (\<lambda>r. bindR (tree_digest sha dk (dk_real dk r) False) (\<lambda>h. Inr (''outside '' @ r @ '' '' @ h))) (tk_outside a)) (\<lambda>outr.
       Inr (head_rows env machine globalEnv t @ fr @ tr @ outr)))))"

definition fingerprint_of :: "(string \<Rightarrow> string) \<Rightarrow> disk \<Rightarrow> closure \<Rightarrow> (string, string) dict \<Rightarrow> string list \<Rightarrow>
    string list \<Rightarrow> ctest \<Rightarrow> string res" where
  "fingerprint_of sha dk cl env machine globalEnv t =
     bindR (rows_of sha dk cl env machine globalEnv t) (\<lambda>rows. Inr (sha (join [nl] rows)))"

lemma refines_if [pyres]:
  "(P \<Longrightarrow> refines I a c) \<Longrightarrow> (\<not> P \<Longrightarrow> refines I b d) \<Longrightarrow> refines I (if P then a else b) (if P then c else d)"
  by simp

lemma take_path_refines:
  assumes "timeline C R dk"
  shows "refines (caches_ok sha C dk cl) (take_path n dk cl a path) (take_pure n dk cl a path)"
proof (induction n arbitrary: a path)
  case 0
  then show ?case by (simp add: refines_lift)
next
  case (Suc n)
  show ?case
    unfolding take_path.simps take_pure.simps Let_def
    by (intro refines_if refines_bind ofScript_refines ofBinary_refines [OF assms] refines_ret foldS_refines Suc.IH)
qed

lemma rows_refines:
  assumes "timeline C R dk"
  shows "refines (caches_ok sha C dk cl) (fingerprint_rows sha dk cl env machine genv t) (rows_of sha dk cl env machine genv t)"
  unfolding fingerprint_rows_def rows_of_def
  by (intro refines_bind refines_map refines_ret foldS_refines take_path_refines [OF assms]
      fileHash_refines [OF assms] treeHash_refines [OF assms])

lemma fingerprint_refines:
  assumes "timeline C R dk"
  shows "refines (caches_ok sha C dk cl) (fingerprint sha dk cl env machine genv t) (fingerprint_of sha dk cl env machine genv t)"
  unfolding fingerprint_def fingerprint_of_def by (intro refines_bind rows_refines [OF assms] refines_ret)

definition keys_of :: "(ctest \<Rightarrow> string res) \<Rightarrow> ctest list \<Rightarrow> (string, string) dict res" where
  "keys_of fp ts = bindR (mapR (\<lambda>t. bindR (fp t) (\<lambda>k. Inr (t_name t, k))) ts) (\<lambda>kvs. Inr (dict_update [] kvs))"

lemma keysOf_refines:
  "(\<And>t. refines I (fp t) (fq t)) \<Longrightarrow> refines I (keysOf fp ts) (keys_of fq ts)"
  unfolding keysOf_def keys_of_def by (intro refines_bind refines_map refines_ret)

subsection \<open>The command line\<close>

definition takes_value :: "string \<Rightarrow> bool" where
  "takes_value a \<longleftrightarrow> a \<in> set ([''--test-dir'', ''--explain'', ''--store''] @ FILTER_OPTIONS)"

definition own_flag :: "string \<Rightarrow> bool" where
  "own_flag a \<longleftrightarrow> a \<in> {''--no-cache'', ''--list''} \<or> takes_value a"

lemma split_args_step:
  "split_args_from (a # as) (o1, fs, rs) =
     (if a = ''--no-cache'' then split_args_from as (o1\<lparr>o_noCache := True\<rparr>, fs, rs)
      else if a = ''--list'' then split_args_from as (o1\<lparr>o_list := True\<rparr>, fs, rs)
      else if takes_value a then
        (case as of [] \<Rightarrow> Inl IndexError
         | v # as' \<Rightarrow>
             if a = ''--test-dir'' then split_args_from as' (o1\<lparr>o_testDir := v\<rparr>, fs, rs)
             else if a = ''--explain'' then split_args_from as' (o1\<lparr>o_explain := Some v\<rparr>, fs, rs)
             else if a = ''--store'' then split_args_from as' (o1\<lparr>o_store := Some v\<rparr>, fs, rs)
             else split_args_from as' (o1, fs @ [a, v], rs))
      else split_args_from as (o1, fs, rs @ [a]))"
  by (simp add: takes_value_def)

text \<open>What reaches ctest and the filters, as functions of the command line alone.\<close>

fun ctest_args :: "string list \<Rightarrow> string list" where
  "ctest_args [] = []"
| "ctest_args (a # as) =
     (if takes_value a then (case as of [] \<Rightarrow> [] | v # as' \<Rightarrow> ctest_args as')
      else if own_flag a then ctest_args as else a # ctest_args as)"

fun filter_args :: "string list \<Rightarrow> string list" where
  "filter_args [] = []"
| "filter_args (a # as) =
     (if takes_value a
      then (case as of [] \<Rightarrow> []
            | v # as' \<Rightarrow> (if in_list a FILTER_OPTIONS then [a, v] else []) @ filter_args as')
      else filter_args as)"

fun complete_args :: "string list \<Rightarrow> bool" where
  "complete_args [] = True"
| "complete_args (a # as) =
     (if takes_value a then (case as of [] \<Rightarrow> False | v # as' \<Rightarrow> complete_args as') else complete_args as)"

lemma takes_value_not_flag:
  "takes_value a \<Longrightarrow> a \<noteq> ''--no-cache'' \<and> a \<noteq> ''--list''"
  "takes_value a \<Longrightarrow> a \<noteq> ''--test-dir'' \<Longrightarrow> a \<noteq> ''--explain'' \<Longrightarrow> a \<noteq> ''--store'' \<Longrightarrow> a \<in> set FILTER_OPTIONS"
  "''--test-dir'' \<notin> set FILTER_OPTIONS" "''--explain'' \<notin> set FILTER_OPTIONS" "''--store'' \<notin> set FILTER_OPTIONS"
  by (auto simp: takes_value_def FILTER_OPTIONS_def)

lemma split_args_from_result:
  "if complete_args argv then \<exists>o2. split_args_from argv (o1, fs, rs) = Inr (o2, fs @ filter_args argv, rs @ ctest_args argv)
   else split_args_from argv (o1, fs, rs) = Inl IndexError"
proof (induction argv arbitrary: o1 fs rs rule: ctest_args.induct)
  case (2 a as)
  show ?case
  proof (cases "takes_value a")
    case True
    note nf = takes_value_not_flag(1) [OF True]
    show ?thesis
    proof (cases as)
      case Nil
      then show ?thesis using True nf by (simp only: split_args_step) simp
    next
      case (Cons v as')
      note IH = 2(1) [OF True Cons]
      show ?thesis
        using True nf Cons takes_value_not_flag(2) [OF True] takes_value_not_flag(3-5)
          IH [of _ fs rs] IH [of o1 "fs @ [a, v]" rs]
        by (simp only: split_args_step) (auto split: if_splits)
    qed
  next
    case False
    show ?thesis
    proof (cases "own_flag a")
      case True
      then have "a = ''--no-cache'' \<or> a = ''--list''" using False by (simp add: own_flag_def)
      with True False 2(2) [OF False True, of _ fs rs] show ?thesis
        by (simp only: split_args_step) auto
    next
      case nof: False
      then have "a \<noteq> ''--no-cache''" "a \<noteq> ''--list''" by (auto simp: own_flag_def)
      with nof False 2(3) [OF False nof, of o1 fs "rs @ [a]"] show ?thesis
        by (simp only: split_args_step) auto
    qed
  qed
qed simp

lemma splitArguments_result:
  "if complete_args argv then \<exists>o2. splitArguments argv = Inr (o2, filter_args argv, ctest_args argv)
   else splitArguments argv = Inl IndexError"
  using split_args_from_result [of argv default_ours "[]" "[]"] unfolding splitArguments_def append_Nil .


subsection \<open>What a run records\<close>

lemma record_passes_get:
  "dict_get (s_passed (record_passes ks moved when head names s)) k = Some v \<Longrightarrow>
   dict_get (s_passed s) k = Some v
   \<or> (\<exists>n \<in> set names. n \<notin> set moved \<and> dict_get ks n = Some k \<and> v = (n, when, head))"
proof -
  have "dict_get (fold (record_pass ks moved when head) names m) k = Some v \<Longrightarrow>
      dict_get m k = Some v \<or> (\<exists>n \<in> set names. n \<notin> set moved \<and> dict_get ks n = Some k \<and> v = (n, when, head))" for m
  proof (induction names arbitrary: m)
    case (Cons n names)
    then have IH: "dict_get (record_pass ks moved when head n m) k = Some v
        \<or> (\<exists>n \<in> set names. n \<notin> set moved \<and> dict_get ks n = Some k \<and> v = (n, when, head))" by simp
    have "dict_get (record_pass ks moved when head n m) k = Some v \<Longrightarrow>
        dict_get m k = Some v \<or> n \<notin> set moved \<and> dict_get ks n = Some k \<and> v = (n, when, head)"
      by (auto simp: record_pass_def split: if_splits option.splits)
    with IH show ?case by auto
  qed simp
  then show "dict_get (s_passed (record_passes ks moved when head names s)) k = Some v \<Longrightarrow> ?thesis"
    by (simp add: record_passes_def)
qed

text \<open>The keys of a group of tests: the fingerprint of the last test of each name.\<close>

lemma keys_of_get:
  assumes "keys_of fp ts = Inr ks" and "dict_get ks n = Some k"
  shows "\<exists>t \<in> set ts. t_name t = n \<and> fp t = Inr k"
proof -
  obtain kvs where kvs: "mapR (\<lambda>t. bindR (fp t) (\<lambda>k. Inr (t_name t, k))) ts = Inr kvs" "ks = dict_update [] kvs"
    using assms(1) by (auto simp: keys_of_def bindR_Inr_iff)
  have "(n, k) \<in> set kvs"
    using assms(2) kvs(2) by (auto simp: dict_get_update split: option.splits dest: map_of_SomeD)
  with mapR_mem [OF kvs(1)] show ?thesis by (fastforce simp: bindR_Inr_iff)
qed

lemma keys_of_domain:
  assumes "keys_of fp ts = Inr ks"
  shows "dict_get ks n = None \<longleftrightarrow> n \<notin> t_name ` set ts"
proof -
  obtain kvs where kvs: "mapR (\<lambda>t. bindR (fp t) (\<lambda>k. Inr (t_name t, k))) ts = Inr kvs" "ks = dict_update [] kvs"
    using assms by (auto simp: keys_of_def bindR_Inr_iff)
  have "list_all2 (\<lambda>t kv. fst kv = t_name t) ts kvs"
    using kvs(1) unfolding mapR_Inr_iff by (rule list_all2_mono) (auto simp: bindR_Inr_iff)
  then have "map fst kvs = map t_name ts"
    by (induction rule: list_all2_induct) simp_all
  then have "fst ` set kvs = t_name ` set ts" by (metis list.set_map)
  moreover have "dict_get ks n = None \<longleftrightarrow> n \<notin> fst ` set kvs"
    using map_of_eq_None_iff [of "rev kvs" n] kvs(2)
    by (cases "map_of (rev kvs) n") (simp_all add: dict_get_update)
  ultimately show ?thesis by simp
qed

lemma by_name_get: "dict_get (by_name ts) n = Some t \<Longrightarrow> t \<in> set ts \<and> t_name t = n"
  by (auto simp: by_name_def dict_get_update split: option.splits dest!: map_of_SomeD)

text \<open>The stages of \<open>main\<close> up to the fingerprints; \<open>surveyed\<close> is the part that does not use the caches.\<close>

definition surveyed :: "world \<Rightarrow> string list \<Rightarrow> ours \<Rightarrow> string list \<Rightarrow> ctest list \<Rightarrow> closure \<Rightarrow> string list \<Rightarrow> bool" where
  "surveyed w argv o1 rest tests cl machine \<longleftrightarrow>
     (\<exists>fs err all repo. splitArguments argv = Inr (o1, fs, rest)
        \<and> w_listing w (''--test-dir'' # dk_real (w_before w) (o_testDir o1) # ''--show-only=json-v1'' # fs) = (0, err, all)
        \<and> tests = filter (\<lambda>t. t_command t \<noteq> []) all
        \<and> find_repo (w_before w) (dk_real (w_before w) (o_testDir o1)) = Inr repo
        \<and> new_closure (w_before w) repo (dk_real (w_before w) (o_testDir o1)) = Inr cl
        \<and> machineIdentity (w_before w) (w_env w) (w_smi w) = Inr machine)"

definition staged :: "(string \<Rightarrow> string) \<Rightarrow> world \<Rightarrow> string list \<Rightarrow> store \<Rightarrow> ours \<Rightarrow> string list \<Rightarrow> ctest list \<Rightarrow> closure \<Rightarrow>
    string list \<Rightarrow> (string, string) dict \<Rightarrow> caches \<Rightarrow> bool" where
  "staged sha w argv s o1 rest tests cl machine ks c1 \<longleftrightarrow>
     surveyed w argv o1 rest tests cl machine
     \<and> (\<exists>ds c0. hashMany sha (w_before w) (map (path_join (dk_real (w_before w) (o_testDir o1))) (cl_exes cl)) (new_caches s) = Inr (ds, c0)
        \<and> keysOf (fingerprint sha (w_before w) cl (w_env w) machine (global_env (w_env w))) tests c0 = Inr (ks, c1))"

text \<open>The fingerprints taken again after the run, and what is recorded of them.\<close>

definition retaken :: "(string \<Rightarrow> string) \<Rightarrow> world \<Rightarrow> closure \<Rightarrow> string list \<Rightarrow> ctest list \<Rightarrow> testcase list \<Rightarrow> caches \<Rightarrow>
    (string, string) dict \<Rightarrow> caches \<Rightarrow> bool" where
  "retaken sha w cl machine tests cs c after c2 \<longleftrightarrow>
     keysOf (fingerprint sha (w_after w) cl (w_env w) machine (global_env (w_env w)))
       (List.map_filter (dict_get (by_name tests)) (passed_names cs)) (forget_tree c) = Inr (after, c2)"

lemma after_run_Inr:
  assumes "after_run sha w cl machine (global_env (w_env w)) tests ks nheld cs c s = Inr (code, out, s')"
  obtains after c2 where "retaken sha w cl machine tests cs c after c2"
    "s' = record_passes ks (moved_names ks after (passed_names cs)) (w_when w) (w_head w) (passed_names cs)
            (save_memo (w_after w) c2 s)"
  using assms by (auto simp: after_run_def retaken_def Let_def bindR_Inr_iff)

lemma run_tests_store:
  assumes "run_tests sha w cl machine (global_env (w_env w)) build rest tests ks held out c s = Inr oc"
  obtains "oc_store oc = s"
  | cs after c2 where "w_junit w = Some cs" "retaken sha w cl machine tests cs c after c2"
    "oc_store oc = record_passes ks (moved_names ks after (passed_names cs)) (w_when w) (w_head w) (passed_names cs)
            (save_memo (w_after w) c2 s)"
proof (cases "w_junit w")
  case None
  then show ?thesis using assms that(1) by (auto simp: run_tests_def Let_def finish_def)
next
  case (Some cs)
  then obtain code out' s' where r: "after_run sha w cl machine (global_env (w_env w)) tests ks (length held) cs c s
      = Inr (code, out', s')" "oc_store oc = s'"
    using assms by (auto simp: run_tests_def Let_def finish_def bindR_Inr_iff)
  show ?thesis by (rule after_run_Inr [OF r(1)]) (use that(2) [OF Some] r(2) in simp)
qed

lemma explain_store:
  "explain_test sha w cl machine genv name tests c s = Inr oc \<Longrightarrow> oc_store oc = s"
  by (auto simp: explain_test_def Let_def finish_def bindR_Inr_iff split: list.splits)

text \<open>The store a run leaves: as it was, with a new memo, or with the passes of this run.\<close>

lemma cc_main_store:
  assumes "cc_main sha w argv s = Inr oc"
  obtains (untouched) "oc_store oc = s"
  | (memo_only) o1 rest tests cl machine ks c1 where
      "staged sha w argv s o1 rest tests cl machine ks c1" "oc_store oc = save_memo (w_before w) c1 s"
  | (passes) o1 rest tests cl machine ks c1 cs after c2 where
      "staged sha w argv s o1 rest tests cl machine ks c1" "w_junit w = Some cs"
      "retaken sha w cl machine tests cs (save c1) after c2"
      "oc_store oc = record_passes ks (moved_names ks after (passed_names cs)) (w_when w) (w_head w) (passed_names cs)
            (save_memo (w_after w) c2 (save_memo (w_before w) c1 s))"
proof -
  obtain o1 fs rest where sp: "splitArguments argv = Inr (o1, fs, rest)"
    using assms by (auto simp: cc_main_def bindR_Inr_iff)
  let ?build = "dk_real (w_before w) (o_testDir o1)"
  obtain rc err all where li: "w_listing w (''--test-dir'' # ?build # ''--show-only=json-v1'' # fs) = (rc, err, all)"
    by (metis prod_cases3)
  show ?thesis
  proof (cases "rc = 0")
    case False
    then show ?thesis using assms sp li untouched by (simp add: cc_main_def Let_def finish_def) fastforce
  next
    case True
    let ?tests = "filter (\<lambda>t. t_command t \<noteq> []) all"
    from assms obtain repo cl machine ds c0 ks c1 where r:
        "find_repo (w_before w) ?build = Inr repo" "new_closure (w_before w) repo ?build = Inr cl"
        "machineIdentity (w_before w) (w_env w) (w_smi w) = Inr machine"
        "hashMany sha (w_before w) (map (path_join ?build) (cl_exes cl)) (new_caches s) = Inr (ds, c0)"
        "keysOf (fingerprint sha (w_before w) cl (w_env w) machine (global_env (w_env w))) ?tests c0 = Inr (ks, c1)"
        "(case o_explain o1 of Some (e # es) \<Rightarrow> explain_test sha w cl machine (global_env (w_env w)) (e # es) ?tests (save c1) (save_memo (w_before w) c1 s)
          | _ \<Rightarrow> choose_and_run sha w o1 cl machine (global_env (w_env w)) ?build rest ?tests ks (save c1) (save_memo (w_before w) c1 s)) = Inr oc"
      by (auto simp: cc_main_def sp li True Let_def bindR_Inr_iff)
    have st: "staged sha w argv s o1 rest ?tests cl machine ks c1"
      unfolding staged_def surveyed_def using sp li True r(1-5) by blast
    from r(6) consider "oc_store oc = save_memo (w_before w) c1 s"
      | held out where "run_tests sha w cl machine (global_env (w_env w)) ?build rest ?tests ks held out (save c1) (save_memo (w_before w) c1 s) = Inr oc"
      by (auto simp: choose_and_run_def Let_def finish_def explain_store split: option.splits list.splits if_splits)
    then show ?thesis
    proof cases
      case 1
      then show ?thesis by (rule memo_only [OF st])
    next
      case 2
      then show ?thesis
        by (rule run_tests_store) (use memo_only [OF st] passes [OF st] in auto)
    qed
  qed
qed


subsection \<open>The keys of a run are the fingerprints of its tests\<close>

definition memo_right :: "(string \<Rightarrow> string) \<Rightarrow> (string \<Rightarrow> string \<Rightarrow> string res) \<Rightarrow> (string \<Rightarrow> string) \<Rightarrow> closure \<Rightarrow> store \<Rightarrow> bool" where
  "memo_right sha C R cl s \<longleftrightarrow> digests_ok sha C (s_memo s) \<and> embedded_ok C R cl (s_memo_embedded s)"

lemma new_caches_ok:
  "memo_right sha C R cl s \<Longrightarrow> timeline C R dk \<Longrightarrow> caches_ok sha C dk cl (new_caches s)"
  by (simp add: memo_right_def timeline_def caches_ok_def new_caches_def digests_ok_def embedded_ok_def)

lemma forget_tree_ok:
  "caches_ok sha C dk cl c \<Longrightarrow> dk_real dk = dk_real dk' \<Longrightarrow> caches_ok sha C dk' cl (forget_tree c)"
  by (simp add: caches_ok_def forget_tree_def)

lemma staged_keys:
  assumes "staged sha w argv s o1 rest tests cl machine ks c1" and "memo_right sha C R cl s"
    and "timeline C R (w_before w)"
  shows "keys_of (fingerprint_of sha (w_before w) cl (w_env w) machine (global_env (w_env w))) tests = Inr ks"
    and "caches_ok sha C (w_before w) cl c1"
proof -
  let ?ok = "caches_ok sha C (w_before w) cl"
  from assms(1) obtain ds c0 where h:
      "hashMany sha (w_before w) (map (path_join (dk_real (w_before w) (o_testDir o1))) (cl_exes cl)) (new_caches s) = Inr (ds, c0)"
      "keysOf (fingerprint sha (w_before w) cl (w_env w) machine (global_env (w_env w))) tests c0 = Inr (ks, c1)"
    unfolding staged_def by blast
  have hm: "refines ?ok (mapS (fileHash sha (w_before w)) xs) (mapR (\<lambda>p. file_digest sha (w_before w) (dk_real (w_before w) p)) xs)" for xs
    by (intro refines_map fileHash_refines [OF assms(3)])
  have c0: "?ok c0"
    using refinesD [where I = ?ok, OF hm new_caches_ok [OF assms(2,3)] h(1) [unfolded hashMany_def]] by blast
  have "refines ?ok (keysOf (fingerprint sha (w_before w) cl (w_env w) machine (global_env (w_env w))) tests)
      (keys_of (fingerprint_of sha (w_before w) cl (w_env w) machine (global_env (w_env w))) tests)"
    by (intro keysOf_refines fingerprint_refines [OF assms(3)])
  from refinesD [OF this c0 h(2)]
  show "keys_of (fingerprint_of sha (w_before w) cl (w_env w) machine (global_env (w_env w))) tests = Inr ks" "?ok c1"
    by simp_all
qed

lemma retaken_keys:
  assumes "retaken sha w cl machine tests cs c after c2" and "caches_ok sha C (w_before w) cl c"
    and "timeline C R (w_before w)" and "timeline C R (w_after w)"
  shows "keys_of (fingerprint_of sha (w_after w) cl (w_env w) machine (global_env (w_env w)))
      (List.map_filter (dict_get (by_name tests)) (passed_names cs)) = Inr after"
    and "caches_ok sha C (w_after w) cl c2"
proof -
  let ?ok = "caches_ok sha C (w_after w) cl"
  let ?fp = "fingerprint_of sha (w_after w) cl (w_env w) machine (global_env (w_env w))"
  let ?ts = "List.map_filter (dict_get (by_name tests)) (passed_names cs)"
  have r: "refines ?ok (keysOf (fingerprint sha (w_after w) cl (w_env w) machine (global_env (w_env w))) ?ts) (keys_of ?fp ?ts)"
    by (intro keysOf_refines fingerprint_refines [OF assms(4)])
  have "dk_real (w_before w) = dk_real (w_after w)" using assms(3,4) by (simp add: timeline_def)
  then have "?ok (forget_tree c)" by (rule forget_tree_ok [OF assms(2)])
  from refinesD [OF r this assms(1) [unfolded retaken_def]]
  show "keys_of ?fp ?ts = Inr after" "?ok c2" by simp_all
qed

text \<open>
  A genuine pass: the test is in the selection of the run, ctest reports it as run and not bad, and its
  fingerprint, recomputed from nothing, is the key on the disk before the run and on the disk after it.
\<close>

definition genuine_pass :: "(string \<Rightarrow> string) \<Rightarrow> world \<Rightarrow> string list \<Rightarrow> string \<Rightarrow> string \<Rightarrow> bool" where
  "genuine_pass sha w argv n k \<longleftrightarrow>
     (\<exists>o1 rest tests cl machine cs t u.
        surveyed w argv o1 rest tests cl machine \<and> w_junit w = Some cs \<and> n \<in> set (passed_names cs)
        \<and> t \<in> set tests \<and> t_name t = n
        \<and> fingerprint_of sha (w_before w) cl (w_env w) machine (global_env (w_env w)) t = Inr k
        \<and> u \<in> set tests \<and> t_name u = n
        \<and> fingerprint_of sha (w_after w) cl (w_env w) machine (global_env (w_env w)) u = Inr k)"

lemma passes_genuine:
  assumes "staged sha w argv s o1 rest tests cl machine ks c1" and "w_junit w = Some cs"
    and "retaken sha w cl machine tests cs (save c1) after c2"
    and "memo_right sha C R cl s" and "timeline C R (w_before w)" and "timeline C R (w_after w)"
    and "n \<in> set (passed_names cs)" and "dict_get ks n = Some k" and "dict_get after n = Some k"
  shows "genuine_pass sha w argv n k"
proof -
  note st = staged_keys [OF assms(1,4,5)]
  note re = retaken_keys [OF assms(3) save_ok [OF st(2)] assms(5,6)]
  obtain t where t: "t \<in> set tests" "t_name t = n"
      "fingerprint_of sha (w_before w) cl (w_env w) machine (global_env (w_env w)) t = Inr k"
    using keys_of_get [OF st(1) assms(8)] by blast
  obtain u where u: "u \<in> set (List.map_filter (dict_get (by_name tests)) (passed_names cs))" "t_name u = n"
      "fingerprint_of sha (w_after w) cl (w_env w) machine (global_env (w_env w)) u = Inr k"
    using keys_of_get [OF re(1) assms(9)] by blast
  have "u \<in> set tests" using u(1) by (auto simp: List.map_filter_def dest: by_name_get)
  with t u assms(1,2,7) show ?thesis unfolding genuine_pass_def staged_def by blast
qed

subsection \<open>Sequences of runs\<close>

definition empty_store :: store where
  "empty_store = \<lparr>s_memo = [], s_memo_embedded = [], s_passed = []\<rparr>"

text \<open>The stores that runs of the script make of an empty one, with the history of their worlds and command lines.\<close>

inductive runs :: "(string \<Rightarrow> string) \<Rightarrow> (world \<times> string list) list \<Rightarrow> store \<Rightarrow> bool" for sha where
  none: "runs sha [] empty_store"
| one_more: "runs sha h s \<Longrightarrow> cc_main sha w argv s = Inr oc \<Longrightarrow> runs sha (h @ [(w, argv)]) (oc_store oc)"

text \<open>The runs are of one checkout, and its files keep to one timeline.\<close>

definition one_checkout :: "(string \<Rightarrow> string \<Rightarrow> string res) \<Rightarrow> (string \<Rightarrow> string) \<Rightarrow> string \<Rightarrow> string \<Rightarrow> world \<times> string list \<Rightarrow> bool" where
  "one_checkout C R repo build r \<longleftrightarrow>
     timeline C R (w_before (fst r)) \<and> timeline C R (w_after (fst r))
     \<and> (\<forall>o1 rest tests cl machine. surveyed (fst r) (snd r) o1 rest tests cl machine
          \<longrightarrow> cl_repo cl = repo \<and> cl_build cl = build)"

abbreviation tree_at :: "string \<Rightarrow> string \<Rightarrow> closure" where
  "tree_at repo build \<equiv> \<lparr>cl_repo = repo, cl_build = build, cl_exes = []\<rparr>"

lemma embedded_ok_cong:
  "cl_repo cl = cl_repo cl' \<Longrightarrow> cl_build cl = cl_build cl' \<Longrightarrow> embedded_ok C R cl m \<longleftrightarrow> embedded_ok C R cl' m"
  by (simp add: embedded_ok_def embedded_in_def)

lemma memo_right_cong:
  "cl_repo cl = cl_repo cl' \<Longrightarrow> cl_build cl = cl_build cl' \<Longrightarrow> memo_right sha C R cl s \<longleftrightarrow> memo_right sha C R cl' s"
  unfolding memo_right_def using embedded_ok_cong by blast

lemma save_memo_right:
  "caches_ok sha C dk cl c \<Longrightarrow> memo_right sha C (dk_real dk) cl (save_memo dk' c s)"
  by (simp add: memo_right_def save_memo_def saved_ok)

lemma record_passes_memo [simp]:
  "memo_right sha C R cl (record_passes ks moved when head names s) \<longleftrightarrow> memo_right sha C R cl s"
  by (simp add: memo_right_def record_passes_def)

lemma staged_surveyed: "staged sha w argv s o1 rest tests cl machine ks c1 \<Longrightarrow> surveyed w argv o1 rest tests cl machine"
  by (simp add: staged_def)

lemma one_checkoutD:
  assumes "one_checkout C R repo build (w, argv)" and "surveyed w argv o1 rest tests cl machine"
  shows "timeline C R (w_before w)" and "timeline C R (w_after w)" and "cl_repo cl = repo" and "cl_build cl = build"
  using assms unfolding one_checkout_def fst_conv snd_conv by blast+

text \<open>One run keeps the memo right, and records only genuine passes.\<close>

lemma cc_main_genuine:
  assumes "cc_main sha w argv s = Inr oc" and "memo_right sha C R (tree_at repo build) s"
    and "one_checkout C R repo build (w, argv)"
  shows "memo_right sha C R (tree_at repo build) (oc_store oc)
    \<and> (\<forall>k v. dict_get (s_passed (oc_store oc)) k = Some v \<longrightarrow>
         dict_get (s_passed s) k = Some v \<or> (\<exists>n. genuine_pass sha w argv n k \<and> v = (n, w_when w, w_head w)))"
  using assms(1)
proof (cases rule: cc_main_store)
  case untouched
  then show ?thesis using assms(2) by simp
next
  case (memo_only o1 rest tests cl machine ks c1)
  have tl: "timeline C R (w_before w)" and cl: "cl_repo cl = repo" "cl_build cl = build"
    using one_checkoutD [OF assms(3) staged_surveyed [OF memo_only(1)]] by blast+
  have mr: "memo_right sha C R cl s" using assms(2) memo_right_cong [of cl "tree_at repo build"] cl by simp
  have "memo_right sha C R cl (oc_store oc)"
    using save_memo_right [OF staged_keys(2) [OF memo_only(1) mr tl]] memo_only(2) tl by (simp add: timeline_def)
  then show ?thesis
    using memo_right_cong [of cl "tree_at repo build"] cl memo_only(2) by (simp add: save_memo_def)
next
  case (passes o1 rest tests cl machine ks c1 cs after c2)
  have tl: "timeline C R (w_before w)" "timeline C R (w_after w)" and cl: "cl_repo cl = repo" "cl_build cl = build"
    using one_checkoutD [OF assms(3) staged_surveyed [OF passes(1)]] by blast+
  have mr: "memo_right sha C R cl s" using assms(2) memo_right_cong [of cl "tree_at repo build"] cl by simp
  note ok = retaken_keys(2) [OF passes(3) save_ok [OF staged_keys(2) [OF passes(1) mr tl(1)]] tl]
  have "memo_right sha C R cl (oc_store oc)"
    using save_memo_right [OF ok] passes(4) tl(2) by (simp add: timeline_def)
  then have "memo_right sha C R (tree_at repo build) (oc_store oc)"
    using memo_right_cong [of cl "tree_at repo build"] cl by simp
  moreover have "dict_get (s_passed s) k = Some v \<or> (\<exists>n. genuine_pass sha w argv n k \<and> v = (n, w_when w, w_head w))"
    if "dict_get (s_passed (oc_store oc)) k = Some v" for k v
  proof -
    from record_passes_get [OF that [unfolded passes(4)]]
    consider "dict_get (s_passed s) k = Some v"
      | n where "n \<in> set (passed_names cs)" "n \<notin> set (moved_names ks after (passed_names cs))"
          "dict_get ks n = Some k" "v = (n, w_when w, w_head w)" by (auto simp: save_memo_def)
    then show ?thesis
    proof cases
      case (2 n)
      then have "dict_get after n = Some k" by (auto simp: moved_names_def)
      from passes_genuine [OF passes(1-3) mr tl 2(1,3) this] 2 show ?thesis by blast
    qed blast
  qed
  ultimately show ?thesis by blast
qed

lemma runs_genuine:
  assumes "runs sha h s" and "list_all (one_checkout C R repo build) h"
  shows "memo_right sha C R (tree_at repo build) s
    \<and> (\<forall>k v. dict_get (s_passed s) k = Some v \<longrightarrow>
         (\<exists>(w, argv) \<in> set h. \<exists>n. genuine_pass sha w argv n k \<and> v = (n, w_when w, w_head w)))"
  using assms
proof (induction rule: runs.induct)
  case none
  then show ?case by (simp add: empty_store_def memo_right_def digests_ok_def embedded_ok_def)
next
  case (one_more h s w argv oc)
  have "list_all (one_checkout C R repo build) h" using one_more.prems by simp
  note IH = one_more.IH [OF this]
  have oc: "one_checkout C R repo build (w, argv)" using one_more.prems by simp
  note g = cc_main_genuine [OF one_more.hyps(2) conjunct1 [OF IH] oc]
  have "\<exists>(w, argv) \<in> set (h @ [(w, argv)]). \<exists>n. genuine_pass sha w argv n k \<and> v = (n, w_when w, w_head w)"
    if "dict_get (s_passed (oc_store oc)) k = Some v" for k v
  proof -
    from g that consider "dict_get (s_passed s) k = Some v"
      | "\<exists>n. genuine_pass sha w argv n k \<and> v = (n, w_when w, w_head w)" by blast
    then show ?thesis
    proof cases
      case 1
      with conjunct2 [OF IH] have "\<exists>(w, argv) \<in> set h. \<exists>n. genuine_pass sha w argv n k \<and> v = (n, w_when w, w_head w)"
        by blast
      then show ?thesis unfolding set_append by blast
    next
      case 2
      then have "case (w, argv) of (w, argv) \<Rightarrow> \<exists>n. genuine_pass sha w argv n k \<and> v = (n, w_when w, w_head w)" by simp
      then show ?thesis by (rule bexI) simp
    qed
  qed
  with conjunct1 [OF g] show ?case by blast
qed

text \<open>A test is left out only for a key that is recorded, and only without \<open>--no-cache\<close>.\<close>

lemma held_recorded:
  "n \<in> set (held_names s noCache ks tests) \<Longrightarrow>
   \<not> noCache \<and> (\<exists>v. dict_get (s_passed s) (get_or ks n []) = Some v) \<and> n \<in> t_name ` set tests"
  by (auto simp: held_names_def recorded_def)

lemma to_run_all:
  "t \<in> set tests \<Longrightarrow> t \<in> set (to_run (held_names s noCache ks tests) tests)
     \<or> t_name t \<in> set (held_names s noCache ks tests)"
  by (auto simp: to_run_def)


lemma not_run_held:
  "t \<in> set tests \<Longrightarrow> t \<notin> set (to_run (held_names s noCache ks tests) tests) \<Longrightarrow>
   \<not> noCache \<and> (\<exists>v. dict_get (s_passed s) (get_or ks (t_name t) []) = Some v)"
  using to_run_all held_recorded by blast

lemma same_name: "distinct (map t_name tests) \<Longrightarrow> t \<in> set tests \<Longrightarrow> u \<in> set tests \<Longrightarrow> t_name t = t_name u \<Longrightarrow> t = u"
  by (meson distinct_map inj_onD)

lemma held_key:
  assumes "keys_of fp tests = Inr ks" and "t \<in> set tests" and "distinct (map t_name tests)"
  shows "fp t = Inr (get_or ks (t_name t) [])"
proof -
  obtain k where k: "dict_get ks (t_name t) = Some k"
    using keys_of_domain [OF assms(1), of "t_name t"] assms(2) by (cases "dict_get ks (t_name t)") auto
  obtain u where "u \<in> set tests" "t_name u = t_name t" "fp u = Inr k"
    using keys_of_get [OF assms(1) k] by blast
  then show ?thesis using same_name [OF assms(3,2)] k by (metis get_or_def option.simps(5))
qed

subsection \<open>An example run\<close>

definition ex_build :: disk where
  "ex_build = \<lparr>dk_files = [(''b/CMakeCache.txt'', ex_file ''CMAKE_HOME_DIRECTORY:X=r'')],
     dk_dirs = [(''b'', [], [''CMakeCache.txt''])], dk_real = id, dk_exec = []\<rparr>"

definition ex_test :: ctest where
  "ex_test = \<lparr>t_name = ''t'', t_command = [''true''], t_properties = []\<rparr>"

definition ex_world :: world where
  "ex_world = \<lparr>w_env = [], w_home = ''/h'', w_listing = (\<lambda>_. (0, [], [ex_test])), w_before = ex_build, w_after = ex_build,
     w_smi = None, w_seconds = ''0.0'', w_run = 0, w_junit = Some [\<lparr>tc_name = ''t'', tc_status = ''run'', tc_bad = False\<rparr>],
     w_head = ''H'', w_when = ''W''\<rparr>"

definition ex_argv :: "string list" where
  "ex_argv = [''--test-dir'', ''b'']"

definition ex_content_b :: "string \<Rightarrow> string \<Rightarrow> string res" where
  "ex_content_b p st = read_bytes ex_build p"

definition ex_key :: string where
  "ex_key = join [nl] [''ctest-cached-2'', ''salt '', ''command '' @ json_list [''true''], ''environment []'', ''cwd '',
     ''gpu no nvidia-smi'']"

abbreviation ex_ours :: ours where
  "ex_ours \<equiv> default_ours\<lparr>o_testDir := ''b''\<rparr>"

abbreviation ex_cl :: closure where
  "ex_cl \<equiv> \<lparr>cl_repo = ''r'', cl_build = ''b'', cl_exes = []\<rparr>"

lemma ex_split: "splitArguments ex_argv = Inr (ex_ours, [], [])"
  by code_simp

lemma ex_repo: "find_repo ex_build ''b'' = Inr ''r''"
  by code_simp

lemma ex_new_closure: "new_closure ex_build ''r'' ''b'' = Inr ex_cl"
  by code_simp

lemma ex_machine: "machineIdentity ex_build [] None = Inr [''gpu no nvidia-smi'']"
  by code_simp

lemma ex_world_simps [simp]:
  "w_before ex_world = ex_build" "w_after ex_world = ex_build" "dk_real ex_build = id" "w_env ex_world = []"
  "w_smi ex_world = None" "w_listing ex_world x = (0, [], [ex_test])"
  "t_command ex_test = [''true'']" "t_name ex_test = ''t''"
  by (simp_all add: ex_world_def ex_build_def ex_test_def)

lemma ex_surveyed_iff:
  "surveyed ex_world ex_argv o1 rest tests cl machine \<longleftrightarrow>
     o1 = ex_ours \<and> rest = [] \<and> tests = [ex_test] \<and> cl = ex_cl \<and> machine = [''gpu no nvidia-smi'']"
  by (auto simp: surveyed_def ex_split ex_repo ex_new_closure ex_machine)

lemma ex_checkout: "one_checkout ex_content_b id ''r'' ''b'' (ex_world, ex_argv)"
  by (simp add: one_checkout_def timeline_def ex_content_b_def ex_surveyed_iff)

lemma ex_run:
  obtains oc where "cc_main id ex_world ex_argv empty_store = Inr oc"
    "dict_get (s_passed (oc_store oc)) ex_key = Some (''t'', ''W'', ''H'')"
    "oc_store oc = \<lparr>s_memo = [], s_memo_embedded = [], s_passed = [(ex_key, (''t'', ''W'', ''H''))]\<rparr>"
proof -
  have "map_sum id oc_store (cc_main id ex_world ex_argv empty_store)
      = Inr \<lparr>s_memo = [], s_memo_embedded = [], s_passed = [(ex_key, (''t'', ''W'', ''H''))]\<rparr>"
    by code_simp
  then obtain oc where "cc_main id ex_world ex_argv empty_store = Inr oc"
      "oc_store oc = \<lparr>s_memo = [], s_memo_embedded = [], s_passed = [(ex_key, (''t'', ''W'', ''H''))]\<rparr>"
    by (cases "cc_main id ex_world ex_argv empty_store") auto
  then show ?thesis using that by (simp add: dict_get_def)
qed

subsection \<open>Properties\<close>

text \<open>C1: Over every sequence of runs of one checkout whose files keep to one timeline, a key in the store of passes is
  genuine: in one of those runs ctest reported a test of the selection as run and passed, and the
  fingerprint of that test, computed from nothing, was the key on the disk before the run and on the
  disk the run left.  So a failure, a timeout or a skip is never recorded, nor a test whose own run changed
  its inputs.\<close>

theorem recorded_passes_are_genuine:
  assumes "runs sha h s" and "list_all (one_checkout C R repo build) h" and "dict_get (s_passed s) k = Some v"
  shows "\<exists>(w, argv) \<in> set h. \<exists>n. genuine_pass sha w argv n k \<and> v = (n, w_when w, w_head w)"
  using runs_genuine [OF assms(1,2)] assms(3) by blast

theorem recorded_passes_are_genuine_witness: "\<exists>n. genuine_pass id ex_world ex_argv n ex_key \<and> n = ''t''"
proof -
  obtain oc where oc: "cc_main id ex_world ex_argv empty_store = Inr oc"
    "dict_get (s_passed (oc_store oc)) ex_key = Some (''t'', ''W'', ''H'')" by (rule ex_run)
  have "runs id [(ex_world, ex_argv)] (oc_store oc)"
    using runs.one_more [OF runs.none oc(1)] by simp
  from recorded_passes_are_genuine [OF this _ oc(2), of ex_content_b id "''r''" "''b''"] ex_checkout
  show ?thesis by auto
qed



text \<open>C3: The fingerprint a run computes with its caches, its memo of earlier runs and its tables of scripts and
  directories is the fingerprint computed from nothing, errors included, and the caches stay right.\<close>

theorem fingerprint_needs_no_cache:
  assumes "timeline C R dk"
  shows "refines (caches_ok sha C dk cl) (fingerprint sha dk cl env machine genv t) (fingerprint_of sha dk cl env machine genv t)"
  using assms by (rule fingerprint_refines)

theorem fingerprint_needs_no_cache_witness:
  "refines (caches_ok id ex_content_b ex_build ex_cl) (fingerprint id ex_build ex_cl [] [] [] ex_test)
     (fingerprint_of id ex_build ex_cl [] [] [] ex_test)"
  by (rule fingerprint_needs_no_cache [of ex_content_b id]) (simp add: timeline_def ex_content_b_def)

text \<open>The command line: every argument that is neither an option of the script nor the value of one goes on to ctest, in
  order; the filters are collected with their values, in order; and the script raises IndexError exactly
  when an option that takes a value is the last argument of its kind.\<close>

theorem command_line_split:
  "(if complete_args argv then \<exists>o2. splitArguments argv = Inr (o2, filter_args argv, ctest_args argv)
    else splitArguments argv = Inl IndexError)"
  by (rule splitArguments_result)

end
