(* ===== verification/Manifest_Data.thy ===== *)
theory Manifest_Data
  imports Py_Prelude
begin

text \<open>
  The data of \<open>tools/of_manifest.py\<close>: a row of its curated table is the dictionary a \<open>dict(...)\<close>
  call builds, whose values are strings and, for \<open>of_line\<close>, integers.  The rows themselves are in
  the theories \<open>Manifest_SimpleFoam\<close>, \<open>Manifest_InterFoam1\<close>, \<open>Manifest_InterFoam2\<close> and
  \<open>Manifest_RhoSimpleFoam\<close>, one definition per \<open>dict(...)\<close> call, one per longer text
  (named after its row and key), and one literal per literal of the source; \<open>lit\<close> is Python's concatenation of adjacent literals.
\<close>

datatype pyval =
    PStr string
  | PInt int

type_synonym component = "(string, pyval) dict"

definition lit :: "string list \<Rightarrow> string" where
  "lit ps = concat ps"

named_theorems manifest_rows \<open>the rows of the curated tables\<close>

text \<open>\<open>str(v)\<close>, and the truth value of \<open>c.get(k)\<close>.\<close>

fun py_str :: "pyval \<Rightarrow> string" where
  "py_str (PStr s) = s"
| "py_str (PInt i) = show_int i"

fun truthy :: "pyval option \<Rightarrow> bool" where
  "truthy None \<longleftrightarrow> False"
| "truthy (Some (PStr s)) \<longleftrightarrow> s \<noteq> []"
| "truthy (Some (PInt i)) \<longleftrightarrow> i \<noteq> 0"

text \<open>\<open>c[k]\<close>.\<close>

definition dict_item :: "component \<Rightarrow> string \<Rightarrow> pyval res" where
  "dict_item c k = (case dict_get c k of None \<Rightarrow> Inl (KeyError k) | Some v \<Rightarrow> Inr v)"

text \<open>
  A row that the emitter can print: it has the five keys that are subscripted, and its
  \<open>of_line\<close>, when there is one, is a number, which \<open>%d\<close> asks for.
\<close>

definition row_keys :: "string list" where
  "row_keys = [''name'', ''of_symbol'', ''of_file'', ''classification'', ''status'']"

fun is_str :: "pyval option \<Rightarrow> bool" where
  "is_str (Some (PStr s)) \<longleftrightarrow> True"
| "is_str _ \<longleftrightarrow> False"

definition row_ok :: "component \<Rightarrow> bool" where
  "row_ok c \<longleftrightarrow> distinct (keys c) \<and> list_all (\<lambda>k. is_str (dict_get c k)) row_keys \<and> \<not> is_str (dict_get c ''of_line'')"

lemma dict_get_Cons: "dict_get ((k, v) # d) x = (if x = k then Some v else dict_get d x)"
  by (simp add: dict_get_def)

lemmas row_simps = row_ok_def row_keys_def dict_get_Cons

definition row_name :: "component \<Rightarrow> string" where
  "row_name c = (case dict_get c ''name'' of Some v \<Rightarrow> py_str v | None \<Rightarrow> [])"

lemma row_ok_item: "row_ok c \<Longrightarrow> k \<in> set row_keys \<Longrightarrow> \<exists>s. dict_item c k = Inr (PStr s)"
proof -
  assume "row_ok c" and "k \<in> set row_keys"
  then have "is_str (dict_get c k)" by (auto simp: row_ok_def list_all_iff)
  then show ?thesis
    by (cases "dict_get c k" rule: is_str.cases) (simp_all add: dict_item_def)
qed

lemma row_ok_line: "row_ok c \<Longrightarrow> truthy (dict_get c ''of_line'') \<Longrightarrow> \<exists>i. dict_item c ''of_line'' = Inr (PInt i)"
  by (cases "dict_get c ''of_line''" rule: truthy.cases) (simp_all add: dict_item_def row_ok_def)

end
