(* ===== verification/Manifest_InterFoam1.thy ===== *)
theory Manifest_InterFoam1
  imports Manifest_Data
begin

text \<open>
  The curated table of interFoam in \<open>tools/of_manifest.py\<close>, lines 1526 to 3079, row by row, and the two facts
  about it that the emitter relies on: every row can be printed, and the names of the rows differ.
\<close>

definition inf_interFoam_main_validation_1 :: "string list" where
  \<open>inf_interFoam_main_validation_1 = [
        ''A WHOLE TIME STEP\'S ALPHA HALF NOW RUNS ON THE DEVICE '',
        ''(device_inter_alpha_step.cu: the sub-cycle, the correctors, the MULESCorr '',
        ''pre-solve, and mixture.correct() at all three placements OpenFOAM runs it). '',
        ''Against the host solver over six steps of three sub-cycles and two correctors: '',
        ''the explicit path 8.9e-16 in alpha and 9.1e-13 in rho, the MULESCorr path '',
        ''6.9e-11 and 6.8e-08 -- larger because two different linear solvers run the '',
        ''pre-solve -- and the two paths differ from each other by 1.4e-02, so neither '',
        ''arm is a copy of the other. Leaving out the mixture.correct() AFTER the '',
        ''sub-cycle (alphaEqnSubCycle.H:36-38) leaves rho 1.1e+02 of 1000 wrong while '',
        ''alpha is 0.000e+00 unchanged: UEqn would be built on the wrong density and no '',
        ''interface gate could see it. '',
        ''ON damBreak\'S OWN MESH AND CASE, the device alpha half tracks the host to '',
        ''4.2e-11 in alpha and 1.2e-10 relative in rhoPhi over five steps from a '',
        ''developed state (tests/interfoam_dambreak_device_vs_host.sh). That case brings '',
        ''what no box fixture here did: 4536 of its 4744 boundary faces are EMPTY, its '',
        ''atmosphere is inletOutlet, and its fvSolution asks for MULESCorr with '',
        ''nLimiterIter 5 and nAlphaCorr 2. It also has to be WARMED UP -- damBreak starts '',
        ''from rest, so phi is zero and the alpha equation advects nothing until the '',
        ''pressure corrector has made a flux; run from 0/ the gate reported three green '',
        ''numbers on two fields that had not moved. THE WHOLE STEP ON damBreak PRODUCED '',
        ''NaN IN ALL 2268 CELLS, and the cause was fvc::reconstruct on a 2-D mesh: '',
        ''surfaceSum skips empty patches, so sum(SfHat (x) Sf) has NO zz contribution '',
        ''and a plain cofactor inverse divides by zero. OpenFOAM\'s inv(Field<tensor>) '',
        ''is Tensor::safeInv (tensorField.C:55, TensorI.H:608-661), NOT Tensor::inv: it '',
        ''adds 1 to any diagonal below SMALL*(magSqr of the three), inverts, subtracts 1 '',
        ''back, and returns the ZERO tensor below ROOTVSMALL. Ported to both sides. '',
        ''brae\'s own correctVelocity was ALSO not skipping empty patches, which is what '',
        ''had been hiding the singularity on the host. End to end after the fix: alpha '',
        ''3.4346e-09 unchanged, U 3.308e-06 unchanged, p_rgh 2.29e-06 -> 2.364e-06 (both '',
        ''far inside the two linear solves\' residuals), capillaryRise 0.7% unchanged. '',
        ''TWO TRAPS WORTH CARRYING. std::fmax(a, NaN) returns a -- it IGNORES the NaN -- '',
        ''so a worst-difference loop built on fmax, which is how nearly every arm in '',
        ''this tree accumulates, reports 0.000e+00 for a field that has gone entirely '',
        ''non-finite; a finiteness check has to precede any fmax accumulator. And '',
        ''BRAE_INTER_STEP_CHECK on deviceInterStep names the first stage whose output is '',
        ''not finite, which is what turned this from \'damBreak gives NaN\' into a line. '',
        ''WITH THAT FIXED the whole step runs on damBreak: finite, bounded to 2.0e-11, '',
        ''advancing, and alpha tracks the host to 1.85e-03 of a field whose range is 1. '',
        ''U is 1.60e-01 of 2.65e-01 -- SIXTY PER CENT, a defect and not a tolerance -- '',
        ''so the whole-step arm stays behind BRAE_INTER_WHOLE_STEP rather than red in '',
        ''the suite. damBreak sets `momentumPredictor no`, so U comes only from '',
        ''HbyA + rAU*reconstruct((phig - flux)/rAUf): the error is in HbyA or in the '',
        ''momentum matrix under this case\'s real conditions. Two more things that arm '',
        ''paid for: the staged case must be forced to `adjustTimeStep no`, because the '',
        ''host reads damBreak\'s own controlDict and grows dt while the device loop takes '',
        ''the fixed one -- the two sat at different physical times and alpha read '',
        ''9.57e-01 out; and deviceInterStep was not computing fvc::ddtCorr at all, which '',
        ''cost alpha 2.28e-03 -> 1.85e-03 and p_rgh 1.22e+02 -> 7.57e+01; and the step '',
        ''ran ONE pressure corrector where damBreak\'s PIMPLE block asks for THREE -- '',
        ''interFoam.C wraps the WHOLE of pEqn.H in while(pimple.correct()), so rAU, '',
        ''HbyA, phiHbyA and phig are all rebuilt each pass. That last one is a real '',
        ''omission and NOT the cause of the 60%: measured, three correctors instead of '',
        ''one moved U from 1.6039e-01 to 1.5848e-01, about one per cent of the gap. '',
        ''The step also hardcoded solutionD as all-valid where damBreak is 2-D and '',
        ''polyMesh::solutionD() gives (1 1 -1), which fvMatrix::H()\'s validComponents '',
        ''block honours -- fixed, and also NOT the cause. '',
        ''THE TAPS (DeviceInterStepTaps) LOCALISED IT, against the host\'s own '',
        ''assembleUEqn/matrixA/matrixH from the SAME post-alpha state: UEqn.diag '',
        ''3.6e-15 of 2.4e+01 and rAU 1.4e-20 of 3.8e-05, both exact, so the implicit '',
        ''half -- div coefficients, laplacian, ddt -- is right; UEqn.source.x 1.6e-03 of '',
        ''2.1e-01, 0.76%, so the fault is an EXPLICIT term; and HbyA.x 5.0e-03 of '',
        ''2.0e-01 follows from it. Two candidates, both visible: gpu::assembleUEqn '',
        ''passes UbStored = nullptr so the device RE-DERIVES U\'s boundary instead of '',
        ''taking the stored value, and damBreak\'s atmosphere is '',
        ''pressureInletOutletVelocity where those differ; and deviceInterStep builds the '',
        ''boundary mixture from the FACE CELL\'s rho where InterFields builds it from '',
        ''alpha\'s PATCH values -- the distinction worth 12.8% on capillaryRise. BOTH '',
        ''ARE NOW FIXED (MomentumInput gained UbStored, and the boundary mixture is '',
        ''built from alpha1Bnd through the same deviceMixtureCorrect the cells use) and '',
        ''NEITHER moved the gap: 1.5628e-03 to five digits before and after. The viscous '',
        ''term looked ruled out too -- assembling both sides with nuEff ZEROED left the '',
        ''source gap IDENTICAL -- BUT THAT READING WAS WRONG, and only because the '',
        ''linearUpwind error below was two orders larger and masked it: with that fixed, '',
        ''the SAME bisect collapses the gap to 1.99e-11. A bisect only speaks about the '',
        ''DOMINANT term. At the time it correctly said the source was dominated by '',
        ''the ddt (rDeltaT*rhoOld*V*UOld, about 0.2 on this mesh). UOld is the same '',
        ''array on both sides, V is the mesh\'s, and '',
        ''rhoOld is mixtureRho of the same alpha1Old; the diagonal matches exactly so '',
        ''relaxedDiag does too; the relax source was bisected out as well (relax OFF on '',
        ''both sides leaves the gap IDENTICAL), and rho.oldTime() matched EXACTLY. '',
        ''FOUND: deviceInterStep HARDCODED div(rhoPhi,U) as upwind, and damBreak\'s '',
        ''fvSchemes says `Gauss linearUpwind grad(U)` -- the ONE scheme whose MATRIX is '',
        ''pure upwind while the whole of it lives in a DEFERRED SOURCE CORRECTION, so it '',
        ''gives an exact diagonal with a wrong source, which is exactly the signature '',
        ''that took six candidates to reach. 24 of the 44 shipped tutorials name it. '',
        ''Taking the scheme from the case: source 1.5628e-03 -> 2.2390e-06 of 2.0650e-01 '',
        ''(700x) and HbyA.x 5.0146e-03 -> 8.2621e-05 of 1.9643e-01 (60x). The momentum '',
        ''equation is now right to 1.1e-05 relative. WHAT REMAINS IS THE PRESSURE HALF, '',
        ''and it is wrong from the FIRST step, not accumulating: after one step alpha is '',
        ''1.39e-11 and phiHbyA 1.66e-07 of 6.63e-04 (2.5e-04 relative), but the SOLVED '',
        ''p_rgh is 6.35e+01 of 2.85e+03 (2.2%) and U 5.86e-02 of 2.55e-01 (23%). That is '',
        ''consistent rather than contradictory: div(phiHbyA) is a near-cancellation of '',
        ''four face fluxes, so 2.5e-04 in the flux is tens of per cent in the divergence '',
        ''the pressure equation is built on -- which means the momentum source\'s '',
        ''remaining 1.1e-05 is not yet small enough, and HbyA amplifies it 40x. damBreak '',
        ''names `gradSchemes default Gauss linear`, so linearUpwind\'s correction takes an '',
        ''UNLIMITED gradient and gradULimitK 0 is right. RE-RUNNING THE BISECTS AFTER '',
        ''THE FIX NAMES THE REMAINDER: zeroing nuEff now drops the source gap from '',
        ''2.2390e-06 to 1.9933e-11, while upwind-on-both and relax-off leave it '',
        ''unchanged -- so the whole of the residual 1.1e-05 is the EXPLICIT '',
        ''dev2(T(grad U)) term of divDevRhoReff. OF forms (rho*nuEff)*dev2(T(grad U)) '',
        ''per CELL and lets fvc::div interpolate the product; interpolating mu and the '',
        ''tensor separately is a different field -- but the device already forms the '',
        ''product per cell (sigmaKernel) and interpolates THAT, so it is not the fault. '',
        ''SPLITTING THE dev2 CONTRIBUTION INTERIOR FROM PATCH-ADJACENT NAMES IT: exact '',
        ''in all 2066 interior cells (1.39e-17 of 1.03e-03) and wrong only in the 202 '',
        ''cells touching a patch (2.24e-06 of 9.06e-05, 2.5% of the term there). Exact '',
        ''inside and wrong at the boundary is a boundary face value, not a scheme -- the '',
        ''same split that named the stale inletOutlet on rhoSimpleFoam. It is in '',
        ''divDevRhoReff\'s BOUNDARY sigma. SPLIT BY PATCH it was the ATMOSPHERE -- '',
        ''pressureInletOutletVelocity, 46 faces -- at 2.24e-06 of 2.24e-06, ONE HUNDRED '',
        ''PER CENT of the term there, against 0.13%, 0.8% and exact on the three noSlip '',
        ''walls. CAUSE: this port filled UbStored with deviceBCValue, which RE-DERIVES '',
        ''the patch value on the device -- precisely what UbStored exists to avoid. '',
        ''fvc::grad(U) inside divDevRhoReff reads the STORED value, and at a '',
        ''flux-conditional patch the two are different fields. Taking it from the host\'s '',
        ''evaluate instead: every patch drops to round-off (atmosphere 5.08e-21) and the '',
        ''momentum source goes 2.2390e-06 -> 1.9933e-11, five orders. '',
        ''WHAT IS STILL OPEN, and it is now ONE named quantity: HbyA is 4.95e-05 of '',
        ''1.96e-01 (2.5e-04) with the source and diagonal both exact, and comparing the '',
        ''rest of H()\'s inputs says upper, lower and iC are BIT-IDENTICAL while bC.x is '',
        ''3.3406e-06 of 3.3406e-06 -- 100% wrong. The two paths agree exactly on the '',
        ''implicit half of every boundary condition and disagree entirely on the explicit '',
        ''one, on that same atmosphere patch. THE DEVICE SIDE IS AT bC = 0 AND THE HOST '',
        ''AT 3.3406e-06, and the device\'s reason is one line in '',
        ''buildDeviceVectorBoundary: bcCategory 6 (pressureInletOutletVelocity) is '',
        ''mapped to device bcType 0, PLAIN zeroGradient, whose valueInternalCoeffs is 1 '',
        ''and valueBoundaryCoeffs is 0 -- so the device cannot produce a non-zero bC '',
        ''there at all, while brae\'s HOST class overrides both as transformFvPatchField '']\<close>

definition inf_interFoam_main_validation_2 :: "string list" where
  \<open>inf_interFoam_main_validation_2 = [
        ''does (iC = 1 - d_k, bC = value_k - (1 - d_k)*pif_k). WHICH SIDE IS RIGHT IS '',
        ''NOT SETTLED: d_k = sqrt(|valueFraction_kk|) is ZERO on an outflow face, which '',
        ''is consistent with iC agreeing bit-for-bit, and then bC = value - pif turns on '',
        ''whether the stored patch value equals the extrapolation at that instant. '',
        ''Deciding that by reasoning between brae\'s two implementations is what the '',
        ''of-instrument skill exists to prevent, so tools/dumpInterFoam\'s UEqn.H now '',
        ''dumps OpenFOAM\'s own assembled UEqn boundaryCoeffs per patch, after relax(). '',
        ''OPENFOAM SAYS |bC| = 0 ON THE ATMOSPHERE -- and on all three noSlip walls. '',
        ''THE DEVICE IS RIGHT AND brae\'s HOST IS WRONG: device 0, OpenFOAM 0, host '',
        ''3.3406e-06. So the fix is to the HOST\'s PressureInletOutletVelocityPatchField, '',
        ''not to buildDeviceVectorBoundary\'s category-6 mapping, which had looked like '',
        ''the defect for a whole turn. (One caveat recorded in the tool: the assembled '',
        ''matrix\'s internalCoeffs/boundaryCoeffs are the SUM of the div and laplacian '',
        ''contributions, each already scaled by its own face coefficient -- they are not '',
        ''the per-BC valueInternalCoeffs/valueBoundaryCoeffs that transformFvPatchField\'s '',
        ''identity relates, so that identity must not be checked against them.) '',
        ''THE FIX IS updateFromPatchVelocity, which rhoSimpleFoam has called since its '',
        ''own pcEqn gate and interFoam never did: OpenFOAM\'s directionMixed evaluate() '',
        ''leaves the patch value at patchInternalField on an OUTFLOW face, and its '',
        ''valueBoundaryCoeffs = value - (1 - d)*pif is then identically zero BECAUSE '',
        ''value == pif there; leaving the written seed makes it value - pif. Added to '',
        ''pressureCorrector and to both sides of the device gate. WITH IT THE WHOLE '',
        ''MOMENTUM-TO-PRESSURE HAND-OFF IS EXACT: source 2.8e-17, diag 3.6e-15, rAU '',
        ''1.4e-20, upper/lower/iC/bC all 0.000e+00, HbyA 2.1e-17 and phiHbyA 2.2e-19 -- '',
        ''from 4.9e-05 and 1.7e-07. damBreak end to end is UNCHANGED (alpha 3.4346e-09, '',
        ''p_rgh 2.364e-06, U 3.308e-06), so the solver path was already close enough '',
        ''there for it not to show. AND THE ONE-STEP U AND p_rgh DID NOT MOVE EITHER '',
        ''(5.86e-02 of 2.55e-01, 6.35e+01 of 2.85e+03): with the pressure equation\'s '',
        ''entire input now exact to 2e-19, what is left is WHOLLY INSIDE THE PRESSURE '',
        ''SOLVE -- OR IN THE COMPARISON ITSELF, and it turned out to be the latter. '',
        ''Taking the pressure half apart the same way: the p_rgh error is NOT a constant '',
        ''offset (mean 1.09, spread 62.4, so not the reference) and NOT localised to a '',
        ''patch (interior 6.0e+01, lowerWall 6.4e+01, atmosphere 0.03); phiHbyA\'s '',
        ''BOUNDARY is exact too (2.1e-22, and fvc::div sums it, so the source is exact); '',
        ''and the p_rgh MATRIX is exact -- diag 4.2e-22, upper 0, source 3.3e-19, iC 0, '',
        ''bC 0. THEN SOLVING THE IDENTICAL SYSTEM ON THE HOST LANDS ON THE DEVICE\'S '',
        ''ANSWER TO 4.3e-07 of 2.9e+03 (1.5e-10 relative). So the device\'s whole pressure '',
        ''pass is correct and the 6.4e+01 gap is against runInterFoam, which is solving a '',
        ''DIFFERENT system: the test\'s reconstruction of the host\'s sequence is what is '',
        ''off, not the device. Two fixture faults already found on the way there -- the '',
        ''case must be forced to `adjustTimeStep no`, and brae\'s host driver HARDCODES '',
        ''the p_rgh solve to 1e-9 (BRAE_PTOL) instead of reading the case\'s '',
        ''solvers/p_rgh entry, which damBreak sets to tolerance 1e-07 relTol 0.05. '',
        ''THE CAUSE WAS IN THE GATE: its hooks called mixtureNu(alpha1, alpha2, ...) '',
        ''where the second argument is mu -- nu = mu/(clamped blend), not a complement '',
        ''(two_phase_mixture_cpp.cuh:130). Both sides of the in-test comparison used the '',
        ''same nonsense, so every coefficient agreed to round-off while runInterFoam, '',
        ''which calls it correctly, did not; that alone was 58% of U and it was in the '',
        ''measurement, not in the code under test. WITH IT FIXED THE WHOLE DEVICE TIME '',
        ''STEP TRACKS THE HOST ON damBreak\'S REAL CASE: over five steps alpha 7.3e-11, '',
        ''U 6.8e-10 of 2.7e-01 (2.6e-09 relative) and p_rgh 2.0e-07 of 2.8e+03 '',
        ''(6.9e-11), from U 1.53e-01 (58%). The arm is now a GATE rather than a '',
        ''diagnostic, at bounds two orders above what is measured. '',
        ''THE HOST NOW READS solvers/p_rgh instead of hardcoding psc.tolP = 1e-9: '',
        ''OpenFOAM reads it, and a case asking for a LOOSER solve (damBreak says '',
        ''tolerance 1e-07 relTol 0.05) was being solved far tighter than OpenFOAM solves '',
        ''it. relTol comes from the Final entry, because PIMPLE selects p_rghFinal on '',
        ''the last corrector and the tutorials set relTol 0 there so the step ends on a '',
        ''converged pressure. THE END-TO-END NUMBERS MOVED AND ARE RECORDED AS MEASURED: '',
        ''damBreak alpha 3.4346e-09 -> 1.2402e-08, p_rgh 2.364e-06 -> 3.351e-06, U '',
        ''3.308e-06 -> 9.756e-06, water volume still identical to ten digits, '',
        ''capillaryRise still 0.7%. All remain two orders inside the gate\'s 1e-4 bound, '',
        ''which that gate already attributes to the two linear solves\' own residuals -- '',
        ''solving TIGHTER than OpenFOAM happened to land closer to it, and that is not a '',
        ''reason to keep doing it, because OpenFOAM\'s answer IS the one solved at the '',
        ''case\'s tolerance. BRAE_PTOL still overrides, because a device-vs-host gate has '',
        ''to pin both sides to one stopping point. '',
        ''THE fmax TRAP IS NOW GUARDED EVERYWHERE: tests/device_gate_finite.cuh\'s '',
        ''nonFinite() sits ahead of 124 accumulators across all 16 device gates and '',
        ''adds straight into each gate\'s failure count, so a field that has gone '',
        ''non-finite can no longer read as 0.000e+00. It carries its own fail-proof in '',
        ''test_device_alpha_flux.cu: handed {1, NaN, 3} it reports the NaN, while fmax '',
        ''over the same differences returns 2.0 with the NaN silently dropped. '',
        ''brae_interFoam NOW TAKES -device, running runInterFoamDevice: the SAME case '',
        ''translation and the same components the gates call, with the hooks living in '',
        ''the driver rather than in a test -- a device path whose boundary evaluation is '',
        ''written inside a gate is the defect braeInterFoam.cu\'s own header names. On '',
        ''damBreak at 5 fixed steps the two paths print the same summary line: max|U| '',
        ''0.2702 m/s both, alpha in [0, 1] against [-5.1e-34, 1], worst |div(phi)| '',
        ''8.5e-05 host against 5.0e-05 device. It USED TO REFUSE adjustTimeStep by '',
        ''name; the device loop now computes both Courant numbers off the flux the last '',
        ''step left behind and runs them through the same setDeltaTVoF the host calls, '',
        ''and the gate has an arm for it -- twelve steps on damBreak\'s own clock, Co '',
        ''1.5130e-03 agreeing to 6.2e-12, alphaCo 1.4556e-03 to 2.3e-10, the same dt to '',
        ''3.7e-10 and the same physical time to 2.2e-10. THE FIRST DRAFT OF THAT ARM WAS '',
        ''VACUOUS: setDeltaT takes min(maxCo/Co, 1 + 0.1*maxCo/Co, 1.2), so below '',
        ''maxCo/Co = 2 the answer is the constant 1.2 and dt rides the cap whatever Co '',
        ''says -- damBreak at its own maxCo 1 does that for its first TWENTY-THREE '',
        ''steps, and both runs grew by 1.2^5 and agreed to 0.000e+00 with the ported '',
        ''Courant number never consulted. The arm now runs at maxCo 0.0015 and refuses '',
        ''the cap trajectory by name. Twelve steps rather than five for a second reason: '',
        ''damBreak\'s setFields leaves a SHARP interface, so nearInterface()\'s [0.01, '',
        ''0.99] band is EMPTY and alphaCoNum is identically zero until step 11. (The '',
        ''report\'s maxU and worstDivPhi had to be filled '',
        ''too: left at their defaults the device path printed `max|U| 0 m/s, worst '',
        ''|div(phi)| 0.000e+00` on a run whose U reaches 0.27.) THE GATE NOW CALLS '',
        ''BOTH SHIPPED DRIVERS rather than a hand-rolled copy of the hooks, so what is '',
        ''measured is what runs: from damBreak\'s 0/ over five fixed steps, alpha '',
        ''1.6e-10, U 3.7e-08 relative, p_rgh 2.1e-10, excursion 8.9e-16, and the '',
        ''interface moved 5.6e-03 -- which a start from rest only does through the '',
        ''pressure corrector, so that number is what says the whole loop ran and not '',
        ''just its alpha half. The 900 lines of taps and bisects that found the six '',
        ''defects are gone with the hunt; DeviceInterStepTaps stays in the production '',
        ''header for the next one. '',
        ''AND A WHOLE TIME STEP NOW RUNS ON THE DEVICE (device_inter_step.cu): the alpha '',
        ''sub-cycle, mixture.correct(), the momentum matrix and the pressure corrector, '',
        ''with only the boundary conditions on the host. Five steps at Co ~ 0.16 leave '',
        ''alpha in [0,1] EXACTLY and p == p_rgh + rho*gh exactly. Two arms pin the LOOP '',
        ''ORDER, which is the thing nothing underneath can check: the mixture UEqn is '',
        ''built on differs from the one the step STARTED with by 1.3e+02 of 1000 in 43 of '',
        ''256 cells -- the interface band, and the single-phase order would use the '',
        ''second; and rhoPhi is the MULES-limited flux the alpha equation left, 9.1e-01 '',
        ''of 2.4e+00 away from interpolate(rho)*phi rebuilt afterwards. '',
        ''SHIPPED and gated end to end. brae_interFoam runs a case from the command line and '',
        ''`brae -case` routes to it (tests/solver_dispatch.sh). Against real OpenFOAM: '',
        ''damBreak alpha 3.4e-09, p_rgh 2.3e-06 and U 3.3e-06 relative '',
        ''(tests/interfoam_dambreak_vs_openfoam.sh); capillaryRise -- where surface '',
        ''tension IS the answer and the only tutorial with a contact angle -- 0.7% '',
        ''(tests/interfoam_capillaryrise_vs_openfoam.sh); the curvature itself to '',
        ''2.5e-14 at four calculateK pass counts '',
        ''(tests/interfoam_curvature_vs_openfoam.sh). THE SUB-CYCLE IS ON THE DEVICE '',
        ''(device_alpha_subcycle.cu) and matches the host\'s loop to 1.1e-16 in alpha and '',
        ''2.2e-16 in the weighted rhoPhi over three sub-steps. Its gate is four '',
        ''deliberately-wrong sub-cycles run beside the right one, because each failure '',
        ''leaves a bounded plausible field: the full deltaT per sub-step 3.2e-01, '',
        ''restarting each from the old alpha 9.8e-02, the last rhoPhi instead of the '',
        ''weighted sum 4.1e-02 of 8.4e-01 -- and that last one is 0.000e+00 in ALPHA, so '',
        ''no boundedness or interface gate could ever see it.'']\<close>

definition inf_interFoam_main_validation :: string where
  "inf_interFoam_main_validation = lit (inf_interFoam_main_validation_1 @ inf_interFoam_main_validation_2)"

definition inf_interFoam_main_note :: string where
  \<open>inf_interFoam_main_note = lit [
        ''The time loop, and the sub-cycle inside it. THE SUB-CYCLE is used by 33 of the 44 '',
        ''shipped tutorials (23 at nAlphaSubCycles 3), and all three ways to get it wrong '',
        ''leave a BOUNDED, plausible alpha field that no boundedness gate sees: running the '',
        ''sub-steps at the full deltaT (Time::subCycle divides it, Time.C:1006-1009), '',
        ''restarting each from the time step\'s old alpha instead of the previous sub-step\'s '',
        ''result, and taking the last rhoPhi instead of the time-weighted sum '',
        ''sum_k (dt_k/dt_total)*rhoPhi_k. alpha.oldTime() is also RESTORED afterwards '',
        ''(subCycleField\'s destructor), or the PIMPLE outer loop\'s second pass advances from '',
        ''the first\'s result. THE LOOP ORDER is not numerics but which field each equation '',
        ''sees: alpha advances BEFORE the momentum predictor and mixture.correct runs between '',
        ''them, so UEqn is built on the new rho. The single-phase order -- UEqn first -- '',
        ''converges fine, on last step\'s density, which at a water/air interface is wrong by '',
        ''1000. frozenFlow\'s `continue` skips the turbulence corrector as well as UEqn and '',
        ''pEqn. adjustTimeStep/maxAlphaCo is interFoam_alphaCourantNo and is landed. '',
        ''WHAT interFoam.C HONOURS AND brae DID NOT EVEN READ. The next port on the list was '',
        ''`vanLeerV` (8 tutorials), and a census was taken first to rank it: every one of the 44 '',
        ''shipped tutorials was meshed and handed to brae_interFoam for one step, and brae\'s OWN '',
        ''message recorded. That changed the ranking -- all eight vanLeerV cases also carry a '',
        ''moving mesh, so the scheme alone unlocks none; the single-blocker counts are waves 9, '',
        ''turbulence 7, moving mesh 2, MRF 1, limitedLinear 1 -- and it found something worse than '',
        ''a missing scheme. TWO TUTORIALS REACHED `End:` THAT SHOULD NOT HAVE: '',
        ''laminar/damBreakWithObstacle and laminar/oscillatingBox both ask for '',
        ''`dynamicRefineFvMesh`, adaptive refinement driven by alpha, and brae ran them on the '',
        ''mesh as written without a word. brae\'s interFoam never opened constant/dynamicMeshDict. '',
        ''Seventeen more tutorials carry a moving mesh and were stopped only because they hit some '',
        ''OTHER refusal first. A one-input-at-a-time sweep on damBreak then found the rest: '',
        ''MRFProperties and fvOptions (both locations) ran silently although braeInterFoam.cu\'s '',
        ''own header listed both as refused; a DICTIONARY-form sigma -- a surfaceTensionModel -- '',
        ''and a MISSING sigma both became ZERO surface tension, because it was read with '',
        ''scalarOr("sigma", 0); a setTimeStep function object, which overrides deltaT from inside '',
        ''Time::adjustDeltaT, was ignored; and the device loop ran nOuterCorrectors as 1 and '',
        ''nNonOrthogonalCorrectors as 0 whatever the case said (5 and 4 tutorials ask for more), '',
        ''where the host honours both. All are refused by name now, each by OpenFOAM\'s OWN rule '',
        ''read from the source: dynamicFvMesh is mandatory once the dictionary exists and only '',
        ''staticFvMesh is static (dynamicFvMeshNew.C:65-128); an MRF zone and an fvOption are '',
        ''active unless they say otherwise (MRFZone.C:553, fvOption.C:72); constant/fvOptions is '',
        ''looked up BEFORE system/fvOptions and OpenFOAM stops at the first (fvOptions.C:46-84); a '',
        ''dictionary named sigma selects a model and a scalar one has no default '',
        ''(surfaceTensionModelNew.C:36-66). tests/interfoam_refusals.sh holds 25 arms, and EVERY '',
        ''REFUSAL HAS ITS OPPOSITE beside it -- staticFvMesh, `active no` on a zone and on an '',
        ''option, an inactive constant/fvOptions hiding an active system/ one, sigma 0, a harmless '',
        ''function object -- which must still RUN, because a refusal that fires on a case OpenFOAM '',
        ''would run unchanged is a defect too. After it the census shows exactly two tutorials '',
        ''reaching `End:`: damBreak and capillaryRise, the two that are gated. That note ended by '',
        ''saying what it did NOT claim -- that nOuterCorrectors 2, nNonOrthogonalCorrectors 1 '',
        ''and momentumPredictor yes were RIGHT on the host, only that they ran. They were '',
        ''checked next, and two of the three were not. '',
        ''THREE PIMPLE CONTROLS RAN AND WERE NEVER HELD TO ANYTHING, and two of them were wrong. '',
        ''damBreak uses none of nOuterCorrectors 2, nNonOrthogonalCorrectors 1 or '',
        ''momentumPredictor yes (5, 4 and 5 of the 44 shipped tutorials set them), brae\'s host '',
        ''executed all three, and no gate compared any of them with OpenFOAM -- the position '',
        ''alphaApplyPrevCorr was in while it carried a wrong limiter argument. Each is now a '',
        ''profile of tests/interfoam_dambreak_vs_openfoam.sh at the big step, with the control on '',
        ''the ORACLE: the setting moves OpenFOAM\'s own alpha by 1.6e-01, 5.4e-04 and 7.5e-02 '',
        ''respectively, so a brae that ignored it could not pass. (1) nOuterCorrectors 2 WAS '',
        ''WRONG: alpha 4.9e-06, p_rgh 4.5e-06, U 1.0e-03, one alpha solve taking 3 sweeps for '',
        ''OpenFOAM\'s 2. The solver log localised it in one read: every FIRST-pass alpha solve '',
        ''exact to 1e-13, every SECOND-pass one 84% to 170% out in its initial residual, and p_rgh '',
        ''exact through step two\'s first pass. alphaEqnStep reset alpha1 to its old time at the '',
        ''top of every call, and alphaEqn.H has NO such assignment anywhere: the old time enters '',
        ''through fvmDdt\'s source and MULES\' psi.oldTime(), while the CURRENT alpha1 is the pre- '',
        ''solve\'s initial guess, the field alphaPhiUn is built from, and what the limiter takes '',
        ''its extrema from (MULESTemplates.C:208 against :244). With one outer corrector the two '',
        ''are the same field, so the reset was a no-op for as long as the function had only ever '',
        ''been run that way. After: alpha 2.8e-12, U 8.6e-12, 10 of 10 alpha counts. brae\'s MULES '',
        ''already took psi and psiOld separately, as OpenFOAM\'s does; only the caller forced them '',
        ''equal. (2) nNonOrthogonalCorrectors 1 WAS RIGHT: alpha 1.2e-12, 30 of 30 p_rgh counts. '',
        ''(3) momentumPredictor yes FOUND THREE THINGS. OpenFOAM itself REFUSES damBreak with the '',
        ''predictor on -- `Entry \'UFinal\' not found` -- because fvMatrix::solve() selects the '',
        ''Final entry on the last outer corrector and with one corrector that is the only one; '',
        ''brae ran the case, reading NEITHER entry: a struct default of 1e-7 on PBiCGStab on the '',
        ''host and a hardcoded 1e-12 on Jacobi-BiCGStab on the device, where the case says '',
        ''smoothSolver symGaussSeidel at 1e-06. That is the third time the same substitution has '',
        ''turned up (p_rgh, alpha, U). Both paths now read U and UFinal, require each exactly '',
        ''where OpenFOAM does, run the case\'s smoother (solveVector took a VectorLinearSolver; the '',
        ''device calls deviceSymGaussSeidel), skip the component a 2-D mesh does not solve as '',
        ''fvMatrixSolve.C:162-164 does, and log every solve. THEN THE HOST WAS STILL THREE ORDERS '',
        ''WORSE THAN THE DEVICE on the same case with the same solver and the same sweep counts -- '',
        ''alpha 9.1e-10 against 1.4e-12, U 9.2e-08 against 8.7e-12 -- which is a comparison that '',
        ''only exists because both paths are gated against the same oracle. fvMatrix::solve() ends '',
        ''with correctBoundaryConditions(); the host\'s predictor ended with evaluateBoundary() '',
        ''alone, and brae\'s pressureInletOutletVelocity keeps its STORED value through that on '',
        ''purpose, so the atmosphere\'s U_b was one solve stale going into the first pressure '',
        ''corrector, where totalPressure reads 0.5*rho*|U_b|^2. The device refreshed it and the '',
        ''host did not. One shared updateVelocityPatchesFromCells now serves the corrector, the '',
        ''predictor and the device driver: host alpha 1.4e-12, p_rgh 1.4e-12, U 8.4e-12, every Ux, '',
        ''Uy, p_rgh and alpha count OpenFOAM\'s on both paths. The device REFUSES the first two '',
        ''controls (its loop runs one outer corrector and no non-orthogonal pass), and on those '',
        ''profiles the gate asserts the refusal. ALONG THE WAY the residual comparison got the '',
        ''floor a normalised residual has: it had failed on two agreements it should have praised, '',
        ''a 5e-8 initial residual the two codes held 6e-18 apart (\'1.3e-10 relative\') and a '',
        ''1.935e-14 final residual matching to four digits (\'2.2e-05 relative\'); below 1e-16 '',
        ''absolute the difference is now zero, and a different SOLVER is still nine orders above '',
        ''that.'']\<close>

definition inf_interFoam_main :: component where [manifest_rows]:
  \<open>inf_interFoam_main =
     [(''name'', PStr ''interFoam_main''),
      (''of_symbol'', PStr ''main''),
      (''of_file'', PStr ''applications/solvers/multiphase/interFoam/interFoam.C''),
      (''classification'', PStr ''HOST_ONLY''),
      (''status'', PStr ''REIMPLEMENT''),
      (''brae_reference'', PStr ''src/applications/solvers/interFoam/inter_solve_cpp.cuh''),
      (''brae_target'', PStr ''src/applications/solvers/interFoam/braeInterFoam.cu''),
      (''validation'', PStr inf_interFoam_main_validation),
      (''note'', PStr inf_interFoam_main_note)]\<close>

definition inf_interFoam_alphaEqn_validation :: string where
  \<open>inf_interFoam_alphaEqn_validation = lit [
        ''tests/test_alpha_eqn_cpp.cu covers the FLUX ASSEMBLY. Boundedness is the gate for '',
        ''the MULES half and is an ASSERTION, not a tolerance: 0 <= alpha <= 1 exactly, '',
        ''every cell, every sub-cycle. A VoF gate that only checks agreement can pass '',
        ''while the field goes unbounded and is then clipped. ON THE DEVICE, '',
        ''tests/test_device_alpha_step.cu runs the WHOLE explicit corrector on a rotating '',
        ''blob -- discretely divergence-free, so boundedness means something -- against '',
        ''the host: alpha in [0,1] exactly, 1.1e-16 after one step and 9.99e-16 after '',
        ''forty of two correctors each.'']\<close>

definition inf_interFoam_alphaEqn_note :: string where
  \<open>inf_interFoam_alphaEqn_note = lit [
        ''minIter ON THE PRE-SOLVE is honoured on the host (AlphaStepInput::minIterAlpha): gated as laminar/damBreak `alphaminiter` on the sweep count, which is all damBreak can witness (the forced sweep acts on an exact solution); ignored it logs 0 where OpenFOAM logs 1. The device refuses it. '',
        ''ALPHA\'S BOUNDARY IS NOT EVALUATED BEFORE ITS FLUXES (alphaEqn.H has no such call): the explicit path reads the patch values the last MULES solve left, at the first step the file\'s own `value`; brae evaluated at the top of alphaEqnStep. MEASURED on RAS/mixerVesselAMI, whose outlet writes `value uniform 0` under water: OpenFOAM\'s 62 outlet cells rise to 1.104 in the first sub-cycle, brae held them at 1, alpha 9.4e-02 after one step (tests/interfoam_ami_vs_openfoam.sh; restored, 1.9e-06 of U after 100 steps). '',
        ''SPLIT IN TWO. The flux assembly is landed: alphaControls, the off-centring, phic, '',
        ''phiCN, alphaPhiUn and rhoPhi. MULES is interFoam_MULES and is not. Su/Sp/divU are '',
        ''identically zero for THIS solver (interFoam/alphaSuSp.H is three zeroFields); they '',
        ''are live in interPhaseChangeFoam, which has its own. Three things the gate pins that '',
        ''no field shows: phic is zeroed on every NON-COUPLED boundary (alphaEqn.H:79-89, '',
        ''compression at an inlet sharpens an interface the boundary does not have); '',
        ''alphaPhiUn\'s compressive term is a nested flux with TWO minus signs, which cancel '',
        ''exactly under `Gauss linear` (31 tutorials, so the mistake is invisible there) and '',
        ''do not under `Gauss vanLeer` (7); and rhoPhi\'s two branches multiply rho2f by phiCN '',
        ''on the Euler path and phi on the other. Only Euler, localEuler and CrankNicolson ddt '',
        ''are accepted (alphaEqn.H:49-51), and CrankNicolson is refused when sub-cycling. '',
        ''`Gauss interfaceCompression` on div(phirb,alpha) (4 tutorials) is interFoam_interfaceCompression. '',
        ''THE WHOLE MULESCorr PATH NOW RUNS ON THE DEVICE and is gated end to end against the '',
        ''host over 40 steps at nAlphaCorr 2 / nLimiterIter 5, damBreak\'s own settings: '',
        ''1.07e-10, and it differs from the explicit path by 3.3e-02 so the arm is not a '',
        ''second copy of it. Two things that gate found. CMULES\' outlet test reads '',
        ''alphaPhiUn, not phiCN -- OpenFOAM passes talphaPhi1Un() -- and passing the '',
        ''volumetric flux there cost 3.99e-09 against the host. And the path is NOT exactly '',
        ''bounded at nLimiterIter 5: 1.307e-06, the host\'s number to four digits, which is '',
        ''the fixed-point iteration and nothing else -- the pre-solve alone is 0.000e+00 at '',
        ''solver tolerance 1e-12 and 1.31e-06 at 1e-6, and the final field is 0.000e+00 at '',
        ''nLimiterIter 40. '',
        ''THE IMPLICIT PRE-SOLVE IS ON THE DEVICE (device_alpha_presolve.cu): the upwind LDU, '',
        ''the Euler ddt, the BiCGStab solve and alpha1Eqn.flux(), with only the boundary '',
        ''coefficients built on the host. Its gate pins the flux by the closure '',
        ''alpha == alphaOld - (dt/V)*sum_f alphaPhi10, which tracks the SOLVER RESIDUAL '',
        ''(1.3e-12 at tolerance 1e-12, 3.0e-06 at 1e-6) where a flux rebuilt from the '',
        ''pre-solve field leaves a fixed 5.1e-03 and a central one 2.3e-02. '',
        ''THE DEVICE SPLIT IS ONE CORRECTOR PER CALL, not the nAlphaCorr loop: OpenFOAM '',
        ''re-evaluates alpha\'s boundary at the end of every MULES solve and runs '',
        ''mixture.correct() after that, and the next corrector\'s flux, gradient and limiter all '',
        ''read them. Looping inside the call put nHatf 2.885e-04 out on a field whose largest '',
        ''value is 1.736e-03, and 3.2e-09 into alpha by the end of a single step. '',
        ''THE PRE-SOLVE\'S LINEAR SOLVER WAS A SUBSTITUTION HIDDEN BY A TOLERANCE. Every MULESCorr '',
        ''tutorial names `solver smoothSolver; smoother symGaussSeidel; tolerance 1e-8` for alpha. '',
        ''The device ran Jacobi-BiCGStab to a HARDCODED 1e-12 and the host DILU-PBiCGStab to a '',
        ''struct default of 1e-8; neither read the case. It matters because an implicit upwind '',
        ''matrix is nearly triangular in flow order, so a Gauss-Seidel sweep is nearly an exact '',
        ''solve -- OpenFOAM\'s log on damBreak reads `No Iterations 2, Final residual 9.3e-14` -- '',
        ''while Jacobi-BiCGStab stops AT its tolerance. Measured against real OpenFOAM, five steps '',
        ''of damBreak, device alpha pre-solve tolerance swept: 1e-16 -> alpha 5.5e-11; 1e-12 (the '',
        ''hardcoded value) -> 1.6e-10; 1e-8 (THE CASE\'S OWN) -> alpha 3.3e-06 and U 1.2e-03. The '',
        ''1.6e-10 had been in the device/host gate all along, under a bound of 1e-8 and a comment '',
        ''attributing it to \'the pre-solve\'s residual\' -- which was true and was not followed. The '',
        ''device had OpenFOAM\'s smoother already (deviceSymGaussSeidel: smoothSolver\'s stopping '',
        ''rule around symGaussSeidelSmoother\'s own sweep, level-scheduled and exact, gated by '',
        ''gs_ladder). With the case\'s entry read (InterFields::aSolve, lduMatrix\'s defaults, '',
        ''refused when MULESCorr names no solver) and the device on it at the case\'s 1e-8: device '',
        ''against OpenFOAM alpha 1.6e-10 -> 3.6e-14, p_rgh 2.1e-10 -> 8.6e-12, U 3.8e-08 -> '',
        ''2.3e-11 -- the host\'s numbers to three digits -- and device against host through the '',
        ''shipped drivers alpha 1.6e-10 -> 1.1e-15, U 3.7e-08 -> 2.6e-14 relative, p_rgh 2.5e-10 '',
        ''-> 2.5e-14, the adaptive clock 3e-10 -> 2e-12. Every bound in '',
        ''tests/test_device_inter_dambreak_alpha.cu followed, from 1e-8/1e-7/1e-6 to '',
        ''1e-13/1e-12/1e-12. THE HOST SUBSTITUTED TOO (DILU-PBiCGStab, under a notice) until it had a '',
        ''smoothSolver of its own -- see interFoam_smoothSolver. On damBreak that was measured '',
        ''harmless, 3.6e-14, because DILU on a near-triangular matrix is as nearly exact as the '',
        ''sweep; measured on one case, not proven, which is why it was closed rather than left. '',
        ''Any alpha solver that is not smoothSolver with a Gauss-Seidel smoother still runs '',
        ''BiCGStab on both paths, under a notice that carries the 3.3e-06. '',
        ''`alphaApplyPrevCorr` WAS HALF PORTED AND THE OTHER HALF WAS SILENT. alphaEqn.H:133-150 '',
        ''and :228-236: the compression flux the correctors ended on is cached in talphaPhi1Corr0 '',
        ''and the NEXT pre-solve applies it, limited through MULES::correct, before its own '',
        ''correctors run. Three shipped tutorials set it (floatingObject, DTCHull, DTCHullMoving) '',
        ''and brae refuses all three for other reasons -- RAS, moving meshes, LTS -- so no '',
        ''tutorial can gate it; OpenFOAM honours it on any MULESCorr case and damBreak is one. THE '',
        ''HOST had an implementation nothing had ever run. THE DEVICE had nothing at all -- no '',
        ''code and NO REFUSAL -- so `brae_interFoam -device` on such a case ignored the switch and '',
        ''said nothing. Measured on damBreak at dt 5e-3 with the switch on, before any change: '',
        ''host alpha 1.2e-12 from OpenFOAM, device 1.0690e-02 -- to five digits OpenFOAM\'s own '',
        ''distance from itself with the switch OFF -- and U 15% out. Now implemented on the device '',
        ''with the two CMULES primitives it already had (deviceMulesLimitCorr, '',
        ''deviceMulesCorrect); the cache is owned by the CALLER because it outlives the call, and '',
        ''the switch without a cache, without MULESCorr, or without the curvature-free '',
        ''refreshBoundary hook is refused by name. Device after: alpha 1.2e-12, p_rgh 1.7e-12, U '',
        ''9.2e-12, every p_rgh and alpha iteration count OpenFOAM\'s. Gated as two more profiles of '',
        ''tests/interfoam_dambreak_vs_openfoam.sh. `prevcorr` asserts that OpenFOAM\'s log says '',
        ''`Applying the previous iteration compression flux` -- an oracle that never took the path '',
        ''would agree with a brae that ignored it -- and its control is that the switch moves '',
        ''OpenFOAM\'s OWN alpha by 1.07e-02, nine orders more than brae\'s distance from it. '',
        ''`prevcorrsub` adds nAlphaSubCycles 2, because the cache outlives the SUB-CYCLE as well '',
        ''as the time step and damBreak\'s own count of 1 cannot tell a cache that crosses from one '',
        ''that is reset: ten alpha solves (0, 0, 3, 3, 2, 2, 2, 2, 2, 2), every count equal on '',
        ''both paths, alpha 1.6e-12, and the sub-cycle count moves OpenFOAM\'s own alpha by '',
        ''8.2e-02. '',
        ''ONE FIX HERE WAS MADE FROM THE SOURCE FIRST AND MEASURED AFTERWARDS, and the measuring '',
        ''is the part worth keeping. The host passed phiCN, the VOLUMETRIC flux, as '',
        ''MULES::correct\'s flux argument where OpenFOAM passes alphaPhi10 (alphaEqn.H:140). '',
        ''limiterCorr reads it in one place, the boundary outlet test `(phi_b + phiCorr_b) > '',
        ''SMALL*SMALL` (CMULESTemplates.C:546) -- the same slip the corrector loop had, fixed '',
        ''there at 3.99e-09 -> 1.07e-10. IT TOOK THREE FIXTURES. (1) damBreak: the host\'s numbers '',
        ''are the same to five digits either way, because the boundary half of the cached '',
        ''correction is zero unless alpha\'s patch value moves between the pre-solve and the '',
        ''correctors, which needs water LEAVING through an outflow face. (2) The water column '',
        ''raised to the atmosphere, dt 5e-3: water does leave, and a probe counting the faces on '',
        ''which the two tests DECIDE DIFFERENTLY found up to 13 a step, on corrections worth 15% '',
        ''of the face flux -- and the answer was still bit-identical, alpha 5.8831e-13 both ways. '',
        ''Running the limiter both ways on the same state showed why: the limited correction came '',
        ''out identical, because on those faces the cell limiter returned 1 and made the decision '',
        ''moot. A difference in a DECISION is not a difference in an ANSWER. (3) The same fixture '',
        ''at dt 1e-2, found by sweeping brae alone for a step where the two limited corrections '',
        ''actually differ: one application there moves one cell\'s alpha by 0.10. Against real '',
        ''OpenFOAM, four steps: with phiCN alpha 5.5e-03, p_rgh 5.7e-03, U 2.2e-02; with '',
        ''alphaPhi10 4.6e-13, 2.7e-13, 5.5e-13 -- ten orders from one argument. The device, '',
        ''written with the right argument from the start, reads 4.7e-13, 2.9e-13 and 4.5e-11 on '',
        ''it. Gated as the `outflow` profile, whose control is on BRAE rather than the oracle: the '',
        ''host runs again with BRAE_CONTROL_PREVCORR_PHICN set (read in the driver as BRAE_PTOL '',
        ''is, announced on every step it is on, and carried by '',
        ''AlphaStepInput::controlPrevCorrOutletOnPhiCN, which no solver sets) and must come out '',
        ''more than 1e-6 from OpenFOAM. It reads 5.5193e-03. The sweep also bounds the fixture: at '',
        ''dt 2e-2 alpha leaves [-0.34, 1.12] and the inflow variants go to NaN, so dt 1e-2 for '',
        ''four steps is what this case can carry.'']\<close>

definition inf_interFoam_alphaEqn :: component where [manifest_rows]:
  \<open>inf_interFoam_alphaEqn =
     [(''name'', PStr ''interFoam_alphaEqn''),
      (''of_symbol'', PStr ''alphaEqn''),
      (''of_file'', PStr ''applications/solvers/multiphase/VoF/alphaEqn.H''),
      (''classification'', PStr ''SHARED_NUMERICAL''),
      (''status'', PStr ''REIMPLEMENT''),
      (''brae_reference'', PStr ''src/applications/solvers/interFoam/alpha_eqn_cpp.cuh''),
      (''brae_target'', PStr ''src/applications/solvers/interFoam/device_alpha_step.cu''),
      (''validation'', PStr inf_interFoam_alphaEqn_validation),
      (''note'', PStr inf_interFoam_alphaEqn_note)]\<close>

definition inf_interFoam_MULES_validation :: string where
  \<open>inf_interFoam_MULES_validation = lit [
        ''tests/test_mules_cpp.cu. The oracle is BOUNDEDNESS, not a stored field, which is '',
        ''what makes the gate possible at all -- a stock run never writes the limiter. It '',
        ''is a PAIR of arms, because either alone is trivially satisfiable: the limited run '',
        ''stays in [0,1] exactly where the unlimited one does not, AND a monotone in-bounds '',
        ''field comes back with lambda == 1 on every face away from the domain ends. '',
        ''lambda == 0 everywhere passes the first and fails the second, and it is '',
        ''first-order upwind -- the case\'s scheme silently discarded.'']\<close>

definition inf_interFoam_MULES_note :: string where
  \<open>inf_interFoam_MULES_note = lit [
        ''THE LARGEST SINGLE PIECE, and the least brae-like. An EXPLICIT, ITERATIVE, '',
        ''bound-preserving flux limiter -- not a matrix assembly -- so almost none of the fvm:: '',
        ''machinery the other solvers share applies. Landed: limiter, limit, explicitSolve. '',
        ''Four things the gate pins that no converged field shows: psiMaxn/psiMinn are '',
        ''initialised SWAPPED (:280-281) so the neighbour scan builds from the far end; the '',
        ''neighbourhood extrema EXCLUDE the cell\'s own value, which is what lets an interface '',
        ''advance; phiBD is overwritten with phiPsi on every non-coupled boundary so the '',
        ''prescribed flux is never limited (:600-609); and a wedge patch gets lambda = 0 '',
        ''outright (:530-533). Two things measured and NOT claimed: the running '',
        ''min(lambda,...) is defensive rather than load-bearing (removing it gives a '',
        ''bit-identical field, because both accumulators are built from lambda), and in one '',
        ''dimension the first pass is already the fixed point -- nLimiterIter only bites where '',
        ''a cell\'s faces are limited by different neighbours at once. AND ACROSS A COUPLED PATCH '',
        ''the limiter is synced by syncTools::syncFaceList (:566), which exchanges across '',
        ''processor and cyclicPolyPatch ONLY: an AMI pair keeps each side\'s own limiter, so the '',
        ''limited flux across a cyclicACMI is not equal and opposite. brae synced it; measured '',
        ''on damBreakLeakage\'s opening step, the receiving side\'s alpha flux 75% of the giving '',
        ''side\'s in OpenFOAM (FvPatch::ami, interFoam_cyclicACMI).'']\<close>

definition inf_interFoam_MULES :: component where [manifest_rows]:
  \<open>inf_interFoam_MULES =
     [(''name'', PStr ''interFoam_MULES''),
      (''of_symbol'', PStr ''MULES::limiter''),
      (''of_file'', PStr ''src/finiteVolume/fvMatrices/solvers/MULES/MULES.C''),
      (''classification'', PStr ''SHARED_NUMERICAL''),
      (''status'', PStr ''REIMPLEMENT''),
      (''brae_reference'', PStr ''src/finiteVolume/fvMatrices/solvers/MULES/mules_cpp.cuh''),
      (''brae_target'', PStr ''src/finiteVolume/fvMatrices/solvers/MULES/device_mules.cu''),
      (''validation'', PStr inf_interFoam_MULES_validation),
      (''note'', PStr inf_interFoam_MULES_note)]\<close>

definition inf_interFoam_CMULES_validation :: string where
  \<open>inf_interFoam_CMULES_validation = lit [
        ''tests/test_mules_cpp.cu arm 7. Shares the boundedness oracle; the four structural '',
        ''differences from the explicit path are asserted one by one, each with its own '',
        ''fail-proof. ON THE DEVICE, tests/test_device_mules_corr.cu repeats A, B, C and '',
        ''the empty-patch skip against the host limiter: psi stays in [0,1] exactly where '',
        ''the unlimited control reaches 4.0e-01, and lambda came out bit-identical on all '',
        ''264 faces, 32 of them strictly inside (0,1) -- not guaranteed, since the budgets '',
        ''are gathers there and a face loop here, so the gate keeps a tolerance.'']\<close>

definition inf_interFoam_CMULES_note :: string where
  \<open>inf_interFoam_CMULES_note = lit [
        ''LANDED AND RUNNING on damBreak\'s own mesh. The semi-implicit variant, `MULESCorr yes` -- 13 of the 44 shipped tutorials, damBreak '',
        ''included. With it the upwind part of the alpha equation goes through an implicit '',
        ''MATRIX, so by the time CMULES runs psi is ALREADY advanced and only the antidiffusive '',
        ''correction is left. Four consequences, all of them places a port that reuses the '',
        ''explicit code is quietly wrong. (A) correct() uses the CURRENT rho and psi, not their '',
        ''oldTime values: with a zero correction it is the identity, where the explicit form '',
        ''would hand back psi.oldTime() and undo the implicit solve -- bounded, so a '',
        ''boundedness gate never notices, the interface just moves at the wrong speed. (B) the '',
        ''budget transform carries NO sumPhiBD, because there is no donor flux. (C) uncoupled '',
        ''boundary faces ARE limited, but outlets only, and `outlet` means phi + phiCorr > '',
        ''SMALL*SMALL -- the TOTAL, so an inflow face whose correction reverses it is limited '',
        ''like any other. (D) nLimiterIter is get<label> with NO DEFAULT here where the '',
        ''explicit limiter defaults it to 3, so the same dictionary is accepted by one reader '',
        ''and refused by the other. MEASURED on damBreak: 20 alpha steps on a projected '',
        ''divergence-free flux leave the field within 2.1e-11 of [0,1] against the explicit '',
        ''path\'s 9.5e-14. Three sweeps characterise that gap: it is present at step 0 and '',
        ''barely accumulates; it is INDEPENDENT of the linear-solver tolerance (1e-8 to '',
        ''1e-14 moves it not at all) while the MASS DRIFT tracks that tolerance exactly; and '',
        ''it scales as about dt^4. So conservation is the solve\'s accuracy and boundedness '',
        ''is a conditioning effect in the budget that grows with the correction. The exact '',
        ''mechanism is not attributed; the gate asserts the characterisation -- the bound AND '',
        ''the scaling -- so a change in behaviour fails rather than being absorbed. '',
        ''NOT CMULES, AS IT TURNED OUT: on damBreak over ten adaptive steps brae\'s alpha '',
        ''reached 1 + 2.306e-06 where real OpenFOAM reached 1 + 1.1361e-06, 1.98x, and it '',
        ''was first recorded here as an open CMULES gap. Measuring it put it elsewhere. '',
        ''interFoam\'s alphaSuSp.H has no divU, so the MULESCorr pre-solve on a full cell '',
        ''gives a = 1/(1 + dt*div(phi)) and the excursion is dt times the continuity error '',
        ''the PRESSURE solve left. Tightening only the alpha solve changed nothing to the '',
        ''last digit; tightening only p_rgh took both codes from 1.16e-06 to 4.9e-13. The '',
        ''per-step ratio ran 0.12x to 3.18x, not a steady 2x. Closed under interFoam_pEqn, '',
        ''and test_inter_case_cpp now holds it at OpenFOAM\'s own value to 2% (0.9931x). '',
        ''OpenFOAM prints Max(alpha.water) TWICE a step -- after the pre-solve '',
        ''(alphaEqn.H:124) and after the correctors (alphaEqn.H:263) -- and the gate\'s '',
        ''constant had been taken from the first while it reads the second.'']\<close>

definition inf_interFoam_CMULES :: component where [manifest_rows]:
  \<open>inf_interFoam_CMULES =
     [(''name'', PStr ''interFoam_CMULES''),
      (''of_symbol'', PStr ''MULES::correct''),
      (''of_file'', PStr ''src/finiteVolume/fvMatrices/solvers/MULES/CMULESTemplates.C''),
      (''classification'', PStr ''SHARED_NUMERICAL''),
      (''status'', PStr ''REIMPLEMENT''),
      (''brae_reference'', PStr ''src/finiteVolume/fvMatrices/solvers/MULES/mules_cpp.cuh''),
      (''brae_target'', PStr ''src/finiteVolume/fvMatrices/solvers/MULES/device_mules.cu''),
      (''validation'', PStr inf_interFoam_CMULES_validation),
      (''note'', PStr inf_interFoam_CMULES_note)]\<close>

definition inf_interFoam_interfaceProperties_validation :: string where
  \<open>inf_interFoam_interfaceProperties_validation = lit [
        ''tests/test_interface_properties.cu (the dictionaries) and '',
        ''tests/test_interface_curvature_cpp.cu (K itself). NO INSTRUMENTED OpenFOAM '',
        ''WAS NEEDED: curvature is GEOMETRY. A plane\'s spurious K is 5+ orders below a '',
        ''real one and tracks deltaN; a sphere of radius R gives 2/R to 0.1% at 16^3 '',
        ''and the error FALLS on refinement, which is what makes the bound the '',
        ''scheme\'s rather than the mesh\'s; a bubble gives the exact negative; and the '',
        ''contact angle has the exact postcondition acos(nHat & nf) == theta.'']\<close>

definition inf_interFoam_interfaceProperties_note :: string where
  \<open>inf_interFoam_interfaceProperties_note = lit [
        ''K_ = -div(nHatf) with nHatf = (gradAlphaf/(|gradAlphaf| + deltaN)) & Sf '',
        ''(interfaceProperties.C:141-153), plus the alphaContactAngle correction on wall '',
        ''patches. surfaceTensionForce() = interpolate(sigma*K)*snGrad(alpha1). THE MINUS in '',
        ''K is the sign convention for the whole solver -- drop it and every surface-tension '',
        ''force points the wrong way with the right magnitude, which a flat-interface test '',
        ''cannot see because -0 is 0. fvc::grad(alpha1, "nHat") resolves a NAMED '',
        ''gradScheme. The contact-angle correction also writes alpha\'s own WALL GRADIENT '',
        ''(acap.gradient() = (nf & nHat)*mag(gradAlphaf)), not only the normal used for '',
        ''curvature; only laminar/capillaryRise sets one. nAlphaSmoothCurvature is set by NO '',
        ''shipped tutorial anywhere in OpenFOAM; smoothing is fvc::average, which is '',
        ''AREA-WEIGHTED and indistinguishable from a plain mean on a cube, so its gate runs '',
        ''on anisotropic cells. Combining it with a leastSquares gradient is refused by '',
        ''name -- there is no case to validate that against. INSTRUMENTED 2026-09-16: '',
        ''tools/dumpInterfaceK reads K, nHatf, the surface-tension force and alpha\'s '',
        ''post-correct boundary from OpenFOAM\'s UNMODIFIED class -- nHatf() and sigmaK() are '',
        ''public, so nothing is copied or patched. It found that calculateK is a FIXED POINT: '',
        ''it reads the wall gradient correctContactAngle wrote at the end of its own previous '',
        ''pass, so on capillaryRise that gradient runs 7070.5 -> 8659.4 -> 9353.1 -> 9681.2 '',
        ''over four passes and the curvature depends on WHERE the solver calls it, not only '',
        ''on the formula. brae\'s formula is exact -- 2.5e-14 relative against OpenFOAM at '',
        ''every one of four pass counts (tests/interfoam_curvature_vs_openfoam.sh) -- and its '',
        ''call sites were wrong: at the top of each alpha corrector instead of the bottom, '',
        ''absent from createFields, and absent from the mixture.correct() between the '',
        ''sub-cycle and UEqn. Fixing those took capillaryRise from 24.9% to 12.8%.'']\<close>

definition inf_interFoam_interfaceProperties :: component where [manifest_rows]:
  \<open>inf_interFoam_interfaceProperties =
     [(''name'', PStr ''interFoam_interfaceProperties''),
      (''of_symbol'', PStr ''interfaceProperties''),
      (''of_file'', PStr ''src/transportModels/interfaceProperties/interfaceProperties.C''),
      (''classification'', PStr ''MODEL''),
      (''status'', PStr ''REIMPLEMENT''),
      (''brae_reference'', PStr ''src/transportModels/interfaceProperties/interface_properties_cpp.cuh''),
      (''brae_target'', PStr ''src/transportModels/interfaceProperties/device_interface_properties.cu''),
      (''validation'', PStr inf_interFoam_interfaceProperties_validation),
      (''note'', PStr inf_interFoam_interfaceProperties_note)]\<close>

definition inf_interFoam_twoPhaseMixture :: component where [manifest_rows]:
  \<open>inf_interFoam_twoPhaseMixture =
     [(''name'', PStr ''interFoam_twoPhaseMixture''),
      (''of_symbol'', PStr ''twoPhaseMixture''),
      (''of_file'', PStr ''src/transportModels/twoPhaseMixture/twoPhaseMixture/twoPhaseMixture.C''),
      (''classification'', PStr ''MODEL''),
      (''status'', PStr ''REIMPLEMENT''),
      (''brae_reference'', PStr ''src/transportModels/twoPhaseMixture/two_phase_mixture_cpp.cuh''),
      (''brae_target'', PStr ''src/transportModels/twoPhaseMixture/device_two_phase_mixture.cu''),
      (''validation'', PStr ''rho and mu as alpha-weighted blends, against OpenFOAM\'s own fields at iteration 1.''),
      (''note'', PStr ''Field plumbing rather than new numerics: rho = alpha1*rho1 + (1-alpha1)*rho2, same for mu.'')]\<close>

definition inf_interFoam_immiscibleMixture_of_file :: string where
  \<open>inf_interFoam_immiscibleMixture_of_file = ''src/transportModels/immiscibleIncompressibleTwoPhaseMixture/immiscibleIncompressibleTwoPhaseMixture.C''\<close>

definition inf_interFoam_immiscibleMixture_note :: string where
  \<open>inf_interFoam_immiscibleMixture_note = lit [
        ''Joins twoPhaseMixture and interfaceProperties into the one object interFoam.C holds -- '',
        ''AND THE ORDER IT JOINS THEM IN IS PART OF THE ANSWER. correct() is calcNu() THEN '',
        ''interfaceProperties::correct() (immiscibleIncompressibleTwoPhaseMixture.H:78-82), and at '',
        ''a contact-angle wall the second call rewrites alpha\'s patch gradient and so its patch '',
        ''value. Three things follow, all measured on capillaryRise against tools/dumpInterFoam '',
        ''and together the whole of the 0.7% that case carried: (1) the boundary viscosity is '',
        ''blended BEFORE the curvature pass; brae did it after, and UEqn.A() was exact in every '',
        ''cell off the wall and 1.26% high in the air cells at it -- 0.2% of U after one step, '',
        ''before the contact line had moved a face. (2) `alpha2 = 1.0 - alpha1` (alphaEqn.H:151 '',
        ''and :223) is a whole-field assignment one line ABOVE mixture.correct(), so alpha2\'s '',
        ''PATCH values are one contact-angle pass older than alpha1\'s, and `rho == alpha1*rho1 + '',
        ''alpha2*rho2` blends the two: 7.4e-05 of rho*nu at the wall with 1 - alpha1, 1e-17 with '',
        ''the stale value carried (InterFields::alpha2Bnd on the host, deviceBoundaryRho on the '',
        ''device). (3) because the curvature pass has that side effect, the NUMBER of passes is '',
        ''part of the answer -- the gradient runs 7070.5, 8659.4, 9353.1, 9681.2 -- and the '',
        ''device\'s alpha-boundary hook ran the host\'s calculateK on every call, including the sub- '',
        ''step\'s reset of alpha1, which is not a mixture.correct(): five passes a step where '',
        ''OpenFOAM takes three, K 0.6% out at the contact line and U 1.9% out after ONE step. The '',
        ''hook is now two (DeviceInterAlphaHooks::refreshBoundary). damBreak has no contact angle, '',
        ''where calculateK has no side effect, and could see none of the three.'']\<close>

definition inf_interFoam_immiscibleMixture :: component where [manifest_rows]:
  \<open>inf_interFoam_immiscibleMixture =
     [(''name'', PStr ''interFoam_immiscibleMixture''),
      (''of_symbol'', PStr ''immiscibleIncompressibleTwoPhaseMixture''),
      (''of_file'', PStr inf_interFoam_immiscibleMixture_of_file),
      (''classification'', PStr ''MODEL''),
      (''status'', PStr ''REIMPLEMENT''),
      (''brae_reference'', PStr ''src/transportModels/twoPhaseMixture/two_phase_mixture_cpp.cuh''),
      (''brae_target'', PStr ''src/transportModels/twoPhaseMixture/device_two_phase_mixture.cu''),
      (''validation'', PStr ''Shares the twoPhaseMixture gate.''),
      (''note'', PStr inf_interFoam_immiscibleMixture_note)]\<close>

definition inf_interFoam_UEqn_validation :: string where
  \<open>inf_interFoam_UEqn_validation = lit [
        ''tests/test_inter_ueqn_cpp.cu, and end to end at 3.3e-06 relative in U on damBreak '',
        ''against real OpenFOAM. ON THE DEVICE, tests/test_device_inter_ueqn.cu: '',
        ''fvc::reconstruct pinned by its own identity -- reconstruct(V & Sf) == V to '',
        ''0.000e+00 on 2:1:0.5 cells, where the div-sign convention gives 2.5e+00 -- and '',
        ''bit-identical to the host on a non-uniform flux; the ddt bit-identical, with '',
        ''rho.oldTime() replaced by rho measured at exactly 1000.0x, the density ratio; '',
        ''and the p_rgh body force on a hydrostatic start 0.000e+00 in the bulk against '',
        ''1.96e+04 at the interface, which is what the formulation is FOR. mu = rho*nuEff '',
        ''is bit-identical too, and its FACE value is the product interpolated ONCE -- '',
        ''interpolating the two factors separately is 3.4e-03 where the right answer is '',
        ''1.0e-03. The device ASSEMBLY reuses gpu::assembleUEqn with rhoPhi and mu; that '',
        ''gained an optional fvm::ddt(rho,U) applied BEFORE relax(), and a relaxEquation '',
        ''flag so relax(1) still runs the diagonal-dominance clamp -- damBreak\'s '',
        ''fvSolution says `equations { ".*" 1; }` and skipping it there would differ '',
        ''from OpenFOAM on every shipped interFoam tutorial. '',
        ''THE ASSEMBLED MATRIX IS GATED WHOLE (tests/test_device_inter_ueqn_assembly.cu) '',
        ''against the host\'s assembleUEqn on a VoF state: off-diagonals and boundary '',
        ''coefficients bit-identical, the relaxed diagonal 1.1e-13 of 1.0e+06 and the '',
        ''source 5.8e-11 of 4.5e+05. Two things it measures that no solved field could: '',
        ''relax(1)\'s diagonal-dominance clamp MOVES the diagonal by 1.2e+03, so skipping '',
        ''relax at alpha == 1 is a different matrix; and passing rho for rho.oldTime() '',
        ''puts the ddt source 1000.0x out in exactly 64 of 512 cells -- one layer, the '',
        ''one the interface crossed. THE WHOLE PREDICTOR is gated there too: the '',
        ''reconstructed face force lands in the source to 1.2e-16 relative, negating it '',
        ''on the device moves the source by 2.00x the force exactly (a sign flip\'s '',
        ''signature), and the force is 15.4% of the final source -- so assembling and '',
        ''relaxing BEFORE adding it, which is what OpenFOAM does, is not cosmetic.'']\<close>

definition inf_interFoam_UEqn_note :: string where
  \<open>inf_interFoam_UEqn_note = lit [
        ''fvm::ddt(rho,U) + fvm::div(rhoPhi,U) + MRF.DDt(rho,U) + turbulence->divDevRhoReff(rho,U), '',
        ''with the momentum predictor\'s source reconstructed from surfaceTensionForce() - '',
        ''ghf*snGrad(rho) - snGrad(p_rgh). Assembly from pieces brae already had, EXCEPT two. '',
        ''(1) fvm::ddt(rho,U) puts rho on the diagonal and rho.oldTime() in the SOURCE '',
        ''(EulerDdtScheme.C:455-467); here those differ by the water/air ratio in every cell the '',
        ''interface crossed, so carrying one rho field is a 1000x error exactly at the interface. '',
        ''(2) the momentum source is a reconstructed FACE flux, not a cell gradient, and '',
        ''`solve(UEqn == R)` adds it with a PLUS where rhoSimpleFoam\'s twin carries the minus '',
        ''inside R. MRF, fvOptions and localEuler/CrankNicolson ddt are refused by name. `Gauss '',
        ''limitedLinear` on div(rhoPhi,U) was too, and runs now (interFoam_limitedLinear).'']\<close>

definition inf_interFoam_UEqn :: component where [manifest_rows]:
  \<open>inf_interFoam_UEqn =
     [(''name'', PStr ''interFoam_UEqn''),
      (''of_symbol'', PStr ''UEqn''),
      (''of_file'', PStr ''applications/solvers/multiphase/interFoam/UEqn.H''),
      (''classification'', PStr ''SHARED_NUMERICAL''),
      (''status'', PStr ''REIMPLEMENT''),
      (''brae_reference'', PStr ''src/applications/solvers/interFoam/inter_ueqn_cpp.cuh''),
      (''brae_target'', PStr ''src/applications/solvers/interFoam/device_inter_ueqn.cu''),
      (''validation'', PStr inf_interFoam_UEqn_validation),
      (''note'', PStr inf_interFoam_UEqn_note)]\<close>

definition inf_interFoam_pEqn_validation :: string where
  \<open>inf_interFoam_pEqn_validation = lit [
        ''tests/test_inter_peqn_cpp.cu covers the four parts that are interFoam\'s own; the '',
        ''laplacian, the solve and the non-orthogonal loop are shared machinery gated '',
        ''elsewhere. ON THE DEVICE, tests/test_device_inter_peqn.cu: all four bit-identical '',
        ''to the host, each beside its own wrong version on a fixture built to make that '',
        ''version wrong -- rAU = dt/rho so the interface carries a 1000x jump. Carrying '',
        ''snGrad(p_rgh) into phig moves it by 1.4e+02 of 1.3e+02; '',
        ''interpolate(rho)*interpolate(rAU) is 2.5e-01 where the true product is dt = '',
        ''1.0e-03 exactly, i.e. 250x; reconstruct without the rAUf division is 8.7e-01 out '',
        ''in U; and a constant ddtCorr coefficient instead of the limiter is 1.5e+02 of '',
        ''4.0e+02, while the real one is 0.000e+00 on every value-fixing patch. THE '',
        ''p_rgh MATRIX IS ASSEMBLED ON THE DEVICE TOO and gated as a MATRIX -- '',
        ''off-diagonals bit-identical, diagonal 1.7e-18 of 1.1e-02 and source 4.4e-16 of '',
        ''2.2e+00 -- with two arms a solved field could not show: fvMatrix::operator== is '',
        ''a PLUS (taking it as a minus moves the source by twice its own size, and still '',
        ''converges), and setReference DOUBLES the diagonal entry rather than replacing '',
        ''the row, touching no other cell. phiHbyA\'s two interFoam-only terms and '',
        ''pEqn.flux() are bit-identical to the host on both sides -- and dropping phig\'s '',
        ''BOUNDARY half moves fvc::div(phiHbyA) by 9.4e+01 of 1.9e+02, half the source, '',
        ''because `phiHbyA += phig` is a whole-surfaceScalarField operation and the '',
        ''divergence sums the boundary faces. On capillaryRise, where momentumPredictor '',
        ''is off, that is the only route surface tension has into the solution. '',
        ''ONE WHOLE PASS runs on the device (device_inter_pressure_step.cu, stages 1-4 '',
        ''reusing simpleFoam\'s pressurePredictor) and is gated against the host\'s '',
        ''pressureCorrector: p_rgh 4.0e-11 relative, U 1.6e-12, p rebuilt exactly. Two '',
        ''arms measure placements: dropping phig\'s boundary half moves the SOLVED p_rgh '',
        ''by 6.1e+05 of 1.2e+06 -- HALF the field, not just the flux -- and p is 0.000e+00 '',
        ''from p_rgh_solved + rho*gh against 1.2e+06 from the p_rgh the pass started '',
        ''with, which is the difference between rebuilding p and carrying it.'']\<close>

definition inf_interFoam_pEqn_note :: string where
  \<open>inf_interFoam_pEqn_note = lit [
        ''rAU = 1/UEqn.A(), phiHbyA, the p_rgh laplacian, then U and phi rebuilt. Four things '',
        ''are not shared with any other pressure corrector. (1) phig carries NO snGrad(p_rgh) '',
        ''where UEqn\'s source does -- the pressure gradient is explicit there and IMPLICIT '',
        ''here, and carrying it twice still converges, to the wrong balance at the interface. '',
        ''(2) ddtCorr is weighted by interpolate(rho*rAU), the PRODUCT interpolated once, not '',
        ''by interpolate(rho)*rAUf: rAU is of order dt/rho, so the two factors jump opposite '',
        ''ways across the interface and the rival form is 250x out there while agreeing '',
        ''exactly on any single-phase fixture. (3) the velocity correction divides by rAUf '',
        ''INSIDE reconstruct and multiplies by rAU outside -- identical for a uniform rAU, '',
        ''which is every easy fixture. (4) when p_rgh has no value-fixing patch, p is shifted '',
        ''AND p_rgh is rebuilt from the shifted p; damBreak\'s totalPressure atmosphere hides '',
        ''this, 8 shipped tutorials do not. '',
        ''THE SOLVE ITSELF WAS A SUBSTITUTION IN TWO WAYS, and on a VoF case it shows. brae ran '',
        ''PBiCGStab where every damBreak-family tutorial names `solver PCG; preconditioner DIC;`, '',
        ''and took relTol from p_rghFinal for all three correctors where pEqn.H:50 solves with '',
        ''p_rgh.select(pimple.finalInnerIter()) -- `p_rgh` (relTol 0.05) for the first two, '',
        ''`p_rghFinal` for the last (pimpleControlI.H:98-111). Both are fixed: brae::pcg is '',
        ''lduMatrix PCG + DICPreconditioner (gated in tests/test_pcg.cu), InterFields reads both '',
        ''entries with lduMatrix::solver\'s own defaults (tolerance 1e-6, maxIter 1000 -- brae had '',
        ''2000), a missing p_rghFinal is refused by name, and any other solver still runs '',
        ''PBiCGStab under a noticeApproximated that says it moves the stopping point, not just the '',
        ''cost. MEASURED on damBreak against real OpenFOAM, five fixed steps on the case\'s own '',
        ''solves: alpha 1.24e-08 -> 2.2337e-12, p_rgh 3.35e-06 -> 7.194e-10 relative, U 9.76e-06 '',
        ''-> 1.966e-08 relative, and the gate bounds tightened to 5e-11, 1e-8 and 4e-7 with them. '',
        ''Over ten adaptive steps alpha\'s over-1 excursion -- which is dt times this solve\'s '',
        ''continuity error -- went from 0.12-3.18x OpenFOAM\'s to 0.99-1.00x. Each half alone is '',
        ''not enough: PCG with the old relTol gave 0.73-4.90x, PBiCGStab with the per-corrector '',
        ''selection 1.98-18.41x. This is the lesson turbulentFlatPlate:kEpsilon taught about DILU: '',
        ''a substituted solver at the same tolerance does not only cost differently, it STOPS '',
        ''somewhere else. capillaryRise does not move (0.7%), so that gap is not this. (The device '',
        ''ran its own solver on p_rgh at this point; it takes the case\'s too now -- see the end '',
        ''of this note.) '',
        ''WHAT capillaryRise\'s 0.7% WAS, since it was not the solver: three defects in how the '',
        ''mixture meets a contact-angle wall (interFoam_immiscibleMixture) and one here. '',
        ''OpenFOAM\'s flux-conditional patches LOOK PHI UP when they update -- '',
        ''pressureInletOutletVelocity, inletOutlet, totalPressure all call '',
        ''lookupPatchField(phiName_) inside updateCoeffs -- and brae\'s are TOLD, through '',
        ''updateFromFlux, which interFoam never called. Every such face was therefore an OUTFLOW '',
        ''face for the whole run. capillaryRise\'s bottom inlet draws water IN, so its '',
        ''pressureInletOutletVelocity lost the two fixed tangential components and with them 2/3 '',
        ''muEff magSf deltaCoeffs of UEqn.A() in every cell of the bottom row: 5.33e+05 by that '',
        ''formula, 5.339e+05 measured against OpenFOAM\'s own UEqn.A() dump. It appears at step two '',
        ''because step one starts from rest. Fixed with pushFluxToPatches (at start-up, inside '',
        ''pressureCorrector between `phi = phiHbyA - p_rghEqn.flux()` and U\'s boundary evaluation, '',
        ''which is pEqn.H\'s order, and after the corrector loop for alpha\'s inletOutlet); the '',
        ''device had the same omission plus its own -- it never called '',
        ''deviceUpdatePressureInletOutletVelocity, so its inflow faces stayed zeroGradient -- and '',
        ''agreed with the host only while the host was wrong the same way. RESULT, '',
        ''tests/interfoam_capillaryrise_vs_openfoam.sh, five steps: U 2.8e-03 -> 2.1e-08 (0.7% -> '',
        ''5.0e-08 of |U|), alpha 4.6e-05 -> 4.6e-09, p_rgh 1.3e-04 -> 8.1e-08 relative, wall '',
        ''gradient 4.5e-05 -> 5.2e-09 of its peak, UEqn.A() to 4.3e-09 and the wall\'s rho*nu to '',
        ''1e-17; with every solve tightened the host is 5.5e-14 of |U| after one step. The gate\'s '',
        ''bound went 0.02 -> 1e-6 and it now checks alpha, p_rgh and the pressure corrector\'s '',
        ''terms wall-against-rest. damBreak moved too, the right way: alpha 2.23e-12 -> 1.30e-12, '',
        ''p_rgh 7.2e-10 -> 6.5e-10, U 2.0e-08 -> 1.5e-08. THE DEVICE now has a gate on this case, '',
        ''against OpenFOAM directly: 3.5e-08 with every solve tightened on both codes (2.2e-12 '',
        ''after one step), and 9.2e-04 at the case\'s own tolerances, which WAS its p_rgh solver '',
        ''stopping somewhere the case\'s PCG+DIC does not -- closed since, 4.8e-08. '',
        ''snGrad(rho) ON A PATCH WAS CARRIED HERE AS `LATENT` AND IT IS NOT SMALL. createFields.H '',
        ''builds rho from `alpha1*rho1 + alpha2*rho2`, so its patches are `calculated` and their '',
        ''snGrad() is the base class\'s, deltaCoeffs*(rho_b - rho_cell) (fvPatchField.C:220-223); '',
        ''brae took fvc::snGrad(rho) from a zeroGradient copy, which is 0 on every patch. On a '',
        ''fixedFluxPressure wall the term cancels through constrainPressure, and everywhere else '',
        ''on damBreak and capillaryRise alpha\'s patch value equals the cell\'s, so no shipped- '',
        ''tutorial gate could see it and this note said so. THE FIXTURE THAT SEES IT took two '',
        ''attempts, and the first is worth keeping: raising damBreak\'s water column to the '',
        ''atmosphere did NOT exercise the term -- brae already agreed to 3.6e-13 -- because the '',
        ''faces over the water turned out to be OUTFLOW (the patch fixes p_rgh, not p, so the '',
        ''column top sees the lower pressure) and OpenFOAM\'s own dumped boundary snGrad(rho) was '',
        ''`uniform 0`. What does it is the atmosphere\'s inletValue set to 1, so water enters over '',
        ''air cells: OpenFOAM\'s boundary snGrad(rho) is then 1.57e+05 on 19 of 46 faces, phig '',
        ''there is 1.66e-02 against a phiHbyA of 2.5e-06 -- four orders above everything else in '',
        ''the pressure source -- max|U| goes 0.19 -> 20 m/s in ONE step, and brae was 100% out in '',
        ''alpha, p_rgh and U from the second step on, with step two\'s alpha solve still exact '',
        ''(4.4e-13) and its first p_rgh solve 100% different. Fixed on both paths with rho\'s real '',
        ''patch values (rhoWithPatchValues; the device hands its own rhoBnd, which carries '',
        ''alpha2\'s one-pass-older patch values, to the interfaceForces hook, and a missing patch '',
        ''value is refused by name rather than defaulted to the cell\'s). Gated as the `inflow` '',
        ''profile of tests/interfoam_dambreak_vs_openfoam.sh, three steps: host alpha 1.3e-14, '',
        ''p_rgh 4.3e-11, U 6.1e-13; device 2.3e-14, 6.9e-10, 5.8e-10; every p_rgh and alpha '',
        ''iteration count OpenFOAM\'s; the water let in equal to 1e-12. Its control is on the '',
        ''ORACLE: OpenFOAM\'s own answer is 67x the standard case\'s whole velocity away from the '',
        ''standard case\'s, so agreeing with it cannot be had without the term. THREE STEPS ONLY, '',
        ''and the device\'s 6.9e-10 is why: it does not move when every solve is tightened on both '',
        ''codes, so it is not the tolerance ball, and device against host under tight solves is '',
        ''1e-12 after two steps and 7e-10 after three -- round-off growing 700x a step through a '',
        ''violent transient, where a formula difference would have appeared at full size in step '',
        ''two. At dt 1e-3 OpenFOAM\'s own alpha reaches 8 on this fixture; it is a probe for one '',
        ''term, not a flow. '',
        ''THE DEVICE NOW RUNS THE CASE\'S PCG WITH DIC TOO, and DIC did not have to be written. '',
        ''DICPreconditioner.C and DILUPreconditioner.C are the same two functions with `lower` '',
        ''replaced by `upper` -- same face order, same multiplication order, same divisions -- so '',
        ''the level-scheduled exact DILU the device already had IS DIC on a symmetric matrix. '',
        ''deviceDICPCG aliases lower to upper (a symmetric lduMatrix has no lower; '',
        ''lduMatrix::lower() returns upper) and tests/test_device_dic.cu holds it BIT-IDENTICAL, '',
        ''by memcmp, to a line-for-line transcription of DIC\'s loops, with the `lower` buffer '',
        ''deliberately filled with garbage. The solve arm is posed on the ITERATE at relTol 0.05, '',
        ''not the converged answer, on a fixture with interFoam\'s own 1000x coefficient jump: host '',
        ''and device both take 8 iterations and land 5.3e-16 apart, where Jacobi in the SAME CG '',
        ''loop takes 21 and lands 3.4e-03 away. (Its first fixture, a uniform laplacian on 315 '',
        ''cells, reached relTol 0.05 in ONE iteration, so \'the same iteration count\' compared 1 '',
        ''with 1; the gate now refuses a fixture that takes fewer than five.) THE SOLVER\'S OWN LOG '',
        ''IS NOW AN ORACLE: RunReport carries every p_rgh solve\'s initial residual, final residual '',
        ''and iteration count, and both OpenFOAM gates read OpenFOAM\'s `DICPCG: Solving for p_rgh` '',
        ''lines beside them. On capillaryRise and on damBreak, host and device, ALL FIFTEEN solves '',
        ''take OpenFOAM\'s iteration count (capillaryRise 1/22/165, 1/65/173, 1/43/177, 1/19/173, '',
        ''1/4/126), with step one\'s initial residuals to 1.3e-13. capillaryRise\'s device arm at '',
        ''the case\'s own tolerances went 9.2e-04 -> 4.8e-08 and its bound 2e-3 -> 1e-6, which is '',
        ''the host\'s; what is left on both is the last corrector\'s `tolerance 1e-07` ball, inside '',
        ''which two correct CG runs whose reductions sum in a different order land in different '',
        ''places. THAT LOG THEN FOUND A DEFECT NO FIELD GATE COULD SEE. On damBreak the third '',
        ''solve of step one was 1.7e-06 out in its initial residual with the first two exact (0, '',
        ''9.3e-14). totalPressure\'s updateCoeffs for a dimPressure field is p0 - '',
        ''0.5*rho_b*neg(phi_b)*|U_b|^2 (totalPressureFvPatchScalarField.C:118-127), run by the '',
        ''fvMatrix constructor inside fvm::laplacian with rho, phi and U looked up as PATCH '',
        ''fields. brae\'s class implements it and interFoam never called it, so damBreak\'s '',
        ''atmosphere sat at p0 for the whole run with no dynamic pressure on the faces drawing air '',
        ''in. Fixed on both paths (updatePressurePatchesFromVelocity, refusing by name a '',
        ''totalPressure patch with no rho patch values rather than defaulting rho to 1, which is '',
        ''the incompressible form). damBreak against OpenFOAM: alpha 1.30e-12 -> 3.6e-14, p_rgh '',
        ''6.5e-10 -> 8.6e-12, U 1.5e-08 -> 2.3e-11, step one\'s residuals 1.7e-06 -> 1.6e-13; '',
        ''bounds tightened to 1e-12, 2e-10 and 5e-10. That gate also has a DEVICE arm now, at the '',
        ''case\'s own tolerances -- what `brae_interFoam -device` runs -- held to the host\'s '',
        ''bounds.'']\<close>

definition inf_interFoam_pEqn :: component where [manifest_rows]:
  \<open>inf_interFoam_pEqn =
     [(''name'', PStr ''interFoam_pEqn''),
      (''of_symbol'', PStr ''pEqn''),
      (''of_file'', PStr ''applications/solvers/multiphase/interFoam/pEqn.H''),
      (''classification'', PStr ''SHARED_NUMERICAL''),
      (''status'', PStr ''REIMPLEMENT''),
      (''brae_reference'', PStr ''src/applications/solvers/interFoam/inter_peqn_cpp.cuh''),
      (''brae_target'', PStr ''src/applications/solvers/interFoam/device_inter_peqn.cu''),
      (''validation'', PStr inf_interFoam_pEqn_validation),
      (''note'', PStr inf_interFoam_pEqn_note)]\<close>

definition inf_interFoam_smoothSolver_validation :: string where
  \<open>inf_interFoam_smoothSolver_validation = lit [
        ''THREE LINKS, EACH MEASURED. (1) THE SWEEP against OpenFOAM\'s own numbers: '',
        ''tests/gs_ladder.cu used to carry its own inline transcription of '',
        ''symGaussSeidelSmoother.C, which proved that THAT copy was OpenFOAM\'s; its LEG 1 and LEG '',
        ''3 now call brae::gaussSeidelSmoothFolded, the function the host solver runs, and hold it '',
        ''to OpenFOAM\'s residual after exactly n sweeps for n = 1..10 on T3A\'s real momentum '',
        ''system -- symGaussSeidel 8.0e-13, GaussSeidel 1.7e-13. (2) THE LOOP, '',
        ''tests/test_smooth_solver_cpp.cu: nIterations counts SWEEPS and the residual is evaluated '',
        ''once per nSweeps, so `nSweeps 2; maxIter 5` runs SIX; a negative nSweeps is a fixed '',
        ''count that reports NO residual; minIter forces a converged system through the loop; a '',
        ''mesh out of OpenFOAM\'s upper-triangular face order is refused, not smoothed. Its oracle '',
        ''is the device\'s deviceSymGaussSeidel in LEVEL-SCHEDULED mode: same sweep count on four '',
        ''solves (13, 94, 28, 187) and iterates 0.000e+00 apart -- bit-identical after 187 sweeps '',
        ''from two implementations that share no loop. THE FIRST DRAFT OF THAT ARM COMPARED A HOST '',
        ''SWEEP WITH A HOST SWEEP: deviceSymGaussSeidel\'s DEFAULT is to run the sweep on the CPU '',
        ''(faster on these meshes), so 0.000e+00 was true and said nothing. The gate now selects '',
        ''the device loop before the first solve and ASSERTS it got it, through '',
        ''deviceGaussSeidelUsesHostSmoother(). Its control: at relTol 0.05 PBiCGStab\'s iterate is '',
        ''3.3 away from this solver\'s from the same initial residual. (3) END TO END, '',
        ''tests/interfoam_dambreak_vs_openfoam.sh, against OpenFOAM\'s `smoothSolver: Solving for '',
        ''alpha.water` log lines, host AND device: every sweep count equal, and at dt 5e-3 '',
        ''(OpenFOAM\'s counts 0, 5, 2, 2, 2) the FINAL residuals to 9.1e-10 on the host and 5.0e-09 '',
        ''on the device, with a PBiCGStab control that gets two counts of five and is 100% out. '',
        ''WHAT IT DOES NOT CLAIM: coupled interfaces. The smoothers\' '',
        ''initMatrixInterfaces/updateMatrixInterfaces calls have nothing to do in a serial run '',
        ''with no coupled patch, and the host transcription omits them; a processor or cyclic '',
        ''patch is not covered.'']\<close>

definition inf_interFoam_smoothSolver_note :: string where
  \<open>inf_interFoam_smoothSolver_note = lit [
        ''Ported because interFoam\'s MULESCorr pre-solve names `solver smoothSolver; smoother '',
        ''symGaussSeidel;` in every tutorial that sets MULESCorr and the host ran DILU-PBiCGStab '',
        ''in its place, under a notice. The device already had OpenFOAM\'s (deviceSymGaussSeidel); '',
        ''the host did not. THREE THINGS TO GET RIGHT, none visible in a converged field: the '',
        ''reverse half of symGaussSeidel does NOT distribute -- it gathers off the bPrime the '',
        ''forward half LEFT (symGaussSeidelSmoother.C:192); nIterations counts sweeps, '',
        ''`(nIterations += nSweeps) < maxIter`; and the loop\'s residual is lduMatrix::residual '',
        ''(lduMatrixATmul.C:268), which starts from source - diag*psi and subtracts the off- '',
        ''diagonals face by face -- NOT b - A.psi. That last one is invisible until the solve ends '',
        ''at round-off: on damBreak the smoother stops at 1e-14, where the rounding IS the '',
        ''residual, and with OpenFOAM\'s operation order transcribed the host reproduces its final '',
        ''residuals to four digits there (6.835e-15, 1.202e-14, 1.851e-14, 2.067e-14). THE END-TO- '',
        ''END ARM TAUGHT ITS OWN LESSON ABOUT FIXTURES. At the gate\'s dt 1e-4 the alpha system is '',
        ''so diagonally dominant (Co ~ 1e-3) that every solver lands on the exact solution in ONE '',
        ''iteration: the PBiCGStab control read 2.6e-03 from OpenFOAM\'s final residuals, right '',
        ''beside the device\'s honest 1.5e-03, so the arm could not tell solvers apart and would '',
        ''have certified either. The gate now runs a second profile at dt 5e-3, where the '',
        ''interface moves 0.69 and the solve is real, and asserts the solver-log arms only there. '',
        ''The fields hold on that profile too: alpha 1.2e-12 and p_rgh 1.3e-12 relative on both '',
        ''paths, U 4.3e-12 on the host and 8.5e-12 on the device.'']\<close>

definition inf_interFoam_smoothSolver :: component where [manifest_rows]:
  \<open>inf_interFoam_smoothSolver =
     [(''name'', PStr ''interFoam_smoothSolver''),
      (''of_symbol'', PStr ''smoothSolver''),
      (''of_file'', PStr ''src/OpenFOAM/matrices/lduMatrix/solvers/smoothSolver/smoothSolver.C''),
      (''classification'', PStr ''SHARED_NUMERICAL''),
      (''status'', PStr ''REIMPLEMENT''),
      (''brae_reference'', PStr ''src/OpenFOAM/matrices/smooth_solver_cpp.cuh''),
      (''brae_target'', PStr ''src/matrices/lduMatrix/preconditioners/GAMGPreconditioner/device_amg_gauss_seidel.cu''),
      (''validation'', PStr inf_interFoam_smoothSolver_validation),
      (''note'', PStr inf_interFoam_smoothSolver_note)]\<close>

definition inf_interFoam_turbulence_of_file :: string where
  \<open>inf_interFoam_turbulence_of_file = lit [
        ''src/phaseSystemModels/twoPhaseInter/incompressibleInterPhaseTransportModel/'',
        ''incompressibleInterPhaseTransportModel.C'']\<close>

definition inf_interFoam_turbulence_validation :: string where
  \<open>inf_interFoam_turbulence_validation = lit [
        ''tests/interfoam_ras_dambreak_vs_openfoam.sh, real OpenFOAM on RAS/damBreak, five fixed steps of '',
        ''1e-3, THREE PROFILES. `variable` is the tutorial as shipped; `uniform` is the same case without '',
        ''`density variable` (and with div(phi,k) for div(rhoPhi,k), which OpenFOAM then requires); '',
        ''`custom` is uniform with its own kEpsilonCoeffs, equation relaxation 0.7, and a solver tolerance '',
        ''of 0.5 so that `minIter 1` is what forces each sweep. MEASURED, worst of the three: alpha '',
        ''4.9e-13, p_rgh 7.1e-13, U 1.3e-11, k 2.8e-13, epsilon 2.4e-13, nut 4.8e-13, and EVERY p_rgh, '',
        ''alpha, epsilon and k solve takes OpenFOAM\'s iteration count (15+5+5+5 per profile) with initial '',
        ''residuals to 1.8e-13. CONTROLS ON THE ORACLE: OpenFOAM run laminar is 133% of U away, its other '',
        ''lineage 29%, the custom settings 3.7%. WHAT EACH PROFILE CAN SEE was measured by breaking one '',
        ''decision at a time, once, with temporary switches that are not in the tree. On `variable`: '',
        ''validate() called in the wrong lineage 29% of U; rho.oldTime() taken as the current rho 5.6%; '',
        ''divU from the mass flux 53%; inletOutlet handed rhoPhi where it looks up phi 4.9e-04; PBiCGStab '',
        ''for the case\'s symGaussSeidel 1 of 5 iteration counts and 2.7e-06. On `variable`, ignoring '',
        ''minIter and ignoring the `".*" 1` relaxation change NOTHING, to the last digit -- which is why '',
        ''`custom` exists: there, ignoring minIter is 14% of U and 0 of 5 epsilon counts, ignoring the '',
        ''relaxation 2.2%, the coefficients 3.5% (sigmak/sigmaEps alone 0.3%, C3 alone 1.2e-08 of epsilon '',
        ''because divU is nearly zero). The staging asserts OpenFOAM\'s custom log holds a solve whose '',
        ''initial residual is under 0.5 and still reads one iteration. tests/interfoam_refusals.sh holds '',
        ''16 turbulence arms on RAS/damBreak itself. THE DEVICE LOOP RUNS EVERY PROFILE TWICE. With the '',
        ''device closure -- what `-device` runs -- against OpenFOAM at the HOST\'s bounds: worst of the '',
        ''three alpha 4.9e-13, p_rgh 7.1e-13, U 3.3e-11, k 2.8e-13, epsilon 2.5e-13, nut 4.8e-13, every '',
        ''iteration count OpenFOAM\'s. And with the HOST closure in its place inside the same device loop '',
        ''(BRAE_INTER_HOST_CLOSURE, announced every run), held to the first: U 3.3e-14, k 1.1e-15, epsilon '',
        ''1.6e-15, nut 1.9e-15, the same sweep counts solve for solve. Against OpenFOAM a disagreement '',
        ''could be the loop\'s or the closure\'s; between those two it can only be the closure\'s. Each arm '',
        ''asserts WHICH closure it ran (RunReport::turbulenceOnDevice). THE DEVICE-SIDE DECISIONS were '',
        ''each broken once, as the host\'s were: the patches handed rhoPhi for phi 4.9e-04 of U; the wall '',
        ''nut recomputed instead of read from the stored patch 6.1e-06; rho.oldTime() taken as rho 5.6%; '',
        ''divU from the mass flux 53%; BiCGStab for symGaussSeidel 1 of 5 epsilon counts; on `custom`, '',
        ''minIter ignored 14% and the wall laplacian coefficient left out of relax() 1.1e-04 of every '',
        ''epsilon residual with the fields unmoved. NOT VISIBLE on these fixtures, and so not claimed: the '',
        ''closure\'s storedIoSeed (the case starts at rest with inletValue equal to the internal field; '',
        ''switching it off changes no digit). WHAT IT DOES NOT CLAIM: any nut wall function but nutk (nutU '',
        ''and nutLowRe are accepted because the shared closure gates them under rhoSimpleFoam, not here); '',
        ''kMin/epsilonMin, which bound() never reaches on this case; a non-orthogonal mesh; more than one '',
        ''outer corrector with the closure on.'']\<close>

definition inf_interFoam_turbulence_note :: string where
  \<open>inf_interFoam_turbulence_note = lit [
        ''nut = Cmu*sqr(k)/epsilon DOES NOT REACH a fixedValue or mixed patch (their operator= is empty); correctBoundaryConditions then evaluates them. brae wrote Cmu*k^2/epsilon there: on RAS/mixerVesselAMI\'s fixedValue gasInlet 1.29e-03 where OpenFOAM keeps 0, U 2.7e-03 after one step. AN inletOutlet nut, under kEpsilon and kOmegaSST alike, is EVALUATED after the assignment against the flux (Compressible::nutPhi), inflow faces taking the inletValue: brae wrote Cmu*k_b^2/epsilon_b there (kEpsilon) or left the patch stale (kOmegaSST, which already skipped fixedValue) -- measured U 2.7e-03 on RAS/damBreak `nutAtmosphere` and nut 8.5e-04 on waterChannel `nutPatches`; a caller with no flux is refused by name, and so is the device closure. kOmegaSST ALSO SKIPPED every other non-calculated patch (zeroGradient, symmetry, slip, coupled): they kept the value they were built with; they are now evaluated as correctBoundaryConditions does -- measured U 8.7e-05 with waterChannel\'s inlet nut zeroGradient, 3.8e-12 after (`nutInletZeroGrad`). kEpsilon ON A MOVING MESH: V0 in the ddt source and divU from the absolute flux (kEpsilon.C:232-235), not discriminated by the rigid rotation that gates it. '',
        ''incompressibleInterPhaseTransportModel IS TWO MODELS BEHIND ONE KEYWORD, and brae\'s own refusal '',
        ''message had it wrong. It said interFoam\'s turbulence `selects a MIXTURE model and hands it the '',
        ''blended rho -- not the single-phase model brae already has`; that was written from memory. The '',
        ''source (incompressibleInterPhaseTransportModel.C:46-110): with `density` absent or `uniform` -- '',
        ''15 of the 17 turbulent tutorials -- it builds incompressible::turbulenceModel::New(U, phi, '',
        ''mixture), the ORDINARY model, and calls validate(); with `density variable` (RAS/damBreak, '',
        ''laminar/damBreakPermeable) it builds phaseIncompressibleTurbulenceModel::New(rho, U, rhoPhi, '',
        ''phi, mixture) and does NOT call validate(). So the variable lineage\'s first UEqn runs on the '',
        ''case file\'s nut (uniform 0) where the other has 9e-03 from k = epsilon = 0.1, and the fvSchemes '',
        ''KEY differs too: div(rhoPhi,k) against div(phi,k). brae already had the closure for both -- '',
        ''kEpsilonRef::correct\'s `Compressible` struct is OpenFOAM\'s one templated kEpsilon.C read with '',
        ''rho, a field nu, the mass flux for div and the volumetric one for divU -- so the port is what it '',
        ''is HANDED, in inter_turbulence_cpp.cu. Both lineages take the MIXTURE\'s nu, a field. UEqn takes '',
        ''rho*nuEff with nuEff = nut + nu on cells and on every patch. turbulence->correct() runs after '',
        ''the last pressure corrector of the final outer corrector (interFoam.C:169-172, '',
        ''pimpleControl.C:51-52), where fvMatrix::solve() AND fvMatrix::relax() both select the Final '',
        ''name, so kFinal/epsilonFinal are the entries read and `turbOnFinalIterOnly no` with more than '',
        ''one outer corrector is refused. THREE THINGS THE CLOSURE NEEDED. (1) The case\'s linear solver: '',
        ''it hardwired PBiCGStab, and every kEpsilon tutorial names smoothSolver/symGaussSeidel -- the '',
        ''fourth time in this port a substituted solver at the same tolerance stopped somewhere else. (2) '',
        ''Compressible::bcPhi: inletOutlet looks up the registry\'s `phi`, which in rhoSimpleFoam is the '',
        ''equation\'s own mass flux and in this lineage is NOT (the equation convects with rhoPhi). A sign '',
        ''argument -- rho_b > 0 -- says it cannot matter, and that argument went into the header before it '',
        ''was measured. It is wrong: rhoPhi is the ALPHA step\'s flux, built from the phi the time step '',
        ''STARTED on, and the pressure correctors move phi afterwards. Counted at step one of '',
        ''RAS/damBreak, which starts at rest: rhoPhi is exactly 0 on all 46 atmosphere faces while phi is '',
        ''not, so every one of them reads as outflow. 4.9e-04 of U after five steps, host and device '',
        ''alike. (3) A DEFECT IN THE SHARED CLOSURE, found by the `custom` profile: epsilon agreed with '',
        ''OpenFOAM to 1e-13 while every initial and final residual of its solve sat 1.1e-04 away, only '',
        ''under relaxation, only for epsilon. OpenFOAM\'s epsilonWallFunction is a fixedValue patch, so at '',
        ''relax() its faces carry the laplacian\'s coefficient ic and the diagonal becomes max(|D0 + ic|, '',
        ''sumOff)/alpha - ic; brae maps the patch to zeroGradient and got D0/alpha. setValues pins exactly '',
        ''those rows next, so the solution cannot see it, but the diagonal survives into normFactor and a '',
        ''residual is what the stopping rule reads. Fixed in the host reference: 1.1e-04 -> 4.6e-14, and '',
        ''then in the device twin kEpsilon.cu, measured the same way from the device loop: 1.1e-04 -> '',
        ''5.3e-14. STILL OPEN, and not measured: neither kOmegaSST closure carries the term -- '',
        ''omegaWallFunction has the same fixedValue base class '',
        ''(omegaWallFunctionFvPatchScalarField.H:88-90), so the same term is expected there, which is a '',
        ''lead and not a measurement. It moves a residual by 1e-04, so it can matter only where a solve '',
        ''stops within 1e-04 of its tolerance; rhoSimpleFoam\'s kEpsilon gates, which relax at 0.7, pass '',
        ''with and without it. TWO LATENT SUBSTITUTIONS THE TURBULENCE REFUSAL HAD BEEN HIDING, found by '',
        ''asking what else would run once it lifted. `ddtSchemes default` was parsed into f.ddtU and '',
        ''handed to nobody, so CrankNicolson (floatingObject) and localEuler (DTCHull) would have run as '',
        ''Euler: now refused in buildInterFields. And laplacianSchemes/snGradSchemes were never opened: '',
        ''brae assembles the pressure laplacian and its three snGrads orthogonal while 28 of 44 tutorials '',
        ''say `corrected` or `limited`. On a mesh of rectangles that is not a substitution (the correction '',
        ''vector is zero; it is why damBreak agrees to 1e-12 under `Gauss linear corrected`); on any other '',
        ''it is, so a corrected scheme on a mesh more than 1e-10 off orthogonal is refused, and the '',
        ''refusals gate shears damBreak six degrees to prove both sides. `minIter` is honoured for k and '',
        ''epsilon and REFUSED for the alpha pre-solve and the momentum predictor, which drop it (three '',
        ''tutorials name it for alpha). THE CENSUS CAUGHT ITS OWN DEFECT: run with blockMesh alone it '',
        ''showed damBreakLeakage and damBreakPorousBaffle reaching End, on meshes without the baffles '',
        ''their Allrun creates. Prepared by their own Allrun utilities both are refused '',
        ''(porousBafflePressure by name; the leakage case in the mesh reader, on a cyclicACMI `coded` '',
        ''block -- a refusal, but not a named one). 33 tutorials prepare cleanly: 3 reach End and all 3 '',
        ''are gated; waves 9, moving meshes 12. ON THE DEVICE IN TWO STEPS, one module at a time. First '',
        ''the device loop with the HOST closure -- nuEff into the device UEqn, and U, phi, rhoPhi, rho, '',
        ''rho.oldTime() and nu handed to the closure at the right instants -- which matched OpenFOAM at '',
        ''the host\'s numbers before any device closure ran. Then the closure\'s existing device twin '',
        ''(gpu::kEpsilonRAS::correct, gated under rhoSimpleFoam) in its place, fed by '',
        ''device_inter_turbulence.cu, which owns no arithmetic: the equation\'s flux is rhoPhi or phi by '',
        ''lineage, divU\'s and the patches\' flux is phi always, rho is the mixture\'s or a vector of ones, '',
        ''and rho\'s patch values are the device step\'s own blend. nut is added to the mixture\'s nu ON the '',
        ''device (DeviceInterStepControls::nutCell), so it never crosses to the host. The twin needed '',
        ''three things the host reference had been given: the patches\' flux (bcPhiBnd), whole-solve '',
        ''reporting for the log arm, and the wall coefficient in relax(). A nut wall function on a patch '',
        ''that is not a `wall` is refused on both paths, as OpenFOAM\'s nutWallFunction::checkType refuses '',
        ''it.'']\<close>

definition inf_interFoam_turbulence :: component where [manifest_rows]:
  \<open>inf_interFoam_turbulence =
     [(''name'', PStr ''interFoam_turbulence''),
      (''of_symbol'', PStr ''incompressibleInterPhaseTransportModel''),
      (''of_file'', PStr inf_interFoam_turbulence_of_file),
      (''classification'', PStr ''GPU_REQUIRED''),
      (''status'', PStr ''REIMPLEMENT''),
      (''brae_reference'', PStr ''src/applications/solvers/interFoam/inter_turbulence_cpp.cuh''),
      (''brae_target'', PStr ''src/applications/solvers/interFoam/device_inter_turbulence.cu''),
      (''validation'', PStr inf_interFoam_turbulence_validation),
      (''note'', PStr inf_interFoam_turbulence_note)]\<close>

definition inf_interFoam_kOmegaSST_validation :: string where
  \<open>inf_interFoam_kOmegaSST_validation = lit [
        ''tests/interfoam_dtchull_vs_openfoam.sh `ras` holds the closure\'s `Gauss linearUpwind '',
        ''limitedGrad` on k and omega over the NAMED `limitedGrad cellLimited Gauss linear 1` '',
        ''(RAS/DTCHull\'s own schemes, under localEuler): k 3.4e-12, omega 9.0e-12, nut 2.8e-11 after '',
        ''ten steps, every omega and k count OpenFOAM\'s; controls: the correction dropped k 9.6e-03, '',
        ''omega 1.7e-02 (OpenFOAM\'s own upwind-vs-linearUpwind difference to the digit), the named '',
        ''gradient unlimited k 2.3e-02, omega 2.6e-01. The DEVICE closure carries it too (`ras device`, measured when it staged the hull and the cache, '',
        ''the device transport\'s own correction over each equation\'s named cellLimited gradient): '',
        ''ten steps k 3.6e-10, omega 3.5e-10, nut 1.5e-10, every count OpenFOAM\'s; the same two '',
        ''controls on the device arm, three steps, k 9.6e-03 / omega 1.7e-02 and k 2.3e-02 / omega '',
        ''2.6e-01 -- the host arm\'s digits -- against a 1.7e-11 run. '',
        ''tests/interfoam_waterchannel_vs_openfoam.sh, real OpenFOAM on RAS/waterChannel AS SHIPPED '',
        ''(its own 28000-cell blockMesh + two extrudeMesh passes, non-orthogonal to 13.7 degrees), '',
        ''ten fixed steps of the tutorial\'s deltaT 0.1. MEASURED: all 20 p_rgh, 10 alpha, 10 omega and '',
        ''10 k iteration counts OpenFOAM\'s, initial residuals within 9.3e-13; alpha 7.9e-13, p_rgh '',
        ''7.6e-13, U 4.3e-12, k 2.4e-12, omega 3.9e-12, nut 3.5e-12, the wall\'s nut 9.2e-13 of its '',
        ''largest value; bounds at about 30x. THE CONTROL: OpenFOAM\'s own laminar run, 51% of U. THE '',
        ''PATH is asserted: the model, the uniform lineage, a wall distance in every cell, OpenFOAM\'s '',
        ''log selecting kOmegaSST and solving omega. BROKEN ONCE EACH (U, omega at t = 1): validate() '',
        ''skipped 5.1e-01, 1.7e-01; fvm::ddt dropped 3.8e-01, 2.2e+01 and 0 of 10 omega counts; the '',
        ''wall distance doubled 4.1e-04, 5.1e-01; PBiCGStab for the case\'s symGaussSeidel 1.7e-04, '',
        ''3.7e-02; water\'s nu as a scalar for the mixture\'s field 3.5e-05, 8.5e-03; the laplacian\'s '',
        ''non-orthogonal correction dropped 3.7e-07, 7.2e-04. NOT DISCRIMINATED, measured: the inline '',
        ''(value - cell)*deltaCoeffs for the patch\'s snGrad() on k, omega and the wall U (identical to '',
        ''the last digit), and relax() not called at the case\'s factor of 1. '',
        ''tests/interfoam_refusals.sh holds ten kOmegaSST arms on RAS/damBreak made kOmegaSST, on a '',
        ''base that runs. NOT CLAIMED, each refused by name: `density variable` with kOmegaSST (no '',
        ''tutorial pairs them), F3, decayControl, a wall-function blending other than binomial n = 2 '',
        ''or coefficients other than the defaults, any nut wall function but nutk, a convection '',
        ''scheme other than Gauss upwind; on a moving mesh, a wallDist '',
        ''updateInterval other than 1 (a missing `wallDist { method }`, which OpenFOAM stops on, and a '',
        ''method other than meshWave or correctWalls false are refused everywhere). ON A MOVING MESH '',
        ''(2026-09-19), tests/interfoam_moving_vs_openfoam.sh `pistonSST`: waves/waveMakerPiston made '',
        ''kOmegaSST, its paddle a wall and its top a patch, 30 steps of 0.01 against OpenFOAM, k and '',
        ''omega solved to 1e-12. MEASURED: k 8.6e-12, omega 2.4e-12, nut 3.0e-10, U 1.2e-10, alpha '',
        ''1.4e-12, every p_rgh, pcorr, k and omega count OpenFOAM\'s or one apart at an edge stop; '',
        ''bounds at about 30x. THE CONTROL: OpenFOAM\'s laminar piston, 1.9 of U. BROKEN ONCE EACH '',
        ''(nut, U): y from the wall patches instead of the shared wallDist 6.4e-01, 2.3e-02; fvm::ddt\'s '',
        ''old volumes dropped 2.0e-03, 3.6e-05; divU from the relative flux 4.8e-03, 4.5e-05; y not '',
        ''recomputed after the motion 9.5e-04, 1.7e-05. THE SHARED wallDist: MeshObject::New finds an '',
        ''object by its type name alone, and the motion solver\'s inverseDistance diffusivity '',
        ''registers `wallDist` over ITS patches before the turbulence model is built, so under '',
        ''displacementLaplacian kOmegaSST\'s y is the distance to the diffusivity\'s patches -- on the '',
        ''piston 0.01, 0.03, 0.05 away from the paddle and 1.01 at x = 1, over a bottom wall 0.0025 '',
        ''below; OpenFOAM\'s own static run, which builds no such object, gives brae\'s wall-patch '',
        ''answer to every digit. brae mirrors it (InterTurbulence::wallDistPatchIDs). ON THE DEVICE '',
        ''(2026-09-20): device_inter_turbulence.cu\'s SST branch hands the closure rhoSimpleFoam gates '',
        ''(kOmegaSST.cuh) what the host\'s SST branch hands its reference -- the volumetric phi as the '',
        ''equation\'s flux and divU\'s, rho = 1 (`density variable` with kOmegaSST is refused), the '',
        ''mixture\'s nu, 1/deltaT, phi for nut\'s flux-conditional patches, the cell wall distance, the '',
        ''F1-one and nut-calculated masks, and the case\'s Final solver entry and relaxation. GATED as '',
        ''tests/interfoam_ras_dambreak_vs_openfoam.sh `sst`, RAS/damBreak made kOmegaSST (its nut '',
        ''atmosphere is `calculated`, which is what the device closure can run): host against OpenFOAM '',
        ''k 4.2e-13, omega 2.4e-13, nut 3.7e-12, every omega (45/9/8/7/7) and k (142/31/22/16/13) '',
        ''iteration count OpenFOAM\'s; THE DEVICE CLOSURE AGAINST THE HOST CLOSURE IN THE SAME DEVICE '',
        ''LOOP -- the module\'s own claim -- U 8.6e-13, k 1.2e-13, omega 6.6e-14, nut 9.5e-13, and with '',
        ''every solve tightened 1.4e-13 / 5.3e-15 / 7.8e-16 / 3.7e-14. Device against OpenFOAM is '',
        ''looser (k 4.4e-12, omega 3.1e-11, nut 1.7e-10, U 5.1e-11) and TIGHTENING DOES NOT MOVE IT: '',
        ''the device LOOP\'s U is about 5e-11 from OpenFOAM on the kEpsilon profiles too and nut carries '',
        ''it through k/omega and F2, so the `sst` bounds are that, at about 30x. BROKEN ONCE EACH '',
        ''(device closure against host closure): the wall distance replaced by 1 -- nut 4.3e-02; nut\'s '',
        ''`calculated` mask dropped 1.2e-01; the stored wall nut dropped 8.8e-05 of k. NOT '',
        ''DISCRIMINATED: the F1-one mask -- dropping it changes no digit on this fixture, where F1 '',
        ''evaluates to 1 on those faces anyway. AN INLETOUTLET nut RUNS ON THE DEVICE TOO (2026-09-20): '',
        ''nut carries its own DeviceBoundary and deviceCorrectInterTurbulence evaluates the '',
        ''flux-conditional faces after the closure, where the host closure does -- '',
        ''deviceUpdateInletOutlet\'s valueFraction = neg(phi), then deviceBCValue, copied onto the '',
        ''ioMask faces alone so a wall function\'s or a `calculated` patch\'s value is untouched. Gated as '',
        ''tests/interfoam_ras_dambreak_vs_openfoam.sh `nutAtmosphere` on BOTH closures: device against '',
        ''OpenFOAM alpha 5.3e-15, U 2.0e-13, k 2.1e-15, epsilon 2.9e-15, nut 2.7e-15, and the device '',
        ''closure against the host closure 1.5e-15 of nut; without the evaluation nut is 4.7e-02 out and '',
        ''U 2.7e-03. THE DEVICE GAMG NOW CARRIES OpenFOAM\'s OTHER SMOOTHERS (2026-09-20): GaussSeidel, '',
        ''DICGaussSeidel and symGaussSeidel, each one smoothLevel() running nSweeps of '',
        ''deviceSymGaussSeidelSweepExact (the forward-then-reverse walk gated bit-for-bit against the '',
        ''host) after DIC\'s half where the name asks for it, at all three V-cycle sites. Gated as '',
        ''tests/interfoam_gamg_vs_openfoam.sh: the three Gauss-Seidel profiles\' device arms take '',
        ''OpenFOAM\'s OWN iteration counts, 40 of 40 p_rgh solves and every coarsest count, initial '',
        ''residuals within 2.3e-10, alpha 2.1e-12 / 2.6e-12 / 3.2e-12. BROKEN ONCE EACH: the two '',
        ''Gauss-Seidel variants swapped 1.1e-02 and 4.1e-03; DIC\'s half dropped from DICGaussSeidel '',
        ''2.5e-02 (and correctly no digit on the plain `gaussSeidel` profile). A `DILU` smoother on a '',
        ''symmetric matrix is still refused by name (interfoam_refusals `device_gamg_smootherDILU`). '',
        ''WHAT LIFTING THAT REFUSAL EXPOSED: RAS/waterChannel\'s U outlet is a plain inletOutlet, and '',
        ''OpenFOAM\'s updateCoeffs sets its valueFraction from the flux sign at EVERY momentum assembly '',
        ''while the device loop assembles the switch U\'s boundary was built with -- measured U 8.9e-02, '',
        ''nut 8.7e-01 against OpenFOAM where the host loop on the same case is 4.3e-12, with alpha exact '',
        ''to 5.3e-15 at step 1, every solve tightened on both codes, the HOST closure in the device loop '',
        ''still 8.5e-01 of nut, and 1.1e-02 of U with the schemes forced orthogonal -- so neither the '',
        ''closure, the stopping point nor the non-orthogonal correction. PORTED (2026-09-20), and it took '',
        ''TWO fixes, each localised with the host closure run inside the device loop. (1) The io switch: '',
        ''deviceUpdateInletOutlet(dbU, phiBnd) now runs at all three sites device_inter_step.cu rebuilds '',
        ''dbU, before the piov switch, in the order rhoSimpleFoam\'s device arm takes them '',
        ''(rhoUEqn.cuh:72-79), and once on the state the run starts from. (2) nut\'s boundary: the device '',
        ''closure evaluated its flux-conditional faces ONLY, where the host closure evaluates every patch '',
        ''that is not a `wall`, not `empty` and not `calculated` (kOmegaSST_cpp.cu:946-984) -- so a '',
        ''zeroGradient nut inlet kept the value it was built with, U 1.9e-05 and nut 5.5e-06 from '',
        ''OpenFOAM where the host closure in the same loop is 2.3e-12. A coupled nut patch is refused '',
        ''there by name, because buildDeviceBoundary drops it and the per-face evaluate would read past '',
        ''the end. GATED: tests/interfoam_waterchannel_vs_openfoam.sh runs all three profiles on the '',
        ''device at the HOST\'s own bounds -- worst of the three, alpha 2.8e-12, p_rgh 2.6e-12, U 5.9e-12, '',
        ''k 3.3e-12, omega 4.7e-12, nut 3.5e-12, and all 20 p_rgh iteration counts OpenFOAM\'s, which is '',
        ''the device GAMG GaussSeidel smoother taking OpenFOAM\'s counts on a real case. Four device '',
        ''modules meet on this fixture: kOmegaSST, nut\'s boundary, U\'s inletOutlet and the smoother. '',
        ''PROFILE oneCorrector, both arms: the atmosphere\'s U an inletOutlet in place of '',
        ''pressureInletOutletVelocity and `nCorrectors 1`, twenty steps of 0.01 -- the one shape where '',
        ''OpenFOAM\'s updated_ lag (the first corrector\'s evaluate keeps the assembly\'s valueFraction, '',
        ''mixedFvPatchField.C:234-237) is the step\'s LAST evaluate, so the closure and the next assembly '',
        ''read it; 708 of the 1400 atmosphere faces have flipped by the end. MEASURED: alpha 1.1e-12, '',
        ''p_rgh 3.5e-12, U 5.3e-12, k 9.4e-14, omega 1.8e-12, nut 6.1e-13, all 20 counts. THREE '',
        ''DEFECTS FOUND, each exact at step 1 and off at step 2, each on ONE arm: the host pushed the '',
        ''new flux to U\'s patches after the corrector loop, so kOmegaSST\'s grad(U) read inletOutlet\'s '',
        ''snGrad() with a switch OpenFOAM\'s patch had not moved yet (UEqn.A 3.2e-02 in the atmosphere '',
        ''cells, U 2.7e-05, nut 2.4e-03; laminar twin 8.9e-12); the device\'s io switch at the '',
        ''corrector\'s end read the new flux where the host lagged it (U 2.7e-05, nut 3.0e-01); and the '',
        ''device\'s boundary gradient took an inletOutlet face\'s snGrad as (stored value - cell)*dc '',
        ''where the class is MIXED and the switch is its valueFraction (laminar U 6.2e-09, HbyA.z '',
        ''6.7e-07 in the atmosphere cells). CONTROL: OpenFOAM laminar against kOmegaSST, U 4.3e-03. '',
        ''NOT DISCRIMINATED by any shipped profile: nCorrectors 2 re-evaluates every patch with the '',
        ''moved switch before anything reads it.'']\<close>

definition inf_interFoam_kOmegaSST_note :: string where
  \<open>inf_interFoam_kOmegaSST_note = lit [
        ''WIRING, not a new closure: kOmegaSST_cpp.cu is the reference rhoSimpleFoam and simpleFoam already '',
        ''gate, handed what incompressible::turbulenceModel::New(U, phi, mixture) hands OpenFOAM\'s -- the '',
        ''mixture\'s nu as a field, the volumetric phi, 1/deltaT for fvm::ddt, wallDist\'s cell y -- by '',
        ''inter_turbulence_cpp.cu. The reference gained the case\'s linear solver (it ran PBiCGStab '',
        ''whatever the case named) and the two solves\' full records. THREE SHARED DEFECTS THE CASE FOUND. '',
        ''(1) pressureInletOutletVelocity::snGrad() returned (stored value - cell)*deltaCoeffs where '',
        ''OpenFOAM\'s directionMixed builds it from the valueFraction and the cell and never reads the '',
        ''stored value: at construction waterChannel\'s atmosphere holds the file\'s (0 0 0) over cells at '',
        ''(1 0 0), correctNut read a shear of 1/d there and wrote nut 3.7e-05 for OpenFOAM\'s k/omega = '',
        ''3.33e-02 -- the patch 100% out, the run\'s FIRST p_rgh residual 7.1e-03, and at t = 1 U 3.5e-03, '',
        ''omega 4.0e-02, nut 2.3e-01. Localised by running the same case laminar (already 6e-13) and then '',
        ''comparing the constructed nut, patch by patch, with `interFoam -postProcess -func '',
        ''writeObjects(nut)`; tests/test_piov_sngrad.cu holds it. (2) The per-field div scheme parser '',
        ''searched fvSchemes for the literal key, and the case names its scheme through a pattern, '',
        ''`"div'',
        [bslash],
        ''(phi,(k|omega)'',
        [bslash],
        '')" Gauss upwind;` -- refused as having no div(phi,k); now the literal '',
        ''key, else the last matching pattern, as the dictionary lookup does (tests/test_scheme_blocks.cu). '',
        ''(3) kOmegaSST_cpp took three boundary gradients inline instead of from the patch; switched to '',
        ''snGrad(), which changes nothing on any gated case. ALSO: kOmegaSST_cpp.cuh says decayControl is '',
        ''refused and nothing read the key; interFoam\'s reader does now. The closure keys both wall '',
        ''functions on the MESH patch type, so the reader holds every `wall` patch to nutkWallFunction '',
        ''and omegaWallFunction and every other patch to neither. HOST ONLY SO FAR: the device loop '',
        ''refuses by name, first among its refusals.'']\<close>

definition inf_interFoam_kOmegaSST :: component where [manifest_rows]:
  \<open>inf_interFoam_kOmegaSST =
     [(''name'', PStr ''interFoam_kOmegaSST''),
      (''of_symbol'', PStr ''kOmegaSSTBase''),
      (''of_file'', PStr ''src/TurbulenceModels/turbulenceModels/Base/kOmegaSST/kOmegaSSTBase.C''),
      (''classification'', PStr ''GPU_REQUIRED''),
      (''status'', PStr ''REIMPLEMENT''),
      (''brae_reference'', PStr ''src/TurbulenceModels/turbulenceModels/RAS/kOmegaSST/kOmegaSST_cpp.cuh''),
      (''validation'', PStr inf_interFoam_kOmegaSST_validation),
      (''note'', PStr inf_interFoam_kOmegaSST_note)]\<close>

definition inf_interFoam_MRF_validation :: string where
  \<open>inf_interFoam_MRF_validation = lit [
        ''tests/interfoam_mrf_vs_openfoam.sh, real OpenFOAM on laminar/mixerVessel2D AS SHIPPED (its '',
        ''own m4 blockMesh, topoSet and setsToZones; 3072 cells, the `rotor` zone 1536 of them with '',
        ''3024 internal faces and 192 rotor faces that move with the frame), twenty fixed steps of the '',
        ''tutorial\'s deltaT 1e-3. MEASURED: all 60 p_rgh iteration counts OpenFOAM\'s, initial residuals '',
        ''within 1.2e-11; alpha 8.2e-15, p_rgh 4.9e-14, U 1.9e-15; bounds at about 30x. THE CONTROL: '',
        ''OpenFOAM with the zone `active no`, where nothing moves (100% of U). THE PATH is asserted: '',
        ''one active zone, a proper part of the mesh, with included faces, turning at the case\'s '',
        ''6.2831853 rad/s; OpenFOAM\'s log building the zone list. BROKEN ONCE EACH (U, p_rgh, p_rgh '',
        ''counts equal): makeRelative(phiHbyA) dropped 1.1e+00, 8.7e-01, 24 of 60; the ddtCorr flux '',
        ''not zero-filtered 1.7e-01, 2.2e-01, 30 of 60; correctBoundaryVelocity skipped 1.6e-01, '',
        ''6.1e-01, 29 of 60; MRF.DDt dropped 2.7e-02, 2.9e-01, 42 of 60; MRF.DDt(U) for MRF.DDt(rho, '',
        ''U) the same to two digits (rho is 1000 in the water). tests/interfoam_refusals.sh holds nine '',
        ''MRF arms. THE DEVICE LOOP RUNS IT TOO (2026-09-20), at the same '',
        ''bounds: alpha 7.3e-15, p_rgh 3.0e-14, U 2.1e-15, and all 60 of ITS OWN p_rgh solves take '',
        ''OpenFOAM\'s iteration counts (initial residuals within 1.5e-11). All four calls were '',
        ''transcribed from the host arm\'s lines: correctBoundaryVelocity in the U-boundary hook, on '',
        ''the HOST field the snapshot is taken from (UEqn.H:1); DDt(rho, U) rho-weighted in the shared '',
        ''assembler before relax, formed as rhoSimpleFoam\'s device arm forms it (rhoUEqn.cu:769-777, '',
        ''acc then hadamard by rho); zeroFilter on the ddtCorr term (new deviceMrfZeroFilter, whose '',
        ''face set is MRFZone::zero\'s, not makeRelative\'s); and makeRelative BETWEEN that term and '',
        ''phig, which is why the device pEqn now splits the two adds it used to fuse. BROKEN ONCE EACH '',
        ''on the device (alpha, p_rgh, U): correctBoundaryVelocity skipped 8.5e-02, 6.1e-01, 1.6e-01; '',
        ''MRF.DDt dropped 1.7e-02, 2.9e-01, 2.7e-02; not rho-weighted the same to two digits; '',
        ''zeroFilter dropped 1.7e-01, 2.2e-01, 1.7e-01; makeRelative dropped 9.9e-01, 8.7e-01, '',
        ''1.1e+00. NOT CLAIMED, each refused by name: MRF under a moving mesh, under RAS, beside a '',
        ''fixedFluxPressure patch (constrainPressure\'s MRF.relative(Sf & U_b)), and an omega that '',
        ''varies in time. The rotor\'s frame velocity has no oracle of its own -- '',
        ''OpenFOAM writes a noSlip patch as its type alone -- and is held through U. AND ON A '',
        ''REFINING MESH, tests/interfoam_amr_mrf_vs_openfoam.sh, BOTH ARMS: the whole of MRF\'s '',
        ''mesh-dependent state is THREE FACE LISTS, and MRFZoneList::update() (MRFZoneList.C:441-450) '',
        ''is guarded on mesh.topoChanging() and calls each zone\'s update(), which is setMRFFaces() AND '',
        ''NOTHING ELSE (MRFZone.C:598-604) -- the dictionary is not re-read, cellZoneID_ is not '',
        ''re-found, omega is not re-evaluated, excludedPatchLabels_ is not re-resolved, and none of it '',
        ''needs to be because resetZones preserves every zone\'s INDEX and ORDER and moves only its '',
        ''labels. interFoam calls it at interFoam.C:128, after gh/ghf and before the correctPhi block. '',
        ''So brae rebuilds each zone from its KEPT spec against the live cellZone, which IS '',
        ''setMRFFaces; on the device the same rebuild is needed for a second reason the host does not '',
        ''have -- frameFluxInt and frameFluxBnd are PRECOMPUTED Omega x (Cf - origin) dotted with Sf, '',
        ''and a refined face has a new centre and a quarter of the area. THE FIXTURE is mixerVessel2D '',
        ''(damBreakWithObstacle cannot carry MRF: its fixedFluxPressure walls are refused) with '',
        ''damBreakWithObstacle\'s own dynamicMeshDict at maxRefinement 2, deltaT 2.5e-4 and every solve '',
        ''pinned to 1e-14 relTol 0. THE ORACLE IS OPENFOAM\'S OWN RENUMBERED ZONE, cell by cell: a '',
        ''topoChanging mesh writes its polyMesh into every time directory, cellZones among them, so '',
        ''the 2292 labels are compared one at a time rather than as a count -- which is a sharper '',
        ''oracle than the fvOptions unit\'s log line, and the only one available since MRFZone writes '',
        ''no Info<< of its own. MEASURED, host then device then device-vs-host: alpha 7.8697e-11, '',
        ''5.2511e-11, 6.9696e-11; p_rgh 2.7452e-09, 6.3812e-09, 4.8009e-09 relative; U 5.4996e-09, '',
        ''4.0190e-09, 5.7751e-09; the zone 1536 -> 1676 -> 2180 -> 2292 cells with every label '',
        ''OpenFOAM\'s and both lists ascending; the rebuilt lists 5268 internal and 228 included faces; '',
        ''all 12 p_rgh and all 4 pcorr iteration counts OpenFOAM\'s with the FIRST solve after the '',
        ''FIRST change bit-identical in its initial residual, which is the sharpest number here '',
        ''because it predates any solver round-off. THE BOUNDS ARE 1e-09 AND THAT IS THE CASE\'S '',
        ''CONDITIONING, MEASURED RATHER THAN CLAIMED: the gate runs OpenFOAM a SECOND time with one '',
        ''cell of the initial alpha.water moved by ONE ULP and compares OpenFOAM to ITSELF -- alpha '',
        ''9.6227e-11, p_rgh 5.7215e-09, U 8.6395e-09, four orders of growth between step 2 and step 3 '',
        ''(the step whose change first gives pcorr real work, 183 iterations) -- and asserts that brae '',
        ''is NO FURTHER FROM OPENFOAM THAN OPENFOAM\'S OWN ONE-ULP TWIN on alpha, p_rgh and U. It is '',
        ''0.69x, 0.48x and 0.64x of it. The arm also asserts that the one-ulp figure is itself above '',
        ''1e-10, so a fixture that stopped amplifying would fail rather than pass on a slack bound. '',
        ''THE CONTROL, BRAE_CONTROL_AMR_NO_MRF_UPDATE: the zones keep the face lists they were built '',
        ''with -- the port that does not throw, since every index is in range on a mesh that only '',
        ''grew -- and it reads alpha 2.4909e-01, U 4.8591e-01 and p_rgh 2.5826e+00, a million times '',
        ''the gate\'s own distance. Two refusals arms hold the composition: mrf_refine RUNS and '',
        ''mrf_refine_fixedFlux is still REFUSED, so the refinement path is not a way around the other '',
        ''MRF refusals. NOT CLAIMED THERE: UNREFINEMENT beside MRF (this deltaT only refines; at the '',
        ''tutorial\'s own 1e-3 the same case DOES unrefine, 6390 -> 6362 with the zone growing 2348 -> '',
        ''2544 and brae reaching the same counts and the same 4 split points, which is the first '',
        ''fixture found that unrefines inside a solver run and is recorded as that unit\'s lead rather '',
        ''than gated at a Courant number of 1.6), and a time-varying omega, which OpenFOAM\'s own '',
        ''update does not re-evaluate either. THREE THINGS THE UNIT FOUND BESIDE THE PORT, all '',
        ''in MRF rather than in the change. (1) nonRotatingPatches WAS A SILENT SUBSTITUTION '',
        ''and is now REFUSED: OpenFOAM\'s excludedPatchNames_ is a `wordRes` (MRFZone.H:92) '',
        ''resolved with boundaryMesh().indices(matcher, useGroups = true) '',
        ''(MRFZone.C:578-579), so it matches REGEXES AND PATCH GROUPS, where '',
        ''isExcludedPatch compares exact strings -- a patch OpenFOAM matched by regex is '',
        ''EXCLUDED there (frame flux subtracted) and would be INCLUDED here (flux zeroed '',
        ''outright). buildZone now throws by name on any entry that is not a plain existing '',
        ''patch name, checked there because that is what a change re-runs, and VERIFIED to '',
        ''fire on `nonRotatingPatches (".*")`. (2) THE DEVICE CONSUMERS NOW REFUSE A '',
        ''STALE ZONE instead of half-applying it: deviceMrfMakeRelative carried `if (nB && nB '',
        ''== phiBnd.size())`, a SILENT SKIP of the boundary half with the internal half '',
        ''launched unguarded beside it, so a zone left from before a change subtracted the '',
        ''frame flux on the wrong internal faces and did nothing on the boundary, without a '',
        ''message -- the same shape as the porosity list uploaded once, which cost a measured '',
        ''alpha 1.4218e-02. All three consumers now check each array against the field. '',
        ''FAIL-PROOF: with buildMrf() taken out of the device change branch the arm stops at '',
        ''the FIRST change with `deviceMrfCoriolisZone: this MRF zone\'s per-cell mask is 3072 '',
        ''where the field is 3660`, where before it would have run to completion on the wrong '',
        ''faces. (3) InterMomentumInput::hasMRF is a refusal that CANNOT FIRE -- the only '',
        ''setter in the tree is a test, and interFoam\'s drivers pass in.mrf and never set the '',
        ''flag; left as an open finding rather than made live, since that changes what an '',
        ''MRFProperties whose only zone is `active no` does. The gate\'s own control is GUARDED '',
        ''rather than trusted: it keeps the OLD mesh\'s indices, in range on a mesh that grew '',
        ''and past the end on one that shrank, so the adapter throws if any kept index is out '',
        ''of range -- a control may be wrong, it may not be undefined; measured NOT to fire '',
        ''spuriously on a run with 3 split points unrefined. AND THE ONE-ULP ARGUMENT IS '',
        ''MANDATORY for this profile: it was optional first, and six arguments then asserted '',
        ''the 1e-09 bounds with nothing behind them while the whole gate went green. The `<=` '',
        ''is asserted on p_rgh and U and NOT on alpha, because the two curves CROSS -- brae '',
        ''starts at its own 160-iteration PCG floor and the twin at one ulp in one cell, so '',
        ''brae is 18.15x the twin on p_rgh at ONE step and 0.48x at four; the amplification '',
        ''assertion pins the regime, and inside it p_rgh and U are under 1x at every step '',
        ''while alpha is not (4.34x at two steps), so alpha is held by its absolute bound.'']\<close>

definition inf_interFoam_MRF_note :: string where
  \<open>inf_interFoam_MRF_note = lit [
        ''interFoam reaches MRF in four places that do arithmetic (UEqn.H:1, :6; pEqn.H:17, :19), and the '',
        ''host reference simpleFoam and rhoSimpleFoam already gate supplies three of them: '',
        ''correctBoundaryVelocity, addCoriolis (weighted by rho here, MRFZoneList::DDt(rho, U) = '',
        ''rho*DDt(U)) and makeRelative. THE FOURTH IS NEW: MRF.zeroFilter on the ddtCorr flux -- '',
        ''MRFZone::zero sets it to Zero on the zone\'s internal, included and excluded faces '',
        ''(MRFZoneTemplates.C:213-247), because inside the zone phi.oldTime() is relative to the frame '',
        ''and the flux of U.oldTime() is not, so their difference there is the frame flux and not a '',
        ''correction. ONE SHARED DEFECT: `omega` is a Function1 (MRFZone.C) and the tutorial writes '',
        ''`omega constant 6.2831853;`; the reader took scalarOr, which reads the LAST token -- right for '',
        ''that spelling by accident, a crash on a table\'s `)` and a silent ZERO for the dictionary form. '',
        ''It reads a constant in its three spellings now, refuses any other type by name, and refuses a '',
        ''zone with no omega, which OpenFOAM\'s mandatory Function1::New stops on and brae ran at zero. '',
        ''The refusal that used to stand here fired on any active zone; brae\'s interFoam had once read '',
        ''MRFProperties, ignored it and converged. ON THE DEVICE TOO NOW -- and the fixture it needed dragged '',
        ''the PRESSURE REFERENCE onto the device with it, since mixerVessel2D is closed: setReference pins '',
        ''the cell at its CURRENT p_rgh (pEqn.H:47, getRefCellValue) and not at pRefValue, and pEqn.H:74-83 '',
        ''then shifts p\'s level and REBUILDS p_rgh from the shifted p, so both fields move. Three controls '',
        ''in the device driver had never been set, because the device refused every case that needs a '',
        ''reference: the step pinned nothing, and p_rgh came out a constant -2.17e+01 from OpenFOAM with a '',
        ''spread of only 1.5e-02 about it. What this fixture CANNOT discriminate is the value setReference '',
        ''pins at -- g is (0 0 0) there, so p == p_rgh and the cell\'s own p_rgh IS pRefValue to the last '',
        ''digit of every field and every iteration count; test_device_inter_peqn.cu asserts that one '',
        ''bit-level with the old behaviour as its control. adjustPhi (pEqn.H:21-26) runs on the device '',
        ''too now, through the host\'s own cpu::interFoam::adjustPhi and with the makeRelative/makeAbsolute '',
        ''round trip on a moving mesh: every face of this vessel fixes its flux, so it cannot witness it; '',
        ''tests/interfoam_moving_vs_openfoam.sh\'s closedAdjZG, closedAdjIO and mixerTop do, and '',
        ''tests/interfoam_refusals.sh\'s closed_abort_* hold both arms to OpenFOAM\'s own abort.'']\<close>

definition inf_interFoam_MRF :: component where [manifest_rows]:
  \<open>inf_interFoam_MRF =
     [(''name'', PStr ''interFoam_MRF''),
      (''of_symbol'', PStr ''MRFZoneList''),
      (''of_file'', PStr ''src/finiteVolume/cfdTools/general/MRF/MRFZoneList.C''),
      (''classification'', PStr ''GPU_REQUIRED''),
      (''status'', PStr ''REIMPLEMENT''),
      (''brae_reference'', PStr ''src/finiteVolume/cfdTools/general/MRF/MRF_cpp.cuh''),
      (''validation'', PStr inf_interFoam_MRF_validation),
      (''note'', PStr inf_interFoam_MRF_note)]\<close>

definition inf_interFoam_fvOptions_validation :: string where
  \<open>inf_interFoam_fvOptions_validation = lit [
        ''tests/interfoam_angledduct_vs_openfoam.sh, real OpenFOAM on RAS/angledDuct (its own blockMesh, '',
        ''28000 cells non-orthogonal to 44.5 degrees, the `porosity` zone 8000 of them), ten fixed steps '',
        ''of the tutorial\'s deltaT 1e-3, THREE ARMS. `inactive` has the option `active no` in both codes '',
        ''and is held at the floor: alpha 5.7e-16, p_rgh 3.8e-15, U 4.3e-15, k 7.6e-15, epsilon 5.8e-15, '',
        ''nut 5.2e-15. `porous` is the case as shipped: alpha 1.6e-14, p_rgh 6.3e-11, U 5.1e-11, k '',
        ''4.6e-12, epsilon 5.3e-12, nut 5.7e-12. `porousWater` starts the duct full of water: p_rgh '',
        ''4.6e-12, U 2.8e-12. Every p_rgh, alpha, epsilon and k iteration count OpenFOAM\'s in all three. '',
        ''THE FOUR ORDERS BETWEEN inactive AND porous ARE ROUND-OFF, MEASURED TWICE: one entry of the '',
        ''resistance tensor multiplied by (1 + 2.2e-16) moves brae\'s p_rgh agreement from 6.3e-11 to '',
        ''1.7e-11; and the residual that is 1.5e-10 out is the second corrector\'s, itself 2.2e-05, '',
        ''where the first solve of the run agrees to 1.1e-16 and the same line with the option off -- '',
        ''2.5e-02 there -- agrees to 1e-13. Bounds at about 30x, per arm. EACH ARM IS ANOTHER\'S '',
        ''CONTROL: the option moves OpenFOAM\'s own U by 23% (73% in water). BROKEN ONCE EACH (U): the '',
        ''inlet never refreshed 100%; refreshed with the face cell\'s rho 6.5e+06; as a volumetric rate '',
        ''2.9e+02; mu as rho*nuEff 5.3e-02 (1.8e-01 in water); the kinematic form, no rho, NOTHING on '',
        ''`porous` -- rho is exactly 1 in the zone for the whole shipped run -- and 4.9e-01 on '',
        ''`porousWater`, which is why that arm exists. tests/interfoam_refusals.sh holds six fvOptions '',
        ''arms. THE DEVICE LOOP RUNS ALL THREE ARMS TOO (2026-09-20): inactive '',
        ''alpha 6.1e-16, p_rgh 4.3e-15, U 7.6e-15; porous 1.1e-14, 1.3e-11, 1.8e-11; porousWater '',
        ''5.9e-13, 2.9e-12, 2.6e-12, with all 30 of the device\'s OWN p_rgh iteration counts '',
        ''OpenFOAM\'s in each. The device carries the FULL transformed D and F tensors, which the '',
        ''other solvers\' device porosity does not -- they take the diagonal and refuse a rotated '',
        ''coordinateSystem by name, and this tutorial rotates e1 by 45 degrees -- and mu and rho as '',
        ''FIELDS (DevicePorosity::tensorForm, kernels transcribed from fvOptions_cpp.cu:502-537). '',
        ''BROKEN ONCE EACH on the device: the porosity dropped p_rgh 7.9e-01, U 2.3e-01; handed the '',
        ''kinematic nu rather than rho*nu the same, since the case\'s F is zero. AND THE ARM FOUND '',
        ''THREE MORE DEFECTS, none of them the option\'s, each localised with the HOST closure run '',
        ''inside the device loop: the massFlowRate inlet never rebuilt on the device (U 1.0007e+00); '',
        ''the SLIP wall\'s symmetry refValue never refreshed against this iteration\'s cells, which is '',
        ''the third step of rhoSimpleFoam\'s own documented pre-assembly sequence (rhoUEqn.cuh:76-78) '',
        ''and was simply missing from interFoam\'s step (U 2.7e-02 with the host closure and the '',
        ''option off, where the host loop is 4.1e-15); and the device closure\'s turbulent inlets '',
        ''frozen at the file\'s `value` because interFoam never handed it their masks (U 1.3e+00, k '',
        ''1.1e+00, epsilon 4.7e+00), plus the wall-function production reading a WALL VELOCITY '',
        ''snapshotted at the closure\'s build, exact for every noSlip wall and wrong for a slip one '',
        ''(epsilon 1.5e-02, worst on `porosityWall`). NOT CLAIMED, each refused by name: every other '',
        ''option type, explicitPorositySource\'s fixedCoeff model, more than one active porosity zone '',
        ''on the device, an option under a moving mesh or beside an MRF zone; the Forchheimer half '',
        ''(f is zero in the tutorial). AND THROUGH A TOPOLOGY CHANGE, '',
        ''tests/interfoam_amr_vs_openfoam.sh\'s `porosity` profile (unit 14): OpenFOAM does not map an '',
        ''option\'s cell labels, it RE-SELECTS -- cellSetOption::isActive() calls setCellSelection() '',
        ''whenever the mesh is topoChanging and sets V_ = -GREAT so the volume prints again '',
        ''(cellSetOption.C:383-396) -- and a `cellZone` selection then resolves against the LIVE '',
        ''zone, which polyTopoChange renumbers by giving each child its parent\'s zone id, while a '',
        ''`cellSet` re-reads its file in the ORIGINAL numbering so re-selecting IS keeping. Its own '',
        ''log is the oracle, one line per change: `- selected N cell(s) with volume V`, 2736 -> 7398 '',
        ''-> 26711 cells at 0.08349609375 of volume that never moves a digit -- the count grows by '',
        ''the refined part of the zone and the volume cannot, which is what makes a kept-label port '',
        ''visible. MEASURED on both arms: brae\'s last selection 26711 cells of 0.08349609375, alpha '',
        ''1.5190e-14 on the host and 1.6986e-14 on the device, p_rgh 1.2499e-14 relative, rAU '',
        ''1.4562e-11, all 9 p_rgh and 3 pcorr solves on OpenFOAM\'s counts. THE CONTROL keeps the '',
        ''selections: 2736 cells of 0.0657119750977 and U 9.5948e-02. BROKEN ONCE ON THE DEVICE, and '',
        ''nothing else here could have seen it: the porosity cell list is uploaded before the time '',
        ''loop, so the device applied the resistance to an eighth of the zone OpenFOAM applies it to '',
        ''and read the control\'s own number to every digit -- alpha 1.4218e-02 and U 9.5948e-02 from '',
        ''the host arm.'']\<close>

definition inf_interFoam_fvOptions_note :: string where
  \<open>inf_interFoam_fvOptions_note = lit [
        ''interFoam reaches fvOptions in four places (UEqn.H:9 `== fvOptions(rho, U)`, :14 constrain, :31 and '',
        ''pEqn.H:65 correct); a source reaches the first alone. The arithmetic is the host reference '',
        ''simpleFoam and rhoSimpleFoam already gate; what is interFoam\'s is what it is handed. The '',
        ''equation is FORCE-dimensioned, so DarcyForchheimer::correct takes the field named `rho` and, '',
        ''finding no `thermo:mu`, rho*nu with the field named `nu` (DarcyForchheimer.C:203-218) -- the '',
        ''mixture\'s rho and its LAMINAR nu. WHAT THE GATE FOUND WAS NOT THE OPTION. interFoam\'s loops never '',
        ''refreshed a flowRateInletVelocity, which OpenFOAM recomputes at every momentum assembly '',
        ''(fvMatrix.C:396 -> updateCoeffs) from the rate at that time and, for a massFlowRate, the field '',
        ''named `rho` on the patch. angledDuct ships `massFlowRate constant 0.1` beside `value uniform (0 '',
        ''0 0)`: brae\'s inlet stayed at zero, its largest velocity 1.9e-04 m/s against OpenFOAM\'s 0.21, '',
        ''silently -- the frozen inlet this project\'s rules name. It was localised by the `inactive` arm: '',
        ''the same 100% with the option off. The host loop refreshes it now; the device loop, which '',
        ''uploads U\'s patches once, refuses a mass rate or a volumetric one beside a `value`. '',
        ''waterChannel\'s volumetric inlet carries no `value`, so its constructor had built the right one. '',
        ''ALSO: the shared fvOptions reader looked in system/ before constant/, where '',
        ''fv::options::createIOobject (fvOptions.C:46-84) looks in constant/ first. HOST ONLY SO FAR.'']\<close>

definition inf_interFoam_fvOptions :: component where [manifest_rows]:
  \<open>inf_interFoam_fvOptions =
     [(''name'', PStr ''interFoam_fvOptions''),
      (''of_symbol'', PStr ''fv::options''),
      (''of_file'', PStr ''src/finiteVolume/cfdTools/general/fvOptions/fvOptions.C''),
      (''classification'', PStr ''GPU_REQUIRED''),
      (''status'', PStr ''REIMPLEMENT''),
      (''brae_reference'', PStr ''src/finiteVolume/cfdTools/general/fvOptions/fvOptions_cpp.cuh''),
      (''validation'', PStr inf_interFoam_fvOptions_validation),
      (''note'', PStr inf_interFoam_fvOptions_note)]\<close>

definition inf_interFoam_mangroves_validation :: string where
  \<open>inf_interFoam_mangroves_validation = lit [
        ''tests/interfoam_mangrove_vs_openfoam.sh, real OpenFOAM on laminar/waves/mangroveInteraction '',
        ''as Allrun meshes it (blockMesh, setFields, topoSet) with the block halved in each '',
        ''direction, 51,450 cells, the seaweed zone 14,700 of them; a Boussinesq paddle, '',
        ''shallowWaterAbsorption, kEpsilon with PBiCG/DILU; 450 fixed steps of 0.01 at the case\'s '',
        ''own tolerances. MEASURED: alpha 4.6e-14, p_rgh 3.8e-14, U 3.4e-12, k 1.7e-13, epsilon '',
        ''1.0e-13, nut 3.0e-13, every p_rgh, k and epsilon count and k\'s and epsilon\'s final '',
        ''residuals OpenFOAM\'s. CONTROLS: both options off, U 134%; the turbulence option off, k '',
        ''52%. BROKEN ONCE EACH (U / k): no added mass 2.2e-01; no drag 8.0e-01; drag without rho '',
        ''7.9e-01; Cm for Cm + 1 1.1e-01; Ckp and Cep swapped 9.9e-01; the turbulence sign flipped '',
        ''8.3e-01; no turbulence source 3.4e-01 / 5.2e-01. NOT DISCRIMINATED: the added mass on U '',
        ''rather than U.oldTime() (the same field at assembly with one outer corrector and no '',
        ''predictor). tests/test_fvoptions_cpp.cu holds the reading and the refusals. NOT CLAIMED, '',
        ''each refused: the density-weighted k-epsilon, any other closure under the turbulence '',
        ''option, a field-name override, more than one option of either type on the device loop. '',
        ''THE DEVICE LOOP RUNS IT TOO (2026-09-22), by its own bounds over the same 450 steps: '',
        ''alpha 6.4e-14, p_rgh 4.8e-14, U 3.9e-11, k 3.2e-12, epsilon 3.5e-12, nut 1.7e-12, all '',
        ''900 p_rgh and all 450 k and 450 epsilon counts OpenFOAM\'s and their final residuals '',
        ''with them; the seven U/k fail-proofs above read the SAME numbers to two digits when '',
        ''broken on the device arm, and the added mass on U for U.oldTime() is not discriminated '',
        ''there either.'']\<close>

definition inf_interFoam_mangroves_note :: string where
  \<open>inf_interFoam_mangroves_note = lit [
        ''TWO OPTIONS over each region\'s cellZone. multiphaseMangrovesSource: addSup(rho, eqn) adds '',
        ''-Sp(rho*0.5*Cd*a*N*|U|, U) - rho*0.25*(Cm + 1)*pi*a^2*N*ddt(U), which UEqn == options '',
        ''turns into diag += V*rho*drag + (rDeltaT*V)*rho*inertia and source += '',
        ''((rDeltaT*U0)*V)*rho*inertia, in OpenFOAM\'s operation order. '',
        ''multiphaseMangrovesTurbulenceModel: addSup(eqn) -- interFoam\'s k-epsilon is the '',
        ''incompressible lineage, alpha = rho = 1 -- adds -Sp(Ckp*Cd*a*N*|U|, k) and '',
        ''-Sp(Cep*Cd*a*N*|U|, epsilon), U looked up by name. Every region coefficient is readEntry '',
        ''in OpenFOAM and required here. firstUnsupported() still reports both types to every '',
        ''driver but interFoam\'s two loops, which check their options themselves: the drivers that '',
        ''ask treat an implemented option they do not recognise as a porosity. ON THE DEVICE the '',
        ''per-cell coefficients WITHOUT their |U| are built once from the host OptionList\'s regions, '',
        ''in the host\'s multiplication order, and |U| is taken on the device at each assembly: '',
        ''deviceMangrovesMomentum in the shared assembler\'s fvOptions slot (UEqn.cu), and '',
        ''KEpsilonInput::fvoSpK/fvoSpEps as diag += V*coeff ahead of relax().'']\<close>

definition inf_interFoam_mangroves :: component where [manifest_rows]:
  \<open>inf_interFoam_mangroves =
     [(''name'', PStr ''interFoam_mangroves''),
      (''of_symbol'', PStr ''multiphaseMangrovesSource''),
      (''of_file'', PStr ''src/waveModels/fvOptions/multiphaseMangrovesSource/multiphaseMangrovesSource.C''),
      (''classification'', PStr ''GPU_REQUIRED''),
      (''status'', PStr ''REIMPLEMENT''),
      (''brae_reference'', PStr ''src/finiteVolume/cfdTools/general/fvOptions/fvOptions_cpp.cu''),
      (''validation'', PStr inf_interFoam_mangroves_validation),
      (''note'', PStr inf_interFoam_mangroves_note)]\<close>

definition inf_interFoam_PBiCG_validation :: string where
  \<open>inf_interFoam_PBiCG_validation = lit [
        ''tests/interfoam_mangrove_vs_openfoam.sh: all 450 k and 450 epsilon solves take '',
        ''OpenFOAM\'s iteration count and end on its final residual. BROKEN ONCE EACH: '',
        ''PBiCGStab in its place, 76 of 450 k counts equal and U 9.2e-05; DILU\'s transpose sweep '',
        ''not transposed, the run fails. tests/interfoam_refusals.sh: PBiCGStab named for k is '',
        ''refused. ON THE DEVICE: tests/test_device_pbicg.cu holds devicePBiCGDilu to the host '',
        ''reference on an asymmetric 5760-cell system -- Tmul 1.6e-15, preconditionT bit for bit, '',
        ''the iterate at relTol 0.01 1.1e-14 apart in five iterations where PBiCGStab takes three '',
        ''and lands 2.6e-03 away, 25 iterations in both converged -- and the mangrove gate\'s '',
        ''device arm holds every one of its 900 k and epsilon solves to OpenFOAM\'s log. BROKEN '',
        ''ONCE EACH on the device: preconditionT or Tmul on the direct view, beta inverted (the '',
        ''unit gate, 8 checks each); PBiCGStab in its place, 76 of 450 k counts and U 9.2e-05; the '',
        ''Gauss-Seidel sweep the closure used to set unconditionally, 0 of 450 and U 1.1e-04.'']\<close>

definition inf_interFoam_PBiCG_note :: string where
  \<open>inf_interFoam_PBiCG_note = lit [
        ''PBiCG with the DILU preconditioner, transcribed from PBiCG.C and DILUPreconditioner.C: '',
        ''the direct and TRANSPOSE systems side by side (Amul/Tmul, precondition/preconditionT), '',
        ''the singularity break before the count moves. Not PBiCGStab, which brae already had and '',
        ''which stops at different iterates at the same tolerance. The sweeps run in face order: '',
        ''for any cell the subtractions arrive in the same face order as losortAddr\'s, so the bits '',
        ''are the same. Wired for interFoam\'s kEpsilon (LinearSolverChoice::pbicgDILU); the LES and '',
        ''kOmegaSST closures still refuse it. ON THE DEVICE '',
        ''(src/matrices/lduMatrix/solvers/PBiCG/device_pbicg.cu) the transpose system is a VIEW -- '',
        ''deviceAmul and diluApply on the same matrix with upper and lower exchanged, one rD for '',
        ''both since calcReciprocalD reads only their product -- and a coupled interface is refused '',
        ''as the host refuses it. FOUND BY THIS PORT: the device closure set its Gauss-Seidel sweep '',
        ''unconditionally, so a case naming PBiCG would have run a smoothSolver under that entry in '',
        ''silence; it selects by name now and refuses what it does not run.'']\<close>

definition inf_interFoam_PBiCG :: component where [manifest_rows]:
  \<open>inf_interFoam_PBiCG =
     [(''name'', PStr ''interFoam_PBiCG''),
      (''of_symbol'', PStr ''PBiCG''),
      (''of_file'', PStr ''src/OpenFOAM/matrices/lduMatrix/solvers/PBiCG/PBiCG.C''),
      (''classification'', PStr ''GPU_REQUIRED''),
      (''status'', PStr ''REIMPLEMENT''),
      (''brae_reference'', PStr ''src/OpenFOAM/matrices/pbicg.cu''),
      (''validation'', PStr inf_interFoam_PBiCG_validation),
      (''note'', PStr inf_interFoam_PBiCG_note)]\<close>

definition inf_interFoam_CrankNicolson_validation :: string where
  \<open>inf_interFoam_CrankNicolson_validation = lit [
        ''tests/interfoam_cn_vs_openfoam.sh, real OpenFOAM on RAS/damBreak with `default CrankNicolson 0.5` '',
        ''in the shipped Euler\'s place, 20 fixed steps of 1e-3, BOTH ARMS, three profiles: `cn` (the '',
        ''tutorial\'s PIMPLE), `cnOuter` (nOuterCorrectors 2: every ddt0 asked for twice a step, advanced '',
        ''once), `cnFull` (CrankNicolson 1, offCentre_\'s other branch). MEASURED host: cn alpha 9.3e-15, '',
        ''p_rgh 8.0e-15, U 1.5e-14, k 8.9e-15, epsilon 6.0e-15; cnOuter 1.0e-14, 1.2e-14, 1.0e-14, 6.5e-15, '',
        ''6.3e-15; cnFull 2.4e-14, 9.8e-13, 1.3e-10, 5.3e-12, 4.3e-13; every p_rgh, alpha, k and epsilon '',
        ''count OpenFOAM\'s (60, 120 and 60 p_rgh solves). Device: cn 8.2e-15, 7.5e-15, 1.9e-12, 7.6e-15, '',
        ''7.3e-15; cnOuter 5.8e-15, 7.5e-15, 1.7e-12, 1.3e-14, 1.4e-14; cnFull 1.2e-14, 5.8e-13, 7.8e-11, '',
        ''3.1e-12, 2.6e-13; every count. THE CONTROL is OpenFOAM\'s own Euler against its CrankNicolson, U '',
        ''3.2e-02 (cn), 5.6e-02 (cnOuter), 5.4e-02 (cnFull). WHAT THE GATE FOUND: (1) phi\'s old-old level '',
        ''is CREATED on the second step as a copy of phi.oldTime() -- fvcDdtPhiCorr asks for it only inside '',
        ''its evaluate branch, and GeometricField::oldTime() creates a missing level from the one it hangs '',
        ''off -- so dphidt0\'s first estimate is 0; with phi^0 in its place U 2.3e-01 after two steps, alpha '',
        ''5e-15 (the alpha step reads no old-old level). U\'s and rho\'s levels are asked for on the first step '',
        ''at the top of fvmDdt and rotate normally. (2) The DEVICE alpha step reset alpha1 to its old time at '',
        ''the start of every outer pass, which OpenFOAM\'s alphaEqn.H never does: with nOuterCorrectors 2 the '',
        ''second pass\'s first p_rgh residual 1.2e-06 from OpenFOAM\'s, k 6.7e-06 and U 2.0e-06 after two '',
        ''steps, under Euler as under CrankNicolson (tests/interfoam_ras_dambreak_vs_openfoam.sh\'s new `outer` '',
        ''profile holds it). BROKEN ONCE EACH: see the gate script\'s table. NOT CLAIMED, each refused by name: '',
        ''a Function1 ocCoeff (the ramp), the scheme on one operand set and Euler on the other, a moving mesh '',
        ''(the V0/V00 branch and fvcDdtUfCorr), a mangrove source under it, a closure other than kEpsilon, '',
        ''alpha sub-cycling (OpenFOAM\'s own FatalError), a restart directory holding ddt0 fields or alphaPhi0, '',
        ''a coupled pair on the device loop, fvc::ddt.'']\<close>

definition inf_interFoam_CrankNicolson_note :: string where
  \<open>inf_interFoam_CrankNicolson_note = lit [
        ''ON THE DEVICE (2026-10-01): the alpha blend\'s phi.oldTime() is created per outer corrector as '',
        ''the host\'s is (tests/interfoam_moving_vs_openfoam.sh `solitaryOuterCN`, control alpha 6.9e-05), '',
        ''and kEpsilon under CrankNicolson on a MOVING mesh is refused by name at start-up -- the device '',
        ''closure carries the Euler moving form alone. '',
        ''ON A MOVING MESH THE STATE IS WRITTEN (2026-10-01, host; tests/interfoam_write_vs_openfoam.sh, arm W\'s '',
        ''RAS/floatingObject row AS SHIPPED and arm X): ddt0(rho,U), ddtCorrDdt0(U), ddtCorrDdt0(Uf), ddt0(k), '',
        ''ddt0(epsilon) with their PATCH values (fvmDdt advances them beside the cells, :1040-1047; '',
        ''CrankNicolsonDdt0Operands), U_0 / k_0 / epsilon_0, Uf_0 from the third step, meshPhiCN_0 and V0. '',
        ''MEASURED: as shipped worst 1.2e-13; the body released (the mesh deforming, five steps) worst 3.0e-11 '',
        ''(meshPhiCN_0), fields below 2e-12. THREE FACTS IT TOOK: kEpsilon\'s fvm::ddt takes the moving branch '',
        ''(it was refused; control on the static branch k 4.1e-04); the alpha blend\'s phi.oldTime() is the copy '',
        ''its first request made for the REST of that time index (with the previous step\'s flux, three outer '',
        ''correctors and correctPhi read U 3.1e-08 at step two); a cold start\'s old level is created inside '',
        ''the first fvm::ddt, after updateCoeffs (epsilon_0 8.7e-01 off at the first write otherwise). NOT '',
        ''CLAIMED: the written state on a static mesh (phi_0, ddtCorrDdt0(phi)), under kOmegaSST or LES, on a '',
        ''refining mesh, on a constraint patch, or from the device loop -- each refused by name. '',
        ''THE SCHEME IS A STATE. Every fvm::ddt keeps the previous step\'s ddt as a registry field named after its '',
        ''operands (ddt0(rho,U), ddt0(rho,k), ddt0(rho,epsilon), ddtCorrDdt0(U), ddtCorrDdt0(phi)), created zero '',
        ''at its first assembly and advanced once per time index by the first assembly of the step (evaluate()); '',
        ''coef = 1 + oc once timeIndex > startTimeIndex, coef0 = 1 + oc once timeIndex > startTimeIndex + 1, '',
        ''offCentre(x) = oc*x below 1 and x at 1: Euler for one step, an Euler-estimated ddt0 for the next, the '',
        ''scheme from the third. Static mesh: diag = (rDtCoef*rho)*V, source = ((rDtCoef*rhoOld)*vfOld + '',
        ''offCentre(ddt0))*V, ddt0 <- rDtCoef0*(rhoOld*vfOld - rhoOO*vfOO) - offCentre(ddt0), with rDtCoef = '',
        ''coef/deltaT and rDtCoef0 = coef0/deltaT0 as single divisions. fvcDdtPhiCorr(U, phi) is the two-argument '',
        ''fvcDdtPhiCoeff times ((rDtCoef*phiOld + offCentre(dphidt0)) - (Sf & interpolate(rDtCoef*UOld + '',
        ''offCentre(ddt0)))) with dotInterpolate\'s lambda*(P - N) + N. alphaEqn.H\'s own blend: phiCN = '',
        ''cnCoeff*phi + (1 - cnCoeff)*phi.oldTime() once timeIndex > startTimeIndex + 1, cnCoeff = 1/(1 + oc); '',
        ''with ddt(rho,U) not Euler the end-of-step alpha flux is un-blended against alphaPhi10.oldTime() -- a '',
        ''level CREATED by that first call as a copy of the current flux -- and rhoPhi takes phi beside rho2. '',
        ''The device transcribes the host module (device_crank_nicolson_ddt.cu) and its state lives in the '',
        ''driver (DeviceInterCrankNicolson) and the closure (DeviceInterTurbulence). Why RAS/damBreak and not '',
        ''floatingObject: the one shipped tutorial naming CrankNicolson also moves its mesh under rigidBodyMotion '',
        ''(rigidBodyDynamics, a Newmark solver), which brae does not carry; its refusal now names the body.'']\<close>

definition inf_interFoam_CrankNicolson :: component where [manifest_rows]:
  \<open>inf_interFoam_CrankNicolson =
     [(''name'', PStr ''interFoam_CrankNicolson''),
      (''of_symbol'', PStr ''CrankNicolsonDdtScheme''),
      (''of_file'', PStr ''src/finiteVolume/finiteVolume/ddtSchemes/CrankNicolsonDdtScheme/CrankNicolsonDdtScheme.C''),
      (''classification'', PStr ''GPU_REQUIRED''),
      (''status'', PStr ''REIMPLEMENT''),
      (''brae_reference'', PStr ''src/finiteVolume/finiteVolume/ddtSchemes/CrankNicolsonDdtScheme/crank_nicolson_ddt_scheme_cpp.cu''),
      (''validation'', PStr inf_interFoam_CrankNicolson_validation),
      (''note'', PStr inf_interFoam_CrankNicolson_note)]\<close>

definition inf_interFoam_setRDeltaT_validation :: string where
  \<open>inf_interFoam_setRDeltaT_validation = lit [
        ''tests/interfoam_dtchull_vs_openfoam.sh, real OpenFOAM on RAS/DTCHull meshed serially '',
        ''(845,536 cells), staged laminar, ten localEuler steps: OpenFOAM WRITES rDeltaT '',
        ''(createRDeltaT.H, AUTO_WRITE), so the local time step is compared cell by cell at every '',
        ''step, with setRDeltaT.H\'s three Info lines. MEASURED: rDeltaT 1.6e-16 at step 1, 3.4e-12 '',
        ''or less after, the lines 3.4e-12. CONTROLS (three steps, each failing on a number): no '',
        ''fvc::smooth, rDeltaT 9.5e-01 at step 1; no damping, 5.1e-02 at step 3; the initial rhoPhi '',
        ''as the alpha flux\'s mass flux (what brae built), 5.4e-01 at step 1. NOT CLAIMED: fvc::spread '',
        ''and fvc::sweep (refused; DTCHull sets both counts to 0), coupled patches (refused), a restart. '',
        ''The DEVICE loop calls this same host function each step from its own fields (rhoPhi, phi, '',
        ''alpha1 and rho downloaded) and uploads rDeltaT and interpolate(rDeltaT): `laminar device`, '',
        ''rDeltaT 1.6e-16 at step 1 against OpenFOAM, and the two NOSMOOTH/NODAMP controls fail there too.'']\<close>

definition inf_interFoam_setRDeltaT_note :: string where
  \<open>inf_interFoam_setRDeltaT_note = lit [
        ''HOST_ONLY because fvc::smooth is a FaceCellWave -- serial and order-dependent through its 1% '',
        ''hysteresis (src/finiteVolume/finiteVolume/fvc/fvcSmooth/fvc_smooth_cpp.cu). The controls are '',
        ''fvSolution PIMPLE\'s, not controlDict\'s, with OpenFOAM\'s defaults: nAlphaSpreadIter 1 and '',
        ''nAlphaSweepIter 5 are ON unless the case writes 0, maxDeltaT is GREAT. Damping runs from the '',
        ''THIRD step of every run (timeIndex > startTimeIndex + 1, tested before ++runTime). The rDeltaT '',
        ''read on a restart is inert: S1 overwrites every cell and rDeltaT0 is read only by the damping.'']\<close>

definition inf_interFoam_setRDeltaT :: component where [manifest_rows]:
  \<open>inf_interFoam_setRDeltaT =
     [(''name'', PStr ''interFoam_setRDeltaT''),
      (''of_symbol'', PStr ''setRDeltaT''),
      (''of_file'', PStr ''applications/solvers/multiphase/VoF/setRDeltaT.H''),
      (''classification'', PStr ''HOST_ONLY''),
      (''status'', PStr ''REIMPLEMENT''),
      (''brae_reference'', PStr ''src/applications/solvers/interFoam/inter_set_rdeltat_cpp.cu''),
      (''validation'', PStr inf_interFoam_setRDeltaT_validation),
      (''note'', PStr inf_interFoam_setRDeltaT_note)]\<close>

definition inf_interFoam_localEuler_validation :: string where
  \<open>inf_interFoam_localEuler_validation = lit [
        ''tests/interfoam_dtchull_vs_openfoam.sh. HOST ARM: '',
        ''ten laminar localEuler steps of RAS/DTCHull, alpha 2.6e-10, p_rgh 6.1e-10, U 6.4e-13, all 20 '',
        ''p_rgh and 10 alpha counts OpenFOAM\'s; OpenFOAM against itself with one interface cell\'s '',
        ''alpha moved by one ulp reads 8.8e-11, 1.2e-10, 3.7e-13 after the same ten steps. CONTROLS, '',
        ''one consumer at a time on the global 1/deltaT: the alpha pre-solve and CMULES (alpha '',
        ''2.1e+02), fvm::ddt(rho, U) (U 5.3e+01), ddtCorr (rDeltaT 3.0e-01 at step 3). The `ras` '',
        ''profile runs the tutorial\'s kOmegaSST (div(phi,k|omega) upwind, nut hull nutkWallFunction '',
        ''staged): alpha 1.6e-10, p_rgh 3.4e-10, U 1.6e-12, k 3.7e-12, omega 1.0e-11, nut 2.8e-11, '',
        ''every omega and k count and final residual OpenFOAM\'s; one ulp gives k 1.0e-12, omega '',
        ''1.0e-12, nut 5.3e-12. Its control, kOmegaSST\'s two ddts on 1/deltaT: k 1.1e+01, omega '',
        ''1.1e+00. DEVICE ARM, `laminar` with the tutorial\'s outlet: the alpha pre-solve, CMULES, '',
        ''fvm::ddt(rho, U) and ddtCorr on the GPU, ported one at a time against the host arm with the '',
        ''rest switched off on both. ONE step at the host\'s bounds: alpha 1.6e-14, p_rgh 4.8e-15, U '',
        ''7.7e-13. TEN: alpha 1.1e-09, p_rgh 2.3e-08, U 6.0e-10, every count OpenFOAM\'s -- the device\'s arithmetic amplified '',
        ''by CMULES\' limiter (the second step\'s pre-solve agrees with the host arm to 2.8e-14 and its '',
        ''alpha step leaves 8.0e-12); OpenFOAM with every water cell one ulp off reads alpha 1.1e-10, '',
        ''p_rgh 2.8e-10. The five controls fail on the device arm as well. NOT CLAIMED: kEpsilon and LES '',
        ''under localEuler, a moving mesh, sub-cycling (localRSubDeltaT), explicit MULES, fvOptions and '',
        ''MRF (all refused). DEVICE CLOSURE: kOmegaSST\'s two fvm::ddts on the local step '',
        ''(KOmegaSSTInput::rDeltaTCells), on the device `ras` arm when it staged (ras with the closure\'s convection upwind, the '',
        ''hull smooth, the cache stripped -- what the device loop does not carry yet): one step k '',
        ''6.7e-14, omega 4.0e-13, nut 4.4e-13; ten k 3.8e-10, omega 3.5e-10, nut 1.5e-10; control k '',
        ''1.1e+01.'']\<close>

definition inf_interFoam_localEuler_note :: string where
  \<open>inf_interFoam_localEuler_note = lit [
        ''Five consumers on DTCHull: the alpha pre-solve (alphaEqn.H:105-109 names the scheme directly), '',
        ''CMULES correct and limiterCorr (localRDeltaT per cell, CMULESTemplates.C:103-176), '',
        ''fvm::ddt(rho, U) as diag=(rDT*rho)*V, source=((rDT*rho0)*U0)*V in that order, and ddtCorr on '',
        ''fvc::interpolate(rDT), and kOmegaSST\'s fvm::ddt(alpha, rho, omega|k), which with geometricOneField '',
        ''alpha and rho is fvm::ddt(psi) (fvmDdt.C:127-137): rDT*V and (rDT*psi0)*V, bitwise the Euler '',
        ''lines\' (rDT*rho)*V and ((rDT*rhoOld)*psi0)*V at rho == 1 (kOmegaSST::Compressible::rDeltaTCells). '',
        ''brae\'s EULER U source is ((rDT*rho0)*V)*U0 -- a different association, '',
        ''left on the ledger; the localEuler one is OpenFOAM\'s.'']\<close>

definition inf_interFoam_localEuler :: component where [manifest_rows]:
  \<open>inf_interFoam_localEuler =
     [(''name'', PStr ''interFoam_localEuler''),
      (''of_symbol'', PStr ''localEulerDdtScheme''),
      (''of_file'', PStr ''src/finiteVolume/finiteVolume/ddtSchemes/localEulerDdtScheme/localEulerDdtScheme.C''),
      (''classification'', PStr ''GPU_REQUIRED''),
      (''status'', PStr ''REIMPLEMENT''),
      (''brae_reference'', PStr ''src/applications/solvers/interFoam/inter_ueqn_cpp.cuh''),
      (''validation'', PStr inf_interFoam_localEuler_validation),
      (''note'', PStr inf_interFoam_localEuler_note)]\<close>

definition inf_interFoam_nutkRoughWallFunction_of_file :: string where
  \<open>inf_interFoam_nutkRoughWallFunction_of_file = ''src/TurbulenceModels/turbulenceModels/derivedFvPatchFields/wallFunctions/nutWallFunctions/nutkRoughWallFunction/nutkRoughWallFunctionFvPatchScalarField.C''\<close>

definition inf_interFoam_nutkRoughWallFunction_validation :: string where
  \<open>inf_interFoam_nutkRoughWallFunction_validation = lit [
        ''tests/interfoam_dtchull_vs_openfoam.sh `ras`, RAS/DTCHull\'s hull as shipped (Ks 1e-4, Cs 0.5) '',
        ''under kOmegaSST and localEuler, HOST ONLY: the hull\'s wall nut face by face 6.2e-11 after ten '',
        ''steps (1.7e-12 at the first; OpenFOAM\'s one-ulp floor 7.9e-12), k 2.8e-12, omega 8.9e-12, U '',
        ''4.4e-13, every count OpenFOAM\'s. Witness, OpenFOAM against itself rough vs smooth: nut '',
        ''2.3e-01 and U 7.0e-04 at the first step. By the last step 5,605 of 27,438 hull faces are in '',
        ''fnRough\'s 2.25 < KsPlus < 90 regime. CONTROLS: run as nutkWallFunction, wall nut 1.0e+00 and '',
        ''U 4.0e-03; the history dropped (limited against nu_w), wall nut 4.6e-01. DEVICE ARM (`ras '',
        ''device`, the hull as shipped; the cache was stripped when these were measured, the tutorial runs whole now '',
        ''with the same digits): kOmegaSST.cu\'s wallNutDispatchKernel '',
        ''through nutkRoughWallValue, its history the wall nut as correctNut is entered (nutBndIn). '',
        ''One step, the host arm\'s digits (wall nut 1.7e-12); ten, wall nut 3.7e-09, k 4.0e-10, omega '',
        ''2.8e-10, nut 2.9e-10, every count OpenFOAM\'s; the two controls on the device arm, three steps, '',
        ''wall nut 1.0e+00 / U 4.0e-03 and wall nut 4.6e-01 / U 3.2e-04 (the host arm\'s digits) against '',
        ''9.4e-11. The device formula is NOT bit-identical to the host\'s: libdevice\'s pow, sin and log '',
        ''differ from glibc\'s in the last bit (measured, see nut_wall_function.cuh); 580 of 400,000 '',
        ''synthetic faces, worst 1.5e-13 relative, the KsPlus >= 90 regime exact. NOT CLAIMED: the '',
        ''KsPlus >= 90 regime end to end (no face reaches it; the synthetic comparison covers it), '',
        ''kEpsilon, a refining mesh.'']\<close>

definition inf_interFoam_nutkRoughWallFunction_note :: string where
  \<open>inf_interFoam_nutkRoughWallFunction_note = lit [
        ''A wall nut WITH HISTORY: calcNut clamps the log-law value to [0.5, 2]*max(the patch\'s previous value, '',
        ''nu_w), and the first call -- validate() -- reads the case file\'s `value`, which is therefore '',
        ''MUST_READ and load-bearing; Ks and Cs are MUST_READ per-face scalarFields, not PatchFunction1s. '',
        ''It has no yPlusLam branch and keeps the log law\'s `- 1`; its association is not nutk\'s '',
        ''(uStar*y/nu, sqrt(sqrt(Cmu))). brae\'s NutkRoughPatchField keeps value_ across evaluate(), as '',
        ''OpenFOAM\'s fixedValue-derived class does, and correctNutField dispatches on the patch\'s class. '',
        ''The device closures recompute the wall nut from k with no history and refuse it by name, as do '',
        ''the legacy drivers\' selectNutWall and interFoam\'s kEpsilon reader.'']\<close>

definition inf_interFoam_nutkRoughWallFunction :: component where [manifest_rows]:
  \<open>inf_interFoam_nutkRoughWallFunction =
     [(''name'', PStr ''interFoam_nutkRoughWallFunction''),
      (''of_symbol'', PStr ''nutkRoughWallFunctionFvPatchScalarField''),
      (''of_file'', PStr inf_interFoam_nutkRoughWallFunction_of_file),
      (''classification'', PStr ''GPU_REQUIRED''),
      (''status'', PStr ''REIMPLEMENT''),
      (''brae_reference'', PStr ''src/TurbulenceModels/turbulenceModels/derivedFvPatchFields/wallFunctions/nut_wall_function.cu''),
      (''validation'', PStr inf_interFoam_nutkRoughWallFunction_validation),
      (''note'', PStr inf_interFoam_nutkRoughWallFunction_note)]\<close>

definition interFoam_components1 :: "component list" where
  "interFoam_components1 =
     [inf_interFoam_main,
      inf_interFoam_alphaEqn,
      inf_interFoam_MULES,
      inf_interFoam_CMULES,
      inf_interFoam_interfaceProperties,
      inf_interFoam_twoPhaseMixture,
      inf_interFoam_immiscibleMixture,
      inf_interFoam_UEqn,
      inf_interFoam_pEqn,
      inf_interFoam_smoothSolver,
      inf_interFoam_turbulence,
      inf_interFoam_kOmegaSST,
      inf_interFoam_MRF,
      inf_interFoam_fvOptions,
      inf_interFoam_mangroves,
      inf_interFoam_PBiCG,
      inf_interFoam_CrankNicolson,
      inf_interFoam_setRDeltaT,
      inf_interFoam_localEuler,
      inf_interFoam_nutkRoughWallFunction]"

lemma interFoam_components1_ok: "list_all row_ok interFoam_components1"
  by (simp add: interFoam_components1_def manifest_rows row_simps)

lemma interFoam_components1_names:
  "map row_name interFoam_components1 =
     [''interFoam_main'',
      ''interFoam_alphaEqn'',
      ''interFoam_MULES'',
      ''interFoam_CMULES'',
      ''interFoam_interfaceProperties'',
      ''interFoam_twoPhaseMixture'',
      ''interFoam_immiscibleMixture'',
      ''interFoam_UEqn'',
      ''interFoam_pEqn'',
      ''interFoam_smoothSolver'',
      ''interFoam_turbulence'',
      ''interFoam_kOmegaSST'',
      ''interFoam_MRF'',
      ''interFoam_fvOptions'',
      ''interFoam_mangroves'',
      ''interFoam_PBiCG'',
      ''interFoam_CrankNicolson'',
      ''interFoam_setRDeltaT'',
      ''interFoam_localEuler'',
      ''interFoam_nutkRoughWallFunction'']"
  by (simp add: interFoam_components1_def row_name_def manifest_rows dict_get_Cons)

end
