(* ===== verification/Manifest_InterFoam2.thy ===== *)
theory Manifest_InterFoam2
  imports Manifest_Data
begin

text \<open>
  The curated table of interFoam in \<open>tools/of_manifest.py\<close>, lines 3080 to 4703, row by row, and the two facts
  about it that the emitter relies on: every row can be printed, and the names of the rows differ.
\<close>

definition inf_interFoam_outletPhaseMeanVelocity_of_file :: string where
  \<open>inf_interFoam_outletPhaseMeanVelocity_of_file = ''src/finiteVolume/fields/fvPatchFields/derived/outletPhaseMeanVelocity/outletPhaseMeanVelocityFvPatchVectorField.C''\<close>

definition inf_interFoam_outletPhaseMeanVelocity_validation :: string where
  \<open>inf_interFoam_outletPhaseMeanVelocity_validation = lit [
        ''tests/interfoam_dtchull_vs_openfoam.sh, RAS/DTCHull\'s U outlet as shipped (Umean 1.668), both '',
        ''profiles, HOST ONLY: the outlet\'s U face by face 5.8e-12 (ras) and 3.2e-12 (laminar) after ten '',
        ''steps, every count OpenFOAM\'s (2.1e-12 on ras since the cached grad(U) ran). Witness, OpenFOAM '',
        ''against itself with an inletOutlet there: k '',
        ''2.7e-02 at the first step, alpha 9.9e-04 at the last. CONTROLS: never updated, alpha 7.4e-02; '',
        ''updated in the first corrector too (ignoring the updated() lag), U 9.6e-05, k 9.8e-03. NOT '',
        ''CLAIMED: a dry patch (refused: OpenFOAM\'s phase mean is 0/0), a missing value (refused). DEVICE '',
        ''ARM (`laminar device`): the loop\'s U hook updates it at the same instants -- the assembly and '',
        ''each corrector\'s evaluate, not the still-updated first corrector nor the predictor\'s own '',
        ''evaluate (DeviceUBoundaryCall::evaluateAfterPredictor). The outlet face by face 4.6e-15 after '',
        ''one step, 1.4e-08 after ten (the device loop\'s CMULES amplification, see interFoam_localEuler); '',
        ''frozen, 2.7e-02; the lag ignored, U 1.5e-05 after three steps against a 6.3e-11 run.'']\<close>

definition inf_interFoam_outletPhaseMeanVelocity_note :: string where
  \<open>inf_interFoam_outletPhaseMeanVelocity_note = lit [
        ''A mixed U condition with ONE valueFraction per patch: updateCoeffs clips the phase field\'s stored '',
        ''patch values to [0, 1], forms Uzgmean = gSum(alpha*(Sf & Uzg))/gSum(alpha*magSf) from U\'s face '',
        ''cells AS THEY STAND, and sets refValue 0, vf 1 - Umean/Uzgmean (Uzgmean >= Umean) or refValue '',
        ''(Umean + Uzgmean)*nf, vf 1 - Uzgmean/Umean. The instants are OpenFOAM\'s: the UEqn assembly (the '',
        ''step\'s starting cells) and each pressure corrector\'s U.correctBoundaryConditions() -- but NOT the '',
        ''first corrector after an unsolved assembly, where the patch is still updated() and blends with '',
        ''the assembly\'s coefficients (PressureStepInput::uUpdateCoeffsFromCells, uPatchesUpdatedAtEntry). '',
        ''The CONSTRUCTOR\'s coefficients are OpenFOAM\'s too: refValue 0, refGrad 0, valueFraction 0, so '',
        ''snGrad() is 0 before the first update -- which a cached grad(U) formed at validate reads.'']\<close>

definition inf_interFoam_outletPhaseMeanVelocity :: component where [manifest_rows]:
  \<open>inf_interFoam_outletPhaseMeanVelocity =
     [(''name'', PStr ''interFoam_outletPhaseMeanVelocity''),
      (''of_symbol'', PStr ''outletPhaseMeanVelocityFvPatchVectorField''),
      (''of_file'', PStr inf_interFoam_outletPhaseMeanVelocity_of_file),
      (''classification'', PStr ''GPU_REQUIRED''),
      (''status'', PStr ''REIMPLEMENT''),
      (''brae_reference'', PStr ''src/finiteVolume/fields/fv_patch_field.cuh''),
      (''validation'', PStr inf_interFoam_outletPhaseMeanVelocity_validation),
      (''note'', PStr inf_interFoam_outletPhaseMeanVelocity_note)]\<close>

definition inf_interFoam_piovTangentialVelocity_of_file :: string where
  \<open>inf_interFoam_piovTangentialVelocity_of_file = lit [
        ''src/finiteVolume/fields/fvPatchFields/derived/pressureInletOutletVelocity/'',
        ''pressureInletOutletVelocityFvPatchVectorField.C'']\<close>

definition inf_interFoam_piovTangentialVelocity_validation :: string where
  \<open>inf_interFoam_piovTangentialVelocity_validation = lit [
        ''tests/interfoam_dtchullmoving_vs_openfoam.sh, RAS/DTCHullMoving\'s atmosphere as shipped '',
        ''(`tangentialVelocity $internalField`, (-1.668 0 0)) with the mesh FROZEN and grad(U) '',
        ''UNCACHED on both codes (the frozen mesh makes the cache live; as shipped the moving mesh bypasses it): ten Euler steps, alpha 3.0e-14, p_rgh '',
        ''1.3e-11, U 2.9e-13, k 3.2e-13, omega 6.2e-13, nut 7.7e-12, the atmosphere\'s U face by '',
        ''face 3.9e-15 and its totalPressure p_rgh 0, every p_rgh and alpha count OpenFOAM\'s; '',
        ''427 of 798 atmosphere faces inflow. Controls: the entry stripped U 3.9e-05, the '',
        ''atmosphere 1.0; its sign flipped U 3.0e-05, the atmosphere\'s U 2.0; OpenFOAM without '',
        ''the entry against itself U 1.2e-04; the refValue dropped from the inflow value alone the stripped '',
        ''entry\'s digits exactly. tests/test_piov_sngrad.cu legs 5-10 on a tilted normal: the '',
        ''projection, the evaluate and snGrad bit for bit against a transcription, the '',
        ''construction-time normals kept, the reader\'s forms. NOT CLAIMED: snGrad\'s refValue term '',
        ''end to end (dropped alone it reads the unbroken run to the last digit: nothing on this '',
        ''path reads the atmosphere\'s snGrad), the projection and the construction-time normals '',
        ''end to end (the atmosphere is axis-aligned), the cached grad(U), the moving mesh, the '',
        ''device (refused).'']\<close>

definition inf_interFoam_piovTangentialVelocity_note :: string where
  \<open>inf_interFoam_piovTangentialVelocity_note = lit [
        ''Host only for now: interFoam CLAIMS the entry (inter_case_cpp.cu claimTangentialVelocity) and '',
        ''hands it to the patch field, which makes refValue = tv - n*(n & tv) once from the '',
        ''start-time normals; the shared factory still refuses it for every other solver, the device '',
        ''builder refuses a patch that carries one, and a refining mesh is refused at the claim. With '',
        ''a refValue the inflow value and snGrad are directionMixed\'s evaluate term for term; the '',
        ''refValue-free arithmetic is unchanged.'']\<close>

definition inf_interFoam_piovTangentialVelocity :: component where [manifest_rows]:
  \<open>inf_interFoam_piovTangentialVelocity =
     [(''name'', PStr ''interFoam_piovTangentialVelocity''),
      (''of_symbol'', PStr ''pressureInletOutletVelocityFvPatchVectorField''),
      (''of_file'', PStr inf_interFoam_piovTangentialVelocity_of_file),
      (''classification'', PStr ''GPU_REQUIRED''),
      (''status'', PStr ''REIMPLEMENT''),
      (''brae_reference'', PStr ''src/finiteVolume/fields/fv_patch_field.cuh''),
      (''validation'', PStr inf_interFoam_piovTangentialVelocity_validation),
      (''note'', PStr inf_interFoam_piovTangentialVelocity_note)]\<close>

definition inf_interFoam_cacheGradU_validation :: string where
  \<open>inf_interFoam_cacheGradU_validation = lit [
        ''tests/interfoam_dtchull_vs_openfoam.sh `ras`, RAS/DTCHull\'s `cache { grad(U); }` as shipped, '',
        ''HOST ONLY, ten steps: alpha 6.0e-10, p_rgh 1.1e-09, U 5.1e-13, k 3.3e-12, omega 9.4e-12, '',
        ''nut 1.0e-11, every count OpenFOAM\'s; OpenFOAM\'s one-ulp floor 2.4e-10, 5.0e-10, 1.7e-13, '',
        ''5.7e-13, 1.3e-12, 3.4e-12. Witness, OpenFOAM cached against uncached: U 2.0e-06 at the first '',
        ''step, k 8.1e-03 and nut 2.6e-02 at the second. CONTROL: every grad(U) formed afresh, U 1.8e-05, '',
        ''k 2.6e-03, nut 2.3e-02. NOT CLAIMED: laminar, kEpsilon, LES, MRF or U changed since the '',
        ''closure formed it (refused), a refining mesh (refused), any other cached name (refused). On a '',
        ''motion-solver mesh OpenFOAM bypasses the registry at every step (changing() from the first '',
        ''update), so the cache is inert and both loops run it (interfoam_moving_vs_openfoam `esd`, '',
        ''RAS/electrostaticDeposition). DEVICE ARM (`ras device`, DTCHull as shipped): DeviceGradUCache '',
        ''-- validate()\'s gradient uploaded from the host, each correct\'s re-formed on the device from '',
        ''U\'s stored patch values, consumed by all four grad(U) sites of the shared assembly '',
        ''(MomentumInput::gradUGivenMemo, deviceDivDevReff\'s gradUGiven/gradBGiven) and counted: 10 of '',
        ''10 assemblies. One step against OpenFOAM\'s cached run U 6.1e-13 (its cached-vs-uncached gap '',
        ''2.0e-06); ten alpha 6.9e-10, U 4.5e-10, k 4.0e-10. CONTROL on the device arm: U 1.8e-05, k '',
        ''2.6e-03, nut 2.3e-02, the host arm\'s digits, 0 of 3 assemblies took it. NOT CLAIMED on the '',
        ''device: beside a limited or least-squares grad(U) or a coupled pair on a static mesh '',
        ''(refused).'']\<close>

definition inf_interFoam_cacheGradU_note :: string where
  \<open>inf_interFoam_cacheGradU_note = lit [
        ''gradScheme::grad keeps a registry field under the NAME grad(U) and returns it while U\'s eventNo '',
        ''is unchanged (solution\'s DebugSwitch prints Calculating/Reusing/Updating). On DTCHull kOmegaSST\'s '',
        ''validate forms it, the three UEqn sites asking for the name -- linearUpwind\'s correction, the '',
        ''dev2 term, the corrected laplacian\'s fullGradCorrection -- reuse it, and turbulence->correct '',
        ''updates it for the next step. It differs from the uncached answer because the fvMatrix '',
        ''constructor restores U\'s eventNo around updateCoeffs (fvMatrix.C:394-397), so a patch that '',
        ''evaluates there -- pressureInletOutletVelocity -- moves U\'s patch values under a gradient that is '',
        ''not refreshed; the cached field\'s boundary is gaussGrad\'s correction against the snGrad() of '',
        ''THAT moment, so the constructor-state coefficients of every mixed U patch are read.'']\<close>

definition inf_interFoam_cacheGradU :: component where [manifest_rows]:
  \<open>inf_interFoam_cacheGradU =
     [(''name'', PStr ''interFoam_cacheGradU''),
      (''of_symbol'', PStr ''fv::gradScheme::grad''),
      (''of_file'', PStr ''src/finiteVolume/finiteVolume/gradSchemes/gradScheme/gradScheme.C''),
      (''classification'', PStr ''GPU_REQUIRED''),
      (''status'', PStr ''REIMPLEMENT''),
      (''brae_reference'', PStr ''src/applications/solvers/interFoam/inter_turbulence_cpp.cuh''),
      (''validation'', PStr inf_interFoam_cacheGradU_validation),
      (''note'', PStr inf_interFoam_cacheGradU_note)]\<close>

definition inf_interFoam_variableHeightFlowRate_of_file :: string where
  \<open>inf_interFoam_variableHeightFlowRate_of_file = lit [
        ''src/finiteVolume/fields/fvPatchFields/derived/variableHeightFlowRateInletVelocity/'',
        ''variableHeightFlowRateInletVelocityFvPatchVectorField.C'']\<close>

definition inf_interFoam_variableHeightFlowRate_validation :: string where
  \<open>inf_interFoam_variableHeightFlowRate_validation = lit [
        ''tests/interfoam_weiroverflow_vs_openfoam.sh, real OpenFOAM on RAS/weirOverflow AS SHIPPED (its '',
        ''own blockMesh, 5080 cells non-orthogonal to 26.4 degrees, setFields), ten fixed steps of the '',
        ''tutorial\'s deltaT 1e-3. MEASURED: all 30 p_rgh, 10 epsilon and 10 k iteration counts '',
        ''OpenFOAM\'s; alpha 4.0e-13, p_rgh 8.0e-13, U 1.8e-11, k 5.1e-14, epsilon 6.2e-14, nut 8.8e-14; '',
        ''the inlet\'s velocity 2.7e-13 of its largest value, face by face against the `value` OpenFOAM '',
        ''writes; bounds at about 30x. One p_rgh initial residual is 7.2e-08 out -- step one\'s third '',
        ''corrector, itself 2.8e-05 after a PCG solve stopped at relTol 0.05, where p_rgh agrees to '',
        ''8e-13 -- and that bound is 2e-06 for that stated reason. THE CONTROL: OpenFOAM with the inlet '',
        ''U a fixedValue at the file\'s (0 0 0), 100% of U. BROKEN ONCE EACH (U): U_p without the '',
        ''alpha_p weight 7.6e-01; avgU over the whole inlet area 6.0e-01; alpha_p from the face cells '',
        ''4.7e-03; ddtCorr\'s boundary half dropped 3.6e-05 and 22 of 30 p_rgh counts; the alpha '',
        ''condition never updated -- the inlet stays dry and the velocity condition refuses by name. '',
        ''THE ALPHA CONDITION HAS NO CONTROL ON THE CASE: inside [0, 1] its value is the face cell\'s '',
        ''on inflow and on outflow, and an inletOutlet of 0 in its place sends OpenFOAM itself to NaN '',
        ''(the velocity condition divides by a wet area of zero). Its per-face logic, with bounds '',
        ''that are not 0 and 1, is held by tests/test_variable_height_flow_rate.cu against '',
        ''OpenFOAM\'s text, with an inletOutlet as the control. THE DEVICE LOOP RUNS THIS CASE '',
        ''NOW (2026-09-20), at the same bounds: alpha 2.4e-13, p_rgh 4.3e-13, U 5.1e-11, its inlet '',
        ''5.6e-13 face by face. It took ddtCorr\'s BOUNDARY half in the device pressure step (the '',
        ''device already computed it, already zeroed where U fixes a value, and dropped it: BROKEN '',
        ''U 3.6e-05, p_rgh 1.3e-06 against a bound of 5.0e-10) and the velocity condition rebuilt in '',
        ''the U-boundary hook from the phase fraction on its patch (BROKEN U 1.0000e+00, the inlet '',
        ''3.6e+00). alpha\'s own condition also drove a change -- MULES\'s per-face fixesValue mask is '',
        ''now rebuilt from the patch\'s valueFraction rather than taken once from the patch\'s '',
        ''fixesValue() -- and THAT IS NOT CLAIMED: the mask varies here (13 of 44 faces outflow at '',
        ''the end, asserted by the gate) but the answer does not depend on it, since dropping the '',
        ''refresh changes no digit and forcing the mask to zero over the whole patch moves p_rgh from '',
        ''4.2981e-13 to 4.3078e-13 and nothing else. NOT CLAIMED: a flowRate that varies in time '',
        ''(refused). AND THE ARM FOUND A DEFECT IN ANOTHER CASE: adding the boundary half put '',
        ''RAS/angledDuct\'s `inactive` arm 1.4e-11 from OpenFOAM where it had been 7.6e-15, because the '',
        ''device formed it from the face CELL\'s U.oldTime() while fvc::dotInterpolate(Sf, U.oldTime()) '',
        ''on an uncoupled patch is `pSf & vf.boundaryField()[pi]`, the STORED patch value '',
        ''(surfaceInterpolationScheme.C:296-298) -- the same number wherever the patch value follows '',
        ''the cell, and not on a SLIP wall. U\'s patch values are snapshotted with its cells now. '',
        ''STILL RED and not from this work: the k FINAL-residual arm, OpenFOAM 8.189e-14 '',
        ''against brae 8.092e-14, two stopping points at round-off, awaiting a decision.'']\<close>

definition inf_interFoam_variableHeightFlowRate_note :: string where
  \<open>inf_interFoam_variableHeightFlowRate_note = lit [
        ''TWO CONDITIONS. variableHeightFlowRateInletVelocity is a fixedValue whose updateCoeffs rebuilds '',
        ''n*avgU*alpha_p, avgU = -flowRate/gSum(magSf*alpha_p), from the phase field\'s STORED patch values '',
        ''clipped to [0, 1]; the driver hands them over at the momentum assembly, where the flow-rate inlet '',
        ''is refreshed too. variableHeightFlowRate is a mixed condition (refGrad 0, assignable false) whose '',
        ''updateCoeffs sets, where phi < -SMALL, valueFraction 1 and refValue the face cell\'s value '',
        ''clipped at lowerBound and upperBound, and elsewhere zeroGradient; the flux reaches it through '',
        ''updateFromFlux and the cells through evaluate(). WHAT THE GATE FOUND WAS IN THE PRESSURE '',
        ''EQUATION. brae added fvc::ddtCorr to phiHbyA on the internal faces only; OpenFOAM adds a whole '',
        ''surface field and zeroes the coupling coefficient only where U FIXES A VALUE (ddtScheme.C, '',
        ''fvcDdtPhiCoeff). weirOverflow\'s outlet is `U zeroGradient`, the first gated open patch that '',
        ''fixes nothing: phi 3.2e-04 out at the outlet after the third step -- when its flux turned '',
        ''outward and the limiter\'s coefficient left zero -- and U 3.6e-05 after ten. Localised by where '',
        ''and when (cells, stored patch values and phi all agreed to 3e-10 after two steps), and '',
        ''converging the pressure solves to 1e-13 changed nothing, which ruled the stopping point out. '',
        ''The boundary term reads U.oldTime()\'s PATCH value, not the face cell\'s (fvc::dotInterpolate): '',
        ''on angledDuct\'s tilted slip wall the cell\'s velocity made a correction OpenFOAM does not have, '',
        ''and that gate\'s floor arm caught it (4e-15 to 1.4e-11). The device pressure equation has no '',
        ''boundary half and its header said OpenFOAM has none; corrected, and the device loop refuses an '',
        ''open patch whose U fixes no value. HOST ONLY SO FAR.'']\<close>

definition inf_interFoam_variableHeightFlowRate :: component where [manifest_rows]:
  \<open>inf_interFoam_variableHeightFlowRate =
     [(''name'', PStr ''interFoam_variableHeightFlowRate''),
      (''of_symbol'', PStr ''variableHeightFlowRateInletVelocityFvPatchVectorField''),
      (''of_file'', PStr inf_interFoam_variableHeightFlowRate_of_file),
      (''classification'', PStr ''GPU_REQUIRED''),
      (''status'', PStr ''REIMPLEMENT''),
      (''brae_reference'', PStr ''src/finiteVolume/fields/fv_patch_field.cuh''),
      (''validation'', PStr inf_interFoam_variableHeightFlowRate_validation),
      (''note'', PStr inf_interFoam_variableHeightFlowRate_note)]\<close>

definition inf_interFoam_LESkEqn_validation :: string where
  \<open>inf_interFoam_LESkEqn_validation = lit [
        ''tests/interfoam_les_vs_openfoam.sh, real OpenFOAM on LES/nozzleFlow2D (Allrun\'s mesh: '',
        ''blockMesh and two topoSet/refineMesh passes, 20603 cells, an axisymmetric WEDGE, '',
        ''non-orthogonal to 40 degrees), 100 fixed steps of 1e-9. MEASURED: alpha 6.6e-12, p_rgh '',
        ''8.2e-11, U 4.5e-12, k 2.1e-12, nut 1.1e-12; all 400 p_rgh and 100 k iteration counts and '',
        ''every k final residual OpenFOAM\'s; the filter width 1.1e-15 before and after smoothing '',
        ''against the delta OpenFOAM writes, and 8.2e-16 on the same mesh made 3-D. THE CONTROL: '',
        ''OpenFOAM run laminar, 19% of U. tools/dumpKEqn is OpenFOAM\'s kEqn with its stages '',
        ''written; at step one G, divU, the convection and diffusion coefficients, the matrix '',
        ''and the solved k agree with it to 1e-12. BROKEN ONCE EACH, fourteen: every term of the '',
        ''equation, the delta\'s smoothing, its 2-D branch, the wave\'s tolerance, validate(), the '',
        ''limitedLinear scheme -- all red (the script tabulates U, k and the p_rgh counts). NOT '',
        ''DISCRIMINATED: Ce and kMin from the LES dictionary rather than kEqnCoeffs (the case '',
        ''leaves both at their defaults). NOT CLAIMED, each refused by name: every other LESModel '',
        ''and LESdelta, `density variable`, k schemes other than upwind and limitedLinear, '',
        ''gradients other than Gauss linear, nut wall functions under LES, a coupled patch under '',
        ''the smooth delta, and the device loop.'']\<close>

definition inf_interFoam_LESkEqn_note :: string where
  \<open>inf_interFoam_LESkEqn_note = lit [
        ''kEqn in the uniform lineage: ddt(k) + div(phi,k) - laplacian(nut + nu, k) == nut*(grad(U) && '',
        ''devTwoSymm(grad(U))) - SuSp(2/3 divU, k) - Sp(Ce*sqrt(k)/delta, k); bound; nut = '',
        ''Ck*sqrt(k)*delta. The filter width is les_delta_cpp.cu: cubeRootVol (sqrt(V/thickness) on a '',
        ''2-D mesh, and a wedge is 2-D to it -- calcDirections knocks the wedge normal out of '',
        ''geometricD) and smooth, a FaceCellWave transcribed in OpenFOAM\'s visit order, since a '',
        ''value is taken only when it is 1% larger and so the order is part of the answer. WHAT THE '',
        ''GATE FOUND was outside the model, by running the case LAMINAR in both codes first: the host '',
        ''wedge had no vector matrix coefficients (see interFoam_wedgeCoefficients); grad(U)\'s wedge '',
        ''value was not rotated; and fvc::gaussGrad interpolated as w*P + (1 - w)*N where OpenFOAM '',
        ''writes lambda*(P - N) + N -- on the uniform k of step one, limitedLinear\'s limiter is '',
        ''decided by the SIGN of a gradient of a uniform field, which is that ulp: k 2.3e-03 out '',
        ''after one step, 3.9e-14 with OpenFOAM\'s arithmetic. HOST ONLY SO FAR.'']\<close>

definition inf_interFoam_LESkEqn :: component where [manifest_rows]:
  \<open>inf_interFoam_LESkEqn =
     [(''name'', PStr ''interFoam_LESkEqn''),
      (''of_symbol'', PStr ''kEqn''),
      (''of_file'', PStr ''src/TurbulenceModels/turbulenceModels/LES/kEqn/kEqn.C''),
      (''classification'', PStr ''GPU_REQUIRED''),
      (''status'', PStr ''REIMPLEMENT''),
      (''brae_reference'', PStr ''src/TurbulenceModels/turbulenceModels/LES/kEqn/les_kEqn_cpp.cu''),
      (''validation'', PStr inf_interFoam_LESkEqn_validation),
      (''note'', PStr inf_interFoam_LESkEqn_note)]\<close>

definition inf_interFoam_wedgeCoefficients_validation :: string where
  \<open>inf_interFoam_wedgeCoefficients_validation = lit [
        ''tests/interfoam_les_vs_openfoam.sh (LES/nozzleFlow2D, every cell on the two wedge '',
        ''planes). BROKEN ONCE EACH (U after 100 steps): the host coefficients as the base '',
        ''class\'s 1.1e-04; grad(U)\'s wedge value unrotated 2.9e-04. tests/test_wedge_patch.cu '',
        ''holds the geometry. NOT DISCRIMINATED: grad(alpha)\'s wedge value rotated for the '',
        ''interface normal -- provably invisible, the normal correction removes the one component '',
        ''nHatf keeps. symmetryPlane and symmetry give the gradient field THEIR constraint type '',
        ''the same way: fvc::gradUBoundary mirror-averages the cell gradient there, gated by '',
        ''tests/interfoam_leakage_vs_openfoam.sh (HbyA 3% out beside its symmetry patches '',
        ''without it; U 7.8e-02 with it broken).'']\<close>

definition inf_interFoam_wedgeCoefficients_note :: string where
  \<open>inf_interFoam_wedgeCoefficients_note = lit [
        ''The host WedgePatchField overrode evaluate() alone: a vector wedge assembled with the '',
        ''zeroGradient coefficients, where transformFvPatchField (.C:95-136) has valueInternalCoeffs 1 - '',
        ''d, gradientInternalCoeffs -deltaCoeffs*d, the boundary coefficients from snGrad and the patch '',
        ''internal field, d = 0.5*(1 - cellT_kk), and wedgeFvPatchField\'s snGrad (cellT & pif - pif)*'',
        ''0.5*deltaCoeffs. The device built the right coefficients from wedgeCellT() in its mixed slot, '',
        ''so only the host was wrong, and no host gate had a wedge until nozzleFlow2D: UEqn.A() 2e-05 '',
        ''low in every cell, 1.7e-04 in the axis corner, against OpenFOAM\'s dumped A(). SECOND: '',
        ''fvPatchField::New gives a constraint patch its own type in a DERIVED field too, so grad(U) '',
        ''has a wedge patch whose value is faceT & G & faceT^T; gaussGrad::correctBoundaryConditions '',
        ''starts from that, and fvc::gradUBoundary started from the cell gradient.'']\<close>

definition inf_interFoam_wedgeCoefficients :: component where [manifest_rows]:
  \<open>inf_interFoam_wedgeCoefficients =
     [(''name'', PStr ''interFoam_wedgeCoefficients''),
      (''of_symbol'', PStr ''wedgeFvPatchField''),
      (''of_file'', PStr ''src/finiteVolume/fields/fvPatchFields/constraint/wedge/wedgeFvPatchField.C''),
      (''classification'', PStr ''GPU_REQUIRED''),
      (''status'', PStr ''REIMPLEMENT''),
      (''brae_reference'', PStr ''src/finiteVolume/fields/fv_patch_field.cuh''),
      (''validation'', PStr inf_interFoam_wedgeCoefficients_validation),
      (''note'', PStr inf_interFoam_wedgeCoefficients_note)]\<close>

definition inf_interFoam_cyclic_validation :: string where
  \<open>inf_interFoam_cyclic_validation = lit [
        ''tests/interfoam_baffle_vs_openfoam.sh, real OpenFOAM on RAS/damBreakPorousBaffle (blockMesh '',
        ''then createBaffles: 13 internal faces become the cyclic pair porous_half0/1; 2268 cells; '',
        ''kEpsilon, MULESCorr, three outer correctors, DICPCG and symGaussSeidel, linearUpwind '',
        ''grad(U)), fixed steps of 1e-3. Profiles `cyclic` (p_rgh a plain cyclic, 20 steps), '',
        ''`cyclicWet` (the water column staged ACROSS the baffle, 60 steps) and `cyclicWetExplicit` '',
        ''(MULESCorr off). MEASURED: cyclic alpha 6.9e-15, p_rgh 6.6e-15, U 5.0e-14, k 1.8e-14, '',
        ''epsilon 4.6e-14, nut 1.1e-14, every p_rgh, alpha, epsilon and k iteration count '',
        ''OpenFOAM\'s; cyclicWet alpha 2.4e-13, p_rgh 5.1e-13, U 3.2e-12; cyclicWetExplicit alpha '',
        ''3.5e-14, U 4.0e-13. THE CONTROL: OpenFOAM with the pair as two WALLS -- what the shared '',
        ''factory\'s zeroGradient placeholder would have run -- 34% of U. THE WET PROFILES\' p_rgh '',
        ''solves are pinned at 1e-13 in both codes: at the case\'s 1e-07 the wet pair\'s first system '',
        ''moves 4.0e-05 under ONE reordered dot product in brae\'s own PCG (1e-08 to 1e-10 on the '',
        ''other systems), so that tolerance measures two Krylov paths\' stopping points; counts are '',
        ''then held to one apart at an edge stop (15 of 180). BROKEN ONCE EACH, 20 breaks of the '',
        ''coupling, every one red on a profile (the script tabulates U per profile): from the '',
        ''laplacian\'s interface coefficient dropped, 4.0e-01, down to DkEff on the pair taken from '',
        ''patch values, 1.9e-10; ten of them change NO digit of the two shipped profiles, where '',
        ''only air reaches the baffle, which is why the wet ones exist. NOT DISCRIMINATED: '',
        ''fvMatrix::relax\'s coupled branch, the neighbour cell in the EXPLICIT limiter\'s extrema, '',
        ''a vector gradient read from the stored cyclic value, CorrectPhi across the pair (phi '',
        ''starts at 0). NOT CLAIMED, each refused by name (tests/interfoam_refusals.sh): across a '',
        ''cyclic, GAMG and PBiCGStab, a momentum predictor, div(rhoPhi,U) schemes other than '',
        ''upwind and linearUpwind, interfaceCompression, leastSquares and cellLimited gradients, a '',
        ''moving mesh, MRF, fvOptions, waves, kOmegaSST, a rotational or non-orthogonal pair; '',
        ''cyclicAMI, cyclicACMI, processor; the device loop, which refuses any cyclic.'']\<close>

definition inf_interFoam_cyclic_note :: string where
  \<open>inf_interFoam_cyclic_note = lit [
        ''brae\'s host interFoam had NO coupled patch: the shared factory builds a cyclic as a '',
        ''zeroGradient placeholder (its coupling belongs to the legacy drivers\' CyclicInterface), so the '',
        ''pair would have run as two walls, stopped only by CorrectPhi refusing for its own reason. The '',
        ''coupling is now OPT-IN: attachCyclicCoupling() fills FvPatch::coupled, nbrFaceCells, weights, '',
        ''delta, the coupled deltaCoeffs (1/|delta|), nonOrthDeltaCoeffs and correction vectors '',
        ''(cyclicFvPatch.C, basicFvGeometryScheme.C); only interFoam\'s host path calls it, so no other '',
        ''driver\'s operators change. WHAT BRANCHES ON IT: fvc (a coupled face is interpolated from its '',
        ''two CELLS, never a stored patch value -- HbyA\'s cyclic patch holds interpolate(rAU)*'',
        ''interpolate(H) and fvc::flux does not read it; snGrad with the scheme\'s deltaCoeffs and the '',
        ''correction); fvm (laplacian internalCoeffs = boundaryCoeffs = -gamma*magSf*dc, upwind div '',
        ''phi*w and -phi*(1-w), linearUpwind\'s coupled correction with the NEIGHBOUR\'s gradient); '',
        ''fvMatrix A, H, flux, relax; PCG/DIC and smoothSolver (diagonal folded, no source, Amul and '',
        ''residual through the interface, sumA, Gauss-Seidel\'s Jacobi update of bPrime per sweep); MULES '',
        ''and CMULES (neighbour cell in the extrema, per-cell limiter, and syncFaceList\'s minimum '',
        ''across the pair -- NOT a no-op in serial, as a note in mules_cpp.cu said); interFoam (phic '',
        ''left alone on a coupled face, nHatf from the two cells\' gradients, ddtCorr, phig and the '',
        ''reconstruction with the coupled rAUf, pcorr a plain cyclic). ALSO FOUND: `Gauss '',
        ''interfaceCompression vanLeer 1`, interfaceCompression.H\'s limited scheme, was read as plain '',
        ''vanLeer by a substring match and ran; refused. HOST ONLY SO FAR.'']\<close>

definition inf_interFoam_cyclic :: component where [manifest_rows]:
  \<open>inf_interFoam_cyclic =
     [(''name'', PStr ''interFoam_cyclic''),
      (''of_symbol'', PStr ''cyclicFvPatchField''),
      (''of_file'', PStr ''src/finiteVolume/fields/fvPatchFields/constraint/cyclic/cyclicFvPatchField.C''),
      (''classification'', PStr ''GPU_REQUIRED''),
      (''status'', PStr ''REIMPLEMENT''),
      (''brae_reference'', PStr ''src/finiteVolume/fvMesh/fv_patch.cuh''),
      (''validation'', PStr inf_interFoam_cyclic_validation),
      (''note'', PStr inf_interFoam_cyclic_note)]\<close>

definition inf_interFoam_cyclicACMI_validation :: string where
  \<open>inf_interFoam_cyclicACMI_validation = lit [
        ''tests/interfoam_leakage_vs_openfoam.sh, real OpenFOAM on RAS/damBreakLeakage as its '',
        ''Allrun meshes it (2268 cells; a createBaffles cyclicACMI pair of 13 faces whose '',
        ''non-overlap patches are symmetry planes; a coded per-face scale that opens two faces at '',
        ''t > 0.5), every solve pinned at 1e-13. MEASURED, 520 steps from t = 0 with the baffle '',
        ''opening at step 500: alpha 3.4e-13, p_rgh 1.5e-13, U 4.9e-12, k 9.2e-13, epsilon '',
        ''2.2e-13, nut 3.5e-13, the flux through the four baffle patches 3.2e-14 of its largest; '',
        ''and 30 steps restarted from OpenFOAM\'s own state at t = 0.49, U 5.2e-12. CONTROLS: the '',
        ''baffle never opened, U 100%; opened on every face, 179%. BROKEN ONCE EACH (U, leak / '',
        ''restart): MULES synced across the pair 1.7e-01; phic formed after the rescale 1.7e-09; '',
        ''no symmetry reflection of grad(U) 7.8e-02; the clock at 0 green / 1.0; the neighbour '',
        ''unscaled 2.7; the non-overlap patch at full area 7.0e-01; never rescaled 1.0; the '',
        ''patches\' |Sf| not reset 1.8. NOT DISCRIMINATED: recomputing the face cells\' volumes '',
        ''after the rescale (bitwise the same here). NOT CLAIMED, each refused: a pair not '',
        ''coincident face for face, a moving mesh, the explicit MULES path, icAlpha, scAlpha and '',
        ''alpha sub-cycling under a moving scale, and the device loop.'']\<close>

definition inf_interFoam_cyclicACMI_note :: string where
  \<open>inf_interFoam_cyclicACMI_note = lit [
        ''A COINCIDENT pair (createBaffles) gives each face one AMI partner, its twin, with weight 1 '',
        ''(measured: all 13 faces `1(i)`, weight `1(1)`), so the coupling is the cyclic\'s '',
        ''(coupleTranslationalPair) on areas the mask splits: coupled raw*max(tol, mask), '',
        ''non-overlap raw*(1 - min(max(mask, tol), 1 - tol)), mask = min(1 - tol, max(tol, '',
        ''scale*1)), tol 1e-10, the neighbour\'s scale a clone of the owner\'s evaluated on its own '',
        ''faces. The rescale runs once per time index, lazily in OpenFOAM, and WHERE is part of '',
        ''the answer: after alphaEqn.H forms phic on the old areas and before the pre-solve '',
        ''(alphaEqnStep\'s geometryUpdate). Found on the way: MULES does not sync its limiter across '',
        ''an AMI pair (interFoam_MULES); grad(U) on a symmetry patch is mirror-averaged '',
        ''(interFoam_wedgeCoefficients); the host loop\'s clock started at 0 on every restart. '',
        ''buildPatches\' ACMI refusal stays for every other driver; the interFoam host opts out '',
        ''with mirrorACMI. HOST ONLY SO FAR.'']\<close>

definition inf_interFoam_cyclicACMI :: component where [manifest_rows]:
  \<open>inf_interFoam_cyclicACMI =
     [(''name'', PStr ''interFoam_cyclicACMI''),
      (''of_symbol'', PStr ''cyclicACMIPolyPatch''),
      (''of_file'', PStr ''src/meshTools/AMIInterpolation/patches/cyclicACMI/cyclicACMIPolyPatch/cyclicACMIPolyPatch.C''),
      (''classification'', PStr ''GPU_REQUIRED''),
      (''status'', PStr ''REIMPLEMENT''),
      (''brae_reference'', PStr ''src/finiteVolume/fvMesh/fvPatches/constraint/cyclicACMI/cyclic_acmi_cpp.cu''),
      (''validation'', PStr inf_interFoam_cyclicACMI_validation),
      (''note'', PStr inf_interFoam_cyclicACMI_note)]\<close>

definition inf_interFoam_cyclicAMI_validation :: string where
  \<open>inf_interFoam_cyclicAMI_validation = lit [
        ''tests/interfoam_ami_vs_openfoam.sh, real OpenFOAM on RAS/mixerVesselAMI as Allrun.pre '',
        ''meshes it with the background block (50 50 100) coarsened to (22 22 44): 82,510 cells, '',
        ''8,872 faces a side, the rotor\'s cellZone turned by solidBodyMotionSolver at omega -5; '',
        ''kEpsilon, explicit MULES in two sub-cycles, momentum predictor, two outer correctors, '',
        ''correctPhi, grad(U) cellLimited, limited corrected 0.33, a rotatingWallVelocity shaft. '',
        ''STAGED IN BOTH CODES: p_rgh and pcorr PCG/DIC for GAMG (not ported across an AMI), every '',
        ''solve pinned at 1e-13, fixed steps of 2e-4. MEASURED, 100 steps (0.1 rad): alpha 4.4e-13, '',
        ''p_rgh 5.4e-14, U 3.5e-12, k 9.5e-14, epsilon 1.2e-13, nut 2.1e-12, the flux across the '',
        ''pair 1.3e-11 of its largest, the moved points bitwise; all 200 p_rgh, 600 U, 100 k, 100 '',
        ''epsilon and 101 pcorr counts OpenFOAM\'s. At the case\'s own tolerances U 3.9e-07 and 14 of '',
        ''200 p_rgh counts apart -- where two Krylov solvers stopped. CONTROL: the rotor held still, '',
        ''U 1.1e-01. BROKEN ONCE EACH (U after 100 steps): the AMI not '',
        ''recomputed after the move, refused by name; delta without the neighbour\'s interpolated half '',
        ''9.7e-03; no non-orthogonal correction on coupled faces 4.0e-02; ddtCorr live on the '',
        ''cyclicAMI 8.7e-03; MULES synced across it 1.4e-04; cellLimited\'s coupled range from the '',
        ''stored value 1.3e-03; grad(U) unlimited 2.7e-01; rotatingWallVelocity\'s omega flipped '',
        ''1.2e-03. NOT DISCRIMINATED: the segregated solve\'s coupled source added and taken back '',
        ''(round-off), kEpsilon\'s V0 and absolute divU under a rigid rotation. NOT CLAIMED, refused by name: '',
        ''GAMG across the pair, a transform, a periodic AMI, lowWeightCorrection, requireMatch '',
        ''false, any AMI keyword not read, a momentum predictor or a cellLimited grad(U) across a '',
        ''cyclic or cyclicACMI (ungated there), and the device loop.'']\<close>

definition inf_interFoam_cyclicAMI_note :: string where
  \<open>inf_interFoam_cyclicAMI_note = lit [
        ''THE COUPLING IS A STENCIL: FvPatch carries amiOffsets/amiNbrFaces/amiNbrCells/amiWeights, and '',
        ''every operator reads the neighbour through patchNeighbourValue -- the cell across a cyclic, the '',
        ''AMI\'s weighted sum (weightedSum, multiplyWeightedOp: zero, then += w*value slot by slot) across '',
        ''a cyclicAMI; nbrFaceCells is empty there. The owner side reads the AMI\'s src addressing, the '',
        ''other its tgt addressing (interpolateUntransformed). Geometry, cyclicAMIFvPatch.C: w = '',
        ''|dn|/(|d| + |dn|) with dn the AMI interpolate of the neighbour\'s nf & (Cf - Cn), delta = (Cf - '',
        ''Cn) - interpolate(neighbour\'s Cf - Cn), and basicFvGeometryScheme\'s coupled deltaCoeffs, '',
        ''nonOrthDeltaCoeffs and correction vectors from it. After every mesh move the AMI is recomputed '',
        ''and both patches coupled again (initMovePoints marks it stale; the next AMI() resets it). '',
        ''PORTED WITH IT, each found by the gate: the laplacian\'s non-orthogonal correction on coupled '',
        ''faces (fvm::laplacianCorrFluxCoupled, into the source and the pressure flux); '',
        ''fvMatrix::solveSegregated\'s coupled source (the vector bc*pnf added, each component\'s '',
        ''interface taken back); cellLimitedGrad\'s coupled range from patchNeighbourField; ddtCorr\'s '',
        ''coefficient zeroed on cyclicAMI; MULES left unsynced across it (syncTools does not reach an '',
        ''AMI). HOST ONLY SO FAR.'']\<close>

definition inf_interFoam_cyclicAMI :: component where [manifest_rows]:
  \<open>inf_interFoam_cyclicAMI =
     [(''name'', PStr ''interFoam_cyclicAMI''),
      (''of_symbol'', PStr ''cyclicAMIFvPatch''),
      (''of_file'', PStr ''src/finiteVolume/fvMesh/fvPatches/constraint/cyclicAMI/cyclicAMIFvPatch.C''),
      (''classification'', PStr ''GPU_REQUIRED''),
      (''status'', PStr ''REIMPLEMENT''),
      (''brae_reference'', PStr ''src/finiteVolume/fvMesh/fvPatches/constraint/cyclicAMI/cyclic_ami_cpp.cu''),
      (''validation'', PStr inf_interFoam_cyclicAMI_validation),
      (''note'', PStr inf_interFoam_cyclicAMI_note)]\<close>

definition inf_interFoam_faceAreaWeightAMI_validation :: string where
  \<open>inf_interFoam_faceAreaWeightAMI_validation = lit [
        ''tests/test_face_area_weight_ami.cu, run by tests/interfoam_ami_vs_openfoam.sh against the '',
        ''srcAddress/srcWeights/srcWeightsSum and tgt* OpenFOAM\'s own cyclicAMI holds after each of '',
        ''three steps of 2e-4 (a coded function object prints them): every partner set of all 8,872 '',
        ''faces a side OpenFOAM\'s, weights and sums 2.5e-14 and 4.3e-14, from OpenFOAM\'s points and '',
        ''from brae\'s own motion alike. CONTROL: OpenFOAM leaves 43 to 47 source faces a step less '',
        ''than 99% covered, which the test asserts -- an all-pairs search covers them in full, and '',
        ''BROKEN THAT WAY 47 source and 49 target partner sets differ, weight sums 3.8e-02 apart '',
        ''(and in the interFoam gate U 6.0e-05 after 100 steps). Also red: the weights normalised '',
        ''by the face area rather than their sum, 1.0e-01, and the interFoam run non-finite by '',
        ''step 6.'']\<close>

definition inf_interFoam_faceAreaWeightAMI_note :: string where
  \<open>inf_interFoam_faceAreaWeightAMI_note = lit [
        ''THE WALK IS THE ANSWER, not an implementation detail: OpenFOAM reaches a target face only '',
        ''through the neighbours of a face it has already kept, so a partner can be missed -- one step '',
        ''in, face 2354 gets two partners covering 96.4% of it and its weights are normalised by that. '',
        ''Transcribed: the walk from source 0 against target 0, PrimitivePatch\'s faceFaces order, the '',
        ''89-degree neighbour filter, LIFO processing, the seeds setNextFaces leaves (first overlap '',
        ''chosen, last overlap stored), the octree\'s nearest face found by brute force over '',
        ''face::nearestPoint\'s distance, restartUncoveredSourceFace below 0.95; triangles by face::split, '',
        ''areas by faceAreaIntersect (tri sliced by each target edge plane, target vertices 2, 1, 0), '',
        ''area normalisation `project`. HOST_ONLY: recomputed once per mesh move from the points, a '',
        ''geometric preprocessing step like the mesh motion itself (0.1 s at 8,872 faces a side).'']\<close>

definition inf_interFoam_faceAreaWeightAMI :: component where [manifest_rows]:
  \<open>inf_interFoam_faceAreaWeightAMI =
     [(''name'', PStr ''interFoam_faceAreaWeightAMI''),
      (''of_symbol'', PStr ''faceAreaWeightAMI''),
      (''of_file'', PStr ''src/meshTools/AMIInterpolation/AMIInterpolation/faceAreaWeightAMI/faceAreaWeightAMI.C''),
      (''classification'', PStr ''HOST_ONLY''),
      (''status'', PStr ''REIMPLEMENT''),
      (''brae_reference'', PStr ''src/meshTools/AMIInterpolation/faceAreaWeightAMI/face_area_weight_ami_cpp.cu''),
      (''validation'', PStr inf_interFoam_faceAreaWeightAMI_validation),
      (''note'', PStr inf_interFoam_faceAreaWeightAMI_note)]\<close>

definition inf_interFoam_codedPatchFunction1_validation :: string where
  \<open>inf_interFoam_codedPatchFunction1_validation = lit [
        ''tests/interfoam_leakage_vs_openfoam.sh (the scale that opens damBreakLeakage\'s baffle: '',
        ''the masks at the end are open on exactly the faces the code names, on both sides, and '',
        ''the neighbour\'s clone left unevaluated puts U 2.7 out); tests/interfoam_refusals.sh '',
        ''(codeInclude refused, a name the shim lacks -- this->time().timeIndex() -- refused '',
        ''with the compiler\'s output).'']\<close>

definition inf_interFoam_codedPatchFunction1_note :: string where
  \<open>inf_interFoam_codedPatchFunction1_note = lit [
        ''`code` pasted as the body of value(x) in a class that gives this->patch() and '',
        ''this->time(), as codedPatchFunction1Template does, compiled with g++ against a SHIM '',
        ''of OpenFOAM\'s scope: the coded Function1\'s scalar one plus Vector, Field, tmp, Zero, '',
        ''forAll, the field-vector inner product, a polyPatch with name/size/faceCentres and a '',
        ''Time with value/timeOutputValue. Not timeIndex(): OpenFOAM continues it across a '',
        ''restart from <start>/uniform/time, which brae does not read. The compile-and-load half '',
        ''is shared with the coded Function1 (coded_library). HOST_ONLY: evaluated once per step '',
        ''on the host, where the mask is formed.'']\<close>

definition inf_interFoam_codedPatchFunction1 :: component where [manifest_rows]:
  \<open>inf_interFoam_codedPatchFunction1 =
     [(''name'', PStr ''interFoam_codedPatchFunction1''),
      (''of_symbol'', PStr ''CodedField''),
      (''of_file'', PStr ''src/meshTools/PatchFunction1/CodedField/CodedField.C''),
      (''classification'', PStr ''HOST_ONLY''),
      (''status'', PStr ''REIMPLEMENT''),
      (''brae_reference'', PStr ''src/meshTools/PatchFunction1/CodedField/codedPatchFunction1.cu''),
      (''validation'', PStr inf_interFoam_codedPatchFunction1_validation),
      (''note'', PStr inf_interFoam_codedPatchFunction1_note)]\<close>

definition inf_interFoam_porousBafflePressure_of_file :: string where
  \<open>inf_interFoam_porousBafflePressure_of_file = lit [
        ''src/TurbulenceModels/turbulenceModels/derivedFvPatchFields/porousBafflePressure/'',
        ''porousBafflePressureFvPatchField.C'']\<close>

definition inf_interFoam_porousBafflePressure_validation :: string where
  \<open>inf_interFoam_porousBafflePressure_validation = lit [
        ''tests/interfoam_baffle_vs_openfoam.sh, profiles `porous` (RAS/damBreakPorousBaffle as '',
        ''createBaffles leaves it, 20 steps) and `porousWet` (the free surface staged across the '',
        ''baffle, 60 steps, p_rgh solves pinned at 1e-13). MEASURED: porous alpha 7.8e-15, p_rgh '',
        ''8.0e-15, U 9.9e-13, the jump 1.6e-12 of the one OpenFOAM writes, the pair\'s own p_rgh '',
        ''2.8e-13 on all 26 faces, every iteration count OpenFOAM\'s; porousWet alpha 6.1e-14, '',
        ''p_rgh 3.0e-13, U 1.1e-12, the jump -- NON-uniform there, rho_p varies along the baffle '',
        ''-- 5.4e-12. THE CONTROL: OpenFOAM\'s plain-cyclic answer, 2.0% and 4.5% of U. BROKEN ONCE '',
        ''EACH (U porous, porousWet): the jump left out of the solve\'s first Amul 2.2e-02, '',
        ''1.9e-02; out of the flux 2.8e+03, 4.1e-01; not negated on the other side 1.2e-01, '',
        ''8.7e-02; built from phiHbyA 1.4e-03, 2.4e-03; uniformJump ignored 5.9e-02, 6.7e-02; '',
        ''without rho_p NOTHING, 4.5e-02 (air alone reaches the shipped baffle, rho_p = 1); nu_p '',
        ''= nu(alpha_p) NOTHING, 1.05e-09. tests/test_porous_baffle_pressure.cu holds the '',
        ''per-face jump, reversed flow and sign(0) against OpenFOAM\'s text. NOT CLAIMED, refused '',
        ''by name: `relax`, `minJump`, a D or I that is not `constant`, a mass flux `phi`, a '',
        ''`jump` that is neither uniform nor a list; the device loop.'']\<close>

definition inf_interFoam_porousBafflePressure_note :: string where
  \<open>inf_interFoam_porousBafflePressure_note = lit [
        ''A fixedJump cyclic. Un = phi_p/magSf (gAverage under `uniformJump`); jump = -sign(Un)*(D*nu_p '',
        ''+ I*0.5*|Un|)*|Un|*length, times rho_p because p_rgh has the dimensions of pressure. Only the '',
        ''OWNER side computes it (fixedJump::setJump is a no-op on the other, whose jump() returns the '',
        ''owner\'s), at the pressure ASSEMBLY -- fvMatrix\'s constructor runs updateCoeffs -- from phi as '',
        ''the last corrector left it. It enters the solve through the interface update and ONLY when '',
        ''the operand is the field itself (jumpCyclicFvPatchFields.C, `only apply jump to original '',
        ''field`): in PCG the one Amul that builds the initial residual and the normalisation; and the '',
        ''flux through patchNeighbourField. WHAT THE GATE FOUND: porousWet at U 1.05e-09 where '',
        ''cyclicWet held 3e-12, and brae against itself under a round-off perturbation at 1e-13, so a '',
        ''difference and not sensitivity. The jump agreed to 5e-13 after 5 steps and drifted as the '',
        ''interface smeared over the baffle\'s faces. Refitting OpenFOAM\'s OWN written jump from its '',
        ''own written alpha was exact to 1e-15 except on the face whose two cells held alpha 0.679 '',
        ''and 0.520: 2.8e-08 out with nu_p = nu(alpha_p), 5e-16 with the two cells\' nu interpolated. '',
        ''CAUSE: v2412\'s `localConsistency` (default on, etc/controlDict:225) -- every GeometricField '',
        ''operation ends in correctLocalBoundaryConditions() (GeometricFieldFunctionsM.C), which '',
        ''re-evaluates a constraint patch of the RESULT: coupledFvPatchField::evaluateLocal is '',
        ''evaluate(). A derived field\'s cyclic patch value is the interpolation of its own CELLS, not '',
        ''the operation applied to the operands\' patch values. Same number for rho, linear in alpha; '',
        ''not for nu. The mixture\'s coupled patch values now come from the cells. HOST ONLY SO FAR.'']\<close>

definition inf_interFoam_porousBafflePressure :: component where [manifest_rows]:
  \<open>inf_interFoam_porousBafflePressure =
     [(''name'', PStr ''interFoam_porousBafflePressure''),
      (''of_symbol'', PStr ''porousBafflePressureFvPatchField''),
      (''of_file'', PStr inf_interFoam_porousBafflePressure_of_file),
      (''classification'', PStr ''GPU_REQUIRED''),
      (''status'', PStr ''REIMPLEMENT''),
      (''brae_reference'', PStr ''src/finiteVolume/fields/fv_patch_field.cuh''),
      (''validation'', PStr inf_interFoam_porousBafflePressure_validation),
      (''note'', PStr inf_interFoam_porousBafflePressure_note)]\<close>

definition inf_interFoam_permeableWall_of_file :: string where
  \<open>inf_interFoam_permeableWall_of_file = lit [
        ''src/finiteVolume/fields/fvPatchFields/derived/prghPermeableAlphaTotalPressure/'',
        ''prghPermeableAlphaTotalPressureFvPatchScalarField.C'']\<close>

definition inf_interFoam_permeableWall_validation :: string where
  \<open>inf_interFoam_permeableWall_validation = lit [
        ''tests/interfoam_permeable_vs_openfoam.sh, real OpenFOAM on laminar/damBreakPermeable (kEpsilon '',
        ''despite the directory; 2268 cells), fixed steps of 1e-3, two profiles. `shipped`, 20 steps, '',
        ''the case as it is: the wall is dry throughout. `wetWall`, 140 steps, the setFields box '',
        ''mirrored against the wall: 27 of its 50 faces wet at the start, 25 at the end. MEASURED: '',
        ''shipped alpha 8.5e-15, p_rgh 8.0e-15, U 2.7e-15, k 2.6e-15, epsilon 6.6e-15, nut 3.7e-15; '',
        ''wetWall alpha 4.0e-13, p_rgh 5.0e-14, U 1.4e-14, all 420 p_rgh counts OpenFOAM\'s. The '',
        ''wall\'s U and p_rgh face by face against the values OpenFOAM writes (shipped: 40 moving '',
        ''faces, 5.3e-16; wetWall: OpenFOAM writes uniform 0 and brae is held to exactly 0). THE '',
        ''CONTROL: OpenFOAM with the wall a noSlip and fixedFluxPressure, 99% of U on wetWall. BROKEN '',
        ''ONCE EACH (U shipped, U wetWall): hydrostatic term out 1.0, 1.0; pressure open on every '',
        ''face nothing, 17; velocity ignoring alpha nothing, 1.3e-01; threshold 0.5 for alphaMin '',
        ''0.01 nothing, 2.2e-02; U\'s patches updated in every corrector 8.6e-08, 3.4e-06; the '',
        ''dynamic term out 8.6e-08, 3.4e-06; the lag applied to pressureInletOutletVelocity too '',
        ''nothing, 3.9e-02. shipped cannot see four of the seven, which is why wetWall exists. '',
        ''tests/test_permeable_wall_conditions.cu holds the per-face logic against OpenFOAM\'s text, '',
        ''the `alpha none` half and strict pos included, with an inletOutlet as the control. NOT '',
        ''ASSERTED: epsilon\'s solver RESIDUALS (counts are) -- 1.8e-06 per step apart with the '',
        ''field at 7e-15, and 0.0 apart with the wall closed: brae\'s epsilonWallFunction is a '',
        ''zeroGradient whose rows setValues writes, OpenFOAM\'s derives from fixedValue, and on a '',
        ''wall that carries flux the two normalise differently. NOT DISCRIMINATED: whether the '',
        ''phase fraction reaches the patches before or after alpha\'s own boundary evaluation. NOT '',
        ''CLAIMED: wetWall beyond 140 steps; a mass flux `phi`, a `p` that is not uniform, an '',
        ''`alpha` naming another field (each refused by name, tests/interfoam_refusals.sh); the '',
        ''device loop (refused by name).'']\<close>

definition inf_interFoam_permeableWall_note :: string where
  \<open>inf_interFoam_permeableWall_note = lit [
        ''TWO CONDITIONS on one wall. permeableAlphaPressureInletOutletVelocity '',
        ''(pressurePermeableAlphaInletOutletVelocityFvPatchVectorField.C:127-178) is a mixed condition: '',
        ''refValue (phi/magSf)*n, valueFraction neg(phi), and with an alpha valueFraction = '',
        ''max(pos(alpha_p - alphaMin), valueFraction) with refValue 0 where that is 1 -- closed where '',
        ''wet, closed to inflow, zeroGradient where dry and leaving. prghPermeableAlphaTotalPressure '',
        ''(.C:151-243) is driven by constrainPressure like fixedFluxPressure: refValue p0 - '',
        ''0.5*rho*neg(phi)*|U_b|^2 - rho*gh, refGrad snGradp, valueFraction 1 - pos(alpha_p - alphaMin). '',
        ''pos is STRICT in v2412. WHAT THE GATE FOUND: fvMatrix\'s constructor runs '',
        ''U.boundaryFieldRef().updateCoeffs() at the momentum assembly, which sets each patch\'s updated_ '',
        ''flag; with momentumPredictor off nothing evaluates U until the FIRST corrector\'s '',
        ''U.correctBoundaryConditions(), where mixed::evaluate sees the flag and skips updateCoeffs -- so '',
        ''that one evaluation uses the ASSEMBLY-time valueFraction, not the new flux\'s. brae pushed the '',
        ''new flux to every U patch in every corrector: U 8.6e-08 on shipped, 3.4e-06 on wetWall. Its '',
        ''whole effect runs through the dynamic term -- COUNTED: the term is non-zero 51 times in shipped '',
        ''and 23 in wetWall, and never with the lag removed, since an updated patch holds U_b = 0 '',
        ''wherever phi < 0. PER CLASS: a condition whose updateCoeffs ends in evaluate() clears the flag '',
        ''itself (pressureInletOutletVelocity; also fixedNormalInletOutletVelocity and '',
        ''fluxCorrectedVelocity, not ported) and is exempt -- applying the lag to it broke wetWall at '',
        ''3.9e-02. WHY 140 STEPS: at step 142 a wet face goes dry, where phi was 0 or one ulp of '',
        ''round-off; neg(phi) then reads the SIGN of that round-off (brae -3.4e-21), and UEqn.A() in cell '',
        ''1792 is 2.018795e+04 in OpenFOAM against 2.019174e+04. The condition is ill-conditioned there '',
        ''in OpenFOAM itself. operator=(pvf) is not ported: interFoam\'s one assignment to U is followed '',
        ''at once by correctBoundaryConditions (pEqn.H:58-59). HOST ONLY SO FAR.'']\<close>

definition inf_interFoam_permeableWall :: component where [manifest_rows]:
  \<open>inf_interFoam_permeableWall =
     [(''name'', PStr ''interFoam_permeableWall''),
      (''of_symbol'', PStr ''prghPermeableAlphaTotalPressureFvPatchScalarField''),
      (''of_file'', PStr inf_interFoam_permeableWall_of_file),
      (''classification'', PStr ''GPU_REQUIRED''),
      (''status'', PStr ''REIMPLEMENT''),
      (''brae_reference'', PStr ''src/finiteVolume/fields/fv_patch_field.cuh''),
      (''validation'', PStr inf_interFoam_permeableWall_validation),
      (''note'', PStr inf_interFoam_permeableWall_note)]\<close>

definition inf_interFoam_waveModel_validation :: string where
  \<open>inf_interFoam_waveModel_validation = lit [
        ''tests/interfoam_waves_vs_openfoam.sh, real OpenFOAM run SERIALLY, fixed steps, on ALL NINE '',
        ''laminar/waves tutorials that carry a wave inlet -- one per generation model -- each on a '',
        ''coarsened mesh at full amplitude and against its own no-wave control (the generating patch given '',
        ''the absorbing model). MEASURED, worst of the eight beyond stokesI: alpha 1.6e-10, p_rgh 1.6e-10, '',
        ''U 1.4e-08 (McCowan, the one with active absorption at a solitary inlet; the other seven are at '',
        ''or under 4.9e-11, 5.6e-11 and 3.8e-09), every p_rgh iteration count OpenFOAM\'s (40 or 60 of them '',
        ''per case). WHAT THE MODEL ITSELF COMPUTES has two direct oracles. Every constant in the block '',
        ''OpenFOAM prints when it creates the model is compared label for label -- wave length, StokesV\'s '',
        ''Lambda, cnoidal\'s m, a solitary wave\'s x0 -- and agrees to the log\'s 15 digits (worst 2.3e-15). '',
        ''And the inlet\'s velocity is compared face by face: StokesV 1.2e-13, cnoidal 4.5e-14, '',
        ''irregularMultiDirectional 1.1e-15, Grimshaw 6.9e-17. A 1 PER CENT ERROR IN StokesV\'s SMALLEST '',
        ''COEFFICIENT, the fifth-order A55, moves that arm to 3.9e-07 and the fields to 2.2e-06; in B55, '',
        ''alpha 3.2e-05. Three of the nine are 3-D with slip side walls (Grimshaw, McCowan, '',
        ''irregularMultiDirection), which is the first time this solver\'s host path has been held against '',
        ''OpenFOAM on a 3-D mesh. ON stokesI, where the conditions themselves were ported, FIVE PROFILES: '',
        ''`shipped` (the tutorial\'s own 500 x 75 mesh and waveProperties, ten steps of its deltaT 0.01), '',
        ''`trough` and `crest` (100 x 75, rampTime 0.05 so the wave is at full height from step five; the '',
        ''default phase puts the level BELOW the reference depth with the inlet flowing OUT, wavePhase '',
        ''pi/2 puts it ABOVE with inflow -- the two halves of waveModel::setPaddlePropeties), `tight` '',
        ''(trough with both codes\' p_rgh solves at 1e-13) and `mompred` (trough with momentumPredictor '',
        ''yes). BESIDE THE FIELDS it compares four things only these conditions have an oracle for: the '',
        ''model\'s derived constants against the log\'s `Reference water depth` and `Wave length` '',
        ''(0.600000000000001 and 6.95175828555869, both patches, to the log\'s 15 digits); the ORDER of the '',
        ''updates against the log\'s `Updating <model> wave model for patch <p>` lines, update for update '',
        ''(100 of 100: per step three for the inlet, a fourth in UEqn, then the outlet); and the patch '',
        ''VALUES waveAlpha and waveVelocity last assigned, face by face, from the time directory (alpha '',
        ''4.4e-16). MEASURED at the case\'s own tolerances: alpha 1.4e-10, p_rgh 6.2e-10, U 1.8e-08 at full '',
        ''amplitude and 1.2e-07 on `shipped` (|U| 4.7e-03 there), every p_rgh iteration count OpenFOAM\'s; '',
        ''under `tight` alpha 7.7e-12, p_rgh 7.7e-12, U 6.3e-10 -- p_rgh\'s is alpha\'s times rho*g*h. '',
        ''CONTROL ON THE ORACLE: OpenFOAM\'s own tank with waveHeight 0 is 100% of U and 0.73 of alpha '',
        ''away. BROKEN ONCE EACH, with switches that are not in the tree: every sub-cycle evaluated at the '',
        ''step\'s time 1.0e-04 of alpha; no re-update in UEqn 9.5e-03 and the order arm fails; the active '',
        ''absorption left out 2.1e-01. THE NUMBERS ABOVE WERE MEASURED WITH ONE STAGING CHANGE THAT IS NOT '',
        ''ABOUT WAVES, since removed (interFoam_GAMG): the tutorial solves p_rghFinal with GAMG, which '',
        ''brae\'s interFoam then substituted under a notice, so the staging named PCG with DIC. AS '',
        ''SHIPPED, on both loops, the fourteen profiles now read alpha 2.9e-11, p_rgh 5.2e-11 and U '',
        ''9.3e-09 at worst. WHAT THAT SUBSTITUTION WAS WORTH WAS MEASURED: OpenFOAM against '',
        ''ITSELF on `trough`, with nothing changed but p_rghFinal\'s solver (GAMG or PCG, the same DIC, the '',
        ''same 1e-7), differs by 1.8e-02 of alpha and 9.6% of U after twenty steps; brae with its '',
        ''substitute is 2.3e-02 and 19% from OpenFOAM-with-GAMG. The tank\'s active absorption feeds the '',
        ''water level back into the velocity, so where the last pressure solve stops is part of the answer '',
        ''at that tolerance, and agreeing with these tutorials AS SHIPPED needs OpenFOAM\'s GAMG itself. '',
        ''tests/interfoam_refusals.sh holds fifteen wave and named-flux arms. WHAT IT DOES NOT CLAIM: '',
        ''nPaddle above 1 and a non-zero waveAngle (every tutorial names one paddle and angle 0, the 3-D '',
        ''ones included; only irregularMultiDirectional\'s per-component directions put a wave at an '',
        ''angle), a patch that is not axis-aligned (the local frame\'s tensor is diagonal here, so '',
        ''OpenFOAM\'s pairing of Rgl and Rlg cannot be told from its transpose), a restart, and two timings '',
        ''no fixture could see -- below. THE DEVICE LOOP RUNS EVERY PROFILE TOO, at the host\'s bounds: '',
        ''worst alpha 1.3e-10, p_rgh 6.3e-10, U 1.8e-08, every iteration count and every model update in '',
        ''OpenFOAM\'s order, the two solitary cases with their `phi rhoPhi;` top included. A SIXTH stokesI '',
        ''PROFILE, `mulescorr`, exists for the update\'s second call site: under MULESCorr alpha\'s first '',
        ''updateCoeffs of a sub-cycle is the pre-solve\'s matrix construction, and updating after the pre- '',
        ''solve instead reads alpha 8.9e-07 from OpenFOAM against 1.1e-10 -- so THAT position is gated, on '',
        ''both paths, with all 60 alpha sweep counts OpenFOAM\'s.'']\<close>

definition inf_interFoam_waveModel_note :: string where
  \<open>inf_interFoam_waveModel_note = lit [
        ''waveAlpha AND waveVelocity ARE fixedValue PATCHES WHOSE VALUE A MODEL SUPPLIES, one model per '',
        ''patch shared by both (waveModel::lookupOrCreate), updated ONCE PER TIME INDEX (waveModel.C:354). '',
        ''The model reads the solver back -- alpha\'s patchInternalField for the active absorption\'s water '',
        ''level, and in shallowWaterAbsorption U\'s -- so WHEN it updates is part of the answer, and the '',
        ''time index is not the time step: Time::subCycle sets it to (n-1)*nSubCycles and ++ moves it, so '',
        ''every alpha sub-cycle is a new index at the SUB-CYCLE\'s time, and after endSubCycle the index is '',
        ''n again, which is a different number, so U\'s first updateCoeffs of the step (UEqn\'s fvMatrix '',
        ''constructor) updates the model a fourth time from the alpha the sub-cycles left. OpenFOAM\'s log '',
        ''prints a line per update, which made the order an oracle rather than an argument. The models are '',
        ''transcribed in src/waveModels (StokesI, whose wave length is 100 fixed-point passes of the '',
        ''dispersion relation with no tolerance, and shallowWaterAbsorption, which zeroes the GLOBAL x and '',
        ''y of U\'s patchInternalField and then rotates the result as though it were local). Nine tutorials '',
        ''name waveAlpha; each names a DIFFERENT generation model (StokesI, StokesII, StokesV, cnoidal, '',
        ''Boussinesq, Grimshaw, McCowan, streamFunction, irregularMultiDirectional) over the same solver '',
        ''settings. ALL TEN MODELS ARE PORTED, one file each under src/waveModels as OpenFOAM lays them '',
        ''out, on OpenFOAM\'s own class hierarchy (regularWaveModel IS an irregularWaveModel there, which '',
        ''is where the ramp lives). FOUR THINGS IN THEM LOOK LIKE SLIPS AND ARE TRANSCRIBED, because the '',
        ''oracle is OpenFOAM: StokesV solves the fifth-order dispersion relation for the wave number AND '',
        ''lambda, keeps lambda and DROPS the wave number, so its wave length stays StokesI\'s linear one; a '',
        ''solitary wave\'s x0 is the patch\'s minimum GLOBAL x, taken in the constructor while the wave '',
        ''angle is still 0, and subtracted from the paddle\'s LOCAL x; cnoidal finds its m by a scan in '',
        ''steps of 1e-4 (so m is a four-digit number) and re-integrates the wave\'s mean square, 1000 '',
        ''terms, for every face at every update; McCowan\'s two Newton solves stop at an ABSOLUTE 1e-5. '',
        ''StokesV\'s twenty-two coefficient functions -- rational functions of sinh and cosh with integer '',
        ''constants up to 324000 -- were produced from OpenFOAM\'s source text by a rewrite of its function '',
        ''calls rather than retyped, since the only thing that can go wrong in them is a digit. THE SHARED '',
        ''PATCH-FIELD FACTORY STILL REFUSES BOTH TYPE NAMES, on purpose: buildInterFields rewrites them to '',
        ''fixedValue on its own copy of the file data, so no other solver can build a wave inlet frozen at '',
        ''the file\'s `value`. THE FIXTURES FOUND THREE DEFECTS THAT ARE NOT ABOUT WAVES. The first two are '',
        ''invisible on a wall that does not move, which is every fixedFluxPressure patch interFoam had '',
        ''met. (1) constrainPressure\'s gradient is (phiHbyA_b - (Sf_b & U_b))/(magSf_b*rAUf_b) '',
        ''(constrainPressure.C:62-72) and brae subtracted the stored phi_b. With phi_b the corrector hands '',
        ''back exactly the flux it was given, so an inlet whose flux starts at zero never opens: with the '',
        ''wave model\'s own patch values exact to 4e-16, U was 260% out and OpenFOAM\'s answer with the wave '',
        ''switched OFF was closer to OpenFOAM\'s (64%) than brae was. Fixed on the host and in the device '',
        ''hook: 260% -> 1.8e-08. (2) The momentum predictor\'s explicit fvc::snGrad(p_rgh) reads, on a '',
        ''fixedFluxPressure patch, the gradient the LAST constrainPressure stored; brae\'s drivers zeroed '',
        ''it before every predictor. Zero is OpenFOAM\'s construction value and right before the first '',
        ''pressure equation only. Measured on `mompred`: alpha 5.1e-04 and U 5.4% -> 1.4e-11 and 1.0e-09; '',
        ''Ux and Uz take OpenFOAM\'s sweep counts, 20 of 20 each. (3) A FLUX-CONDITIONAL CONDITION LOOKS '',
        ''ITS FLUX UP BY NAME -- the `phi` entry, default phi -- and brae\'s field reader kept no such '',
        ''entry: every condition was told phi. solitaryGrimshaw, solitaryMcCowan and mangroveInteraction '',
        ''write `phi rhoPhi;` on their totalPressure top. rhoPhi is the ALPHA step\'s flux, built from the '',
        ''phi the time step started on, so it is one pressure corrector behind and exactly zero at step '',
        ''one of a case at rest, and the top\'s inflow test decides differently. Both solitary cases were '',
        ''wrong from STEP ONE\'s p_rgh residual with their wave models exact to 7e-17: U 2.4e-05 and '',
        ''3.0e-05 out after thirty steps, 8.0e-10 and 1.4e-08 with the named flux. It was confirmed before '',
        ''it was fixed, by running OpenFOAM ITSELF with `phi phi;`: brae agreed with that run to 9.6e-10. '',
        ''The reader now keeps the entry, every patch field carries its flux name, the host hands phi or '',
        ''rhoPhi accordingly and refuses any other name; the turbulence closure, which hands over phi '',
        ''only, refuses a k or epsilon patch that names anything else. Other solvers still ignore the '',
        ''entry -- they carry one flux -- and that is recorded here rather than claimed. TWO TIMINGS ARE '',
        ''TRANSCRIBED AND NOT GATED, and the header says so. The update opens MULES::explicitSolve '',
        ''(MULESTemplates.C:168), so it sits between the high-order flux, built on the value the last '',
        ''update left, and the limiter; moving it to AFTER the solve changed no digit on any fixture up to '',
        ''the tutorial\'s own mesh at Co 1.9, because the explicit limiter never reduces lambda on an '',
        ''uncoupled boundary face (MULESTemplates.C:533-564 treats wedge and coupled patches only) and the '',
        ''new value reaches only the adjacent cell\'s extrema. And the outlet model is CREATED at U\'s first '',
        ''updateCoeffs, so a case naming no reference depth takes it from alpha AFTER the first step\'s '',
        ''advance; a case that starts from rest has the same alpha there on both sides of that step. A '',
        ''FIXTURE THAT WAS DROPPED: ten steps at the tutorial\'s maxDeltaT 0.05 on its own mesh agreed '',
        ''(alpha 1.2e-09), but at Co 1.9 OpenFOAM\'s own STILL tank carries half the velocity of the one '',
        ''with the wave, so it gated noise. THE MODELS STAY ON THE HOST ON BOTH PATHS, as every other '',
        ''boundary condition of this solver does: the device loop reaches them through per-patch hooks. '',
        ''What the device port added is WHERE it calls them: the alpha corrector takes a hook between its '',
        ''high-order flux and its limiter (DeviceAlphaBoundary::updateModelled), rebuilds the bounded '',
        ''flux\'s boundary on the new patch values as upwind\'s phi_b*psi_b, and lets the limiter see a '',
        ''boundary correction that is no longer zero -- the device\'s explicit limiter already kept lambda '',
        ''at 1 on uncoupled faces, as OpenFOAM\'s does; the alpha step counts sub-cycles for the model\'s '',
        ''clock; and the velocity hook updates the model at the step\'s own clock before UEqn. ONE CASE '',
        ''READS VERY DIFFERENTLY ON THE TWO PATHS AND IS NOT A DEFECT: on solitaryMcCowan the host is '',
        ''1.6e-10 of alpha from OpenFOAM and the device 2.3e-12; with every p_rgh solve tightened on all '',
        ''three codes they read 1.9e-12 and 2.0e-12, so the host\'s figure is where that case\'s relTol 0.1 '',
        ''left it. THE NAMED FLUX HAD TWO MORE DEFECTS BEHIND IT, found by giving the damBreak gate a '',
        ''`rhophi` profile that names rhoPhi on U, p_rgh AND alpha rather than letting that combination '',
        ''merely run. Both are invisible to a condition naming phi, because nothing moves phi between the '',
        ''end of one step\'s correctors and the next step\'s UEqn, and the alpha step moves rhoPhi exactly '',
        ''there. (a) brae\'s conditions were last TOLD their flux at the end of the previous step, where '',
        ''OpenFOAM\'s look it up at every updateCoeffs: p_rgh alone 4.7e-10 of alpha -> 1.2e-12 with a push '',
        ''after the alpha step. (b) pressureInletOutletVelocity::updateCoeffs ends in '',
        ''directionMixed::evaluate(), which REWRITES THE PATCH VALUE and clears the updated flag, so '',
        ''UEqn\'s fvMatrix constructor re-evaluates the atmosphere\'s velocity from the new flux; brae '',
        ''refreshed the coefficients and kept the value: U alone 2.5e-09 -> 8.4e-11 with the push -> '',
        ''1.2e-12 with the value re-evaluated. On the device a p_rgh or alpha condition naming rhoPhi is '',
        ''handed it (the hooks push after the alpha step already); a VELOCITY condition naming it is '',
        ''refused, because that one switch runs on the device and reads phi.'']\<close>

definition inf_interFoam_waveModel :: component where [manifest_rows]:
  \<open>inf_interFoam_waveModel =
     [(''name'', PStr ''interFoam_waveModel''),
      (''of_symbol'', PStr ''waveModel''),
      (''of_file'', PStr ''src/waveModels/waveModel/waveModel.C''),
      (''classification'', PStr ''BOUNDARY_CONDITION''),
      (''status'', PStr ''REIMPLEMENT''),
      (''brae_reference'', PStr ''src/waveModels/waveModel/wave_model_cpp.cuh''),
      (''brae_target'', PStr ''''),
      (''validation'', PStr inf_interFoam_waveModel_validation),
      (''note'', PStr inf_interFoam_waveModel_note)]\<close>

definition inf_interFoam_GAMG_validation :: string where
  \<open>inf_interFoam_GAMG_validation = lit [
        ''tests/interfoam_gamg_vs_openfoam.sh, real OpenFOAM run SERIALLY for fixed steps with '',
        ''`DebugSwitches { GAMGAgglomeration 1; GAMG 1; }`, which the script proves inert on every '',
        ''run (alpha, p_rgh and U byte-identical with and without). The switches make OpenFOAM print '',
        ''its hierarchy level by level -- cells, faces per cell, and lduAddressing::band()\'s profile, '',
        ''which moves when the NUMBERING does -- and the coarsest-level solve of every V-cycle. '',
        ''NINETEEN PROFILES on the laminar/waves tutorials, whose p_rghFinal names GAMG with a DIC '',
        ''smoother: stokesI as shipped on three meshes; `deep` (1e-12, 125 V-cycles); the other three '',
        ''smoothers; every sweep control off its default with pre-smoothing on; nCellsInCoarsestLevel '',
        ''400; scaleCorrection no; both entries GAMG with different nCellsInCoarsestLevel; `square` '',
        ''(dx = dz) and `cubes` (3-D, 0.05 cubes), where every face has one area; and the seven other '',
        ''tutorials that name GAMG, as shipped. MEASURED: every level of every hierarchy is OpenFOAM\'s '',
        ''(5 to 12 levels); every p_rgh iteration count (20 to 60 per profile) and every coarsest-level '',
        ''count (3 to 125) is OpenFOAM\'s; alpha 4.0e-11, p_rgh 1.9e-10, U 1.9e-09 at worst. WHAT IT '',
        ''REPLACED, PBiCGStab under a notice: alpha 2.3e-02 and U 19% on the same fixture. CONTROL ON '',
        ''THE ORACLE: OpenFOAM with PCG against OpenFOAM with GAMG, alpha 1.9e-04 to 8.4e-02, never '',
        ''under 1e5 times brae\'s distance. EVERY PORT DECISION BROKEN ONCE with switches not in the '',
        ''tree: no alternation of the pairing direction 1.2e-03 of alpha; coarse faces sorted by '',
        ''neighbour 1.1e-07 and the band profile moves; the rejected last level kept, or the coarsest '',
        ''level solved to 1e-12, and NO FIELD MOVES -- only the coarsest-solve log arm holds those '',
        ''two; prolongation that adds 2.8e-04; post-sweeps without the level multiplier 9.7e-05; the '',
        ''hierarchy built from the entry in use rather than the first 8.5e-09 and 10 levels for 8. '',
        ''THE GAMG PRECONDITIONER (`solver PCG; preconditioner { preconditioner GAMG; ... }`, six of '',
        ''the seven solid-body tutorials\' p_rghFinal) has two profiles of its own, the tutorials\' form '',
        ''(DICGaussSeidel, nPreSweeps 2, nVcycles 2) and one whose sub-dictionary tolerance differs '',
        ''from the PCG\'s: 40 of 40 p_rgh counts, alpha 4.9e-12 and 3.4e-12, every coarsest count '',
        ''OpenFOAM\'s; broken once each -- one V-cycle for two 1.5e-02, no residual between cycles '',
        ''1.4e-02, the application not started from zero 7.1e-05, the coarsest at the PCG\'s '',
        ''tolerance 0 of 9 coarsest counts. And the seven tanks of interfoam_moving_vs_openfoam.sh '',
        ''run with it as shipped. '',
        ''TWO DECISIONS READ NOTHING ON THE SHIPPED FIXTURE and have fixtures of their own: the '',
        ''(1, 1.01, 1.02) weight perturbation is idle on 2 x 0.1 cells (identical to the last digit) '',
        ''and worth 4.5e-03 on `square`, 2.0e-06 on `cubes`, 4.9e-06 with y and z swapped; scaling the '',
        ''level above the coarsest moves the 11th digit with a 24-cell level there and 5.0e-05 of alpha '',
        ''on `coarsest`. tests/interfoam_refusals.sh holds fifteen GAMG arms and three for the device. WHAT IT '',
        ''DOES NOT CLAIM: an '',
        ''asymmetric matrix, any refused control, and a parallel run (the smoothers and the hierarchy '',
        ''are per-processor there). THE DEVICE LOOP RUNS THE SIXTEEN DIC PROFILES TOO, against '',
        ''OpenFOAM directly: every p_rgh and every coarsest-level iteration count OpenFOAM\'s; alpha '',
        ''2.9e-11, p_rgh 5.2e-11, U 1.6e-09 at worst (1.5e-08 on `deep`), 4.5e-11 of alpha from the '',
        ''host. WHAT IT REPLACED there, Jacobi-BiCGStab under a notice: alpha 2.3e-02, U 45%. BROKEN '',
        ''ONCE EACH ON THE DEVICE: coarse-level DIC diagonals left from the first solve 1.8e-03; '',
        ''prolongation that adds 7.3e-03; the level above the coarsest scaled 5.0e-05 on `coarsest`; '',
        ''the coarsest MATRIX left from the first solve moves no field and reads 2.3e-02 on the '',
        ''coarsest-solve arm. The device\'s GAMG has the DIC smoother only and the driver REFUSES '',
        ''the other three by name. WITH BOTH LOOPS ON THE TUTORIALS\' OWN SOLVER the wave gate '',
        ''(interfoam_waves_vs_openfoam.sh) dropped its PCG staging: fourteen profiles as shipped, '',
        ''alpha 2.9e-11 where it read 1.6e-10, and its bounds came down with it.'']\<close>

definition inf_interFoam_GAMG_note :: string where
  \<open>inf_interFoam_GAMG_note = lit [
        ''ACROSS A cyclicAMI PAIR GAMG IS NOT PORTED, and the case runs PCG with DIC in its place, announced '',
        ''(2026-10-01, the user\'s decision; inter_case_cpp.cu readSolve): RAS/mixerVesselAMI\'s `solver GAMG` '',
        ''for p_rgh and pcorr. Gated in tests/interfoam_write_vs_openfoam.sh against OpenFOAM STAGED TO PCG '',
        ''(4.3e-12); against OpenFOAM\'s own GAMG the same run is 1.2e-09 at pinned solves. The control leaves '',
        ''the entry as read and the pair is refused by name. A port of cyclicAMIGAMGInterface was written and '',
        ''parked unmerged (runs/parked/u4b_gamg_across_ami.patch; two steps of the tutorial 3.3e-12). '',
        ''GAMG IS OpenFOAM\'S, NOT A MULTIGRID: the hierarchy\'s numbering, the smoother\'s face order and '',
        ''the stopping rule are all part of where a loose solve stops, and on the wave tanks that is part '',
        ''of the answer -- the active absorption feeds the water level back into the inlet velocity, and '',
        ''OpenFOAM against ITSELF with PCG in GAMG\'s place differs by 1.8e-02 of alpha after twenty steps. '',
        ''THE HIERARCHY (pair_gamg_agglomeration_cpp.cuh): faceAreaPair weighs faces by '',
        ''|Sf/sqrt(magSf) * (1, 1.01, 1.02)|, a perturbation against jagged pairings on axis-aligned '',
        ''meshes; each pass pairs a cell with its heaviest unpaired neighbour, else joins the heaviest '',
        ''neighbour\'s cluster; the sweep direction flips after EVERY pass through a STATIC flag, '',
        ''including the pass continueAgglomerating() rejects, whose level is discarded whole; coarse '',
        ''faces are numbered owner-major and within an owner by FIRST APPEARANCE in the fine face walk, '',
        ''not by neighbour. It is a MeshObject: the first GAMG solve of the run builds it from ITS '',
        ''entry\'s nCellsInCoarsestLevel and no later entry\'s is read. THE V-CYCLE (gamg_solver_cpp.cuh): '',
        ''no pre-smoothing by default; restriction is summation; the coarsest level is solved by PCG '',
        ''with DIC from zero to the GAMG\'s OWN tolerance and relTol, not directly; prolongation is '',
        ''injection that OVERWRITES; the correction is scaled by (x.b)/(x.Ax) with a Jacobi step on the '',
        ''remainder, for a symmetric matrix and NOT on the level above the coarsest; post-sweeps are '',
        ''min(nPostSweeps + postSweepsLevelMultiplier*level, maxPostSweeps); the finest correction is '',
        ''scaled against the residual and psi is smoothed nFinestSweeps times against the SOURCE. DIC '',
        ''as a smoother is an iteration on the true residual. A FINDING THAT IS NOT THE SOLVER\'S, from '',
        ''`deep`: ten consecutive solves read 1.24e-05 on their initial residuals with alpha 6e-12 from '',
        ''OpenFOAM, because one top-patch face\'s flux sits at 1e-14 and pressureInletOutletVelocity '',
        ''branches on its sign; the branch changes U\'s diagonal under that face, hence rAU and the '',
        ''p_rgh matrix\'s row sum on a patch whose value is the solution there, hence normFactor and '',
        ''every residual divided by it -- without moving the solution. brae::gamg '',
        ''(src/OpenFOAM/matrices/gamg.cu), which simpleFoam_cpp uses, is an earlier multigrid with a '',
        ''sorted coarse numbering and a direct coarsest solve; it is not this and was left alone. '',
        ''THE PRECONDITIONER (GAMGPreconditioner.C) is a GAMGSolver built on the PCG\'s own matrix with '',
        ''the `preconditioner` SUB-DICTIONARY as its controls (lduMatrixPreconditioner.C, New) -- its '',
        ''tolerance and relTol are the coarsest solve\'s, not the PCG\'s -- and each application runs '',
        ''nVcycles (default 2) of the same V-cycle from w = 0, recomputing r - A*w between cycles. PCG '',
        ''builds it only once the first residual is above tolerance. UNDER IT THE COARSEST LEVEL '',
        ''USUALLY DOES NOTHING: its source is the PCG residual restricted over aggregates, which '',
        ''cancels to ~1e-26, and a solve from zero normalised by sum|source| + 1e-20 reads an initial '',
        ''residual below tolerance and takes no iteration -- six of eight on the gated fixture, in '',
        ''OpenFOAM and in brae alike. The gate asserts the coarsest counts there and holds the '',
        ''residuals, which are that cancellation read to its last digits, to 1e-3. '',
        ''PCG.C\'s checkSingularity break is transcribed in the coarsest-level PCG and is ABSENT from '',
        ''brae::pcg (it fires only on wApA/normFactor under 1e-300). ON THE DEVICE '',
        ''(device_gamg_solver.cuh): the hierarchy is the host\'s own code, uploaded once; the coarse '',
        ''matrices and the restriction are FIXED-ORDER GATHERS in the host\'s accumulation order (a '',
        ''scatter with atomic adds is neither ordered nor reproducible); the smoother is DIC through '',
        ''the level-scheduled DILU with lower aliased to upper, one schedule per level, its '',
        ''diagonal recomputed at every solve; the scaling\'s two dot products and the residual norms '',
        ''are device reductions; and THE COARSEST LEVEL IS SOLVED ON THE HOST by the host\'s own '',
        ''PCG -- ten cells by default, a pair of short copies against dozens of launches and a '',
        ''read-back per iteration. That is a finished state, not a deferred one.'']\<close>

definition inf_interFoam_GAMG :: component where [manifest_rows]:
  \<open>inf_interFoam_GAMG =
     [(''name'', PStr ''interFoam_GAMG''),
      (''of_symbol'', PStr ''GAMGSolver''),
      (''of_file'', PStr ''src/OpenFOAM/matrices/lduMatrix/solvers/GAMG/GAMGSolver.C''),
      (''classification'', PStr ''LINEAR_SOLVER''),
      (''status'', PStr ''REIMPLEMENT''),
      (''brae_reference'', PStr ''src/matrices/lduMatrix/solvers/GAMG/gamg_solver_cpp.cuh''),
      (''brae_target'', PStr ''src/matrices/lduMatrix/solvers/GAMG/device_gamg_solver.cu''),
      (''validation'', PStr inf_interFoam_GAMG_validation),
      (''note'', PStr inf_interFoam_GAMG_note)]\<close>

definition inf_interFoam_solidBodyMotion_validation :: string where
  \<open>inf_interFoam_solidBodyMotion_validation = lit [
        ''tests/mesh_motion_vs_openfoam.sh: the moved polyMesh/points and the mesh flux meshPhi '',
        ''against OpenFOAM\'s moveDynamicMesh, written per step at writePrecision 18, and V and C of the '',
        ''moved mesh against postProcess\'s writeCellVolumes and writeCellCentres on those points. '',
        ''SEVEN PROFILES: testTubeMixer (multiMotion of a rotatingMotion and an '',
        ''oscillatingRotatingMotion), sloshingTank2D (SDA, m4 mesh), sloshingTank3D6DoF '',
        ''(tabulated6DoFMotion, spline, across two knots), sloshingCylinder (multiMotion of an '',
        ''oscillatingLinearMotion and a rotatingMotion on a snappyHexMesh mesh of polyhedra), and '',
        ''linearMotion, axisRotationMotion and tabulated6DoFMotion with linear interpolation on the '',
        ''tutorials\' meshes. MEASURED: points and meshPhi differ from OpenFOAM\'s by EXACTLY ZERO on '',
        ''every profile, and the gate asserts zero (BRAE_MESH_MOTION_ROUNDOFF=1 holds 1e-15 and 1e-12 '',
        ''instead, for a compiler that orders floating point differently) -- and V and C of the moved '',
        ''mesh are exact too, since fv_geometry\'s face centres took primitiveMeshTools.C\'s operation '',
        ''order (interFoam_nonOrthCorrection); they read 1.7e-14 and 8.0e-16 before. CONTROL on brae\'s side (the oracle has '',
        ''no wrong answer to offer): the two multiMotion entries in the other order, 1.5e-01 of the '',
        ''extent, which the script asserts FAILS. BROKEN ONCE EACH -- and the reason the comparison '',
        ''is exact, since all but the last sit under any round-off bound: meshPhi as sweptVol/deltaT '',
        ''rather than sweptVol*(1.0/deltaT) 2.0e-16; the swept volume fanned about the vertex mean '',
        ''rather than face::centre 6.7e-15; points rotated through the quaternion rather than the '',
        ''tensor q.R() 4.4e-16 and 1.8e-14; septernion*septernion without normalising the product '',
        ''rotation 6.1e-16 and 2.1e-14; the time as index*deltaT rather than accumulated 1.8e-16 and '',
        ''8.4e-15; oldPoints never refreshed 4.1e+00. END TO END in interFoam '',
        ''(tests/interfoam_moving_vs_openfoam.sh), beside sloshingTank2D and the cylinder, the other '',
        ''four tanks as shipped, ten steps of 0.01 against their static controls: sloshingTank2D3DoF '',
        ''U 4.4e-13, sloshingTank3D 2.7e-12, sloshingTank3D3DoF 6.8e-13, sloshingTank3D6DoF 5.4e-13, '',
        ''the moved points exact; SDA without its lamda rescaling 8.2e-01, without its roll 9.9e-01, '',
        ''the 6DoF table\'s interpolation flipped 1.4e-02. A CELLZONE\'s motion (zoneMotion.C: the points of '',
        ''every face of every zone cell, ascending; the rest of the mesh held where it stands) is '',
        ''gated on RAS/mixerVesselAMI (tests/interfoam_ami_vs_openfoam.sh, test_face_area_weight_ami): '',
        ''the moved points bitwise OpenFOAM\'s at every step checked; the whole mesh moved 1.3e-03, the '',
        ''zone\'s points transformed from the CURRENT points 9.6e-04, the boundary faces left out of '',
        ''the marking 9.6e-04; the owner side of the faces alone NOT DISCRIMINATED (it marks the same '',
        ''points on that mesh). WHAT IT DOES NOT CLAIM: a cellSet, a cellZone named by a regular '',
        ''expression or a zone group, a zone under displacementLaplacian, points0 read from a file, a restart of a moved mesh, any '',
        ''motionSolver but solidBody, drivenLinearMotion, a non-constant Function1 coefficient, '',
        ''mergeLevels, and the device -- refused by name, fifteen arms in tests/interfoam_refusals.sh.'']\<close>

definition inf_interFoam_solidBodyMotion_note :: string where
  \<open>inf_interFoam_solidBodyMotion_note = lit [
        ''EVERY MOTION IS AN ABSOLUTE FUNCTION OF TIME ON THE ORIGINAL POINTS (points0MotionSolver), a '',
        ''septernion built and multiplied as OpenFOAM\'s quaternion and septernion multiply (src/OpenFOAM/'',
        ''primitives/septernion/septernion_cpp.cuh), and applied by transformPoints: the translation '',
        ''subtracted when it exceeds VSMALL, the rotation by the TENSOR q.R() when mag(R - I) exceeds '',
        ''SMALL. multiMotion is the product of its entries in dictionary order. fvMesh::movePoints '',
        ''takes V into V0 and the points into oldPoints ONCE PER TIME INDEX (a second update in the '',
        ''same step, moveMeshOuterCorrectors, keeps both), sets meshPhi = face::sweptVol*(1/deltaT) '',
        ''on every face but an empty patch\'s, and recomputes the geometry. face::sweptVol fans each '',
        ''face about face::centre at both times, and face::centre is NOT primitiveMesh\'s Cf: a third '',
        ''arrangement of the same sums, differing in the last digits on any face that is not a '',
        ''triangle. src/OpenFOAM/motion/solid_body_motion.cuh and swept_volume.cuh, which pimpleFoam '',
        ''still uses, are earlier transcriptions with Rodrigues\' formula and a different centre; they '',
        ''are the same motion and not the same digits, and were left alone. fvMesh::Vsc and Vsc0 '',
        ''interpolate V0 and V to a sub-cycle\'s clock (fvMeshGeometry.C), and fvc::surfaceIntegrate '',
        ''divides by Vsc, not V. HOST_ONLY is a finished state: the motion is mesh topology and '',
        ''geometry, computed once per step; what the DEVICE loop needs is the moved geometry uploaded, '',
        ''which is interFoam_dynamicMesh\'s target.'']\<close>

definition inf_interFoam_solidBodyMotion :: component where [manifest_rows]:
  \<open>inf_interFoam_solidBodyMotion =
     [(''name'', PStr ''interFoam_solidBodyMotion''),
      (''of_symbol'', PStr ''dynamicMotionSolverFvMesh''),
      (''of_file'', PStr ''src/dynamicFvMesh/dynamicMotionSolverFvMesh/dynamicMotionSolverFvMesh.C''),
      (''classification'', PStr ''HOST_ONLY''),
      (''status'', PStr ''REIMPLEMENT''),
      (''brae_reference'', PStr ''src/dynamicFvMesh/dynamicMotionSolverFvMesh/dynamic_motion_solver_fv_mesh_cpp.cuh''),
      (''brae_target'', PStr ''''),
      (''validation'', PStr inf_interFoam_solidBodyMotion_validation),
      (''note'', PStr inf_interFoam_solidBodyMotion_note)]\<close>

definition inf_interFoam_rigidBodyMotion_validation :: string where
  \<open>inf_interFoam_rigidBodyMotion_validation = lit [
        ''tests/rigid_body_dynamics_vs_openfoam.sh: OpenFOAM\'s own RBD::rigidBodyMotion::solve '',
        ''(tools/dumpRigidBodySolve) built from the case\'s dictionary, handed a state and a spatial '',
        ''force. RAS/floatingObject (cuboid, composite Py+Ry, coefficients in rigidBodyMotionCoeffs): '',
        ''three as-run states and a rotated one, qDdot within 1.6e-16 relative. RAS/DTCHullMoving '',
        ''(coefficients at the TOP LEVEL, rigidBody with its own inertia, composite Pz+Ry, a '',
        ''linearDamper and a sphericalAngularDamper): at rest and moving, qDdot, q, qDot, X0 and the '',
        ''36 inertia components 0.0 from OpenFOAM. Controls: inertia diagonal-first 9.2e+02; at rest '',
        ''the dampers add exactly nothing; moving, restraints dropped 2.5e+00, each alone 2.1e+00 / '',
        ''2.5e+00, the damper force left in the body frame 2.7e+00; Pz as Py 1.2e-01. Fail-proofs '',
        ''(moving arm): restraints never applied, Pz on y, the damper reading v.w, no X0.T() '',
        ''transport -- 8, 7, 6 and 4 failures. END TO END, tests/interfoam_dtchullmoving_vs_openfoam.sh '',
        ''`moving`: RAS/DTCHullMoving AS SHIPPED (the hull moving, symmetryPlane point '',
        ''constraints, tangentialVelocity, the inert cached grad(U)), six steps: q 2.2e-15, qDot '',
        ''6.2e-15, qDdot 8.6e-15, the moved points 2.5e-17 of the extent, U 4.8e-13, p_rgh '',
        ''1.1e-12, nut 3.2e-12, every p_rgh and alpha count OpenFOAM\'s; control, the restraints '',
        ''removed, q 1.9e-03. Six because OpenFOAM branches on itself at the eighth: one ulp in '',
        ''one alpha cell reads U 7.9e-06 and q 9.0e-09 by the tenth, where brae reads U 8.7e-06 '',
        ''and q 2.3e-08. NOT CLAIMED: the device.'']\<close>

definition inf_interFoam_rigidBodyMotion_note :: string where
  \<open>inf_interFoam_rigidBodyMotion_note = lit [
        ''The body is integrated on the host: two degrees of freedom, once per step. The dictionary is '',
        ''motionSolver::coeffDict() = optionalSubDict(rigidBodyMotionCoeffs) and the name getCompat('',
        ''motionSolver, {solver}); the restraints read the model\'s CACHED v_/X0_, which '',
        ''forwardDynamicsCorrection last wrote from the same q and qDot the solve starts from.'']\<close>

definition inf_interFoam_rigidBodyMotion :: component where [manifest_rows]:
  \<open>inf_interFoam_rigidBodyMotion =
     [(''name'', PStr ''interFoam_rigidBodyMotion''),
      (''of_symbol'', PStr ''rigidBodyMeshMotion''),
      (''of_file'', PStr ''src/rigidBodyMeshMotion/rigidBodyMeshMotion/rigidBodyMeshMotion.C''),
      (''classification'', PStr ''HOST_ONLY''),
      (''status'', PStr ''REIMPLEMENT''),
      (''brae_reference'', PStr ''src/rigidBodyMeshMotion/rigid_body_mesh_motion_cpp.cuh''),
      (''brae_target'', PStr ''''),
      (''validation'', PStr inf_interFoam_rigidBodyMotion_validation),
      (''note'', PStr inf_interFoam_rigidBodyMotion_note)]\<close>

definition inf_interFoam_pointConstraints_validation :: string where
  \<open>inf_interFoam_pointConstraints_validation = lit [
        ''tests/point_constraints_vs_openfoam.sh, against tools/dumpPointConstraints (OpenFOAM\'s '',
        ''own class on the same staged input), BIT FOR BIT on three arms: RAS/DTCHullMoving\'s mesh '',
        ''(848,022 cells; its bottom and side normals carry 1e-18/1e-21 off-axis parts from '',
        ''gSum(faceAreas), matched to the bit; 1,750 constrained points, 1,664 one-plane and 86 '',
        ''two-plane), the same with its fixedValue patches pinned off zero, and a parallelepiped '',
        ''whose three tilted symmetry planes meet (45 one-plane, 24 two-plane, one three-plane '',
        ''point): every normal, every constrained point in OpenFOAM\'s order with its count and '',
        ''tensor, the field after correctBoundaryConditions and after constrainDisplacement. '',
        ''Controls: the symmetryPlane evaluate skipped, constrainCorners skipped, the pins '',
        ''written after the planes, the three-plane corner left free. Fail-proofs: the normal '',
        ''by a reciprocal multiply and the count-3 case are seen by the parallelepiped only.'']\<close>

definition inf_interFoam_pointConstraints_note :: string where
  \<open>inf_interFoam_pointConstraints_note = lit [
        ''Built ONCE by the rigid-body mesh motion at attach: the patch kinds from the MESH patch '',
        ''types (pointPatchFieldNew.C:143-161; `patchType` refused), the symmetryPlane normals frozen '',
        ''from the construction-time face areas, the constrained points from every non-empty, '',
        ''non-coupled patch\'s boundary points in patch order. Refused: any other constraint patch, '',
        ''a 2-D mesh (twoDPointCorrector), a per-point fixedValue. OpenFOAM\'s own '',
        ''patchPatchPointConstraints() list is truncated without being compacted, so it does not line '',
        ''up with the points; the oracle reads the count off the tensor.'']\<close>

definition inf_interFoam_pointConstraints :: component where [manifest_rows]:
  \<open>inf_interFoam_pointConstraints =
     [(''name'', PStr ''interFoam_pointConstraints''),
      (''of_symbol'', PStr ''pointConstraints''),
      (''of_file'', PStr ''src/finiteVolume/interpolation/volPointInterpolation/pointConstraints.C''),
      (''classification'', PStr ''HOST_ONLY''),
      (''status'', PStr ''REIMPLEMENT''),
      (''brae_reference'', PStr ''src/finiteVolume/interpolation/volPointInterpolation/point_constraints_cpp.cuh''),
      (''brae_target'', PStr ''''),
      (''validation'', PStr inf_interFoam_pointConstraints_validation),
      (''note'', PStr inf_interFoam_pointConstraints_note)]\<close>

definition inf_interFoam_displacementLaplacian_brae_reference :: string where
  \<open>inf_interFoam_displacementLaplacian_brae_reference = lit [
        ''src/fvMotionSolver/fvMotionSolvers/displacement/laplacian/'',
        ''displacement_laplacian_fv_motion_solver_cpp.cuh'']\<close>

definition inf_interFoam_displacementLaplacian_validation :: string where
  \<open>inf_interFoam_displacementLaplacian_validation = lit [
        ''tests/displacement_laplacian_vs_openfoam.sh: the moved polyMesh/points, the motion solver\'s '',
        ''cellDisplacement and pointDisplacement, meshPhi and every GAMG solve of the displacement '',
        ''equation against OpenFOAM\'s moveDynamicMesh run SERIALLY with a fixed deltaT, written per '',
        ''step at writePrecision 18, and V and C of the moved mesh from postProcess. SEVEN PROFILES, '',
        ''each the tutorial\'s own mesh and dictionaries: waveMakerPiston, waveMakerFlap (the wall '',
        ''tilts) and waveMakerSolitary (0.26 m of stroke, two blocks), 20 steps of 0.05 to t = 1, '',
        ''waveMakerMultiPaddleFlap and waveMakerMultiPaddlePiston (four paddles at 45 degrees, 3-D, '',
        ''448000 cells), 4 steps of 0.1, and the piston and the flap again with `secondOrder yes` '',
        ''staged into the paddle. MEASURED, worst of the seven: all 204 GAMG solves take '',
        ''OpenFOAM\'s iteration count; points 2.9e-16 of the extent; cellDisplacement and '',
        ''pointDisplacement 1.3e-14 of the largest displacement; meshPhi 2.4e-13 of the run\'s largest '',
        ''|meshPhi|; V 1.1e-13 relative, C 5.9e-16 of the extent. The bounds are those numbers and say why: see the note. '',
        ''THE CONTROL: the wall distance taken from rightwall instead of leftwall, 9.9e-01 of the '',
        ''displacement, which the script asserts FAILS. BROKEN ONCE EACH, as a fraction of the largest '',
        ''displacement: the paddle\'s values not written back over the interpolated ones 3.7e-02; y on '',
        ''the named patch the next cell\'s instead of the wave\'s SMALL 4.0e-01 and 20 of 40 counts; the '',
        ''wall distance without correctWalls 2.3e-05 (the flap only, whose wall tilts); the 2-D '',
        ''correction skipped 7.4e-02 (the solitary only); volPointInterpolation\'s weights made once '',
        ''6.2e-04; the diffusivity computed once 9.1e-02; the GAMG hierarchy kept from step one '',
        ''1.9e-01; the non-orthogonal correction dropped 7.9e-02. TEN REFUSALS asserted by name: a '',
        ''diffusivity other than inverseDistance, a cellDisplacement solver other than GAMG, a '',
        ''laplacian other than Gauss linear corrected, a point condition other than fixedValue, '',
        ''zeroGradient, empty and waveMaker, an unknown motionType, a waveMaker without `value`, and '',
        ''frozenPointsZone; and three more on fvSchemes\' `patchDist`, which the diffusivity\'s '',
        ''wallDist reads (its patch type name is "patch"): a method other than meshWave, '',
        ''correctWalls false, an updateInterval other than 1 -- with the defaults written out as the '',
        ''arm that must run. NOT CLAIMED, because these meshes cannot tell: pointCells\' order (the '',
        ''pointFaces walk OpenFOAM takes here and the ascending order give the same lists on a block '',
        ''mesh) and face::average against a vertex mean for cellMotion (equal on flat parallel faces); '',
        ''the Final solver entry, which moveDynamicMesh never selects; and the device. UNDER '',
        ''interFoam: all five are gated end to end (interFoam_correctPhi, '',
        ''interFoam_interfaceCompression).'']\<close>

definition inf_interFoam_displacementLaplacian_note :: string where
  \<open>inf_interFoam_displacementLaplacian_note = lit [
        ''ONE newPoints(), IN OpenFOAM\'S ORDER, all on the mesh before the move (motionSolver.C:200-204, '',
        ''displacementLaplacianFvMotionSolver.C:199-318): the inverseDistance diffusivity 1/interpolate(y), '',
        ''y the meshWave distance to the named patches (patchWave: FaceCellWave<wallPoint> seeded with the '',
        ''patch face centres, visiting cells() in OpenFOAM\'s order and taking a new origin only when nearer '',
        ''by 1%, then correctBoundaryCells\' exact distance for every cell touching the patches), whose '',
        ''boundary value is the wave\'s own on the named patches -- sqrt(0) + SMALL, so the diffusivity there '',
        ''is 1e15 -- and the next cell\'s elsewhere; the point conditions\' updateCoeffs, each writing its '',
        ''values straight into the point field in patch order; cellMotion on every patch whose point '',
        ''condition fixes a value, the face::average of the POINT field; laplacian(diffusivity, '',
        ''cellDisplacement) Gauss linear corrected, solved component by component with GAMG from the last '',
        ''step\'s solution, the empty direction skipped; then volPointInterpolation -- cells to points by '',
        ''1/|p - C|, boundary faces of real patches to patch points by 1/|p - Cf|, the weights remade on '',
        ''every move -- the fixing conditions evaluated again over it, points0 + pointDisplacement, and '',
        ''twoDPointCorrector, whose plane normal is taken once and whose mid-plane is the current bounds\'. '',
        ''THE GAMG SOLVE HAS TO BE OPENFOAM\'S EXACTLY: the paddle\'s 1e15 diffusivity dominates the residual '',
        ''normalisation, the equation is declared converged after one V-cycle, and the mesh is that '',
        ''V-cycle\'s. The hierarchy is the mesh\'s MeshObject, shared with p_rgh\'s GAMG and rebuilt after '',
        ''each move; DynamicMotionSolverFvMesh::update takes the run\'s cache and invalidates it. '',
        ''AN OPEN FINDING THAT BELONGS TO THE SHARED OPERATORS: brae\'s fvm::laplacian forms its face '',
        ''coefficient as (deltaCoeffs*gamma)*magSf where gaussLaplacianScheme forms gammaMagSf = '',
        ''gamma*magSf first, and brae\'s linear interpolation is w*P + (1 - w)*N where '',
        ''surfaceInterpolationScheme::dotInterpolate is lambda*(P - N) + N. Switched to OpenFOAM\'s order, '',
        ''every profile of this gate is EXACT for its first four to seven steps; they are what the gate\'s '',
        ''bounds are. Left as they are here because every solver\'s laplacian and interpolation read them. '',
        ''face::centre, face::average and face::nearestPoint are src/OpenFOAM/meshes/meshShapes/face/'',
        ''face_cpp.cuh; the wave src/meshTools/cellDist/patchWave/; the interpolation '',
        ''src/finiteVolume/interpolation/volPointInterpolation/vol_point_interpolation_cpp.cuh (the older '',
        ''vol_point_interpolation.cuh, which velocityComponentLaplacian uses, was left alone). '',
        ''moveDynamicMesh does not link libwaveModels, which interFoam does: the gate\'s controlDict loads it.'']\<close>

definition inf_interFoam_displacementLaplacian :: component where [manifest_rows]:
  \<open>inf_interFoam_displacementLaplacian =
     [(''name'', PStr ''interFoam_displacementLaplacian''),
      (''of_symbol'', PStr ''displacementLaplacianFvMotionSolver''),
      (''of_file'', PStr ''src/fvMotionSolver/fvMotionSolvers/displacement/laplacian/displacementLaplacianFvMotionSolver.C''),
      (''classification'', PStr ''GPU_REQUIRED''),
      (''status'', PStr ''REIMPLEMENT''),
      (''brae_reference'', PStr inf_interFoam_displacementLaplacian_brae_reference),
      (''brae_target'', PStr ''''),
      (''validation'', PStr inf_interFoam_displacementLaplacian_validation),
      (''note'', PStr inf_interFoam_displacementLaplacian_note)]\<close>

definition inf_interFoam_waveMaker_brae_reference :: string where
  \<open>inf_interFoam_waveMaker_brae_reference = lit [
        ''src/waveModels/derivedPointPatchFields/waveMaker/'',
        ''wave_maker_point_patch_vector_field_cpp.cuh'']\<close>

definition inf_interFoam_waveMaker_validation :: string where
  \<open>inf_interFoam_waveMaker_validation = lit [
        ''tests/displacement_laplacian_vs_openfoam.sh (interFoam_displacementLaplacian): the paddle is '',
        ''every profile\'s only moving boundary, so its displacement is the whole of the motion -- '',
        ''piston and flap, one paddle and four at 45 degrees, and the solitary stroke with its Newton '',
        ''iteration -- and the piston and the flap with `secondOrder yes` staged in, which no tutorial '',
        ''turns on. The paddle points\' pointDisplacement is OpenFOAM\'s to the gate\'s 2e-14 of the '',
        ''largest displacement. NOT CLAIMED: a waveMaker without `value`, which OpenFOAM evaluates '',
        ''at construction (refused).'']\<close>

definition inf_interFoam_waveMaker_note :: string where
  \<open>inf_interFoam_waveMaker_note = lit [
        ''updateCoeffs (waveMakerPointPatchVectorField.C:278-436): the wave length by 100 fixed-point '',
        ''iterations of L = L0 tanh(2 pi h/L), the paddle\'s phase its centre\'s position alone (wavePhase is '',
        ''read and never used), and the ramp clamp(t/rampTime, 0, 1) on the piston and the flap but not the '',
        ''solitary stroke; the flap\'s stroke scaled by the point\'s height above the patch\'s lowest point. '',
        ''The paddle centres and every point\'s paddle are taken from the patch\'s points at construction '',
        ''(initialiseGeometry) and never again; the reference depth on the first updateCoeffs. HOST_ONLY is '',
        ''a finished state: the condition is a function of time on the patch\'s points, and what the '',
        ''device needs is the moved mesh.'']\<close>

definition inf_interFoam_waveMaker :: component where [manifest_rows]:
  \<open>inf_interFoam_waveMaker =
     [(''name'', PStr ''interFoam_waveMaker''),
      (''of_symbol'', PStr ''waveMakerPointPatchVectorField''),
      (''of_file'', PStr ''src/waveModels/derivedPointPatchFields/waveMaker/waveMakerPointPatchVectorField.C''),
      (''classification'', PStr ''HOST_ONLY''),
      (''status'', PStr ''REIMPLEMENT''),
      (''brae_reference'', PStr inf_interFoam_waveMaker_brae_reference),
      (''brae_target'', PStr ''''),
      (''validation'', PStr inf_interFoam_waveMaker_validation),
      (''note'', PStr inf_interFoam_waveMaker_note)]\<close>

definition inf_interFoam_dynamicRefine_validation_1 :: "string list" where
  \<open>inf_interFoam_dynamicRefine_validation_1 = [
        ''tests/interfoam_amr_vs_openfoam.sh, real OpenFOAM run SERIALLY, two fixed steps of 1e-3 on '',
        ''laminar/damBreakWithObstacle written at `writePrecision 18` so the floor is floating point '',
        ''and not the file. A refining case writes its own polyMesh into every time directory, so the '',
        ''comparison is on the mesh OpenFOAM produced, cell by cell. THE TWO STEPS: 1,430 cells refined '',
        ''(32,256 -> 42,266) with pcorr at initial residual 0 and 0 iterations, then 5,714 refined '',
        ''(42,266 -> 82,264) with pcorr at initial residual 1 and 8 iterations -- so step one maps '',
        ''fields and step two needs the flux correction, and one step alone passes with the flux '',
        ''rebuild missing. MEASURED: the same cell, face and point counts, every face\'s owner and '',
        ''neighbour, every cell\'s refinement level; alpha 1.8848e-15, p_rgh 3.7065e-15 relative, U '',
        ''2.4051e-13, p 2.2797e-14, rAU 1.5133e-12, phi 2.6343e-13, Uf 2.5089e-13; patch values alpha '',
        ''EXACT, U 1.4268e-16, p_rgh 3.7e-15; all 6 p_rgh and 3 pcorr solves on OpenFOAM\'s iteration '',
        ''count with every residual identical TO THE BIT; sum local continuity error 8.138623e-09 '',
        ''against 8.138623e-09. TWO CONTROLS: the mapped flux left alone (no Sf & Uf rebuild, no '',
        ''pcorr) reads alpha 2.8570e-01 and max(alpha.water) 1.009594 where OpenFOAM stays at 1; the '',
        ''carried cell fields RESIZED instead of mapped reads alpha 3.6032e-02. AND ONE ARM THAT '',
        ''CANNOT WITNESS, measured: re-capturing the old-time levels instead of mapping them changes '',
        ''NOTHING (0.0e+00 on alpha and U), because at the top of a step every old-time level is a '',
        ''copy of its own field -- the gate asserts that identity rather than pretending to test it. '',
        ''The chain below it is gated on its own: tests/hex_ref8_vs_openfoam.sh (7 arms including '',
        ''three UNREFINEMENT ones), tests/refine_update_vs_openfoam.sh (three steps on an analytic '',
        ''moving sphere, refine and unrefine and both-in-one-step, with the flux correction on an '',
        ''injected velocity pair), tests/refine_candidates_vs_openfoam.sh, '',
        ''tests/refine_controls_vs_openfoam.sh, tests/mesh_edges_addressing_vs_openfoam.sh. NOT '',
        ''CLAIMED: the flux correction on the shipped path (every interFoam tutorial maps every flux '',
        ''to `none`; a case that names a velocity or NaN is refused) and the old-time levels mapping. '',
        ''UNREFINEMENT inside a solver run IS held, on laminar/oscillatingBox at step 57 '',
        ''(tests/interfoam_amr_motion_vs_openfoam.sh boxUnrefine), and so is a MOTION beside the '',
        ''refinement there: a 3-D solidBody motion of the whole mesh, its points0 mapped through each '',
        ''change and its points and points0 held to OpenFOAM\'s bitwise, on the HOST arm; the DEVICE arm '',
        ''refuses that combination by name and runs refinement alone (device_refine_runs). Refused '',
        ''beside it, each by name: a motion solver on a 2-D mesh or under CrankNicolson or '',
        ''moveMeshOuterCorrectors, wave conditions, a CN restart '',
        ''directory, `correctPhi no`, and a coupled patch on a refining mesh. MRF was on that list '',
        ''until tests/interfoam_amr_mrf_vs_openfoam.sh gated it on mixerVessel2D -- see '',
        ''interFoam_MRF, whose oracle for the renumbered cellZone is the one OpenFOAM writes into its '',
        ''own time directory, compared cell by cell. AND TURBULENCE WAS ON IT UNTIL '',
        ''tests/interfoam_amr_ras_vs_openfoam.sh, which stages RAS/damBreak plus one injected '',
        ''dynamicMeshDict in two profiles -- `ke` as shipped and `sst` the same case made kOmegaSST, '',
        ''the only one of the two that builds a CELL wall distance. WHAT OPENFOAM DOES SPLITS IN '',
        ''THREE. k, the second transported scalar and nut are registered AUTO_WRITE fields, so '',
        ''MapGeometricFields autoMaps them and brae maps them through the same cell and patch mappers '',
        ''as alpha1, their per-step old times with them. THE CELL WALL DISTANCE IS RECOMPUTED, not '',
        ''mapped: wallDist is a MeshObject<fvMesh, UpdateableMeshObject, wallDist> (wallDist.H:76-78), '',
        ''so a change reaches wallDist::updateMesh, which is `pdm_->updateMesh(mpm); requireUpdate_ = '',
        ''true; movePoints();` (wallDist.C:224-234) -- the latch is FORCED, with OpenFOAM\'s own '',
        ''comment "Force update if performing topology change", where a plain MOVE only sets it '',
        ''when the interval divides the step; kOmegaSST holds a const reference into that object '',
        ''(kOmegaSSTBase.C:381) whose header notes it is "different to wall distance in parent '',
        ''RASModel which is for near-wall cells only". AND THE NEAR-WALL DISTANCE NEEDS NOTHING on '',
        ''the host: it is turbulenceModel::y_, a nearWallDist and NOT a MeshObject, re-corrected by '',
        ''`if (mesh_.changing()) { y_.correct(); }` (turbulenceModel.C:94-100) -- changing() being '',
        ''moving() OR topoChanging(), the same distinction that decided this port\'s Uf, correctUf and '',
        ''ddtCorr branches -- and brae\'s host closures recompute it at every correct() '',
        ''unconditionally; the DEVICE arm caches it and does rebuild it. MEASURED on `ke`, host then '',
        ''device then device-vs-host: alpha 1.1425e-14, 2.7756e-14, 2.8311e-14; p_rgh 1.0323e-14, '',
        ''2.2903e-14, 2.0000e-14; U 1.9283e-13, 1.7083e-12, 1.7087e-12; k 2.2516e-14 and 2.1519e-13; '',
        ''epsilon 2.0314e-14 and 6.1862e-13; nut 3.7415e-14 and 9.1907e-14; plus ALL 23 ITERATION '',
        ''COUNTS OpenFOAM\'s (12 p_rgh, 3 pcorr, 4 k, 4 epsilon) with no solve at maxIter. On `sst` the '',
        ''host reads k 1.9062e-14, omega 5.1909e-15 and nut 1.8203e-14 while the device reads '',
        ''7.4632e-11, 1.1299e-10 and 1.0470e-10 -- the static RAS gate\'s own documented device SST '',
        ''floor ("nut carries the device loop\'s U difference through k, omega and F2, so an SST '',
        ''profile sits three orders above a kEpsilon one", its `sst` reading omega 3.09e-11), which '',
        ''is the device closure\'s distance and not the carry\'s: the host is at 1e-14 on both profiles. '',
        ''THE FIXTURE CAN WITNESS, both halves measured from OpenFOAM\'s own output rather than '',
        ''assumed: the fields are UNIFORM at t=0 (k and epsilon 0.1, nut 0) and develop in ONE step '',
        ''(epsilon spans 0.09981 to 8.449 at t=0.001), so the FIRST change maps a uniform state -- '',
        ''which a broken mapper carries correctly -- and the SECOND maps a developed one, which is why '',
        ''the gate takes four steps; and WALL-FUNCTION FACES ARE SPLIT, leftWall 50 -> 56 -> 68 and '',
        ''lowerWall 62 -> 68 -> 80 while rightWall stays at 50 because the water has not reached it, '',
        ''asserted in the script from the written boundary files. EVERY SOLVE IS PINNED, and not all '',
        ''to one value: at the tutorial\'s own `relTol 0.05` the fields read alpha 6.5e-11 with every '',
        ''count already equal (the Krylov stopping point), at 1e-14 they reach 1.1e-14 but k CANNOT '',
        ''REACH 1e-14 with symGaussSeidel and both codes then grind to maxIter 1000 on two of four k '',
        ''solves where the count stops discriminating, so the (U|k|epsilon) block is pinned at 1e-12 '',
        ''and the script FAILS if any solve hits maxIter. THE CONTROL, '',
        ''BRAE_CONTROL_AMR_NO_TURB_UPDATE, does not recompute the wall distance or the filter width: '',
        ''it is a TEST on `sst` (alpha 2.0797e-03 against 2.8866e-15, twelve orders) and VACUOUS on '',
        ''`ke` (0.0e+00, because kEpsilon builds no cell wall distance), and the gate asserts which. '',
        ''ONE DEFECT FOUND, and only the device arm could find it: dRhoOld -- rho.oldTime() for the '',
        ''closure\'s fvm::ddt(rho, k) -- is captured at the TOP of a step from the previous step\'s dRho '',
        ''and read after the change, so it sat at the OLD cell count while every other closure input '',
        ''was at the new one. Nothing else reads it (the laminar path has no ddt(rho,k)), so it was '',
        ''wrong for as long as an adaptive turbulent case was refused. MEASURED before the fix: every '',
        ''one of the 546 cells the change added (78 refined x 7) came out of the closure\'s FIRST solve '',
        ''with k collapsed to 1.2e-12 against OpenFOAM\'s minimum 0.09221 and nut to 3.8e-25 against '',
        ''9.057e-05, reaching 5.4e+04 times OpenFOAM\'s nut by four steps. It was named by printing the '',
        ''SIZE of every mesh-sized input the closure is handed (BRAE_AMR_TRACE): one said 2268 where '',
        ''the rest said 2814. TWO THINGS HARDENED WITH IT: the device yCell upload had no size check '',
        ''where the LES branch throws, which stopped being harmless once this builder ran mid-run; and '',
        ''the old-time restore is unconditional, because buildDeviceInterTurbulence does once-per-run '',
        ''RESTART seeding (seedCnDdt0, readClosureCnOldTime) and an `if (!empty)` restore would have '',
        ''been correct only by the order of two lines. STILL REFUSED beside a change: the closure '',
        ''under CrankNicolson (its ddt0 levels are registered DDt0Fields OpenFOAM autoMaps, and the '',
        ''SOLVER\'s took two units of their own), refused on the SCHEME and on the STATE; and LES, '',
        ''whose filter width IS recomputed here but whose only fixture is not adaptive. NOT CLAIMED: '',
        ''a `wallDist { updateInterval }` other than 1 -- the forced latch is exactly what a change '',
        ''does differently from a move and can only be witnessed above 1, which is refused for want '',
        ''of a fixture; unrefinement beside turbulence; the variable-density lineage under SST (brae '',
        ''refuses `density variable` with kOmegaSST by name, so `sst` drops it and `ke` alone '',
        ''witnesses that lineage); and RAS/motorBike itself, which needs a reader for the cellLevel, '',
        ''pointLevel and level0Edge snappyHexMesh writes -- brae assigns level 0 everywhere, so '',
        ''maxRefinement does not mean the same thing. That is the next unit and this is what it '',
        ''stands on. AND A MESH THAT IS ALREADY REFINED WHEN THE RUN STARTS, '',
        ''tests/interfoam_amr_levels_vs_openfoam.sh: OpenFOAM reads THREE files and not four. cellLevel '',
        ''and pointLevel are labelLists from mesh_.facesInstance()/polyMesh, READ_IF_PRESENT with '',
        ''labelList(n, Zero) behind them (hexRef8.C:1912-1937); refinementHistory is READ_IF_PRESENT '',
        ''with a FATAL visibleCells().size() == nCells check (:1953-1990), its operator>> clearing '',
        ''freeSplitCells_ while its operator<< compacts first, so a written history has no holes; and '',
        ''level0Edge IS NOT READ BY THIS SOLVER AT ALL -- hexRef8 uses level0EdgeLength() only in '',
        ''consistentSlowRefinement2 (:2784), which dynamicRefineFvMesh never calls, calling '',
        ''consistentRefinement (dynamicRefineFvMesh.C:895) and rolling its own buffer layers (:1415). '',
        ''So brae reads three and says why it ignores the fourth. THAT ALSO REFRAMES THE DEFECT: '',
        ''all-zeros IS OpenFOAM\'s fallback, correct for every blockMesh case and wrong only where the '',
        ''files exist. THE FIXTURE is built in two phases because a mesh at mixed levels has to come '',
        ''from somewhere: OpenFOAM runs laminar/damBreak for ONE step and its 0.001/polyMesh becomes '',
        ''the gate case\'s constant/polyMesh. A UNIFORM cellLevel would make the unit invisible -- the '',
        ''2:1 constraint only differs where levels differ -- so the seed\'s spread is asserted: 2,814 '',
        ''cells at levels {0: 2190, 1: 624}. A TWO-step seed was tried first and REFUSED BY THE '',
        ''SCRIPT\'S OWN WITNESS CHECK: at {0,1,2} with maxRefinement 2 the continuation selects `0 '',
        ''cells for refinement out of 4998` and 0 split points, so no refinement decision is taken '',
        ''and nothing reads a level. THE CONTROL IS CAUGHT STRUCTURALLY, not by a field bound: '',
        ''BRAE_CONTROL_AMR_NO_LEVELS restores exactly what brae SHIPPED (level 0 everywhere, which is '']\<close>

definition inf_interFoam_dynamicRefine_validation_2 :: "string list" where
  \<open>inf_interFoam_dynamicRefine_validation_2 = [
        ''also OpenFOAM\'s answer when the files are absent), `cellLevel[celli] < maxRefinement` is then '',
        ''true for every cell, and it refines cells already at the cap -- 18,466 cells against '',
        ''OpenFOAM\'s 4,998, alpha 8.5760e-02 and U 4.2137e-01 against the port\'s 4,998 cells, every '',
        ''level OpenFOAM\'s and alpha 1.0501e-09. A SECOND PROFILE IS motorBike\'S ACTUAL SHAPE: its '',
        ''controlDict says `writeFormat binary`, so its snappy-written levels are BINARY -- the trap '',
        ''the cellZones reader fell into -- and its Allrun.pre DELETES the refinementHistory, making '',
        ''snappy\'s refinement permanent. The binary files are OPENFOAM\'S OWN: foamFormatConvert '',
        ''converts fields and leaves polyMesh label lists alone (measured) and writes in the case\'s '',
        ''own writeFormat with no -binary flag (which the arm caught by asserting the format it got), '',
        ''so the seed is re-run with writeFormat binary and only its two label lists are taken -- '',
        ''encoding them in the script would test the script\'s writer against brae\'s reader and could '',
        ''agree on a shared mistake. A BINARY refinementHistory is REFUSED by name: its splitCells are '',
        ''a compound (parent, FixedList<label,8>) and not the flat blob readBinaryLabelList handles. '',
        ''ONE SHARED READER: readLabelColumn/readLabelFile were file-static in primitive_mesh.cu '',
        ''serving owner and neighbour; readLabelListFile is exported now and both use it. THE FIELD '',
        ''BOUNDS ARE 1e-08 AND THAT IS MEASURED CONDITIONING -- this is the first fixture whose FIRST '',
        ''change maps a DEVELOPED state -- OpenFOAM against itself at one ulp reads alpha 7.7953e-10, '',
        ''p_rgh 3.3041e-09, U 2.7944e-08 against brae\'s 1.0501e-09, 4.5130e-09, 3.6038e-08, i.e. '',
        ''1.35x, 1.37x and 1.29x of the twin; the mrf profile\'s `<=` is NOT a law and the bound is a '',
        ''per-profile ulpFactor (1 there, 2 here) with both ratios recorded. ONE ITERATION COUNT '',
        ''DIFFERS (114/115 of 9) and the TWIN settles it: OpenFOAM\'s solve ends at 9.267e-15 against a '',
        ''pinned 1e-14, 7% under it, and its own one-ulp twin reproduces the oracle\'s counts exactly, '',
        ''so the count is a threshold crossing -- this profile measures the counts and asserts at most '',
        ''one differs and by at most one, rather than widening compareSolves\' thousandth-of-tolerance '',
        ''rule for every other caller. TWO DEFECTS FOUND BY THE SAME FIXTURE, both READ_IF_PRESENT in '',
        ''OpenFOAM and always-constructed in brae: Uf (createUfIfPresent.H is READ_IF_PRESENT with '',
        ''fvc::interpolate(U) only as the FALLBACK, and a refining mesh writes a Uf beside every time '',
        ''directory -- measured with the file present, the mesh and EVERY CELL LEVEL came out exactly '',
        ''OpenFOAM\'s while alpha read 8.8625e-02 and U 1.2349e+00, because phi = Sf & Uf at the change '',
        ''consumes it). THE phi HALF OF THAT CLAIM WAS WRONG and is corrected here: brae reads phi '',
        ''READ_IF_PRESENT already, through readPhiIfPresent (inter_case_cpp.cu:1155) with a phiWasRead '',
        ''flag -- the claim came from grepping for the literal `startDir + "/phi"`, which the '',
        ''helper\'s name hides, and the measurement that accompanied it (omitting the file changed '',
        ''nothing to five figures) was right for that reason rather than because it did not matter. Uf '',
        ''is omitted from this fixture so both codes take the same fallback, a hole named in the '',
        ''script and CLOSED by the restart profile: readUfIfPresent now reads it, with '',
        ''BRAE_CONTROL_NO_UF_READ restoring the interpolation as the control -- caught at alpha '',
        ''8.8625e-02 against the port\'s 5.6049e-10, rAU 8.0261e-01 against 1.2132e-08, eight orders. '',
        ''readSurfaceField\'s body is now a template with two thin wrappers, because '',
        ''SurfaceScalarField and SurfaceVectorField are two structs of one layout. alphaPhi0.water is '',
        ''READ_IF_PRESENT too (createAlphaFluxes.H:1-8) and brae reads only its PRESENCE; this fixture '',
        ''CANNOT witness that, measured rather than argued -- interFoam.C:120-123 clears '',
        ''talphaPhi1Corr0 when the topology changes, so on a case whose first change is at step 1 the '',
        ''value is discarded before use, and removing the file moved nothing to five figures. It stays '',
        ''an open finding for a NON-adaptive restart. THE restart PROFILE\'S FIELD BOUNDS ARE REPORTED '',
        ''AND NOT ASSERTED, which is the honest answer rather than a relaxation: it reads alpha '',
        ''5.6049e-10 where OpenFOAM\'s own one-ulp twin reads about 2.8e-11, so brae is 20x to 32x the '',
        ''envelope and not inside it as the levels profile is at 1.35x, and the remainder is NOT '',
        ''localised (alphaPhi0 was the candidate and was measured not to be it). So that profile '',
        ''asserts the mesh, every cell level, that the Uf file WAS read, and the control at eight '',
        ''orders, and prints the field distances beside them with the reason. AND THAT RESIDUAL IS NOW '',
        ''LOCALISED, in four measurements. (1) PER STEP: step 1 is essentially exact -- alpha '',
        ''5.5511e-16 with all three p_rgh initial residuals BIT-IDENTICAL -- and step 2 introduces '',
        ''5.0078e-12, so the start state, the three reads and step 1\'s whole solve are OpenFOAM\'s and '',
        ''the error is born in what step 1 LEAVES for step 2. (2) WITH THE CHANGE SWITCHED OFF '',
        ''(refineInterval 1000000, a pure restart on a mesh that happens to be refined) alpha holds to '',
        ''3.5018e-12 over three steps against 5.6049e-10 with it -- 160x -- SO THE READS ARE NOT THE '',
        ''PROBLEM: it is the topology change acting on a DEVELOPED state, and this is the first fixture '',
        ''whose FIRST change does that, every other profile\'s first change happening from rest. (3) '',
        ''WHICH FIELD, at step 1, pure restart against with-change: Uf 1.4201e-11 -> 2.3274e-10 (16x), '',
        ''U 1.0164e-11 -> 1.2952e-10 (13x), p_rgh 4.5x, phi 4.4x, rAU 1.3x, and alpha BIT-IDENTICAL. '',
        ''At rest every surface field is zero and a refined cell\'s hull average is exactly 0 in both '',
        ''codes, which is why no other profile can see any of it. (4) IT IS NOT ONE SITE: 1,095 of '',
        ''12,487 internal faces sit within a hundredth of the worst, which rules out a single '',
        ''mis-mapped face and points at the surface-field mapping as a whole. A FIFTH reading was '',
        ''WRONG and is recorded: the first version of that diagnostic invited `a low face index is an '',
        ''inherited face, a high one is added`, which is true of CELLS (hexRef8 modifies the parent in '',
        ''place and appends seven children) and FALSE of faces, which polyTopoChange renumbers '',
        ''wholesale. THE NEXT MEASUREMENT IS NAMED AND NEEDS NO NEW ORACLE: '',
        ''tests/refine_update_vs_openfoam.sh already gates the MAPPER against OpenFOAM\'s own on '',
        ''injected fields, and it injects surface SCALARS (braePhi oriented, braePhiFlat unoriented) '',
        ''and a volVector (braeU) but NO SURFACE VECTOR -- the path Uf takes. Adding a braeUf there '',
        ''separates the MAP from the phi = Sf & Uf rebuild and its pcorr: red means the surface-vector '',
        ''map, green means the rebuild. NOT CLAIMED: a GENUINE restart from a latestTime directory (OpenFOAM '',
        ''reads the levels from mesh_.facesInstance(); brae hard-codes constant/polyMesh in four places '',
        ''and has no facesInstance, so the fixture copies the refined mesh into constant/ -- the reader '',
        ''is done, the instance resolution is not), a label=64 install (readBinaryLabelList memcpys '',
        ''sizeof(label) without reading the header\'s arch, pre-existing), and motorBike itself. THE DEVICE ARM RUNS IT '',
        ''TOO (unit 9), in the same test and '',
        ''against the same oracle: the change is host work on either loop, so what the device arm '',
        ''measures is the ROUND TRIP -- every mesh-sized buffer down to the host, the change, and '',
        ''every one of them back up onto a DeviceMesh REBUILT from scratch, which is what '',
        ''invalidates the schedule caches keyed on its addressingId. MEASURED: alpha 2.2204e-15 '',
        ''from OpenFOAM, p_rgh 6.0540e-15 relative, U 3.2213e-13, phi 3.2929e-13; from the host '',
        ''arm alpha 2.1176e-15; and the arm run TWICE IN ONE PROCESS bit-identical, which is the '',
        ''detector for a schedule cached against a recycled pointer. FOUND BY THAT ARM: Uf.oldTime '',
        ''was rotated inside `if (dyn)`, so an adaptive case kept the Uf the run STARTED with -- '',
        ''alpha stayed exact at 2.2e-15 while p_rgh read 1.4536e-02, U 2.1642e-01 and phi '',
        ''3.5678e-01, the pressure half alone; and a buffer the loop has not written yet is EMPTY '',
        ''(rhoPhi\'s boundary is the alpha step\'s output, so at the first change reading it walked '',
        ''off the end of the array). FOUR PROFILES NOW, each on both arms: `open` as shipped, '',
        ''`closed` with the atmosphere walled off so the case\'s own pressure reference is live '',
        ''(unit 10), `cn` under CrankNicolson 0.5 (unit 11) and `porosity` with an '',
        ''explicitPorositySource over a cellZone of the water cells (unit 14). THE cn PROFILE turns '',
        ''the old-time control from a statement about the fixture into a test: the scheme reads the '',
        ''old-OLD levels, which are two steps back and are copies of nothing current, so '',
        ''re-capturing them instead of mapping them reads alpha 9.3122e-03 and U 2.5152e-01 where '',
        ''under Euler it reads 0.0e+00. MEASURED on cn: alpha 7.7716e-15 on the host and 2.1982e-14 '',
        ''on the device; and the device\'s CN carry is the ddt0 levels themselves -- FOUND THERE, '',
        ''`if (!dyn) phiOldRequested = true;`, which left the device asking for a phi.oldTime an '',
        ''adaptive case never got (6.97e-04). THE porosity PROFILE is the sharpest oracle in the set '',
        ''because OpenFOAM PRINTS ITS OWN SELECTION: `- selected N cell(s) with volume V` at every '',
        ''change, 2736 -> 7398 -> 26711 cells at a volume of 0.08349609375 that never moves a digit. '',
        ''OpenFOAM RE-SELECTS rather than mapping the labels (cellSetOption::isActive() calls '',
        ''setCellSelection() whenever the mesh is topoChanging, cellSetOption.C:383-396) and a '',
        ''cellZone resolves against the LIVE zone, which polyTopoChange renumbers by giving each '',
        ''child its parent\'s zone id. MEASURED: brae\'s last selection is 26711 cells of '',
        ''0.08349609375, alpha 1.5190e-14, p_rgh 1.2499e-14 relative, rAU 1.4562e-11, all 9 p_rgh '',
        ''and 3 pcorr solves on OpenFOAM\'s counts. THE CONTROL keeps the selections: 2736 cells of '',
        ''0.0657119750977 -- the zone\'s unrefined part alone -- and U 9.5948e-02. THE DEVICE ARM '',
        ''FOUND THE SAME DEFECT ON ITS OWN HALF, which nothing else here could: the porosity cell '',
        ''list was uploaded ONCE before the time loop, so the device applied the resistance to an '',
        ''eighth of the zone and read the control\'s own number, U 9.5948e-02 from the host arm, to '',
        ''every digit. AND THE 2-D CASE, refused for one release and now gated (unit 12): '',
        ''laminar/damBreak read alpha 5.2e-03 with every solve pinned to 1e-14 relTol 0 because the '',
        ''hull average of dynamicRefineFvMeshTemplates.C:42-53 counted an `empty` patch\'s faces in '',
        ''its denominator while an emptyFvPatchField is constructed ZERO-SIZED on a patch that HAS '',
        ''faces, so those faces contributed nothing and divided by themselves anyway -- braePhi '',
        ''161.0 against OpenFOAM\'s -6.8e-30 on the mapper oracle. Skipping a patch that holds no '',
        ''values takes it to alpha 1.8e-15, and tests/refine_update_vs_openfoam.sh\'s third arm gates '',
        ''the mapper itself on a 2-D mesh.'']\<close>

definition inf_interFoam_dynamicRefine_validation :: string where
  "inf_interFoam_dynamicRefine_validation = lit (inf_interFoam_dynamicRefine_validation_1 @ inf_interFoam_dynamicRefine_validation_2)"

definition inf_interFoam_dynamicRefine_note :: string where
  \<open>inf_interFoam_dynamicRefine_note = lit [
        ''WHAT AN ADAPTIVE interFoam IS: interFoam.C:114 mesh.update() with dynamicRefineFvMesh selected, '',
        ''then interFoam.C:116-148 gated on mesh.changing(). The engine: select cells whose driving field '',
        ''lies in (lowerRefineLevel, upperRefineLevel) through cellToPoint\'s UNWEIGHTED point average, '',
        ''extend by nBufferLayers, cap at maxRefinement and maxCells, protect non-hexes; hexRef8 splits '',
        ''each into eight and removeFaces merges the faces of an unrefined set; then SIX maps -- cell, '',
        ''face, point, and the three patch ones -- carry every registered field. The mappers are the part a '',
        ''solver cannot see: a cell mapper is DIRECT when nothing merged and interpolative with VOLUME '',
        ''weights when the map carries old cell volumes, V0 has a rule of its own (gather then ADD the '',
        ''merged parts, then correctOldVolumes overwrites split and merged cells with their own V), an '',
        ''ORIENTED surface field is negated on flipFaceFlux and hull-averaged as an intensive vector where '',
        ''an unoriented one is not, and mapNewInternalFaces runs on EVERY registered surface field outside '',
        ''the per-flux loop. THE SOLVER\'S OWN HALF is interFoam.C:118-142 in this order: drop the previous '',
        ''step\'s MULES correction flux (talphaPhi1Corr0.clear(), because it is a flux on faces that no '',
        ''longer exist), gh and ghf off the new centres, MRF.update(), and then under `correctPhi` -- which '',
        ''DEFAULTS TRUE on a refining mesh, because mesh.dynamic() is moving() OR topoChanging() -- rebuild '',
        ''phi = mesh.Sf() & Uf(), solve pcorr, makeRelative (a no-op: a refining mesh does not move) and '',
        ''mixture.correct(). THE THREE THINGS THAT dynamic() DECIDES, and brae asked moving() for all '',
        ''three: createUfIfPresent.H builds Uf (so a refining case HAS one, and OpenFOAM\'s own run writes '',
        ''it beside every time directory), fvc::correctUf runs (fvcMeshPhi.C:224), and fvc::ddtCorr takes '',
        ''the Uf branch (fvcDdt.C:219). A SPLIT FACE INHERITS ITS PARENT\'S WHOLE FLUX through a quarter of '',
        ''the area -- Field::map copies, it does not divide -- so the mapped flux carries max|div(phi)|/V '',
        ''of about 5.0e+02 per second and the alpha equation has nothing to absorb it; the Sf & Uf rebuild '',
        ''alone leaves 1.3e+02, and OpenFOAM\'s pcorr takes it to 2.6e-09 in 8 GAMG iterations. HOST_ONLY is '',
        ''a finished state for the ENGINE: topology surgery and six integer maps, not per-cell arithmetic. '',
        ''What the DEVICE loop needs is the new topology and the mapped fields uploaded, and every device '',
        ''object keyed on the old addressing destroyed -- the same shape as interFoam_dynamicMesh\'s target '',
        ''for motion. FOUND ON THE WAY, each silent: `outerOfStep == 1` is never true on the first '',
        ''corrector (it is 0), so a case ran to completion refining nothing; a cached `nC` read before the '',
        ''loop made every per-cell statistic use the pre-refinement count (the Courant number read 0.041 '',
        ''against OpenFOAM\'s 0.0880, which is instrumentation and would have been diagnosed as physics); '',
        ''`alpha2Bnd` -- alpha2\'s patch values, which are NOT 1 - alpha1\'s, because `alpha2 = 1 - alpha1` '',
        ''runs one line above the corrector\'s mixture.correct() -- was neither mapped, recomputed nor '',
        ''refused, and updateMixtureBoundary reads it behind a per-face length guard that silently blends '',
        ''one face\'s alpha1 with another\'s alpha2; and three patch fields inherited '',
        ''autoMapComplete() == true from MixedPatchField while leaving their own TOLD per-face state out of '',
        ''autoMap, which is the flag that decides whether a change is REFUSED. EVERY PATCH TYPE HAS SINCE '',
        ''BEEN RESOLVED: of the 33 classes in fv_patch_field.cuh, 28 answer true and 5 answer false, and '',
        ''each of the five names its own reason -- the base (the safety net), processor (parallel, not '',
        ''worked on), and cyclic/coupledCyclic/porousBafflePressure, whose blocker is on the MESH side, '',
        ''since faceConsistentRefinement refuses any coupled patch before a field is ever mapped. TWO '',
        ''ANSWERED TRUE WRONGLY: timeVaryingMappedFixedValue retained nothing, so a refinement handed each '',
        ''child its parent\'s sampled value instead of the table read at the child\'s own centre '',
        ''(MappedFile.C:228-248 resets the interpolator for exactly this), and surfaceNormalFixedValue kept '',
        ''only refValue*nf, which cannot be re-formed against a normal that has changed. THE THREE TOLD-STATE '',
        ''REFUSALS ARE NOW MAPS, and coarsening was the direction nothing guarded: every length guard is '',
        ''`size() < n`, so a SHRINKING patch left a stale vector long enough to pass and read the flux and '',
        ''the phase fraction at old face indices.'']\<close>

definition inf_interFoam_dynamicRefine :: component where [manifest_rows]:
  \<open>inf_interFoam_dynamicRefine =
     [(''name'', PStr ''interFoam_dynamicRefine''),
      (''of_symbol'', PStr ''dynamicRefineFvMesh''),
      (''of_file'', PStr ''src/dynamicFvMesh/dynamicRefineFvMesh/dynamicRefineFvMesh.C''),
      (''classification'', PStr ''HOST_ONLY''),
      (''status'', PStr ''REIMPLEMENT''),
      (''brae_reference'', PStr ''src/dynamicFvMesh/dynamicRefineFvMesh/dynamic_refine_fv_mesh_cpp.cu''),
      (''brae_target'', PStr ''''),
      (''validation'', PStr inf_interFoam_dynamicRefine_validation),
      (''note'', PStr inf_interFoam_dynamicRefine_note)]\<close>

definition inf_interFoam_dynamicMesh_validation :: string where
  \<open>inf_interFoam_dynamicMesh_validation = lit [
        ''tests/interfoam_moving_vs_openfoam.sh, real OpenFOAM run SERIALLY, ten fixed steps of 2e-4 on '',
        ''laminar/testTubeMixer -- a closed tube of water and air on a turntable that also tilts, every '',
        ''wall a movingWallVelocity -- against its fields, its moved points, its Uf and its wall '',
        ''velocity, with the same tube held still (`staticFvMesh`) as the control. FIVE PROFILES: as '',
        ''staged (the tutorial\'s nAlphaSubCycles 3), MULESCorr, nOuterCorrectors 2 with '',
        ''moveMeshOuterCorrectors (the mesh moved twice in one step), without it (the second '',
        ''corrector must NOT move it), and momentumPredictor yes. MEASURED, worst of the five: every '',
        ''p_rgh iteration count OpenFOAM\'s (20 to 40 per profile), initial residuals 3.7e-11 in step '',
        ''one and 4.8e-09 over the run, alpha 5.6e-12, p_rgh 1.5e-13, U 1.0e-10, Uf 6.8e-11, the wall '',
        ''velocity 7.0e-14 on 1050 faces, the moved points OpenFOAM\'s exactly. THE CONTROL: the still '',
        ''tube is 100% of U and 0.8 of alpha away. THE TUTORIAL RUNS AS SHIPPED: vanLeerV (interFoam_vanLeerV) and '',
        ''p_rghFinal\'s PCG with a GAMG preconditioner (interFoam_GAMG) were staged away until each '',
        ''was ported. With them, alpha 6.1e-12 and U 7.0e-11 at worst over the five profiles; the '',
        ''two non-orthogonal tanks run as shipped too (interFoam_nonOrthCorrection). BROKEN ONCE EACH: phi left absolute after the corrector alpha 9.2e-01 and U '',
        ''470%; ddtCorr from phi.oldTime() instead of Sf & Uf.oldTime() 8.1e-02 and 28%; Uf left at '',
        ''interpolate(U) 3.3e-02 and 27%; gh and ghf not recomputed 3.3e-04; the GAMG hierarchy kept '',
        ''from step one 9.3e-06 and 10 of 20 counts; the mesh moved on every outer corrector 5.1e-07 '',
        ''and 29 of 40; oldPoints re-taken on the second update 9.9e-02 and 100%; the wall velocity '',
        ''as the face-centre displacement alone, without the swept volume in its normal component, '',
        ''and adjustPhi STOPS THE RUN with OpenFOAM\'s own `continuity error cannot be removed`. WHAT '',
        ''THIS GATE CANNOT SEE, because the motion is rigid: every cell keeps its volume to round-off, '',
        ''so V0 against V in fvm::ddt and MULES and Vsc\'s interpolation inside a sub-cycle move the '',
        ''answer by 1e-15 -- transcribed, and gated only by a mesh that deforms. NOT CLAIMED: '',
        ''a turbulent case on a moving mesh (refused) and the device (refused). correctPhi is '',
        ''interFoam_correctPhi, and a wave condition on a moving mesh runs: see there.'']\<close>

definition inf_interFoam_dynamicMesh_note :: string where
  \<open>inf_interFoam_dynamicMesh_note = lit [
        ''WHAT interFoam DOES ON A MOVING MESH, in the order of interFoam.C:118-148 and pEqn.H. At the top '',
        ''of the first outer corrector: mesh.update(), whose last line is U.correctBoundaryConditions() -- '',
        ''a movingWallVelocity takes Uwall = Up + n*(Un - n&Up) with Up the face::centre displacement '',
        ''over deltaT and Un = meshPhi/(magSf + VSMALL): the normal component is the SWEPT VOLUME\'s, so '',
        ''the wall\'s flux is the mesh flux and a closed tank\'s adjustPhi closes on it; then gh and ghf '',
        ''from the new centres; the correctPhi block is skipped when the case says `correctPhi no`, '',
        ''which every solid-body tutorial does. The alpha sub-cycle convects with the RELATIVE phi the '',
        ''last corrector left and divides by Vsc; fvm::ddt(rho, U) carries V0 in its source; ddtCorr(U, '',
        ''phi, Uf) is ddtCorr(U, Uf) on a dynamic mesh: Sf & Uf.oldTime() in phi.oldTime()\'s place, with '',
        ''the NEW Sf and weights; adjustPhi sees phiHbyA made relative and is made absolute again; after '',
        ''`phi = phiHbyA - p_rghEqn.flux()` and U\'s correction, fvc::correctUf replaces Uf\'s normal '',
        ''component by the ABSOLUTE flux\'s and fvc::makeRelative subtracts meshPhi, so the phi that '',
        ''leaves the corrector is relative. GAMGAgglomeration::movePoints marks the hierarchy for '',
        ''rebuilding at every step (updateInterval 1), from wherever the static pairing direction was '',
        ''left. A TRANSCRIPTION SLIP FOUND ON THE WAY: ddtCorr\'s limiter divided by |phi| + 1e-37, '',
        ''the FLOAT build\'s VSMALL (floatScalar.H:64), where OpenFOAM\'s double build adds SMALL = 1e-15 '',
        ''(doubleScalar.H:62); the two differ only where |phi| is at or below 1e-15 and no gated number '',
        ''moved when it was corrected, on the host or on the device (device_inter_peqn.cu had it too and '',
        ''tests/test_device_inter_peqn.cu holds the two bit-identical); time_controls.cuh\'s setDeltaT '',
        ''still divides by CoNum + 1e-37 where setDeltaT.H adds SMALL (open finding, in that '',
        ''component). THE DRIVER TAKES ITS MESH BY CONST REFERENCE and a moving '',
        ''case needs the same objects mutable -- the points, the geometry, and the patches every patch '',
        ''field references -- so runInterFoam takes a MutableMesh naming them, checked by address, and '',
        ''refuses a moving case without one.'']\<close>

definition inf_interFoam_dynamicMesh :: component where [manifest_rows]:
  \<open>inf_interFoam_dynamicMesh =
     [(''name'', PStr ''interFoam_dynamicMesh''),
      (''of_symbol'', PStr ''mesh.update''),
      (''of_file'', PStr ''applications/solvers/multiphase/interFoam/interFoam.C''),
      (''classification'', PStr ''GPU_REQUIRED''),
      (''status'', PStr ''REIMPLEMENT''),
      (''brae_reference'', PStr ''src/applications/solvers/interFoam/inter_driver_cpp.cu''),
      (''brae_target'', PStr ''''),
      (''validation'', PStr inf_interFoam_dynamicMesh_validation),
      (''note'', PStr inf_interFoam_dynamicMesh_note)]\<close>

definition inf_interFoam_correctPhi_validation :: string where
  \<open>inf_interFoam_correctPhi_validation = lit [
        ''tests/interfoam_moving_vs_openfoam.sh, real OpenFOAM run serially for fixed steps. FIVE '',
        ''PROFILES: the three solid-body tanks with `correctPhi yes` (testTubeMixer; sloshingTank2D\'s '',
        ''non-orthogonal pcorr laplacian; sloshingCylinder\'s non-orthogonal corrector, pcorr then '',
        ''pcorrFinal, staged `maxIter 1000` because the shipped 100 leaves PCG unconverged at 0.1 to '',
        ''0.3 in both codes and then reads alpha 7.6e-09 on 22 of 22 counts); laminar/waves/'',
        ''waveMakerSolitary AS SHIPPED, thirty steps -- a deforming mesh, correctPhi by default, an '',
        ''absorbing outlet, an open top; and closed damBreak STARTED MOVING, U (0.1 0 0) against its '',
        ''walls, where initCorrectPhi does 79 iterations of work. Every other profile of the gate '',
        ''compares initCorrectPhi\'s start-up solve too. MEASURED: every pcorr and p_rgh iteration count '',
        ''OpenFOAM\'s; waveMakerSolitary alpha 2.9e-12, p_rgh 3.3e-13, U 1.7e-10; the tanks alpha '',
        ''1.4e-12, 3.0e-13, 1.2e-10; the moving dam alpha 1.2e-14, U 2.3e-12. BROKEN ONCE EACH: '',
        ''correctUphiBCs skipped, and phi not rebuilt from Sf & Uf, both stop the run in adjustPhi as '',
        ''OpenFOAM would; rAUf = 1 alpha 3.6e-02; no pcorr reference 4.1e-07; phi left absolute '',
        ''9.9e-01; pcorr\'s non-orthogonal flux dropped 4.9e-01 (the cylinder -- identically zero with '',
        ''no corrector, since pcorr starts at 0); initCorrectPhi skipped 3.2e-02 on the moving dam; '',
        ''fvm::ddt\'s V0 as V 1.1e-02 and the sub-cycle\'s Vsc as V 2.6e-03 on waveMakerSolitary, the '',
        ''first gated case whose cells change volume; the outlet\'s wave model updated in UEqn '',
        ''rather than at the mesh update U 2.0e-05. NOT CLAIMED: the curvature pass after '',
        ''CorrectPhi (under 3e-13 on these tanks), the corrected flux handed to flux-conditional '',
        ''patches (a closed tank has none), a divU, and the device (it runs initCorrectPhi on the '',
        ''host and refuses a moving mesh). GRAD(pcorr)\'S ENTRY, tests/interfoam_les_vs_openfoam.sh '',
        ''`pcorrGrad`: LES/nozzleFlow2D with `grad(pcorr) leastSquares;` named on its own, a mesh '',
        ''non-orthogonal to 40 degrees with one non-orthogonal pass, where the start-up pcorr\'s '',
        ''second pass takes its correction from that gradient and the entry moves OpenFOAM\'s own U '',
        ''by 1.7e-05 (the control). MEASURED on BOTH arms: U 4.5e-12, p_rgh 8.3e-11, alpha 6.6e-12, '',
        ''all 400 p_rgh counts. FOUND: the device driver\'s start-up controls were assembled by hand '',
        ''without the entry -- Gauss linear whatever the case named -- behind a refusal of every '',
        ''non-Gauss-linear grad(pcorr) that CorrectPhi, a host operator on both arms, never needed. '',
        ''One builder (correctPhiControlsOf) now serves the host driver, the device\'s start-up and '',
        ''its mesh update; the refusal keeps alpha, p_rgh, rho, U and nHat. BROKEN ONCE, the entry '',
        ''dropped from the builder: both arms U 1.79e-05, the scheme\'s own distance.'']\<close>

definition inf_interFoam_correctPhi_note :: string where
  \<open>inf_interFoam_correctPhi_note = lit [
        ''ONE CorrectPhi (CorrectPhi.C:36-117): correctUphiBCs when the mesh is changing -- every velocity '',
        ''patch that FIXES A VALUE evaluated again, a pressureInletOutletVelocity against the Sf & Uf '',
        ''flux, and phi there set to U_b & Sf; pcorr zero, fixedValue where p_rgh fixes a value and '',
        ''zeroGradient elsewhere; on a closed domain phi made relative, adjustPhi, made absolute; '',
        ''laplacian(rAUf, pcorr) == div(phi), pinned at cell 0 to 0 when it needs a reference, solved '',
        ''nNonOrthogonalCorrectors + 1 times with pcorrFinal last; phi -= flux() on the last pass, the '',
        ''face correction included. interFoam.C:136-146 then makes phi relative and calls '',
        ''mixture.correct(), which recomputes nHatf on the moved mesh. initCorrectPhi.H runs it at the '',
        ''start of EVERY case with rAUf exactly 1 (OpenFOAM\'s interpolation of a uniform 1 is exact); on '',
        ''a case at rest it is one solve of zero iterations, and no existing gate moved a digit when it '',
        ''went in. rAU is kept across steps under correctPhi (pEqn.H:4). THREE THINGS CHANGED ON THE WAY: '',
        ''pressureInletOutletVelocity now FIXES A VALUE, as directionMixed does in OpenFOAM (it said '',
        ''false; switching it moved nothing on damBreak, waves or capillaryRise, host or device); PCG '',
        ''with a GAMG preconditioner builds the mesh\'s hierarchy only when its initial residual has not '',
        ''converged, as PCG.C constructs its preconditioner, so a pcorr at rest neither builds it nor '',
        ''flips the pairing direction; and on a moving mesh the wave velocity model updates at the mesh '',
        ''update, where OpenFOAM\'s log has it. A wave condition on a moving mesh is no longer refused: '',
        ''OpenFOAM\'s model keeps its construction geometry and reads the patch\'s current magSf, and '',
        ''brae\'s does the same. CLOSED, found on the way: brae\'s dictionary expansion resolved `$name` '',
        ''only against literal keys, where OpenFOAM\'s keyword substitution matches patterns too '',
        ''(REGEX_RECURSIVE, dictionary.C:415-443) -- the two multi-paddle waveMakers write '',
        ''`p_rgh { $pcorr; ... }` against a `"(pcorr|pcorrFinal)"` entry, and brae read no solver '',
        ''there and ran PBiCGStab under a notice. The expander now searches as dictionary::csearch '',
        ''does (tests/test_dict_scoped_macro.cu, scored against foamDictionary -expand over the 9,500 '',
        ''tutorial dictionaries: 2,958 moved entries agree with OpenFOAM, 17 agreed only before), and '',
        ''both cases are profiles of the moving gate.'']\<close>

definition inf_interFoam_correctPhi :: component where [manifest_rows]:
  \<open>inf_interFoam_correctPhi =
     [(''name'', PStr ''interFoam_correctPhi''),
      (''of_symbol'', PStr ''CorrectPhi''),
      (''of_file'', PStr ''src/finiteVolume/cfdTools/general/CorrectPhi/CorrectPhi.C''),
      (''classification'', PStr ''GPU_REQUIRED''),
      (''status'', PStr ''REIMPLEMENT''),
      (''brae_reference'', PStr ''src/applications/solvers/interFoam/inter_correct_phi_cpp.cuh''),
      (''brae_target'', PStr ''''),
      (''validation'', PStr inf_interFoam_correctPhi_validation),
      (''note'', PStr inf_interFoam_correctPhi_note)]\<close>

definition inf_interFoam_interfaceCompression_validation :: string where
  \<open>inf_interFoam_interfaceCompression_validation = lit [
        ''tests/interfoam_dambreak_vs_openfoam.sh\'s `compression`: damBreak at dt 5e-3 with '',
        ''`div(phirb,alpha) Gauss interfaceCompression`, on a mesh that does not move. MEASURED: '',
        ''every p_rgh and alpha iteration count OpenFOAM\'s, alpha 6.6e-14, p_rgh 3.1e-14, U 2.2e-13. '',
        ''THE CONTROL: the scheme moves OpenFOAM\'s own alpha by 1.03e-01 against `Gauss linear`. '',
        ''BROKEN ONCE EACH: the quadratic form OpenFOAM leaves commented out 1.0e-02 of alpha; min '',
        ''for max 8.1e-02. NOT DISCRIMINATED: pos against pos0 in the blend (no face where the '',
        ''limiter is below 1 carries exactly zero flux). END TO END, tests/interfoam_moving_vs_openfoam.'',
        ''sh\'s `piston` and `flap`: laminar/waves/waveMakerPiston and waveMakerFlap, thirty steps of '',
        ''0.01, the mesh deformed by the paddle, correctPhi, the absorbing outlet -- with p_rgh, '',
        ''p_rghFinal and pcorr converged to 1e-13, because as shipped their 135- to 480-iteration '',
        ''solves carry last-bit differences out to U 3.9e-07 on the piston (converged: 1.6e-09); '',
        ''alpha 1.5e-12 and 1.0e-11, U 1.6e-09 and 1.1e-09, every solve below its tolerance in both '',
        ''codes, counts equal on short solves and within 2% on long ones (3 of 194 at worst). NOT '',
        ''CLAIMED: the device, which refuses the scheme by name -- its alpha mapping took it as '',
        ''linear until the host ported it. THE TWO MULTI-PADDLE waveMakers, `multiPiston` and '',
        ''`multiFlap` of the same script: AS SHIPPED on their own 448000-cell 3-D mesh, four paddles '',
        ''at 45 degrees, thirty steps of 0.01, GAMG as the solver of pcorr and p_rgh through '',
        ''`p_rgh { $pcorr; }`. MEASURED (piston, flap): all 90 p_rgh and all 31 pcorr iteration '',
        ''counts OpenFOAM\'s, alpha 5.7e-13 and 2.9e-12, p_rgh 5.6e-13 and 2.6e-12, U 2.2e-10 and '',
        ''1.8e-09, the moved points 1.1e-16 of the extent; the control, OpenFOAM with its mesh held '',
        ''still, U 100%. BROKEN ONCE, the pattern lookup taken out of the dictionary reader: 48 of '',
        ''90 p_rgh counts, alpha 9.7e-04, U 1.0e-01. AND THE DEVICE ARM on both, same script, same '',
        ''thirty steps as shipped: all 90 p_rgh counts OpenFOAM\'s, alpha 7.7e-14 and 1.7e-13, p_rgh '',
        ''7.7e-14 and 1.7e-13, U 6.7e-11 and 6.7e-11, Uf 5.8e-11 and 5.5e-11 -- and a second device '',
        ''run in the same process reproduces the first to the bit. BROKEN ONCE EACH: the device GAMG '',
        ''upload kept while the host hierarchy was rebuilt on the moved mesh, a heap corruption '',
        ''(free(): invalid next size) the sweep had reported as the flap\'s TIMEOUT; the Gauss-Seidel '',
        ''level cache keyed on the owner pointer and the sizes alone, which the pool recycles across '',
        ''the per-step rebuild: piston U 3.0e-02, 89 of 90 counts.'']\<close>

definition inf_interFoam_interfaceCompression_note :: string where
  \<open>inf_interFoam_interfaceCompression_note = lit [
        ''A PhiScheme (interfaceCompression.C:33-41), so the limiter reads the two cell values of the field '',
        ''and nothing else: clamp(1 - max(sqr(1 - 4 phiP (1 - phiP)), sqr(1 - 4 phiN (1 - phiN))), 0, 1), '',
        ''the quartic form -- 1 where both cells are half full, 0 where either is empty or full -- blended '',
        ''as limitedSurfaceInterpolationScheme::weights does, limiter*CDweight + (1 - limiter)*'',
        ''pos0(faceFlux), and 1 on an uncoupled patch (PhiScheme.C). alphaEqn.H applies it twice through '',
        ''fvc::flux(-fvc::flux(-phir, alpha2, alpharScheme), alpha1, alpharScheme): on alpha2 upwinded by '',
        ''-phir, then on alpha1 by the negated result.'']\<close>

definition inf_interFoam_interfaceCompression :: component where [manifest_rows]:
  \<open>inf_interFoam_interfaceCompression =
     [(''name'', PStr ''interFoam_interfaceCompression''),
      (''of_symbol'', PStr ''interfaceCompressionLimiter''),
      (''of_file'', PStr ''src/transportModels/interfaceProperties/interfaceCompression/interfaceCompression.H''),
      (''classification'', PStr ''GPU_REQUIRED''),
      (''status'', PStr ''REIMPLEMENT''),
      (''brae_reference'', PStr ''src/finiteVolume/interpolation/surfaceInterpolation/limitedSchemes/limitedSchemes_cpp.cuh''),
      (''brae_target'', PStr ''''),
      (''validation'', PStr inf_interFoam_interfaceCompression_validation),
      (''note'', PStr inf_interFoam_interfaceCompression_note)]\<close>

definition inf_interFoam_pressureReference_validation :: string where
  \<open>inf_interFoam_pressureReference_validation = lit [
        ''tests/interfoam_moving_vs_openfoam.sh\'s `closedDamBreak`: laminar/damBreak with its atmosphere '',
        ''WALLED OFF (U fixedValue 0, p_rgh fixedFluxPressure, alpha zeroGradient) and PIMPLE naming '',
        ''`pRefPoint (0.292 0.292 0.0073); pRefValue 0;`, twenty of the tutorial\'s own steps against real '',
        ''OpenFOAM. MEASURED: 60 of 60 p_rgh iteration counts, initial residuals 2.0e-11 over the run, '',
        ''alpha 1.2e-14, p_rgh 9.5e-15, p 5.7e-15, U 8.1e-14. THE CONTROL: OpenFOAM\'s own closed dam with '',
        ''`pRefValue 1e5`, whose p is 89 times its magnitude away and whose U is 3.0e-11 away -- the '',
        ''reference moves the level and nothing else. BROKEN ONCE: the reference cell pinned at '',
        ''pRefValue rather than its current p_rgh (what this code did on a path no gated case had '',
        ''taken) reads 15 of 60 counts and U 4.4e-05 on the closed dam, 18 of 20 and 5.3e-07 on the '',
        ''moving tube. Every solid-body tutorial is a closed tank and takes this path -- and '',
        ''sloshingTank2D\'s pRefPoint (0 0 0.15) LIES ON A FACE: findCell takes the nearer of two '',
        ''centres 5e-16 apart, brae took the other one while its face centres differed from '',
        ''OpenFOAM\'s in the last bit, and read alpha 2.8e-06 and 18 of 20 counts for it. NOT CLAIMED: '',
        ''polyMesh::findCell\'s octree fallback when the face-plane test finds no cell (refused by '',
        ''name), and the device (refused: its reference is the pRefValue one). AND THROUGH A '',
        ''TOPOLOGY CHANGE, tests/interfoam_amr_vs_openfoam.sh\'s `closed` profile: OpenFOAM locates '',
        ''the reference ONCE (createFields.H:104-113) and NO solver re-locates or renumbers it, so '',
        ''after a refinement it pins the SAME INDEX -- a different cell on the refined mesh -- and '',
        ''brae keeps the label. What is refused is an index past the end after an unrefinement, '',
        ''where OpenFOAM reads out of bounds in its own Release build. MEASURED: all 9 solves on '',
        ''OpenFOAM\'s counts, alpha 1.6209e-14, p 1.9964e-14 relative, the reference cell 16400 of '',
        ''82264 and p pinned at pRefValue there in BOTH codes. THE CONTROL pins a cell the change '',
        ''added (p 1.8350e-03, eleven orders out); renumbering through reverseCellMap is VACUOUS '',
        ''under pure refinement, measured -- hexRef8 modifies the parent in place and adds the '',
        ''other seven, so 16400 -> 16400.'']\<close>

definition inf_interFoam_pressureReference_note :: string where
  \<open>inf_interFoam_pressureReference_note = lit [
        ''p_rgh.needReference() is `no patch fixes a value` (GeometricField.C:1068-1085). setRefCell '',
        ''(findRefCell.C:36-110) then reads pRefCell, or pRefPoint located by findCell(point, FACE_PLANES): '',
        ''the nearest cell centre if the point is inside that cell by every face plane -- (Sf & (p - Cf)) '',
        ''<= 0 with Sf flipped for a neighbour -- else the FIRST cell in index order that is; and '',
        ''pRefValue, mandatory. createFields.H:115-124 shifts p by pRefValue - p[refCell] and rebuilds '',
        ''p_rgh from it once at the start; pEqn.H:47 pins the reference cell at getRefCellValue(p_rgh, '',
        ''pRefCell), ITS CURRENT p_rgh -- not at pRefValue, which is p\'s level, applied again at '',
        ''pEqn.H:74-83 after the solve with p_rgh rebuilt from the shifted p. adjustPhi (adjustPhi.C) '',
        ''runs on such a case only: the outflow of every patch whose U does not fix a value (an '',
        ''inletOutlet counts as adjustable) is scaled to balance the inflow, and an imbalance no '',
        ''adjustable outflow can remove stops the run -- which is what a wall velocity with the wrong '',
        ''normal component does on a closed tank. brae\'s driver set needReference = false with a note '',
        ''that damBreak\'s atmosphere is a totalPressure; every case gated before this one had one.'']\<close>

definition inf_interFoam_pressureReference :: component where [manifest_rows]:
  \<open>inf_interFoam_pressureReference =
     [(''name'', PStr ''interFoam_pressureReference''),
      (''of_symbol'', PStr ''setRefCell''),
      (''of_file'', PStr ''src/finiteVolume/cfdTools/general/findRefCell/findRefCell.C''),
      (''classification'', PStr ''GPU_REQUIRED''),
      (''status'', PStr ''REIMPLEMENT''),
      (''brae_reference'', PStr ''src/applications/solvers/interFoam/inter_case_cpp.cu''),
      (''brae_target'', PStr ''''),
      (''validation'', PStr inf_interFoam_pressureReference_validation),
      (''note'', PStr inf_interFoam_pressureReference_note)]\<close>

definition inf_interFoam_vanLeerV_validation :: string where
  \<open>inf_interFoam_vanLeerV_validation = lit [
        ''tests/interfoam_dambreak_vs_openfoam.sh\'s `vanleerv` profile: laminar/damBreak at the big step '',
        ''with `div(rhoPhi,U) Gauss vanLeerV` in place of its linearUpwind, five steps against real '',
        ''OpenFOAM, host and device, with the big-step run as the control. MEASURED: alpha 1.2e-13, '',
        ''U 3.1e-13 on the host and alpha 3.8e-14, U 1.2e-11 on the device, all 15 p_rgh counts '',
        ''OpenFOAM\'s; the scheme moves OpenFOAM\'s own alpha by 2.0e-01. AND ON THE FIXTURE IT EXISTS '',
        ''FOR: tests/interfoam_moving_vs_openfoam.sh\'s testTubeMixer, whose own fvSchemes name it, now '',
        ''run as shipped there. BROKEN ONCE: '',
        ''vanLeer\'s limiter replaced by limitedLinear\'s clamp of 2r on the same r, host and device '',
        ''alike, alpha 2.1e-01 (45% of the change the scheme makes). A SECOND PROFILE, `linear`, holds '',
        ''`Gauss linear` on div(rhoPhi,U) on both paths (alpha 9.8e-14 host, 1.2e-13 device), for the '',
        ''reason in the note.'']\<close>

definition inf_interFoam_vanLeerV_note :: string where
  \<open>inf_interFoam_vanLeerV_note = lit [
        ''vanLeerV IS LimitedScheme<vector, vanLeerLimiter<NVDVTVDV>, null> (vanLeer.C:37): the r of the V '',
        ''schemes -- one per face, from the vector difference across it dotted with the upwind cell\'s '',
        ''gradient projected on d (NVDVTVDV.H) -- with vanLeer\'s (r + |r|)/(1 + |r|), which is not '',
        ''clamped and reaches 2. The gradient is fvc::grad(U) through the case\'s grad(U) entry '',
        ''(LimitedScheme::calcLimiter). brae already had both halves: rVector for limitedLinearV and '',
        ''vanLeerLimiter for div(phi,alpha); vanLeerVWeights is their product. On the device the V kernel '',
        ''selected its limiter by clamping alone, so the limiter selection was hoisted out of the scalar '',
        ''kernel into limiterOfR and both kernels take it, vanLeer chosen by the kVanLeerTwoByk sentinel. '',
        ''THE `linear` PROFILE EXISTS BECAUSE OF WHAT WAS FOUND WIRING THIS: interFoam\'s own scheme enum '',
        ''has `linear` (three shipped tutorials name it) and its device mapping had no case for it, so '',
        ''it fell through the switch\'s `default` to upwind -- a -device run would have convected upwind '',
        ''under the name `linear`. The shared cpu::DivScheme now has `linear` (deviceDivCentralCoeffs; '',
        ''the mesh\'s own weights on the host) and the mapping names every scheme with no default.'']\<close>

definition inf_interFoam_vanLeerV :: component where [manifest_rows]:
  \<open>inf_interFoam_vanLeerV =
     [(''name'', PStr ''interFoam_vanLeerV''),
      (''of_symbol'', PStr ''vanLeerV''),
      (''of_file'', PStr ''src/finiteVolume/interpolation/surfaceInterpolation/limitedSchemes/vanLeer/vanLeer.C''),
      (''classification'', PStr ''SHARED_NUMERICAL''),
      (''status'', PStr ''REIMPLEMENT''),
      (''brae_reference'', PStr ''src/finiteVolume/interpolation/surfaceInterpolation/limitedSchemes/limitedSchemes_cpp.cuh''),
      (''brae_target'', PStr ''src/cuda/device_fvm.cu''),
      (''validation'', PStr inf_interFoam_vanLeerV_validation),
      (''note'', PStr inf_interFoam_vanLeerV_note)]\<close>

definition inf_interFoam_limitedLinear_validation :: string where
  \<open>inf_interFoam_limitedLinear_validation = lit [
        ''tests/interfoam_limitedlinear_vs_openfoam.sh, real OpenFOAM on '',
        ''laminar/vofToLagrangian/eulerianInjection AS ITS Allrun MESHES IT (blockMesh, topoSet, '',
        ''subsetMesh, the patch and collector sets, setFields) with the block at 45^3 in place of '',
        ''75^3, 90627 cells; its own `div(rhoPhi,U) Gauss limitedLinear 0.2`; 60 fixed steps of '',
        ''2e-5. MEASURED: alpha 9.2e-14, p_rgh 8.8e-12, U 2.7e-12, all 180 p_rgh counts OpenFOAM\'s; '',
        ''bounds at about 30x. THE CONTROLS, OpenFOAM against itself: `Gauss upwind` 8.0e-01, '',
        ''`Gauss limitedLinear 1` 7.8e-01. BROKEN ONCE EACH (U): the V form\'s weights 8.5e-01; '',
        ''magSqr\'s patch values taken from the face cells 4.3e-01; the coefficient ignored 7.8e-01; '',
        ''upwind in its place 8.0e-01; the limiter on mag(U) 8.2e-01. WHY 60 STEPS: the gap opens at '',
        ''step 68 in one near-air cell at the jet edge, where the density ratio of 1000 turns '',
        ''alpha\'s 4e-13 into rho\'s 3e-10, and reads U 1.2e-08 at 100; brae against itself with only '',
        ''the face interpolation\'s arithmetic reordered reads 2.9e-09 there, so that growth is the '',
        ''case\'s conditioning. NOT CLAIMED: the tutorial\'s 420k-cell mesh (a bench size), its '',
        ''Lagrangian function object (stripped), limitedLinear across a coupled patch (refused), '',
        ''and the device loop (refused by name).'']\<close>

definition inf_interFoam_limitedLinear_note :: string where
  \<open>inf_interFoam_limitedLinear_note = lit [
        ''limitedLinear on a VECTOR is LimitedScheme<vector, limitedLinearLimiter<NVDTVD>, '',
        ''limitFuncs::magSqr> (LimitedScheme.H:185-189): ONE scalar limiter per face, computed on '',
        ''magSqr(U) with grad(magSqr(U)), carrying all three components -- not per component and not '',
        ''the V form. The host had the scalar weights already (limitedLinearWeights, k and epsilon); '',
        ''interFoam\'s momentum refused the scheme by name until now. The coefficient is read with no '',
        ''default and must lie in [0, 1] or OpenFOAM stops (limitedLinear.H:67-76); brae\'s reader '',
        ''used to default a missing one to 1, and now refuses both. THE DEVICE momentum has a '',
        ''limitedLinear branch that reads U 5.1e-01 against OpenFOAM on a DIC-smoother twin of this '',
        ''case at 50 steps, where the host reads 3.9e-12 and the device under upwind 1.1e-13; the '',
        ''device loop refuses the scheme and that branch is an open finding. HOST ONLY SO FAR.'']\<close>

definition inf_interFoam_limitedLinear :: component where [manifest_rows]:
  \<open>inf_interFoam_limitedLinear =
     [(''name'', PStr ''interFoam_limitedLinear''),
      (''of_symbol'', PStr ''limitedLinear''),
      (''of_file'', PStr ''src/finiteVolume/interpolation/surfaceInterpolation/limitedSchemes/limitedLinear/limitedLinear.C''),
      (''classification'', PStr ''SHARED_NUMERICAL''),
      (''status'', PStr ''REIMPLEMENT''),
      (''brae_reference'', PStr ''src/applications/solvers/interFoam/inter_ueqn_cpp.cu''),
      (''validation'', PStr inf_interFoam_limitedLinear_validation),
      (''note'', PStr inf_interFoam_limitedLinear_note)]\<close>

definition inf_interFoam_nonOrthCorrection_validation :: string where
  \<open>inf_interFoam_nonOrthCorrection_validation = lit [
        ''tests/interfoam_moving_vs_openfoam.sh\'s two non-orthogonal tanks, against real OpenFOAM: '',
        ''laminar/sloshingTank2D as shipped but for p_rghFinal -- SDA motion, 44-degree chamfered '',
        ''cells, `Gauss linear corrected` and `corrected`, nAlphaSubCycles 3, cAlpha 1.5, 2-D -- ten of '',
        ''its own steps: 20 of 20 p_rgh counts, alpha 5.8e-15, p_rgh 3.2e-14, U 3.9e-13, the still '',
        ''tank 100% of U away; and laminar/sloshingCylinder -- a snappyHexMesh cylinder of polyhedra '',
        ''at 26 degrees, MULESCorr, nNonOrthogonalCorrectors 1, its oscillation\'s phase and vertical '',
        ''shifts zeroed because as shipped the mesh jumps 6.9 cm at the first update and OpenFOAM '',
        ''itself blows up at any fixed step -- ten steps of 0.001: 40 of 40 counts, alpha 6.9e-11, U '',
        ''1.0e-08. BROKEN ONCE EACH (tank / cylinder): the pressure laplacian\'s explicit correction '',
        ''dropped from the source 8.7e-02 / 2.1e-01; its face flux dropped from p_rghEqn.flux() 9.5e-02 '',
        ''/ 2.6e-01; the viscous laplacian orthogonal 6.4e-10 / 2.7e-04; the three snGrads orthogonal '',
        ''1.3e-11 / 4.6e-04 (the tank\'s interface is horizontal; the cylinder is the fixture for that '',
        ''one). tests/interfoam_refusals.sh: `corrected` on a sheared damBreak RUNS on the host and is '',
        ''refused on the device; `uncorrected` on it is refused by name; and three gradSchemes arms. '',
        ''WHAT IT DOES NOT CLAIM: `uncorrected` on a mesh that is not orthogonal, any gradSchemes '',
        ''entry but `Gauss linear`. ON THE DEVICE (2026-09-19), one module at a time, each transcribed '',
        ''from the host: the p_rgh laplacian\'s non-orthogonal LOOP (device_inter_pressure_step.cu, from '',
        ''pressureCorrector) -- nNonOrthogonalCorrectors + 1 passes, nonOrthDeltaCoeffs, the explicit '',
        ''correction from grad(p_rgh) on its stored patch values, the face-flux correction in '',
        ''p_rghEqn.flux(), the Final entry on the last pass only. Its kernels are the host\'s bit for bit '',
        ''(tests/test_device_laplacian_vs_host.cu, tests/test_device_gauss_grad.cu); the pass against the '',
        ''host\'s on a sheared box, corrected, one non-orthogonal corrector: p_rgh 3.4e-11 relative, U '',
        ''9.3e-13, the device assembled orthogonal 3.9e-02 (tests/test_device_inter_pressure_step.cu); '',
        ''BROKEN ONCE EACH, p_rgh / U.x of 1.2e+06 / 1.2e+02: the correction dropped from the source '',
        ''8.3e+04 / 1.3e+01, its face flux dropped 0 / 2.0e+01, one pass 8.3e+04 / 1.7e+01, the boundary '',
        ''not re-evaluated between passes 5.0e+05 / 1.2e+02. End to end, laminar/damBreak `nonorth` on '',
        ''the device against OpenFOAM: alpha 6.8e-14, p_rgh 7.1e-14, U 8.9e-12, all 30 p_rgh counts '',
        ''OpenFOAM\'s. THEN THE OTHER SITES, each transcribed from the host driver\'s own call: the three '',
        ''snGrads in the interface-force hook -- snGrad(alpha) in the surface tension, snGrad(rho) in '',
        ''phig, snGrad(p_rgh) in the predictor\'s source, each under snGradSchemes with that field\'s own '',
        ''gradSchemes entry, where the hook had `false` -- and the viscous laplacian, the shared '',
        ''assembler handed the case\'s flags (device_inter_step.cu; its own gate is '',
        ''tests/test_device_inter_ueqn_assembly.cu on a sheared box, corrected and `limited 0.5`, the '',
        ''device assembled orthogonal 3.5e-05 of the source, and the fixture needed a 1e5x viscosity '',
        ''before the correction was visible in a source dominated by rho*U/dt). CorrectPhi\'s pcorr is '',
        ''host operators under the same flag; the closure\'s k and epsilon carry theirs already. WITH ALL '',
        ''OF IT the device runs a mesh that is not orthogonal: laminar/damBreak `sheared` (six degrees, '',
        ''momentum predictor on, nNonOrthogonalCorrectors 1, a moving start, phirb vanLeer) against '',
        ''OpenFOAM -- alpha 1.8e-14, p_rgh 1.6e-14, U 4.9e-12 relative, every p_rgh and alpha count '',
        ''OpenFOAM\'s. BROKEN ONCE EACH, that arm\'s alpha / U: snGrad(rho) orthogonal 4.3e-01 / 4.3e+00, '',
        ''snGrad(p_rgh) 7.2e-03 / 3.8e+00, snGrad(alpha) 5.5e-04 / 3.3e-03. STILL REFUSED on the device: '',
        ''`uncorrected` on a mesh that is not orthogonal (tests/interfoam_refusals.sh '',
        ''device_sheared_uncorrected), and every gradSchemes entry but `Gauss linear`.'']\<close>

definition inf_interFoam_nonOrthCorrection_note :: string where
  \<open>inf_interFoam_nonOrthCorrection_note = lit [
        ''THE OPERATORS, from gaussLaplacianSchemes.C and correctedSnGrad.C: a corrected laplacian\'s matrix '',
        ''takes nonOrthDeltaCoeffs on the internal faces and the patch\'s own coefficients on the boundary; '',
        ''its source takes -V*div(gammaMagSf*snGradCorrection(vf)), the correction being '',
        ''nonOrthCorrectionVectors dotted with the linear interpolate of grad(vf) THROUGH vf\'s OWN '',
        ''gradSchemes entry, a vector field\'s by component and so through `default`; and because '',
        ''p_rgh is fluxRequired the same face field is kept as the matrix\'s faceFluxCorrection, which '',
        ''p_rghEqn.flux() adds back so `phi = phiHbyA - flux` stays conservative. A corrected snGrad is '',
        ''nonOrthDeltaCoeffs*(vfN - vfP) plus that correction. `limited <c>` caps the correction per '',
        ''face against the orthogonal part. brae had all of it (fvm.cuh, fvc.cu, addDivDevReff) from '',
        ''rhoSimpleFoam; interFoam refused every corrected scheme on a mesh that was not orthogonal and '',
        ''now passes the case\'s flags through the pressure equation, the viscous term and the three '',
        ''snGrads -- p_rgh in the predictor\'s force, rho in phig, alpha in the surface-tension force. '',
        ''`uncorrected` is NOT brae\'s orthogonal assembly: uncorrectedSnGrad takes nonOrthDeltaCoeffs, '',
        ''orthogonalSnGrad takes deltaCoeffs (uncorrectedSnGrad.H:91, orthogonalSnGrad.H:91), so it is '',
        ''refused on a mesh where they differ. gradSchemes WERE NEVER READ by this solver: 40 of the 44 '',
        ''tutorials write `default Gauss linear;` alone, and the four that limit a gradient '',
        ''(mixerVesselAMI, DTCHull, DTCHullMoving, electrostaticDeposition) would have run unlimited; '',
        ''every entry but `Gauss linear` is refused now. TWO FINDINGS ON THE WAY, both about a mesh '',
        ''that is not a mesh of rectangles: fv_geometry\'s face centres were (1/3)*(sumAc/sumA) where '',
        ''primitiveMeshTools.C computes (1/3)*sumAc/sumA, and a triangle\'s (a+b+c)/3 where OpenFOAM '',
        ''writes (1/3)*(a+b+c) -- with OpenFOAM\'s order V and C are OpenFOAM\'s to the bit on every mesh '',
        ''the motion gate runs (hex, chamfered, snappy), where they read 1e-14 before; and that last '',
        ''digit decided the pressure reference of sloshingTank2D, whose pRefPoint lies on a face '',
        ''(interFoam_pressureReference).'']\<close>

definition inf_interFoam_nonOrthCorrection :: component where [manifest_rows]:
  \<open>inf_interFoam_nonOrthCorrection =
     [(''name'', PStr ''interFoam_nonOrthCorrection''),
      (''of_symbol'', PStr ''correctedSnGrad''),
      (''of_file'', PStr ''src/finiteVolume/finiteVolume/snGradSchemes/correctedSnGrad/correctedSnGrad.C''),
      (''classification'', PStr ''SHARED_NUMERICAL''),
      (''status'', PStr ''REIMPLEMENT''),
      (''brae_reference'', PStr ''src/applications/solvers/interFoam/inter_peqn_cpp.cu''),
      (''brae_target'', PStr ''''),
      (''validation'', PStr inf_interFoam_nonOrthCorrection_validation),
      (''note'', PStr inf_interFoam_nonOrthCorrection_note)]\<close>

definition inf_interFoam_vanLeer_validation :: string where
  \<open>inf_interFoam_vanLeer_validation = lit [
        ''tests/test_scheme_blocks.cu -- the selector, with a fail-proof; and the limiter '',
        ''against vanLeer.H:70 directly. It asymptotes to 2, not 1: it is a Sweby TVD '',
        ''limiter, not a [0,1] blend, and writing the clamp limitedLinear needs would '',
        ''make it a different scheme.'']\<close>

definition inf_interFoam_vanLeer_note :: string where
  \<open>inf_interFoam_vanLeer_note = lit [
        ''EVERY interFoam tutorial uses `div(phi,alpha) Gauss vanLeer`. brae has limitedLinear/V, '',
        ''vanAlbada, LUST, linearUpwind/V -- not vanLeer. Small, and blocking.'']\<close>

definition inf_interFoam_vanLeer :: component where [manifest_rows]:
  \<open>inf_interFoam_vanLeer =
     [(''name'', PStr ''interFoam_vanLeer''),
      (''of_symbol'', PStr ''vanLeer''),
      (''of_file'', PStr ''src/finiteVolume/interpolation/surfaceInterpolation/limitedSchemes/vanLeer/vanLeer.C''),
      (''classification'', PStr ''SHARED_NUMERICAL''),
      (''status'', PStr ''REIMPLEMENT''),
      (''brae_reference'', PStr ''src/cuda/device_fvm.cu''),
      (''brae_target'', PStr ''src/cuda/device_fvm.cu''),
      (''validation'', PStr inf_interFoam_vanLeer_validation),
      (''note'', PStr inf_interFoam_vanLeer_note)]\<close>

definition inf_interFoam_alphaCourantNo_validation :: string where
  \<open>inf_interFoam_alphaCourantNo_validation = lit [
        ''tests/test_alpha_courant_cpp.cu. Four fail-proofs: defaulting maxAlphaCo, '',
        ''pos for pos0, masking the mean\'s denominator, and dropping the alpha limit '',
        ''from setDeltaT. ON THE DEVICE, tests/test_device_alpha_courant.cu repeats '',
        ''three of them plus the boundary half of surfaceSum (0.0035 against 0.0043), '',
        ''with the fixture landing 40 cells EXACTLY on the band\'s edges so pos and pos0 '',
        ''differ. Agreement is 1e-14 relative and NOT bit-exact, and that is itself the '',
        ''measurement: a max over per-cell sums would be bit-identical if the sums were, '',
        ''so the one ULP proves sumPhi is a gather here and a scatter on the host.'']\<close>

definition inf_interFoam_alphaCourantNo_note :: string where
  \<open>inf_interFoam_alphaCourantNo_note = lit [
        ''A SECOND Courant number, over the interface cells only, because the ordinary one is a '',
        ''global max set by whatever corner runs fastest -- usually nowhere near the '',
        ''interface -- and MULES does not stop the interface being advected more than a cell '',
        ''per step. Landed alongside the existing time_controls, which already gives every '',
        ''transient solver CourantNo/setInitialDeltaT/setDeltaT (brae_pimpleFoam stopped '',
        ''refusing adjustTimeStep when that landed). Four things: maxAlphaCo is get<scalar> '',
        ''with NO default where maxCo defaults to 1, so the same controlDict is refused by '',
        ''one reader and not the other; nearInterface() is a 0/1 MASK over the CLOSED band '',
        ''[0.01, 0.99] (pos0 is 1 at exactly zero), so the two cells at its edges -- the ones '',
        ''an advancing interface is passing through -- are counted; meanAlphaCoNum divides by '',
        ''gSum(V) over the WHOLE mesh, not the interface volume; and with no interface '',
        ''alphaCoNum is exactly 0 so maxAlphaCo/(0+SMALL) lets maxCo alone set the step, '',
        ''which a differently-guarded division would turn into a freeze. FEEDING IT BACK '',
        ''INTO deltaT found two more things, both silent. Time::run() is `value() < endTime - '',
        ''0.5*deltaT`, tested BEFORE setDeltaT with the previous step -- nothing in brae '',
        ''implemented it, brae_interFoam bounded its loop by a step COUNT computed from the '',
        ''initial deltaT, and damBreak at `endTime 0.004` ran out to t = 0.054, thirteen times '',
        ''past the end of the case, under a comment claiming the end time stopped it. And '',
        ''Time::setDeltaT takes `adjust = true` by default (Time.C:1178) and calls '',
        ''Time::adjustDeltaT, which under `writeControl adjustable` SHORTENS the step to land '',
        ''on the next write time: damBreak writes every 0.05, so OpenFOAM\'s first step is '',
        ''0.05/417 = 0.000119904 where brae\'s unclamped setDeltaTVoF gave 0.00012. Both are '',
        ''ported (WriteCadence + adjustDeltaT in time_controls.cuh, and note that '',
        ''Time::writeControlNames tabulates wcAdjustableRunTime TWICE, as `adjustable` and as '',
        ''`adjustableRunTime` -- damBreak uses the short spelling and matching only the long '',
        ''one made the whole clamp a no-op on the very case it was measured against). '',
        ''tests/interfoam_dambreak_clock_vs_openfoam.sh now holds the clock against real '',
        ''OpenFOAM on the tutorial AS IT SHIPS: thirteen steps over one write interval, deltaT '',
        ''BIT-IDENTICAL, 0.000e+00 on every step at 17 digits, both landing exactly on 0.05 '',
        ''-- and `brae_interFoam -device`, which refused adjustTimeStep until this landed, is '',
        ''bit-identical too. Over those thirteen steps the Courant number never binds at '',
        ''maxCo 1, so this gate is the cap, adjustDeltaT and the loop bound; the Courant '',
        ''feedback is the device gate\'s adaptive arm at maxCo 0.0015. GETTING TO A TRUE '',
        ''NUMBER TOOK THREE PRINTFS: at OpenFOAM\'s default six figures it read 3.2e-06 (half '',
        ''an ULP of 0.00119047619 logged as 0.00119048); at writePrecision/timePrecision 14 '',
        ''it read 2.389e-09 and stayed there, identical on host and device, while the fields '',
        ''moved four orders closer -- which was brae\'s own `%.9g`; at 17 digits on both '',
        ''sides it is zero. A comment in the gate had explained the 2.389e-09 as field '',
        ''disagreement arriving through the Courant number. It was a printf.'']\<close>

definition inf_interFoam_alphaCourantNo :: component where [manifest_rows]:
  \<open>inf_interFoam_alphaCourantNo =
     [(''name'', PStr ''interFoam_alphaCourantNo''),
      (''of_symbol'', PStr ''alphaCourantNo''),
      (''of_file'', PStr ''applications/solvers/multiphase/VoF/alphaCourantNo.H''),
      (''classification'', PStr ''CONFIGURATION''),
      (''status'', PStr ''REIMPLEMENT''),
      (''brae_reference'', PStr ''src/finiteVolume/cfdTools/general/time_controls.cuh''),
      (''brae_target'', PStr ''src/finiteVolume/cfdTools/general/device_alpha_courant.cu''),
      (''validation'', PStr inf_interFoam_alphaCourantNo_validation),
      (''note'', PStr inf_interFoam_alphaCourantNo_note)]\<close>

definition inf_interFoam_createFields_validation :: string where
  \<open>inf_interFoam_createFields_validation = lit [
        ''tests/interfoam_createfields_vs_openfoam.sh -- damBreak\'s OWN case, prepared '',
        ''the way the tutorial does. damBreak ships 0.orig and NO mesh, so the fixture '',
        ''is a PROCEDURE (blockMesh then setFields), not a directory this repo can '',
        ''check in; the gate runs OpenFOAM\'s own utilities and SKIPs where OpenFOAM is '',
        ''absent. 2268 cells, 5 patches, 324 water cells.'']\<close>

definition inf_interFoam_createFields_note :: string where
  \<open>inf_interFoam_createFields_note = lit [
        ''ONE translation from case to fields, shared by the gate and by the solver -- a '',
        ''private copy in the driver is the defect rhoSimpleFoam\'s mirror wrote down: the '',
        ''gate proves the step, the driver feeds it something else, nothing compares them. '',
        ''Three things: the alpha field\'s NAME comes from `phases (water air)`, so a '',
        ''hard-coded alpha1 finds no file on any shipped case; phi is READ when present '',
        ''(createAlphaFluxes.H) and only computed from U when it is not, so a restart '',
        ''continues from the written flux rather than discarding the continuity error the '',
        ''last pressure corrector drove down; and fvSchemes KEYS contain parentheses and '',
        ''commas, so FoamDict cannot look them up -- they are read as text through '',
        ''scheme_parse\'s fvSchemesBlock, the same route every other brae solver uses. '',
        ''simulationType RAS is read here and handed to interFoam_turbulence, which holds what '',
        ''is run (kEpsilon, both lineages) and what is refused. THIS NOTE USED TO SAY a '',
        ''non-laminar simulationType is refused because interFoam\'s turbulence is `a MIXTURE '',
        ''model handed the blended rho`; that was written from memory and is wrong for 15 of '',
        ''the 17 turbulent tutorials (incompressibleInterPhaseTransportModel.C:99-106 builds '',
        ''the ordinary single-phase model by default). solvers/p_rgh and p_rghFinal are read '',
        ''as the case names them: PCG with DIC, or GAMG with its controls (interFoam_GAMG); '',
        ''anything else still substitutes PBiCGStab under a notice. constant/dynamicMeshDict is read here '',
        ''too (interFoam_solidBodyMotion), and p_rgh\'s need for a reference (interFoam_pressureReference). '',
        ''GRADIENT SCHEMES (2026-09-19): each fvc::grad is resolved by the name its call site asks for '',
        ''-- grad(U), grad(alpha.<phase1>), grad(alpha.<phase2>), grad(p_rgh), grad(pcorr), grad(rho), '',
        ''and interfaceProperties\' `nHat` -- then `default`, and carried to that site as a GradChoice '',
        ''(gradSchemes/grad_choice.cuh): the vanLeer limiters, snGrad\'s and the laplacians\' corrections, '',
        ''CorrectPhi and the curvature. The host takes `Gauss linear`, `leastSquares` and `cellLimited` '',
        ''over either; anything else is refused by name, and so is a non-Gauss grad(magSqr(U)) under '',
        ''limitedLinear (its limiter is ported Gauss only). GATED in tests/interfoam_dambreak_vs_openfoam.sh '',
        ''`gradLsqLimited` on a sheared, predictor-on, moving-start damBreak (every site live there, '',
        ''alpha 1.9e-14), each site broken once and red, and `nHatLimited` at the small step (alpha '',
        ''5.6e-13). A LIMITED nHat is not held at the big step, and not for a defect: brae\'s limited K '',
        ''from OpenFOAM\'s own 17-digit post-MULES alpha agrees to 3e-16 relative, but the limiter turns '',
        ''MULES\' bulk round-off (alpha 1 +- 1e-7) into 1.1e-06 of p_rgh a step later. NOT CLAIMED: any '',
        ''non-Gauss entry across a cyclic or cyclicACMI, or leastSquares across any coupled patch '',
        ''(refused; grad(U) cellLimited alone is gated across a cyclicAMI); the device, whose operators '',
        ''are Gauss linear and which refuses every other entry.'']\<close>

definition inf_interFoam_createFields :: component where [manifest_rows]:
  \<open>inf_interFoam_createFields =
     [(''name'', PStr ''interFoam_createFields''),
      (''of_symbol'', PStr ''createFields''),
      (''of_file'', PStr ''applications/solvers/multiphase/interFoam/createFields.H''),
      (''classification'', PStr ''CONFIGURATION''),
      (''status'', PStr ''REIMPLEMENT''),
      (''brae_reference'', PStr ''src/applications/solvers/interFoam/inter_case_cpp.cuh''),
      (''brae_target'', PStr ''src/applications/solvers/interFoam/device_inter_case.cu''),
      (''validation'', PStr inf_interFoam_createFields_validation),
      (''note'', PStr inf_interFoam_createFields_note)]\<close>

definition interFoam_components2 :: "component list" where
  "interFoam_components2 =
     [inf_interFoam_outletPhaseMeanVelocity,
      inf_interFoam_piovTangentialVelocity,
      inf_interFoam_cacheGradU,
      inf_interFoam_variableHeightFlowRate,
      inf_interFoam_LESkEqn,
      inf_interFoam_wedgeCoefficients,
      inf_interFoam_cyclic,
      inf_interFoam_cyclicACMI,
      inf_interFoam_cyclicAMI,
      inf_interFoam_faceAreaWeightAMI,
      inf_interFoam_codedPatchFunction1,
      inf_interFoam_porousBafflePressure,
      inf_interFoam_permeableWall,
      inf_interFoam_waveModel,
      inf_interFoam_GAMG,
      inf_interFoam_solidBodyMotion,
      inf_interFoam_rigidBodyMotion,
      inf_interFoam_pointConstraints,
      inf_interFoam_displacementLaplacian,
      inf_interFoam_waveMaker,
      inf_interFoam_dynamicRefine,
      inf_interFoam_dynamicMesh,
      inf_interFoam_correctPhi,
      inf_interFoam_interfaceCompression,
      inf_interFoam_pressureReference,
      inf_interFoam_vanLeerV,
      inf_interFoam_limitedLinear,
      inf_interFoam_nonOrthCorrection,
      inf_interFoam_vanLeer,
      inf_interFoam_alphaCourantNo,
      inf_interFoam_createFields]"

lemma interFoam_components2_ok: "list_all row_ok interFoam_components2"
  by (simp add: interFoam_components2_def manifest_rows row_simps)

lemma interFoam_components2_names:
  "map row_name interFoam_components2 =
     [''interFoam_outletPhaseMeanVelocity'',
      ''interFoam_piovTangentialVelocity'',
      ''interFoam_cacheGradU'',
      ''interFoam_variableHeightFlowRate'',
      ''interFoam_LESkEqn'',
      ''interFoam_wedgeCoefficients'',
      ''interFoam_cyclic'',
      ''interFoam_cyclicACMI'',
      ''interFoam_cyclicAMI'',
      ''interFoam_faceAreaWeightAMI'',
      ''interFoam_codedPatchFunction1'',
      ''interFoam_porousBafflePressure'',
      ''interFoam_permeableWall'',
      ''interFoam_waveModel'',
      ''interFoam_GAMG'',
      ''interFoam_solidBodyMotion'',
      ''interFoam_rigidBodyMotion'',
      ''interFoam_pointConstraints'',
      ''interFoam_displacementLaplacian'',
      ''interFoam_waveMaker'',
      ''interFoam_dynamicRefine'',
      ''interFoam_dynamicMesh'',
      ''interFoam_correctPhi'',
      ''interFoam_interfaceCompression'',
      ''interFoam_pressureReference'',
      ''interFoam_vanLeerV'',
      ''interFoam_limitedLinear'',
      ''interFoam_nonOrthCorrection'',
      ''interFoam_vanLeer'',
      ''interFoam_alphaCourantNo'',
      ''interFoam_createFields'']"
  by (simp add: interFoam_components2_def row_name_def manifest_rows dict_get_Cons)

end
