(* ===== verification/Of_Manifest.thy ===== *)
theory Of_Manifest
  imports Py_Os Py_Regex Manifest_SimpleFoam Manifest_InterFoam1 Manifest_InterFoam2
    Manifest_RhoSimpleFoam "HOL-Library.Product_Lexorder"
begin

text \<open>
  \<open>tools/of_manifest.py\<close>: the manifest of one solver, printed from the curated tables and from what
  ofscan's index of the OpenFOAM tree says.  ofscan is another repository: its three queries are
  the fields of the record \<open>ofscan\<close>, an argument of the definitions that use it, and \<open>db()\<close>
  failing to import it is the value \<open>None\<close>.  The arguments come as argparse leaves them.
\<close>

subsection \<open>The tables\<close>

definition COMPONENTS :: "(string, component list) dict" where
  "COMPONENTS =
     [(''simpleFoam'', simpleFoam_components),
      (''interFoam'', interFoam_components1 @ interFoam_components2),
      (''rhoSimpleFoam'', rhoSimpleFoam_components)]"

definition SELECTION_NOTE :: "(string, string) dict" where
  "SELECTION_NOTE =
     [(''incompressible::turbulenceModel'', ''createFields.H:42''),
      (''lduMatrix::solver'', ''fvSolution solvers/<field>/solver''),
      (''option'', ''constant/fvOptions or system/fvOptions'')]"

definition SKIP_EXIT :: int where
  "SKIP_EXIT = 77"

subsection \<open>What the script asks of ofscan\<close>

text \<open>A row of \<open>dictionary.schema_for\<close>; the columns that may be NULL are options.\<close>

record schema_row =
  sr_key :: string
  sr_r :: int
  sr_d :: "string option"
  sr_op :: string
  sr_p :: "string option"
  sr_l :: int

record ofscan =
  runtime_types :: "string \<Rightarrow> string list"
  dict_schema :: "string \<Rightarrow> schema_row list"
  selections :: "string \<Rightarrow> (string \<times> string \<times> string \<times> string) list"
  resolve :: "string \<Rightarrow> string \<Rightarrow> (string option \<times> string) option"

record schema_key =
  sk_key :: string
  sk_required :: bool
  sk_default :: "string option"
  sk_op :: string
  sk_at :: string

record selection =
  sel_category :: string
  sel_keyword :: string
  sel_where :: string
  sel_resolved :: "string option"
  sel_how :: string

definition impls_for :: "ofscan \<Rightarrow> string \<Rightarrow> string list" where
  "impls_for d base = runtime_types d base"

definition path_or_unknown :: "string option \<Rightarrow> string" where
  "path_or_unknown p = (case p of None \<Rightarrow> ''?'' | Some s \<Rightarrow> if s = [] then ''?'' else s)"

definition schema_for :: "ofscan \<Rightarrow> string \<Rightarrow> schema_key list" where
  "schema_for d cls =
     map (\<lambda>r. \<lparr>sk_key = sr_key r, sk_required = (sr_r r \<noteq> 0), sk_default = sr_d r, sk_op = sr_op r,
               sk_at = basename (path_or_unknown (sr_p r)) @ '':'' @ show_int (sr_l r)\<rparr>)
       (dict_schema d cls)"

definition case_selections :: "ofscan \<Rightarrow> string \<Rightarrow> selection list" where
  "case_selections d path =
     map (\<lambda>(cat, base, k, whr).
       let r = resolve d base k
       in \<lparr>sel_category = cat, sel_keyword = k, sel_where = whr,
           sel_resolved = (case r of None \<Rightarrow> None | Some (t, _) \<Rightarrow> t),
           sel_how = (case r of None \<Rightarrow> ''UNRESOLVED'' | Some (_, how) \<Rightarrow> how)\<rparr>)
       (selections d path)"

subsection \<open>YAML scalars\<close>

text \<open>
  The two patterns of \<open>y\<close>: an indicator anywhere or white space at either end, and an indicator
  at the start.
\<close>

definition y_indicators :: string where
  "y_indicators = '':#[]{},&*?|<>=!%@`'' @ [dquote, squote]"

definition y_rx :: rx where
  "y_rx = RAlts [RSet (CS y_indicators), RSeq RBol (RSet CSpace), RSeq (RSet CSpace) REol]"

definition y_start_rx :: rx where
  "y_start_rx = RSeq RBol (RSet (CS ''-?''))"

definition y_words :: "string list" where
  "y_words = [''yes'', ''no'', ''true'', ''false'', ''null'', ''~'']"

definition y_needs_quotes :: "string \<Rightarrow> bool" where
  "y_needs_quotes s \<longleftrightarrow>
     re_search y_rx s \<noteq> None \<or> re_match y_start_rx s \<noteq> None \<or> in_list (lower s) y_words"

definition y_escape :: "string \<Rightarrow> string" where
  "y_escape s = replace_char dquote [bslash, dquote] (replace_char bslash [bslash, bslash] s)"

definition y_str :: "string \<Rightarrow> string" where
  "y_str s =
     (if s = [] then [dquote, dquote]
      else if y_needs_quotes s then dquote # y_escape s @ [dquote]
      else s)"

definition y :: "pyval option \<Rightarrow> string" where
  "y v = (case v of None \<Rightarrow> ''null'' | Some x \<Rightarrow> y_str (py_str x))"

abbreviation y_opt :: "string option \<Rightarrow> string" where
  "y_opt s \<equiv> y (map_option PStr s)"

subsection \<open>The emitter\<close>

definition brae_keys :: "string list" where
  "brae_keys = [''brae_driver'', ''brae_existing'', ''brae_reference'', ''brae_cuda'', ''brae_target'', ''validation'']"

definition emit_line :: "component \<Rightarrow> string list res" where
  "emit_line c =
     (if truthy (dict_get c ''of_line'')
      then bindR (dict_item c ''of_line'') (\<lambda>v.
        case v of PInt i \<Rightarrow> Inr [''      line: '' @ show_int i] | PStr _ \<Rightarrow> Inl TypeError)
      else Inr [])"

definition emit_text :: "component \<Rightarrow> string \<Rightarrow> string list" where
  "emit_text c k =
     (if truthy (dict_get c k) then [''    '' @ k @ '': '' @ y (dict_get c k)] else [])"

definition emit_selection :: "ofscan \<Rightarrow> component \<Rightarrow> string list" where
  "emit_selection d c =
     (if truthy (dict_get c ''selection_base'') then
        (let base = py_str (the (dict_get c ''selection_base'')); ks = impls_for d base
         in [''    derived_runtime_selection:'',
             ''      base: '' @ y_str base,
             ''      selected_at: '' @ y_str (get_or SELECTION_NOTE base ''-''),
             ''      openfoam_implementations: '' @ show_nat (length ks),
             ''      keys: ['' @ join '', '' (map y_str ks) @ '']''])
      else [])"

definition emit_key :: "schema_key \<Rightarrow> string list" where
  "emit_key r =
     [''        - key: '' @ y_str (sk_key r),
      ''          required: '' @ (if sk_required r then ''true'' else ''false''),
      ''          default: '' @ y_opt (sk_default r),
      ''          read_by: '' @ y_str (sk_op r),
      ''          at: '' @ y_str (sk_at r)]"

definition emit_schema :: "ofscan \<Rightarrow> component \<Rightarrow> string list" where
  "emit_schema d c =
     (if truthy (dict_get c ''schema_for'') then
        (let cls = py_str (the (dict_get c ''schema_for'')); rows = schema_for d cls
         in [''    derived_dictionary_schema:'', ''      class: '' @ y_str cls]
            @ (if rows = [] then [''      keys: []''] else ''      keys:'' # concat (map emit_key rows)))
      else [])"

definition emit_component :: "ofscan \<Rightarrow> component \<Rightarrow> string list res" where
  "emit_component d c =
     bindR (dict_item c ''name'') (\<lambda>name.
     bindR (dict_item c ''of_symbol'') (\<lambda>sym.
     bindR (dict_item c ''of_file'') (\<lambda>f.
     bindR (emit_line c) (\<lambda>ln.
     bindR (dict_item c ''classification'') (\<lambda>cls.
     bindR (dict_item c ''status'') (\<lambda>st.
       Inr ([''  '' @ py_str name @ '':'',
             ''    openfoam:'',
             ''      symbol: '' @ y (Some sym),
             ''      file: '' @ y (Some f)]
            @ ln
            @ [''    classification: '' @ py_str cls,
               ''    brae_status: '' @ py_str st]
            @ concat (map (emit_text c) brae_keys)
            @ emit_text c ''note''
            @ emit_selection d c
            @ emit_schema d c
            @ [[]])))))))"

text \<open>The selections of a case, sorted by category and keyword, each pair once.\<close>

definition sel_tag :: "selection \<Rightarrow> string \<times> string" where
  "sel_tag s = (sel_category s, sel_keyword s)"

fun first_tags :: "(string \<times> string) list \<Rightarrow> selection list \<Rightarrow> selection list" where
  "first_tags seen [] = []"
| "first_tags seen (s # ss) =
     (if in_list (sel_tag s) seen then first_tags seen ss else s # first_tags (sel_tag s # seen) ss)"

definition required_impls :: "selection list \<Rightarrow> selection list" where
  "required_impls sels = first_tags [] (sort_key sel_tag sels)"

definition emit_required :: "selection \<Rightarrow> string" where
  "emit_required s =
     ''      - {category: '' @ sel_category s @ '', keyword: '' @ y_str (sel_keyword s)
       @ '', resolves_to: '' @ y_opt (sel_resolved s) @ ''}''"

definition emit_case :: "fsys \<Rightarrow> ofscan \<Rightarrow> string \<Rightarrow> string list" where
  "emit_case fs d path =
     (if \<not> fs_isdir fs path then []
      else
        (let sels = case_selections d path;
             unres = filter (\<lambda>s. sel_how s = ''UNRESOLVED'') sels
         in [''  '' @ y_str (basename path) @ '':'',
             ''    path: '' @ y_str path,
             ''    derived_selection_sites: '' @ show_nat (length sels),
             ''    derived_unresolved: '' @ show_nat (length unres),
             ''    derived_required_implementations:'']
            @ map emit_required (required_impls sels) @ [[]]))"

definition table_of :: "string \<Rightarrow> component list res" where
  "table_of solver =
     (case dict_get COMPONENTS solver of None \<Rightarrow> Inl (KeyError solver) | Some cs \<Rightarrow> Inr cs)"

definition emit_rows :: "fsys \<Rightarrow> string \<Rightarrow> string \<Rightarrow> ofscan \<Rightarrow> string list \<Rightarrow> component list \<Rightarrow> string res" where
  "emit_rows fs foam solver d cases cs =
     bindR (mapR (emit_component d) cs) (\<lambda>rows.
       Inr (join [nl]
         ([''# GENERATED by tools/of_manifest.py -- do not edit the `derived:` blocks by hand.'',
           ''# The `classification:`/`brae_status:`/`note:` fields are CURATED and live in that script.'',
           ''solver: '' @ y_str solver,
           ''openfoam_root: '' @ y_str foam,
           [],
           ''components:'']
          @ concat rows
          @ [''validation_cases:'']
          @ concat (map (emit_case fs d) cases)) @ [nl]))"

definition emit :: "fsys \<Rightarrow> string \<Rightarrow> string \<Rightarrow> ofscan \<Rightarrow> string list \<Rightarrow> string res" where
  "emit fs foam solver d cases = bindR (table_of solver) (emit_rows fs foam solver d cases)"

subsection \<open>Provenance and the command\<close>

fun provenance_rows :: "fsys \<Rightarrow> string \<Rightarrow> component list \<Rightarrow> (pyval \<times> string) list res" where
  "provenance_rows fs foam [] = Inr []"
| "provenance_rows fs foam (c # cs) =
     bindR (dict_item c ''of_file'') (\<lambda>v.
     bindR (case v of PStr f \<Rightarrow> Inr f | PInt _ \<Rightarrow> Inl TypeError) (\<lambda>f.
       if in_list f [''-'', []] \<or> fs_exists fs (path_join foam f) then provenance_rows fs foam cs
       else bindR (dict_item c ''name'') (\<lambda>n.
            bindR (provenance_rows fs foam cs) (\<lambda>bad. Inr ((n, f) # bad)))))"

definition verify_provenance :: "fsys \<Rightarrow> string \<Rightarrow> string \<Rightarrow> (pyval \<times> string) list res" where
  "verify_provenance fs foam solver = bindR (table_of solver) (provenance_rows fs foam)"

record mf_args =
  a_solver :: string
  a_cases :: "string list option"
  a_check :: "string option"

record mf_result =
  mf_exit :: int
  mf_stdout :: string
  mf_stderr :: string

definition default_cases :: "string \<Rightarrow> string list" where
  "default_cases foam =
     map (path_join foam)
       [''tutorials/incompressible/simpleFoam/pitzDaily'',
        ''tutorials/incompressible/simpleFoam/airFoil2D'',
        ''tutorials/incompressible/simpleFoam/motorBike'']"

definition cases_of :: "string \<Rightarrow> mf_args \<Rightarrow> string list" where
  "cases_of foam a = (case a_cases a of Some (p # ps) \<Rightarrow> p # ps | _ \<Rightarrow> default_cases foam)"

definition provenance_error :: "string \<Rightarrow> (pyval \<times> string) list \<Rightarrow> string" where
  "provenance_error foam bad =
     ''PROVENANCE ERROR -- these OpenFOAM paths do not exist under '' @ foam @ '':'' @ [nl]
     @ concat (map (\<lambda>(n, f). ''  '' @ ljust 28 (py_str n) @ '' '' @ f @ [nl]) bad)"

definition skip_text :: "string \<Rightarrow> string" where
  "skip_text root =
     ''SKIP: ofscan not available at '' @ root @ '' (set OFSCAN_ROOT) -- the manifest'' @ [squote] @ ''s DERIVED'' @ [nl]
     @ ''      half cannot be regenerated here, so drift cannot be checked.'' @ [nl]"

definition drift_text :: "string \<Rightarrow> string" where
  "drift_text f =
     ''manifest DRIFTED: '' @ f @ '' is not what tools/of_manifest.py now produces.'' @ [nl]
     @ ''Re-generate it and read the diff -- OpenFOAM or ofscan has changed.'' @ [nl]"

definition check_manifest :: "fsys \<Rightarrow> string \<Rightarrow> string \<Rightarrow> mf_result res" where
  "check_manifest fs f t =
     bindR (if fs_exists fs f then read_text fs f else Inr []) (\<lambda>old.
       Inr (if old \<noteq> t then \<lparr>mf_exit = 1, mf_stdout = [], mf_stderr = drift_text f\<rparr>
            else \<lparr>mf_exit = 0, mf_stdout = [], mf_stderr = ''manifest up to date: '' @ f @ [nl]\<rparr>))"

definition mf_main :: "fsys \<Rightarrow> string \<Rightarrow> string \<Rightarrow> ofscan option \<Rightarrow> mf_args \<Rightarrow> mf_result res" where
  "mf_main fs foam root dbo a =
     (if \<not> in_list (a_solver a) (keys COMPONENTS) then
        Inr \<lparr>mf_exit = 1, mf_stdout = [],
             mf_stderr = ''no curated component table for '' @ [squote] @ a_solver a @ [squote]
               @ '' (add one to tools/of_manifest.py)'' @ [nl]\<rparr>
      else bindR (verify_provenance fs foam (a_solver a)) (\<lambda>bad.
        if bad \<noteq> [] then Inr \<lparr>mf_exit = 2, mf_stdout = [], mf_stderr = provenance_error foam bad\<rparr>
        else
          (case dbo of
             None \<Rightarrow> Inr \<lparr>mf_exit = SKIP_EXIT, mf_stdout = [], mf_stderr = skip_text root\<rparr>
           | Some d \<Rightarrow>
               bindR (emit fs foam (a_solver a) d (cases_of foam a)) (\<lambda>t.
                 case a_check a of
                   Some (f # fs') \<Rightarrow> check_manifest fs (f # fs') t
                 | _ \<Rightarrow> Inr \<lparr>mf_exit = 0, mf_stdout = t, mf_stderr = []\<rparr>))))"

subsection \<open>Every row can be printed\<close>

lemma COMPONENTS_rows_ok: "dict_get COMPONENTS solver = Some cs \<Longrightarrow> list_all row_ok cs"
  using simpleFoam_components_ok interFoam_components1_ok interFoam_components2_ok rhoSimpleFoam_components_ok
  by (auto simp: COMPONENTS_def dict_get_Cons split: if_splits)

lemma COMPONENTS_names: "dict_get COMPONENTS solver = Some cs \<Longrightarrow> distinct (map row_name cs)"
  by (auto simp: COMPONENTS_def dict_get_Cons simpleFoam_components_names interFoam_components1_names
      interFoam_components2_names rhoSimpleFoam_components_names simp del: map_map split: if_splits)

lemma emit_line_total: "row_ok c \<Longrightarrow> \<exists>l. emit_line c = Inr l"
  using row_ok_line [of c] by (auto simp: emit_line_def)

lemma emit_component_total:
  assumes "row_ok c"
  shows "\<exists>ls. emit_component d c = Inr ls"
proof -
  have "\<exists>s. dict_item c k = Inr (PStr s)" if "k \<in> set row_keys" for k
    using row_ok_item [OF assms that] .
  then have "\<exists>s. dict_item c ''name'' = Inr (PStr s)" "\<exists>s. dict_item c ''of_symbol'' = Inr (PStr s)"
    "\<exists>s. dict_item c ''of_file'' = Inr (PStr s)" "\<exists>s. dict_item c ''classification'' = Inr (PStr s)"
    "\<exists>s. dict_item c ''status'' = Inr (PStr s)"
    by (simp_all add: row_keys_def)
  with emit_line_total [OF assms] show ?thesis
    by (auto simp: emit_component_def)
qed

lemma emit_rows_total: "list_all row_ok cs \<Longrightarrow> \<exists>t. emit_rows fs foam solver d cases cs = Inr t"
proof -
  assume "list_all row_ok cs"
  then have "\<exists>rows. mapR (emit_component d) cs = Inr rows"
    by (induction cs) (auto dest: emit_component_total [where d = d])
  then show ?thesis by (auto simp: emit_rows_def)
qed

lemma table_of_known: "solver \<in> set (keys COMPONENTS) \<Longrightarrow> \<exists>cs. table_of solver = Inr cs \<and> list_all row_ok cs"
proof -
  assume "solver \<in> set (keys COMPONENTS)"
  then obtain cs where "dict_get COMPONENTS solver = Some cs"
    using dict_get_None_iff [of COMPONENTS solver] by (cases "dict_get COMPONENTS solver") auto
  then show ?thesis using COMPONENTS_rows_ok by (auto simp: table_of_def)
qed

lemma table_of_unknown: "solver \<notin> set (keys COMPONENTS) \<Longrightarrow> table_of solver = Inl (KeyError solver)"
  using dict_get_None_iff [of COMPONENTS solver] by (simp add: table_of_def)

lemma emit_known: "solver \<in> set (keys COMPONENTS) \<Longrightarrow> \<exists>t. emit fs foam solver d cases = Inr t"
  using table_of_known [of solver] emit_rows_total by (fastforce simp: emit_def)

subsection \<open>Provenance\<close>

definition row_file :: "component \<Rightarrow> string" where
  "row_file c = (case dict_get c ''of_file'' of Some v \<Rightarrow> py_str v | None \<Rightarrow> [])"

definition file_missing :: "fsys \<Rightarrow> string \<Rightarrow> component \<Rightarrow> bool" where
  "file_missing fs foam c \<longleftrightarrow>
     row_file c \<noteq> ''-'' \<and> row_file c \<noteq> [] \<and> \<not> fs_exists fs (path_join foam (row_file c))"

lemma row_ok_file: "row_ok c \<Longrightarrow> dict_item c ''of_file'' = Inr (PStr (row_file c))"
  using row_ok_item [of c "''of_file''"]
  by (auto simp: row_keys_def dict_item_def row_file_def split: option.splits)

lemma row_ok_name: "row_ok c \<Longrightarrow> dict_item c ''name'' = Inr (PStr (row_name c))"
  using row_ok_item [of c "''name''"]
  by (auto simp: row_keys_def dict_item_def row_name_def split: option.splits)

lemma provenance_rows_eq:
  "list_all row_ok cs \<Longrightarrow>
     provenance_rows fs foam cs = Inr (map (\<lambda>c. (PStr (row_name c), row_file c)) (filter (file_missing fs foam) cs))"
  by (induction cs) (auto simp: row_ok_file row_ok_name file_missing_def)

lemma verify_provenance_eq:
  assumes "dict_get COMPONENTS solver = Some cs"
  shows "verify_provenance fs foam solver =
    Inr (map (\<lambda>c. (PStr (row_name c), row_file c)) (filter (file_missing fs foam) cs))"
  using assms provenance_rows_eq [OF COMPONENTS_rows_ok [OF assms]]
  by (simp add: verify_provenance_def table_of_def)

subsection \<open>The selections of a case\<close>

lemma first_tags_props:
  "sorted (map sel_tag ss) \<Longrightarrow>
     sorted_wrt (<) (map sel_tag (first_tags seen ss)) \<and>
     set (map sel_tag (first_tags seen ss)) = set (map sel_tag ss) - set seen \<and>
     set (first_tags seen ss) \<subseteq> set ss"
proof (induction seen ss rule: first_tags.induct)
  case (2 seen s ss)
  show ?case
  proof (cases "sel_tag s \<in> set seen")
    case True
    with 2 show ?thesis by auto
  next
    case False
    have IH: "sorted_wrt (<) (map sel_tag (first_tags (sel_tag s # seen) ss))"
      "set (map sel_tag (first_tags (sel_tag s # seen) ss)) = set (map sel_tag ss) - insert (sel_tag s) (set seen)"
      "set (first_tags (sel_tag s # seen) ss) \<subseteq> set ss"
      using 2(2) False 2(3) by auto
    have "sel_tag s < t" if "t \<in> set (map sel_tag (first_tags (sel_tag s # seen) ss))" for t
      using that IH(2) 2(3) by (auto simp: order.strict_iff_order)
    then have "sorted_wrt (<) (map sel_tag (s # first_tags (sel_tag s # seen) ss))"
      using IH(1) by simp
    with IH(2,3) False show ?thesis by auto
  qed
qed simp

subsection \<open>Reading a scalar back\<close>

text \<open>
  A reader of single-line YAML scalars: double quotes with the escapes of the quote and of the
  backslash; a plain scalar stands for its own characters, \<open>null\<close> and the booleans apart, and
  has no indicator where it would be one.  \<open>None\<close> is a text that is no such scalar.
\<close>

datatype yaml_scalar = YNull | YBool bool | YStr string

fun unescape :: "string \<Rightarrow> string option" where
  "unescape [] = None"
| "unescape [c] = (if c = dquote then Some [] else None)"
| "unescape (c # e # cs) =
     (if c = dquote then None
      else if c = bslash then
        (if e = bslash \<or> e = dquote then map_option ((#) e) (unescape cs) else None)
      else map_option ((#) c) (unescape (e # cs)))"

definition plain_ok :: "string \<Rightarrow> bool" where
  "plain_ok s \<longleftrightarrow> s \<noteq> [] \<and> list_all (\<lambda>c. c \<notin> set y_indicators) s
     \<and> \<not> is_space (hd s) \<and> \<not> is_space (last s) \<and> hd s \<noteq> CHR ''-''"

definition yaml_read :: "string \<Rightarrow> yaml_scalar option" where
  "yaml_read t =
     (if nl \<in> set t then None
      else case t of [] \<Rightarrow> None
      | c # cs \<Rightarrow>
          if c = dquote then map_option YStr (unescape cs)
          else if \<not> plain_ok t then None
          else if lower t \<in> {''null'', ''~''} then Some YNull
          else if lower t \<in> {''yes'', ''true''} then Some (YBool True)
          else if lower t \<in> {''no'', ''false''} then Some (YBool False)
          else Some (YStr t))"

lemma unescape_y_escape: "unescape (y_escape s @ [dquote]) = Some s"
proof (induction s)
  case (Cons c s)
  have "y_escape (c # s) =
      (if c = bslash then [bslash, bslash] else if c = dquote then [bslash, dquote] else [c]) @ y_escape s"
    by (auto simp: y_escape_def replace_char_def bslash_def dquote_def)
  moreover have "unescape (c # y_escape s @ [dquote]) = map_option ((#) c) (unescape (y_escape s @ [dquote]))"
    if "c \<noteq> dquote" "c \<noteq> bslash"
    using that by (cases "y_escape s @ [dquote]") simp_all
  ultimately show ?case using Cons by (auto simp: bslash_def dquote_def)
qed (simp add: y_escape_def)


lemma ends_y_rx:
  "ends y_rx s i = {} \<longleftrightarrow>
     (i < length s \<longrightarrow> s ! i \<notin> set y_indicators \<and> (i = 0 \<longrightarrow> \<not> is_space (s ! i))
        \<and> (is_space (s ! i) \<longrightarrow> Suc i < length s \<and> \<not> (Suc (Suc i) = length s \<and> s ! Suc i = nl)))"
  by (auto simp: y_rx_def)

lemma y_start_rx_iff: "re_match y_start_rx s \<noteq> None \<longleftrightarrow> s \<noteq> [] \<and> (hd s = CHR ''-'' \<or> hd s = CHR ''?'')"
  using match_at_None_iff [of 0 s y_start_rx] by (cases s) (auto simp: re_match_def y_start_rx_def)

lemma y_plain:
  assumes "s \<noteq> []" and "\<not> y_needs_quotes s"
  shows "plain_ok s" and "lower s \<notin> set y_words"
proof -
  have n: "ends y_rx s k = {}" if "k \<le> length s" for k
    using assms(2) re_search_None_iff [of y_rx s] that by (auto simp: y_needs_quotes_def)
  have "c \<notin> set y_indicators" if "c \<in> set s" for c
    using that n by (metis ends_y_rx in_set_conv_nth less_imp_le_nat)
  moreover have "\<not> is_space (hd s)"
    using n [of 0] assms(1) ends_y_rx [of s 0] by (simp add: hd_conv_nth)
  moreover have "\<not> is_space (last s)"
    using n [of "length s - 1"] assms(1) ends_y_rx [of s "length s - 1"] by (auto simp: last_conv_nth)
  moreover have "hd s \<noteq> CHR ''-''"
    using assms y_start_rx_iff [of s] by (auto simp: y_needs_quotes_def)
  ultimately show "plain_ok s" using assms(1) by (simp add: plain_ok_def list_all_iff)
  show "lower s \<notin> set y_words" using assms(2) by (simp add: y_needs_quotes_def)
qed

lemma nl_y_escape: "nl \<in> set (y_escape s) \<longleftrightarrow> nl \<in> set s"
  by (auto simp: y_escape_def replace_char_def nl_def bslash_def dquote_def)

lemma yaml_read_y_str:
  assumes "nl \<notin> set s"
  shows "yaml_read (y_str s) = Some (YStr s)"
proof -
  consider "s = []" | "s \<noteq> []" "y_needs_quotes s" | "s \<noteq> []" "\<not> y_needs_quotes s" by blast
  then show ?thesis
  proof cases
    case 1
    then show ?thesis by (simp add: y_str_def yaml_read_def nl_def dquote_def)
  next
    case 2
    then show ?thesis using assms nl_y_escape [of s] unescape_y_escape [of s]
      by (simp add: y_str_def yaml_read_def) (simp add: nl_def dquote_def)
  next
    case 3
    note pl = y_plain [OF 3]
    obtain c cs where s: "s = c # cs" using 3(1) by (cases s) auto
    have "c \<noteq> dquote" using pl(1) s by (auto simp: plain_ok_def y_indicators_def)
    with pl 3 assms s show ?thesis by (simp add: y_str_def yaml_read_def y_words_def)
  qed
qed

subsection \<open>Writing the manifest and checking it\<close>

text \<open>The file system after the output has been written to a file.\<close>

definition with_file :: "fsys \<Rightarrow> string \<Rightarrow> string \<Rightarrow> fsys" where
  "with_file fs f t = fs\<lparr>fs_isfile := (fs_isfile fs)(f := True), fs_text := (fs_text fs)(f := Some t)\<rparr>"

lemma with_file_simps [simp]:
  "fs_isdir (with_file fs f t) = fs_isdir fs"
  "fs_exists (with_file fs f t) p \<longleftrightarrow> p = f \<or> fs_exists fs p"
  "read_text (with_file fs f t) f = Inr t"
  by (auto simp: with_file_def fs_exists_def read_text_def)

lemma emit_case_with_file: "emit_case (with_file fs f t) = emit_case fs"
  by (simp add: emit_case_def fun_eq_iff)

lemma emit_with_file: "emit (with_file fs f t) foam solver d cases = emit fs foam solver d cases"
  by (simp add: emit_def emit_rows_def [abs_def] emit_case_with_file)

lemma missing_with_file: "file_missing (with_file fs f t) foam c \<Longrightarrow> file_missing fs foam c"
  by (simp add: file_missing_def)

lemma no_bad_with_file:
  assumes "verify_provenance fs foam solver = Inr []" and "solver \<in> set (keys COMPONENTS)"
  shows "verify_provenance (with_file fs f t) foam solver = Inr []"
proof -
  obtain cs where cs: "dict_get COMPONENTS solver = Some cs"
    using assms(2) dict_get_None_iff [of COMPONENTS solver] by (cases "dict_get COMPONENTS solver") auto
  then have "filter (file_missing fs foam) cs = []"
    using assms(1) by (simp add: verify_provenance_eq)
  then have "filter (file_missing (with_file fs f t) foam) cs = []"
    using missing_with_file by (metis (mono_tags, lifting) filter_empty_conv)
  then show ?thesis by (simp add: verify_provenance_eq [OF cs])
qed

subsection \<open>What a row says that the manifest does not\<close>

text \<open>The keys the emitter looks up; a row may have others, which are printed nowhere.\<close>

definition emitted_keys :: "string list" where
  "emitted_keys = row_keys @ [''of_line'', ''note'', ''selection_base'', ''schema_for''] @ brae_keys"

lemma emit_component_reads:
  assumes "\<And>k. k \<in> set emitted_keys \<Longrightarrow> dict_get c k = dict_get c' k"
  shows "emit_component d c = emit_component d c'"
proof -
  have "list_all (\<lambda>k. dict_get c k = dict_get c' k) emitted_keys"
    using assms by (simp add: list_all_iff)
  then have eqs: "list_all (\<lambda>k. dict_get c k = dict_get c' k)
      ([''name'', ''of_symbol'', ''of_file'', ''classification'', ''status''] @
       [''of_line'', ''note'', ''selection_base'', ''schema_for''] @ brae_keys)"
    by (simp only: emitted_keys_def row_keys_def)
  then have texts: "map (emit_text c) brae_keys = map (emit_text c') brae_keys"
    by (simp add: list_all_iff emit_text_def)
  from eqs have gets: "dict_get c ''of_line'' = dict_get c' ''of_line''" "dict_get c ''note'' = dict_get c' ''note''"
    "dict_get c ''selection_base'' = dict_get c' ''selection_base''" "dict_get c ''schema_for'' = dict_get c' ''schema_for''"
    by simp_all
  have parts: "emit_line c = emit_line c'" "emit_text c ''note'' = emit_text c' ''note''"
    "emit_selection d c = emit_selection d c'" "emit_schema d c = emit_schema d c'"
    unfolding emit_line_def emit_text_def emit_selection_def emit_schema_def dict_item_def
    by (simp_all only: gets)
  have "dict_item c k = dict_item c' k" if "k \<in> set row_keys" for k
    using assms [of k] that by (simp add: dict_item_def emitted_keys_def)
  then have items: "dict_item c ''name'' = dict_item c' ''name''"
    "dict_item c ''of_symbol'' = dict_item c' ''of_symbol''" "dict_item c ''of_file'' = dict_item c' ''of_file''"
    "dict_item c ''classification'' = dict_item c' ''classification''" "dict_item c ''status'' = dict_item c' ''status''"
    by (simp_all add: row_keys_def)
  show ?thesis unfolding emit_component_def by (simp only: texts parts items)
qed

lemma notes_not_printed:
  "emit_component d rsf_fvm_ddt_closure =
     emit_component d (filter (\<lambda>(k, v). k \<noteq> ''notes'' \<and> k \<noteq> ''brae_files'') rsf_fvm_ddt_closure)
   \<and> is_str (dict_get rsf_fvm_ddt_closure ''notes'')"
proof
  show "emit_component d rsf_fvm_ddt_closure =
     emit_component d (filter (\<lambda>(k, v). k \<noteq> ''notes'' \<and> k \<noteq> ''brae_files'') rsf_fvm_ddt_closure)"
    by (rule emit_component_reads)
      (auto simp: emitted_keys_def row_keys_def brae_keys_def rsf_fvm_ddt_closure_def dict_get_Cons)
  show "is_str (dict_get rsf_fvm_ddt_closure ''notes'')"
    by (simp add: rsf_fvm_ddt_closure_def dict_get_Cons)
qed

text \<open>The statuses the comment above the tables lists; the tables use others.\<close>

definition documented_statuses :: "string list" where
  "documented_statuses =
     [''REUSE_EXISTING'', ''REVALIDATE_EXISTING'', ''REIMPLEMENT'', ''NOT_REQUIRED_ON_GPU'', ''UNSUPPORTED'']"

lemma undocumented_status:
  "\<exists>s. dict_get rsf_fvm_ddt_closure ''status'' = Some (PStr s) \<and> s \<notin> set documented_statuses"
  by (simp add: rsf_fvm_ddt_closure_def dict_get_Cons documented_statuses_def)

subsection \<open>Properties\<close>

text \<open>C32: The emitter raises nothing on the tables it ships with: a manifest is printed for a solver exactly when the solver
  has a table, every row of it having the keys that are subscripted and a number as its line.\<close>

theorem emit_succeeds_iff:
  "(\<exists>t. emit fs foam solver d cases = Inr t) \<longleftrightarrow> solver \<in> set (keys COMPONENTS)"
proof (cases "solver \<in> set (keys COMPONENTS)")
  case True
  then show ?thesis using emit_known by blast
next
  case False
  then show ?thesis by (simp add: emit_def table_of_unknown)
qed

text \<open>The components of one solver have different names, so no key of the printed mapping occurs twice.\<close>

theorem manifest_names_differ:
  "list_all (\<lambda>(solver, cs). distinct (map row_name cs)) COMPONENTS"
proof -
  have "distinct (map row_name cs)" if "(solver, cs) \<in> set COMPONENTS" for solver cs
  proof (rule COMPONENTS_names)
    have "dict_ok COMPONENTS" by (simp add: dict_ok_def COMPONENTS_def)
    with that show "dict_get COMPONENTS solver = Some cs" by (simp add: dict_get_mem_iff)
  qed
  then show ?thesis by (auto simp: list_all_iff)
qed



text \<open>C30: A run without \<open>--check\<close> that succeeds prints a manifest which, written to a file, a second run with \<open>--check\<close> on
  that file accepts with status 0.\<close>

theorem manifest_check_accepts_output:
  assumes "mf_main fs foam root dbo a = Inr r" and "a_check a = None" and "mf_exit r = 0" and "f \<noteq> []"
  shows "\<exists>msg. mf_main (with_file fs f (mf_stdout r)) foam root dbo (a\<lparr>a_check := Some f\<rparr>) =
    Inr \<lparr>mf_exit = 0, mf_stdout = [], mf_stderr = msg\<rparr>"
proof -
  from assms(1,3) have k: "a_solver a \<in> set (keys COMPONENTS)"
    by (auto simp: mf_main_def split: if_splits)
  from assms(1,3) k have v: "verify_provenance fs foam (a_solver a) = Inr []"
    by (auto simp: mf_main_def bindR_Inr_iff split: if_splits)
  from assms(1,3) k v obtain d where d: "dbo = Some d"
    by (auto simp: mf_main_def SKIP_EXIT_def split: option.splits)
  from assms k v d have t: "emit fs foam (a_solver a) d (cases_of foam a) = Inr (mf_stdout r)"
    by (auto simp: mf_main_def bindR_Inr_iff)
  have c: "cases_of foam (a\<lparr>a_check := Some f\<rparr>) = cases_of foam a" by (simp add: cases_of_def)
  show ?thesis
    using k no_bad_with_file [OF v k] d t c assms(4)
    by (cases f) (simp_all add: mf_main_def emit_with_file check_manifest_def)
qed

definition mf_ex_fs :: fsys where
  "mf_ex_fs = \<lparr>fs_isfile = (\<lambda>_. True), fs_isdir = (\<lambda>_. True), fs_text = (\<lambda>_. None), fs_walk = (\<lambda>_. []),
     fs_realpath = id, fs_relpath = id, fs_size = (\<lambda>_. 0), fs_mtime = (\<lambda>_. 0)\<rparr>"

definition mf_ex_ofscan :: ofscan where
  "mf_ex_ofscan = \<lparr>runtime_types = (\<lambda>_. [''PCG'', ''GAMG'']), dict_schema = (\<lambda>_. []),
     selections = (\<lambda>_. [(''model'', ''RASModel'', ''kEpsilon'', ''turbulenceProperties'')]),
     resolve = (\<lambda>_ _. Some (Some ''kEpsilon'', ''table''))\<rparr>"

definition mf_ex_args :: mf_args where
  "mf_ex_args = \<lparr>a_solver = ''simpleFoam'', a_cases = None, a_check = None\<rparr>"

lemma mf_ex_run:
  "\<exists>t. mf_main mf_ex_fs ''/of'' ''/ofscan'' (Some mf_ex_ofscan) mf_ex_args = Inr \<lparr>mf_exit = 0, mf_stdout = t, mf_stderr = []\<rparr>"
proof -
  have k: "a_solver mf_ex_args \<in> set (keys COMPONENTS)" by (simp add: mf_ex_args_def COMPONENTS_def)
  obtain cs where cs: "dict_get COMPONENTS (a_solver mf_ex_args) = Some cs"
    by (simp add: mf_ex_args_def COMPONENTS_def dict_get_Cons)
  have "verify_provenance mf_ex_fs ''/of'' (a_solver mf_ex_args) = Inr []"
    by (simp add: verify_provenance_eq [OF cs] file_missing_def fs_exists_def mf_ex_fs_def)
  with k emit_known [OF k, of mf_ex_fs "''/of''" mf_ex_ofscan "cases_of ''/of'' mf_ex_args"] show ?thesis
    by (auto simp: mf_main_def) (simp add: mf_ex_args_def)
qed

theorem manifest_check_accepts_output_witness:
  "\<exists>t msg. mf_main (with_file mf_ex_fs ''m.yaml'' t) ''/of'' ''/ofscan'' (Some mf_ex_ofscan)
     (mf_ex_args\<lparr>a_check := Some ''m.yaml''\<rparr>) = Inr \<lparr>mf_exit = 0, mf_stdout = [], mf_stderr = msg\<rparr>"
proof -
  obtain t where "mf_main mf_ex_fs ''/of'' ''/ofscan'' (Some mf_ex_ofscan) mf_ex_args =
      Inr \<lparr>mf_exit = 0, mf_stdout = t, mf_stderr = []\<rparr>"
    using mf_ex_run by blast
  from manifest_check_accepts_output [OF this, of "''m.yaml''"] show ?thesis
    by (auto simp: mf_ex_args_def)
qed

text \<open>The required implementations of a case are listed in strictly increasing order of category and keyword, and each
  pair that the case selects is listed.\<close>

theorem required_impls_sorted:
  "sorted_wrt (<) (map sel_tag (required_impls sels)) \<and>
   set (map sel_tag (required_impls sels)) = set (map sel_tag sels) \<and> set (required_impls sels) \<subseteq> set sels"
proof -
  have "sorted (map sel_tag (sort_key sel_tag sels))" by simp
  from first_tags_props [OF this, of "[]"] show ?thesis by (simp add: required_impls_def)
qed

end
