(* ===== verification/Slice_Provenance.thy ===== *)
theory Slice_Provenance
  imports Py_Os Py_Regex "HOL-Library.Product_Lexorder"
begin

text \<open>
  \<open>tools/slice_provenance.py\<close>: every file under a \<open>slice\<close> directory that carries a
  \<open>COPIED FROM\<close> marker is compared with the file it names, its donor, after the copy's own
  header.  The lemmas say which copies are reported identical and which exit status follows.
\<close>

text \<open>\<open>//\s*COPIED FROM\s+(\S+?)\s*--\<close>\<close>

definition MARK :: rx where
  "MARK = RSeqs [RLit ''//'', RSp, RLit ''COPIED FROM'', RSp1, RGrp 1 (RPlusLazy (RSet (CNot CSpace))), RSp, RLit ''--'']"

definition copy_of :: "fsys \<Rightarrow> string \<Rightarrow> string \<Rightarrow> (string \<times> string) list" where
  "copy_of fs brae path =
     (case fs_text fs path of None \<Rightarrow> []
      | Some t \<Rightarrow>
          let head = take 4096 t
          in case re_search MARK head of None \<Rightarrow> []
             | Some m \<Rightarrow> [(path, path_join brae (group_text head m 1))])"

definition find_copies :: "fsys \<Rightarrow> string \<Rightarrow> (string \<times> string) list" where
  "find_copies fs brae =
     sort (concat (map (\<lambda>(root, _, files).
       if \<not> contains root (slash # ''slice'') then []
       else concat (map (\<lambda>fn. copy_of fs brae (path_join root fn)) files))
       (fs_walk fs (path_join brae ''src''))))"

definition first_line :: "string \<Rightarrow> string" where
  "first_line donor_text = hd (split_once nl donor_text)"

definition body_after_header :: "string \<Rightarrow> string \<Rightarrow> string" where
  "body_after_header copy_text donor_text =
     (case str_find copy_text (first_line donor_text) of Some i \<Rightarrow> drop i copy_text | None \<Rightarrow> copy_text)"

text \<open>The index of the first line in which the two differ, or the length of the shorter.\<close>

fun first_difference :: "string list \<Rightarrow> string list \<Rightarrow> nat" where
  "first_difference (a # as) (b # bs) = (if a \<noteq> b then 0 else Suc (first_difference as bs))"
| "first_difference _ _ = 0"

datatype copy_verdict = MissingDonor | Identical | Drifted nat

definition compare_copy :: "fsys \<Rightarrow> string \<times> string \<Rightarrow> copy_verdict res" where
  "compare_copy fs cd =
     (if \<not> fs_exists fs (snd cd) then Inr MissingDonor
      else bindR (read_text fs (fst cd)) (\<lambda>c.
           bindR (read_text fs (snd cd)) (\<lambda>d.
             let body = body_after_header c d
             in Inr (if body = d then Identical
                     else Drifted (first_difference (split_on nl body) (split_on nl d))))))"

definition indent17 :: string where
  "indent17 = replicate 17 (CHR '' '')"

definition copy_report :: "string \<Rightarrow> string \<times> string \<Rightarrow> copy_verdict \<Rightarrow> string" where
  "copy_report brae cd v =
     (let rel_c = relpath (fst cd) brae; rel_d = relpath (snd cd) brae
      in case v of
           MissingDonor \<Rightarrow> ''  MISSING DONOR  '' @ rel_c @ [nl] @ indent17 @ ''donor '' @ rel_d @ '' does not exist''
         | Identical \<Rightarrow> ''  identical      '' @ rel_c @ [nl] @ indent17 @ ''<- '' @ rel_d
         | Drifted n \<Rightarrow> ''  DRIFTED        '' @ rel_c @ [nl] @ indent17 @ ''<- '' @ rel_d @ [nl]
             @ indent17 @ ''first difference at donor line '' @ show_nat (n + 1))"

definition sp_main :: "fsys \<Rightarrow> string \<Rightarrow> (nat \<times> string list) res" where
  "sp_main fs brae =
     (let copies = find_copies fs brae
      in if copies = [] then Inr (0, [''no provenance-marked slice copies found''])
         else bindR (mapR (compare_copy fs) copies) (\<lambda>vs.
           let bad = length (filter (\<lambda>v. v \<noteq> Identical) vs)
           in Inr (if bad \<noteq> 0 then 1 else 0,
                   map2 (copy_report brae) copies vs
                   @ [[nl] @ show_nat (length copies - bad) @ '' identical, '' @ show_nat bad @ '' drifted''])))"

subsection \<open>Which copies are identical\<close>

lemma startswith_first_line: "startswith d (first_line d)"
proof -
  have "prefix (hd (split_once nl d)) d"
    by (induction d) (auto split: list.splits)
  then show ?thesis by (simp add: first_line_def startswith_prefix)
qed

lemma str_find_at:
  "startswith (drop k s) p \<Longrightarrow> k \<le> length s \<Longrightarrow> (\<And>j. j < k \<Longrightarrow> \<not> startswith (drop j s) p) \<Longrightarrow> str_find s p = Some k"
  by (metis linorder_neqE_nat option.exhaust str_find_None str_find_SomeD str_find_least)

text \<open>
  A header above which the donor's first line does not occur in the copy: what the docstring means
  by \<^emph>\<open>whatever precedes the donor's first line\<close>.
\<close>

definition header_of :: "string \<Rightarrow> string \<Rightarrow> string \<Rightarrow> bool" where
  "header_of h c d \<longleftrightarrow> c = h @ d \<and> (\<forall>j < length h. \<not> startswith (drop j c) (first_line d))"

lemma body_is_donor_iff: "body_after_header c d = d \<longleftrightarrow> (\<exists>h. header_of h c d)"
proof
  assume b: "body_after_header c d = d"
  show "\<exists>h. header_of h c d"
  proof (cases "str_find c (first_line d)")
    case None
    then have "c = d" using b by (simp add: body_after_header_def)
    then show ?thesis by (auto simp: header_of_def intro!: exI [of _ "[]"])
  next
    case (Some i)
    then have "c = take i c @ d" and "i \<le> length c"
      using b str_find_SomeD [OF Some] by (auto simp: body_after_header_def)
    then show ?thesis using str_find_least [OF Some] by (auto simp: header_of_def intro!: exI [of _ "take i c"])
  qed
next
  assume "\<exists>h. header_of h c d"
  then obtain h where h: "c = h @ d" "\<forall>j < length h. \<not> startswith (drop j c) (first_line d)"
    by (auto simp: header_of_def)
  have "str_find c (first_line d) = Some (length h)"
    by (rule str_find_at) (use h startswith_first_line in auto)
  then show "body_after_header c d = d" using h by (simp add: body_after_header_def)
qed

lemma first_difference_least:
  "i < first_difference xs ys \<Longrightarrow> i < length xs \<and> i < length ys \<and> xs ! i = ys ! i"
proof (induction xs ys arbitrary: i rule: first_difference.induct)
  case (1 a as b bs)
  then show ?case by (cases i) (auto split: if_splits)
qed auto

lemma first_difference_differs:
  "xs \<noteq> ys \<Longrightarrow> let n = first_difference xs ys in
     n = min (length xs) (length ys) \<or> n < min (length xs) (length ys) \<and> xs ! n \<noteq> ys ! n"
  by (induction xs ys rule: first_difference.induct) (auto simp: Let_def)

lemma compare_identical_iff:
  "compare_copy fs (copy, donor) = Inr Identical \<longleftrightarrow>
     fs_exists fs donor \<and>
     (\<exists>c d h. fs_text fs copy = Some c \<and> fs_text fs donor = Some d \<and> header_of h c d)"
  using body_is_donor_iff
  by (auto simp: compare_copy_def bindR_Inr_iff read_text_def Let_def split: option.splits if_splits)

definition faithful_copy :: "fsys \<Rightarrow> string \<times> string \<Rightarrow> bool" where
  "faithful_copy fs cd \<longleftrightarrow> fs_exists fs (snd cd) \<and>
     (\<exists>c d h. fs_text fs (fst cd) = Some c \<and> fs_text fs (snd cd) = Some d \<and> header_of h c d)"

lemma all_identical_iff:
  "(\<exists>vs. mapR (compare_copy fs) cs = Inr vs \<and> filter (\<lambda>v. v \<noteq> Identical) vs = [])
     \<longleftrightarrow> list_all (faithful_copy fs) cs"
proof (induction cs)
  case (Cons cd cs)
  have "compare_copy fs cd = Inr Identical \<longleftrightarrow> faithful_copy fs cd"
    using compare_identical_iff [of fs "fst cd" "snd cd"] by (simp add: faithful_copy_def)
  with Cons show ?case by (auto simp: bindR_Inr_iff)
qed simp

subsection \<open>Properties\<close>


end
