(* ===== verification/Mirror_Coverage.thy ===== *)
theory Mirror_Coverage
  imports Py_Os Py_Regex "HOL-Library.Product_Lexorder"
begin

text \<open>
  \<open>tools/mirror_coverage.py\<close>: what the provenance block of each source file names as its tests,
  the pairing of host and device halves into components, and the check that every named test
  exists.  The lemmas say what a provenance block is, that every file lies in exactly one
  component, on the side its name says, and when \<open>--check\<close> fails.
\<close>

subsection \<open>The provenance block of a file\<close>

text \<open>\<open>\b(tests/[\w./-]+\.(?:sh|cu|py))\<close>\<close>

definition TESTPATH :: rx where
  "TESTPATH = RSeq RWordB (RGrp 1 (RSeqs [RLit ''tests/'', RPlus (RSet (CUn CWord (CS ''./-''))), RLit ''.'',
     RAlts [RLit ''sh'', RLit ''cu'', RLit ''py'']]))"

text \<open>The lines of the block, up to the first that is no comment or is an empty one.\<close>

fun block_lines :: "string list \<Rightarrow> string list" where
  "block_lines [] = []"
| "block_lines (l # ls) =
     (if \<not> startswith l ''//'' then [] else if strip l = ''//'' then [] else l # block_lines ls)"

definition block_tests :: "string list \<Rightarrow> string list" where
  "block_tests ls =
     (let t = join [nl] ls
      in case str_find t ''tests:'' of None \<Rightarrow> [] | Some j \<Rightarrow> sorted_set (findall TESTPATH 1 (drop j t)))"

definition provenance_tests :: "fsys \<Rightarrow> string \<Rightarrow> bool \<times> string list" where
  "provenance_tests fs path =
     (case fs_text fs path of None \<Rightarrow> (False, [])
      | Some t \<Rightarrow>
          let head = take 20000 t
          in case str_find head ''// provenance:'' of None \<Rightarrow> (False, [])
             | Some i \<Rightarrow> (True, block_tests (block_lines (tl (split_on nl (drop i head))))))"

definition is_host_half :: "string \<Rightarrow> bool" where
  "is_host_half name \<longleftrightarrow> contains name ''_cpp''"

definition norm_name :: "string \<Rightarrow> string" where
  "norm_name name =
     (let base = replace ''_cpp'' [] (fst (splitext name));
          base = (if startswith base ''device_'' then drop (length ''device_'') base else base)
      in lower (replace_char (CHR ''_'') [] base))"

subsection \<open>Components\<close>

text \<open>
  The value of a component: the sets of tests its two halves name, as lists that are read through
  \<open>sorted\<close> only, and the files of each half in the order they are met.
\<close>

record comp =
  c_host :: "string list"
  c_dev :: "string list"
  c_hostf :: "string list"
  c_devf :: "string list"

definition new_comp :: comp where
  "new_comp = \<lparr>c_host = [], c_dev = [], c_hostf = [], c_devf = []\<rparr>"

type_synonym mfile = "string \<times> bool \<times> string list"

definition mirror_files :: "fsys \<Rightarrow> string \<Rightarrow> (string, bool \<times> string list) dict" where
  "mirror_files fs brae =
     fold (\<lambda>p d. dict_set (relpath p brae) (provenance_tests fs p) d)
       (walk_files fs [''.cu'', ''.cuh''] [path_join brae ''src'']) []"

text \<open>\<open>os.path.split\<close> of a relative path, and the key of its component.\<close>

definition comp_key :: "string \<Rightarrow> string \<times> string" where
  "comp_key rel = (dirname rel, norm_name (basename rel))"

definition add_side :: "string \<Rightarrow> string list \<Rightarrow> comp \<Rightarrow> comp" where
  "add_side n tests e =
     (if is_host_half n then e\<lparr>c_host := c_host e @ tests, c_hostf := c_hostf e @ [n]\<rparr>
      else e\<lparr>c_dev := c_dev e @ tests, c_devf := c_devf e @ [n]\<rparr>)"

definition add_file :: "mfile \<Rightarrow> (string \<times> string, comp) dict \<Rightarrow> (string \<times> string, comp) dict" where
  "add_file f d =
     (case f of (rel, _, tests) \<Rightarrow>
        dict_set (comp_key rel) (add_side (basename rel) tests (get_or d (comp_key rel) new_comp)) d)"

definition components_of :: "mfile list \<Rightarrow> (string \<times> string, comp) dict" where
  "components_of files = fold add_file (sort_key fst files) []"

type_synonym mrow = "(string \<times> string) \<times> comp"

definition comp_rows :: "(string \<times> string, comp) dict \<Rightarrow> mrow list" where
  "comp_rows d = filter (\<lambda>(k, e). \<not> (c_hostf e = [] \<and> c_devf e = [])) (sort_key fst d)"

definition missing_tests :: "fsys \<Rightarrow> string \<Rightarrow> mfile list \<Rightarrow> (string \<times> string) list" where
  "missing_tests fs brae files =
     concat (map (\<lambda>(rel, _, tests).
       map (\<lambda>t. (rel, t)) (filter (\<lambda>t. \<not> fs_exists fs (path_join brae t)) tests)) (sort_key fst files))"


subsection \<open>The report\<close>

definition row_both :: "mrow \<Rightarrow> bool" where
  "row_both r \<longleftrightarrow> c_hostf (snd r) \<noteq> [] \<and> c_devf (snd r) \<noteq> []"

definition row_gap :: "mrow \<Rightarrow> bool" where
  "row_gap r \<longleftrightarrow> row_both r \<and> (sorted_set (c_host (snd r)) \<noteq> []) \<noteq> (sorted_set (c_dev (snd r)) \<noteq> [])"

definition mc_mark :: "bool \<Rightarrow> string list \<Rightarrow> string" where
  "mc_mark present tests =
     (if \<not> present then ''--'' else if tests = [] then ''?'' else show_nat (length tests))"

definition mc_columns :: "string \<Rightarrow> string \<Rightarrow> string \<Rightarrow> string \<Rightarrow> string" where
  "mc_columns a b c d = ljust 58 a @ '' '' @ ljust 18 b @ '' '' @ ljust 6 c @ '' '' @ ljust 6 d"

definition mc_row_line :: "mrow \<Rightarrow> string" where
  "mc_row_line r =
     (case r of ((d, name), e) \<Rightarrow>
        mc_columns (take 58 name) (take 18 (basename d))
          (mc_mark (c_hostf e \<noteq> []) (sorted_set (c_host e))) (mc_mark (c_devf e \<noteq> []) (sorted_set (c_dev e))))"

definition claimed_no_test :: "mfile list \<Rightarrow> string list" where
  "claimed_no_test files = sort (map fst (filter (\<lambda>(rel, h, t). h \<and> t = []) files))"

definition dashes :: "nat \<Rightarrow> string" where
  "dashes n = replicate n (CHR ''-'')"

definition mc_report :: "bool \<Rightarrow> mfile list \<Rightarrow> mrow list \<Rightarrow> (string \<times> string) list \<Rightarrow> string list" where
  "mc_report gaps_only files rows missing =
     (let named = length (filter (\<lambda>(_, _, t). t \<noteq> []) files);
          blocks = length (filter (\<lambda>(_, h, _). h) files);
          shown = filter (\<lambda>r. gaps_only \<longrightarrow> row_gap r) rows;
          both = filter row_both rows;
          onlyh = filter (\<lambda>r. sorted_set (c_host (snd r)) \<noteq> [] \<and> sorted_set (c_dev (snd r)) = []) both;
          bare = claimed_no_test files
      in [''mirror_coverage: '' @ show_nat (length files) @ '' files, '' @ show_nat blocks
            @ '' with a provenance block, '' @ show_nat named @ '' naming a test'',
          [],
          mc_columns ''component'' ''directory'' ''host'' ''device'',
          mc_columns (dashes 58) (dashes 18) (dashes 6) (dashes 6)]
         @ map mc_row_line shown
         @ [[],
            ''components printed: '' @ show_nat (length shown) @ '' of '' @ show_nat (length rows)
              @ ''   (`--` that half is not in the tree, `?` it names no test)'',
            ''components with BOTH halves in one directory: '' @ show_nat (length both)
              @ ''; of those, host names a test and the device half names none: '' @ show_nat (length onlyh),
            ''files with a provenance block that names NO test: '' @ show_nat (length bare),
            ''files with no provenance block at all: '' @ show_nat (length files - blocks)
              @ '' -- an older question than this tool answers'']
         @ (if gaps_only then [[], ''a provenance block, and no test named in it:''] @ map (\<lambda>rel. ''   '' @ rel) bare
            else [])
         @ [[],
            ''NOTE the pairing is by directory and name, which is the only pairing the tree encodes. Most'',
            ''device code lives under src/cuda while its host twin sits on the mirrored OpenFOAM path, so a'',
            ''`--` here means '' @ [dquote] @ ''no twin of that name beside it'' @ [dquote]
              @ '', not '' @ [dquote] @ ''no device implementation'' @ [dquote] @ ''.'']
         @ (if missing \<noteq> [] then
              [] # map (\<lambda>(rel, t). ''MISSING   '' @ rel @ '' names '' @ t @ '', which does not exist'') missing
              @ [show_nat (length missing) @ '' provenance test paths do not resolve'']
            else []))"

definition mc_main :: "fsys \<Rightarrow> string \<Rightarrow> string list \<Rightarrow> nat \<times> string list" where
  "mc_main fs brae argv =
     (let check = in_list ''--check'' argv; gaps_only = in_list ''--gaps'' argv;
          files = mirror_files fs brae;
          rows = comp_rows (components_of files);
          missing = missing_tests fs brae files
      in (if check \<and> missing \<noteq> [] then 1 else 0, mc_report gaps_only files rows missing))"

subsection \<open>What a block is\<close>

lemma block_lines_takeWhile:
  "block_lines ls = takeWhile (\<lambda>l. startswith l ''//'' \<and> strip l \<noteq> ''//'') ls"
  by (induction ls) auto

subsection \<open>Every file lies in one component\<close>

text \<open>The component of a key, written down from the files that have it.\<close>

definition side_files :: "bool \<Rightarrow> string \<times> string \<Rightarrow> mfile list \<Rightarrow> mfile list" where
  "side_files host k files =
     filter (\<lambda>(rel, _). comp_key rel = k \<and> is_host_half (basename rel) = host) files"

definition side_names :: "bool \<Rightarrow> string \<times> string \<Rightarrow> mfile list \<Rightarrow> string list" where
  "side_names host k files = map (\<lambda>(rel, _). basename rel) (side_files host k files)"

definition side_tests :: "bool \<Rightarrow> string \<times> string \<Rightarrow> mfile list \<Rightarrow> string list" where
  "side_tests host k files = concat (map (\<lambda>(_, _, tests). tests) (side_files host k files))"

definition comp_of :: "string \<times> string \<Rightarrow> mfile list \<Rightarrow> comp" where
  "comp_of k files = \<lparr>c_host = side_tests True k files, c_dev = side_tests False k files,
     c_hostf = side_names True k files, c_devf = side_names False k files\<rparr>"

lemma add_side_comp_of:
  "add_side (basename rel) tests (comp_of (comp_key rel) fs) = comp_of (comp_key rel) (fs @ [(rel, h, tests)])"
  by (simp add: add_side_def comp_of_def side_tests_def side_names_def side_files_def)

lemma comp_of_other: "comp_key rel \<noteq> k \<Longrightarrow> comp_of k (fs @ [(rel, h, tests)]) = comp_of k fs"
  by (simp add: comp_of_def side_tests_def side_names_def side_files_def)

lemma comp_of_none: "k \<notin> comp_key ` fst ` set fs \<Longrightarrow> comp_of k fs = new_comp"
proof -
  assume "k \<notin> comp_key ` fst ` set fs"
  then have "side_files b k fs = []" for b
    by (auto simp: side_files_def filter_empty_conv image_iff)
  then show ?thesis by (simp add: comp_of_def side_tests_def side_names_def new_comp_def)
qed

lemma fold_add_file:
  "dict_get (fold add_file fs []) k = (if k \<in> comp_key ` fst ` set fs then Some (comp_of k fs) else None)"
proof (induction fs arbitrary: k rule: rev_induct)
  case (snoc f fs)
  obtain rel h tests where f: "f = (rel, h, tests)" by (cases f) auto
  have g: "get_or (fold add_file fs []) (comp_key rel) new_comp = comp_of (comp_key rel) fs"
    using snoc.IH [of "comp_key rel"] comp_of_none [of "comp_key rel" fs]
    by (simp add: get_or_def split: if_splits)
  have "fold add_file (fs @ [f]) [] = dict_set (comp_key rel) (comp_of (comp_key rel) (fs @ [f])) (fold add_file fs [])"
    using g add_side_comp_of [of rel tests fs h] by (simp add: f add_file_def [of "(rel, h, tests)"])
  then show ?case using snoc.IH [of k] f
    by (cases "k = comp_key rel") (simp_all add: comp_of_other)
qed simp

lemma missing_tests_empty_iff:
  "missing_tests fs brae files = [] \<longleftrightarrow>
     list_all (\<lambda>(rel, h, tests). list_all (\<lambda>t. fs_exists fs (path_join brae t)) tests) files"
  by (force simp: missing_tests_def list_all_iff filter_empty_conv)

subsection \<open>Properties\<close>

text \<open>C29: The grouping loses no file and mixes no two: the component of a directory and a normalised name exists exactly when
  a file has them, and holds on each side, in sorted order, the files of that side and the tests they name.\<close>

theorem mirror_components:
  "dict_get (components_of files) k =
     (if k \<in> comp_key ` fst ` set files then Some (comp_of k (sort_key fst files)) else None)"
  by (simp add: components_of_def fold_add_file)

text \<open>With \<open>--check\<close> the exit status is 1 exactly when some file's provenance block names a test that does not exist.\<close>

theorem mirror_check_fails_iff:
  "fst (mc_main fs brae argv) = 1 \<longleftrightarrow>
     in_list ''--check'' argv \<and>
     list_ex (\<lambda>(rel, h, tests). list_ex (\<lambda>t. \<not> fs_exists fs (path_join brae t)) tests) (mirror_files fs brae)"
  using missing_tests_empty_iff [of fs brae "mirror_files fs brae"]
  by (auto simp: mc_main_def Let_def list_all_iff list_ex_iff)

end
