(* ===== verification/Py_Float.thy ===== *)
theory Py_Float
  imports Py_Prelude Complex_Main
begin

text \<open>
  Python's floats as the comparison scripts use them: a finite value, an infinity or a NaN, with the
  comparisons, the difference, the absolute value, the quotient and \<open>max\<close> as Python defines them
  on those cases, and \<open>float(s)\<close> for a string.  A finite value is the exact rational number of its
  literal: rounding to 53 bits and overflow to infinity are not modelled.
\<close>

datatype pyfloat =
    Fin rat
  | Inf bool
  | NaN

text \<open>\<open>Inf True\<close> is \<open>-inf\<close>.\<close>

fun fl_lt :: "pyfloat \<Rightarrow> pyfloat \<Rightarrow> bool" where
  "fl_lt NaN _ \<longleftrightarrow> False"
| "fl_lt _ NaN \<longleftrightarrow> False"
| "fl_lt (Fin a) (Fin b) \<longleftrightarrow> a < b"
| "fl_lt (Fin _) (Inf neg) \<longleftrightarrow> \<not> neg"
| "fl_lt (Inf neg) (Fin _) \<longleftrightarrow> neg"
| "fl_lt (Inf a) (Inf b) \<longleftrightarrow> a \<and> \<not> b"

fun fl_abs :: "pyfloat \<Rightarrow> pyfloat" where
  "fl_abs (Fin a) = Fin \<bar>a\<bar>"
| "fl_abs (Inf _) = Inf False"
| "fl_abs NaN = NaN"

fun fl_sub :: "pyfloat \<Rightarrow> pyfloat \<Rightarrow> pyfloat" where
  "fl_sub (Fin a) (Fin b) = Fin (a - b)"
| "fl_sub (Fin _) (Inf neg) = Inf (\<not> neg)"
| "fl_sub (Inf neg) (Fin _) = Inf neg"
| "fl_sub (Inf a) (Inf b) = (if a = b then NaN else Inf a)"
| "fl_sub NaN _ = NaN"
| "fl_sub _ NaN = NaN"

text \<open>\<open>a / b\<close>; a zero divisor raises.\<close>

fun fl_div :: "pyfloat \<Rightarrow> pyfloat \<Rightarrow> pyfloat res" where
  "fl_div a (Fin b) =
     (if b = 0 then Inl ZeroDivision
      else Inr (case a of Fin x \<Rightarrow> Fin (x / b) | Inf neg \<Rightarrow> Inf (neg \<noteq> (b < 0)) | NaN \<Rightarrow> NaN))"
| "fl_div a (Inf neg) = Inr (case a of Fin _ \<Rightarrow> Fin 0 | _ \<Rightarrow> NaN)"
| "fl_div a NaN = Inr NaN"

text \<open>\<open>max(a, b)\<close> keeps its first argument unless the second is greater.\<close>

definition fl_max :: "pyfloat \<Rightarrow> pyfloat \<Rightarrow> pyfloat" where
  "fl_max a b = (if fl_lt a b then b else a)"

definition fl_le :: "pyfloat \<Rightarrow> pyfloat \<Rightarrow> bool" where
  "fl_le a b \<longleftrightarrow> a \<noteq> NaN \<and> b \<noteq> NaN \<and> \<not> fl_lt b a"

subsection \<open>Reading a float\<close>

definition ten_pow :: "int \<Rightarrow> rat" where
  "ten_pow e = (if 0 \<le> e then 10 ^ nat e else 1 / 10 ^ nat (- e))"

text \<open>A sign and the rest.\<close>

fun take_sign :: "string \<Rightarrow> bool \<times> string" where
  "take_sign [] = (False, [])"
| "take_sign (c # cs) = (if c = CHR ''-'' then (True, cs) else if c = CHR ''+'' then (False, cs) else (False, c # cs))"

text \<open>An underscore is allowed between two digits and means nothing.\<close>

fun drop_underscores :: "bool \<Rightarrow> string \<Rightarrow> string option" where
  "drop_underscores d [] = Some []"
| "drop_underscores d (c # cs) =
     (if c = CHR ''_''
      then (if d \<and> cs \<noteq> [] \<and> is_digit (hd cs) then drop_underscores False cs else None)
      else map_option ((#) c) (drop_underscores (is_digit c) cs))"

definition digits_only :: "string \<Rightarrow> bool" where
  "digits_only s \<longleftrightarrow> list_all is_digit s"

fun read_exponent :: "string \<Rightarrow> int option" where
  "read_exponent [] = Some 0"
| "read_exponent (c # cs) =
     (if c = CHR ''e'' \<or> c = CHR ''E'' then
        (case take_sign cs of (neg, ds) \<Rightarrow>
           if ds \<noteq> [] \<and> digits_only ds then Some (if neg then - int (read_digits ds) else int (read_digits ds)) else None)
      else None)"

text \<open>Digits, an optional point and digits, an optional exponent; at least one digit before the exponent.\<close>

definition read_decimal :: "string \<Rightarrow> rat option" where
  "read_decimal s =
     (let whole = takeWhile is_digit s; rest = dropWhile is_digit s;
          frac = (case rest of c # cs \<Rightarrow> if c = CHR ''.'' then takeWhile is_digit cs else [] | [] \<Rightarrow> []);
          rest' = (case rest of c # cs \<Rightarrow> if c = CHR ''.'' then dropWhile is_digit cs else rest | [] \<Rightarrow> [])
      in if whole = [] \<and> frac = [] then None
         else map_option (\<lambda>e. of_nat (read_digits (whole @ frac)) * ten_pow (e - int (length frac)))
                (read_exponent rest'))"

definition py_float :: "string \<Rightarrow> pyfloat res" where
  "py_float s =
     (case take_sign (strip s) of (neg, t) \<Rightarrow>
        if lower t \<in> {''inf'', ''infinity''} then Inr (Inf neg)
        else if lower t = ''nan'' then Inr NaN
        else case drop_underscores False t of None \<Rightarrow> Inl ValueError
          | Some u \<Rightarrow> (case read_decimal u of None \<Rightarrow> Inl ValueError
              | Some q \<Rightarrow> Inr (Fin (if neg then - q else q))))"

subsection \<open>The order\<close>

lemma fl_max_NaN [simp]: "fl_max a NaN = a"
  by (cases a) (simp_all add: fl_max_def)

lemma fl_lt_irrefl [simp]: "\<not> fl_lt a a"
  by (cases a) auto

lemma fl_le_refl: "a \<noteq> NaN \<Longrightarrow> fl_le a a"
  by (simp add: fl_le_def)

lemma fl_le_trans: "fl_le a b \<Longrightarrow> fl_le b c \<Longrightarrow> fl_le a c"
  by (cases a; cases b; cases c) (auto simp: fl_le_def)

lemma fl_le_max: "a \<noteq> NaN \<Longrightarrow> b \<noteq> NaN \<Longrightarrow> fl_le a (fl_max a b) \<and> fl_le b (fl_max a b)"
  by (cases a; cases b) (auto simp: fl_le_def fl_max_def)

lemma fl_max_not_NaN [simp]: "a \<noteq> NaN \<Longrightarrow> fl_max a b \<noteq> NaN"
  by (cases a; cases b) (auto simp: fl_max_def)

lemma fl_max_grows: "a \<noteq> NaN \<Longrightarrow> fl_le a (fl_max a b)"
  by (cases "b = NaN") (simp_all add: fl_le_refl fl_le_max)

lemma fl_sub_self: "fl_sub (Fin a) (Fin a) = Fin 0"
  by simp

end
