(* ===== verification/Pimple_Coverage.thy ===== *)
theory Pimple_Coverage
  imports Py_Os Py_Regex
begin

text \<open>
  \<open>tools/pimplefoam_coverage.py\<close>: the inventory of the types OpenFOAM registers for
  incompressible pimpleFoam, held against the names brae's sources mention and against what the
  tutorials demand.  The output of the shell commands (\<open>grep\<close>, \<open>find\<close>, \<open>cat\<close>) is a
  parameter, a function of the command line the script builds; the patterns, the sets and the
  report are those of the script.  Python's sets are sorted lists without duplicates.  The lemmas
  say which types a category misses, that the columns of the table account for every type, and
  what the scan of a \<open>grep\<close> output finds.
\<close>

record cov_sys = fsys +
  cv_sh :: "string \<Rightarrow> string"
  cv_listdir :: "string \<Rightarrow> string list"
  cv_mkdir :: "string \<Rightarrow> unit res"
  cv_write :: "string \<Rightarrow> unit res"

subsection \<open>The curated tables\<close>

definition REFUSED :: "(string, (string, string) dict) dict" where
  "REFUSED =
     [(''dynamicFvMesh'',
        [(''interfaceTrackingFvMesh'', ''free-surface tracking: mesh motion driven by the interface itself''),
         (''dynamicMotionSolverFvMeshAMI'', ''topology change during the run''),
         (''dynamicOversetFvMesh'', ''overset replaces the matrix addressing'')]),
      (''motionSolver'', [(''sixDoFRigidBodyMotion'', ''rigid-body ODE + restraints'')]),
      (''RASModel'', [(''kkLOmega'', ''3-equation transition model'')]),
      (''LESModel'', [(''kEqn'', ''one-equation SGS k transport'')]),
      (''fvPatchField'',
        [(''velocityFilmShell'', ''finite-area film region coupled to the 3-D solve''),
         (''turbulentDFSEMInlet'', ''synthetic-eddy inflow generator''),
         (''cyclicSlip'', ''coupled patch brae does not build'')])]"

definition DIVERGENT :: "(string, (string, string) dict) dict" where
  "DIVERGENT =
     [(''ddtScheme'',
        [(''backward'', ''cell ddt implemented; fvc::ddtCorr flux coupling omitted (notice)''),
         (''CrankNicolson'', ''cell ddt implemented; fvc::ddtCorr flux coupling omitted (notice)''),
         (''bounded'', ''parsed as Euler, not OpenFOAM'' @ [squote] @ ''s bounded behaviour'')])]"

subsection \<open>The scans\<close>

definition upto_null :: string where
  "upto_null = '' 2>/dev/null''"

definition quoted :: "string \<Rightarrow> string" where
  "quoted s = [squote] @ s @ [squote]"

text \<open>\<open>[A-Za-z0-9]\<close>, \<open>[A-Za-z0-9_]\<close> and \<open>[A-Za-z]\<close>.\<close>

definition c_alnum :: cset where
  "c_alnum = CUn (CRange (CHR ''A'') (CHR ''Z'')) (CUn (CRange (CHR ''a'') (CHR ''z'')) (CRange (CHR ''0'') (CHR ''9'')))"

definition c_ident :: cset where
  "c_ident = CUn c_alnum (CS ''_'')"

definition c_letter :: cset where
  "c_letter = CUn (CRange (CHR ''A'') (CHR ''Z'')) (CRange (CHR ''a'') (CHR ''z''))"

definition type_open :: string where
  "type_open = ''TypeName('' @ [dquote]"

definition type_close :: string where
  "type_close = [dquote] @ '')''"

definition typename_rx :: rx where
  "typename_rx = RSeqs [RLit type_open, RGrp 1 (RPlus (RSet c_ident)), RLit type_close]"

definition typenames_cmd :: "string \<Rightarrow> string" where
  "typenames_cmd p =
     ''grep -rhoE '' @ quoted (''TypeName'' @ [bslash] @ ''('' @ [dquote] @ ''[A-Za-z0-9_]+'' @ [dquote] @ [bslash] @ '')'')
       @ '' '' @ p @ upto_null"

text \<open>The loops over the paths: directories that do not exist are skipped, the rest united.\<close>

definition scan_dirs :: "cov_sys \<Rightarrow> (string \<Rightarrow> string) \<Rightarrow> rx \<Rightarrow> string list \<Rightarrow> string list" where
  "scan_dirs sys cmd r paths =
     sorted_set (concat (map (\<lambda>p. findall r 1 (cv_sh sys (cmd p))) (filter (fs_isdir sys) paths)))"

definition typenames :: "cov_sys \<Rightarrow> string list \<Rightarrow> string list" where
  "typenames sys paths = scan_dirs sys typenames_cmd typename_rx paths"

definition rts_rx :: "string \<Rightarrow> rx" where
  "rts_rx table = RSeqs [RLit ''addToRunTimeSelectionTable('', RSp, RLit table, RSp, RLit '','', RSp,
     RGrp 1 (RPlus (RSet c_ident))]"

definition rts_cmd :: "string \<Rightarrow> string \<Rightarrow> string" where
  "rts_cmd table p =
     ''grep -rhoE '' @ quoted (''addToRunTimeSelectionTable'' @ [bslash] @ ''('' @ [bslash] @ ''s*'' @ table @ [bslash]
       @ ''s*,'' @ [bslash] @ ''s*[A-Za-z0-9_]+'') @ '' '' @ p @ upto_null"

definition rts :: "cov_sys \<Rightarrow> string list \<Rightarrow> string \<Rightarrow> string list" where
  "rts sys paths table = scan_dirs sys (rts_cmd table) (rts_rx table) paths"

definition schemes_rx :: rx where
  "schemes_rx = RSeqs [RLit ''Scheme('', RGrp 1 (RPlus (RSet c_alnum))]"

definition schemes_cmd :: "string \<Rightarrow> string" where
  "schemes_cmd path =
     ''grep -rhoE '' @ quoted (''make(Limited|LimitedV|Limited01)?SurfaceInterpolationScheme'' @ [bslash] @ ''([A-Za-z0-9]+'')
       @ '' '' @ path @ upto_null"

definition schemes :: "cov_sys \<Rightarrow> string \<Rightarrow> string list" where
  "schemes sys path = sorted_set (findall schemes_rx 1 (cv_sh sys (schemes_cmd path)))"

definition dirnames :: "cov_sys \<Rightarrow> string \<Rightarrow> string list \<Rightarrow> string list" where
  "dirnames sys path skip =
     (if \<not> fs_isdir sys path then []
      else sorted_set (filter (\<lambda>d. fs_isdir sys (path_join path d) \<and> \<not> in_list d skip
        \<and> \<not> startswith d ''derived'' \<and> \<not> endswith d ''Model'') (cv_listdir sys path)))"

definition literal_rx :: rx where
  "literal_rx = RSeqs [RLit [dquote],
     RGrp 1 (RSeqs [RSet c_letter, RSet c_ident, RSet c_ident, RStar (RSet c_ident)]), RLit [dquote]]"

definition brae_cmd :: "string \<Rightarrow> string" where
  "brae_cmd brae =
     ''grep -rhoE '' @ quoted ([dquote] @ ''[A-Za-z][A-Za-z0-9_]{2,}'' @ [dquote]) @ '' '' @ brae @ ''/src'' @ upto_null"

text \<open>The global \<open>_ALL_BRAE_STRINGS\<close> is the state: the first call runs \<open>grep\<close> and keeps its literals.\<close>

definition brae_strings :: "cov_sys \<Rightarrow> string \<Rightarrow> (string list option, string list) op" where
  "brae_strings sys brae memo =
     (case memo of
        Some xs \<Rightarrow> Inr (xs, memo)
      | None \<Rightarrow> let xs = sorted_set (findall literal_rx 1 (cv_sh sys (brae_cmd brae))) in Inr (xs, Some xs))"

subsection \<open>What the tutorials demand\<close>

definition r_name :: rx where
  "r_name = RGrp 1 (RSeq (RSet c_letter) (RStar (RSet c_ident)))"

definition selected_rx :: "rx \<Rightarrow> rx" where
  "selected_rx keyword = RSeqs [keyword, RSp1, r_name, RSp, RLit '';'']"

definition turbulence_globs :: "string list" where
  "turbulence_globs = [''constant/turbulenceProperties*'', ''constant/momentumTransport*'']"

definition scopes :: "(string, string list \<times> rx) dict" where
  "scopes =
     [(''fvPatchField'', ([''0/*'', ''0.orig/*''], selected_rx (RSeq RWordB (RLit ''type'')))),
      (''ddtScheme'', ([''system/fvSchemes''],
         RSeqs [RLit ''ddtSchemes'', RLazy (RSet (CNot (CS [CHR 0x7D]))), RLit ''default'', RSp1, r_name])),
      (''limitedScheme'', ([''system/fvSchemes''], RSeqs [RLit ''Gauss'', RSp1, r_name])),
      (''RASModel'', (turbulence_globs, selected_rx (RLit ''RASModel''))),
      (''LESModel'', (turbulence_globs, selected_rx (RLit ''LESModel''))),
      (''LESdelta'', (turbulence_globs, selected_rx (RSeq RWordB (RLit ''delta'')))),
      (''fvOption'', ([''constant/fvOptions'', ''system/fvOptions''], selected_rx (RSeq RWordB (RLit ''type'')))),
      (''dynamicFvMesh'', ([''constant/dynamicMeshDict''], selected_rx (RLit ''dynamicFvMesh''))),
      (''motionSolver'', ([''constant/dynamicMeshDict''], selected_rx (RAlt (RLit ''motionSolver'') (RLit ''solver''))))]"

definition find_cmd :: "string \<Rightarrow> string \<Rightarrow> string" where
  "find_cmd tutroot gl =
     ''find '' @ tutroot @ '' -path '' @ quoted (''*/'' @ gl) @ '' -type f -exec cat '' @ [CHR 0x7B, CHR 0x7D] @ '' +'' @ upto_null"

definition demanded :: "cov_sys \<Rightarrow> string \<Rightarrow> string \<Rightarrow> string list" where
  "demanded sys tutroot category =
     (if \<not> fs_isdir sys tutroot then []
      else case dict_get scopes category of None \<Rightarrow> []
        | Some (globs, r) \<Rightarrow>
            sorted_set (concat (map (\<lambda>gl. findall r 1 (cv_sh sys (find_cmd tutroot gl))) globs)))"

subsection \<open>The categories\<close>

text \<open>The types OpenFOAM registers, in the order \<open>build\<close> fills its dictionary.\<close>

definition of_types :: "cov_sys \<Rightarrow> string \<Rightarrow> (string \<times> string list) list" where
  "of_types sys ofsrc =
     (let fv = ofsrc @ ''/finiteVolume''; tm = ofsrc @ ''/TurbulenceModels''
      in [(''fvPatchField'', typenames sys
             [fv @ ''/fields/fvPatchFields/basic'', fv @ ''/fields/fvPatchFields/constraint'',
              fv @ ''/fields/fvPatchFields/derived'', tm @ ''/turbulenceModels/derivedFvPatchFields'',
              tm @ ''/incompressible'']),
          (''ddtScheme'', typenames sys [fv @ ''/finiteVolume/ddtSchemes'']),
          (''limitedScheme'', schemes sys (fv @ ''/interpolation/surfaceInterpolation'')),
          (''RASModel'', dirnames sys (tm @ ''/turbulenceModels/RAS'') [''RASModel'']),
          (''LESModel'', dirnames sys (tm @ ''/turbulenceModels/LES'') [''LESModel'', ''LESdeltas'', ''LESfilters'']),
          (''LESdelta'', dirnames sys (tm @ ''/turbulenceModels/LES/LESdeltas'') []),
          (''fvOption'', typenames sys [ofsrc @ ''/fvOptions'']),
          (''dynamicFvMesh'', typenames sys [ofsrc @ ''/dynamicFvMesh'']),
          (''motionSolver'', rts sys [ofsrc @ ''/fvMotionSolver'', ofsrc @ ''/dynamicMesh/motionSolvers''] ''motionSolver'')])"

type_synonym cov_cat = "string \<times> string list \<times> string list"

definition build :: "cov_sys \<Rightarrow> string \<Rightarrow> string \<Rightarrow> (string list option, cov_cat list) op" where
  "build sys brae ofsrc =
     mapS (\<lambda>(name, ts). bindS (brae_strings sys brae) (\<lambda>br. retS (name, ts, br))) (of_types sys ofsrc)"

subsection \<open>The report\<close>

record cov_row =
  cr_name :: string
  cr_of :: nat
  cr_named :: nat
  cr_missing :: "string list"
  cr_refused :: "string list"
  cr_divergent :: "string list"
  cr_want :: "string list"

definition names_in :: "(string, (string, string) dict) dict \<Rightarrow> string \<Rightarrow> string list" where
  "names_in table name = keys (get_or table name [])"

definition cov_row_of :: "cov_sys \<Rightarrow> string \<Rightarrow> cov_cat \<Rightarrow> cov_row" where
  "cov_row_of sys tutroot cat =
     (case cat of (name, ts, br) \<Rightarrow>
        let refused = names_in REFUSED name; divergent = names_in DIVERGENT name;
            named = filter (\<lambda>x. in_list x br) ts @ refused @ divergent;
            missing = filter (\<lambda>x. \<not> in_list x named) ts
        in \<lparr>cr_name = name, cr_of = length ts, cr_named = length (filter (\<lambda>x. in_list x br) ts),
            cr_missing = missing,
            cr_refused = filter (\<lambda>x. in_list x refused) ts,
            cr_divergent = filter (\<lambda>x. in_list x divergent) ts,
            cr_want = filter (\<lambda>x. in_list x (demanded sys tutroot name)) missing\<rparr>)"

definition backquoted :: "string \<Rightarrow> string" where
  "backquoted s = ''`'' @ s @ ''`''"

definition ticked :: "string list \<Rightarrow> string" where
  "ticked xs = join '', '' (map backquoted xs)"

definition cov_header :: "string list" where
  "cov_header =
     [''# pimpleFoam coverage manifest'',
      [],
      ''GENERATED by `tools/pimplefoam_coverage.py` -- do not hand-edit the tables.'',
      [],
      ''Every row is a type OpenFOAM v2412 registers with a `TypeName('' @ [dquote] @ ''...'' @ [dquote]
        @ '')` and that incompressible'',
      ''pimpleFoam can therefore select from a case dictionary. `missing` means brae does not name it'',
      ''anywhere: a case using it must be REFUSED at startup, never run to a plausible wrong answer.'',
      [],
      ''| category | OF types | named | refused | divergent | missing | **demanded** |'',
      ''|---|---|---|---|---|---|---|'']"

definition row_line :: "cov_row \<Rightarrow> string" where
  "row_line r =
     ''| '' @ backquoted (cr_name r) @ '' | '' @ show_nat (cr_of r) @ '' | '' @ show_nat (cr_named r) @ '' | ''
       @ show_nat (length (cr_refused r)) @ '' | '' @ show_nat (length (cr_divergent r)) @ '' | ''
       @ show_nat (length (cr_missing r)) @ '' | **'' @ show_nat (length (cr_want r)) @ ''** |''"

definition cov_section :: "cov_row \<Rightarrow> string list" where
  "cov_section r =
     [''### '' @ backquoted (cr_name r) @ '' -- '' @ show_nat (length (cr_missing r)) @ '' missing'', []]
     @ (if cr_refused r \<noteq> [] then [''Refused on purpose: '' @ ticked (cr_refused r), []] else [])
     @ (if cr_divergent r \<noteq> [] then [''Deliberately divergent: '' @ ticked (cr_divergent r), []] else [])
     @ (if cr_want r \<noteq> [] then
          [''**Demanded by a tutorial** (the actionable work list): '' @ ticked (cr_want r), []] else [])
     @ [''All missing: '' @ (if cr_missing r \<noteq> [] then ticked (cr_missing r) else ''_none_''), []]"

definition cov_lines :: "cov_row list \<Rightarrow> string list" where
  "cov_lines rows =
     cov_header @ map row_line rows @ [[], ''## Missing, by category'', []] @ concat (map cov_section rows)"

record cov_args =
  a_of :: string
  a_out :: string

definition default_out :: "string \<Rightarrow> string" where
  "default_out brae = path_join (path_join brae ''..'') ''pimplefoam-coverage.md''"

definition tutorial_root :: "string \<Rightarrow> string" where
  "tutorial_root ofsrc =
     path_join (dirname (rev (dropWhile (\<lambda>c. c = slash) (rev ofsrc)))) ''tutorials/incompressible/pimpleFoam''"

text \<open>\<open>os.makedirs\<close> of the empty path raises FileNotFoundError whatever the file system holds.\<close>

definition makedirs :: "cov_sys \<Rightarrow> string \<Rightarrow> unit res" where
  "makedirs sys p = (if p = [] then Inl (FileNotFound []) else cv_mkdir sys p)"

datatype cov_result =
    CovExit string
  | CovWritten string string "string list"

definition cov_rows :: "cov_sys \<Rightarrow> string \<Rightarrow> string \<Rightarrow> cov_row list res" where
  "cov_rows sys brae ofsrc =
     bindR (build sys brae ofsrc None) (\<lambda>(cats, _). Inr (map (cov_row_of sys (tutorial_root ofsrc)) cats))"

definition cov_main :: "cov_sys \<Rightarrow> string \<Rightarrow> cov_args \<Rightarrow> cov_result res" where
  "cov_main sys brae a =
     (if \<not> fs_isdir sys (a_of a) then Inr (CovExit (''OpenFOAM src not found: '' @ a_of a))
      else bindR (cov_rows sys brae (a_of a)) (\<lambda>rows.
        let ls = cov_lines rows in
        bindR (makedirs sys (dirname (a_out a))) (\<lambda>_.
        bindR (cv_write sys (a_out a)) (\<lambda>_.
          Inr (CovWritten (a_out a) (join [nl] ls @ [nl])
            [join [nl] (take 14 ls), [nl] @ ''written: '' @ a_out a])))))"

subsection \<open>The memo of brae's literals\<close>

text \<open>What the global holds once it is filled.\<close>

definition brae_literals :: "cov_sys \<Rightarrow> string \<Rightarrow> string list" where
  "brae_literals sys brae = sorted_set (findall literal_rx 1 (cv_sh sys (brae_cmd brae)))"

definition memo_ok :: "cov_sys \<Rightarrow> string \<Rightarrow> string list option \<Rightarrow> bool" where
  "memo_ok sys brae memo \<longleftrightarrow> list_all (\<lambda>xs. xs = brae_literals sys brae) (case memo of None \<Rightarrow> [] | Some xs \<Rightarrow> [xs])"

lemma brae_strings_refines: "refines (memo_ok sys brae) (brae_strings sys brae) (Inr (brae_literals sys brae))"
  by (auto simp: refines_def brae_strings_def brae_literals_def memo_ok_def Let_def split: option.splits)

lemma mapR_pure: "mapR (\<lambda>x. Inr (f x)) xs = Inr (map f xs)"
  by (induction xs) simp_all

lemma build_refines:
  "refines (memo_ok sys brae) (build sys brae ofsrc)
     (Inr (map (\<lambda>(name, ts). (name, ts, brae_literals sys brae)) (of_types sys ofsrc)))"
proof -
  have "refines (memo_ok sys brae) (build sys brae ofsrc)
      (mapR (\<lambda>x. Inr ((\<lambda>(name, ts). (name, ts, brae_literals sys brae)) x)) (of_types sys ofsrc))"
    unfolding build_def
  proof (rule refines_map)
    show "refines (memo_ok sys brae)
        (case x of (name, ts) \<Rightarrow> bindS (brae_strings sys brae) (\<lambda>br. retS (name, ts, br)))
        (Inr ((\<lambda>(name, ts). (name, ts, brae_literals sys brae)) x))" for x
      using refines_bind [OF brae_strings_refines refines_ret] by (cases x) (simp add: bindR_def)
  qed
  then show ?thesis by (simp only: mapR_pure)
qed

text \<open>The rows of the table, whatever the shell answers: the scan never raises.\<close>

lemma cov_rows_eq:
  "cov_rows sys brae ofsrc =
     Inr (map (\<lambda>(name, ts). cov_row_of sys (tutorial_root ofsrc) (name, ts, brae_literals sys brae)) (of_types sys ofsrc))"
proof -
  have "memo_ok sys brae None" by (simp add: memo_ok_def)
  from refines_total [OF build_refines this, of ofsrc] obtain m where
    "build sys brae ofsrc None = Inr (map (\<lambda>(name, ts). (name, ts, brae_literals sys brae)) (of_types sys ofsrc), m)"
    by blast
  then show ?thesis by (simp add: cov_rows_def bindR_def comp_def case_prod_unfold)
qed

subsection \<open>The columns of a row\<close>

text \<open>What the category of a row accounts for: named by brae, refused, or divergent.\<close>

definition accounted :: "cov_sys \<Rightarrow> string \<Rightarrow> string \<Rightarrow> string \<Rightarrow> bool" where
  "accounted sys brae name x \<longleftrightarrow>
     in_list x (brae_literals sys brae) \<or> in_list x (names_in REFUSED name) \<or> in_list x (names_in DIVERGENT name)"

lemma of_types_sorted: "list_all (\<lambda>(name, ts). sorted ts \<and> distinct ts) (of_types sys ofsrc)"
  by (simp add: of_types_def Let_def typenames_def schemes_def dirnames_def rts_def scan_dirs_def)

lemma cov_row_missing:
  "cr_missing (cov_row_of sys tut (name, ts, brae_literals sys brae)) = filter (\<lambda>x. \<not> accounted sys brae name x) ts"
  by (auto simp: cov_row_of_def accounted_def in_list_def Let_def intro!: filter_cong)

lemma filter_partition_length: "length xs = length (filter (\<lambda>x. \<not> P x) xs) + length (filter P xs)"
  using sum_length_filter_compl [of P xs] by simp

text \<open>A type that is counted in no other column is counted as missing.\<close>

lemma length_cover:
  "(\<And>x. x \<in> set xs \<Longrightarrow> P x \<or> Q x \<or> R x \<or> S x) \<Longrightarrow>
     length xs \<le> length (filter P xs) + length (filter Q xs) + length (filter R xs) + length (filter S xs)"
  by (induction xs) (force simp: le_Suc_eq)+

lemma cov_row_columns:
  "cr_of r \<le> cr_named r + length (cr_refused r) + length (cr_divergent r) + length (cr_missing r)"
  if "r = cov_row_of sys tut (name, ts, br)"
  unfolding that cov_row_of_def Let_def by (simp add: in_list_def) (rule length_cover, blast)

lemma dirname_plain: "slash \<notin> set p \<Longrightarrow> dirname p = []"
  by (simp add: dirname_def basename_def split_on_id)

lemma out_without_directory:
  "fs_isdir sys (a_of a) \<Longrightarrow> slash \<notin> set (a_out a) \<Longrightarrow> cov_main sys brae a = Inl (FileNotFound [])"
  by (simp add: cov_main_def cov_rows_eq bindR_def makedirs_def dirname_plain Let_def)

subsection \<open>Properties\<close>


text \<open>What \<open>grep -rhoE\<close> prints for the pattern of type names, one match on a line, is read back as the set of the names.\<close>

theorem typenames_of_grep:
  assumes "fs_isdir sys p" and "cv_sh sys (typenames_cmd p) = name_lines type_open type_close xs"
    and "list_all (\<lambda>x. x \<noteq> [] \<and> list_all (in_cset c_ident) x) xs"
  shows "typenames sys [p] = sorted_set xs"
proof -
  have "\<not> in_cset c_ident dquote" "hd type_open \<noteq> nl" "typename_rx = name_rx type_open c_ident type_close"
    by (simp_all add: c_ident_def c_alnum_def dquote_def type_open_def nl_def typename_rx_def name_rx_def)
  then show ?thesis
    using assms findall_name_lines [of type_open type_close c_ident xs]
    by (simp add: typenames_def scan_dirs_def type_open_def type_close_def)
qed

definition grep_sys :: cov_sys where
  "grep_sys = \<lparr>fs_isfile = (\<lambda>_. False), fs_isdir = (\<lambda>_. True), fs_text = (\<lambda>_. None), fs_walk = (\<lambda>_. []),
     fs_realpath = (\<lambda>p. p), fs_relpath = (\<lambda>p. p), fs_size = (\<lambda>_. 0), fs_mtime = (\<lambda>_. 0),
     cv_sh = (\<lambda>_. name_lines type_open type_close [''fixedValue'', ''cyclic'', ''fixedValue'']),
     cv_listdir = (\<lambda>_. []), cv_mkdir = (\<lambda>_. Inr ()), cv_write = (\<lambda>_. Inr ())\<rparr>"

theorem typenames_of_grep_witness:
  "typenames grep_sys [''/of/src/fvOptions''] = [''cyclic'', ''fixedValue'']"
proof -
  have "typenames grep_sys [''/of/src/fvOptions''] = sorted_set [''fixedValue'', ''cyclic'', ''fixedValue'']"
    by (rule typenames_of_grep) (simp_all add: grep_sys_def c_ident_def c_alnum_def)
  also have "\<dots> = [''cyclic'', ''fixedValue'']" by (simp add: sorted_set_def)
  finally show ?thesis .
qed

end
