(* ===== verification/Foam_Compare.thy ===== *)
theory Foam_Compare
  imports Py_Os Py_Regex Py_Float
begin

text \<open>
  \<open>tools/foam_time_compare.py\<close>: two OpenFOAM time directories compared, structure exactly and
  values numerically.  The tokeniser, the recursive parser of dictionaries, the reader of numeric
  entries, the comparison of two files and the command, each with the exceptions the code can
  raise; only the ones the code catches are caught.  What a compressed file holds, the printing of a float
  with \<open>%.3e\<close> and the JSON text of the result are arguments.
\<close>

subsection \<open>Tokens\<close>

definition block_comment :: rx where
  "block_comment = RSeqs [RLit ''/*'', RLazy (RSet CAll), RLit ''*/'']"

definition line_comment :: rx where
  "line_comment = RSeq (RLit ''//'') (RStar (RSet (CNot (CS [nl]))))"

definition brackets :: string where
  "brackets = ''{}();[]''"

definition token_rx :: rx where
  "token_rx = RAlts [RSeqs [RSet (CS [dquote]), RStar (RSet (CNot (CS [dquote]))), RSet (CS [dquote])],
     RSet (CS brackets), RPlus (RSet (CNot (CUn CSpace (CS brackets))))]"

definition tokens :: "string \<Rightarrow> string list" where
  "tokens text1 = findall token_rx 0 (re_sub line_comment (\<lambda>_. []) (re_sub block_comment (\<lambda>_. []) text1))"

subsection \<open>Dictionaries\<close>

datatype entry_val = EDict "(string \<times> entry_val) list" | EVal "string list"

type_synonym entries = "(string \<times> entry_val) list"

text \<open>\<open>x in s\<close> for two strings is the substring test.\<close>

definition opens :: "string \<Rightarrow> bool" where "opens t \<longleftrightarrow> contains ''(['' t"
definition closes :: "string \<Rightarrow> bool" where "closes t \<longleftrightarrow> contains '')]'' t"
definition is_paren :: "string \<Rightarrow> bool" where "is_paren t \<longleftrightarrow> contains ''()'' t"

text \<open>
  The tokens of a value up to the semicolon outside brackets, and what follows it.  The position
  of the code in its token list is the rest of the list here, and running off its end is an IndexError.
\<close>

fun take_value :: "int \<Rightarrow> string list \<Rightarrow> (string list \<times> string list) res" where
  "take_value depth [] = Inl IndexError"
| "take_value depth (t # ts) =
     (if t = '';'' \<and> depth = 0 then Inr ([], ts)
      else bindR (take_value (depth + (if opens t then 1 else 0) - (if closes t then 1 else 0)) ts)
             (\<lambda>(val, rest). Inr (t # val, rest)))"

text \<open>
  The parser; its argument bounds the number of entries, and \<open>parse_block\<close> gives it more than
  there are tokens.
\<close>

fun parse_entries :: "nat \<Rightarrow> string list \<Rightarrow> (entries \<times> string list) res" where
  "parse_entries 0 toks = Inl OutOfFuel"
| "parse_entries (Suc n) [] = Inr ([], [])"
| "parse_entries (Suc n) (t # ts) =
     (if t = ''}'' then Inr ([], ts)
      else case ts of [] \<Rightarrow> Inl IndexError
      | u # us \<Rightarrow>
          if u = ''{'' then
            bindR (parse_entries n us) (\<lambda>(sub, rest).
            bindR (parse_entries n rest) (\<lambda>(es, rest'). Inr ((t, EDict sub) # es, rest')))
          else
            bindR (take_value 0 ts) (\<lambda>(val, rest).
            bindR (parse_entries n rest) (\<lambda>(es, rest'). Inr ((t, EVal val) # es, rest'))))"

definition parse_block :: "string list \<Rightarrow> (entries \<times> string list) res" where
  "parse_block toks = parse_entries (Suc (length toks)) toks"

subsection \<open>Numbers\<close>

datatype nkind = Uniform | NList | Plain

fun list_items :: "pyfloat list option \<Rightarrow> string list \<Rightarrow> pyfloat list list res" where
  "list_items cur [] = Inr []"
| "list_items cur (x # xs) =
     (if x = ''('' then list_items (Some []) xs
      else if x = '')'' then
        (case cur of None \<Rightarrow> Inl TypeError
         | Some c \<Rightarrow> bindR (list_items None xs) (\<lambda>es. Inr (c # es)))
      else bindR (py_float x) (\<lambda>v.
        case cur of Some c \<Rightarrow> list_items (Some (c @ [v])) xs
        | None \<Rightarrow> bindR (list_items None xs) (\<lambda>es. Inr ([v] # es))))"

definition raw_numbers :: "string list \<Rightarrow> (nkind \<times> pyfloat list list) res" where
  "raw_numbers val =
     (case val of
        [] \<Rightarrow> Inr (Plain, [[]])
      | v # vs \<Rightarrow>
          if v = ''uniform'' then
            bindR (mapR py_float (filter (\<lambda>x. \<not> is_paren x) vs)) (\<lambda>t. Inr (Uniform, [t]))
          else if v = ''nonuniform'' then
            (case drop 2 val of [] \<Rightarrow> Inl IndexError
             | b # bs \<Rightarrow>
                 let start = (if b \<noteq> ''('' then 1 else 0)
                 in bindR (list_items None (drop (start + 1) (butlast (b # bs)))) (\<lambda>es. Inr (NList, es)))
          else bindR (mapR py_float (filter (\<lambda>x. \<not> is_paren x) val)) (\<lambda>t. Inr (Plain, [t])))"

text \<open>The \<open>except\<close> clause: a ValueError or an IndexError means that the entry is not numeric.\<close>

definition numbers :: "string list \<Rightarrow> (nkind \<times> pyfloat list list) option res" where
  "numbers val =
     (case raw_numbers val of
        Inr r \<Rightarrow> Inr (Some r)
      | Inl e \<Rightarrow> if e = ValueError \<or> e = IndexError then Inr None else Inl e)"

subsection \<open>Comparing two files\<close>

record fcomp =
  fc_tag :: string
  fc_structure :: bool
  fc_notes :: "string list"
  fc_worst :: pyfloat
  fc_scale :: pyfloat

definition new_fcomp :: "string \<Rightarrow> fcomp" where
  "new_fcomp tag = \<lparr>fc_tag = tag, fc_structure = True, fc_notes = [], fc_worst = Fin 0, fc_scale = Fin 0\<rparr>"

definition bad :: "string \<Rightarrow> fcomp \<Rightarrow> fcomp" where
  "bad msg fc = fc\<lparr>fc_structure := False, fc_notes := fc_notes fc @ [msg]\<rparr>"

definition sweep_pair :: "pyfloat \<times> pyfloat \<Rightarrow> fcomp \<Rightarrow> fcomp" where
  "sweep_pair pq fc =
     fc\<lparr>fc_scale := fl_max (fc_scale fc) (fl_abs (fst pq)),
        fc_worst := fl_max (fc_worst fc) (fl_abs (fl_sub (fst pq) (snd pq)))\<rparr>"

definition value_pairs :: "pyfloat list list \<Rightarrow> pyfloat list list \<Rightarrow> (pyfloat \<times> pyfloat) list" where
  "value_pairs a b = concat (map (\<lambda>(x, y). zip x y) (zip a b))"

definition expand_uniform :: "nkind \<times> pyfloat list list \<Rightarrow> nkind \<times> pyfloat list list \<Rightarrow> pyfloat list list" where
  "expand_uniform na nb =
     (if fst na = Uniform \<and> fst nb = NList then concat (replicate (length (snd nb)) (snd na)) else snd na)"

definition same_shape :: "pyfloat list list \<Rightarrow> pyfloat list list \<Rightarrow> bool" where
  "same_shape a b \<longleftrightarrow> length a = length b \<and> list_all (\<lambda>(x, y). length x = length y) (zip a b)"

definition compare_values :: "string \<Rightarrow> string list \<Rightarrow> string list \<Rightarrow> fcomp \<Rightarrow> fcomp res" where
  "compare_values whr va vb fc =
     bindR (numbers va) (\<lambda>na. bindR (numbers vb) (\<lambda>nb.
       case (na, nb) of
         (Some x, Some y) \<Rightarrow>
           (let a = expand_uniform x y; b = expand_uniform y x
            in if \<not> same_shape a b
               then Inr (bad (whr @ '': '' @ show_nat (length a) @ '' entries vs '' @ show_nat (length b)) fc)
               else Inr (fold sweep_pair (value_pairs a b) fc))
       | _ \<Rightarrow>
           Inr (if va \<noteq> vb
                then bad (whr @ '': '' @ take 80 (join '' '' va) @ '' vs '' @ take 80 (join '' '' vb)) fc else fc)))"

definition EXACT_KEYS :: "string list" where
  "EXACT_KEYS = [''dimensions'', ''name'', ''index'', ''oriented'']"

text \<open>\<open>repr\<close> of a list of strings, as \<open>%s\<close> prints it.\<close>

definition repr_char :: "char \<Rightarrow> char \<Rightarrow> string" where
  "repr_char q c = (if c = q \<or> c = bslash then [bslash, c] else if c = nl then [bslash, CHR ''n''] else [c])"

definition repr_str :: "string \<Rightarrow> string" where
  "repr_str s =
     (let q = (if squote \<in> set s \<and> dquote \<notin> set s then dquote else squote)
      in q # concat (map (repr_char q) s) @ [q])"

definition repr_list :: "string list \<Rightarrow> string" where
  "repr_list xs = ''['' @ join '', '' (map repr_str xs) @ '']''"

definition where_key :: "string \<Rightarrow> string \<Rightarrow> string" where
  "where_key whr k = (if whr \<noteq> [] then whr @ ''/'' @ k else k)"

text \<open>\<open>dict(eb)\<close>: a repeated keyword keeps its last value.\<close>

definition last_of :: "entries \<Rightarrow> string \<Rightarrow> entry_val option" where
  "last_of eb k = map_of (rev eb) k"

definition keys_msg :: "string \<Rightarrow> entries \<Rightarrow> entries \<Rightarrow> string" where
  "keys_msg whr ea eb = whr @ '': keywords '' @ repr_list (keys ea) @ '' vs '' @ repr_list (keys eb)"

definition compare_leaf :: "string \<Rightarrow> string \<Rightarrow> string list \<Rightarrow> string list \<Rightarrow> fcomp \<Rightarrow> fcomp res" where
  "compare_leaf whr k v w fc =
     (if in_list k EXACT_KEYS \<or> whr = ''FoamFile''
      then Inr (if v \<noteq> w then bad (where_key whr k @ '': '' @ join '' '' v @ '' vs '' @ join '' '' w) fc else fc)
      else compare_values (where_key whr k) v w fc)"

definition one_side :: "string \<Rightarrow> string \<Rightarrow> fcomp \<Rightarrow> fcomp" where
  "one_side whr k fc = bad (where_key whr k @ '': a dictionary on one side only'') fc"

text \<open>
  The loop over the entries of one dictionary, whose sub-dictionaries are compared by
  \<open>compare_entries\<close>, the test of the keywords and then the loop.
\<close>

fun compare_list :: "string \<Rightarrow> entries \<Rightarrow> entries \<Rightarrow> fcomp \<Rightarrow> fcomp res"
  and compare_entry :: "string \<Rightarrow> string \<Rightarrow> entry_val \<Rightarrow> entry_val \<Rightarrow> fcomp \<Rightarrow> fcomp res" where
  "compare_list whr [] eb fc = Inr fc"
| "compare_list whr ((k, v) # ea) eb fc =
     (case last_of eb k of None \<Rightarrow> Inl (KeyError k)
      | Some vb \<Rightarrow> bindR (compare_entry whr k v vb fc) (\<lambda>fc'. compare_list whr ea eb fc'))"
| "compare_entry whr k (EDict v) vb fc =
     (case vb of EVal _ \<Rightarrow> Inr (one_side whr k fc)
      | EDict w \<Rightarrow>
          if keys v \<noteq> keys w then Inr (bad (keys_msg (where_key whr k) v w) fc)
          else compare_list (where_key whr k) v w fc)"
| "compare_entry whr k (EVal v) vb fc =
     (case vb of EDict _ \<Rightarrow> Inr (one_side whr k fc) | EVal w \<Rightarrow> compare_leaf whr k v w fc)"

definition compare_entries :: "string \<Rightarrow> entries \<Rightarrow> entries \<Rightarrow> fcomp \<Rightarrow> fcomp res" where
  "compare_entries whr ea eb fc =
     (if keys ea \<noteq> keys eb then Inr (bad (keys_msg whr ea eb) fc) else compare_list whr ea eb fc)"

lemma compare_entry_dicts:
  "compare_entry whr k (EDict v) (EDict w) fc = compare_entries (where_key whr k) v w fc"
  by (simp add: compare_entries_def)

definition fc_rel :: "fcomp \<Rightarrow> pyfloat res" where
  "fc_rel fc = (if fl_lt (Fin 0) (fc_scale fc) then fl_div (fc_worst fc) (fc_scale fc) else Inr (fc_worst fc))"

text \<open>The header tokens and the list tokens when the body is one bare list.\<close>

definition list_body :: "string list \<Rightarrow> string list \<Rightarrow> (string list \<times> string list) option" where
  "list_body header rest =
     (case rest of a # b # _ \<Rightarrow> if a \<noteq> [] \<and> list_all is_digit a \<and> b = ''('' then Some (header, rest) else None
      | _ \<Rightarrow> None)"

fun bare_scan :: "int \<Rightarrow> string list \<Rightarrow> string list \<Rightarrow> (string list \<times> string list) option" where
  "bare_scan depth header [] = None"
| "bare_scan depth header (t # ts) =
     (if t = ''{'' then bare_scan (depth + 1) (header @ [t]) ts
      else if t = ''}'' then
        (if depth - 1 = 0 then list_body (header @ [t]) ts else bare_scan (depth - 1) (header @ [t]) ts)
      else bare_scan depth (header @ [t]) ts)"

definition bare_list :: "string list \<Rightarrow> (string list \<times> string list) option" where
  "bare_list toks =
     (if length toks < 3 \<or> toks ! 0 \<noteq> ''FoamFile'' \<or> toks ! 1 \<noteq> ''{'' then None
      else bare_scan 0 [toks ! 0] (tl toks))"

text \<open>\<open>t[t.find('FoamFile'):]\<close>: where the word is missing, the index is -1.\<close>

definition after_banner :: "string \<Rightarrow> string" where
  "after_banner t = (case str_find t ''FoamFile'' of Some i \<Rightarrow> drop i t | None \<Rightarrow> drop (length t - 1) t)"

definition compare_bare :: "string list \<times> string list \<Rightarrow> string list \<times> string list \<Rightarrow> fcomp \<Rightarrow> fcomp res" where
  "compare_bare la lb fc =
     bindR (parse_block (fst la @ [''}''])) (\<lambda>(ha, _).
     bindR (parse_block (fst lb @ [''}''])) (\<lambda>(hb, _).
     bindR (compare_entries [] ha hb fc) (\<lambda>fc1.
     bindR (nth_or (snd la) 0) (\<lambda>ca. bindR (nth_or (snd lb) 0) (\<lambda>cb.
       compare_values ''list'' ([''nonuniform'', ''List''] @ snd la) ([''nonuniform'', ''List''] @ snd lb)
         (if ca \<noteq> cb then bad (''list count '' @ ca @ '' vs '' @ cb) fc1 else fc1))))))"

definition compare_file :: "string \<Rightarrow> string \<Rightarrow> string \<Rightarrow> bool \<Rightarrow> fcomp res" where
  "compare_file ref_text other_text tag as_text =
     (let fc = new_fcomp tag
      in if as_text then
           Inr (if after_banner ref_text \<noteq> after_banner other_text
                then bad ''text differs after the banner'' fc else fc)
         else
           (let ta = tokens ref_text; tb = tokens other_text
            in case (bare_list ta, bare_list tb) of
                 (Some la, Some lb) \<Rightarrow> compare_bare la lb fc
               | (None, None) \<Rightarrow>
                   bindR (parse_block (ta @ [''}''])) (\<lambda>(ea, _).
                   bindR (parse_block (tb @ [''}''])) (\<lambda>(eb, _). compare_entries [] ea eb fc))
               | _ \<Rightarrow> Inr (bad ''a bare list on one side only'' fc)))"

subsection \<open>The command\<close>

text \<open>The text of a file or of its compressed twin; \<open>gz\<close> says what a compressed file holds.\<close>

definition read_field :: "fsys \<Rightarrow> (string \<Rightarrow> string) \<Rightarrow> string \<Rightarrow> string option res" where
  "read_field fs gz path =
     (if fs_exists fs path then bindR (read_text fs path) (\<lambda>t. Inr (Some t))
      else if fs_exists fs (path @ ''.gz'') then Inr (Some (gz (path @ ''.gz'')))
      else Inr None)"

definition plain_name :: "string \<Rightarrow> string" where
  "plain_name rel = (if endswith rel ''.gz'' then take (length rel - 3) rel else rel)"

definition time_files :: "fsys \<Rightarrow> string \<Rightarrow> string list" where
  "time_files fs d =
     sorted_set (concat (map (\<lambda>(root, _, names). map (\<lambda>n. plain_name (relpath (path_join root n) d)) names) (fs_walk fs d)))"

record file_result =
  fr_structure :: bool
  fr_rel :: pyfloat
  fr_abs :: pyfloat
  fr_notes :: "string list"

record time_result =
  tr_structure :: nat
  tr_files :: "(string, file_result) dict"
  tr_fileset :: "string list"

definition compared_as_text :: "string \<Rightarrow> bool" where
  "compared_as_text f \<longleftrightarrow>
     endswith f ''functionObjectProperties''
     \<or> (startswith f ''polyMesh/'' \<and> \<not> in_list f [''polyMesh/points'', ''polyMesh/points0''])"

definition file_lines :: "(pyfloat \<Rightarrow> string) \<Rightarrow> fcomp \<Rightarrow> pyfloat \<Rightarrow> string list" where
  "file_lines fmt fc r =
     (''  '' @ ljust 48 (fc_tag fc) @ '' structure '' @ ljust 4 (if fc_structure fc then ''ok'' else ''BAD'')
        @ '' worst rel '' @ fmt r)
     # map (\<lambda>n. ''      '' @ n) (take 6 (fc_notes fc))"

text \<open>The reading of a file that is listed but has vanished gives None, on which the comparison raises.\<close>

definition one_file :: "fsys \<Rightarrow> (string \<Rightarrow> string) \<Rightarrow> (pyfloat \<Rightarrow> string) \<Rightarrow> string \<Rightarrow> string \<Rightarrow> string \<Rightarrow>
    time_result \<times> string list \<Rightarrow> string \<Rightarrow> (time_result \<times> string list) res" where
  "one_file fs gz fmt t da db acc f =
     bindR (read_field fs gz (path_join da f)) (\<lambda>ta.
     bindR (read_field fs gz (path_join db f)) (\<lambda>tb.
       case (ta, tb) of
         (Some a, Some b) \<Rightarrow>
           bindR (compare_file a b (t @ ''/'' @ f) (compared_as_text f)) (\<lambda>fc.
           bindR (fc_rel fc) (\<lambda>r.
             let res = fst acc;
                 res1 = res\<lparr>tr_structure := tr_structure res + (if fc_structure fc then 0 else 1),
                   tr_files := dict_set (t @ ''/'' @ f)
                     \<lparr>fr_structure = fc_structure fc, fr_rel = r, fr_abs = fc_worst fc, fr_notes = fc_notes fc\<rparr>
                     (tr_files res)\<rparr>
             in Inr (res1, snd acc @ file_lines fmt fc r)))
       | _ \<Rightarrow> Inl TypeError))"

definition fileset_msg :: "string \<Rightarrow> string list \<Rightarrow> string list \<Rightarrow> string" where
  "fileset_msg t fa fb =
     t @ '': only reference '' @ repr_list (filter (\<lambda>f. \<not> in_list f fb) fa)
     @ '', only other '' @ repr_list (filter (\<lambda>f. \<not> in_list f fa) fb)"

definition add_fileset :: "string \<Rightarrow> time_result \<Rightarrow> time_result" where
  "add_fileset msg res = res\<lparr>tr_structure := tr_structure res + 1, tr_fileset := tr_fileset res @ [msg]\<rparr>"

definition one_time :: "fsys \<Rightarrow> (string \<Rightarrow> string) \<Rightarrow> (pyfloat \<Rightarrow> string) \<Rightarrow> string \<Rightarrow> string \<Rightarrow>
    time_result \<times> string list \<Rightarrow> string \<Rightarrow> (time_result \<times> string list) res" where
  "one_time fs gz fmt ref other acc t =
     (let da = path_join ref t; db = path_join other t
      in if \<not> fs_isdir fs db
         then Inr (add_fileset (t @ '': not written'') (fst acc), snd acc @ [''  ['' @ t @ ''] not written''])
         else
           (let fa = time_files fs da; fb = time_files fs db; msg = fileset_msg t fa fb;
                acc1 = (if fa \<noteq> fb then (add_fileset msg (fst acc), snd acc @ [''  FILESET '' @ msg]) else acc)
            in foldR (one_file fs gz fmt t da db) acc1 (filter (\<lambda>f. in_list f fb) fa)))"

definition no_result :: time_result where
  "no_result = \<lparr>tr_structure = 0, tr_files = [], tr_fileset = []\<rparr>"

text \<open>\<open>argv\<close> without the program name; \<open>doc\<close> is the text of the usage message.\<close>

definition fc_main :: "fsys \<Rightarrow> (string \<Rightarrow> string) \<Rightarrow> (pyfloat \<Rightarrow> string) \<Rightarrow> (time_result \<Rightarrow> string) \<Rightarrow> string \<Rightarrow>
    string list \<Rightarrow> (nat \<times> string list) res" where
  "fc_main fs gz fmt dumps doc argv =
     (case argv of
        ref # other # t # ts \<Rightarrow>
          bindR (foldR (one_time fs gz fmt ref other) (no_result, []) (t # ts)) (\<lambda>(res, out).
            Inr (if tr_structure res \<noteq> 0 then 1 else 0, out @ [''RESULT '' @ dumps res]))
      | _ \<Rightarrow> Inr (2, [doc]))"

subsection \<open>The parser ends and inverts the printing of a dictionary\<close>

lemma take_value_shorter: "take_value d ts = Inr (val, rest) \<Longrightarrow> length rest < length ts"
proof (induction d ts arbitrary: val rule: take_value.induct)
  case (2 depth t ts)
  show ?case
  proof (cases "t = '';'' \<and> depth = 0")
    case False
    with 2(2) obtain v where
      "take_value (depth + (if opens t then 1 else 0) - (if closes t then 1 else 0)) ts = Inr (v, rest)"
      by (auto simp: bindR_Inr_iff)
    from 2(1) [OF False this] show ?thesis by simp
  qed (use 2(2) in auto)
qed simp

lemma take_value_no_fuel [simp]: "take_value d ts \<noteq> Inl OutOfFuel"
  by (induction d ts rule: take_value.induct) (auto simp: bindR_Inl_iff)

lemma parse_entries_shorter:
  "parse_entries n ts = Inr (es, rest) \<Longrightarrow> length rest \<le> length ts - 1"
proof (induction n ts arbitrary: es rest rule: parse_entries.induct)
  case (3 n t ts)
  show ?case
  proof (cases "t = ''}''")
    case False
    with 3 show ?thesis
      by (cases ts)
        (fastforce simp: bindR_Inr_iff dest: take_value_shorter split: if_splits)+
  qed (use 3 in auto)
qed auto

lemma parse_entries_fuel: "length ts < n \<Longrightarrow> parse_entries n ts \<noteq> Inl OutOfFuel"
proof (induction n ts rule: parse_entries.induct)
  case (3 n t ts)
  show ?case
  proof (cases ts)
    case (Cons u us)
    have "length rest < n" if "parse_entries n us = Inr (sub, rest)" for sub rest
      using parse_entries_shorter [OF that] 3(4) Cons by simp
    moreover have "length rest < n" if "take_value 0 ts = Inr (val, rest)" for val rest
      using take_value_shorter [OF that] 3(4) by simp
    ultimately show ?thesis using 3 Cons by (auto simp: bindR_Inl_iff)
  qed simp
qed auto

text \<open>The tokens a dictionary is printed as.\<close>

fun block_toks :: "entries \<Rightarrow> string list" where
  "block_toks [] = []"
| "block_toks ((k, EDict sub) # es) = k # ''{'' # block_toks sub @ ''}'' # block_toks es"
| "block_toks ((k, EVal val) # es) = k # val @ '';'' # block_toks es"

text \<open>
  Values in which no semicolon stands outside brackets and the brackets are balanced, and keywords
  and first tokens that are no braces.
\<close>

fun value_ok :: "int \<Rightarrow> string list \<Rightarrow> bool" where
  "value_ok depth [] \<longleftrightarrow> depth = 0"
| "value_ok depth (t # ts) \<longleftrightarrow> \<not> (t = '';'' \<and> depth = 0)
     \<and> value_ok (depth + (if opens t then 1 else 0) - (if closes t then 1 else 0)) ts"

fun entries_ok :: "entries \<Rightarrow> bool" where
  "entries_ok [] \<longleftrightarrow> True"
| "entries_ok ((k, EDict sub) # es) \<longleftrightarrow> k \<noteq> ''}'' \<and> entries_ok sub \<and> entries_ok es"
| "entries_ok ((k, EVal val) # es) \<longleftrightarrow>
     k \<noteq> ''}'' \<and> (val = [] \<or> hd val \<noteq> ''{'') \<and> value_ok 0 val \<and> entries_ok es"

lemma take_value_ok: "value_ok d val \<Longrightarrow> take_value d (val @ '';'' # rest) = Inr (val, rest)"
  by (induction d val rule: value_ok.induct) auto

lemma parse_entries_block:
  "entries_ok es \<Longrightarrow> length (block_toks es) < n \<Longrightarrow>
     parse_entries n (block_toks es @ ''}'' # rest) = Inr (es, rest)"
proof (induction es arbitrary: n rest rule: entries_ok.induct)
  case 1
  then show ?case by (cases n) auto
next
  case (2 k sub es)
  then obtain m where n: "n = Suc m" by (cases n) auto
  have "parse_entries m (block_toks sub @ ''}'' # block_toks es @ ''}'' # rest) = Inr (sub, block_toks es @ ''}'' # rest)"
    using 2 n by simp
  moreover have "parse_entries m (block_toks es @ ''}'' # rest) = Inr (es, rest)"
    using 2 n by simp
  ultimately show ?case using 2 n by simp
next
  case (3 k val es)
  then obtain m where n: "n = Suc m" by (cases n) auto
  have "parse_entries m (block_toks es @ ''}'' # rest) = Inr (es, rest)"
    using 3 n by simp
  then show ?case
    using 3 n take_value_ok [of 0 val "block_toks es @ ''}'' # rest"]
    by (cases val) auto
qed

subsection \<open>The worst difference\<close>

lemma sweep_fields [simp]:
  "fc_structure (fold sweep_pair ps fc) = fc_structure fc"
  "fc_notes (fold sweep_pair ps fc) = fc_notes fc"
  by (induction ps arbitrary: fc) (simp_all add: sweep_pair_def)

lemma sweep_worst_grows: "fc_worst fc \<noteq> NaN \<Longrightarrow> fl_le (fc_worst fc) (fc_worst (fold sweep_pair ps fc))"
proof (induction ps arbitrary: fc)
  case Nil
  then show ?case by (simp add: fl_le_refl)
next
  case (Cons p ps)
  have "fl_le (fc_worst fc) (fc_worst (sweep_pair p fc))" and "fc_worst (sweep_pair p fc) \<noteq> NaN"
    using Cons.prems by (simp_all add: sweep_pair_def fl_max_grows)
  with Cons.IH show ?case using fl_le_trans by fastforce
qed

lemma sweep_worst_bounds:
  "fc_worst fc \<noteq> NaN \<Longrightarrow> (p, q) \<in> set ps \<Longrightarrow> fl_sub p q \<noteq> NaN \<Longrightarrow>
     fl_le (fl_abs (fl_sub p q)) (fc_worst (fold sweep_pair ps fc))"
proof (induction ps arbitrary: fc)
  case (Cons x ps)
  have nn: "fc_worst (sweep_pair x fc) \<noteq> NaN" using Cons.prems by (simp add: sweep_pair_def)
  show ?case
  proof (cases "x = (p, q)")
    case True
    have "fl_abs (fl_sub p q) \<noteq> NaN" using Cons.prems(3) by (cases "fl_sub p q") auto
    then have "fl_le (fl_abs (fl_sub p q)) (fc_worst (sweep_pair x fc))"
      using Cons.prems(1) True by (simp add: sweep_pair_def fl_le_max)
    with sweep_worst_grows [OF nn] True show ?thesis using fl_le_trans by fastforce
  next
    case False
    with Cons nn show ?thesis by auto
  qed
qed simp

lemma sweep_worst_NaN:
  "list_all (\<lambda>(p, q). fl_sub p q = NaN) ps \<Longrightarrow> fc_worst (fold sweep_pair ps fc) = fc_worst fc"
  by (induction ps arbitrary: fc) (auto simp: sweep_pair_def)

subsection \<open>Properties\<close>

text \<open>C14: The parser of dictionaries inverts their printing: from the tokens of well-formed entries followed by a closing brace it
  gives back the entries, sub-dictionaries included, and always ends.\<close>

theorem foam_parse_round_trip:
  "entries_ok es \<Longrightarrow> parse_block (block_toks es @ ''}'' # rest) = Inr (es, rest)"
  by (simp add: parse_block_def parse_entries_block)

theorem foam_parse_round_trip_witness:
  "parse_block (block_toks [(''boundaryField'', EDict [(''inlet'', EDict [(''value'', EVal [''uniform'', ''('', ''1'', '')''])])]),
      (''n'', EVal [''2''])] @ ''}'' # []) =
    Inr ([(''boundaryField'', EDict [(''inlet'', EDict [(''value'', EVal [''uniform'', ''('', ''1'', '')''])])]),
      (''n'', EVal [''2''])], [])"
  by (rule foam_parse_round_trip) code_simp




text \<open>A file with a repeated keyword differs from itself: the second value stands for both.\<close>

lemma repeated_keyword_differs:
  "bindR (compare_file ''a 1; a 2;'' ''a 1; a 2;'' ''f'' False) (\<lambda>fc. Inr (fc_worst fc)) = Inr (Fin 1)"
  by code_simp

text \<open>Two texts without the word FoamFile are compared by their last character.\<close>

lemma no_banner_last_character:
  "bindR (compare_file ''abc'' ''xyc'' ''f'' True) (\<lambda>fc. Inr (fc_structure fc)) = Inr True"
  by code_simp

end
