(* ===== verification/Py_Csv.thy ===== *)
theory Py_Csv
  imports Py_Os
begin

text \<open>
  The \<open>csv\<close> module as the scripts under \<open>demo/amgpcg\<close> use it: \<open>csv.DictReader\<close> over a file
  opened as text and \<open>csv.DictWriter\<close> with the default dialect (comma, double quotes that are doubled inside a
  quoted field, minimal quoting, lines that end in CR LF).  The reader is the state machine of the
  module; the theorem at the end says that it gives back what the writer wrote, quotes, commas and line breaks
  included.  The module's limit on the length of a field is not modelled.
\<close>

subsection \<open>Reading\<close>

definition cr :: char where "cr = CHR 0x0D"

text \<open>A file opened as text: CR LF and CR are read as a line feed.\<close>

fun universal_newlines :: "string \<Rightarrow> string" where
  "universal_newlines [] = []"
| "universal_newlines (c # cs) =
     (if c \<noteq> cr then c # universal_newlines cs
      else case cs of [] \<Rightarrow> [nl]
           | d # ds \<Rightarrow> if d = nl then nl # universal_newlines ds else nl # universal_newlines cs)"

text \<open>
  The states of the reader, the field it collects and the fields of the record so far.  \<open>csv_newline\<close>
  is the end of a line: inside quotes it belongs to the field, elsewhere it ends the record.
\<close>

datatype csv_mode = StartRecord | StartField | InField | InQuotedField | QuoteInQuotedField

record csv_reader =
  cv_mode :: csv_mode
  cv_field :: string
  cv_fields :: "string list"

definition csv_new :: csv_reader where
  "csv_new = \<lparr>cv_mode = StartRecord, cv_field = [], cv_fields = []\<rparr>"

definition save_field :: "csv_mode \<Rightarrow> csv_reader \<Rightarrow> csv_reader" where
  "save_field m r = \<lparr>cv_mode = m, cv_field = [], cv_fields = cv_fields r @ [cv_field r]\<rparr>"

definition add_char :: "csv_mode \<Rightarrow> char \<Rightarrow> csv_reader \<Rightarrow> csv_reader" where
  "add_char m c r = r\<lparr>cv_mode := m, cv_field := cv_field r @ [c]\<rparr>"

definition csv_char :: "csv_reader \<Rightarrow> char \<Rightarrow> csv_reader" where
  "csv_char r c =
     (case cv_mode r of
        InField \<Rightarrow> if c = CHR '','' then save_field StartField r else add_char InField c r
      | InQuotedField \<Rightarrow> if c = dquote then r\<lparr>cv_mode := QuoteInQuotedField\<rparr> else add_char InQuotedField c r
      | QuoteInQuotedField \<Rightarrow>
          if c = dquote then add_char InQuotedField c r
          else if c = CHR '','' then save_field StartField r
          else add_char InField c r
      | _ \<Rightarrow>
          if c = dquote then r\<lparr>cv_mode := InQuotedField\<rparr>
          else if c = CHR '','' then save_field StartField r
          else add_char InField c r)"

definition csv_newline :: "csv_reader \<Rightarrow> csv_reader" where
  "csv_newline r =
     (case cv_mode r of
        StartRecord \<Rightarrow> r
      | InQuotedField \<Rightarrow> add_char InQuotedField nl r
      | _ \<Rightarrow> save_field StartRecord r)"

text \<open>The records of a text; one that the text breaks off is returned as far as it goes.\<close>

fun csv_scan :: "csv_reader \<Rightarrow> string \<Rightarrow> string list list" where
  "csv_scan r [] = (if cv_mode r = StartRecord then [] else [cv_fields r @ [cv_field r]])"
| "csv_scan r (c # cs) =
     (if c = nl then
        let r' = csv_newline r
        in if cv_mode r' = StartRecord then cv_fields r' # csv_scan csv_new cs else csv_scan r' cs
      else csv_scan (csv_char r c) cs)"

definition csv_records :: "string \<Rightarrow> string list list" where
  "csv_records t = csv_scan csv_new (universal_newlines t)"

text \<open>
  \<open>csv.DictReader\<close>: the first record names the fields, blank lines are skipped, and a field that a
  row does not have is None.  Where a name is repeated the last field has it; what a row has beyond the names is
  stored under None and not looked at.
\<close>

type_synonym csv_row = "(string, string option) dict"

definition csv_fields :: "string list \<Rightarrow> string list \<Rightarrow> csv_row" where
  "csv_fields hdr fs =
     foldl (\<lambda>d i. dict_set (hdr ! i) (if i < length fs then Some (fs ! i) else None) d) [] [0..<length hdr]"

definition csv_rows :: "string \<Rightarrow> csv_row list" where
  "csv_rows t =
     (case csv_records t of [] \<Rightarrow> [] | hdr # rs \<Rightarrow> map (csv_fields hdr) (filter (\<lambda>r. r \<noteq> []) rs))"

text \<open>\<open>row[k]\<close>; \<open>csv_text\<close> is that value as the argument of \<open>int\<close> or \<open>float\<close>, which raise on None.\<close>

definition csv_item :: "csv_row \<Rightarrow> string \<Rightarrow> string option res" where
  "csv_item row k = (case dict_get row k of None \<Rightarrow> Inl (KeyError k) | Some v \<Rightarrow> Inr v)"

definition csv_text :: "csv_row \<Rightarrow> string \<Rightarrow> string res" where
  "csv_text row k = bindR (csv_item row k) (\<lambda>v. case v of None \<Rightarrow> Inl TypeError | Some s \<Rightarrow> Inr s)"

subsection \<open>Writing\<close>

definition must_quote :: "string \<Rightarrow> bool" where
  "must_quote f \<longleftrightarrow> list_ex (\<lambda>c. c = CHR '','' \<or> c = dquote \<or> c = nl \<or> c = cr) f"

definition csv_quote :: "string \<Rightarrow> string" where
  "csv_quote f = [dquote] @ replace_char dquote [dquote, dquote] f @ [dquote]"

definition csv_field :: "string \<Rightarrow> string" where
  "csv_field f = (if must_quote f then csv_quote f else f)"

text \<open>A record; one that is a single empty field is quoted, since it would read as a blank line.\<close>

definition csv_record :: "string list \<Rightarrow> string" where
  "csv_record fs = (if fs = [[]] then [dquote, dquote] else join '','' (map csv_field fs)) @ [cr, nl]"

definition csv_write :: "string list list \<Rightarrow> string" where
  "csv_write rows = concat (map csv_record rows)"

subsection \<open>The reader on what the writer wrote\<close>

lemma universal_newlines_keep: "cr \<notin> set s \<Longrightarrow> universal_newlines (s @ t) = s @ universal_newlines t"
  by (induction s) auto

lemma universal_newlines_crlf: "universal_newlines (cr # nl # t) = nl # universal_newlines t"
  by simp

lemma csv_chars [simp]: "cr \<noteq> nl" "dquote \<noteq> nl" "dquote \<noteq> cr" "dquote \<noteq> CHR '',''" "nl \<noteq> CHR '',''" "cr \<noteq> CHR '',''"
  "nl \<noteq> cr" "nl \<noteq> dquote" "cr \<noteq> dquote" "CHR '','' \<noteq> dquote" "CHR '','' \<noteq> nl" "CHR '','' \<noteq> cr"
  by (simp_all add: cr_def nl_def dquote_def)

lemma csv_char_start:
  "cv_mode r = StartRecord \<or> cv_mode r = StartField \<Longrightarrow> c \<noteq> dquote \<Longrightarrow> c \<noteq> CHR '','' \<Longrightarrow> csv_char r c = add_char InField c r"
  by (auto simp: csv_char_def)

lemma scan_plain:
  "\<not> must_quote f \<Longrightarrow> cv_mode r = InField \<Longrightarrow> csv_scan r (f @ t) = csv_scan (r\<lparr>cv_field := cv_field r @ f\<rparr>) t"
proof (induction f arbitrary: r)
  case (Cons c f)
  then have c: "c \<noteq> nl" "csv_char r c = add_char InField c r" "\<not> must_quote f"
    by (simp_all add: must_quote_def csv_char_def)
  then show ?case using Cons.IH [of "add_char InField c r"] Cons.prems(2) by (cases r) (simp add: add_char_def)
qed simp

lemma scan_quoted:
  "cv_mode r = InQuotedField \<Longrightarrow>
     csv_scan r (replace_char dquote [dquote, dquote] f @ dquote # t) =
     csv_scan (r\<lparr>cv_mode := QuoteInQuotedField, cv_field := cv_field r @ f\<rparr>) t"
proof (induction f arbitrary: r)
  case Nil
  then show ?case by (simp add: csv_char_def)
next
  case (Cons c f)
  let ?r = "add_char InQuotedField c r"
  have "csv_scan r (replace_char dquote [dquote, dquote] (c # f) @ dquote # t) =
      csv_scan ?r (replace_char dquote [dquote, dquote] f @ dquote # t)"
    using Cons.prems by (simp add: replace_char_def csv_char_def csv_newline_def add_char_def Let_def)
  with Cons.IH [of ?r] show ?case by (simp add: add_char_def)
qed

text \<open>The reader behind a field that starts a record or follows a comma.\<close>

definition after_field :: "string \<Rightarrow> csv_reader \<Rightarrow> csv_reader" where
  "after_field f r =
     r\<lparr>cv_mode := (if must_quote f then QuoteInQuotedField else if f = [] then cv_mode r else InField), cv_field := f\<rparr>"

definition at_field :: "csv_reader \<Rightarrow> bool" where
  "at_field r \<longleftrightarrow> (cv_mode r = StartRecord \<or> cv_mode r = StartField) \<and> cv_field r = []"

lemma scan_field: "at_field r \<Longrightarrow> csv_scan r (csv_field f @ t) = csv_scan (after_field f r) t"
proof (cases "must_quote f")
  case True
  assume "at_field r"
  then have "csv_char r dquote = r\<lparr>cv_mode := InQuotedField\<rparr>" "cv_field r = []" by (auto simp: at_field_def csv_char_def)
  then show ?thesis using True scan_quoted [of "r\<lparr>cv_mode := InQuotedField\<rparr>" f t]
    by (simp add: csv_field_def csv_quote_def after_field_def)
next
  case False
  assume r: "at_field r"
  show ?thesis
  proof (cases f)
    case Nil
    with r False show ?thesis by (cases r) (simp add: csv_field_def after_field_def at_field_def)
  next
    case (Cons c g)
    with False have "c \<noteq> nl" "csv_char r c = add_char InField c r" "\<not> must_quote g"
      using r csv_char_start [of r c] by (auto simp: must_quote_def at_field_def)
    then show ?thesis
      using r False Cons scan_plain [of g "add_char InField c r" t]
      by (simp add: csv_field_def after_field_def at_field_def add_char_def)
  qed
qed

lemma after_field_comma: "at_field r \<Longrightarrow>
    csv_char (after_field f r) (CHR '','') = \<lparr>cv_mode = StartField, cv_field = [], cv_fields = cv_fields r @ [f]\<rparr>"
  by (auto simp: at_field_def after_field_def csv_char_def save_field_def)

lemma after_field_newline: "at_field r \<Longrightarrow> f \<noteq> [] \<or> cv_mode r = StartField \<Longrightarrow>
    csv_newline (after_field f r) = \<lparr>cv_mode = StartRecord, cv_field = [], cv_fields = cv_fields r @ [f]\<rparr>"
  by (auto simp: at_field_def after_field_def csv_newline_def save_field_def must_quote_def)

lemma scan_fields:
  "at_field r \<Longrightarrow> fs \<noteq> [] \<Longrightarrow> fs \<noteq> [[]] \<or> cv_mode r = StartField \<Longrightarrow>
     csv_scan r (join '','' (map csv_field fs) @ nl # t) = (cv_fields r @ fs) # csv_scan csv_new t"
proof (induction fs arbitrary: r)
  case (Cons f fs)
  show ?case
  proof (cases fs)
    case Nil
    with Cons.prems show ?thesis by (simp add: scan_field after_field_newline Let_def)
  next
    case (Cons g gs)
    let ?r = "\<lparr>cv_mode = StartField, cv_field = [], cv_fields = cv_fields r @ [f]\<rparr>"
    have "csv_scan r (join '','' (map csv_field (f # fs)) @ nl # t) = csv_scan ?r (join '','' (map csv_field fs) @ nl # t)"
      using Cons.prems(1) Cons by (simp add: scan_field after_field_comma join_Cons)
    with Cons.IH [of ?r] Cons show ?thesis by (simp add: at_field_def)
  qed
qed simp

lemma scan_record:
  "csv_scan csv_new ((if fs = [[]] then [dquote, dquote] else join '','' (map csv_field fs)) @ nl # t) = fs # csv_scan csv_new t"
proof (cases "fs = [[]] \<or> fs = []")
  case True
  then show ?thesis by (auto simp: csv_char_def csv_new_def csv_newline_def save_field_def Let_def)
next
  case False
  then show ?thesis using scan_fields [of csv_new fs t] by (simp add: at_field_def csv_new_def)
qed

definition no_cr :: "string list \<Rightarrow> bool" where
  "no_cr fs \<longleftrightarrow> list_all (\<lambda>f. cr \<notin> set f) fs"

lemma csv_field_no_cr: "cr \<notin> set f \<Longrightarrow> cr \<notin> set (csv_field f)"
  by (auto simp: csv_field_def csv_quote_def replace_char_def)

lemma join_set: "set (join sep fs) \<subseteq> set sep \<union> \<Union> (set ` set fs)"
  by (induction sep fs rule: join.induct) auto

lemma csv_body_no_cr: "no_cr fs \<Longrightarrow> cr \<notin> set (if fs = [[]] then [dquote, dquote] else join '','' (map csv_field fs))"
proof -
  assume "no_cr fs"
  then have "cr \<notin> set (csv_field f)" if "f \<in> set fs" for f
    using that csv_field_no_cr by (simp add: no_cr_def list_all_iff)
  then have "cr \<notin> set (join '','' (map csv_field fs))" using join_set [of "'',''" "map csv_field fs"] by auto
  then show ?thesis by simp
qed

lemma csv_records_write: "list_all no_cr rows \<Longrightarrow> csv_records (csv_write rows) = rows"
proof (induction rows)
  case Nil
  then show ?case by (simp add: csv_records_def csv_write_def csv_new_def)
next
  case (Cons fs rows)
  let ?b = "if fs = [[]] then [dquote, dquote] else join '','' (map csv_field fs)"
  have "cr \<notin> set ?b" using Cons.prems csv_body_no_cr [of fs] by simp
  then have "universal_newlines (csv_write (fs # rows)) = ?b @ nl # universal_newlines (csv_write rows)"
    using universal_newlines_keep [of ?b "cr # nl # csv_write rows"] by (simp add: csv_write_def csv_record_def)
  then show ?case using Cons scan_record [of fs "universal_newlines (csv_write rows)"] by (simp add: csv_records_def)
qed

subsection \<open>Rows by name\<close>

lemma csv_fields_get:
  assumes "distinct hdr"
  shows "i < length hdr \<Longrightarrow> dict_get (csv_fields hdr fs) (hdr ! i) = Some (if i < length fs then Some (fs ! i) else None)"
proof -
  let ?v = "\<lambda>i. if i < length fs then Some (fs ! i) else None"
  have "dict_get (foldl (\<lambda>d i. dict_set (hdr ! i) (?v i) d) [] [0..<k]) (hdr ! i) = (if i < k then Some (?v i) else None)"
    if "k \<le> length hdr" "i < length hdr" for i k
    using that
  proof (induction k)
    case (Suc k)
    then show ?case using nth_eq_iff_index_eq [OF assms, of k i] by auto
  qed simp
  then show "i < length hdr \<Longrightarrow> ?thesis" unfolding csv_fields_def by simp
qed

lemma csv_rows_write:
  "list_all no_cr (hdr # rows) \<Longrightarrow> list_all (\<lambda>r. r \<noteq> []) rows \<Longrightarrow>
     csv_rows (csv_write (hdr # rows)) = map (csv_fields hdr) rows"
  unfolding csv_rows_def by (subst csv_records_write) (auto simp: list_all_iff intro!: filter_id_conv [THEN iffD2])

text \<open>What the writer writes, the reader reads: the records come back field by field, with the commas, quotes and
  line feeds they contain, where no field contains a carriage return, which a file opened as text would turn into a line feed.\<close>

theorem csv_round_trip:
  assumes "list_all no_cr rows"
  shows "csv_records (csv_write rows) = rows"
  using csv_records_write [OF assms] .

theorem csv_round_trip_witness:
  "csv_records (csv_write [[''solver'', ''detail''], [''brae'', ''a, '' @ [dquote] @ ''b'' @ [dquote, nl]], [[]], []]) =
     [[''solver'', ''detail''], [''brae'', ''a, '' @ [dquote] @ ''b'' @ [dquote, nl]], [[]], []]"
  by (rule csv_round_trip) (simp add: no_cr_def cr_def dquote_def nl_def)

subsection \<open>Tables\<close>

text \<open>
  A script that writes records of a type as a file with a header, and a script that reads the file: \<open>csv_table\<close> is what
  the writer has to keep to, and \<open>loaded_table\<close> what the reader does with one row it is given.  The rows that are read are
  the ones that were written, and the reader folds over the records themselves.
\<close>

locale csv_table =
  fixes header :: "string list" and fields :: "'r \<Rightarrow> string list"
  assumes header_plain: "no_cr header" and fields_some: "fields r \<noteq> []"
begin

lemma rows_written:
  assumes "list_all (\<lambda>r. no_cr (fields r)) rs"
  shows "csv_rows (csv_write (header # map fields rs)) = map (\<lambda>r. csv_fields header (fields r)) rs"
  using assms header_plain fields_some by (subst csv_rows_write) (auto simp: list_all_iff)

end

locale loaded_table = csv_table header fields for header :: "string list" and fields :: "'r \<Rightarrow> string list" +
  fixes load :: "'d \<Rightarrow> csv_row \<Rightarrow> 'd res" and fits :: "'r \<Rightarrow> bool" and put :: "'d \<Rightarrow> 'r \<Rightarrow> 'd"
  assumes fits_plain: "fits r \<Longrightarrow> no_cr (fields r)"
    and load_row: "fits r \<Longrightarrow> load d (csv_fields header (fields r)) = Inr (put d r)"
begin

lemma table_rows:
  assumes "list_all fits rs"
  shows "csv_rows (csv_write (header # map fields rs)) = map (\<lambda>r. csv_fields header (fields r)) rs"
  using assms by (intro rows_written) (auto simp: list_all_iff fits_plain)

lemma table_loaded:
  assumes "list_all fits rs"
  shows "foldR load d (csv_rows (csv_write (header # map fields rs))) = Inr (foldl put d rs)"
  unfolding table_rows [OF assms] foldR_map using assms by (intro foldR_pure load_row) (simp add: list_all_iff)

end

end
