(* ===== verification/Amg_Arrays.thy ===== *)
theory Amg_Arrays
  imports Py_Csv
begin

text \<open>
  The arrays of \<open>demo/amgpcg/make_steps.py\<close> and the reading of its input.  A vector is a list, a
  matrix the list of its rows, and the numbers are an arbitrary ordered field: rounding,
  infinities and NaN are not modelled, and where float64 divides by zero the field gives zero.  Indexing and element-wise operations
  raise what numpy raises.  The products, the dense solver and the conversions between numbers and
  text are numpy's and Python's own: they are the fields of the record \<open>numpy\<close>, an argument of
  every definition that uses one, and the locale \<open>numpy_lib\<close> states what their documentation promises.
\<close>

type_synonym 'a vec = "'a list"
type_synonym 'a mat = "'a list list"

subsection \<open>Indexing\<close>

text \<open>The place an index denotes in an array of a given length; a negative one counts from the end.\<close>

definition py_index :: "nat \<Rightarrow> int \<Rightarrow> nat res" where
  "py_index n i =
     (if 0 \<le> i \<and> i < int n then Inr (nat i)
      else if i < 0 \<and> - i \<le> int n then Inr (nat (int n + i))
      else Inl IndexError)"

definition arr_get :: "'a list \<Rightarrow> int \<Rightarrow> 'a res" where
  "arr_get xs i = bindR (py_index (length xs) i) (\<lambda>k. Inr (xs ! k))"

definition arr_set :: "'a list \<Rightarrow> int \<Rightarrow> 'a \<Rightarrow> 'a list res" where
  "arr_set xs i v = bindR (py_index (length xs) i) (\<lambda>k. Inr (xs[k := v]))"

lemma py_index_nat [simp]: "k < n \<Longrightarrow> py_index n (int k) = Inr k"
  by (simp add: py_index_def)

lemma py_index_in [simp]: "0 \<le> i \<Longrightarrow> i < int n \<Longrightarrow> py_index n i = Inr (nat i)"
  by (simp add: py_index_def)

lemma py_index_bound: "py_index n i = Inr k \<Longrightarrow> k < n"
  by (auto simp: py_index_def split: if_splits)

lemma arr_get_in [simp]: "0 \<le> i \<Longrightarrow> i < int (length xs) \<Longrightarrow> arr_get xs i = Inr (xs ! nat i)"
  by (simp add: arr_get_def)

lemma arr_set_in [simp]: "0 \<le> i \<Longrightarrow> i < int (length xs) \<Longrightarrow> arr_set xs i v = Inr (xs[nat i := v])"
  by (simp add: arr_set_def)

lemma arr_set_length: "arr_set xs i v = Inr ys \<Longrightarrow> length ys = length xs"
  by (auto simp: arr_set_def bindR_Inr_iff)

subsection \<open>Element-wise operations\<close>

text \<open>Arrays of one length, or one of length 1 that is broadcast; other shapes raise ValueError.\<close>

definition zip_with :: "('a \<Rightarrow> 'b \<Rightarrow> 'c) \<Rightarrow> 'a list \<Rightarrow> 'b list \<Rightarrow> 'c list res" where
  "zip_with f xs ys =
     (if length xs = length ys then Inr (map2 f xs ys)
      else if length xs = 1 then Inr (map (f (hd xs)) ys)
      else if length ys = 1 then Inr (map (\<lambda>x. f x (hd ys)) xs)
      else Inl ValueError)"

lemma zip_with_same [simp]: "length xs = length ys \<Longrightarrow> zip_with f xs ys = Inr (map2 f xs ys)"
  by (simp add: zip_with_def)

abbreviation vadd :: "'a::linordered_field vec \<Rightarrow> 'a vec \<Rightarrow> 'a vec res" where
  "vadd \<equiv> zip_with (+)"

abbreviation vsub :: "'a::linordered_field vec \<Rightarrow> 'a vec \<Rightarrow> 'a vec res" where
  "vsub \<equiv> zip_with (-)"

definition vscale :: "'a::linordered_field \<Rightarrow> 'a vec \<Rightarrow> 'a vec" where
  "vscale c = map ((*) c)"

definition zeros :: "nat \<Rightarrow> 'a::linordered_field vec" where
  "zeros n = replicate n 0"

definition abs_sum :: "'a::linordered_field vec \<Rightarrow> 'a" where
  "abs_sum v = sum_list (map abs v)"

text \<open>\<open>np.diag(A)\<close> of a matrix, and the transpose of a matrix with \<open>c\<close> columns.\<close>

definition diag_of :: "'a mat \<Rightarrow> 'a vec" where
  "diag_of A = map (\<lambda>i. A ! i ! i) [0..<length A]"

definition transp :: "nat \<Rightarrow> 'a mat \<Rightarrow> 'a mat" where
  "transp c A = map (\<lambda>j. map (\<lambda>row. row ! j) A) [0..<c]"

lemma vscale_length [simp]: "length (vscale c v) = length v"
  by (simp add: vscale_def)

lemma zeros_length [simp]: "length (zeros n) = n"
  by (simp add: zeros_def)

lemma transp_length [simp]: "length (transp c A) = c"
  by (simp add: transp_def)

lemma diag_of_length [simp]: "length (diag_of A) = length A"
  by (simp add: diag_of_def)

subsection \<open>The products\<close>

record 'a numpy =
  np_float :: "string \<Rightarrow> 'a res"
  np_e12 :: "'a \<Rightarrow> string"
  np_e3 :: "'a \<Rightarrow> string"
  np_e2 :: "'a \<Rightarrow> string"
  np_f4 :: "'a \<Rightarrow> string"
  np_f3 :: "'a \<Rightarrow> string"
  np_matvec :: "'a mat \<Rightarrow> 'a vec \<Rightarrow> 'a vec res"
  np_matmul :: "'a mat \<Rightarrow> 'a mat \<Rightarrow> 'a mat res"
  np_dot :: "'a vec \<Rightarrow> 'a vec \<Rightarrow> 'a res"
  np_solve :: "'a mat \<Rightarrow> 'a vec \<Rightarrow> 'a vec res"
  np_cond :: "'a mat \<Rightarrow> string"

definition mat_ok :: "nat \<Rightarrow> nat \<Rightarrow> 'a mat \<Rightarrow> bool" where
  "mat_ok r c A \<longleftrightarrow> length A = r \<and> list_all (\<lambda>row. length row = c) A"

definition vdot :: "'a::linordered_field vec \<Rightarrow> 'a vec \<Rightarrow> 'a" where
  "vdot x y = sum_list (map2 (*) x y)"

definition mat_vec :: "'a::linordered_field mat \<Rightarrow> 'a vec \<Rightarrow> 'a vec" where
  "mat_vec A x = map (\<lambda>row. vdot row x) A"

definition mat_mul :: "nat \<Rightarrow> 'a::linordered_field mat \<Rightarrow> 'a mat \<Rightarrow> 'a mat" where
  "mat_mul c A B = map (\<lambda>row. map (\<lambda>j. vdot row (map (\<lambda>r. r ! j) B)) [0..<c]) A"

text \<open>
  What the documentation of numpy says of \<open>@\<close> and \<open>linalg.solve\<close>: the products of conforming
  shapes, a ValueError for a vector of another length, and a solution as long as the right-hand side
  where the solver returns one.
\<close>

locale numpy_lib =
  fixes np :: "'a::linordered_field numpy"
  assumes matvec: "mat_ok r c A \<Longrightarrow> 0 < r \<Longrightarrow>
      np_matvec np A x = (if length x = c then Inr (mat_vec A x) else Inl ValueError)"
    and matmul: "mat_ok r k A \<Longrightarrow> mat_ok k c B \<Longrightarrow> 0 < r \<Longrightarrow> 0 < k \<Longrightarrow> np_matmul np A B = Inr (mat_mul c A B)"
    and dot: "np_dot np x y = (if length x = length y then Inr (vdot x y) else Inl ValueError)"
    and solve_length: "np_solve np A b = Inr x \<Longrightarrow> length x = length b"

text \<open>
  An instance: the products as the reference definitions compute them, division by the diagonal for
  a solver, and numbers that are neither read nor printed.
\<close>

definition mat_cols :: "'a mat \<Rightarrow> nat" where
  "mat_cols A = (case A of [] \<Rightarrow> 0 | row # _ \<Rightarrow> length row)"

lemma mat_cols_ok: "mat_ok r c A \<Longrightarrow> 0 < r \<Longrightarrow> mat_cols A = c"
  by (cases A) (auto simp: mat_cols_def mat_ok_def)

definition ref_np :: "'a::linordered_field numpy" where
  "ref_np = \<lparr>np_float = (\<lambda>_. Inl ValueError), np_e12 = (\<lambda>_. []), np_e3 = (\<lambda>_. []), np_e2 = (\<lambda>_. []),
     np_f4 = (\<lambda>_. []), np_f3 = (\<lambda>_. []),
     np_matvec = (\<lambda>A x. if length x = mat_cols A then Inr (mat_vec A x) else Inl ValueError),
     np_matmul = (\<lambda>A B. Inr (mat_mul (mat_cols B) A B)),
     np_dot = (\<lambda>x y. if length x = length y then Inr (vdot x y) else Inl ValueError),
     np_solve = (\<lambda>A b. if length A = length b then Inr (map2 (/) b (diag_of A)) else Inl ValueError),
     np_cond = (\<lambda>_. [])\<rparr>"

lemma ref_np_simps:
  "np_matvec ref_np A x = (if length x = mat_cols A then Inr (mat_vec A x) else Inl ValueError)"
  "np_dot ref_np x y = (if length x = length y then Inr (vdot x y) else Inl ValueError)"
  by (simp_all add: ref_np_def)

interpretation ref: numpy_lib ref_np
  by unfold_locales (auto simp: ref_np_def mat_cols_ok split: if_splits)

lemma mat_vec_length [simp]: "length (mat_vec A x) = length A"
  by (simp add: mat_vec_def)

lemma mat_mul_ok: "mat_ok r k A \<Longrightarrow> mat_ok r c (mat_mul c A B)"
  by (simp add: mat_ok_def mat_mul_def list_all_iff)

lemma transp_ok: "mat_ok r c A \<Longrightarrow> mat_ok c r (transp c A)"
  by (simp add: mat_ok_def transp_def list_all_iff)

lemma transp_nth: "j < c \<Longrightarrow> i < length A \<Longrightarrow> transp c A ! j ! i = A ! i ! j"
  by (simp add: transp_def)

lemma mat_ok_nth: "mat_ok r c A \<Longrightarrow> i < r \<Longrightarrow> length (A ! i) = c"
  by (simp add: mat_ok_def list_all_length)

lemma vdot_sum: "length x = length y \<Longrightarrow> vdot x y = (\<Sum>k < length x. x ! k * y ! k)"
  by (simp add: vdot_def sum_list_sum_nth atLeast0LessThan)

lemma mat_mul_nth:
  assumes "mat_ok r k A" and "mat_ok k c B" and "i < r" and "j < c"
  shows "mat_mul c A B ! i ! j = (\<Sum>q < k. A ! i ! q * B ! q ! j)"
proof -
  have "length (A ! i) = k" "length B = k" "length A = r"
    using assms mat_ok_nth [of r k A i] by (auto simp: mat_ok_def)
  then show ?thesis using assms(3,4) by (simp add: mat_mul_def vdot_sum)
qed

text \<open>The matrix-vector product is linear.\<close>

lemma vdot_axpy:
  "length x = n \<Longrightarrow> length p = n \<Longrightarrow> length row = n \<Longrightarrow>
     vdot row (map2 (+) x (vscale a p)) = vdot row x + a * vdot row p"
  by (simp add: vdot_sum vscale_def sum.distrib sum_distrib_left algebra_simps)

lemma mat_vec_axpy:
  assumes "mat_ok r n A" and "length x = n" and "length p = n"
  shows "mat_vec A (map2 (+) x (vscale a p)) = map2 (+) (mat_vec A x) (vscale a (mat_vec A p))"
proof -
  have "list_all (\<lambda>row. length row = n) A" using assms(1) by (simp add: mat_ok_def)
  then show ?thesis
    using vdot_axpy [OF assms(2,3)] by (induction A) (simp_all add: mat_vec_def vscale_def)
qed

lemma mat_vec_zeros: "mat_vec A (zeros n) = zeros (length A)"
proof -
  have "vdot row (zeros n) = 0" for row :: "'a list"
    by (simp add: vdot_def zeros_def sum_list_sum_nth)
  then show ?thesis by (simp add: mat_vec_def zeros_def map_replicate_const)
qed

subsection \<open>CSV input\<close>

text \<open>\<open>int\<close>, for digits without underscores.\<close>

definition py_int :: "string \<Rightarrow> int res" where
  "py_int s =
     (let t = strip s;
          neg = (t \<noteq> [] \<and> hd t = CHR ''-'');
          ds = (if t \<noteq> [] \<and> (hd t = CHR ''-'' \<or> hd t = CHR ''+'') then tl t else t)
      in if ds \<noteq> [] \<and> list_all is_digit ds
         then Inr (if neg then - int (read_digits ds) else int (read_digits ds)) else Inl ValueError)"

definition csv_int :: "csv_row \<Rightarrow> string \<Rightarrow> int res" where
  "csv_int row k = bindR (csv_text row k) py_int"

definition csv_float :: "'a numpy \<Rightarrow> csv_row \<Rightarrow> string \<Rightarrow> 'a res" where
  "csv_float np row k = bindR (csv_text row k) (np_float np)"

subsection \<open>The dumped system\<close>

record 'a ldu =
  l_diag :: "(int, 'a) dict"
  l_upper :: "(int, 'a) dict"
  l_lower :: "(int, 'a) dict"
  l_owner :: "(int, int) dict"
  l_neighbour :: "(int, int) dict"

definition no_ldu :: "'a ldu" where
  "no_ldu = \<lparr>l_diag = [], l_upper = [], l_lower = [], l_owner = [], l_neighbour = []\<rparr>"

definition ldu_row :: "'a numpy \<Rightarrow> 'a ldu \<Rightarrow> csv_row \<Rightarrow> 'a ldu res" where
  "ldu_row np d row =
     bindR (csv_int row ''index'') (\<lambda>i.
     bindR (csv_float np row ''value'') (\<lambda>v.
     bindR (csv_item row ''kind'') (\<lambda>kind.
       if kind = Some ''diag'' then Inr (d\<lparr>l_diag := dict_set i v (l_diag d)\<rparr>)
       else
         bindR (csv_int row ''owner'') (\<lambda>ow.
         bindR (csv_int row ''neighbour'') (\<lambda>ne.
           let d1 = d\<lparr>l_owner := dict_set i ow (l_owner d), l_neighbour := dict_set i ne (l_neighbour d)\<rparr>
           in Inr (if kind = Some ''upper'' then d1\<lparr>l_upper := dict_set i v (l_upper d1)\<rparr>
                   else d1\<lparr>l_lower := dict_set i v (l_lower d1)\<rparr>))))))"

text \<open>\<open>np.array([d[c] for c in range(n)])\<close>: a missing index raises.\<close>

definition dense_array :: "(int, 'b) dict \<Rightarrow> nat \<Rightarrow> 'b list res" where
  "dense_array d n =
     mapR (\<lambda>c. case dict_get d (int c) of None \<Rightarrow> Inl (KeyError (show_nat c)) | Some v \<Rightarrow> Inr v) [0..<n]"

type_synonym 'a system = "'a vec \<times> 'a vec \<times> 'a vec \<times> int list \<times> int list"

definition read_ldu :: "'a numpy \<Rightarrow> string \<Rightarrow> 'a system res" where
  "read_ldu np t =
     bindR (foldR (ldu_row np) no_ldu (csv_rows t)) (\<lambda>d.
     let n = length (l_diag d); nf = length (l_owner d) in
     bindR (dense_array (l_diag d) n) (\<lambda>dg.
     bindR (dense_array (l_upper d) nf) (\<lambda>up.
     bindR (dense_array (l_lower d) nf) (\<lambda>lo.
     bindR (dense_array (l_owner d) nf) (\<lambda>ow.
     bindR (dense_array (l_neighbour d) nf) (\<lambda>ne. Inr (dg, up, lo, ow, ne)))))))"

definition mat_set :: "'a mat \<Rightarrow> int \<Rightarrow> int \<Rightarrow> 'a \<Rightarrow> 'a mat res" where
  "mat_set A i j v = bindR (arr_get A i) (\<lambda>row. bindR (arr_set row j v) (\<lambda>row'. arr_set A i row'))"

definition diag_mat :: "'a::linordered_field vec \<Rightarrow> 'a mat" where
  "diag_mat d = map (\<lambda>i. map (\<lambda>j. if i = j then d ! i else 0) [0..<length d]) [0..<length d]"

definition dense_face :: "'a vec \<Rightarrow> 'a vec \<Rightarrow> int list \<Rightarrow> int list \<Rightarrow> 'a mat \<Rightarrow> nat \<Rightarrow> 'a mat res" where
  "dense_face up lo ow ne A f =
     bindR (nth_or ow f) (\<lambda>p. bindR (nth_or ne f) (\<lambda>q.
     bindR (nth_or up f) (\<lambda>u. bindR (mat_set A p q u) (\<lambda>A1.
     bindR (nth_or lo f) (\<lambda>l. mat_set A1 q p l)))))"

definition dense :: "'a::linordered_field system \<Rightarrow> 'a mat res" where
  "dense s =
     (case s of (dg, up, lo, ow, ne) \<Rightarrow>
        foldR (dense_face up lo ow ne) (diag_mat dg) [0..<length ow])"

definition read_rhs :: "'a::linordered_field numpy \<Rightarrow> string \<Rightarrow> nat \<Rightarrow> 'a vec res" where
  "read_rhs np t n =
     foldR (\<lambda>b row. bindR (csv_float np row ''b'') (\<lambda>v. bindR (csv_int row ''cell'') (\<lambda>c. arr_set b c v)))
       (zeros n) (csv_rows t)"

definition hierarchy_row :: "(int, (int, int) dict) dict \<Rightarrow> csv_row \<Rightarrow> (int, (int, int) dict) dict res" where
  "hierarchy_row maps row =
     bindR (csv_int row ''fine_cell'') (\<lambda>fine.
       if fine < 0 then Inr maps
       else bindR (csv_int row ''coarse_cell'') (\<lambda>coarse.
            bindR (csv_int row ''level'') (\<lambda>level.
              Inr (dict_set level (dict_set fine coarse (get_or maps level [])) maps))))"

definition read_hierarchy :: "string \<Rightarrow> int list list res" where
  "read_hierarchy t =
     bindR (foldR hierarchy_row [] (csv_rows t)) (\<lambda>maps.
       mapR (\<lambda>level. let e = get_or maps level [] in dense_array e (length e)) (sort (keys maps)))"

subsection \<open>What the readers build\<close>

lemma mat_set_ok: "mat_set A i j v = Inr B \<Longrightarrow> mat_ok r c A \<Longrightarrow> mat_ok r c B"
proof -
  assume "mat_set A i j v = Inr B" and ok: "mat_ok r c A"
  then obtain k l where "py_index (length A) i = Inr k" "B = A[k := (A ! k)[l := v]]"
    by (auto simp: mat_set_def arr_get_def arr_set_def bindR_Inr_iff)
  with ok py_index_bound [of "length A" i k] show ?thesis
    by (auto simp: mat_ok_def list_all_length nth_list_update)
qed

lemma dense_square: "dense (dg, up, lo, ow, ne) = Inr A \<Longrightarrow> mat_ok (length dg) (length dg) A"
proof -
  assume "dense (dg, up, lo, ow, ne) = Inr A"
  then have "foldR (dense_face up lo ow ne) (diag_mat dg) [0..<length ow] = Inr A" by (simp add: dense_def)
  then show ?thesis
  proof (rule foldR_invariant)
    show "mat_ok (length dg) (length dg) (diag_mat dg)"
      by (simp add: mat_ok_def diag_mat_def list_all_iff)
    show "mat_ok (length dg) (length dg) B'"
      if "mat_ok (length dg) (length dg) B" "dense_face up lo ow ne B f = Inr B'" for B f B'
      using that by (auto simp: dense_face_def bindR_Inr_iff intro: mat_set_ok)
  qed
qed

end
