(* ===== verification/Amg_Hierarchy.thy ===== *)
theory Amg_Hierarchy
  imports Amg_Arrays "HOL-Library.Product_Lexorder"
begin

text \<open>
  The construction of the grid hierarchy in \<open>demo/amgpcg/make_steps.py\<close>: the greedy pairwise
  selector, the Galerkin coarse operator and the loop over the levels.  The loop is bounded by an
  argument; the lemmas show that a bound of one more than the number of cells is enough, that the
  selector partitions the cells, and what the coarse operator sums up.
\<close>

subsection \<open>The pairwise selector\<close>

text \<open>The faces of a cell in the order in which the code lists them.\<close>

definition incident :: "int list \<Rightarrow> int list \<Rightarrow> int \<Rightarrow> nat list" where
  "incident owner neighbour c =
     concat (map (\<lambda>f. (if owner ! f = c then [f] else []) @ (if neighbour ! f = c then [f] else []))
       [0..<length owner])"

definition other_end :: "int list \<Rightarrow> int list \<Rightarrow> int \<Rightarrow> nat \<Rightarrow> int" where
  "other_end owner neighbour c f = (if owner ! f = c then neighbour ! f else owner ! f)"

text \<open>
  The loop that both selections share: the first face of greatest weight above -1 among those that have a candidate.
\<close>

definition strongest_step :: "'a::linordered_field list \<Rightarrow> (nat \<Rightarrow> 'c option res) \<Rightarrow> 'a \<times> 'c option \<Rightarrow> nat \<Rightarrow>
    ('a \<times> 'c option) res" where
  "strongest_step weights cand best f =
     bindR (cand f) (\<lambda>v.
       case v of None \<Rightarrow> Inr best
       | Some x \<Rightarrow> bindR (nth_or weights f) (\<lambda>w. Inr (if fst best < w then (w, Some x) else best)))"

definition strongest :: "'a::linordered_field list \<Rightarrow> (nat \<Rightarrow> 'c option res) \<Rightarrow> nat list \<Rightarrow> 'c option res" where
  "strongest weights cand faces = bindR (foldR (strongest_step weights cand) (- 1, None) faces) (\<lambda>b. Inr (snd b))"

text \<open>An unmapped neighbour across a face, and the aggregate of a mapped one.\<close>

definition unmapped_face :: "int list \<Rightarrow> int list \<Rightarrow> int list \<Rightarrow> int \<Rightarrow> nat \<Rightarrow> nat option res" where
  "unmapped_face owner neighbour cell_map c f =
     bindR (arr_get cell_map (other_end owner neighbour c f)) (\<lambda>m. Inr (if m < 0 then Some f else None))"

definition mapped_face :: "int list \<Rightarrow> int list \<Rightarrow> int list \<Rightarrow> int \<Rightarrow> nat \<Rightarrow> int option res" where
  "mapped_face owner neighbour cell_map c f =
     bindR (arr_get cell_map (other_end owner neighbour c f)) (\<lambda>m. Inr (if 0 \<le> m then Some m else None))"

definition aggregate_cell :: "int list \<Rightarrow> int list \<Rightarrow> 'a::linordered_field list \<Rightarrow> int list \<times> int \<Rightarrow> nat \<Rightarrow>
    (int list \<times> int) res" where
  "aggregate_cell owner neighbour weights s i =
     (case s of (cell_map, n_coarse) \<Rightarrow>
        let c = int i; faces = incident owner neighbour c in
        bindR (arr_get cell_map c) (\<lambda>m.
          if 0 \<le> m then Inr (cell_map, n_coarse)
          else bindR (strongest weights (unmapped_face owner neighbour cell_map c) faces) (\<lambda>best.
            case best of
              Some f \<Rightarrow>
                bindR (arr_set cell_map c n_coarse) (\<lambda>m1.
                bindR (arr_set m1 (other_end owner neighbour c f) n_coarse) (\<lambda>m2. Inr (m2, n_coarse + 1)))
            | None \<Rightarrow>
                bindR (strongest weights (mapped_face owner neighbour cell_map c) faces) (\<lambda>attached.
                  case attached of
                    Some a \<Rightarrow> bindR (arr_set cell_map c a) (\<lambda>m1. Inr (m1, n_coarse))
                  | None \<Rightarrow> bindR (arr_set cell_map c n_coarse) (\<lambda>m1. Inr (m1, n_coarse + 1))))))"

definition pairwise_aggregate :: "int list \<Rightarrow> int list \<Rightarrow> 'a::linordered_field list \<Rightarrow> nat \<Rightarrow> (int list \<times> int) res" where
  "pairwise_aggregate owner neighbour weights n =
     (if length neighbour < length owner then Inl IndexError
      else foldR (aggregate_cell owner neighbour weights) (replicate n (- 1), 0) [0..<n])"

subsection \<open>The coarse operator\<close>

text \<open>
  The injection \<open>P\<close>: row \<open>i\<close> has its 1 in the column of the aggregate of cell \<open>i\<close>.  An array of one index is broadcast.
\<close>

definition unit_row :: "nat \<Rightarrow> nat \<Rightarrow> 'a::linordered_field vec" where
  "unit_row nc k = (zeros nc)[k := 1]"

definition injection :: "nat \<Rightarrow> nat \<Rightarrow> int list \<Rightarrow> 'a::linordered_field mat res" where
  "injection n nc cell_map =
     (if length cell_map = n \<or> length cell_map = 1
      then mapR (\<lambda>m. bindR (py_index nc m) (\<lambda>k. Inr (unit_row nc k)))
             (if length cell_map = n then cell_map else replicate n (hd cell_map))
      else Inl IndexError)"

definition galerkin :: "'a::linordered_field numpy \<Rightarrow> 'a mat \<Rightarrow> int list \<Rightarrow> nat \<Rightarrow> ('a mat \<times> 'a mat) res" where
  "galerkin np A cell_map nc =
     bindR (injection (length A) nc cell_map) (\<lambda>P.
     bindR (np_matmul np (transp nc P) A) (\<lambda>B.
     bindR (np_matmul np B P) (\<lambda>C. Inr (C, P))))"

subsection \<open>The levels\<close>

text \<open>A level: its matrix, and below the coarsest one the map to the next level with its injection.\<close>

type_synonym 'a level = "'a mat \<times> (int list \<times> 'a mat) option"

definition pair_step :: "int list \<Rightarrow> int list \<Rightarrow> int list \<Rightarrow> 'a::linordered_field list \<Rightarrow> (int \<times> int, 'a) dict \<Rightarrow> nat \<Rightarrow>
    (int \<times> int, 'a) dict res" where
  "pair_step cell_map owner neighbour weights pairs f =
     bindR (nth_or owner f) (\<lambda>ow. bindR (arr_get cell_map ow) (\<lambda>co.
     bindR (nth_or neighbour f) (\<lambda>ne. bindR (arr_get cell_map ne) (\<lambda>cn.
       if co = cn then Inr pairs
       else let key = (min co cn, max co cn)
            in bindR (nth_or weights f) (\<lambda>w. Inr (dict_set key (get_or pairs key 0 + w) pairs))))))"

definition coarse_pairs :: "int list \<Rightarrow> int list \<Rightarrow> int list \<Rightarrow> 'a::linordered_field list \<Rightarrow> (int \<times> int, 'a) dict res" where
  "coarse_pairs cell_map owner neighbour weights =
     foldR (pair_step cell_map owner neighbour weights) [] [0..<length owner]"

text \<open>The map of a level, or None where the loop is left before one is chosen.\<close>

definition choose_map :: "int list list option \<Rightarrow> nat \<Rightarrow> nat \<Rightarrow> int list \<Rightarrow> int list \<Rightarrow> 'a::linordered_field list \<Rightarrow> nat \<Rightarrow>
    (int list \<times> int) option res" where
  "choose_map maps target n owner neighbour weights level =
     (case maps of
        Some ms \<Rightarrow>
          if length ms \<le> level then Inr None
          else let m = ms ! level in if m = [] then Inl ValueError else Inr (Some (m, Max (set m) + 1))
      | None \<Rightarrow>
          if n \<le> target then Inr None
          else bindR (pairwise_aggregate owner neighbour weights n) (\<lambda>(m, nc).
                 Inr (if int n \<le> nc then None else Some (m, nc))))"

text \<open>A negative number of columns raises in \<open>np.zeros\<close>.\<close>

fun build_loop :: "'a::linordered_field numpy \<Rightarrow> int list list option \<Rightarrow> nat \<Rightarrow> nat \<Rightarrow> 'a mat \<Rightarrow> int list \<Rightarrow>
    int list \<Rightarrow> 'a list \<Rightarrow> nat \<Rightarrow> 'a level list res" where
  "build_loop np maps target 0 A owner neighbour weights level = Inl OutOfFuel"
| "build_loop np maps target (Suc fuel) A owner neighbour weights level =
     bindR (choose_map maps target (length A) owner neighbour weights level) (\<lambda>ch.
       case ch of None \<Rightarrow> Inr [(A, None)]
       | Some (cell_map, nc) \<Rightarrow>
           if nc < 0 then Inl ValueError else
           bindR (galerkin np A cell_map (nat nc)) (\<lambda>(Ac, P).
           bindR (coarse_pairs cell_map owner neighbour weights) (\<lambda>pairs.
             if pairs = [] then Inr [(A, Some (cell_map, P)), (A, None)]
             else let ks = sort (keys pairs)
                  in bindR (build_loop np maps target fuel Ac (map fst ks) (map snd ks)
                       (map (\<lambda>k. get_or pairs k 0) ks) (Suc level)) (\<lambda>ls. Inr ((A, Some (cell_map, P)) # ls)))))"

definition level_fuel :: "int list list option \<Rightarrow> 'a mat \<Rightarrow> nat" where
  "level_fuel maps A = Suc (case maps of Some ms \<Rightarrow> length ms | None \<Rightarrow> length A)"

definition build_levels :: "'a::linordered_field numpy \<Rightarrow> 'a mat \<Rightarrow> int list \<Rightarrow> int list \<Rightarrow> 'a list \<Rightarrow>
    int list list option \<Rightarrow> nat \<Rightarrow> 'a level list res" where
  "build_levels np A owner neighbour weights maps target =
     build_loop np maps target (level_fuel maps A) A owner neighbour weights 0"

subsection \<open>What the selection returns\<close>

lemma strongest_step_cases:
  assumes "strongest_step weights cand b f = Inr b'"
  shows "(b' = b \<and> (\<forall>x. cand f = Inr (Some x) \<longrightarrow> \<not> fst b < weights ! f))
    \<or> (\<exists>x. cand f = Inr (Some x) \<and> b' = (weights ! f, Some x) \<and> fst b < weights ! f)"
  using assms by (auto simp: strongest_step_def bindR_Inr_iff nth_or_def split: option.splits if_splits)

lemma strongest_fold_source:
  "foldR (strongest_step weights cand) b faces = Inr b' \<Longrightarrow>
     snd b' = snd b \<or> (\<exists>f \<in> set faces. \<exists>x. snd b' = Some x \<and> cand f = Inr (Some x))"
proof (induction faces arbitrary: b)
  case (Cons f fs)
  then obtain b1 where s: "strongest_step weights cand b f = Inr b1"
    and r: "foldR (strongest_step weights cand) b1 fs = Inr b'" by (auto simp: bindR_Inr_iff)
  from strongest_step_cases [OF s] have "snd b1 = snd b \<or> (\<exists>x. snd b1 = Some x \<and> cand f = Inr (Some x))" by auto
  with Cons.IH [OF r] show ?case by auto
qed simp

lemma strongest_fold_none:
  "foldR (strongest_step weights cand) b faces = Inr b' \<Longrightarrow> snd b' = None \<Longrightarrow>
     b' = b \<and> (\<forall>f \<in> set faces. \<forall>x. cand f = Inr (Some x) \<longrightarrow> \<not> fst b < weights ! f)"
proof (induction faces arbitrary: b)
  case (Cons f fs)
  then obtain b1 where s: "strongest_step weights cand b f = Inr b1"
    and r: "foldR (strongest_step weights cand) b1 fs = Inr b'" by (auto simp: bindR_Inr_iff)
  note IH = Cons.IH [OF r Cons.prems(2)]
  from IH Cons.prems(2) have "snd b1 = None" by simp
  with strongest_step_cases [OF s] have "b1 = b" and "\<forall>x. cand f = Inr (Some x) \<longrightarrow> \<not> fst b < weights ! f"
    by auto
  with IH show ?case by simp
qed simp

lemma strongest_Some: "strongest weights cand faces = Inr (Some x) \<Longrightarrow> \<exists>f \<in> set faces. cand f = Inr (Some x)"
  using strongest_fold_source [of weights cand "(- 1, None)" faces]
  by (auto simp: strongest_def bindR_Inr_iff)

lemma strongest_None:
  assumes "strongest weights cand faces = Inr None" and "f \<in> set faces" and "cand f = Inr (Some x)"
  shows "\<not> - 1 < weights ! f"
proof -
  from assms(1) obtain b where "foldR (strongest_step weights cand) (- 1, None) faces = Inr b" "snd b = None"
    by (auto simp: strongest_def bindR_Inr_iff)
  from strongest_fold_none [OF this] assms(2,3) show ?thesis by simp
qed

lemma strongest_total:
  assumes "\<And>f. f \<in> set faces \<Longrightarrow> f < length weights \<and> (\<exists>v. cand f = Inr v)"
  shows "\<exists>r. strongest weights cand faces = Inr r"
proof -
  have "\<exists>b'. foldR (strongest_step weights cand) b faces = Inr b'" for b
    using assms
  proof (induction faces arbitrary: b)
    case (Cons f fs)
    from Cons.prems [of f] obtain v where v: "cand f = Inr v" and l: "f < length weights" by auto
    have "\<exists>b1. strongest_step weights cand b f = Inr b1"
      using l by (simp add: strongest_step_def v split: option.splits)
    with Cons show ?case by auto
  qed simp
  from this [of "(- 1, None)"] show ?thesis by (auto simp: strongest_def)
qed

lemma incident_iff: "f \<in> set (incident owner neighbour c) \<longleftrightarrow> f < length owner \<and> (owner ! f = c \<or> neighbour ! f = c)"
  by (auto simp: incident_def)

subsection \<open>The selector partitions the cells\<close>

definition faces_ok :: "nat \<Rightarrow> int list \<Rightarrow> int list \<Rightarrow> 'a list \<Rightarrow> bool" where
  "faces_ok n owner neighbour weights \<longleftrightarrow>
     length neighbour = length owner \<and> length weights = length owner \<and>
     list_all (\<lambda>(p, q). 0 \<le> p \<and> p < int n \<and> 0 \<le> q \<and> q < int n \<and> p \<noteq> q) (zip owner neighbour)"

lemma faces_okD:
  assumes "faces_ok n owner neighbour weights" and "f < length owner"
  shows "0 \<le> owner ! f" "owner ! f < int n" "0 \<le> neighbour ! f" "neighbour ! f < int n"
    "owner ! f \<noteq> neighbour ! f" "f < length neighbour" "f < length weights"
  using assms by (auto simp: faces_ok_def list_all_length)

text \<open>
  The map after the cells below \<open>i\<close>: labels are below the count or -1, every label is used, and the
  cells below \<open>i\<close> have one.
\<close>

definition part_inv :: "nat \<Rightarrow> nat \<Rightarrow> int list \<Rightarrow> int \<Rightarrow> bool" where
  "part_inv n i m nc \<longleftrightarrow> length m = n \<and> 0 \<le> nc
     \<and> (\<forall>j < n. m ! j = - 1 \<or> 0 \<le> m ! j \<and> m ! j < nc)
     \<and> (\<forall>k. 0 \<le> k \<longrightarrow> k < nc \<longrightarrow> (\<exists>j < n. m ! j = k))
     \<and> (\<forall>j < i. 0 \<le> m ! j)"

definition crowded :: "int list \<Rightarrow> bool" where
  "crowded m \<longleftrightarrow> (\<exists>j j'. j < length m \<and> j' < length m \<and> j \<noteq> j' \<and> m ! j = m ! j' \<and> 0 \<le> m ! j)"

lemma part_inv_skip: "part_inv n i m nc \<Longrightarrow> 0 \<le> m ! i \<Longrightarrow> part_inv n (Suc i) m nc"
  by (auto simp: part_inv_def less_Suc_eq)

lemma label_kept: "m ! u = - 1 \<Longrightarrow> m ! j = k \<Longrightarrow> 0 \<le> (k::int) \<Longrightarrow> m[u := a] ! j = k"
  by (cases "j = u") simp_all

lemma part_inv_join:
  assumes "part_inv n i m nc" and "u < n" and "m ! u = - 1" and "0 \<le> a" and "a < nc"
  shows "part_inv n i (m[u := a]) nc"
proof -
  have "\<exists>j < n. m[u := a] ! j = k" if k: "0 \<le> k" "k < nc" for k
  proof -
    from assms(1) k obtain j where "j < n" "m ! j = k" unfolding part_inv_def by blast
    with label_kept [OF assms(3), of j k a] k show ?thesis by blast
  qed
  then show ?thesis using assms by (auto simp: part_inv_def nth_list_update)
qed

lemma part_inv_attach:
  assumes "part_inv n i m nc" and "i < n" and "m ! i = - 1" and "0 \<le> a" and "a < nc"
  shows "part_inv n (Suc i) (m[i := a]) nc"
proof (rule part_inv_skip [OF part_inv_join [OF assms]])
  show "0 \<le> m[i := a] ! i" using assms by (simp add: part_inv_def)
qed

lemma part_inv_new:
  assumes "part_inv n i m nc" and "i < n" and "m ! i = - 1"
  shows "part_inv n (Suc i) (m[i := nc]) (nc + 1)"
proof (rule part_inv_skip)
  have len: "length m = n" "0 \<le> nc" using assms(1) by (simp_all add: part_inv_def)
  show "0 \<le> m[i := nc] ! i" using len assms(2) by simp
  have "\<exists>j < n. m[i := nc] ! j = k" if k: "0 \<le> k" "k < nc + 1" for k
  proof (cases "k = nc")
    case True
    with len assms(2) show ?thesis by (intro exI [of _ i]) simp
  next
    case False
    with k have "k < nc" by simp
    with assms(1) k obtain j where "j < n" "m ! j = k" unfolding part_inv_def by blast
    with label_kept [OF assms(3), of j k nc] k show ?thesis by blast
  qed
  moreover have "m[i := nc] ! j = - 1 \<or> 0 \<le> m[i := nc] ! j \<and> m[i := nc] ! j < nc + 1" if "j < n" for j
    using that assms(1) by (cases "j = i") (auto simp: part_inv_def)
  moreover have "0 \<le> m[i := nc] ! j" if "j < i" for j
    using that assms(1) by (auto simp: part_inv_def)
  ultimately show "part_inv n i (m[i := nc]) (nc + 1)"
    using len by (simp add: part_inv_def)
qed

lemma part_inv_pair:
  assumes "part_inv n i m nc" and "i < n" and "m ! i = - 1" and "u < n" and "m ! u = - 1" and "u \<noteq> i"
  shows "part_inv n (Suc i) (m[i := nc, u := nc]) (nc + 1)"
  using part_inv_join [OF part_inv_new [OF assms(1-3)], of u nc] assms by (auto simp: part_inv_def)

lemma crowded_update: "crowded m \<Longrightarrow> m ! u < 0 \<Longrightarrow> crowded (m[u := a])"
  unfolding crowded_def by (metis leD length_list_update nth_list_update_neq)

text \<open>
  As long as no two cells share a label, the cells from \<open>i\<close> on are unmapped and no face joins two cells below \<open>i\<close>.
\<close>

definition apart :: "int list \<Rightarrow> int list \<Rightarrow> nat \<Rightarrow> int list \<Rightarrow> bool" where
  "apart owner neighbour i m \<longleftrightarrow>
     (\<forall>j. i \<le> j \<longrightarrow> j < length m \<longrightarrow> m ! j = - 1) \<and>
     (\<forall>f < length owner. \<not> (owner ! f < int i \<and> neighbour ! f < int i))"

definition agg_inv :: "nat \<Rightarrow> int list \<Rightarrow> int list \<Rightarrow> nat \<Rightarrow> int list \<times> int \<Rightarrow> bool" where
  "agg_inv n owner neighbour i s \<longleftrightarrow>
     part_inv n i (fst s) (snd s) \<and> (crowded (fst s) \<or> apart owner neighbour i (fst s))"

lemma other_end_in:
  assumes "faces_ok n owner neighbour weights" and "f \<in> set (incident owner neighbour c)"
  shows "0 \<le> other_end owner neighbour c f" "other_end owner neighbour c f < int n"
    "other_end owner neighbour c f \<noteq> c" "f < length weights"
  using assms(2) faces_okD [OF assms(1), of f] by (auto simp: incident_iff other_end_def)

lemma cand_total:
  assumes "faces_ok n owner neighbour weights" and "f \<in> set (incident owner neighbour c)" and "length m = n"
  shows "unmapped_face owner neighbour m c f =
      Inr (if m ! nat (other_end owner neighbour c f) < 0 then Some f else None)"
    and "mapped_face owner neighbour m c f =
      Inr (if 0 \<le> m ! nat (other_end owner neighbour c f) then Some (m ! nat (other_end owner neighbour c f)) else None)"
  using other_end_in [OF assms(1,2)] assms(3) by (simp_all add: unmapped_face_def mapped_face_def)

lemma crowded_join:
  "i < length m \<Longrightarrow> u < length m \<Longrightarrow> u \<noteq> i \<Longrightarrow> m ! u = a \<Longrightarrow> 0 \<le> a \<Longrightarrow> crowded (m[i := a])"
  unfolding crowded_def by (intro exI [of _ i] exI [of _ u]) auto

text \<open>A cell that joins no other leaves no face between it and a cell below it.\<close>

lemma apart_new:
  assumes ok: "faces_ok n owner neighbour weights" and pos: "list_all (\<lambda>w. - 1 < w) weights"
    and ap: "apart owner neighbour i m" and inv: "part_inv n i m nc" and i: "i < n"
    and none: "strongest weights (mapped_face owner neighbour m (int i)) (incident owner neighbour (int i)) = Inr None"
  shows "apart owner neighbour (Suc i) (m[i := a])"
proof -
  have "\<not> (owner ! f < int (Suc i) \<and> neighbour ! f < int (Suc i))" if f: "f < length owner" for f
  proof
    assume below: "owner ! f < int (Suc i) \<and> neighbour ! f < int (Suc i)"
    note d = faces_okD [OF ok f]
    have "\<not> (owner ! f < int i \<and> neighbour ! f < int i)" using ap f by (simp add: apart_def)
    with below d(5) have inc: "f \<in> set (incident owner neighbour (int i))"
      and oe: "other_end owner neighbour (int i) f < int i"
      using f by (auto simp: incident_iff other_end_def)
    have "0 \<le> m ! nat (other_end owner neighbour (int i) f)"
      using inv oe other_end_in(1) [OF ok inc] by (auto simp: part_inv_def)
    moreover have "length m = n" using inv by (simp add: part_inv_def)
    ultimately have "mapped_face owner neighbour m (int i) f = Inr (Some (m ! nat (other_end owner neighbour (int i) f)))"
      using cand_total(2) [OF ok inc] by simp
    from strongest_None [OF none inc this] pos d(7) show False by (simp add: list_all_length)
  qed
  then show ?thesis using ap by (auto simp: apart_def)
qed

lemma part_inv_unmapped: "part_inv n i m nc \<Longrightarrow> j < n \<Longrightarrow> m ! j < 0 \<Longrightarrow> m ! j = - 1"
  unfolding part_inv_def by force

text \<open>The three ways in which an unmapped cell gets its label.\<close>

lemma aggregate_pair:
  assumes ok: "faces_ok n owner neighbour weights" and p: "part_inv n i m nc" and i: "i < n" and un: "m ! i = - 1"
    and best: "strongest weights (unmapped_face owner neighbour m (int i)) (incident owner neighbour (int i)) = Inr (Some f)"
  shows "\<exists>s'. aggregate_cell owner neighbour weights (m, nc) i = Inr s' \<and> agg_inv n owner neighbour (Suc i) s'"
proof -
  have l: "length m = n" using p by (simp add: part_inv_def)
  obtain g where g: "g \<in> set (incident owner neighbour (int i))" "unmapped_face owner neighbour m (int i) g = Inr (Some f)"
    using strongest_Some [OF best] by blast
  then have f: "f \<in> set (incident owner neighbour (int i))" "m ! nat (other_end owner neighbour (int i) f) < 0"
    using cand_total(1) [OF ok g(1) l] by (auto split: if_splits)
  let ?u = "nat (other_end owner neighbour (int i) f)"
  have u: "?u < n" "?u \<noteq> i" "0 \<le> other_end owner neighbour (int i) f" using other_end_in [OF ok f(1)] by auto
  have mu: "m ! ?u = - 1" using part_inv_unmapped [OF p u(1) f(2)] .
  have "crowded (m[i := nc, ?u := nc])"
    using crowded_join [of ?u "m[i := nc]" i nc] u i l p by (auto simp: part_inv_def)
  with best un u i l part_inv_pair [OF p i un u(1) mu u(2)]
  show ?thesis by (simp add: aggregate_cell_def agg_inv_def)
qed

lemma aggregate_attach:
  assumes ok: "faces_ok n owner neighbour weights" and p: "part_inv n i m nc" and i: "i < n" and un: "m ! i = - 1"
    and best: "strongest weights (unmapped_face owner neighbour m (int i)) (incident owner neighbour (int i)) = Inr None"
    and att: "strongest weights (mapped_face owner neighbour m (int i)) (incident owner neighbour (int i)) = Inr (Some a)"
  shows "\<exists>s'. aggregate_cell owner neighbour weights (m, nc) i = Inr s' \<and> agg_inv n owner neighbour (Suc i) s'"
proof -
  have l: "length m = n" using p by (simp add: part_inv_def)
  obtain g where g: "g \<in> set (incident owner neighbour (int i))" "mapped_face owner neighbour m (int i) g = Inr (Some a)"
    using strongest_Some [OF att] by blast
  let ?u = "nat (other_end owner neighbour (int i) g)"
  have a: "m ! ?u = a" "0 \<le> a" using g cand_total(2) [OF ok g(1) l] by (auto split: if_splits)
  have u: "?u < n" "?u \<noteq> i" using other_end_in [OF ok g(1)] by auto
  have "a < nc" using a u p unfolding part_inv_def by force
  with best att un i l part_inv_attach [OF p i un a(2)] crowded_join [of i m ?u a] u a
  show ?thesis by (simp add: aggregate_cell_def agg_inv_def)
qed

lemma aggregate_alone:
  assumes ok: "faces_ok n owner neighbour weights" and pos: "list_all (\<lambda>w. - 1 < w) weights"
    and ca: "crowded m \<or> apart owner neighbour i m"
    and p: "part_inv n i m nc" and i: "i < n" and un: "m ! i = - 1"
    and best: "strongest weights (unmapped_face owner neighbour m (int i)) (incident owner neighbour (int i)) = Inr None"
    and att: "strongest weights (mapped_face owner neighbour m (int i)) (incident owner neighbour (int i)) = Inr None"
  shows "\<exists>s'. aggregate_cell owner neighbour weights (m, nc) i = Inr s' \<and> agg_inv n owner neighbour (Suc i) s'"
proof -
  have l: "length m = n" using p by (simp add: part_inv_def)
  have "crowded (m[i := nc]) \<or> apart owner neighbour (Suc i) (m[i := nc])"
    using ca crowded_update [of m i nc] un apart_new [OF ok pos _ p i att, of nc] by auto
  with best att un i l part_inv_new [OF p i un] show ?thesis
    by (simp add: aggregate_cell_def agg_inv_def)
qed

lemma aggregate_step:
  assumes ok: "faces_ok n owner neighbour weights" and pos: "list_all (\<lambda>w. - 1 < w) weights"
    and inv: "agg_inv n owner neighbour i (m, nc)" and i: "i < n"
  shows "\<exists>s'. aggregate_cell owner neighbour weights (m, nc) i = Inr s' \<and> agg_inv n owner neighbour (Suc i) s'"
proof -
  from inv have p: "part_inv n i m nc" and l: "length m = n"
    and ca: "crowded m \<or> apart owner neighbour i m" by (auto simp: agg_inv_def part_inv_def)
  show ?thesis
  proof (cases "0 \<le> m ! i")
    case True
    then have "\<not> apart owner neighbour i m" using i l by (auto simp: apart_def)
    with True l i ca part_inv_skip [OF p] show ?thesis by (simp add: aggregate_cell_def agg_inv_def)
  next
    case False
    then have un: "m ! i = - 1" using part_inv_unmapped [OF p i] by simp
    have "\<exists>r. strongest weights (unmapped_face owner neighbour m (int i)) (incident owner neighbour (int i)) = Inr r"
      by (rule strongest_total) (simp add: cand_total [OF ok _ l] other_end_in(4) [OF ok])
    moreover have "\<exists>r. strongest weights (mapped_face owner neighbour m (int i)) (incident owner neighbour (int i)) = Inr r"
      by (rule strongest_total) (simp add: cand_total [OF ok _ l] other_end_in(4) [OF ok])
    ultimately show ?thesis
      using aggregate_pair [OF ok p i un] aggregate_attach [OF ok p i un] aggregate_alone [OF ok pos ca p i un]
      by (metis option.exhaust)
  qed
qed

lemma aggregate_loop:
  assumes "faces_ok n owner neighbour weights" and "list_all (\<lambda>w. - 1 < w) weights" and "k \<le> n"
  shows "\<exists>s. foldR (aggregate_cell owner neighbour weights) (replicate n (- 1), 0) [0..<k] = Inr s
    \<and> agg_inv n owner neighbour k s"
  using assms(3)
proof (induction k)
  case 0
  have "agg_inv n owner neighbour 0 (replicate n (- 1), 0)"
    using faces_okD(1) [OF assms(1)] by (fastforce simp: agg_inv_def part_inv_def apart_def)
  then show ?case by simp
next
  case (Suc k)
  then obtain m nc where "foldR (aggregate_cell owner neighbour weights) (replicate n (- 1), 0) [0..<k] = Inr (m, nc)"
    and "agg_inv n owner neighbour k (m, nc)" by auto
  with aggregate_step [OF assms(1,2), of k m nc] Suc.prems show ?case by (auto simp: foldR_append)
qed

lemma part_inv_set: "part_inv n n m nc \<Longrightarrow> set m = {0..<nc}"
  unfolding part_inv_def by (force simp: in_set_conv_nth)

lemma labels_le: "set m = {0..<nc} \<Longrightarrow> nc \<le> int (length m)"
  using card_length [of m] by simp

lemma labels_pos: "set m = {0..<nc::int} \<Longrightarrow> m \<noteq> [] \<Longrightarrow> 0 < nc"
  using hd_in_set [of m] by auto

lemma labels_less: "set m = {0..<nc} \<Longrightarrow> crowded m \<Longrightarrow> nc < int (length m)"
proof -
  assume "set m = {0..<nc}" and "crowded m"
  then have "\<not> distinct m" by (auto simp: crowded_def distinct_conv_nth)
  then have "card (set m) < length m"
    using card_length [of m] card_distinct [of m] by (meson le_neq_implies_less)
  with \<open>set m = {0..<nc}\<close> show ?thesis by simp
qed

lemma pairwise_labels:
  assumes ok: "faces_ok n owner neighbour weights" and pos: "list_all (\<lambda>w. - 1 < w) weights"
  shows "\<exists>m nc. pairwise_aggregate owner neighbour weights n = Inr (m, nc) \<and> length m = n \<and> set m = {0..<nc}
    \<and> (owner \<noteq> [] \<longrightarrow> nc < int n)"
proof -
  obtain m nc where f: "foldR (aggregate_cell owner neighbour weights) (replicate n (- 1), 0) [0..<n] = Inr (m, nc)"
    and inv: "agg_inv n owner neighbour n (m, nc)" using aggregate_loop [OF assms, of n] by auto
  have s: "set m = {0..<nc}" and l: "length m = n"
    using inv part_inv_set by (auto simp: agg_inv_def part_inv_def)
  have "crowded m" if "owner \<noteq> []"
    using inv that faces_okD [OF ok, of 0] by (auto simp: agg_inv_def apart_def)
  then have "owner \<noteq> [] \<longrightarrow> nc < int n" using labels_less [OF s] l by auto
  with f s l ok show ?thesis by (auto simp: pairwise_aggregate_def faces_ok_def)
qed

subsection \<open>The coarse operator sums over the aggregates\<close>

lemma unit_row_nth: "k < nc \<Longrightarrow> j < nc \<Longrightarrow> unit_row nc k ! j = (if j = k then 1 else 0)"
  by (simp add: unit_row_def zeros_def nth_list_update)

lemma unit_row_length [simp]: "length (unit_row nc k) = nc"
  by (simp add: unit_row_def)

definition inj_mat :: "nat \<Rightarrow> int list \<Rightarrow> 'a::linordered_field mat" where
  "inj_mat nc m = map (\<lambda>k. unit_row nc (nat k)) m"

lemma injection_in: "set m \<subseteq> {0..<int nc} \<Longrightarrow> injection (length m) nc m = Inr (inj_mat nc m)"
proof -
  assume "set m \<subseteq> {0..<int nc}"
  then have "mapR (\<lambda>k. bindR (py_index nc k) (\<lambda>i. Inr (unit_row nc i))) m = Inr (inj_mat nc m)"
    by (induction m) (simp_all add: inj_mat_def)
  then show ?thesis by (simp add: injection_def)
qed

lemma inj_mat_ok: "mat_ok (length m) nc (inj_mat nc m)"
  by (simp add: mat_ok_def inj_mat_def list_all_iff)

lemma inj_mat_nth:
  assumes "set m \<subseteq> {0..<int nc}" and "p < length m" and "j < nc"
  shows "inj_mat nc m ! p ! j = (if m ! p = int j then 1 else 0)"
proof -
  have "0 \<le> m ! p" "m ! p < int nc" using assms(1,2) nth_mem by fastforce+
  then show ?thesis using assms unit_row_nth [of "nat (m ! p)" nc j] by (auto simp: inj_mat_def)
qed

definition agg_sum :: "int list \<Rightarrow> 'a::linordered_field mat \<Rightarrow> nat \<Rightarrow> nat \<Rightarrow> 'a" where
  "agg_sum m A i j = (\<Sum>p \<in> {p. p < length m \<and> m ! p = int i}. \<Sum>q \<in> {q. q < length m \<and> m ! q = int j}. A ! p ! q)"

lemma sum_indicator: "(\<Sum>p < (n::nat). (if P p then 1 else 0) * f p) = (\<Sum>p \<in> {p. p < n \<and> P p}. (f p :: 'a::linordered_field))"
proof -
  have "(\<Sum>p < n. (if P p then 1 else 0) * f p) = (\<Sum>p < n. if P p then f p else 0)"
    by (rule sum.cong) auto
  also have "\<dots> = (\<Sum>p \<in> {p \<in> {..<n}. P p}. f p)" by (rule sum.inter_filter [symmetric]) simp
  finally show ?thesis by (simp add: lessThan_def)
qed

lemma galerkin_entries:
  assumes np: "numpy_lib np" and A: "mat_ok n n A" and m: "length m = n" "set m \<subseteq> {0..<int nc}"
    and n: "0 < n"
  shows "\<exists>C. galerkin np A m nc = Inr (C, inj_mat nc m) \<and> mat_ok nc nc C
    \<and> (\<forall>i < nc. \<forall>j < nc. C ! i ! j = agg_sum m A i j)"
proof -
  let ?P = "inj_mat nc m :: 'a mat" and ?T = "transp nc (inj_mat nc m) :: 'a mat"
  let ?B = "mat_mul n ?T A"
  have P: "mat_ok n nc ?P" using inj_mat_ok [of m nc] m by simp
  have T: "mat_ok nc n ?T" using transp_ok [OF P] .
  have B: "mat_ok nc n ?B" using mat_mul_ok [OF T] .
  have nc: "0 < nc" using m n by (cases m) auto
  have g: "galerkin np A m nc = Inr (mat_mul nc ?B ?P, ?P)"
    using A m injection_in [OF m(2), where 'a = 'a] numpy_lib.matmul [OF np T A nc n] numpy_lib.matmul [OF np B P nc n]
    by (simp add: galerkin_def mat_ok_def)
  have "mat_mul nc ?B ?P ! i ! j = agg_sum m A i j" if ij: "i < nc" "j < nc" for i j
  proof -
    have Tp: "?T ! i ! p = (if m ! p = int i then 1 else 0)" if "p < n" for p
      using transp_nth [of i nc p ?P] inj_mat_nth [OF m(2) _ ij(1), of p, where 'a = 'a] ij(1) that m(1)
      by (simp add: inj_mat_def)
    have Bq: "?B ! i ! q = (\<Sum>p \<in> {p. p < n \<and> m ! p = int i}. A ! p ! q)" if "q < n" for q
    proof -
      have "?B ! i ! q = (\<Sum>p < n. (if m ! p = int i then 1 else 0) * A ! p ! q)"
        unfolding mat_mul_nth [OF T A ij(1) that] by (rule sum.cong) (use Tp in auto)
      then show ?thesis by (simp only: sum_indicator)
    qed
    have "mat_mul nc ?B ?P ! i ! j = (\<Sum>q < n. ?B ! i ! q * ?P ! q ! j)"
      by (rule mat_mul_nth [OF B P ij])
    also have "\<dots> = (\<Sum>q < n. (if m ! q = int j then 1 else 0) * (\<Sum>p \<in> {p. p < n \<and> m ! p = int i}. A ! p ! q))"
      by (rule sum.cong) (use Bq m inj_mat_nth [OF m(2) _ ij(2), where 'a = 'a] in auto)
    also have "\<dots> = agg_sum m A i j"
      unfolding agg_sum_def m(1) sum_indicator by (rule sum.swap)
    finally show ?thesis .
  qed
  with g mat_mul_ok [OF B, of nc ?P] show ?thesis by simp
qed

subsection \<open>The loop over the levels ends\<close>

definition pairs_ok :: "int \<Rightarrow> (int \<times> int, 'a::linordered_field) dict \<Rightarrow> bool" where
  "pairs_ok nc pairs \<longleftrightarrow> dict_ok pairs \<and>
     (\<forall>a b v. dict_get pairs (a, b) = Some v \<longrightarrow> 0 \<le> a \<and> a < b \<and> b < nc \<and> 0 < v)"

lemma pairs_ok_set:
  assumes "pairs_ok nc pairs" and "0 \<le> a" and "a < b" and "b < nc" and "0 < w"
  shows "pairs_ok nc (dict_set (a, b) (get_or pairs (a, b) 0 + w) pairs)"
proof -
  have "0 < get_or pairs (a, b) 0 + w"
    using assms by (cases "dict_get pairs (a, b)") (auto simp: get_or_def pairs_ok_def intro: add_pos_pos)
  then show ?thesis using assms by (auto simp: pairs_ok_def)
qed

lemma pair_step_ok:
  assumes ok: "faces_ok n owner neighbour weights" and pos: "list_all (\<lambda>w. 0 < w) weights"
    and m: "length m = n" "set m \<subseteq> {0..<nc}" and f: "f < length owner" and pk: "pairs_ok nc pairs"
  shows "\<exists>pairs'. pair_step m owner neighbour weights pairs f = Inr pairs' \<and> pairs_ok nc pairs'"
proof -
  note d = faces_okD [OF ok f]
  have in_m: "m ! nat x \<in> {0..<nc}" if "0 \<le> x" "x < int n" for x
  proof -
    have "nat x < length m" using that m by simp
    from nth_mem [OF this] m(2) show ?thesis by blast
  qed
  have "0 < weights ! f" using pos d(7) by (simp add: list_all_length)
  with pairs_ok_set [OF pk, of "min (m ! nat (owner ! f)) (m ! nat (neighbour ! f))"
      "max (m ! nat (owner ! f)) (m ! nat (neighbour ! f))" "weights ! f"]
    in_m [OF d(1,2)] in_m [OF d(3,4)] d f m pk
  show ?thesis by (auto simp: pair_step_def Let_def)
qed

lemma coarse_pairs_ok:
  assumes ok: "faces_ok n owner neighbour weights" and pos: "list_all (\<lambda>w. 0 < w) weights"
    and m: "length m = n" "set m \<subseteq> {0..<nc}"
  shows "\<exists>pairs. coarse_pairs m owner neighbour weights = Inr pairs \<and> pairs_ok nc pairs"
proof -
  have "\<exists>pairs. foldR (pair_step m owner neighbour weights) [] [0..<k] = Inr pairs \<and> pairs_ok nc pairs"
    if "k \<le> length owner" for k
    using that
  proof (induction k)
    case 0
    then show ?case by (simp add: pairs_ok_def)
  next
    case (Suc k)
    then show ?case using pair_step_ok [OF ok pos m, of k] by (fastforce simp: foldR_append)
  qed
  then show ?thesis by (simp add: coarse_pairs_def)
qed

lemma coarse_faces_ok:
  assumes "pairs_ok (int nc) pairs"
  shows "faces_ok nc (map fst (sort (keys pairs))) (map snd (sort (keys pairs)))
      (map (\<lambda>k. get_or pairs k 0) (sort (keys pairs)))
    \<and> list_all (\<lambda>w. 0 < w) (map (\<lambda>k. get_or pairs k 0) (sort (keys pairs)))"
proof -
  have "0 \<le> fst k \<and> fst k < snd k \<and> snd k < int nc \<and> 0 < get_or pairs k 0" if k: "k \<in> set (keys pairs)" for k
  proof -
    obtain v where "dict_get pairs k = Some v"
      using k dict_get_None_iff [of pairs k] by (cases "dict_get pairs k") auto
    then show ?thesis using assms by (cases k) (auto simp: pairs_ok_def get_or_def)
  qed
  then have "list_all (\<lambda>k. 0 \<le> fst k \<and> fst k < snd k \<and> snd k < int nc \<and> 0 < get_or pairs k 0) (sort (keys pairs))"
    by (simp add: list_all_iff)
  then show ?thesis by (fastforce simp: faces_ok_def list_all_iff zip_map_fst_snd)
qed

text \<open>
  Levels that fit together: each injection leads from the cells of its level to those of the next.  In
  \<open>levels_shape\<close> the loop may also have ended without a coarse coupling, where the last level repeats the one above it.
\<close>

fun levels_ok :: "nat \<Rightarrow> 'a::linordered_field level list \<Rightarrow> bool" where
  "levels_ok n [] \<longleftrightarrow> False"
| "levels_ok n ((A, None) # ls) \<longleftrightarrow> mat_ok n n A \<and> ls = []"
| "levels_ok n ((A, Some (m, P)) # ls) \<longleftrightarrow>
     mat_ok n n A \<and> length m = n \<and> (\<exists>nc. set m = {0..<int nc} \<and> P = inj_mat nc m \<and> levels_ok nc ls)"

fun levels_shape :: "nat \<Rightarrow> 'a::linordered_field level list \<Rightarrow> bool" where
  "levels_shape n [] \<longleftrightarrow> False"
| "levels_shape n ((A, None) # ls) \<longleftrightarrow> mat_ok n n A \<and> ls = []"
| "levels_shape n ((A, Some (m, P)) # ls) \<longleftrightarrow>
     mat_ok n n A \<and> length m = n \<and>
     (\<exists>nc. nc < n \<and> set m = {0..<int nc} \<and> P = inj_mat nc m \<and> (levels_shape nc ls \<or> ls = [(A, None)]))"

lemma levels_shapeI:
  "mat_ok n n A \<Longrightarrow> length m = n \<Longrightarrow> nc < n \<Longrightarrow> set m = {0..<int nc} \<Longrightarrow> levels_shape nc ls \<or> ls = [(A, None)] \<Longrightarrow>
     levels_shape n ((A, Some (m, inj_mat nc m)) # ls)"
  by auto

lemma build_loop_ends:
  assumes np: "numpy_lib np"
  shows "mat_ok n n A \<Longrightarrow> faces_ok n owner neighbour weights \<Longrightarrow> list_all (\<lambda>w. 0 < w) weights \<Longrightarrow> n < fuel \<Longrightarrow>
    \<exists>ls. build_loop np None target fuel A owner neighbour weights level = Inr ls \<and> levels_shape n ls"
proof (induction fuel arbitrary: n A owner neighbour weights level)
  case (Suc fuel)
  have n: "length A = n" using Suc.prems(1) by (simp add: mat_ok_def)
  have "list_all (\<lambda>w. - 1 < w) weights" using Suc.prems(3) by (auto simp: list_all_iff)
  then obtain m nc where pa: "pairwise_aggregate owner neighbour weights n = Inr (m, nc)"
    and m: "length m = n" "set m = {0..<nc}" using pairwise_labels [OF Suc.prems(2)] by blast
  show ?case
  proof (cases "n \<le> target \<or> int n \<le> nc")
    case True
    then show ?thesis using Suc.prems(1) n pa by (auto simp: choose_map_def)
  next
    case False
    then have ch: "choose_map None target (length A) owner neighbour weights level = Inr (Some (m, nc))"
      using n pa by (simp add: choose_map_def)
    have nc: "0 \<le> nc"
    proof -
      have "m \<noteq> []" using m(1) False by auto
      with labels_pos [OF m(2)] show ?thesis by simp
    qed
    then have m': "set m = {0..<int (nat nc)}" using m by simp
    obtain C where g: "galerkin np A m (nat nc) = Inr (C, inj_mat (nat nc) m)" and C: "mat_ok (nat nc) (nat nc) C"
      using galerkin_entries [OF np Suc.prems(1) m(1), of "nat nc"] m' False by auto
    obtain pairs where p: "coarse_pairs m owner neighbour weights = Inr pairs" "pairs_ok nc pairs"
      using coarse_pairs_ok [OF Suc.prems(2,3) m(1), of nc] m by auto
    have cf: "faces_ok (nat nc) (map fst (sort (keys pairs))) (map snd (sort (keys pairs)))
        (map (\<lambda>k. get_or pairs k 0) (sort (keys pairs)))"
      "list_all (\<lambda>w. 0 < w) (map (\<lambda>k. get_or pairs k 0) (sort (keys pairs)))"
      using coarse_faces_ok [of "nat nc" pairs] p(2) nc by auto
    have "nat nc < fuel" using False nc Suc.prems(4) by arith
    from Suc.IH [OF C cf this] obtain ls where
      "build_loop np None target fuel C (map fst (sort (keys pairs))) (map snd (sort (keys pairs)))
         (map (\<lambda>k. get_or pairs k 0) (sort (keys pairs))) (Suc level) = Inr ls" and "levels_shape (nat nc) ls" by blast
    then have r: "build_loop np None target (Suc fuel) A owner neighbour weights level =
        Inr ((A, Some (m, inj_mat (nat nc) m)) # (if pairs = [] then [(A, None)] else ls))"
      and sh: "levels_shape (nat nc) ls"
      using ch nc g p(1) by (simp_all add: Let_def)
    have "nat nc < n" using False nc by arith
    with sh have "levels_shape n ((A, Some (m, inj_mat (nat nc) m)) # (if pairs = [] then [(A, None)] else ls))"
      by (intro levels_shapeI [OF Suc.prems(1) m(1) _ m']) simp_all
    with r show ?thesis by blast
  qed
qed simp

end
