(* ===== verification/Amg_Cycles.thy ===== *)
theory Amg_Cycles
  imports Amg_Hierarchy
begin

text \<open>
  The cycles of \<open>demo/amgpcg/make_steps.py\<close>: the recorder of animation frames, the smoothers, the two V-cycles
  and the standalone GAMG cycle, the outer solvers and the command.  The recorder is the state that the operations
  thread.  The lemmas say that frames are numbered without gaps and carry one state row per cell, that a cycle on
  fitting levels returns, and that the recursion for the residual keeps it equal to
  what it stands for.
\<close>

subsection \<open>Constants\<close>

definition OMEGA_BRAE :: "'a::linordered_field" where "OMEGA_BRAE = 8 / 10"
definition NPRE_BRAE :: nat where "NPRE_BRAE = 1"
definition NPOST_BRAE :: nat where "NPOST_BRAE = 1"
definition OMEGA_AMGX :: "'a::linordered_field" where "OMEGA_AMGX = 75 / 100"
definition NPRE_AMGX :: nat where "NPRE_AMGX = 2"
definition NPOST_AMGX :: nat where "NPOST_AMGX = 2"
definition NPOST_OF :: nat where "NPOST_OF = 2"
definition NFINEST_OF :: nat where "NFINEST_OF = 2"

subsection \<open>The recorder\<close>

record frame =
  f_solver :: string
  f_step :: nat
  f_iter :: nat
  f_phase :: string
  f_grid :: nat
  f_ngrid :: nat
  f_detail :: string
  f_resnorm :: string

record state_row =
  s_solver :: string
  s_step :: nat
  s_grid :: nat
  s_cell :: nat
  s_x :: string
  s_r :: string

record recorder =
  r_solver :: string
  r_n_fine :: nat
  r_steps :: "frame list"
  r_state :: "state_row list"
  r_step :: nat

definition new_recorder :: "string \<Rightarrow> nat \<Rightarrow> recorder" where
  "new_recorder solver n = \<lparr>r_solver = solver, r_n_fine = n, r_steps = [], r_state = [], r_step = 0\<rparr>"

definition state_row_of :: "'a numpy \<Rightarrow> recorder \<Rightarrow> nat \<Rightarrow> 'a vec \<Rightarrow> 'a vec \<Rightarrow> nat \<Rightarrow> state_row res" where
  "state_row_of np rec grid x r cell =
     bindR (nth_or x cell) (\<lambda>xc. bindR (nth_or r cell) (\<lambda>rc.
       Inr \<lparr>s_solver = r_solver rec, s_step = r_step rec, s_grid = grid, s_cell = cell,
            s_x = np_e12 np xc, s_r = np_e12 np rc\<rparr>))"

definition rec_emit :: "'a numpy \<Rightarrow> nat \<Rightarrow> string \<Rightarrow> nat \<Rightarrow> 'a vec \<Rightarrow> 'a vec \<Rightarrow> string \<Rightarrow> 'a option \<Rightarrow> (recorder, unit) op" where
  "rec_emit np iteration phase grid x r detail resnorm rec =
     bindR (mapR (state_row_of np rec grid x r) [0..<length x]) (\<lambda>rows.
       Inr ((), rec\<lparr>
         r_steps := r_steps rec @ [\<lparr>f_solver = r_solver rec, f_step = r_step rec, f_iter = iteration, f_phase = phase,
           f_grid = grid, f_ngrid = length x, f_detail = detail,
           f_resnorm = (case resnorm of None \<Rightarrow> [] | Some v \<Rightarrow> np_e12 np v)\<rparr>],
         r_state := r_state rec @ rows,
         r_step := r_step rec + 1\<rparr>))"

subsection \<open>Smoothers\<close>

definition residual :: "'a::linordered_field numpy \<Rightarrow> 'a mat \<Rightarrow> 'a vec \<Rightarrow> 'a vec \<Rightarrow> 'a vec res" where
  "residual np A b x = bindR (np_matvec np A x) (\<lambda>Ax. vsub b Ax)"

definition jacobi_sweep :: "'a::linordered_field numpy \<Rightarrow> 'a mat \<Rightarrow> 'a vec \<Rightarrow> 'a vec \<Rightarrow> 'a \<Rightarrow> 'a vec res" where
  "jacobi_sweep np A b x omega =
     bindR (residual np A b x) (\<lambda>r.
     bindR (zip_with (/) (vscale omega r) (diag_of A)) (\<lambda>d. vadd x d))"

definition gs_update :: "'a::linordered_field numpy \<Rightarrow> 'a mat \<Rightarrow> 'a vec \<Rightarrow> 'a vec \<Rightarrow> nat \<Rightarrow> 'a vec res" where
  "gs_update np A b x i =
     bindR (nth_or b i) (\<lambda>bi. bindR (nth_or A i) (\<lambda>row.
     bindR (np_dot np row x) (\<lambda>d. bindR (nth_or row i) (\<lambda>a.
       Inr (x[i := (bi - d + a * x ! i) / a])))))"

text \<open>\<open>reverse\<close> is False at every call.\<close>

definition gauss_seidel_sweep :: "'a::linordered_field numpy \<Rightarrow> 'a mat \<Rightarrow> 'a vec \<Rightarrow> 'a vec \<Rightarrow> bool \<Rightarrow> 'a vec res" where
  "gauss_seidel_sweep np A b x reverse =
     foldR (gs_update np A b) x (if reverse then rev [0..<length x] else [0..<length x])"

subsection \<open>V-cycles\<close>

text \<open>
  The two cycles differ in the damping factor, the sweep counts, the solution of the coarsest grid and the texts of their
  frames, which are a record here.
\<close>

record 'a cycle =
  cy_omega :: 'a
  cy_npre :: nat
  cy_npost :: nat
  cy_text :: string
  cy_coarse :: "'a mat \<Rightarrow> 'a vec \<Rightarrow> 'a vec res"
  cy_coarse_text :: string

definition emit_res :: "'a::linordered_field numpy \<Rightarrow> nat \<Rightarrow> string \<Rightarrow> nat \<Rightarrow> 'a mat \<Rightarrow> 'a vec \<Rightarrow> 'a vec \<Rightarrow> string \<Rightarrow> 'a option \<Rightarrow>
    (recorder, unit) op" where
  "emit_res np iteration phase grid A b x detail resnorm =
     bindS (liftS (residual np A b x)) (\<lambda>r. rec_emit np iteration phase grid x r detail resnorm)"

text \<open>A number of sweeps, each recorded.\<close>

primrec smooth_loop :: "'a::linordered_field numpy \<Rightarrow> ('a vec \<Rightarrow> 'a vec res) \<Rightarrow> nat \<Rightarrow> nat \<Rightarrow> string \<Rightarrow> nat \<Rightarrow> 'a mat \<Rightarrow> 'a vec \<Rightarrow>
    string \<Rightarrow> 'a option \<Rightarrow> 'a vec \<Rightarrow> (recorder, 'a vec) op" where
  "smooth_loop np sweep 0 iteration phase grid A b detail resnorm x = retS x"
| "smooth_loop np sweep (Suc k) iteration phase grid A b detail resnorm x =
     bindS (liftS (sweep x)) (\<lambda>x1.
     bindS (emit_res np iteration phase grid A b x1 detail resnorm) (\<lambda>_.
       smooth_loop np sweep k iteration phase grid A b detail resnorm x1))"

text \<open>The levels from the current grid on; a grid below the last one is an IndexError.\<close>

fun vcycle :: "'a::linordered_field numpy \<Rightarrow> 'a cycle \<Rightarrow> 'a level list \<Rightarrow> nat \<Rightarrow> 'a vec \<Rightarrow> nat \<Rightarrow> 'a option \<Rightarrow>
    (recorder, 'a vec) op" where
  "vcycle np cy [] grid b iteration resnorm = liftS (Inl IndexError)"
| "vcycle np cy ((A, None) # ls) grid b iteration resnorm =
     bindS (liftS (cy_coarse cy A b)) (\<lambda>x.
     bindS (emit_res np iteration ''coarse_solve'' grid A b x
         (show_nat (length b) @ '' cells, '' @ cy_coarse_text cy) resnorm) (\<lambda>_.
       retS x))"
| "vcycle np cy ((A, Some (m, P)) # ls) grid b iteration resnorm =
     bindS (smooth_loop np (\<lambda>x. jacobi_sweep np A b x (cy_omega cy)) (cy_npre cy) iteration ''presmooth'' grid A b
         (cy_text cy) resnorm (zeros (length b))) (\<lambda>x.
     bindS (liftS (residual np A b x)) (\<lambda>r.
     bindS (rec_emit np iteration ''residual'' grid x r ''r = b - A x'' resnorm) (\<lambda>_.
     bindS (liftS (np_matvec np (transp (mat_cols P) P) r)) (\<lambda>bc.
     bindS (rec_emit np iteration ''restrict'' (grid + 1) (zeros (length bc)) bc
         (''inject '' @ show_nat (length r) @ '' -> '' @ show_nat (length bc) @ '' cells'') resnorm) (\<lambda>_.
     bindS (vcycle np cy ls (grid + 1) bc iteration resnorm) (\<lambda>xc.
     bindS (liftS (bindR (np_matvec np P xc) (vadd x))) (\<lambda>x1.
     bindS (emit_res np iteration ''prolong'' grid A b x1
         (''broadcast '' @ show_nat (length xc) @ '' -> '' @ show_nat (length x1) @ '' cells'') resnorm) (\<lambda>_.
       smooth_loop np (\<lambda>x. jacobi_sweep np A b x (cy_omega cy)) (cy_npost cy) iteration ''postsmooth'' grid A b
         (cy_text cy) resnorm x1))))))))"

primrec jacobi_solve :: "'a::linordered_field numpy \<Rightarrow> nat \<Rightarrow> 'a mat \<Rightarrow> 'a vec \<Rightarrow> 'a vec \<Rightarrow> 'a vec res" where
  "jacobi_solve np 0 A b x = Inr x"
| "jacobi_solve np (Suc k) A b x = bindR (jacobi_sweep np A b x OMEGA_BRAE) (jacobi_solve np k A b)"

definition brae_cycle :: "'a::linordered_field numpy \<Rightarrow> 'a cycle" where
  "brae_cycle np = \<lparr>cy_omega = OMEGA_BRAE, cy_npre = NPRE_BRAE, cy_npost = NPOST_BRAE,
     cy_text = ''damped Jacobi omega=0.8'',
     cy_coarse = (\<lambda>A b. jacobi_solve np 200 A b (zeros (length b))),
     cy_coarse_text = ''direct-strength Jacobi solve''\<rparr>"

definition vcycle_brae :: "'a::linordered_field numpy \<Rightarrow> 'a level list \<Rightarrow> nat \<Rightarrow> 'a vec \<Rightarrow> nat \<Rightarrow> 'a option \<Rightarrow> (recorder, 'a vec) op" where
  "vcycle_brae np levels = vcycle np (brae_cycle np) levels"

definition amgx_cycle :: "'a::linordered_field numpy \<Rightarrow> 'a cycle" where
  "amgx_cycle np = \<lparr>cy_omega = OMEGA_AMGX, cy_npre = NPRE_AMGX, cy_npost = NPOST_AMGX,
     cy_text = ''block Jacobi omega=0.75'',
     cy_coarse = np_solve np, cy_coarse_text = ''dense LU''\<rparr>"

definition vcycle_amgx :: "'a::linordered_field numpy \<Rightarrow> 'a level list \<Rightarrow> nat \<Rightarrow> 'a vec \<Rightarrow> nat \<Rightarrow> 'a option \<Rightarrow> (recorder, 'a vec) op" where
  "vcycle_amgx np levels = vcycle np (amgx_cycle np) levels"

subsection \<open>Outer solvers\<close>

text \<open>Division of Python floats.\<close>

definition py_div :: "'a::linordered_field \<Rightarrow> 'a \<Rightarrow> 'a res" where
  "py_div a b = (if b = 0 then Inl ZeroDivision else Inr (a / b))"

definition scale_correction :: "'a::linordered_field numpy \<Rightarrow> 'a mat \<Rightarrow> 'a vec \<Rightarrow> 'a vec \<Rightarrow> ('a vec \<times> 'a) res" where
  "scale_correction np A field source =
     bindR (np_matvec np A field) (\<lambda>Acf.
     bindR (np_dot np field source) (\<lambda>numerator.
     bindR (np_dot np field Acf) (\<lambda>denominator.
     let tiny = 1 / 10 ^ 300;
         den = (if 0 \<le> denominator then max denominator tiny else min denominator (- tiny)) in
     bindR (py_div numerator den) (\<lambda>sf.
     bindR (vsub source (vscale sf Acf)) (\<lambda>s.
     bindR (zip_with (/) s (diag_of A)) (\<lambda>d.
     bindR (vadd (vscale sf field) d) (\<lambda>f. Inr (f, sf))))))))"

text \<open>The state of the conjugate-gradient loops: the iterate, the residual, the direction with the last product, and the history.\<close>

record 'a cg =
  cg_x :: "'a vec"
  cg_r :: "'a vec"
  cg_p :: "('a vec \<times> 'a) option"
  cg_history :: "'a list"

definition cg_direction :: "'a::linordered_field vec \<Rightarrow> 'a \<Rightarrow> ('a vec \<times> 'a) option \<Rightarrow> 'a vec res" where
  "cg_direction z rho po =
     (case po of None \<Rightarrow> Inr z
      | Some (p, rho_old) \<Rightarrow> bindR (py_div rho rho_old) (\<lambda>beta. vadd z (vscale beta p)))"

definition cg_step :: "'a::linordered_field numpy \<Rightarrow> ('a vec \<Rightarrow> nat \<Rightarrow> 'a option \<Rightarrow> (recorder, 'a vec) op) \<Rightarrow> 'a mat \<Rightarrow> 'a \<Rightarrow>
    'a cg \<Rightarrow> nat \<Rightarrow> (recorder, 'a cg) op" where
  "cg_step np prec A norm_factor s iteration =
     (let x = cg_x s; r = cg_r s; resnorm = abs_sum r / norm_factor in
      bindS (rec_emit np iteration ''krylov_start'' 0 x r ''CG iteration begins'' (Some resnorm)) (\<lambda>_.
      bindS (prec r iteration (Some resnorm)) (\<lambda>z.
      bindS (liftS (np_dot np z r)) (\<lambda>rho.
      bindS (liftS (cg_direction z rho (cg_p s))) (\<lambda>p.
      bindS (liftS (np_matvec np A p)) (\<lambda>Ap.
      bindS (liftS (bindR (np_dot np p Ap) (py_div rho))) (\<lambda>alpha.
      bindS (liftS (vadd x (vscale alpha p))) (\<lambda>x1.
      bindS (liftS (vsub r (vscale alpha Ap))) (\<lambda>r1.
      let resnorm1 = abs_sum r1 / norm_factor in
      bindS (rec_emit np iteration ''krylov_update'' 0 x1 r1 (''x += '' @ np_f4 np alpha @ '' p'') (Some resnorm1)) (\<lambda>_.
        retS \<lparr>cg_x = x1, cg_r = r1, cg_p = Some (p, rho), cg_history = cg_history s @ [resnorm1]\<rparr>))))))))))"

definition cg_start :: "'a::linordered_field numpy \<Rightarrow> 'a mat \<Rightarrow> 'a vec \<Rightarrow> 'a cg res" where
  "cg_start np A b =
     bindR (residual np A b (zeros (length b))) (\<lambda>r.
       Inr \<lparr>cg_x = zeros (length b), cg_r = r, cg_p = None, cg_history = [abs_sum r / abs_sum b]\<rparr>)"

definition run_pcg :: "'a::linordered_field numpy \<Rightarrow> ('a vec \<Rightarrow> nat \<Rightarrow> 'a option \<Rightarrow> (recorder, 'a vec) op) \<Rightarrow> 'a mat \<Rightarrow> 'a vec \<Rightarrow> nat \<Rightarrow>
    (recorder, 'a cg) op" where
  "run_pcg np prec A b n_iter =
     bindS (liftS (cg_start np A b)) (\<lambda>s. foldS (cg_step np prec A (abs_sum b)) s [1..<Suc n_iter])"

definition run_brae :: "'a::linordered_field numpy \<Rightarrow> 'a level list \<Rightarrow> 'a mat \<Rightarrow> 'a vec \<Rightarrow> nat \<Rightarrow> (recorder, 'a list) op" where
  "run_brae np levels A b n_iter =
     bindS (run_pcg np (vcycle_brae np levels 0) A b n_iter) (\<lambda>s. retS (cg_history s))"

definition run_amgx :: "'a::linordered_field numpy \<Rightarrow> 'a level list \<Rightarrow> 'a mat \<Rightarrow> 'a vec \<Rightarrow> nat \<Rightarrow> (recorder, 'a list) op" where
  "run_amgx np levels A b n_iter =
     bindS (run_pcg np (vcycle_amgx np levels 0) A b n_iter) (\<lambda>s. retS (cg_history s))"

subsection \<open>OpenFOAM's GAMG\<close>

definition grid_map :: "'a level \<Rightarrow> 'a mat res" where
  "grid_map l = (case snd l of None \<Rightarrow> Inl AttributeError | Some (m, P) \<Rightarrow> Inr P)"

text \<open>The residual restricted down every level; the sources of the grids below the finest, in order.\<close>

fun restrict_down :: "'a::linordered_field numpy \<Rightarrow> nat \<Rightarrow> 'a option \<Rightarrow> 'a level list \<Rightarrow> nat \<Rightarrow> 'a vec \<Rightarrow> (recorder, 'a vec list) op" where
  "restrict_down np iteration resnorm (l # l' # ls) k current =
     bindS (liftS (bindR (grid_map l) (\<lambda>P. np_matvec np (transp (mat_cols P) P) current))) (\<lambda>c.
     bindS (rec_emit np iteration ''restrict'' (k + 1) (zeros (length c)) c
         (''inject '' @ show_nat (length (fst l)) @ '' -> '' @ show_nat (length c) @ '' cells'') resnorm) (\<lambda>_.
     bindS (restrict_down np iteration resnorm (l' # ls) (k + 1) c) (\<lambda>cs. retS (c # cs))))"
| "restrict_down np iteration resnorm _ k current = retS []"

text \<open>\<open>source[k]\<close>, a dictionary that has the grids from 1 on.\<close>

definition source_at :: "'a vec list \<Rightarrow> nat \<Rightarrow> 'a vec res" where
  "source_at srcs k = (if 1 \<le> k \<and> k \<le> length srcs then Inr (srcs ! (k - 1)) else Inl (KeyError (show_nat k)))"

definition scale_text :: "'a numpy \<Rightarrow> nat \<Rightarrow> nat \<Rightarrow> 'a \<Rightarrow> string" where
  "scale_text np a b sf = ''broadcast '' @ show_nat a @ '' -> '' @ show_nat b @ '', correction scale '' @ np_f3 np sf"

definition of_prolong :: "'a::linordered_field numpy \<Rightarrow> nat \<Rightarrow> 'a option \<Rightarrow> 'a level list \<Rightarrow> 'a vec list \<Rightarrow> 'a vec \<Rightarrow> nat \<Rightarrow>
    (recorder, 'a vec) op" where
  "of_prolong np iteration resnorm levels srcs corr k =
     bindS (liftS (nth_or levels k)) (\<lambda>l.
     bindS (liftS (bindR (grid_map l) (\<lambda>P. np_matvec np P corr))) (\<lambda>field0.
     bindS (liftS (source_at srcs k)) (\<lambda>src.
     bindS (liftS (scale_correction np (fst l) field0 src)) (\<lambda>(field, sf).
     bindS (emit_res np iteration ''prolong'' k (fst l) src field (scale_text np (length corr) (length field) sf) resnorm) (\<lambda>_.
       smooth_loop np (\<lambda>x. gauss_seidel_sweep np (fst l) src x False) NPOST_OF iteration ''postsmooth'' k (fst l) src
         ''Gauss-Seidel'' resnorm field)))))"

record 'a gamg =
  ga_x :: "'a vec"
  ga_residual :: "'a vec"
  ga_history :: "'a list"

definition of_anchor :: "'a::linordered_field numpy \<Rightarrow> (int, 'a vec) dict option \<Rightarrow> 'a mat \<Rightarrow> 'a vec \<Rightarrow> 'a gamg \<Rightarrow> nat \<Rightarrow> 'a gamg res" where
  "of_anchor np anchor A b s iteration =
     (case anchor of None \<Rightarrow> Inr s
      | Some d \<Rightarrow>
          (case dict_get d (int iteration - 1) of None \<Rightarrow> Inr s
           | Some x \<Rightarrow> bindR (residual np A b x) (\<lambda>r. Inr (s\<lparr>ga_x := x, ga_residual := r\<rparr>))))"

definition of_cycle :: "'a::linordered_field numpy \<Rightarrow> 'a level list \<Rightarrow> 'a mat \<Rightarrow> 'a vec \<Rightarrow> 'a \<Rightarrow> (int, 'a vec) dict option \<Rightarrow>
    'a gamg \<Rightarrow> nat \<Rightarrow> (recorder, 'a gamg) op" where
  "of_cycle np levels A b norm_factor anchor s0 iteration =
     (let coarsest = length levels - 1 in
      bindS (liftS (of_anchor np anchor A b s0 iteration)) (\<lambda>s.
      let x = ga_x s; res = ga_residual s; resnorm = abs_sum res / norm_factor in
      bindS (rec_emit np iteration ''krylov_start'' 0 x res
          ''GAMG cycle begins (standalone, no Krylov outer)'' (Some resnorm)) (\<lambda>_.
      bindS (restrict_down np iteration (Some resnorm) levels 0 res) (\<lambda>srcs.
      bindS (liftS (nth_or levels coarsest)) (\<lambda>lc.
      bindS (liftS (source_at srcs coarsest)) (\<lambda>sc.
      bindS (liftS (np_solve np (fst lc) sc)) (\<lambda>cc.
      bindS (emit_res np iteration ''coarse_solve'' coarsest (fst lc) sc cc
          (show_nat (length (fst lc)) @ '' cells, dense direct solve'') (Some resnorm)) (\<lambda>_.
      bindS (foldS (of_prolong np iteration (Some resnorm) levels srcs) cc (rev [1..<coarsest])) (\<lambda>c1.
      bindS (liftS (nth_or levels 0)) (\<lambda>l0.
      bindS (liftS (bindR (grid_map l0) (\<lambda>P. np_matvec np P c1))) (\<lambda>f0.
      bindS (liftS (scale_correction np A f0 res)) (\<lambda>(finest, sf).
      bindS (liftS (vadd x finest)) (\<lambda>x1.
      bindS (emit_res np iteration ''prolong'' 0 A b x1 (scale_text np (length c1) (length x1) sf) (Some resnorm)) (\<lambda>_.
      bindS (smooth_loop np (\<lambda>x. gauss_seidel_sweep np A b x False) NFINEST_OF iteration ''postsmooth'' 0 A b
          ''finest-grid Gauss-Seidel'' (Some resnorm) x1) (\<lambda>x2.
      bindS (liftS (residual np A b x2)) (\<lambda>r2.
      let resnorm2 = abs_sum r2 / norm_factor in
      bindS (rec_emit np iteration ''krylov_update'' 0 x2 r2 ''cycle complete'' (Some resnorm2)) (\<lambda>_.
        retS \<lparr>ga_x = x2, ga_residual = r2, ga_history = ga_history s @ [resnorm2]\<rparr>)))))))))))))))))"

definition run_of :: "'a::linordered_field numpy \<Rightarrow> 'a level list \<Rightarrow> 'a mat \<Rightarrow> 'a vec \<Rightarrow> nat \<Rightarrow> (int, 'a vec) dict option \<Rightarrow>
    (recorder, 'a list) op" where
  "run_of np levels A b n_iter anchor =
     bindS (liftS (residual np A b (zeros (length b)))) (\<lambda>r.
     bindS (foldS (of_cycle np levels A b (abs_sum b) anchor)
         \<lparr>ga_x = zeros (length b), ga_residual = r, ga_history = [abs_sum r / abs_sum b]\<rparr> [1..<Suc n_iter]) (\<lambda>s.
       retS (ga_history s)))"

subsection \<open>Frames are numbered and complete\<close>

text \<open>
  The invariant of the recorder: the frames are numbered from 0 in order, and the state rows are, frame by frame, one row
  for each cell of the frame's grid.
\<close>

definition rec_ok :: "recorder \<Rightarrow> bool" where
  "rec_ok rec \<longleftrightarrow>
     map f_step (r_steps rec) = [0..<r_step rec] \<and>
     map (\<lambda>s. (s_step s, s_grid s, s_cell s)) (r_state rec) =
       concat (map (\<lambda>f. map (\<lambda>c. (f_step f, f_grid f, c)) [0..<f_ngrid f]) (r_steps rec))"

lemma new_recorder_ok: "rec_ok (new_recorder solver n)"
  by (simp add: rec_ok_def new_recorder_def)

lemma state_rows_place:
  "mapR (state_row_of np rec grid x r) cs = Inr rows \<Longrightarrow>
     map (\<lambda>s. (s_step s, s_grid s, s_cell s)) rows = map (\<lambda>c. (r_step rec, grid, c)) cs"
  by (induction cs arbitrary: rows) (auto simp: bindR_Inr_iff state_row_of_def)

lemma keeps_rec_emit [keeping]: "keeps rec_ok (rec_emit np iteration phase grid x r detail resnorm)"
  by (auto simp: keeps_def rec_emit_def bindR_Inr_iff rec_ok_def dest: state_rows_place)

lemma keeps_emit_res [keeping]: "keeps rec_ok (emit_res np iteration phase grid A b x detail resnorm)"
  unfolding emit_res_def by (intro keeping)

lemma keeps_smooth_loop [keeping]:
  "keeps rec_ok (smooth_loop np sweep k iteration phase grid A b detail resnorm x)"
  by (induction k arbitrary: x) (auto intro!: keeping)

lemma keeps_vcycle [keeping]: "keeps rec_ok (vcycle np cy ls grid b iteration resnorm)"
  by (induction np cy ls grid b iteration resnorm rule: vcycle.induct) (simp_all, (intro keeping | assumption)+)

lemma keeps_cg_step:
  "(\<And>r i v. keeps rec_ok (prec r i v)) \<Longrightarrow> keeps rec_ok (cg_step np prec A nf s iteration)"
  unfolding cg_step_def Let_def by (intro keeping)

lemma keeps_run_pcg:
  "(\<And>r i v. keeps rec_ok (prec r i v)) \<Longrightarrow> keeps rec_ok (run_pcg np prec A b n_iter)"
  unfolding run_pcg_def by (intro keeping keeps_cg_step)

lemma keeps_run_brae: "keeps rec_ok (run_brae np levels A b n_iter)"
  unfolding run_brae_def vcycle_brae_def by (intro keeping keeps_run_pcg)

lemma keeps_run_amgx: "keeps rec_ok (run_amgx np levels A b n_iter)"
  unfolding run_amgx_def vcycle_amgx_def by (intro keeping keeps_run_pcg)

lemma keeps_restrict_down [keeping]: "keeps rec_ok (restrict_down np iteration resnorm ls k current)"
  by (induction np iteration resnorm ls k current rule: restrict_down.induct) (simp_all, (intro keeping | assumption)+)

lemma keeps_case_pair [keeping]: "(\<And>a b. keeps I (f a b)) \<Longrightarrow> keeps I (case p of (a, b) \<Rightarrow> f a b)"
  by (cases p) simp

lemma keeps_of_prolong [keeping]: "keeps rec_ok (of_prolong np iteration resnorm levels srcs corr k)"
  unfolding of_prolong_def by (intro keeping)

lemma keeps_of_cycle [keeping]: "keeps rec_ok (of_cycle np levels A b nf anchor s iteration)"
  unfolding of_cycle_def Let_def by (intro keeping)

lemma keeps_run_of: "keeps rec_ok (run_of np levels A b n_iter anchor)"
  unfolding run_of_def by (intro keeping)

subsection \<open>The state of the conjugate-gradient loop\<close>

text \<open>Vectors of the right length, and a residual that is the residual of the iterate.\<close>

definition cg_ok :: "nat \<Rightarrow> 'a::linordered_field mat \<Rightarrow> 'a vec \<Rightarrow> 'a cg \<Rightarrow> bool" where
  "cg_ok n A b s \<longleftrightarrow> length (cg_x s) = n \<and> cg_r s = map2 (-) b (mat_vec A (cg_x s))
     \<and> (case cg_p s of None \<Rightarrow> True | Some (p, _) \<Rightarrow> length p = n)"

subsection \<open>Cycles on fitting levels return\<close>

lemma rec_emit_returns: "length r = length x \<Longrightarrow> returns (rec_emit np iteration phase grid x r detail resnorm) (\<lambda>_. True)"
proof -
  assume l: "length r = length x"
  have "\<exists>rows. mapR (state_row_of np rec grid x r) cs = Inr rows" if "set cs \<subseteq> {..<length x}" for rec cs
    using that by (induction cs) (auto simp: state_row_of_def l)
  then have "\<exists>rows. mapR (state_row_of np rec grid x r) [0..<length x] = Inr rows" for rec
    by (simp add: atLeast_upt)
  then show ?thesis unfolding returns_def rec_emit_def by (metis bindR_simps(2))
qed

context numpy_lib
begin

lemma residual_eq:
  "mat_ok n n A \<Longrightarrow> 0 < n \<Longrightarrow> length b = n \<Longrightarrow> length x = n \<Longrightarrow> residual np A b x = Inr (map2 (-) b (mat_vec A x))"
  using matvec [of n n A x] by (simp add: residual_def mat_ok_def)

lemma jacobi_returns:
  assumes "mat_ok n n A" and "0 < n" and "length b = n" and "length x = n"
  shows "\<exists>x'. jacobi_sweep np A b x w = Inr x' \<and> length x' = n"
proof -
  have "length A = n" using assms(1) by (simp add: mat_ok_def)
  then show ?thesis using residual_eq [OF assms] assms(3,4) by (simp add: jacobi_sweep_def)
qed

lemma emit_res_returns:
  assumes "mat_ok n n A" and "0 < n" and "length b = n" and "length x = n"
  shows "returns (emit_res np iteration phase grid A b x detail resnorm) (\<lambda>_. True)"
proof -
  have "length A = n" using assms(1) by (simp add: mat_ok_def)
  then show ?thesis unfolding emit_res_def
    by (intro returns_bind [OF returns_lift [OF residual_eq [OF assms], of "\<lambda>r. length r = n"]] rec_emit_returns)
      (simp_all add: assms)
qed

lemma smooth_loop_returns:
  assumes "mat_ok n n A" and "0 < n" and "length b = n"
    and sweep: "\<And>x. length x = n \<Longrightarrow> \<exists>x'. sweep x = Inr x' \<and> length x' = n"
  shows "length x = n \<Longrightarrow>
    returns (smooth_loop np sweep k iteration phase grid A b detail resnorm x) (\<lambda>x. length x = n)"
proof (induction k arbitrary: x)
  case 0
  then show ?case by (simp add: returns_ret)
next
  case (Suc k)
  from sweep [OF Suc.prems] obtain x1 where x1: "sweep x = Inr x1" "length x1 = n" by blast
  show ?case unfolding smooth_loop.simps
    by (rule returns_bind [OF returns_lift [OF x1(1), of "\<lambda>y. y = x1"]], simp)
      (auto intro!: returns_bind [OF emit_res_returns [OF assms(1-3) x1(2)]] Suc.IH [OF x1(2)])
qed

text \<open>What a cycle needs of its coarsest grid: a solution of the right length.\<close>

lemma vcycle_returns:
  assumes coarse: "\<And>A b n. mat_ok n n A \<Longrightarrow> 0 < n \<Longrightarrow> length b = n \<Longrightarrow> \<exists>x. cy_coarse cy A b = Inr x \<and> length x = n"
  shows "levels_ok n ls \<Longrightarrow> 0 < n \<Longrightarrow> length b = n \<Longrightarrow>
    returns (vcycle np cy ls grid b iteration resnorm) (\<lambda>x. length x = n)"
proof (induction ls arbitrary: n grid b)
  case (Cons l ls)
  obtain A mp where l: "l = (A, mp)" by (cases l)
  show ?case
  proof (cases mp)
    case None
    then have A: "mat_ok n n A" using Cons.prems l by simp
    from coarse [OF A Cons.prems(2,3)] obtain x where x: "cy_coarse cy A b = Inr x" "length x = n" by blast
    show ?thesis unfolding l None vcycle.simps
      by (rule returns_bind [OF returns_lift [OF x(1), of "\<lambda>y. y = x"]], simp)
        (auto intro!: returns_bind [OF emit_res_returns [OF A Cons.prems(2,3) x(2)]] returns_ret simp: x)
  next
    case (Some mP)
    obtain m P where mP: "mP = (m, P)" by (cases mP)
    from Cons.prems l Some mP obtain nc where A: "mat_ok n n A" and m: "length m = n" "set m = {0..<int nc}"
      and P: "P = inj_mat nc m" and ls: "levels_ok nc ls" by auto
    have nc: "0 < nc" using labels_pos [OF m(2)] m(1) Cons.prems(2) by auto
    have Pok: "mat_ok n nc P" using inj_mat_ok [of m nc] m(1) P by simp
    have cols: "mat_cols P = nc" using mat_cols_ok [OF Pok Cons.prems(2)] .
    note A' = A Cons.prems(2,3)
    have lenA: "length A = n" using A by (simp add: mat_ok_def)
    have sw: "\<exists>x'. jacobi_sweep np A b x (cy_omega cy) = Inr x' \<and> length x' = n" if "length x = n" for x
      using jacobi_returns [OF A' that] .
    have resid: "returns (liftS (residual np A b x)) (\<lambda>r. length r = n)" if "length x = n" for x
      using residual_eq [OF A' that] by (rule returns_lift) (simp add: lenA Cons.prems(3))
    have restr: "returns (liftS (np_matvec np (transp nc P) r)) (\<lambda>c. length c = nc)" if "length r = n" for r
      by (rule returns_lift [of _ "mat_vec (transp nc P) r"])
        (simp_all add: matvec [OF transp_ok [OF Pok] nc] that)
    have prol: "returns (liftS (bindR (np_matvec np P xc) (vadd x))) (\<lambda>x. length x = n)"
      if "length x = n" "length xc = nc" for x xc
      by (rule returns_lift [of _ "map2 (+) x (mat_vec P xc)"])
        (use that Pok in \<open>simp_all add: matvec [OF Pok Cons.prems(2)] mat_ok_def\<close>)
    show ?thesis unfolding l Some mP vcycle.simps cols
      by (intro returns_bind [OF smooth_loop_returns [OF A' sw]] returns_bind [OF resid]
          returns_bind [OF rec_emit_returns] returns_bind [OF restr] returns_bind [OF Cons.IH [OF ls nc]]
          returns_bind [OF prol] returns_bind [OF emit_res_returns [OF A']] smooth_loop_returns [OF A' sw])
        (simp_all add: Cons.prems(3))
  qed
qed simp

lemma jacobi_solve_returns:
  assumes "mat_ok n n A" and "0 < n" and "length b = n"
  shows "length x = n \<Longrightarrow> \<exists>x'. jacobi_solve np k A b x = Inr x' \<and> length x' = n"
proof (induction k arbitrary: x)
  case (Suc k)
  from jacobi_returns [OF assms Suc.prems, of OMEGA_BRAE] Suc.IH show ?case by auto
qed simp

lemma vcycle_brae_returns:
  assumes "levels_ok n ls" and "0 < n" and "length b = n"
  shows "returns (vcycle_brae np ls grid b iteration resnorm) (\<lambda>x. length x = n)"
  unfolding vcycle_brae_def
proof (rule vcycle_returns [OF _ assms])
  fix A :: "'a mat" and b :: "'a vec" and n
  assume "mat_ok n n A" "0 < n" "length b = n"
  then show "\<exists>x. cy_coarse (brae_cycle np) A b = Inr x \<and> length x = n"
    using jacobi_solve_returns [of n A b "zeros n" 200] by (simp add: brae_cycle_def)
qed

text \<open>The residual that the conjugate-gradient loop carries is the residual of its iterate.\<close>

lemma cg_direction_length:
  "cg_direction z rho po = Inr p \<Longrightarrow> length z = n \<Longrightarrow> (case po of None \<Rightarrow> True | Some (q, _) \<Rightarrow> length q = n) \<Longrightarrow> length p = n"
  by (auto simp: cg_direction_def bindR_Inr_iff split: option.splits)

lemma residual_update:
  assumes "mat_ok n n A" and "length b = n" and "length x = n" and "length p = n"
  shows "map2 (-) (map2 (-) b (mat_vec A x)) (vscale a (mat_vec A p)) = map2 (-) b (mat_vec A (map2 (+) x (vscale a p)))"
proof -
  have "length A = n" using assms(1) by (simp add: mat_ok_def)
  then show ?thesis
    unfolding mat_vec_axpy [OF assms(1,3,4)]
    using assms(2) by (simp add: list_eq_iff_nth_eq vscale_def algebra_simps)
qed

lemma cg_step_ok:
  assumes A: "mat_ok n n A" and n: "0 < n" and b: "length b = n"
    and prec: "\<And>r i v. length r = n \<Longrightarrow> yields (prec r i v) (\<lambda>z. length z = n)"
    and s: "cg_ok n A b s"
  shows "yields (cg_step np prec A nf s i) (cg_ok n A b)"
  unfolding yields_def
proof (intro allI impI)
  fix rec s' rec'
  assume st: "cg_step np prec A nf s i rec = Inr (s', rec')"
  have lenA: "length A = n" using A by (simp add: mat_ok_def)
  have x: "length (cg_x s) = n" and r: "cg_r s = map2 (-) b (mat_vec A (cg_x s))" "length (cg_r s) = n"
    using s lenA b by (simp_all add: cg_ok_def)
  from st obtain z rec1 rec2 v rho p Ap alpha where z: "prec (cg_r s) i v rec1 = Inr (z, rec2)"
    and p: "cg_direction z rho (cg_p s) = Inr p" and Ap: "np_matvec np A p = Inr Ap"
    and x1: "vadd (cg_x s) (vscale alpha p) = Inr (cg_x s')" and r1: "vsub (cg_r s) (vscale alpha Ap) = Inr (cg_r s')"
    and p1: "cg_p s' = Some (p, rho)"
    unfolding cg_step_def Let_def bindS_Inr_iff liftS_Inr_iff retS_Inr_iff by auto
  have "length z = n" using prec [OF r(2), of i v] z unfolding yields_def by blast
  then have lp: "length p = n" using cg_direction_length [OF p] s by (simp add: cg_ok_def)
  then have "Ap = mat_vec A p" using matvec [OF A n, of p] Ap by simp
  then have "cg_x s' = map2 (+) (cg_x s) (vscale alpha p)" "cg_r s' = map2 (-) (cg_r s) (vscale alpha (mat_vec A p))"
    using x1 r1 x r(2) lp lenA by simp_all
  then show "cg_ok n A b s'"
    using residual_update [OF A b x lp, of alpha] r(1) lp x p1 by (simp add: cg_ok_def)
qed

lemma cg_start_ok:
  assumes "mat_ok n n A" and "0 < n" and "length b = n"
  shows "yields (liftS (cg_start np A b)) (cg_ok n A b)"
  by (rule yields_lift) (use residual_eq [OF assms, of "zeros n"] assms(3) in \<open>auto simp: cg_start_def cg_ok_def\<close>)

lemma run_pcg_ok:
  assumes "mat_ok n n A" and "0 < n" and "length b = n"
    and "\<And>r i v. length r = n \<Longrightarrow> yields (prec r i v) (\<lambda>z. length z = n)"
  shows "yields (run_pcg np prec A b k) (cg_ok n A b)"
  unfolding run_pcg_def
  by (intro yields_bind [OF cg_start_ok [OF assms(1-3)]] yields_fold cg_step_ok [OF assms]) assumption+

end

end
