(* ===== verification/Amg_Steps.thy ===== *)
theory Amg_Steps
  imports Amg_Cycles Complex_Main
begin

text \<open>
  The command of \<open>demo/amgpcg/make_steps.py\<close>: it reads the dumped system and hierarchies, runs the three solvers, compares
  them with the dumped cycles and collects the four tables it writes.  The tables are the rows; their CSV text is the
  \<open>csv\<close> module's.
\<close>

subsection \<open>The reference cycles\<close>

definition psi_row :: "'a::linordered_field numpy \<Rightarrow> nat \<Rightarrow> (int, 'a vec) dict \<Rightarrow> csv_row \<Rightarrow> (int, 'a vec) dict res" where
  "psi_row np n psi row =
     bindR (csv_float np row ''psi'') (\<lambda>v.
     bindR (csv_int row ''cycle'') (\<lambda>cyc.
     bindR (csv_int row ''cell'') (\<lambda>cell.
     bindR (arr_set (get_or psi cyc (zeros n)) cell v) (\<lambda>x. Inr (dict_set cyc x psi)))))"

definition read_reference :: "'a::linordered_field numpy \<Rightarrow> fsys \<Rightarrow> string \<Rightarrow> nat \<Rightarrow> (int, 'a vec) dict option res" where
  "read_reference np fs path n =
     (if \<not> fs_exists fs path then Inr None
      else bindR (read_text fs path) (\<lambda>t. bindR (foldR (psi_row np n) [] (csv_rows t)) (\<lambda>psi. Inr (Some psi))))"

text \<open>\<open>np.abs(v).max()\<close>, which raises on an empty array.\<close>

definition abs_max :: "'a::linordered_field vec \<Rightarrow> 'a res" where
  "abs_max v = (if v = [] then Inl ValueError else Inr (Max (set (map abs v))))"

definition update_rows :: "nat \<Rightarrow> frame list \<Rightarrow> frame list" where
  "update_rows iteration steps = filter (\<lambda>s. f_iter s = iteration \<and> f_phase s = ''krylov_update'') steps"

definition deviation_at :: "'a::linordered_field numpy \<Rightarrow> nat \<Rightarrow> string \<Rightarrow> (int, 'a vec) dict \<Rightarrow> frame list \<Rightarrow> state_row list \<Rightarrow>
    nat \<Rightarrow> 'a list res" where
  "deviation_at np n name ref steps state iteration =
     (let rows = update_rows iteration steps
      in if rows = [] then Inr []
         else
           (let step = f_step (last rows); x_ref = get_or ref (int iteration) (zeros n) in
            bindR (mapR (\<lambda>s. np_float np (s_x s)) (filter (\<lambda>s. s_solver s = name \<and> s_step s = step) state)) (\<lambda>x_mine.
            bindR (abs_max x_ref) (\<lambda>mx.
            bindR (vsub x_mine x_ref) (\<lambda>d.
            bindR (abs_max d) (\<lambda>md. Inr [md / max mx (1 / 10 ^ 30)]))))))"

definition deviations :: "'a::linordered_field numpy \<Rightarrow> nat \<Rightarrow> nat \<Rightarrow> string \<Rightarrow> (int, 'a vec) dict \<Rightarrow> frame list \<Rightarrow> state_row list \<Rightarrow>
    'a list res" where
  "deviations np n iters name ref steps state =
     (if ref = [] then Inl ValueError
      else bindR (mapR (deviation_at np n name ref steps state)
             [1..<Suc (nat (min (int iters) (Max (set (keys ref)))))]) (\<lambda>ds. Inr (concat ds)))"

subsection \<open>The solvers of the command\<close>

datatype runner = RunOf | RunAmgx | RunBrae

type_synonym 'a config = "string \<times> 'a level list \<times> runner"

definition run_config :: "'a::linordered_field numpy \<Rightarrow> 'a mat \<Rightarrow> 'a vec \<Rightarrow> nat \<Rightarrow> (int, 'a vec) dict option \<Rightarrow> 'a config \<Rightarrow>
    (recorder, 'a list) op" where
  "run_config np A b iters ref c =
     (case c of (name, levels, runner) \<Rightarrow>
        case runner of
          RunOf \<Rightarrow> run_of np levels A b iters ref
        | RunAmgx \<Rightarrow> run_amgx np levels A b iters
        | RunBrae \<Rightarrow> run_brae np levels A b iters)"

text \<open>What the loop over the solvers accumulates; a validation without a value is NaN.\<close>

record 'a acc =
  ac_steps :: "frame list"
  ac_state :: "state_row list"
  ac_validation :: "(string \<times> 'a option) list"
  ac_out :: "string list"

definition solver_line :: "'a numpy \<Rightarrow> string \<Rightarrow> recorder \<Rightarrow> 'a list \<Rightarrow> string" where
  "solver_line np name rec h =
     ''  '' @ name @ '': '' @ show_nat (length (r_steps rec)) @ '' frames, resnorm '' @ np_e2 np (hd h) @ '' -> '' @ np_e2 np (last h)"

definition one_config :: "'a::linordered_field numpy \<Rightarrow> fsys \<Rightarrow> string \<Rightarrow> 'a mat \<Rightarrow> 'a vec \<Rightarrow> nat \<Rightarrow> 'a acc \<Rightarrow> 'a config \<Rightarrow> 'a acc res" where
  "one_config np fs trace A b iters acc c =
     (let name = fst c; n = length A in
      bindR (read_reference np fs (path_join trace (name @ ''_cycles.csv'')) n) (\<lambda>ref.
      bindR (run_config np A b iters ref c (new_recorder name n)) (\<lambda>(h, rec).
      let state = ac_state acc @ r_state rec in
      bindR (case ref of None \<Rightarrow> Inr []
             | Some d \<Rightarrow> bindR (deviations np n iters name d (r_steps rec) state) (\<lambda>ds.
                 Inr [(name, if ds = [] then None else Some (Max (set ds)))])) (\<lambda>v.
        Inr \<lparr>ac_steps = ac_steps acc @ r_steps rec, ac_state = state, ac_validation = ac_validation acc @ v,
             ac_out = ac_out acc @ [solver_line np name rec h]\<rparr>))))"

subsection \<open>The grids and their aggregates\<close>

record grid_row =
  g_solver :: string
  g_grid :: nat
  g_row :: nat
  g_col :: nat
  g_value :: string

type_synonym aggregate_row = "string \<times> nat \<times> nat \<times> int"

definition grid_rows_of :: "'a::linordered_field numpy \<Rightarrow> string \<Rightarrow> nat \<Rightarrow> 'a mat \<Rightarrow> grid_row list" where
  "grid_rows_of np name grid A =
     concat (map (\<lambda>i. concat (map (\<lambda>j.
       if A ! i ! j \<noteq> 0 then [\<lparr>g_solver = name, g_grid = grid, g_row = i, g_col = j, g_value = np_e12 np (A ! i ! j)\<rparr>] else [])
       [0..<mat_cols A])) [0..<length A])"

text \<open>\<open>chain = cell_map[chain]\<close>.\<close>

fun aggregate_rows_of :: "string \<Rightarrow> nat \<Rightarrow> int list \<Rightarrow> 'a level list \<Rightarrow> aggregate_row list res" where
  "aggregate_rows_of name grid chain [] = Inr []"
| "aggregate_rows_of name grid chain ((A, mp) # ls) =
     bindR (case mp of None \<Rightarrow> Inr chain | Some (m, P) \<Rightarrow> mapR (arr_get m) chain) (\<lambda>chain1.
     bindR (aggregate_rows_of name (Suc grid) chain1 ls) (\<lambda>rest.
       Inr (map (\<lambda>cell. (name, grid, cell, chain ! cell)) [0..<length chain] @ rest)))"

subsection \<open>The command\<close>

record 'a tables =
  tb_exit :: nat
  tb_out :: "string list"
  tb_grids :: "grid_row list"
  tb_aggregates :: "aggregate_row list"
  tb_steps :: "frame list"
  tb_state :: "state_row list"

definition show_sizes :: "int list list \<Rightarrow> string" where
  "show_sizes ms = ''['' @ join '', '' (map (\<lambda>m. show_nat (length m)) ms) @ '']''"

definition verdict_line :: "'a::linordered_field numpy \<Rightarrow> string \<times> 'a option \<Rightarrow> string" where
  "verdict_line np v =
     ''  '' @ ljust 10 (fst v) @ '' '' @ (case snd v of None \<Rightarrow> ''nan'' | Some d \<Rightarrow> np_e3 np d) @ ''  ''
     @ (case snd v of None \<Rightarrow> ''DIFFERS'' | Some d \<Rightarrow> if d < 1 / 10 ^ 6 then ''MATCHES'' else ''DIFFERS'')"

definition system_lines :: "'a numpy \<Rightarrow> 'a mat \<Rightarrow> nat \<Rightarrow> int list list \<Rightarrow> int list list \<Rightarrow> string list" where
  "system_lines np A nf of_maps brae_maps =
     [''system: '' @ show_nat (length A) @ '' cells, '' @ show_nat nf @ '' internal faces, cond='' @ np_cond np A,
      ''hierarchies: OpenFOAM '' @ show_sizes of_maps @ '' (real dump), brae '' @ show_sizes brae_maps
        @ '' (real dump), AMGX reconstructed'']"

definition result_lines :: "'a::linordered_field numpy \<Rightarrow> string \<Rightarrow> nat \<Rightarrow> nat \<Rightarrow> 'a acc \<Rightarrow> string list" where
  "result_lines np trace ngrids naggs acc =
     [''wrote '' @ trace @ ''/grids.csv ('' @ show_nat ngrids @ '' nonzeros)'',
      ''wrote '' @ trace @ ''/aggregates.csv ('' @ show_nat naggs @ '' rows)'',
      [nl] @ ''wrote '' @ trace @ ''/steps.csv ('' @ show_nat (length (ac_steps acc)) @ '' frames)'',
      ''wrote '' @ trace @ ''/state.csv ('' @ show_nat (length (ac_state acc)) @ '' rows)'',
      [nl] @ ''validation -- reference cycle body vs the real solver'' @ [squote] @ ''s own dumped psi'',
      ''(relative max deviation over the traced iterations; small = the reference'',
      '' implementation reproduces the real solver step for step)'']
     @ map (verdict_line np) (ac_validation acc)"

definition read_case :: "fsys \<Rightarrow> string \<Rightarrow> string \<Rightarrow> (string \<Rightarrow> 'b res) \<Rightarrow> 'b res" where
  "read_case fs trace name f = bindR (read_text fs (path_join trace name)) f"

definition am_main :: "'a::linordered_field numpy \<Rightarrow> fsys \<Rightarrow> string \<Rightarrow> nat \<Rightarrow> 'a tables res" where
  "am_main np fs path iters =
     (let trace = path_join path ''trace'' in
      bindR (read_case fs trace ''matrix.csv'' (read_ldu np)) (\<lambda>(dg, up, lo, owner, neighbour).
      bindR (dense (dg, up, lo, owner, neighbour)) (\<lambda>A.
      bindR (read_case fs trace ''rhs.csv'' (\<lambda>t. read_rhs np t (length A))) (\<lambda>b.
      let weights = replicate (length owner) 1 in
      bindR (read_case fs trace ''of_hierarchy.csv'' read_hierarchy) (\<lambda>of_maps.
      bindR (read_case fs trace ''brae_hierarchy.csv'' read_hierarchy) (\<lambda>brae_maps.
      bindR (build_levels np A owner neighbour weights (Some of_maps) 4) (\<lambda>l_of.
      bindR (build_levels np A owner neighbour weights None 2) (\<lambda>l_amgx.
      bindR (build_levels np A owner neighbour weights (Some brae_maps) 4) (\<lambda>l_brae.
      let configs = [(''of_gamg'', l_of, RunOf), (''amgx'', l_amgx, RunAmgx), (''brae'', l_brae, RunBrae)] in
      bindR (foldR (one_config np fs trace A b iters)
          \<lparr>ac_steps = [], ac_state = [], ac_validation = [], ac_out = []\<rparr> configs) (\<lambda>acc.
      let grids = concat (map (\<lambda>(name, levels, _).
            concat (map (\<lambda>(g, l). grid_rows_of np name g (fst l)) (enumerate 0 levels))) configs) in
      bindR (mapR (\<lambda>(name, levels, _). aggregate_rows_of name 0 (map int [0..<length A]) levels) configs) (\<lambda>aggs.
        Inr \<lparr>tb_exit = 0,
             tb_out = system_lines np A (length owner) of_maps brae_maps @ ac_out acc
               @ result_lines np trace (length grids) (length (concat aggs)) acc,
             tb_grids = grids, tb_aggregates = concat aggs, tb_steps = ac_steps acc, tb_state = ac_state acc\<rparr>)))))))))))"

subsection \<open>A hierarchy that ends in one cell\<close>

lemma coarse_pairs_one:
  assumes "faces_ok n owner neighbour weights"
  shows "coarse_pairs (replicate n 0) owner neighbour weights = Inr []"
proof -
  have "foldR (pair_step (replicate n 0) owner neighbour weights) [] [0..<k] = Inr []" if "k \<le> length owner" for k
    using that
  proof (induction k)
    case (Suc k)
    with faces_okD [OF assms, of k] show ?case by (simp add: foldR_append pair_step_def)
  qed simp
  then show ?thesis by (simp add: coarse_pairs_def)
qed

context numpy_lib
begin

lemma build_one_cell:
  assumes "mat_ok n n A" and "0 < n" and "faces_ok n owner neighbour weights"
  shows "build_levels np A owner neighbour weights (Some [replicate n 0]) target =
    Inr [(A, Some (replicate n 0, inj_mat 1 (replicate n 0))), (A, None)]"
proof -
  obtain C where "galerkin np A (replicate n 0) 1 = Inr (C, inj_mat 1 (replicate n 0))"
    using galerkin_entries [OF numpy_lib_axioms assms(1), of "replicate n 0" 1] assms(2) by auto
  then show ?thesis
    using assms(2) coarse_pairs_one [OF assms(3)] by (simp add: build_levels_def level_fuel_def choose_map_def)
qed

lemma coarse_jacobi_raises:
  assumes "mat_ok n n A" and "0 < n" and "length b \<noteq> n"
  shows "cy_coarse (brae_cycle np) A b = Inl ValueError"
proof -
  have "jacobi_sweep np A b (zeros (length b)) OMEGA_BRAE = Inl ValueError"
    using matvec [OF assms(1,2), of "zeros (length b)"] assms(3) by (simp add: jacobi_sweep_def residual_def)
  moreover have "(200::nat) = Suc 199" by simp
  ultimately show ?thesis by (simp only: brae_cycle_def cycle.simps jacobi_solve.simps bindR_simps)
qed

lemma vcycle_one_cell_raises:
  assumes A: "mat_ok n n A" and n: "1 < n" and b: "length b = n"
  shows "raises (vcycle_brae np [(A, Some (replicate n 0, inj_mat 1 (replicate n 0))), (A, None)] grid b iteration resnorm) ValueError"
proof -
  let ?P = "inj_mat 1 (replicate n 0) :: 'a mat"
  have n0: "0 < n" and lenA: "length A = n" using n A by (auto simp: mat_ok_def)
  have P: "mat_ok n 1 ?P" using inj_mat_ok [of "replicate n 0" 1] by simp
  have cols: "mat_cols ?P = 1" using mat_cols_ok [OF P n0] .
  note A' = A n0 b
  have sw: "\<exists>x'. jacobi_sweep np A b x w = Inr x' \<and> length x' = n" if "length x = n" for x w
    using jacobi_returns [OF A' that] .
  have resid: "returns (liftS (residual np A b x)) (\<lambda>r. length r = n)" if "length x = n" for x
    using residual_eq [OF A' that] by (rule returns_lift) (simp add: lenA b)
  have restr: "returns (liftS (np_matvec np (transp 1 ?P) r)) (\<lambda>c. length c = 1)" if "length r = n" for r
  proof (rule returns_lift)
    show "np_matvec np (transp 1 ?P) r = Inr (mat_vec (transp 1 ?P) r)"
      using matvec [OF transp_ok [OF P], of r] that by (simp del: One_nat_def)
  qed simp
  have bottom: "raises (vcycle np (brae_cycle np) [(A, None)] g c iteration resnorm) ValueError" if "length c = 1" for g c
    unfolding vcycle.simps by (intro raises_bind raises_lift coarse_jacobi_raises [OF A n0]) (use that n in simp)
  show ?thesis unfolding vcycle_brae_def vcycle.simps(3) cols
    by (intro raises_after [OF smooth_loop_returns [OF A' sw]] raises_after [OF resid]
        raises_after [OF rec_emit_returns] raises_after [OF restr] raises_bind bottom)
      (simp_all add: b)
qed

end

text \<open>One iteration on one cell, for the examples below.\<close>

context numpy_lib
begin

lemma one_cell_matvec: "np_matvec np [[1]] [z] = Inr [z]"
  using matvec [of 1 1 "[[1]]" "[z]"] by (simp add: mat_ok_def mat_vec_def vdot_def)

lemma jacobi_one_cell: "jacobi_solve np k [[1]] [1] [1 - c] = Inr [1 - c / 5 ^ k]"
proof (induction k arbitrary: c)
  case (Suc k)
  have "jacobi_sweep np [[1]] [1] [1 - c] OMEGA_BRAE = Inr [1 - c / 5]"
    by (simp add: jacobi_sweep_def residual_def one_cell_matvec vscale_def diag_of_def OMEGA_BRAE_def)
  then show ?case using Suc [of "c / 5"] by simp
qed simp

lemma coarse_one_cell: "\<exists>z. z \<noteq> 0 \<and> cy_coarse (brae_cycle np) [[1]] [1] = Inr [z]"
proof -
  have "(1 :: 'a) - 1 / 5 ^ k \<noteq> 0" if "0 < k" for k :: nat
  proof -
    have "1 < (5 :: 'a) ^ k" using that by (intro one_less_power) simp_all
    then have "(5 :: 'a) ^ k \<noteq> 1" by (metis less_irrefl)
    then show ?thesis by simp
  qed
  with jacobi_one_cell [of 200 1] show ?thesis by (auto simp: brae_cycle_def zeros_def simp del: power_numeral)
qed

lemma one_cell_run:
  "\<exists>s rec'. run_pcg np (vcycle_brae np [([[1]], None)] 0) [[1]] [1] 1 (new_recorder ''brae'' 1) = Inr (s, rec') \<and> r_steps rec' \<noteq> []"
proof -
  obtain z where "z \<noteq> 0" "cy_coarse (brae_cycle np) [[1]] [1] = Inr [z]" using coarse_one_cell by blast
  then show ?thesis
    by (simp add: run_pcg_def cg_start_def cg_step_def bindS_def liftS_def retS_def residual_def one_cell_matvec dot
        vdot_def vscale_def zeros_def rec_emit_def emit_res_def state_row_of_def vcycle_brae_def
        cg_direction_def py_div_def Let_def new_recorder_def)
qed

lemma one_cell_config:
  "\<exists>h rec. run_config np [[1]] [1] 1 None (''brae'', [([[1]], None)], RunBrae) (new_recorder ''brae'' 1) = Inr (h, rec) \<and> r_steps rec \<noteq> []"
proof -
  obtain s rec where run: "run_pcg np (vcycle_brae np [([[1]], None)] 0) [[1]] [1] 1 (new_recorder ''brae'' 1) = Inr (s, rec)" "r_steps rec \<noteq> []"
    using one_cell_run by blast
  then have "run_config np [[1]] [1] 1 None (''brae'', [([[1]], None)], RunBrae) (new_recorder ''brae'' 1) = Inr (cg_history s, rec)"
    unfolding run_config_def run_brae_def bindS_def by (simp add: retS_def)
  with run(2) show ?thesis by blast
qed

end

subsection \<open>Properties\<close>

text \<open>C9: The pairwise selector gives every cell a label, the labels are exactly the numbers below the count it returns, and
  on a mesh with a face there are fewer labels than cells, so that coarsening makes progress.\<close>

theorem pairwise_partition:
  assumes "faces_ok n owner neighbour weights" and "list_all (\<lambda>w. - 1 < w) weights"
  shows "\<exists>m nc. pairwise_aggregate owner neighbour weights n = Inr (m, nc) \<and> length m = n \<and> set m = {0..<nc}
    \<and> (owner \<noteq> [] \<longrightarrow> nc < int n)"
  by (rule pairwise_labels [OF assms])

theorem pairwise_partition_witness:
  "\<exists>m nc. pairwise_aggregate [0, 1] [1, 2] [1, 1 :: rat] 3 = Inr (m, nc) \<and> length m = 3 \<and> set m = {0..<nc}
    \<and> ([0, 1 :: int] \<noteq> [] \<longrightarrow> nc < int 3)"
  by (rule pairwise_partition) (simp_all add: faces_ok_def)

text \<open>C10: Each entry of the coarse operator is the sum of the fine entries between the two aggregates.\<close>

theorem galerkin_sums_aggregates:
  assumes "numpy_lib np" and "mat_ok n n A" and "length m = n" and "set m \<subseteq> {0..<int nc}" and "0 < n"
  shows "\<exists>C P. galerkin np A m nc = Inr (C, P) \<and> mat_ok nc nc C
    \<and> (\<forall>i < nc. \<forall>j < nc. C ! i ! j =
          (\<Sum>p \<in> {p. p < n \<and> m ! p = int i}. \<Sum>q \<in> {q. q < n \<and> m ! q = int j}. A ! p ! q))"
  using galerkin_entries [OF assms] assms(3) by (auto simp: agg_sum_def)

theorem galerkin_sums_aggregates_witness:
  "\<exists>C P. galerkin ref_np [[2, - 1], [- 1, 2 :: rat]] [0, 0] 1 = Inr (C, P) \<and> mat_ok 1 1 C
    \<and> (\<forall>i < 1. \<forall>j < 1. C ! i ! j =
          (\<Sum>p \<in> {p. p < 2 \<and> [0, 0 :: int] ! p = int i}. \<Sum>q \<in> {q. q < 2 \<and> [0, 0 :: int] ! q = int j}.
             [[2, - 1], [- 1, 2 :: rat]] ! p ! q))"
  by (rule galerkin_sums_aggregates) (simp_all add: ref.numpy_lib_axioms mat_ok_def)



text \<open>C13: Whatever solver runs, the frames it records are numbered from 0 without a gap and the state rows are, frame by frame, one per cell
  of the frame's grid.\<close>

theorem frames_numbered:
  assumes "run_config np A b iters ref c (new_recorder name n) = Inr (h, rec)"
  shows "map f_step (r_steps rec) = [0..<length (r_steps rec)] \<and>
    map (\<lambda>s. (s_step s, s_grid s, s_cell s)) (r_state rec) =
      concat (map (\<lambda>f. map (\<lambda>cell. (f_step f, f_grid f, cell)) [0..<f_ngrid f]) (r_steps rec))"
proof -
  have "keeps rec_ok (run_config np A b iters ref c)"
    by (cases c) (auto simp: run_config_def keeps_run_of keeps_run_amgx keeps_run_brae split: runner.splits)
  then have ok: "rec_ok rec" using assms new_recorder_ok unfolding keeps_def by blast
  then have "length (r_steps rec) = r_step rec" unfolding rec_ok_def by (metis diff_zero length_map length_upt)
  with ok show ?thesis by (simp add: rec_ok_def)
qed

theorem frames_numbered_witness:
  "\<exists>h rec. run_config ref_np [[1 :: rat]] [1] 1 None (''brae'', [([[1]], None)], RunBrae) (new_recorder ''brae'' 1) = Inr (h, rec)
    \<and> map f_step (r_steps rec) = [0..<length (r_steps rec)] \<and>
    map (\<lambda>s. (s_step s, s_grid s, s_cell s)) (r_state rec) =
      concat (map (\<lambda>f. map (\<lambda>cell. (f_step f, f_grid f, cell)) [0..<f_ngrid f]) (r_steps rec))"
proof -
  obtain h rec where run: "run_config ref_np [[1 :: rat]] [1] 1 None (''brae'', [([[1]], None)], RunBrae) (new_recorder ''brae'' 1) = Inr (h, rec)"
    using ref.one_cell_config [where 'a = rat] by blast
  from run frames_numbered [OF run] show ?thesis by blast
qed

text \<open>C12: The residual that the preconditioned conjugate-gradient loop of brae carries along by recursion is, after any number of
  iterations, the residual of its iterate.\<close>

theorem brae_residual_is_true:
  assumes "numpy_lib np" and "mat_ok n n A" and "0 < n" and "length b = n" and "levels_ok n levels"
    and "run_pcg np (vcycle_brae np levels 0) A b k rec = Inr (s, rec')"
  shows "residual np A b (cg_x s) = Inr (cg_r s)"
proof -
  have "yields (run_pcg np (vcycle_brae np levels 0) A b k) (cg_ok n A b)"
    by (intro numpy_lib.run_pcg_ok [OF assms(1-4)] returns_yields numpy_lib.vcycle_brae_returns [OF assms(1,5,3)])
  then have "cg_ok n A b s" using assms(6) unfolding yields_def by blast
  then show ?thesis using numpy_lib.residual_eq [OF assms(1-4)] by (simp add: cg_ok_def)
qed

theorem brae_residual_is_true_witness:
  "\<exists>s rec'. run_pcg ref_np (vcycle_brae ref_np [([[1 :: rat]], None)] 0) [[1]] [1] 1 (new_recorder ''brae'' 1) = Inr (s, rec')
    \<and> residual ref_np [[1]] [1] (cg_x s) = Inr (cg_r s)"
  using ref.one_cell_run [where 'a = rat]
    brae_residual_is_true [OF ref.numpy_lib_axioms, of 1 "[[1 :: rat]]" "[1]" "[([[1]], None)]" 1 "new_recorder ''brae'' 1"]
  by (auto simp: mat_ok_def)



end
