(* ===== verification/Ldu_System.thy ===== *)
theory Ldu_System
  imports Amg_Arrays Elf_Hash Py_Regex
begin

text \<open>
  The linear systems of \<open>bench/rhoSimpleFoam/u_precond_experiment.py\<close>: the mesh addressing read
  from a polyMesh, the sparse matrix in OpenFOAM's lower-diagonal-upper form, and the two-colouring of
  the cells by breadth-first search.  Numbers are an ordered field as in \<open>Amg_Arrays\<close>.  The
  lemmas say that the search colours exactly the cells reachable from cell 0, by the parity of a walk, so
  that the script's test of its colouring decides whether the mesh is connected and bipartite.
\<close>

subsection \<open>Label lists\<close>

definition b_space :: cset where
  "b_space = CUn (CRange (CHR 0x09) (CHR 0x0D)) (CS '' '')"

text \<open>\<open>bytes.split()\<close>.\<close>

fun b_split_acc :: "string \<Rightarrow> string \<Rightarrow> string list" where
  "b_split_acc cur [] = (if cur = [] then [] else [rev cur])"
| "b_split_acc cur (c # cs) =
     (if in_cset b_space c then (if cur = [] then b_split_acc [] cs else rev cur # b_split_acc [] cs)
      else b_split_acc (c # cur) cs)"

definition count_rx :: rx where
  "count_rx = RSeqs [RLit [nl], RGrp 1 (RPlus (RSet CDigit)), RStar (RSet b_space), RLit [nl], RLit ''('']"

definition format_rx :: rx where
  "format_rx = RSeqs [RLit ''format'', RPlus (RSet b_space), RGrp 1 (RPlus (RSet CWord))]"

text \<open>\<open>np.frombuffer(..., dtype='<i4')\<close>: signed little-endian words; a length that is no multiple of 4 raises.\<close>

definition i4 :: "string \<Rightarrow> int" where
  "i4 bs = (let n = int (le_nat bs) in if n < 2 ^ 31 then n else n - 2 ^ 32)"

definition from_i4 :: "string \<Rightarrow> int list res" where
  "from_i4 bs =
     (if length bs mod 4 \<noteq> 0 then Inl ValueError
      else Inr (map (\<lambda>k. i4 (take 4 (drop (4 * k) bs))) [0..<length bs div 4]))"

definition readlist :: "fsys \<Rightarrow> string \<Rightarrow> int list res" where
  "readlist fs fn =
     bindR (read_text fs fn) (\<lambda>b.
       case re_search count_rx b of None \<Rightarrow> Inl AttributeError
       | Some m \<Rightarrow>
           let n = read_digits (group_text b m 1); start = m_end m
           in case re_search format_rx (take 800 b) of None \<Rightarrow> Inl AttributeError
              | Some f \<Rightarrow>
                  if group_text (take 800 b) f 1 = ''binary'' then from_i4 (take (n * 4) (drop start b))
                  else mapR py_int (b_split_acc [] (hd (split_on (CHR '')'') (drop start b)))))"

subsection \<open>Sparse matrices\<close>

text \<open>
  \<open>sp.csr_matrix((vals, (rows, cols)), shape=(n, n))\<close>: the entries in the order given, repeated places
  adding up.  scipy's product is an argument, with what its documentation says of it in the locale
  \<open>scipy_lib\<close>; \<open>sc_load\<close> is \<open>np.loadtxt\<close>, whose result has no, one or two dimensions.
\<close>

type_synonym 'a coo = "nat \<times> (nat \<times> nat \<times> 'a) list"

datatype 'a ndarray = Dim0 'a | Dim1 "'a vec" | Dim2 "'a mat"

record 'a sci =
  sc_float :: "string \<Rightarrow> 'a res"
  sc_load :: "string \<Rightarrow> 'a ndarray res"
  sc_matvec :: "'a coo \<Rightarrow> 'a vec \<Rightarrow> 'a vec res"
  sc_dot :: "'a vec \<Rightarrow> 'a vec \<Rightarrow> 'a res"
  sc_e3 :: "'a \<Rightarrow> string"
  sc_f3 :: "'a \<Rightarrow> string"
  sc_f2 :: "'a \<Rightarrow> string"
  sc_seconds :: string

definition coo_row :: "(nat \<times> nat \<times> 'a::linordered_field) list \<Rightarrow> 'a vec \<Rightarrow> nat \<Rightarrow> 'a" where
  "coo_row es x i = sum_list (map (\<lambda>(r, c, v). if r = i then v * x ! c else 0) es)"

definition coo_vec :: "'a::linordered_field coo \<Rightarrow> 'a vec \<Rightarrow> 'a vec" where
  "coo_vec A x = map (coo_row (snd A) x) [0..<fst A]"

locale scipy_lib =
  fixes sc :: "'a::linordered_field sci"
  assumes matvec: "sc_matvec sc A x = (if length x = fst A then Inr (coo_vec A x) else Inl ValueError)"
    and dot: "sc_dot sc x y = (if length x = length y then Inr (vdot x y) else Inl ValueError)"

definition ref_sci :: "'a::linordered_field sci" where
  "ref_sci = \<lparr>sc_float = (\<lambda>_. Inl ValueError), sc_load = (\<lambda>p. Inl (FileNotFound p)),
     sc_matvec = (\<lambda>A x. if length x = fst A then Inr (coo_vec A x) else Inl ValueError),
     sc_dot = (\<lambda>x y. if length x = length y then Inr (vdot x y) else Inl ValueError),
     sc_e3 = (\<lambda>_. []), sc_f3 = (\<lambda>_. []), sc_f2 = (\<lambda>_. []), sc_seconds = []\<rparr>"

interpretation rsci: scipy_lib ref_sci
  by unfold_locales (simp_all add: ref_sci_def)

text \<open>The size of an array, and an array as an operand of \<open>np.concatenate\<close> with vectors.\<close>

fun nd_size :: "'a ndarray \<Rightarrow> nat" where
  "nd_size (Dim0 _) = 1"
| "nd_size (Dim1 v) = length v"
| "nd_size (Dim2 m) = sum_list (map length m)"

fun nd_vec :: "'a ndarray \<Rightarrow> 'a vec res" where
  "nd_vec (Dim1 v) = Inr v"
| "nd_vec (Dim0 _) = Inl ValueError"
| "nd_vec (Dim2 _) = Inl ValueError"

text \<open>
  The addressing and the face coefficients, as the module-level code of the script leaves them: labels are
  not negative, since scipy refuses a negative index when the adjacency is built.
\<close>

record 'a ldu_sys =
  ls_own :: "nat list"
  ls_nei :: "nat list"
  ls_cells :: nat
  ls_upper :: "'a vec"
  ls_lower :: "'a vec"

definition labels :: "int list \<Rightarrow> nat list res" where
  "labels xs = (if list_all (\<lambda>x. 0 \<le> x) xs then Inr (map nat xs) else Inl ValueError)"

definition arr_max :: "int list \<Rightarrow> int res" where
  "arr_max xs = (if xs = [] then Inl ValueError else Inr (Max (set xs)))"

definition ldu_entries :: "'a ldu_sys \<Rightarrow> 'a vec \<Rightarrow> (nat \<times> nat \<times> 'a) list" where
  "ldu_entries l dg =
     zip [0..<ls_cells l] (zip [0..<ls_cells l] dg)
     @ zip (ls_nei l) (zip (ls_own l) (ls_lower l)) @ zip (ls_own l) (zip (ls_nei l) (ls_upper l))"

text \<open>\<open>matrix(diag)\<close>; a diagonal of another length leaves rows, columns and values of different lengths.\<close>

definition ldu_matrix :: "'a ldu_sys \<Rightarrow> 'a vec \<Rightarrow> 'a coo res" where
  "ldu_matrix l dg = (if length dg = ls_cells l then Inr (ls_cells l, ldu_entries l dg) else Inl ValueError)"

subsection \<open>Two colours\<close>

text \<open>The cells that share a face with a cell of a list, as \<open>np.unique(G[frontier].nonzero()[1])\<close> gives them.\<close>

definition adj_pairs :: "nat list \<Rightarrow> nat list \<Rightarrow> (nat \<times> nat) list" where
  "adj_pairs own nei = zip own nei @ zip nei own"

definition adjacent :: "(nat \<times> nat) list \<Rightarrow> nat list \<Rightarrow> nat list" where
  "adjacent adj frontier = sorted_set (map snd (filter (\<lambda>(r, _). in_list r frontier) adj))"

definition uncoloured :: "int list \<Rightarrow> nat \<Rightarrow> bool" where
  "uncoloured colour c \<longleftrightarrow> c < length colour \<and> colour ! c < 0"

definition paint :: "int list \<Rightarrow> nat list \<Rightarrow> int \<Rightarrow> int list" where
  "paint colour cs q = fold (\<lambda>c col. col[c := q]) cs colour"

definition next_front :: "(nat \<times> nat) list \<Rightarrow> int list \<Rightarrow> nat list \<Rightarrow> nat list" where
  "next_front adj colour frontier = filter (uncoloured colour) (adjacent adj frontier)"

text \<open>The loop, with a bound on its rounds: every round but the last colours a cell.\<close>

fun colour_loop :: "nat \<Rightarrow> (nat \<times> nat) list \<Rightarrow> int list \<Rightarrow> nat list \<Rightarrow> int list res" where
  "colour_loop n adj colour [] = Inr colour"
| "colour_loop 0 adj colour (c # cs) = Inl OutOfFuel"
| "colour_loop (Suc n) adj colour (c # cs) =
     (let nxt = next_front adj colour (c # cs)
      in colour_loop n adj (paint colour nxt (1 - colour ! c)) nxt)"

definition two_colour :: "nat \<Rightarrow> (nat \<times> nat) list \<Rightarrow> int list res" where
  "two_colour n adj =
     (if n = 0 then Inl IndexError
      else colour_loop (Suc n) adj ((replicate n (-1))[0 := 0]) [0])"

definition bipartite :: "(nat \<times> nat) list \<Rightarrow> int list \<Rightarrow> bool" where
  "bipartite adj colour \<longleftrightarrow>
     list_all (\<lambda>(a, b). colour ! a \<noteq> colour ! b) adj \<and> list_all (\<lambda>q. 0 \<le> q) colour"

definition cells_of :: "int \<Rightarrow> int list \<Rightarrow> nat list" where
  "cells_of q colour = filter (\<lambda>c. colour ! c = q) [0..<length colour]"

subsection \<open>The search colours what it reaches\<close>

text \<open>A walk from cell 0 and the colour its length gives.\<close>

inductive walk :: "(nat \<times> nat) list \<Rightarrow> nat \<Rightarrow> int \<Rightarrow> bool" for adj where
  start: "walk adj 0 0"
| step: "walk adj a q \<Longrightarrow> (a, b) \<in> set adj \<Longrightarrow> walk adj b (1 - q)"

lemma walk_colour: "walk adj c q \<Longrightarrow> q = 0 \<or> q = 1"
  by (induction rule: walk.induct) auto

lemma walk_iff_rtrancl: "(\<exists>q. walk adj c q) \<longleftrightarrow> (0, c) \<in> (set adj)\<^sup>*"
proof
  assume "\<exists>q. walk adj c q"
  then obtain q where "walk adj c q" ..
  then show "(0, c) \<in> (set adj)\<^sup>*" by induction (auto intro: rtrancl_into_rtrancl)
next
  assume "(0, c) \<in> (set adj)\<^sup>*"
  then show "\<exists>q. walk adj c q" by induction (blast intro: walk.intros)+
qed

text \<open>A proper two-colouring agrees with the parity of every walk.\<close>

lemma walk_parity:
  assumes "\<And>a b. (a, b) \<in> set adj \<Longrightarrow> f a \<noteq> (f b :: bool)"
  shows "walk adj c q \<Longrightarrow> (q = 0) = (f c = f 0)"
proof (induction rule: walk.induct)
  case (step a q b)
  then show ?case using assms [OF step(2)] walk_colour [OF step(1)] by auto
qed simp

lemma paint_length [simp]: "length (paint colour cs q) = length colour"
  unfolding paint_def by (induction cs arbitrary: colour) simp_all

lemma paint_nth: "c < length colour \<Longrightarrow> paint colour cs q ! c = (if c \<in> set cs then q else colour ! c)"
  unfolding paint_def by (induction cs arbitrary: colour) (auto simp: nth_list_update)

definition col_inv :: "nat \<Rightarrow> (nat \<times> nat) list \<Rightarrow> int list \<Rightarrow> nat list \<Rightarrow> bool" where
  "col_inv n adj colour frontier \<longleftrightarrow>
     length colour = n \<and> 0 < n \<and> colour ! 0 = 0 \<and>
     (\<forall>c < n. 0 \<le> colour ! c \<longrightarrow> walk adj c (colour ! c)) \<and>
     (\<forall>c \<in> set frontier. c < n \<and> 0 \<le> colour ! c \<and> colour ! c = colour ! hd frontier) \<and>
     (\<forall>(a, b) \<in> set adj. 0 \<le> colour ! a \<longrightarrow> a \<notin> set frontier \<longrightarrow> 0 \<le> colour ! b)"

definition adj_ok :: "nat \<Rightarrow> (nat \<times> nat) list \<Rightarrow> bool" where
  "adj_ok n adj \<longleftrightarrow> list_all (\<lambda>(a, b). a < n \<and> b < n) adj"

lemma adj_okD: "adj_ok n adj \<Longrightarrow> (a, b) \<in> set adj \<Longrightarrow> a < n \<and> b < n"
  by (auto simp: adj_ok_def list_all_iff)

definition n_uncoloured :: "int list \<Rightarrow> nat" where
  "n_uncoloured colour = card {c. uncoloured colour c}"

lemma uncoloured_finite: "finite {c. uncoloured colour c}"
  by (rule finite_subset [of _ "{..<length colour}"]) (auto simp: uncoloured_def)

lemma n_uncoloured_le: "n_uncoloured colour \<le> length colour"
proof -
  have "{c. uncoloured colour c} \<subseteq> {..<length colour}" by (auto simp: uncoloured_def)
  from card_mono [OF _ this] show ?thesis by (simp add: n_uncoloured_def)
qed

lemma in_next_front:
  "b \<in> set (next_front adj colour frontier) \<longleftrightarrow> uncoloured colour b \<and> (\<exists>a \<in> set frontier. (a, b) \<in> set adj)"
  by (force simp: next_front_def adjacent_def in_list_def)

lemma col_inv_step:
  assumes adj: "adj_ok n adj"
    and inv: "col_inv n adj colour (c # cs)"
  defines "nxt \<equiv> next_front adj colour (c # cs)"
  defines "colour' \<equiv> paint colour nxt (1 - colour ! c)"
  shows "col_inv n adj colour' nxt" and "nxt \<noteq> [] \<Longrightarrow> n_uncoloured colour' < n_uncoloured colour"
proof -
  have len: "length colour = n" and pos: "0 < n" and z: "colour ! 0 = 0"
    and wk: "\<And>d. d < n \<Longrightarrow> 0 \<le> colour ! d \<Longrightarrow> walk adj d (colour ! d)"
    and fr: "\<And>d. d \<in> set (c # cs) \<Longrightarrow> d < n \<and> 0 \<le> colour ! d \<and> colour ! d = colour ! c"
    and cl: "\<And>a b. (a, b) \<in> set adj \<Longrightarrow> 0 \<le> colour ! a \<Longrightarrow> a \<notin> set (c # cs) \<Longrightarrow> 0 \<le> colour ! b"
    using inv unfolding col_inv_def by auto
  have q: "0 \<le> 1 - colour ! c" using walk_colour [OF wk, of c] fr [of c] by auto
  have nx: "b \<in> set nxt \<longleftrightarrow> b < n \<and> colour ! b < 0 \<and> (\<exists>a \<in> set (c # cs). (a, b) \<in> set adj)" for b
    unfolding nxt_def in_next_front uncoloured_def len by auto
  have at: "colour' ! d = (if d \<in> set nxt then 1 - colour ! c else colour ! d)" if "d < n" for d
    unfolding colour'_def using paint_nth len that by blast
  have nonneg: "0 \<le> colour' ! d \<longleftrightarrow> d \<in> set nxt \<or> 0 \<le> colour ! d" if "d < n" for d
    using at [OF that] q by auto
  have w: "walk adj d (colour' ! d)" if "d < n" "0 \<le> colour' ! d" for d
  proof (cases "d \<in> set nxt")
    case True
    then obtain a where "a \<in> set (c # cs)" "(a, d) \<in> set adj" using nx by blast
    then show ?thesis using walk.step [OF wk [of a], of d] fr [of a] at [OF that(1)] True by simp
  qed (use at wk that in auto)
  have cl': "0 \<le> colour' ! b" if ab: "(a, b) \<in> set adj" and "0 \<le> colour' ! a" "a \<notin> set nxt" for a b
  proof -
    have bn: "a < n" "b < n" using adj_okD [OF adj ab] by auto
    then have "0 \<le> colour ! a" using that(2,3) nonneg by auto
    then have "0 \<le> colour ! b \<or> b \<in> set nxt" using cl [OF ab] nx [of b] bn ab by (cases "a \<in> set (c # cs)") force+
    then show ?thesis using nonneg bn by auto
  qed
  have h: "d < n \<and> 0 \<le> colour' ! d \<and> colour' ! d = colour' ! hd nxt" if "d \<in> set nxt" for d
    using that at nx nonneg by (metis hd_in_set empty_iff list.set(1))
  have "colour' ! 0 = 0" using at [OF pos] nx [of 0] z by auto
  moreover have "length colour' = n" using len by (simp add: colour'_def)
  ultimately show "col_inv n adj colour' nxt"
    using pos w h cl' unfolding col_inv_def by blast
  assume "nxt \<noteq> []"
  then have hn: "hd nxt \<in> set nxt" by simp
  have "{d. uncoloured colour' d} \<subset> {d. uncoloured colour d}"
  proof
    show "{d. uncoloured colour' d} \<subseteq> {d. uncoloured colour d}"
      using nonneg len unfolding uncoloured_def colour'_def by (auto simp: not_le [symmetric])
    have "uncoloured colour (hd nxt)" using hn nx [of "hd nxt"] len by (simp add: uncoloured_def)
    moreover have "\<not> uncoloured colour' (hd nxt)" using hn h [OF hn] by (simp add: uncoloured_def)
    ultimately show "{d. uncoloured colour' d} \<noteq> {d. uncoloured colour d}" by blast
  qed
  then show "n_uncoloured colour' < n_uncoloured colour"
    unfolding n_uncoloured_def by (rule psubset_card_mono [OF uncoloured_finite])
qed

lemma colour_loop_ends:
  "adj_ok n adj \<Longrightarrow> col_inv n adj colour frontier \<Longrightarrow>
     frontier = [] \<or> n_uncoloured colour < k \<Longrightarrow>
     \<exists>colour'. colour_loop k adj colour frontier = Inr colour' \<and> col_inv n adj colour' []"
proof (induction k adj colour frontier rule: colour_loop.induct)
  case (3 k adj colour c cs)
  let ?nxt = "next_front adj colour (c # cs)"
  note st = col_inv_step [OF "3.prems"(1,2)]
  have "?nxt = [] \<or> n_uncoloured (paint colour ?nxt (1 - colour ! c)) < k"
  proof (cases "?nxt = []")
    case False
    from st(2) [OF False] "3.prems"(3) show ?thesis by simp
  qed simp
  from "3.IH" [OF refl "3.prems"(1) st(1) this] show ?case by (simp add: Let_def)
qed auto

lemma two_colour_inv:
  assumes "adj_ok n adj" and n: "0 < n"
  shows "\<exists>colour. two_colour n adj = Inr colour \<and> col_inv n adj colour []"
proof -
  let ?c0 = "(replicate n (-1::int))[0 := 0]"
  have at: "?c0 ! d = (if d = 0 then 0 else -1)" if "d < n" for d using that by (auto simp: nth_list_update)
  have "col_inv n adj ?c0 [0]"
    using n adj_okD [OF assms(1)] by (auto simp: col_inv_def at walk.start split: if_splits)
  moreover have "n_uncoloured ?c0 < Suc n" using n_uncoloured_le [of ?c0] by simp
  ultimately show ?thesis
    using colour_loop_ends [OF assms(1), of ?c0 "[0]" "Suc n"] n by (simp add: two_colour_def del: colour_loop.simps)
qed

text \<open>The coloured cells are the reachable ones.\<close>

lemma coloured_iff:
  assumes adj: "adj_ok n adj" and inv: "col_inv n adj colour []" and c: "c < n"
  shows "0 \<le> colour ! c \<longleftrightarrow> (0, c) \<in> (set adj)\<^sup>*"
proof
  assume "0 \<le> colour ! c"
  then show "(0, c) \<in> (set adj)\<^sup>*" using inv c walk_iff_rtrancl [of adj c] by (auto simp: col_inv_def)
next
  assume "(0, c) \<in> (set adj)\<^sup>*"
  then show "0 \<le> colour ! c"
  proof induction
    case base
    then show ?case using inv by (simp add: col_inv_def)
  next
    case (step a b)
    then show ?case using inv by (auto simp: col_inv_def)
  qed
qed

lemma bipartite_iff:
  assumes adj: "adj_ok n adj" and inv: "col_inv n adj colour []"
  shows "bipartite adj colour \<longleftrightarrow>
    list_all (\<lambda>c. (0, c) \<in> (set adj)\<^sup>*) [0..<n] \<and> (\<exists>f. list_all (\<lambda>(a, b). f a \<noteq> (f b :: bool)) adj)"
    (is "?l \<longleftrightarrow> ?conn \<and> ?proper")
proof -
  have len: "length colour = n" using inv by (simp add: col_inv_def)
  have all: "list_all (\<lambda>q. 0 \<le> q) colour \<longleftrightarrow> ?conn"
    using coloured_iff [OF adj inv] len by (auto simp: list_all_length)
  have wk: "walk adj c (colour ! c)" if "c < n" "0 \<le> colour ! c" for c
    using inv that by (simp add: col_inv_def)
  have pc: "\<exists>f. list_all (\<lambda>(a, b). f a \<noteq> (f b :: bool)) adj" if ?l
  proof (intro exI)
    have "colour ! c = 0 \<or> colour ! c = 1" if "c < n" for c
      using wk [OF that] walk_colour [of adj c] \<open>?l\<close> len that by (auto simp: bipartite_def list_all_length)
    moreover have "colour ! a \<noteq> colour ! b" if "(a, b) \<in> set adj" for a b
      using \<open>?l\<close> that by (auto simp: bipartite_def list_all_iff)
    ultimately have "(colour ! a = 0) \<noteq> (colour ! b = 0)" if "(a, b) \<in> set adj" for a b
      using adj_okD [OF adj that] that by metis
    then show "list_all (\<lambda>(a, b). (colour ! a = 0) \<noteq> (colour ! b = 0)) adj"
      by (auto simp: list_all_iff)
  qed
  have "list_all (\<lambda>(a, b). colour ! a \<noteq> colour ! b) adj" if ?conn ?proper
  proof -
    from \<open>?proper\<close> obtain f where f: "\<And>a b. (a, b) \<in> set adj \<Longrightarrow> f a \<noteq> (f b :: bool)" by (auto simp: list_all_iff)
    have "(colour ! c = 0) = (f c = f 0)" if "c < n" for c
      using walk_parity [OF f wk [OF that]] that all \<open>?conn\<close> len by (auto simp: list_all_length)
    then have "colour ! a \<noteq> colour ! b" if "(a, b) \<in> set adj" for a b
      using f [OF that] adj_okD [OF adj that] by metis
    then show ?thesis by (auto simp: list_all_iff)
  qed
  then show ?thesis using pc all by (auto simp: bipartite_def)
qed

subsection \<open>Properties\<close>

text \<open>C16: On any mesh the search ends, and the test that lets the script use its red-black solvers holds exactly when every cell
  can be reached from cell 0 through faces and the cells can be given two colours so that no face joins two of one colour.\<close>

theorem two_colour_decides:
  assumes "adj_ok n (adj_pairs own nei)" and "0 < n"
  shows "\<exists>colour. two_colour n (adj_pairs own nei) = Inr colour \<and>
    (bipartite (adj_pairs own nei) colour \<longleftrightarrow>
       list_all (\<lambda>c. (0, c) \<in> (set (adj_pairs own nei))\<^sup>*) [0..<n] \<and>
       (\<exists>f. list_all (\<lambda>(a, b). f a \<noteq> (f b :: bool)) (adj_pairs own nei)))"
  using two_colour_inv [OF assms] bipartite_iff [OF assms(1)] by blast

theorem two_colour_decides_witness:
  "\<exists>colour. two_colour 3 (adj_pairs [0, 1] [1, 2]) = Inr colour \<and>
    (bipartite (adj_pairs [0, 1] [1, 2]) colour \<longleftrightarrow>
       list_all (\<lambda>c. (0, c) \<in> (set (adj_pairs [0, 1] [1, 2]))\<^sup>*) [0..<3] \<and>
       (\<exists>f. list_all (\<lambda>(a, b). f a \<noteq> (f b :: bool)) (adj_pairs [0, 1] [1, 2])))"
  by (rule two_colour_decides) (simp_all add: adj_ok_def adj_pairs_def)

end
