(* ===== verification/Ldu_Precond.thy ===== *)
theory Ldu_Precond
  imports Ldu_System Complex_Main
begin

text \<open>
  \<open>bench/rhoSimpleFoam/u_precond_experiment.py\<close>: the preconditioners, the BiCGStab loop with OpenFOAM's
  stopping rule, the plain sweeps and the command.  A dump of a right-hand side is a file with one
  column.  The lemmas say what each preconditioner computes: the polynomial one a truncated Neumann
  series, DILU a forward and a backward substitution, a red-black half step the exact solution of the
  rows it touches; and that the residual the loop reports is the residual of the iterate it returns.
\<close>

definition MAXIT :: nat where "MAXIT = 300"

definition ones :: "nat \<Rightarrow> 'a::linordered_field vec" where
  "ones n = replicate n 1"

definition recip :: "'a::linordered_field vec \<Rightarrow> 'a vec" where
  "recip = map (\<lambda>d. 1 / d)"

definition mean :: "'a::linordered_field vec \<Rightarrow> 'a" where
  "mean x = sum_list x / of_nat (length x)"

text \<open>\<open>b - A @ x\<close>.\<close>

definition defect :: "'a::linordered_field sci \<Rightarrow> 'a coo \<Rightarrow> 'a vec \<Rightarrow> 'a vec \<Rightarrow> 'a vec res" where
  "defect sc A b x = bindR (sc_matvec sc A x) (vsub b)"

definition normFactor :: "'a::linordered_field sci \<Rightarrow> 'a coo \<Rightarrow> 'a vec \<Rightarrow> 'a vec \<Rightarrow> 'a res" where
  "normFactor sc A x b =
     (let xRef = mean x in
      bindR (sc_matvec sc A (ones (fst A))) (\<lambda>A1.
      bindR (sc_matvec sc A x) (\<lambda>Ax.
      bindR (vsub Ax (vscale xRef A1)) (\<lambda>u.
      bindR (vsub b (vscale xRef A1)) (\<lambda>v.
      bindR (vadd (map abs u) (map abs v)) (\<lambda>s. Inr (sum_list s + 1 / 10 ^ 20)))))))"

definition resid :: "'a::linordered_field sci \<Rightarrow> 'a coo \<Rightarrow> 'a vec \<Rightarrow> 'a vec \<Rightarrow> 'a \<Rightarrow> 'a res" where
  "resid sc A x b nf = bindR (defect sc A b x) (\<lambda>r. Inr (abs_sum r / nf))"

subsection \<open>Preconditioners\<close>

definition prec_jacobi :: "'a::linordered_field vec \<Rightarrow> 'a vec \<Rightarrow> 'a vec res" where
  "prec_jacobi dg r = zip_with (*) (recip dg) r"

primrec poly_loop :: "nat \<Rightarrow> 'a::linordered_field sci \<Rightarrow> 'a coo \<Rightarrow> 'a vec \<Rightarrow> 'a vec \<Rightarrow> 'a vec \<Rightarrow> 'a vec res" where
  "poly_loop 0 sc A rD t w = Inr w"
| "poly_loop (Suc k) sc A rD t w =
     bindR (sc_matvec sc A t) (\<lambda>At.
     bindR (zip_with (*) rD At) (\<lambda>d.
     bindR (vsub t d) (\<lambda>t1.
     bindR (vadd w t1) (\<lambda>w1. poly_loop k sc A rD t1 w1))))"

definition prec_poly :: "'a::linordered_field sci \<Rightarrow> 'a coo \<Rightarrow> 'a vec \<Rightarrow> nat \<Rightarrow> 'a vec \<Rightarrow> 'a vec res" where
  "prec_poly sc A dg k r = bindR (zip_with (*) (recip dg) r) (\<lambda>w. poly_loop (k - 1) sc A (recip dg) w w)"

text \<open>A sweep over faces: each takes a multiple of its source cell from its target cell.\<close>

definition face_sweep :: "(nat \<times> nat \<times> 'a::linordered_field) list \<Rightarrow> 'a vec \<Rightarrow> 'a vec" where
  "face_sweep fs w = fold (\<lambda>(t, s, g) w. w[t := w ! t - g * w ! s]) fs w"

definition dilu_diag :: "'a::linordered_field ldu_sys \<Rightarrow> 'a vec \<Rightarrow> 'a vec" where
  "dilu_diag l dg =
     fold (\<lambda>f rD. rD[ls_nei l ! f := rD ! (ls_nei l ! f) - ls_upper l ! f * ls_lower l ! f / rD ! (ls_own l ! f)])
       [0..<length (ls_nei l)] dg"

definition forward_faces :: "'a::linordered_field ldu_sys \<Rightarrow> 'a vec \<Rightarrow> (nat \<times> nat \<times> 'a) list" where
  "forward_faces l rD =
     map (\<lambda>f. (ls_nei l ! f, ls_own l ! f, rD ! (ls_nei l ! f) * ls_lower l ! f)) [0..<length (ls_nei l)]"

definition backward_faces :: "'a::linordered_field ldu_sys \<Rightarrow> 'a vec \<Rightarrow> (nat \<times> nat \<times> 'a) list" where
  "backward_faces l rD =
     map (\<lambda>f. (ls_own l ! f, ls_nei l ! f, rD ! (ls_own l ! f) * ls_upper l ! f)) (rev [0..<length (ls_nei l)])"

definition prec_dilu :: "'a::linordered_field ldu_sys \<Rightarrow> 'a vec \<Rightarrow> 'a vec \<Rightarrow> 'a vec res" where
  "prec_dilu l dg r =
     (let rD = recip (dilu_diag l dg)
      in bindR (zip_with (*) rD r) (\<lambda>w.
           Inr (face_sweep (backward_faces l rD) (face_sweep (forward_faces l rD) w))))"

text \<open>\<open>w[cells] = rD[cells] * (r[cells] - (A[cells] @ w) + diag[cells] * w[cells])\<close>.\<close>

definition half_step :: "'a::linordered_field sci \<Rightarrow> 'a coo \<Rightarrow> 'a vec \<Rightarrow> 'a vec \<Rightarrow> nat list \<Rightarrow> 'a vec \<Rightarrow> 'a vec res" where
  "half_step sc A dg r cells w =
     bindR (sc_matvec sc A w) (\<lambda>v.
       Inr (map (\<lambda>i. if in_list i cells then 1 / dg ! i * (r ! i - v ! i + dg ! i * w ! i) else w ! i) [0..<length w]))"

primrec rbsgs_loop :: "nat \<Rightarrow> 'a::linordered_field sci \<Rightarrow> 'a coo \<Rightarrow> 'a vec \<Rightarrow> nat list \<Rightarrow> nat list \<Rightarrow> 'a vec \<Rightarrow> 'a vec \<Rightarrow> 'a vec res" where
  "rbsgs_loop 0 sc A dg red black r w = Inr w"
| "rbsgs_loop (Suc k) sc A dg red black r w =
     bindR (half_step sc A dg r red w) (\<lambda>w1.
     bindR (half_step sc A dg r black w1) (\<lambda>w2.
     bindR (half_step sc A dg r black w2) (\<lambda>w3.
     bindR (half_step sc A dg r red w3) (\<lambda>w4. rbsgs_loop k sc A dg red black r w4))))"

definition prec_rbsgs :: "'a::linordered_field sci \<Rightarrow> 'a coo \<Rightarrow> 'a vec \<Rightarrow> nat list \<Rightarrow> nat list \<Rightarrow> nat \<Rightarrow> 'a vec \<Rightarrow> 'a vec res" where
  "prec_rbsgs sc A dg red black k r = rbsgs_loop k sc A dg red black r (zeros (fst A))"

subsection \<open>The solvers\<close>

record 'a bicg =
  bc_x :: "'a vec"
  bc_r :: "'a vec"
  bc_p :: "'a vec"
  bc_v :: "'a vec"
  bc_rho :: 'a
  bc_alpha :: 'a
  bc_omega :: 'a
  bc_res :: 'a
  bc_n :: nat

definition bicg_direction :: "'a::linordered_field bicg \<Rightarrow> 'a \<Rightarrow> 'a vec res" where
  "bicg_direction s rho =
     (if bc_n s = 0 then Inr (bc_r s)
      else let beta = rho / bc_rho s * (bc_alpha s / bc_omega s) in
        bindR (vsub (bc_p s) (vscale (bc_omega s) (bc_v s))) (\<lambda>d. vadd (bc_r s) (vscale beta d)))"

text \<open>One round; the flag says that it ended with the \<open>break\<close> after the first half.\<close>

definition bicg_step :: "'a::linordered_field sci \<Rightarrow> 'a coo \<Rightarrow> ('a vec \<Rightarrow> 'a vec res) \<Rightarrow> 'a \<Rightarrow> 'a \<Rightarrow> 'a vec \<Rightarrow> 'a bicg \<Rightarrow>
    ('a bicg \<times> bool) res" where
  "bicg_step sc A prec nf goal r0 s =
     bindR (sc_dot sc r0 (bc_r s)) (\<lambda>rho.
     bindR (bicg_direction s rho) (\<lambda>p.
     bindR (prec p) (\<lambda>y.
     bindR (sc_matvec sc A y) (\<lambda>v.
     bindR (sc_dot sc r0 v) (\<lambda>d.
     let alpha = rho / d in
     bindR (vsub (bc_r s) (vscale alpha v)) (\<lambda>h.
     bindR (vadd (bc_x s) (vscale alpha y)) (\<lambda>x.
     let res = abs_sum h / nf in
     if res < goal then
       Inr (s\<lparr>bc_x := x, bc_p := p, bc_v := v, bc_alpha := alpha, bc_res := res, bc_n := Suc (bc_n s)\<rparr>, True)
     else
       bindR (prec h) (\<lambda>z.
       bindR (sc_matvec sc A z) (\<lambda>t.
       bindR (sc_dot sc t h) (\<lambda>th.
       bindR (sc_dot sc t t) (\<lambda>tt.
       let omega = th / tt in
       bindR (vadd x (vscale omega z)) (\<lambda>x1.
       bindR (vsub h (vscale omega t)) (\<lambda>r1.
         Inr (\<lparr>bc_x = x1, bc_r = r1, bc_p = p, bc_v = v, bc_rho = rho, bc_alpha = alpha, bc_omega = omega,
               bc_res = abs_sum r1 / nf, bc_n = Suc (bc_n s)\<rparr>, False))))))))))))))"

primrec bicg_loop :: "nat \<Rightarrow> 'a::linordered_field sci \<Rightarrow> 'a coo \<Rightarrow> ('a vec \<Rightarrow> 'a vec res) \<Rightarrow> 'a \<Rightarrow> 'a \<Rightarrow> 'a vec \<Rightarrow> 'a bicg \<Rightarrow> 'a bicg res" where
  "bicg_loop 0 sc A prec nf goal r0 s = Inr s"
| "bicg_loop (Suc k) sc A prec nf goal r0 s =
     (if goal \<le> bc_res s
      then bindR (bicg_step sc A prec nf goal r0 s) (\<lambda>(s1, stop).
             if stop then Inr s1 else bicg_loop k sc A prec nf goal r0 s1)
      else Inr s)"

definition bicg_start :: "'a::linordered_field sci \<Rightarrow> 'a coo \<Rightarrow> 'a vec \<Rightarrow> 'a vec \<Rightarrow> 'a \<Rightarrow> 'a bicg res" where
  "bicg_start sc A b x0 nf =
     bindR (defect sc A b x0) (\<lambda>r.
       Inr \<lparr>bc_x = x0, bc_r = r, bc_p = zeros (fst A), bc_v = zeros (fst A), bc_rho = 1, bc_alpha = 1, bc_omega = 1,
            bc_res = abs_sum r / nf, bc_n = 0\<rparr>)"

definition solve_line :: "'a::linordered_field sci \<Rightarrow> string \<Rightarrow> nat \<Rightarrow> string \<Rightarrow> 'a \<Rightarrow> 'a \<Rightarrow> string" where
  "solve_line sc label n unit1 res0 res =
     ''  '' @ ljust 28 label @ '' '' @ rjust 3 (show_nat n) @ unit1 @ sc_e3 sc res0 @ '' -> '' @ sc_e3 sc res
       @ '' ('' @ sc_f3 sc (res / res0) @ '' of initial)''"

definition bicgstab :: "'a::linordered_field sci \<Rightarrow> 'a coo \<Rightarrow> 'a vec \<Rightarrow> 'a vec \<Rightarrow> ('a vec \<Rightarrow> 'a vec res) \<Rightarrow> 'a \<Rightarrow> 'a \<Rightarrow> string \<Rightarrow>
    ('a bicg \<times> string) res" where
  "bicgstab sc A b x0 prec nf relTol label =
     bindR (bicg_start sc A b x0 nf) (\<lambda>s0.
       let res0 = bc_res s0 in
       if res0 = 0 then Inr (s0, ''  '' @ ljust 28 label @ '' initial residual 0'')
       else bindR (bicg_loop MAXIT sc A prec nf (relTol * res0) (bc_r s0) s0) (\<lambda>s.
              Inr (s, solve_line sc label (bc_n s) '' iterations   residual '' res0 (bc_res s))))"

datatype sweep_kind = JacobiSweep | RedBlackSweep

definition one_sweep :: "'a::linordered_field sci \<Rightarrow> 'a coo \<Rightarrow> 'a vec \<Rightarrow> 'a vec \<Rightarrow> nat list \<Rightarrow> nat list \<Rightarrow> sweep_kind \<Rightarrow> 'a vec \<Rightarrow> 'a vec res" where
  "one_sweep sc A b dg red black kind x =
     (case kind of
        JacobiSweep \<Rightarrow> bindR (defect sc A b x) (\<lambda>r. bindR (zip_with (*) (recip dg) r) (\<lambda>d. vadd x d))
      | RedBlackSweep \<Rightarrow> bindR (half_step sc A dg b red x) (half_step sc A dg b black))"

primrec sweeps_loop :: "nat \<Rightarrow> 'a::linordered_field sci \<Rightarrow> 'a coo \<Rightarrow> 'a vec \<Rightarrow> 'a vec \<Rightarrow> nat list \<Rightarrow> nat list \<Rightarrow> sweep_kind \<Rightarrow> 'a \<Rightarrow> 'a \<Rightarrow>
    'a vec \<times> 'a \<times> nat \<Rightarrow> ('a vec \<times> 'a \<times> nat) res" where
  "sweeps_loop 0 sc A b dg red black kind nf goal st = Inr st"
| "sweeps_loop (Suc k) sc A b dg red black kind nf goal st =
     (case st of (x, res, n) \<Rightarrow>
        if goal \<le> res
        then bindR (one_sweep sc A b dg red black kind x) (\<lambda>x1.
             bindR (resid sc A x1 b nf) (\<lambda>res1. sweeps_loop k sc A b dg red black kind nf goal (x1, res1, Suc n)))
        else Inr st)"

definition sweeps :: "'a::linordered_field sci \<Rightarrow> 'a coo \<Rightarrow> 'a vec \<Rightarrow> 'a vec \<Rightarrow> 'a vec \<Rightarrow> nat list \<Rightarrow> nat list \<Rightarrow> sweep_kind \<Rightarrow> 'a \<Rightarrow> 'a \<Rightarrow>
    string \<Rightarrow> (('a vec \<times> 'a \<times> nat) \<times> string) res" where
  "sweeps sc A b x0 dg red black kind nf relTol label =
     bindR (resid sc A x0 b nf) (\<lambda>res0.
     bindR (sweeps_loop MAXIT sc A b dg red black kind nf (relTol * res0) (x0, res0, 0)) (\<lambda>st.
       Inr (st, solve_line sc label (snd (snd st)) '' sweeps       residual '' res0 (fst (snd st)))))"

subsection \<open>The command\<close>

text \<open>The sums of the absolute values of the rows, places that occur twice added first.\<close>

definition coo_entry :: "(nat \<times> nat \<times> 'a::linordered_field) list \<Rightarrow> nat \<Rightarrow> nat \<Rightarrow> 'a" where
  "coo_entry es i j = sum_list (map (\<lambda>(r, c, v). if r = i \<and> c = j then v else 0) es)"

definition abs_rows :: "'a::linordered_field coo \<Rightarrow> 'a vec" where
  "abs_rows A = map (\<lambda>i. sum_list (map (\<lambda>j. \<bar>coo_entry (snd A) i j\<bar>) [0..<fst A])) [0..<fst A]"

definition dominance :: "'a::linordered_field coo \<Rightarrow> 'a vec \<Rightarrow> 'a vec" where
  "dominance A dg = map2 (\<lambda>d s. \<bar>d\<bar> / (s - \<bar>d\<bar> + 1 / 10 ^ 300)) dg (abs_rows A)"

definition median :: "'a::linordered_field vec \<Rightarrow> 'a" where
  "median v =
     (let s = sort v; n = length v
      in if n mod 2 = 1 then s ! (n div 2) else (s ! (n div 2 - 1) + s ! (n div 2)) / 2)"

text \<open>What the module-level code reads: the addressing, and the face coefficients as \<open>np.loadtxt\<close> gives them.\<close>

record 'a raw_sys =
  r_own :: "nat list"
  r_nei :: "nat list"
  r_cells :: nat
  r_upper :: "'a ndarray"
  r_lower :: "'a ndarray"

definition read_system :: "'a::linordered_field sci \<Rightarrow> fsys \<Rightarrow> string \<Rightarrow> string \<Rightarrow> 'a raw_sys res" where
  "read_system sc fs dump mesh =
     bindR (readlist fs (mesh @ ''/owner'')) (\<lambda>own0.
     bindR (readlist fs (mesh @ ''/neighbour'')) (\<lambda>nei0.
     let own1 = take (length nei0) own0 in
     bindR (arr_max own1) (\<lambda>mo.
     bindR (arr_max nei0) (\<lambda>mn.
     bindR (sc_load sc (dump @ ''/UUpper'')) (\<lambda>up.
     bindR (sc_load sc (dump @ ''/ULower'')) (\<lambda>lo.
     if nd_size up \<noteq> length nei0 \<or> nd_size lo \<noteq> length nei0 then Inl AssertionError
     else if length own1 \<noteq> length nei0 then Inl ValueError
     else bindR (labels own1) (\<lambda>own.
          bindR (labels nei0) (\<lambda>nei.
            Inr \<lparr>r_own = own, r_nei = nei, r_cells = nat (max mo mn + 1), r_upper = up, r_lower = lo\<rparr>))))))))"

definition column :: "'a ndarray \<Rightarrow> nat \<Rightarrow> 'a vec res" where
  "column U ci = (case U of Dim2 m \<Rightarrow> mapR (\<lambda>row. nth_or row ci) m | _ \<Rightarrow> nd_vec U)"

definition solve_component :: "'a::linordered_field sci \<Rightarrow> 'a raw_sys \<Rightarrow> int list \<Rightarrow> 'a \<Rightarrow> 'a ndarray \<Rightarrow> nat \<Rightarrow> char \<Rightarrow>
    'a ndarray \<Rightarrow> 'a ndarray \<Rightarrow> string list res" where
  "solve_component sc raw colour relTol U0 ci comp1 dg1 b1 =
     (let red = cells_of 0 colour; black = cells_of 1 colour; bip = bipartite (adj_pairs (r_own raw) (r_nei raw)) colour in
      bindR (nd_vec dg1) (\<lambda>dg.
      bindR (nd_vec (r_lower raw)) (\<lambda>lo.
      bindR (nd_vec (r_upper raw)) (\<lambda>up.
      let l = \<lparr>ls_own = r_own raw, ls_nei = r_nei raw, ls_cells = r_cells raw, ls_upper = up, ls_lower = lo\<rparr> in
      bindR (ldu_matrix l dg) (\<lambda>A.
      bindR (column U0 ci) (\<lambda>x0.
      bindR (nd_vec b1) (\<lambda>b.
      bindR (normFactor sc A x0 b) (\<lambda>nf.
      let dd = dominance A dg;
          head1 = ''component '' @ [comp1] @ '': diagonal dominance |a_ii|/sum|a_ij|  min '' @ sc_f2 sc (Min (set dd))
            @ ''  median '' @ sc_f2 sc (median dd) in
      bindR (bicgstab sc A b x0 (prec_jacobi dg) nf relTol ''BiCGStab + Jacobi'') (\<lambda>r1.
      bindR (bicgstab sc A b x0 (prec_poly sc A dg 3) nf relTol ''BiCGStab + 3-step polynomial'') (\<lambda>r2.
      bindR (if bip then
               bindR (bicgstab sc A b x0 (prec_rbsgs sc A dg red black 1) nf relTol ''BiCGStab + red-black SGS'') (\<lambda>r3.
               bindR (sweeps sc A b x0 dg red black RedBlackSweep nf relTol ''red-black GS sweeps alone'') (\<lambda>r4.
                 Inr [snd r3, snd r4]))
             else Inr []) (\<lambda>rb.
      bindR (sweeps sc A b x0 dg red black JacobiSweep nf relTol ''Jacobi sweeps alone'') (\<lambda>r5.
      bindR (bicgstab sc A b x0 (prec_dilu l dg) nf relTol ''BiCGStab + DILU (OpenFOAM)'') (\<lambda>r6.
        Inr ([head1, snd r1, snd r2] @ rb @ [snd r5, snd r6, ''  ('' @ sc_seconds sc @ '' s)'']))))))))))))))"

text \<open>A missing dump of a component is reported and skipped: \<open>except OSError\<close>.\<close>

definition one_component :: "'a::linordered_field sci \<Rightarrow> string \<Rightarrow> 'a raw_sys \<Rightarrow> int list \<Rightarrow> 'a \<Rightarrow> 'a ndarray \<Rightarrow> nat \<times> char \<Rightarrow> string list res" where
  "one_component sc dump l colour relTol U0 ic =
     (case ic of (ci, comp1) \<Rightarrow>
        let skipped = [''component '' @ [comp1] @ '': no UsolveDiag/UsolveB dump, skipped''] in
        case bindR (sc_load sc (dump @ ''/UsolveDiag'' @ [comp1])) (\<lambda>dg.
               bindR (sc_load sc (dump @ ''/UsolveB'' @ [comp1])) (\<lambda>b. Inr (dg, b))) of
          Inl (FileNotFound _) \<Rightarrow> Inr skipped
        | Inl e \<Rightarrow> Inl e
        | Inr (dg, b) \<Rightarrow> solve_component sc l colour relTol U0 ci comp1 dg b)"

definition show_bool :: "bool \<Rightarrow> string" where
  "show_bool b = (if b then ''True'' else ''False'')"

definition up_main :: "'a::linordered_field sci \<Rightarrow> fsys \<Rightarrow> string list \<Rightarrow> string list res" where
  "up_main sc fs argv =
     bindR (nth_or argv 1) (\<lambda>dump.
     bindR (nth_or argv 2) (\<lambda>mesh.
     bindR (if 3 < length argv then sc_float sc (argv ! 3) else Inr (1 / 10)) (\<lambda>relTol.
     bindR (read_system sc fs dump mesh) (\<lambda>l.
     let adj = adj_pairs (r_own l) (r_nei l) in
     bindR (two_colour (r_cells l) adj) (\<lambda>colour.
     let line1 = ''cells '' @ show_nat (r_cells l) @ '', faces '' @ show_nat (length (r_nei l)) @ '', bipartite ''
           @ show_bool (bipartite adj colour) @ '' (red '' @ show_nat (length (cells_of 0 colour)) @ '', black ''
           @ show_nat (length (cells_of 1 colour)) @ '')'' in
     bindR (sc_load sc (dump @ ''/Uass'')) (\<lambda>U0.
     bindR (mapR (one_component sc dump l colour relTol U0) (zip [0..<3] ''XYZ'')) (\<lambda>parts.
       Inr (line1 # concat parts))))))))"

subsection \<open>Face sweeps are substitutions\<close>

lemma face_sweep_Cons: "face_sweep ((t, s, g) # fs) w = face_sweep fs (w[t := w ! t - g * w ! s])"
  by (simp add: face_sweep_def)

lemma face_sweep_length [simp]: "length (face_sweep fs w) = length w"
  by (induction fs arbitrary: w) (auto simp: face_sweep_def)

lemma face_sweep_untouched: "u \<notin> fst ` set fs \<Longrightarrow> face_sweep fs w ! u = w ! u"
  by (induction fs arbitrary: w) (auto simp: face_sweep_def nth_list_update)

text \<open>The order in which a substitution needs its faces: no cell is a target once it has been a source.\<close>

fun ordered_faces :: "(nat \<times> nat \<times> 'a) list \<Rightarrow> bool" where
  "ordered_faces [] = True"
| "ordered_faces ((t, s, g) # fs) \<longleftrightarrow> s \<noteq> t \<and> s \<notin> fst ` set fs \<and> ordered_faces fs"

definition face_sum :: "(nat \<times> nat \<times> 'a::linordered_field) list \<Rightarrow> 'a vec \<Rightarrow> nat \<Rightarrow> 'a" where
  "face_sum fs w u = sum_list (map (\<lambda>(t, s, g). if t = u then g * w ! s else 0) fs)"

lemma face_sum_Cons: "face_sum ((t, s, g) # fs) w u = (if t = u then g * w ! s else 0) + face_sum fs w u"
  by (simp add: face_sum_def)

lemma face_sweep_solves:
  "ordered_faces fs \<Longrightarrow> list_all (\<lambda>(t, s, g). t < length w) fs \<Longrightarrow>
     face_sweep fs w ! u = w ! u - face_sum fs (face_sweep fs w) u"
proof (induction fs arbitrary: w)
  case (Cons f fs)
  obtain t s g where f: "f = (t, s, g)" by (cases f) auto
  let ?w = "w[t := w ! t - g * w ! s]"
  have t: "t < length w" and st: "s \<noteq> t" "s \<notin> fst ` set fs" using Cons.prems f by auto
  have "face_sweep fs ?w ! u = ?w ! u - face_sum fs (face_sweep fs ?w) u"
    using Cons.prems f by (intro Cons.IH) auto
  moreover have "face_sweep fs ?w ! s = w ! s" using face_sweep_untouched [OF st(2), of ?w] st(1) by simp
  ultimately show ?case using t by (cases "t = u") (simp_all add: f face_sweep_Cons face_sum_Cons)
qed (simp add: face_sweep_def face_sum_def)

text \<open>
  OpenFOAM's upper-triangular order of the faces: owners do not decrease and every owner is below its
  neighbour.
\<close>

definition upper_order :: "'a ldu_sys \<Rightarrow> bool" where
  "upper_order l \<longleftrightarrow> sorted (ls_own l) \<and> length (ls_own l) = length (ls_nei l) \<and>
     list_all2 (<) (ls_own l) (ls_nei l) \<and> list_all (\<lambda>c. c < ls_cells l) (ls_nei l)"

lemma upper_orderD:
  assumes "upper_order l" and "f < length (ls_nei l)"
  shows "ls_own l ! f < ls_nei l ! f" and "ls_nei l ! f < ls_cells l" and "ls_own l ! f < ls_cells l"
proof -
  show a: "ls_own l ! f < ls_nei l ! f" "ls_nei l ! f < ls_cells l"
    using assms by (auto simp: upper_order_def list_all2_conv_all_nth list_all_length)
  then show "ls_own l ! f < ls_cells l" by simp
qed

lemma source_before_target:
  assumes l: "upper_order l" and "f < length (ls_nei l)" "g < length (ls_nei l)" "ls_nei l ! g = ls_own l ! f"
  shows "g < f"
proof (rule ccontr)
  assume "\<not> g < f"
  then have "ls_own l ! f \<le> ls_own l ! g"
    using l assms(3) sorted_nth_mono [of "ls_own l" f g] by (auto simp: upper_order_def)
  then show False using upper_orderD(1) [OF l assms(3)] assms(4) by simp
qed

lemma ordered_faces_map:
  assumes "\<And>f. f \<in> set fs \<Longrightarrow> src f \<noteq> tgt f"
    and "\<And>us f vs. fs = us @ f # vs \<Longrightarrow> src f \<notin> tgt ` set vs"
  shows "ordered_faces (map (\<lambda>f. (tgt f, src f, co f)) fs)"
  using assms
proof (induction fs)
  case (Cons f fs)
  have "ordered_faces (map (\<lambda>f. (tgt f, src f, co f)) fs)"
    by (rule Cons.IH) (use Cons.prems(1) Cons.prems(2) [of "f # _"] in auto)
  moreover have "src f \<notin> tgt ` set fs" using Cons.prems(2) [of "[]"] by simp
  ultimately show ?case using Cons.prems(1) [of f] by (simp add: image_image)
qed simp

lemma upt_split: "[0..<n] = us @ f # vs \<Longrightarrow> f < n \<and> us = [0..<f] \<and> vs = [Suc f..<n]"
proof -
  assume a: "[0..<n] = us @ f # vs"
  then have n: "length us < n" by (metis length_upt diff_zero length_append length_Cons less_add_Suc1 add_Suc_right)
  have "f = [0..<n] ! length us" using a by simp
  then have f: "f = length us" using n by simp
  moreover have "vs = drop (Suc (length us)) [0..<n]" using a by simp
  moreover have "us = take (length us) [0..<n]" using a by simp
  ultimately show ?thesis using n by (simp add: drop_upt take_upt)
qed

lemma forward_ordered:
  assumes "upper_order l"
  shows "ordered_faces (forward_faces l rD)"
  unfolding forward_faces_def
proof (rule ordered_faces_map)
  show "ls_own l ! f \<noteq> ls_nei l ! f" if "f \<in> set [0..<length (ls_nei l)]" for f
    using upper_orderD(1) [OF assms, of f] that by simp
  show "ls_own l ! f \<notin> (!) (ls_nei l) ` set vs" if "[0..<length (ls_nei l)] = us @ f # vs" for us f vs
  proof -
    have "f < length (ls_nei l)" "vs = [Suc f..<length (ls_nei l)]" using upt_split [OF that] by simp_all
    then show ?thesis using source_before_target [OF assms, of f] by fastforce
  qed
qed

lemma backward_ordered:
  assumes "upper_order l"
  shows "ordered_faces (backward_faces l rD)"
  unfolding backward_faces_def
proof (rule ordered_faces_map)
  show "ls_nei l ! f \<noteq> ls_own l ! f" if "f \<in> set (rev [0..<length (ls_nei l)])" for f
    using upper_orderD(1) [OF assms, of f] that by simp
  show "ls_nei l ! f \<notin> (!) (ls_own l) ` set vs" if "rev [0..<length (ls_nei l)] = us @ f # vs" for us f vs
  proof -
    have r: "[0..<length (ls_nei l)] = rev vs @ f # rev us" using arg_cong [OF that, of rev] by simp
    then have f: "f < length (ls_nei l)" "set vs = {..<f}" using upt_split [OF r] by (auto simp: atLeast0LessThan dest: arg_cong [of _ _ set])
    show ?thesis
    proof
      assume "ls_nei l ! f \<in> (!) (ls_own l) ` set vs"
      then obtain g where "g < f" "ls_nei l ! f = ls_own l ! g" using f(2) by auto
      then show False using source_before_target [OF assms, of g f] f(1) by simp
    qed
  qed
qed

lemma faces_in_range:
  assumes "upper_order l" and "length w = ls_cells l"
  shows "list_all (\<lambda>(t, s, g). t < length w) (forward_faces l rD)"
    and "list_all (\<lambda>(t, s, g). t < length w) (backward_faces l rD)"
  using upper_orderD [OF assms(1)] assms(2)
  by (auto simp: forward_faces_def backward_faces_def list_all_iff)

text \<open>The sums over the faces of a cell: lower coefficients from its owners, upper ones from its neighbours.\<close>

definition lower_sum :: "'a::linordered_field ldu_sys \<Rightarrow> 'a vec \<Rightarrow> nat \<Rightarrow> 'a" where
  "lower_sum l y u = (\<Sum>f \<leftarrow> [0..<length (ls_nei l)]. if ls_nei l ! f = u then ls_lower l ! f * y ! (ls_own l ! f) else 0)"

definition upper_sum :: "'a::linordered_field ldu_sys \<Rightarrow> 'a vec \<Rightarrow> nat \<Rightarrow> 'a" where
  "upper_sum l y u = (\<Sum>f \<leftarrow> [0..<length (ls_nei l)]. if ls_own l ! f = u then ls_upper l ! f * y ! (ls_nei l ! f) else 0)"

lemma sum_list_scale: "(\<Sum>f \<leftarrow> fs. if P f then c f * a f else 0) = d * (\<Sum>f \<leftarrow> fs. if P f then a f else (0::'a::linordered_field))"
  if "\<And>f. P f \<Longrightarrow> c f = d"
  using that by (induction fs) (auto simp: algebra_simps)

lemma face_sum_forward: "face_sum (forward_faces l rD) y u = rD ! u * lower_sum l y u"
proof -
  have "face_sum (forward_faces l rD) y u =
      (\<Sum>f \<leftarrow> [0..<length (ls_nei l)]. if ls_nei l ! f = u then rD ! (ls_nei l ! f) * (ls_lower l ! f * y ! (ls_own l ! f)) else 0)"
    by (simp add: face_sum_def forward_faces_def comp_def mult.assoc cong: if_cong)
  also have "\<dots> = rD ! u * lower_sum l y u"
    unfolding lower_sum_def by (rule sum_list_scale) simp
  finally show ?thesis .
qed

lemma face_sum_backward: "face_sum (backward_faces l rD) y u = rD ! u * upper_sum l y u"
proof -
  have "face_sum (backward_faces l rD) y u =
      sum_list (rev (map (\<lambda>f. if ls_own l ! f = u then rD ! (ls_own l ! f) * (ls_upper l ! f * y ! (ls_nei l ! f)) else 0) [0..<length (ls_nei l)]))"
    by (simp add: face_sum_def backward_faces_def comp_def mult.assoc rev_map cong: if_cong)
  also have "\<dots> = (\<Sum>f \<leftarrow> [0..<length (ls_nei l)]. if ls_own l ! f = u then rD ! (ls_own l ! f) * (ls_upper l ! f * y ! (ls_nei l ! f)) else 0)"
    by (simp only: sum_list_rev)
  also have "\<dots> = rD ! u * upper_sum l y u"
    unfolding upper_sum_def by (rule sum_list_scale) simp
  finally show ?thesis .
qed

lemma dilu_diag_length [simp]: "length (dilu_diag l dg) = length dg"
proof -
  have "length (fold (\<lambda>f rD. rD[ls_nei l ! f := rD ! (ls_nei l ! f) - ls_upper l ! f * ls_lower l ! f / rD ! (ls_own l ! f)]) fs dg) = length dg" for fs
    by (induction fs arbitrary: dg) simp_all
  then show ?thesis by (simp add: dilu_diag_def)
qed

lemma recip_length [simp]: "length (recip v) = length v"
  by (simp add: recip_def)

lemma prec_dilu_substitutes:
  assumes l: "upper_order l" and dg: "length dg = ls_cells l" and r: "length r = ls_cells l"
  shows "\<exists>y w. prec_dilu l dg r = Inr w \<and> length y = ls_cells l \<and> length w = ls_cells l \<and>
    (\<forall>u < ls_cells l. y ! u = recip (dilu_diag l dg) ! u * (r ! u - lower_sum l y u) \<and>
                     w ! u = y ! u - recip (dilu_diag l dg) ! u * upper_sum l w u)"
proof -
  let ?rD = "recip (dilu_diag l dg)"
  let ?first = "map2 (*) ?rD r"
  let ?y = "face_sweep (forward_faces l ?rD) ?first"
  let ?w = "face_sweep (backward_faces l ?rD) ?y"
  have len: "length ?first = ls_cells l" using dg r by simp
  have y: "?y ! u = ?first ! u - ?rD ! u * lower_sum l ?y u" for u
    using face_sweep_solves [OF forward_ordered [OF l] faces_in_range(1) [OF l len]] face_sum_forward by metis
  have w: "?w ! u = ?y ! u - ?rD ! u * upper_sum l ?w u" for u
    using face_sweep_solves [OF backward_ordered [OF l] faces_in_range(2) [OF l]] face_sum_backward len
    by (metis face_sweep_length)
  have "?y ! u = ?rD ! u * (r ! u - lower_sum l ?y u)" if "u < ls_cells l" for u
    using y [of u] that dg r by (simp add: algebra_simps)
  moreover have "prec_dilu l dg r = Inr ?w" using dg r by (simp add: prec_dilu_def Let_def)
  ultimately show ?thesis using w len by (intro exI [of _ ?y] exI [of _ ?w]) simp
qed

subsection \<open>The rows of the matrix\<close>

definition ldu_ok :: "'a ldu_sys \<Rightarrow> bool" where
  "ldu_ok l \<longleftrightarrow> length (ls_own l) = length (ls_nei l) \<and> length (ls_upper l) = length (ls_nei l) \<and>
     length (ls_lower l) = length (ls_nei l) \<and>
     list_all (\<lambda>c. c < ls_cells l) (ls_own l) \<and> list_all (\<lambda>c. c < ls_cells l) (ls_nei l)"

lemma coo_row_append: "coo_row (es @ fs) x i = coo_row es x i + coo_row fs x i"
  by (simp add: coo_row_def)

lemma coo_row_zip:
  assumes "length a = n" and "length b = n" and "length c = n"
  shows "coo_row (zip a (zip b c)) x i = (\<Sum>f \<leftarrow> [0..<n]. if a ! f = i then c ! f * x ! (b ! f) else 0)"
proof -
  have "zip a (zip b c) = map (\<lambda>f. (a ! f, b ! f, c ! f)) [0..<n]"
    using assms by (intro nth_equalityI) simp_all
  then show ?thesis by (simp add: coo_row_def comp_def)
qed

lemma sum_list_delta: "(\<Sum>f \<leftarrow> [0..<n]. if f = i then g f else (0::'a::linordered_field)) = (if i < n then g i else 0)"
  by (simp add: interv_sum_list_conv_sum_set_nat atLeast0LessThan)

lemma coo_row_ldu:
  assumes "ldu_ok l" and "length dg = ls_cells l" and "i < ls_cells l"
  shows "coo_row (ldu_entries l dg) x i = dg ! i * x ! i + lower_sum l x i + upper_sum l x i"
proof -
  have "coo_row (zip [0..<ls_cells l] (zip [0..<ls_cells l] dg)) x i =
      (\<Sum>f \<leftarrow> [0..<ls_cells l]. if f = i then dg ! f * x ! f else 0)"
    using assms(2) by (auto simp: coo_row_zip [of _ "ls_cells l"] intro!: arg_cong [of _ _ sum_list])
  moreover have "coo_row (zip (ls_nei l) (zip (ls_own l) (ls_lower l))) x i = lower_sum l x i"
    "coo_row (zip (ls_own l) (zip (ls_nei l) (ls_upper l))) x i = upper_sum l x i"
    using assms(1) by (simp_all add: ldu_ok_def coo_row_zip [of _ "length (ls_nei l)"] lower_sum_def upper_sum_def)
  ultimately show ?thesis
    using assms(3) sum_list_delta [of i "\<lambda>f. dg ! f * x ! f"] by (simp add: ldu_entries_def coo_row_append)
qed

subsection \<open>Half steps\<close>

text \<open>No face joins two of the cells.\<close>

definition no_face_within :: "'a ldu_sys \<Rightarrow> nat list \<Rightarrow> bool" where
  "no_face_within l cells \<longleftrightarrow> list_all (\<lambda>f. \<not> (in_list (ls_own l ! f) cells \<and> in_list (ls_nei l ! f) cells)) [0..<length (ls_nei l)]"

lemma off_diagonal_cong:
  assumes l: "ldu_ok l" and "no_face_within l cells" and "i \<in> set cells"
    and "\<And>c. c \<notin> set cells \<Longrightarrow> c < ls_cells l \<Longrightarrow> x ! c = y ! c"
  shows "lower_sum l x i = lower_sum l y i" and "upper_sum l x i = upper_sum l y i"
proof -
  have n: "\<not> (ls_own l ! f \<in> set cells \<and> ls_nei l ! f \<in> set cells)" if "f < length (ls_nei l)" for f
    using assms(2) that by (auto simp: no_face_within_def list_all_iff in_list_def)
  have r: "ls_own l ! f < ls_cells l \<and> ls_nei l ! f < ls_cells l" if "f < length (ls_nei l)" for f
    using l that by (auto simp: ldu_ok_def list_all_length)
  have "x ! (ls_own l ! f) = y ! (ls_own l ! f)" if "f < length (ls_nei l)" "ls_nei l ! f = i" for f
    by (rule assms(4)) (use n r that assms(3) in auto)
  moreover have "x ! (ls_nei l ! f) = y ! (ls_nei l ! f)" if "f < length (ls_nei l)" "ls_own l ! f = i" for f
    by (rule assms(4)) (use n r that assms(3) in auto)
  ultimately show "lower_sum l x i = lower_sum l y i" "upper_sum l x i = upper_sum l y i"
    unfolding lower_sum_def upper_sum_def by (auto intro!: arg_cong [of _ _ sum_list])
qed

context scipy_lib
begin

lemma half_step_eq:
  "length w = fst A \<Longrightarrow> half_step sc A dg r cells w =
     Inr (map (\<lambda>i. if in_list i cells then 1 / dg ! i * (r ! i - coo_row (snd A) w i + dg ! i * w ! i) else w ! i) [0..<length w])"
  by (simp add: half_step_def matvec coo_vec_def)

text \<open>A half step solves the equations of its cells exactly, so that doing it again changes nothing.\<close>

lemma half_step_exact:
  assumes l: "ldu_ok l" and dg: "length dg = ls_cells l" and ind: "no_face_within l cells"
    and nz: "\<And>i. i \<in> set cells \<Longrightarrow> dg ! i \<noteq> 0" and cells: "list_all (\<lambda>i. i < ls_cells l) cells"
    and w: "length w = ls_cells l"
  defines "A \<equiv> (ls_cells l, ldu_entries l dg)"
  shows "\<exists>w'. half_step sc A dg r cells w = Inr w' \<and> length w' = ls_cells l \<and>
    (\<forall>i \<in> set cells. coo_vec A w' ! i = r ! i) \<and> half_step sc A dg r cells w' = Inr w'"
proof -
  define w' where "w' = map (\<lambda>i. if in_list i cells then 1 / dg ! i * (r ! i - coo_row (snd A) w i + dg ! i * w ! i) else w ! i) [0..<length w]"
  have len: "length w' = ls_cells l" using w by (simp add: w'_def)
  have in_range: "i < ls_cells l" if "i \<in> set cells" for i using cells that by (auto simp: list_all_iff)
  have keep: "w' ! c = w ! c" if "c \<notin> set cells" "c < ls_cells l" for c
    using that w by (simp add: w'_def in_list_def)
  have solved: "coo_row (snd A) w' i = r ! i" if i: "i \<in> set cells" for i
  proof -
    have "coo_row (snd A) w' i = dg ! i * w' ! i + (lower_sum l w i + upper_sum l w i)"
      using coo_row_ldu [OF l dg in_range [OF i], of w'] off_diagonal_cong [OF l ind i, of w' w] keep
      by (simp add: A_def)
    moreover have "coo_row (snd A) w i = dg ! i * w ! i + (lower_sum l w i + upper_sum l w i)"
      using coo_row_ldu [OF l dg in_range [OF i], of w] by (simp add: A_def)
    moreover have "dg ! i * w' ! i = r ! i - coo_row (snd A) w i + dg ! i * w ! i"
      using i in_range [OF i] w nz [OF i] by (simp add: w'_def in_list_def)
    ultimately show ?thesis by simp
  qed
  have "half_step sc A dg r cells w' = Inr w'"
  proof -
    have "(if in_list i cells then 1 / dg ! i * (r ! i - coo_row (snd A) w' i + dg ! i * w' ! i) else w' ! i) = w' ! i" for i
      using solved [of i] nz [of i] by (simp add: in_list_def)
    then show ?thesis using half_step_eq [of w' A dg r cells] len map_nth [of w'] by (simp add: A_def)
  qed
  moreover have "half_step sc A dg r cells w = Inr w'" using half_step_eq [of w A dg r cells] w by (simp add: A_def w'_def)
  moreover have "coo_vec A w' ! i = r ! i" if "i \<in> set cells" for i
    using solved [OF that] in_range [OF that] by (simp add: coo_vec_def A_def)
  ultimately show ?thesis using len by blast
qed

end

subsection \<open>The polynomial preconditioner is a truncated Neumann series\<close>

text \<open>One application of \<open>I - D\<^sup>-\<^sup>1 A\<close>.\<close>

definition neumann :: "'a::linordered_field coo \<Rightarrow> 'a vec \<Rightarrow> 'a vec \<Rightarrow> 'a vec" where
  "neumann A rD t = map2 (-) t (map2 (*) rD (coo_vec A t))"

lemma coo_vec_length [simp]: "length (coo_vec A x) = fst A"
  by (simp add: coo_vec_def)

lemma neumann_length: "length t = fst A \<Longrightarrow> length rD = fst A \<Longrightarrow> length (neumann A rD t) = fst A"
  by (simp add: neumann_def)

lemma neumann_pow_length: "length t = fst A \<Longrightarrow> length rD = fst A \<Longrightarrow> length ((neumann A rD ^^ j) t) = fst A"
  by (induction j) (simp_all add: neumann_length)

context scipy_lib
begin

lemma poly_loop_sum:
  "length t = fst A \<Longrightarrow> length w = fst A \<Longrightarrow> length rD = fst A \<Longrightarrow>
     \<exists>z. poly_loop k sc A rD t w = Inr z \<and> length z = fst A \<and>
       (\<forall>i < fst A. z ! i = w ! i + (\<Sum>j < k. (neumann A rD ^^ Suc j) t ! i))"
proof (induction k arbitrary: t w)
  case (Suc k)
  let ?N = "neumann A rD"
  have len: "length (?N t) = fst A" using neumann_length Suc.prems by blast
  then have lw: "length (map2 (+) w (?N t)) = fst A" using Suc.prems by simp
  from Suc.IH [OF len lw Suc.prems(3)] obtain z where
    z: "poly_loop k sc A rD (?N t) (map2 (+) w (?N t)) = Inr z" "length z = fst A"
    "\<forall>i < fst A. z ! i = map2 (+) w (?N t) ! i + (\<Sum>j < k. (?N ^^ Suc j) (?N t) ! i)" by blast
  have "poly_loop (Suc k) sc A rD t w = Inr z"
    using z(1) len Suc.prems by (simp add: matvec neumann_def)
  moreover have "z ! i = w ! i + (\<Sum>j < Suc k. (?N ^^ Suc j) t ! i)" if "i < fst A" for i
    using z(3) that len Suc.prems by (simp add: sum.lessThan_Suc_shift funpow_swap1 del: sum.lessThan_Suc)
  ultimately show ?case using z(2) by blast
qed simp

lemma prec_poly_neumann:
  assumes "length dg = fst A" and "length r = fst A"
  shows "\<exists>z. prec_poly sc A dg (Suc k) r = Inr z \<and> length z = fst A \<and>
    (\<forall>i < fst A. z ! i = (\<Sum>j < Suc k. (neumann A (recip dg) ^^ j) (map2 (*) (recip dg) r) ! i))"
proof -
  let ?w = "map2 (*) (recip dg) r"
  have len: "length ?w = fst A" "length (recip dg) = fst A" using assms by simp_all
  from poly_loop_sum [OF len(1) len(1) len(2), of k] obtain z where
    z: "poly_loop k sc A (recip dg) ?w ?w = Inr z" "length z = fst A"
    "\<forall>i < fst A. z ! i = ?w ! i + (\<Sum>j < k. (neumann A (recip dg) ^^ Suc j) ?w ! i)" by blast
  then show ?thesis using assms
    by (intro exI [of _ z]) (simp add: prec_poly_def sum.lessThan_Suc_shift del: sum.lessThan_Suc)
qed

end

subsection \<open>The residual of the iterate\<close>

definition coo_ok :: "'a coo \<Rightarrow> bool" where
  "coo_ok A \<longleftrightarrow> list_all (\<lambda>(r, c, v). c < fst A) (snd A)"

lemma coo_row_axpy:
  assumes "list_all (\<lambda>(r, c, v). c < n) es" and "length x = n" and "length p = n"
  shows "coo_row es (map2 (+) x (vscale a p)) i = coo_row es x i + a * coo_row es p i"
  using assms(1)
proof (induction es)
  case (Cons e es)
  obtain r c v where e: "e = (r, c, v)" by (cases e) auto
  then show ?case using Cons assms(2,3) by (simp add: coo_row_def vscale_def algebra_simps)
qed (simp add: coo_row_def)

lemma vscale_nth [simp]: "i < length v \<Longrightarrow> vscale a v ! i = a * v ! i"
  by (simp add: vscale_def)

lemma residual_axpy:
  assumes "coo_ok A" and "length b = fst A" and "length x = fst A" and "length p = fst A"
  shows "map2 (-) (map2 (-) b (coo_vec A x)) (vscale a (coo_vec A p)) = map2 (-) b (coo_vec A (map2 (+) x (vscale a p)))"
  using assms by (intro nth_equalityI) (simp_all add: coo_ok_def coo_vec_def coo_row_axpy [of "fst A"])

text \<open>The state between two rounds of BiCGStab.\<close>

definition bicg_ok :: "'a::linordered_field coo \<Rightarrow> 'a vec \<Rightarrow> 'a \<Rightarrow> 'a bicg \<Rightarrow> bool" where
  "bicg_ok A b nf s \<longleftrightarrow> length (bc_x s) = fst A \<and> length (bc_p s) = fst A \<and> length (bc_v s) = fst A \<and>
     bc_r s = map2 (-) b (coo_vec A (bc_x s)) \<and> bc_res s = abs_sum (bc_r s) / nf"

text \<open>What a returned state promises: the reported residual is the residual of the iterate.\<close>

definition bicg_true :: "'a::linordered_field coo \<Rightarrow> 'a vec \<Rightarrow> 'a \<Rightarrow> 'a bicg \<Rightarrow> bool" where
  "bicg_true A b nf s \<longleftrightarrow> length (bc_x s) = fst A \<and> bc_res s = abs_sum (map2 (-) b (coo_vec A (bc_x s))) / nf"

lemma bicg_ok_true: "bicg_ok A b nf s \<Longrightarrow> bicg_true A b nf s"
  by (simp add: bicg_ok_def bicg_true_def)

text \<open>A preconditioner of vectors of one length.\<close>

definition prec_ok :: "nat \<Rightarrow> ('a vec \<Rightarrow> 'a vec res) \<Rightarrow> bool" where
  "prec_ok n prec \<longleftrightarrow> (\<forall>r. length r = n \<longrightarrow> (\<exists>y. prec r = Inr y \<and> length y = n))"

lemma prec_okE: "prec_ok n prec \<Longrightarrow> length r = n \<Longrightarrow> (\<And>y. prec r = Inr y \<Longrightarrow> length y = n \<Longrightarrow> thesis) \<Longrightarrow> thesis"
  by (auto simp: prec_ok_def)

lemma prec_okD: "prec_ok n prec \<Longrightarrow> length r = n \<Longrightarrow> prec r = Inr y \<Longrightarrow> length y = n"
  by (auto simp: prec_ok_def)

lemma bicg_direction_length:
  "bicg_ok A b nf s \<Longrightarrow> length b = fst A \<Longrightarrow> bicg_direction s rho = Inr p \<Longrightarrow> length p = fst A"
proof -
  assume s: "bicg_ok A b nf s" and b: "length b = fst A" and p: "bicg_direction s rho = Inr p"
  have "length (bc_r s) = fst A" "length (bc_p s) = fst A" "length (bc_v s) = fst A"
    using s b by (simp_all add: bicg_ok_def)
  then show "length p = fst A" using p by (auto simp: bicg_direction_def Let_def split: if_splits)
qed

context scipy_lib
begin

lemma bicg_start_ok:
  assumes "length b = fst A" and "length x0 = fst A"
  shows "\<exists>s. bicg_start sc A b x0 nf = Inr s \<and> bicg_ok A b nf s \<and> bc_n s = 0 \<and> bc_x s = x0"
  using assms by (simp add: bicg_start_def defect_def matvec bicg_ok_def)

lemma bicg_step_ok:
  assumes A: "coo_ok A" and b: "length b = fst A" and prec: "prec_ok (fst A) prec" and s: "bicg_ok A b nf s"
    and st: "bicg_step sc A prec nf goal r0 s = Inr (s', stop)"
  shows "bc_n s' = Suc (bc_n s)" and "stop \<Longrightarrow> bicg_true A b nf s' \<and> bc_res s' < goal"
    and "\<not> stop \<Longrightarrow> bicg_ok A b nf s'"
proof -
  have x: "length (bc_x s) = fst A" and r: "bc_r s = map2 (-) b (coo_vec A (bc_x s))"
    using s by (simp_all add: bicg_ok_def)
  from st obtain rho p y v d h x1 where p: "bicg_direction s rho = Inr p" and y: "prec p = Inr y"
    and v: "sc_matvec sc A y = Inr v" and h: "vsub (bc_r s) (vscale (rho / d) v) = Inr h"
    and x1: "vadd (bc_x s) (vscale (rho / d) y) = Inr x1"
    and rest: "(if abs_sum h / nf < goal then
       Inr (s\<lparr>bc_x := x1, bc_p := p, bc_v := v, bc_alpha := rho / d, bc_res := abs_sum h / nf, bc_n := Suc (bc_n s)\<rparr>, True)
     else
       bindR (prec h) (\<lambda>z.
       bindR (sc_matvec sc A z) (\<lambda>t.
       bindR (sc_dot sc t h) (\<lambda>th.
       bindR (sc_dot sc t t) (\<lambda>tt.
       bindR (vadd x1 (vscale (th / tt) z)) (\<lambda>x2.
       bindR (vsub h (vscale (th / tt) t)) (\<lambda>r1.
         Inr (\<lparr>bc_x = x2, bc_r = r1, bc_p = p, bc_v = v, bc_rho = rho, bc_alpha = rho / d, bc_omega = th / tt,
               bc_res = abs_sum r1 / nf, bc_n = Suc (bc_n s)\<rparr>, False)))))))) = Inr (s', stop)"
    unfolding bicg_step_def Let_def bindR_Inr_iff by blast
  have lp: "length p = fst A" using bicg_direction_length [OF s b p] .
  then have ly: "length y = fst A" using prec_okD [OF prec _ y] by simp
  then have vy: "v = coo_vec A y" using v by (simp add: matvec)
  have x1': "x1 = map2 (+) (bc_x s) (vscale (rho / d) y)" using x1 x ly by simp
  have h': "h = map2 (-) b (coo_vec A x1)"
    using h residual_axpy [OF A b x ly] b x by (simp add: r vy x1')
  have lx: "length x1 = fst A" "length h = fst A" using x ly b by (simp_all add: x1' h')
  show "bc_n s' = Suc (bc_n s)"
    using rest by (auto simp: bindR_Inr_iff split: if_splits)
  show "bicg_true A b nf s' \<and> bc_res s' < goal" if stop
    using rest that lx by (auto simp: bicg_true_def h' bindR_Inr_iff split: if_splits)
  assume ns: "\<not> stop"
  with rest obtain z t th tt x2 r1 where z: "prec h = Inr z" and t: "sc_matvec sc A z = Inr t"
    and x2: "vadd x1 (vscale (th / tt) z) = Inr x2" and r1: "vsub h (vscale (th / tt) t) = Inr r1"
    and s': "s' = \<lparr>bc_x = x2, bc_r = r1, bc_p = p, bc_v = v, bc_rho = rho, bc_alpha = rho / d, bc_omega = th / tt,
               bc_res = abs_sum r1 / nf, bc_n = Suc (bc_n s)\<rparr>"
    by (auto simp: bindR_Inr_iff split: if_splits)
  have lz: "length z = fst A" using prec_okD [OF prec _ z] lx by simp
  then have tz: "t = coo_vec A z" using t by (simp add: matvec)
  have "x2 = map2 (+) x1 (vscale (th / tt) z)" using x2 lx lz by simp
  moreover have "r1 = map2 (-) b (coo_vec A x2)"
    using r1 residual_axpy [OF A b lx(1) lz] b lx calculation by (simp add: h' tz)
  ultimately show "bicg_ok A b nf s'" using lx lz lp vy by (simp add: s' bicg_ok_def)
qed

lemma bicg_direction_returns:
  assumes "bicg_ok A b nf s" and "length b = fst A"
  obtains p where "bicg_direction s rho = Inr p" and "length p = fst A"
proof -
  have "length (bc_r s) = fst A" using assms by (simp add: bicg_ok_def)
  then have "\<exists>p. bicg_direction s rho = Inr p \<and> length p = fst A"
    using assms by (simp add: bicg_direction_def bicg_ok_def Let_def)
  then show ?thesis using that by blast
qed

lemma bicg_step_returns:
  assumes b: "length b = fst A" and prec: "prec_ok (fst A) prec" and s: "bicg_ok A b nf s" and r0: "length r0 = fst A"
  shows "\<exists>s' stop. bicg_step sc A prec nf goal r0 s = Inr (s', stop)"
proof -
  have x: "length (bc_x s) = fst A" and r: "length (bc_r s) = fst A" using s b by (simp_all add: bicg_ok_def)
  let ?rho = "vdot r0 (bc_r s)"
  obtain p where p: "bicg_direction s ?rho = Inr p" "length p = fst A" using bicg_direction_returns [OF s b] .
  obtain y where y: "prec p = Inr y" "length y = fst A" using prec_okE [OF prec p(2)] .
  let ?al = "?rho / vdot r0 (coo_vec A y)"
  let ?h = "map2 (-) (bc_r s) (vscale ?al (coo_vec A y))"
  have h: "length ?h = fst A" using r by simp
  obtain z where z: "prec ?h = Inr z" "length z = fst A" using prec_okE [OF prec h] .
  show ?thesis
    using p y z r r0 x h by (simp add: bicg_step_def dot matvec Let_def) blast
qed

lemma bicg_loop_ok:
  assumes A: "coo_ok A" and b: "length b = fst A" and prec: "prec_ok (fst A) prec" and r0: "length r0 = fst A"
  shows "bicg_ok A b nf s \<Longrightarrow> \<exists>s'. bicg_loop k sc A prec nf goal r0 s = Inr s' \<and>
    bicg_true A b nf s' \<and> bc_n s' \<le> bc_n s + k \<and> (bc_res s' < goal \<or> bc_n s' = bc_n s + k)"
proof (induction k arbitrary: s)
  case 0
  then show ?case by (simp add: bicg_ok_true)
next
  case (Suc k)
  show ?case
  proof (cases "goal \<le> bc_res s")
    case True
    obtain s1 stop where st: "bicg_step sc A prec nf goal r0 s = Inr (s1, stop)"
      using bicg_step_returns [OF b prec Suc.prems r0] by blast
    note ok = bicg_step_ok [OF A b prec Suc.prems st]
    show ?thesis
    proof (cases stop)
      case True
      then show ?thesis using st \<open>goal \<le> bc_res s\<close> ok by simp
    next
      case False
      from Suc.IH [OF ok(3) [OF False]] show ?thesis using st \<open>goal \<le> bc_res s\<close> ok(1) False by auto
    qed
  next
    case False
    then show ?thesis using Suc.prems by (auto simp: bicg_ok_true)
  qed
qed

lemma bicgstab_returns:
  assumes "coo_ok A" and "length b = fst A" and "length x0 = fst A" and "prec_ok (fst A) prec"
  shows "\<exists>s line1. bicgstab sc A b x0 prec nf relTol label = Inr (s, line1) \<and> bicg_true A b nf s \<and> bc_n s \<le> MAXIT \<and>
    (bc_n s = MAXIT \<or> bc_res s = 0 \<or> bc_res s < relTol * (abs_sum (map2 (-) b (coo_vec A x0)) / nf))"
proof -
  obtain s0 where st: "bicg_start sc A b x0 nf = Inr s0" "bicg_ok A b nf s0" "bc_n s0 = 0" "bc_x s0 = x0"
    using bicg_start_ok [OF assms(2,3)] by blast
  then have r0: "length (bc_r s0) = fst A" "bc_res s0 = abs_sum (map2 (-) b (coo_vec A x0)) / nf"
    using assms(2) by (simp_all add: bicg_ok_def)
  from bicg_loop_ok [OF assms(1,2,4) r0(1) st(2), of MAXIT "relTol * bc_res s0"] obtain s where
    "bicg_loop MAXIT sc A prec nf (relTol * bc_res s0) (bc_r s0) s0 = Inr s" "bicg_true A b nf s"
    "bc_n s \<le> MAXIT" "bc_res s < relTol * bc_res s0 \<or> bc_n s = MAXIT" using st(3) by auto
  then show ?thesis using st r0 bicg_ok_true [OF st(2)] by (cases "bc_res s0 = 0") (auto simp: bicgstab_def)
qed

lemma prec_jacobi_ok: "length dg = n \<Longrightarrow> prec_ok n (prec_jacobi dg)"
  by (simp add: prec_ok_def prec_jacobi_def)

end

subsection \<open>Properties\<close>

lemma adj_pairs_ok: "ldu_ok l \<Longrightarrow> adj_ok (ls_cells l) (adj_pairs (ls_own l) (ls_nei l))"
  by (auto simp: adj_ok_def adj_pairs_def ldu_ok_def list_all_iff dest: set_zip_leftD set_zip_rightD)

lemma bipartite_independent:
  assumes l: "ldu_ok l" and "bipartite (adj_pairs (ls_own l) (ls_nei l)) colour" and "length colour = ls_cells l"
  shows "no_face_within l (cells_of q colour)"
proof -
  have "colour ! (ls_own l ! f) \<noteq> colour ! (ls_nei l ! f)" if "f < length (ls_nei l)" for f
  proof -
    have "(ls_own l ! f, ls_nei l ! f) \<in> set (zip (ls_own l) (ls_nei l))"
      using l that by (auto simp: ldu_ok_def set_zip)
    then show ?thesis using assms(2) by (auto simp: bipartite_def adj_pairs_def list_all_iff)
  qed
  then show ?thesis by (auto simp: no_face_within_def list_all_iff cells_of_def in_list_def) (metis)
qed

text \<open>C18: The DILU preconditioner is a forward and a backward substitution: on a mesh in OpenFOAM's upper-triangular face order the
  two sweeps give the solution of the lower triangular system with the reciprocal diagonal that the script computes, and then of
  the upper triangular one.\<close>

theorem dilu_substitutes:
  assumes "upper_order l" and "length dg = ls_cells l" and "length r = ls_cells l"
  shows "\<exists>y w. prec_dilu l dg r = Inr w \<and> length y = ls_cells l \<and> length w = ls_cells l \<and>
    list_all (\<lambda>u. y ! u = recip (dilu_diag l dg) ! u * (r ! u - lower_sum l y u) \<and>
                  w ! u = y ! u - recip (dilu_diag l dg) ! u * upper_sum l w u) [0..<ls_cells l]"
  using prec_dilu_substitutes [OF assms] by (simp add: list_all_length)

definition three_cells :: "rat ldu_sys" where
  "three_cells = \<lparr>ls_own = [0, 1], ls_nei = [1, 2], ls_cells = 3, ls_upper = [-1, -1], ls_lower = [-1, -2]\<rparr>"

theorem dilu_substitutes_witness:
  "\<exists>y w. prec_dilu three_cells [2, 3, 4] [1, 1, 1] = Inr w \<and> length y = 3 \<and> length w = 3 \<and>
    list_all (\<lambda>u. y ! u = recip (dilu_diag three_cells [2, 3, 4]) ! u * ([1, 1, 1] ! u - lower_sum three_cells y u) \<and>
                  w ! u = y ! u - recip (dilu_diag three_cells [2, 3, 4]) ! u * upper_sum three_cells w u) [0..<3]"
  using dilu_substitutes [of three_cells "[2, 3, 4]" "[1, 1, 1]"]
  by (simp add: three_cells_def upper_order_def)

text \<open>On a two-coloured mesh with a diagonal without zeros, the second of the two black half steps of a symmetric red-black sweep
  changes nothing: a sweep is red, black, red.\<close>

theorem red_black_sweep:
  assumes sc: "scipy_lib sc" and l: "ldu_ok l" and dg: "length dg = ls_cells l" and nz: "list_all (\<lambda>d. d \<noteq> 0) dg"
    and col: "bipartite (adj_pairs (ls_own l) (ls_nei l)) colour" "length colour = ls_cells l" and w: "length w = ls_cells l"
  shows "rbsgs_loop (Suc k) sc (ls_cells l, ldu_entries l dg) dg red (cells_of 1 colour) r w =
    bindR (half_step sc (ls_cells l, ldu_entries l dg) dg r red w) (\<lambda>w1.
    bindR (half_step sc (ls_cells l, ldu_entries l dg) dg r (cells_of 1 colour) w1) (\<lambda>w2.
    bindR (half_step sc (ls_cells l, ldu_entries l dg) dg r red w2) (\<lambda>w3.
      rbsgs_loop k sc (ls_cells l, ldu_entries l dg) dg red (cells_of 1 colour) r w3)))"
proof -
  let ?A = "(ls_cells l, ldu_entries l dg)" and ?black = "cells_of 1 colour"
  have ind: "no_face_within l ?black" using bipartite_independent [OF l col] .
  have bl: "list_all (\<lambda>i. i < ls_cells l) ?black" using col(2) by (auto simp: cells_of_def list_all_iff)
  have nz': "dg ! i \<noteq> 0" if "i \<in> set ?black" for i
    using nz dg bl that by (auto simp: list_all_iff)
  obtain w1 where w1: "half_step sc ?A dg r red w = Inr w1" "length w1 = ls_cells l"
    using scipy_lib.half_step_eq [OF sc, of w ?A dg r red] w by simp
  obtain w2 where "half_step sc ?A dg r ?black w1 = Inr w2" "half_step sc ?A dg r ?black w2 = Inr w2"
    using scipy_lib.half_step_exact [OF sc l dg ind nz' bl w1(2)] by blast
  then show ?thesis using w1 by simp
qed

theorem red_black_sweep_witness:
  "rbsgs_loop (Suc 0) ref_sci (3, ldu_entries three_cells [2, 3, 4]) [2, 3, 4] [0, 2] (cells_of 1 [0, 1, 0]) [1, 1, 1] [0, 0, 0] =
    bindR (half_step ref_sci (3, ldu_entries three_cells [2, 3, 4]) [2, 3, 4] [1, 1, 1] [0, 2] [0, 0, 0]) (\<lambda>w1.
    bindR (half_step ref_sci (3, ldu_entries three_cells [2, 3, 4]) [2, 3, 4] [1, 1, 1] (cells_of 1 [0, 1, 0]) w1) (\<lambda>w2.
    bindR (half_step ref_sci (3, ldu_entries three_cells [2, 3, 4]) [2, 3, 4] [1, 1, 1] [0, 2] w2) (\<lambda>w3.
      rbsgs_loop 0 ref_sci (3, ldu_entries three_cells [2, 3, 4]) [2, 3, 4] [0, 2] (cells_of 1 [0, 1, 0]) [1, 1, 1] w3)))"
  using red_black_sweep [OF rsci.scipy_lib_axioms, of three_cells "[2, 3, 4]" "[0, 1, 0]" "[0, 0, 0]" 0 "[0, 2]" "[1, 1, 1]"]
  by (simp add: three_cells_def ldu_ok_def bipartite_def adj_pairs_def del: rbsgs_loop.simps)



text \<open>The polynomial preconditioner is the sum of the first terms of the Neumann series.\<close>

theorem prec_poly_is_neumann:
  assumes "scipy_lib sc" and "length dg = fst A" and "length r = fst A"
  shows "\<exists>z. prec_poly sc A dg (Suc k) r = Inr z \<and> length z = fst A \<and>
    list_all (\<lambda>i. z ! i = (\<Sum>j < Suc k. (neumann A (recip dg) ^^ j) (map2 (*) (recip dg) r) ! i)) [0..<fst A]"
  using scipy_lib.prec_poly_neumann [OF assms, of k] by (simp add: list_all_length)

end
