(* ===== verification/Eps_Precond.thy ===== *)
theory Eps_Precond
  imports Ldu_Precond
begin

text \<open>
  \<open>bench/rhoSimpleFoam/eps_precond_experiment.py\<close>: the same experiment on one scalar equation, with two more
  preconditioners, the Chebyshev polynomial and DILU on the red-black ordering, and the distance of the
  iterate from the directly solved one.  The code that is copied from the momentum experiment has the
  definitions of \<open>Ldu_System\<close> and \<open>Ldu_Precond\<close>.  The lemmas say that red-black DILU is an exact elimination of one
  colour after the other, and that the Chebyshev iteration carries the residual of its iterate.
\<close>

record 'a sci_eps = "'a sci" +
  se_norm :: "'a vec \<Rightarrow> 'a"
  se_solve :: "'a coo \<Rightarrow> 'a vec \<Rightarrow> 'a vec res"
  se_random :: "nat \<Rightarrow> 'a vec"
  se_e4 :: "'a \<Rightarrow> string"
  se_g :: "'a \<Rightarrow> string"
  se_time :: "nat \<Rightarrow> string"

definition EPS_MAXIT :: nat where "EPS_MAXIT = 400"

definition eps_readlist :: "fsys \<Rightarrow> string \<Rightarrow> int list res" where
  "eps_readlist fs fn = readlist fs fn"

text \<open>The labels, the coefficients and the starting vector, with the assertion on their sizes.\<close>

record 'a eps_sys =
  es_raw :: "'a raw_sys"
  es_diag :: "'a ndarray"
  es_b :: "'a ndarray"
  es_start :: "'a ndarray"

definition eps_read :: "'a::linordered_field sci_eps \<Rightarrow> fsys \<Rightarrow> string \<Rightarrow> string \<Rightarrow> string \<Rightarrow> 'a eps_sys res" where
  "eps_read sc fs dump mesh fld =
     (let load = (\<lambda>part1. sc_load sc (dump @ ''/'' @ fld @ part1)) in
      bindR (eps_readlist fs (mesh @ ''/owner'')) (\<lambda>own0.
      bindR (eps_readlist fs (mesh @ ''/neighbour'')) (\<lambda>nei0.
      let own1 = take (length nei0) own0 in
      bindR (arr_max own1) (\<lambda>mo.
      bindR (arr_max nei0) (\<lambda>mn.
      let nC = max mo mn + 1 in
      bindR (load ''D'') (\<lambda>dg.
      bindR (load ''Src'') (\<lambda>b.
      bindR (load ''Upper'') (\<lambda>up.
      bindR (load ''Lower'') (\<lambda>lo.
      bindR (load ''SolveIn'') (\<lambda>x0.
      if nd_size up \<noteq> length nei0 \<or> nd_size lo \<noteq> length nei0 \<or> int (nd_size dg) \<noteq> nC then Inl AssertionError
      else if length own1 \<noteq> length nei0 then Inl ValueError
      else bindR (labels own1) (\<lambda>own.
           bindR (labels nei0) (\<lambda>nei.
             Inr \<lparr>es_raw = \<lparr>r_own = own, r_nei = nei, r_cells = nat nC, r_upper = up, r_lower = lo\<rparr>,
                  es_diag = dg, es_b = b, es_start = x0\<rparr>))))))))))))"

definition eps_bipartite :: "nat list \<Rightarrow> nat list \<Rightarrow> int list \<Rightarrow> bool" where
  "eps_bipartite own nei colour \<longleftrightarrow>
     list_all (\<lambda>(a, b). colour ! a \<noteq> colour ! b) (zip own nei) \<and> list_all (\<lambda>q. 0 \<le> q) colour"

subsection \<open>Preconditioners\<close>

text \<open>
  \<open>prec_cheb\<close>: the largest eigenvalue by thirty power iterations from the vector of numpy's generator with seed 0, and
  the polynomial over the interval it gives.
\<close>

primrec power_loop :: "nat \<Rightarrow> 'a::linordered_field sci_eps \<Rightarrow> 'a coo \<Rightarrow> 'a vec \<Rightarrow> 'a vec \<Rightarrow> 'a vec res" where
  "power_loop 0 sc A rD v = Inr v"
| "power_loop (Suc k) sc A rD v =
     bindR (sc_matvec sc A v) (\<lambda>Av.
     bindR (zip_with (*) rD Av) (\<lambda>v1.
       let nv = se_norm sc v1 in
       if nv = 0 then Inr v1 else power_loop k sc A rD (map (\<lambda>a. a / nv) v1)))"

definition lambda_max :: "'a::linordered_field sci_eps \<Rightarrow> 'a coo \<Rightarrow> 'a vec \<Rightarrow> 'a res" where
  "lambda_max sc A rD =
     bindR (power_loop 30 sc A rD (se_random sc (fst A))) (\<lambda>v.
     bindR (sc_matvec sc A v) (\<lambda>Av.
     bindR (zip_with (*) rD Av) (\<lambda>u.
     bindR (sc_dot sc v u) (\<lambda>vu.
     bindR (sc_dot sc v v) (\<lambda>vv. Inr (12 / 10 * (vu / vv)))))))"

record 'a cheb =
  ch_x :: "'a vec"
  ch_r :: "'a vec"
  ch_p :: "'a vec"
  ch_alpha :: 'a

definition cheb_coeffs :: "'a::linordered_field \<Rightarrow> 'a \<Rightarrow> nat \<Rightarrow> 'a \<Rightarrow> 'a \<times> 'a" where
  "cheb_coeffs d0 c i alpha =
     (if i = 0 then (1 / d0, 0)
      else let beta = (if i = 1 then (c * alpha) ^ 2 / 2 else (c * alpha / 2) ^ 2)
           in (1 / (d0 - beta / alpha), beta))"

definition cheb_step :: "'a::linordered_field sci_eps \<Rightarrow> 'a coo \<Rightarrow> 'a vec \<Rightarrow> 'a \<Rightarrow> 'a \<Rightarrow> 'a cheb \<Rightarrow> nat \<Rightarrow> 'a cheb res" where
  "cheb_step sc A rD d0 c s i =
     bindR (zip_with (*) rD (ch_r s)) (\<lambda>z.
     let (alpha, beta) = cheb_coeffs d0 c i (ch_alpha s) in
     bindR (if i = 0 then Inr z else vadd z (vscale beta (ch_p s))) (\<lambda>p.
     bindR (vadd (ch_x s) (vscale alpha p)) (\<lambda>x.
     bindR (sc_matvec sc A p) (\<lambda>Ap.
     bindR (vsub (ch_r s) (vscale alpha Ap)) (\<lambda>r.
       Inr \<lparr>ch_x = x, ch_r = r, ch_p = p, ch_alpha = alpha\<rparr>)))))"

definition cheb_apply :: "'a::linordered_field sci_eps \<Rightarrow> 'a coo \<Rightarrow> 'a vec \<Rightarrow> 'a \<Rightarrow> 'a \<Rightarrow> nat \<Rightarrow> 'a vec \<Rightarrow> 'a cheb res" where
  "cheb_apply sc A rD d0 c deg r =
     foldR (cheb_step sc A rD d0 c) \<lparr>ch_x = zeros (fst A), ch_r = r, ch_p = zeros (fst A), ch_alpha = 0\<rparr> [0..<deg]"

definition prec_cheb :: "'a::linordered_field sci_eps \<Rightarrow> 'a coo \<Rightarrow> 'a vec \<Rightarrow> nat \<Rightarrow> ('a vec \<Rightarrow> 'a vec res) res" where
  "prec_cheb sc A dg deg =
     bindR (lambda_max sc A (recip dg)) (\<lambda>lmax.
       let lmin = 1 / 30 * lmax; d0 = (lmax + lmin) / 2; c = (lmax - lmin) / 2
       in Inr (\<lambda>r. bindR (cheb_apply sc A (recip dg) d0 c deg r) (\<lambda>s. Inr (ch_x s))))"

text \<open>\<open>np.add.at\<close>: the values are added one after the other, a place that occurs twice taking both.\<close>

definition add_at :: "'a::linordered_field vec \<Rightarrow> (nat \<times> 'a) list \<Rightarrow> 'a vec" where
  "add_at v ps = fold (\<lambda>(i, a) v. v[i := v ! i + a]) ps v"

definition red_owner :: "'a ldu_sys \<Rightarrow> int list \<Rightarrow> nat \<Rightarrow> bool" where
  "red_owner l colour f \<longleftrightarrow> colour ! (ls_own l ! f) = 0"

definition rb_diag :: "'a::linordered_field ldu_sys \<Rightarrow> 'a vec \<Rightarrow> int list \<Rightarrow> 'a vec" where
  "rb_diag l dg colour =
     add_at dg (map (\<lambda>f. (if red_owner l colour f then ls_nei l ! f else ls_own l ! f,
         - (ls_upper l ! f * ls_lower l ! f) / dg ! (if red_owner l colour f then ls_own l ! f else ls_nei l ! f)))
       [0..<length (ls_nei l)])"

definition red_black_faces :: "'a ldu_sys \<Rightarrow> int list \<Rightarrow> nat list" where
  "red_black_faces l colour = filter (red_owner l colour) [0..<length (ls_nei l)]"

definition black_red_faces :: "'a ldu_sys \<Rightarrow> int list \<Rightarrow> nat list" where
  "black_red_faces l colour = filter (\<lambda>f. \<not> red_owner l colour f) [0..<length (ls_nei l)]"

text \<open>What the faces of a list carry to their neighbours by the lower and to their owners by the upper coefficients.\<close>

definition to_neighbours :: "'a::linordered_field ldu_sys \<Rightarrow> 'a vec \<Rightarrow> nat list \<Rightarrow> (nat \<times> 'a) list" where
  "to_neighbours l w fs = map (\<lambda>f. (ls_nei l ! f, ls_lower l ! f * w ! (ls_own l ! f))) fs"

definition to_owners :: "'a::linordered_field ldu_sys \<Rightarrow> 'a vec \<Rightarrow> nat list \<Rightarrow> (nat \<times> 'a) list" where
  "to_owners l w fs = map (\<lambda>f. (ls_own l ! f, ls_upper l ! f * w ! (ls_nei l ! f))) fs"

definition rb_update :: "'a::linordered_field vec \<Rightarrow> 'a vec \<Rightarrow> 'a vec \<Rightarrow> 'a vec res" where
  "rb_update rD w upd = bindR (zip_with (*) rD upd) (vsub w)"

definition prec_dilu_rb :: "'a::linordered_field ldu_sys \<Rightarrow> 'a vec \<Rightarrow> int list \<Rightarrow> 'a vec \<Rightarrow> 'a vec res" where
  "prec_dilu_rb l dg colour r =
     (let rDi = recip (rb_diag l dg colour); fRB = red_black_faces l colour; fBR = black_red_faces l colour; z = zeros (ls_cells l) in
      bindR (zip_with (*) rDi r) (\<lambda>w.
      bindR (rb_update rDi w (add_at (add_at z (to_neighbours l w fRB)) (to_owners l w fBR))) (\<lambda>y.
        rb_update rDi y (add_at (add_at z (to_owners l y fRB)) (to_neighbours l y fBR)))))"

subsection \<open>The solver and the command\<close>

definition eps_bicgstab :: "'a::linordered_field sci_eps \<Rightarrow> 'a coo \<Rightarrow> 'a vec \<Rightarrow> 'a vec \<Rightarrow> ('a vec \<Rightarrow> 'a vec res) \<Rightarrow> 'a \<Rightarrow> 'a \<Rightarrow> 'a vec \<Rightarrow>
    string \<Rightarrow> string \<Rightarrow> string \<Rightarrow> string \<Rightarrow> ('a bicg \<times> string) res" where
  "eps_bicgstab sc A b x0 prec nf relTol xExact label cost fld secs =
     bindR (bicg_start (sci.truncate sc) A b x0 nf) (\<lambda>s0.
       let res0 = bc_res s0 in
       if res0 = 0 then Inr (s0, ''  '' @ ljust 24 label @ '' initial residual 0'')
       else bindR (bicg_loop EPS_MAXIT (sci.truncate sc) A prec nf (relTol * res0) (bc_r s0) s0) (\<lambda>s.
            bindR (vsub (bc_x s) xExact) (\<lambda>e.
              let err = se_norm sc e / se_norm sc xExact in
              Inr (s, ''  '' @ ljust 24 label @ '' '' @ rjust 3 (show_nat (bc_n s)) @ '' it  res '' @ sc_e3 sc res0 @ '' -> ''
                @ sc_e3 sc (bc_res s) @ ''   |x-x*|/|x*| '' @ sc_e3 sc err @ ''   min('' @ fld @ '') ''
                @ rjust 10 (se_e4 sc (Min (set (bc_x s)))) @ ''   ['' @ cost @ '', '' @ secs @ ''s]''))))"

text \<open>What a preconditioner is made of in this script: its application and the text that says what it costs.\<close>

type_synonym 'a maker = "('a vec \<Rightarrow> 'a vec res) res \<times> string"

definition eps_prec_jacobi :: "'a::linordered_field vec \<Rightarrow> 'a maker" where
  "eps_prec_jacobi dg = (Inr (prec_jacobi dg), ''O(1) launches'')"

definition eps_prec_poly :: "'a::linordered_field sci_eps \<Rightarrow> 'a coo \<Rightarrow> 'a vec \<Rightarrow> nat \<Rightarrow> 'a maker" where
  "eps_prec_poly sc A dg k = (Inr (prec_poly (sci.truncate sc) A dg k), show_nat (k - 1) @ '' SpMV'')"

definition eps_prec_cheb :: "'a::linordered_field sci_eps \<Rightarrow> 'a coo \<Rightarrow> 'a vec \<Rightarrow> nat \<Rightarrow> 'a maker" where
  "eps_prec_cheb sc A dg d = (prec_cheb sc A dg d, ''Chebyshev deg '' @ show_nat d @ '' ('' @ show_nat d @ '' SpMV)'')"

definition prec_dilu_natural :: "'a::linordered_field ldu_sys \<Rightarrow> 'a vec \<Rightarrow> 'a maker" where
  "prec_dilu_natural l dg = (Inr (prec_dilu l dg), ''nLevels launches (sequential)'')"

definition eps_prec_dilu_rb :: "'a::linordered_field ldu_sys \<Rightarrow> 'a vec \<Rightarrow> int list \<Rightarrow> 'a maker" where
  "eps_prec_dilu_rb l dg colour = (Inr (prec_dilu_rb l dg colour), ''2 colours (4 launches)'')"

definition eps_prec_rbsgs :: "'a::linordered_field sci_eps \<Rightarrow> 'a coo \<Rightarrow> 'a vec \<Rightarrow> int list \<Rightarrow> nat \<Rightarrow> 'a maker" where
  "eps_prec_rbsgs sc A dg colour k =
     (Inr (prec_rbsgs (sci.truncate sc) A dg (cells_of 0 colour) (cells_of 1 colour) k), ''2 colours x '' @ show_nat k @ '' sweeps'')"

definition makers :: "'a::linordered_field sci_eps \<Rightarrow> 'a ldu_sys \<Rightarrow> 'a coo \<Rightarrow> 'a vec \<Rightarrow> int list \<Rightarrow> (string \<times> 'a maker) list" where
  "makers sc l A dg colour =
     [(''Jacobi (today)'', eps_prec_jacobi dg), (''Neumann 3'', eps_prec_poly sc A dg 3), (''Neumann 6'', eps_prec_poly sc A dg 6),
      (''Neumann 10'', eps_prec_poly sc A dg 10), (''Neumann 16'', eps_prec_poly sc A dg 16),
      (''Chebyshev 3'', eps_prec_cheb sc A dg 3), (''Chebyshev 6'', eps_prec_cheb sc A dg 6), (''Chebyshev 10'', eps_prec_cheb sc A dg 10),
      (''red-black SGS'', eps_prec_rbsgs sc A dg colour 1), (''red-black SGS x2'', eps_prec_rbsgs sc A dg colour 2),
      (''red-black DILU'', eps_prec_dilu_rb l dg colour), (''DILU natural (OF)'', prec_dilu_natural l dg)]"

definition eps_solves :: "'a::linordered_field sci_eps \<Rightarrow> 'a ldu_sys \<Rightarrow> 'a coo \<Rightarrow> 'a vec \<Rightarrow> 'a vec \<Rightarrow> 'a vec \<Rightarrow> int list \<Rightarrow> bool \<Rightarrow> 'a \<Rightarrow> 'a \<Rightarrow>
    'a vec \<Rightarrow> string \<Rightarrow> string list res" where
  "eps_solves sc l A dg b x0 colour bip nf relTol xExact fld =
     (let chosen = filter (\<lambda>(name, _). bip \<or> \<not> startswith name ''red-black'') (makers sc l A dg colour)
      in mapR (\<lambda>(k, name, f, cost). bindR f (\<lambda>prec.
           bindR (eps_bicgstab sc A b x0 prec nf relTol xExact name cost fld (se_time sc k)) (\<lambda>r. Inr (snd r))))
         (zip [1..<Suc (length chosen)] chosen))"

text \<open>The colouring with its test, and the lines on the mesh and the start.\<close>

definition eps_colouring :: "'a ldu_sys \<Rightarrow> (int list \<times> bool) res" where
  "eps_colouring l =
     bindR (two_colour (ls_cells l) (adj_pairs (ls_own l) (ls_nei l))) (\<lambda>colour.
       Inr (colour, eps_bipartite (ls_own l) (ls_nei l) colour))"

definition eps_head :: "'a::linordered_field sci_eps \<Rightarrow> 'a ldu_sys \<Rightarrow> int list \<times> bool \<Rightarrow> string \<Rightarrow> 'a vec \<Rightarrow> string list" where
  "eps_head sc l cb fld x0 =
     [''cells '' @ show_nat (ls_cells l) @ '', faces '' @ show_nat (length (ls_nei l)) @ '', bipartite ''
        @ show_bool (snd cb) @ '' (red '' @ show_nat (length (cells_of 0 (fst cb))) @ '', black ''
        @ show_nat (length (cells_of 1 (fst cb))) @ '')'',
      ''initial '' @ fld @ '': min '' @ se_e4 sc (Min (set x0)) @ ''  max '' @ se_e4 sc (Max (set x0))]"

definition eps_main :: "'a::linordered_field sci_eps \<Rightarrow> fsys \<Rightarrow> string list \<Rightarrow> string list res" where
  "eps_main sc fs argv =
     bindR (nth_or argv 1) (\<lambda>dump.
     bindR (nth_or argv 2) (\<lambda>mesh.
     bindR (if 3 < length argv then sc_float sc (argv ! 3) else Inr (1 / 10)) (\<lambda>relTol.
     let fld = (if 4 < length argv then argv ! 4 else ''eps'') in
     bindR (eps_read sc fs dump mesh fld) (\<lambda>es.
     bindR (nd_vec (es_diag es)) (\<lambda>dg.
     bindR (nd_vec (r_lower (es_raw es))) (\<lambda>lo.
     bindR (nd_vec (r_upper (es_raw es))) (\<lambda>up.
     let l = \<lparr>ls_own = r_own (es_raw es), ls_nei = r_nei (es_raw es), ls_cells = r_cells (es_raw es), ls_upper = up, ls_lower = lo\<rparr> in
     bindR (ldu_matrix l dg) (\<lambda>A.
     bindR (eps_colouring l) (\<lambda>cb.
     bindR (nd_vec (es_start es)) (\<lambda>x0.
     bindR (nd_vec (es_b es)) (\<lambda>b.
     bindR (normFactor (sci.truncate sc) A x0 b) (\<lambda>nf.
     bindR (se_solve sc A b) (\<lambda>xExact.
     bindR (eps_solves sc l A dg b x0 (fst cb) (snd cb) nf relTol xExact fld) (\<lambda>rows.
       Inr (eps_head sc l cb fld x0 @ [
             ''normFactor '' @ se_e4 sc nf @ '', relTol '' @ se_g sc relTol @ '' -- OpenFOAM'' @ [squote] @ ''s own stopping rule'',
             ''reference solution by direct sparse LU ('' @ se_time sc 0 @ ''s): min '' @ se_e4 sc (Min (set xExact)) @ ''  max ''
               @ se_e4 sc (Max (set xExact)) @ [nl],
             ''  '' @ ljust 24 ''preconditioner'' @ '' where the solve stops, and how far that is from the answer''] @ rows)))))))))))))))"

subsection \<open>One test of the colouring for both scripts\<close>

lemma eps_bipartite_iff: "eps_bipartite own nei colour \<longleftrightarrow> bipartite (adj_pairs own nei) colour"
proof -
  have "list_all (\<lambda>(a, b). colour ! a \<noteq> colour ! b) (zip nei own) \<longleftrightarrow> list_all (\<lambda>(a, b). colour ! a \<noteq> colour ! b) (zip own nei)"
    by (auto simp: list_all_length)
  then show ?thesis by (auto simp: eps_bipartite_def bipartite_def adj_pairs_def)
qed

subsection \<open>Red-black DILU\<close>

lemma add_at_length [simp]: "length (add_at v ps) = length v"
  unfolding add_at_def by (induction ps arbitrary: v) auto

lemma add_at_nth:
  "list_all (\<lambda>(i, a). i < length v) ps \<Longrightarrow> u < length v \<Longrightarrow>
     add_at v ps ! u = v ! u + sum_list (map (\<lambda>(i, a). if i = u then a else 0) ps)"
proof (induction ps arbitrary: v)
  case (Cons p ps)
  obtain i a where p: "p = (i, a)" by (cases p) auto
  have "add_at v (p # ps) = add_at (v[i := v ! i + a]) ps" by (simp add: add_at_def p)
  then show ?case using Cons.IH [of "v[i := v ! i + a]"] Cons.prems by (simp add: p nth_list_update)
qed (simp add: add_at_def)

text \<open>Two colours, 0 and 1, that every face joins.\<close>

definition two_coloured :: "'a ldu_sys \<Rightarrow> int list \<Rightarrow> bool" where
  "two_coloured l colour \<longleftrightarrow> length colour = ls_cells l \<and> list_all (\<lambda>q. q = 0 \<or> q = 1) colour \<and>
     list_all (\<lambda>f. colour ! (ls_own l ! f) \<noteq> colour ! (ls_nei l ! f)) [0..<length (ls_nei l)]"

lemma ldu_okD: "ldu_ok l \<Longrightarrow> f < length (ls_nei l) \<Longrightarrow> ls_own l ! f < ls_cells l \<and> ls_nei l ! f < ls_cells l"
  by (auto simp: ldu_ok_def list_all_length)

lemma two_colouredD:
  assumes "two_coloured l colour" and "ldu_ok l" and "f < length (ls_nei l)"
  shows "colour ! (ls_nei l ! f) = (if red_owner l colour f then 1 else 0)"
    and "colour ! (ls_own l ! f) = (if red_owner l colour f then 0 else 1)"
proof -
  have "ls_own l ! f < ls_cells l" "ls_nei l ! f < ls_cells l" using ldu_okD [OF assms(2,3)] by simp_all
  then have "colour ! (ls_own l ! f) = 0 \<or> colour ! (ls_own l ! f) = 1" "colour ! (ls_nei l ! f) = 0 \<or> colour ! (ls_nei l ! f) = 1"
    "colour ! (ls_own l ! f) \<noteq> colour ! (ls_nei l ! f)"
    using assms(1,3) by (auto simp: two_coloured_def list_all_length)
  then show "colour ! (ls_nei l ! f) = (if red_owner l colour f then 1 else 0)"
    "colour ! (ls_own l ! f) = (if red_owner l colour f then 0 else 1)"
    by (auto simp: red_owner_def)
qed

lemma two_coloured_within:
  assumes "two_coloured l colour" and "ldu_ok l"
  shows "no_face_within l (cells_of q colour)"
  using two_colouredD [OF assms]
  by (auto simp: no_face_within_def list_all_iff cells_of_def in_list_def split: if_splits)

text \<open>The scatter of a face list with the places and values given by functions.\<close>

definition scattered :: "(nat \<Rightarrow> nat) \<Rightarrow> (nat \<Rightarrow> 'a::linordered_field) \<Rightarrow> nat list \<Rightarrow> nat \<Rightarrow> 'a" where
  "scattered t g fs u = (\<Sum>f \<leftarrow> fs. if t f = u then g f else 0)"

lemma add_at_scattered:
  "list_all (\<lambda>f. t f < length v) fs \<Longrightarrow> u < length v \<Longrightarrow>
     add_at v (map (\<lambda>f. (t f, g f)) fs) ! u = v ! u + scattered t g fs u"
  by (simp add: add_at_nth scattered_def comp_def list_all_iff)

lemma scattered_filter:
  "scattered t g (filter P fs) u = (\<Sum>f \<leftarrow> fs. if t f = u \<and> P f then g f else 0)"
  unfolding scattered_def by (induction fs) auto

lemma scattered_all:
  assumes "\<And>f. f \<in> set fs \<Longrightarrow> t f = u \<Longrightarrow> P f"
  shows "scattered t g (filter P fs) u = scattered t g fs u"
  using assms unfolding scattered_def by (induction fs) auto

lemma scattered_none:
  assumes "\<And>f. f \<in> set fs \<Longrightarrow> t f = u \<Longrightarrow> \<not> P f"
  shows "scattered t g (filter P fs) u = 0"
  using assms unfolding scattered_def by (induction fs) auto

lemma faces_in_cells:
  assumes "ldu_ok l"
  shows "list_all (\<lambda>f. ls_nei l ! f < ls_cells l) (filter P [0..<length (ls_nei l)])"
    and "list_all (\<lambda>f. ls_own l ! f < ls_cells l) (filter P [0..<length (ls_nei l)])"
  using ldu_okD [OF assms] by (auto simp: list_all_iff)

text \<open>The two updates: the first reaches the black cells only, the second the red ones only.\<close>

lemma rb_updates:
  assumes c: "two_coloured l colour" and l: "ldu_ok l" and u: "u < ls_cells l"
  shows "add_at (add_at (zeros (ls_cells l)) (to_neighbours l w (red_black_faces l colour))) (to_owners l w (black_red_faces l colour)) ! u =
      (if colour ! u = 0 then 0 else lower_sum l w u + upper_sum l w u)" (is "?first = _")
    and "add_at (add_at (zeros (ls_cells l)) (to_owners l w (red_black_faces l colour))) (to_neighbours l w (black_red_faces l colour)) ! u =
      (if colour ! u = 0 then lower_sum l w u + upper_sum l w u else 0)" (is "?second = _")
proof -
  let ?fs = "[0..<length (ls_nei l)]" and ?P = "red_owner l colour"
  let ?L = "scattered ((!) (ls_nei l)) (\<lambda>f. ls_lower l ! f * w ! (ls_own l ! f))"
  let ?U = "scattered ((!) (ls_own l)) (\<lambda>f. ls_upper l ! f * w ! (ls_nei l ! f))"
  have sums: "?L ?fs u = lower_sum l w u" "?U ?fs u = upper_sum l w u"
    by (simp_all add: scattered_def lower_sum_def upper_sum_def)
  have z: "zeros (ls_cells l) ! u = (0 :: 'a)" using u by (simp add: zeros_def)
  note in_range = faces_in_cells [OF l]
  have one: "?first = ?L (filter ?P ?fs) u + ?U (filter (\<lambda>f. \<not> ?P f) ?fs) u"
    using u z in_range by (simp add: to_neighbours_def to_owners_def red_black_faces_def black_red_faces_def add_at_scattered)
  have two: "?second = ?U (filter ?P ?fs) u + ?L (filter (\<lambda>f. \<not> ?P f) ?fs) u"
    using u z in_range by (simp add: to_neighbours_def to_owners_def red_black_faces_def black_red_faces_def add_at_scattered)
  note d = two_colouredD [OF c l]
  show "?first = (if colour ! u = 0 then 0 else lower_sum l w u + upper_sum l w u)"
  proof (cases "colour ! u = 0")
    case True
    then have "?L (filter ?P ?fs) u = 0" "?U (filter (\<lambda>f. \<not> ?P f) ?fs) u = 0"
      using d by (auto intro!: scattered_none split: if_splits)
    then show ?thesis using one True by simp
  next
    case False
    then have "?L (filter ?P ?fs) u = ?L ?fs u" "?U (filter (\<lambda>f. \<not> ?P f) ?fs) u = ?U ?fs u"
      using d by (auto intro!: scattered_all split: if_splits)
    then show ?thesis using one False sums by simp
  qed
  show "?second = (if colour ! u = 0 then lower_sum l w u + upper_sum l w u else 0)"
  proof (cases "colour ! u = 0")
    case True
    then have "?U (filter ?P ?fs) u = ?U ?fs u" "?L (filter (\<lambda>f. \<not> ?P f) ?fs) u = ?L ?fs u"
      using d by (auto intro!: scattered_all split: if_splits)
    then show ?thesis using two True sums by simp
  next
    case False
    then have "?U (filter ?P ?fs) u = 0" "?L (filter (\<lambda>f. \<not> ?P f) ?fs) u = 0"
      using d by (auto intro!: scattered_none split: if_splits)
    then show ?thesis using two False by simp
  qed
qed

lemma list_all_upt: "list_all P [0..<n] \<longleftrightarrow> (\<forall>u < n. P u)"
  by (auto simp: list_all_iff)

lemma rb_update_eq:
  "length rD = n \<Longrightarrow> length w = n \<Longrightarrow> length v = n \<Longrightarrow> rb_update rD w v = Inr (map2 (-) w (map2 (*) rD v))"
  by (simp add: rb_update_def)

lemma rb_diag_length [simp]: "length (rb_diag l dg colour) = length dg"
  by (simp add: rb_diag_def)

lemma prec_dilu_rb_eliminates:
  assumes c: "two_coloured l colour" and l: "ldu_ok l" and dg: "length dg = ls_cells l" and r: "length r = ls_cells l"
  shows "\<exists>y w. prec_dilu_rb l dg colour r = Inr w \<and> length y = ls_cells l \<and> length w = ls_cells l \<and>
    (\<forall>u < ls_cells l.
       y ! u = recip (rb_diag l dg colour) ! u * (r ! u - (if colour ! u = 0 then 0 else lower_sum l y u + upper_sum l y u)) \<and>
       w ! u = y ! u - recip (rb_diag l dg colour) ! u * (if colour ! u = 0 then lower_sum l w u + upper_sum l w u else 0))"
proof -
  define rD where "rD = recip (rb_diag l dg colour)"
  define w0 where "w0 = map2 (*) rD r"
  define up1 where "up1 = add_at (add_at (zeros (ls_cells l)) (to_neighbours l w0 (red_black_faces l colour))) (to_owners l w0 (black_red_faces l colour))"
  define y where "y = map2 (-) w0 (map2 (*) rD up1)"
  define up2 where "up2 = add_at (add_at (zeros (ls_cells l)) (to_owners l y (red_black_faces l colour))) (to_neighbours l y (black_red_faces l colour))"
  define w where "w = map2 (-) y (map2 (*) rD up2)"
  have len: "length rD = ls_cells l" "length w0 = ls_cells l" "length up1 = ls_cells l" "length y = ls_cells l"
    "length up2 = ls_cells l" "length w = ls_cells l"
    using dg r by (simp_all add: rD_def w0_def up1_def y_def up2_def w_def)
  have at: "w0 ! u = rD ! u * r ! u" "y ! u = w0 ! u - rD ! u * up1 ! u" "w ! u = y ! u - rD ! u * up2 ! u"
    if "u < ls_cells l" for u
    using that len r by (simp_all add: w0_def y_def w_def)
  have u1: "up1 ! u = (if colour ! u = 0 then 0 else lower_sum l w0 u + upper_sum l w0 u)"
    and u2: "up2 ! u = (if colour ! u = 0 then lower_sum l y u + upper_sum l y u else 0)" if "u < ls_cells l" for u
    using rb_updates [OF c l that] by (simp_all add: up1_def up2_def)
  have mem: "u \<in> set (cells_of q colour) \<longleftrightarrow> u < ls_cells l \<and> colour ! u = q" for u q
    using c by (auto simp: cells_of_def two_coloured_def)
  have two: "colour ! u = 0 \<or> colour ! u = 1" if "u < ls_cells l" for u
    using c that by (auto simp: two_coloured_def list_all_length)
  have y1: "lower_sum l w0 u + upper_sum l w0 u = lower_sum l y u + upper_sum l y u" if "u < ls_cells l" "colour ! u \<noteq> 0" for u
  proof -
    have "w0 ! d = y ! d" if "d \<notin> set (cells_of 1 colour)" "d < ls_cells l" for d
      using at(2) [OF that(2)] u1 [OF that(2)] two [OF that(2)] mem [of d 1] that by auto
    moreover have "u \<in> set (cells_of 1 colour)" using that two [OF that(1)] mem by simp
    ultimately show ?thesis using off_diagonal_cong [OF l two_coloured_within [OF c l]] by metis
  qed
  have w1: "lower_sum l y u + upper_sum l y u = lower_sum l w u + upper_sum l w u" if "u < ls_cells l" "colour ! u = 0" for u
  proof -
    have "y ! d = w ! d" if "d \<notin> set (cells_of 0 colour)" "d < ls_cells l" for d
      using at(3) [OF that(2)] u2 [OF that(2)] mem [of d 0] that by simp
    moreover have "u \<in> set (cells_of 0 colour)" using that mem by simp
    ultimately show ?thesis using off_diagonal_cong [OF l two_coloured_within [OF c l]] by metis
  qed
  have "y ! u = rD ! u * (r ! u - (if colour ! u = 0 then 0 else lower_sum l y u + upper_sum l y u))" if "u < ls_cells l" for u
    using at(1,2) [OF that] u1 [OF that] y1 [OF that] by (simp add: right_diff_distrib)
  moreover have "w ! u = y ! u - rD ! u * (if colour ! u = 0 then lower_sum l w u + upper_sum l w u else 0)" if "u < ls_cells l" for u
    using at(3) [OF that] u2 [OF that] w1 [OF that] by simp
  moreover have "prec_dilu_rb l dg colour r = Inr w"
    using len r dg by (simp add: prec_dilu_rb_def Let_def rb_update_eq w_def up2_def y_def up1_def w0_def rD_def)
  ultimately show ?thesis using len unfolding rD_def by blast
qed

subsection \<open>The Chebyshev iteration\<close>

definition cheb_ok :: "'a::linordered_field coo \<Rightarrow> 'a vec \<Rightarrow> 'a cheb \<Rightarrow> bool" where
  "cheb_ok A r s \<longleftrightarrow> length (ch_x s) = fst A \<and> length (ch_p s) = fst A \<and> ch_r s = map2 (-) r (coo_vec A (ch_x s))"

lemma cheb_step_ok:
  assumes sc: "scipy_lib (sci.truncate sc)" and A: "coo_ok A" and r: "length r = fst A" and rD: "length rD = fst A"
    and s: "cheb_ok A r s"
  shows "\<exists>s'. cheb_step sc A rD d0 c s i = Inr s' \<and> cheb_ok A r s'"
proof -
  have mv: "sc_matvec sc A x = (if length x = fst A then Inr (coo_vec A x) else Inl ValueError)" for x
    using scipy_lib.matvec [OF sc] by (simp add: sci.truncate_def)
  have len: "length (ch_x s) = fst A" "length (ch_p s) = fst A" "length (ch_r s) = fst A" and res: "ch_r s = map2 (-) r (coo_vec A (ch_x s))"
    using s r by (simp_all add: cheb_ok_def)
  obtain alpha beta where co: "cheb_coeffs d0 c i (ch_alpha s) = (alpha, beta)" by fastforce
  define z where "z = map2 (*) rD (ch_r s)"
  define p where "p = (if i = 0 then z else map2 (+) z (vscale beta (ch_p s)))"
  have lp: "length z = fst A" "length p = fst A" using len rD by (simp_all add: z_def p_def)
  have "cheb_step sc A rD d0 c s i = Inr \<lparr>ch_x = map2 (+) (ch_x s) (vscale alpha p),
      ch_r = map2 (-) (ch_r s) (vscale alpha (coo_vec A p)), ch_p = p, ch_alpha = alpha\<rparr>"
    using len lp rD by (simp add: cheb_step_def co mv z_def [symmetric] p_def)
  moreover have "map2 (-) (ch_r s) (vscale alpha (coo_vec A p)) = map2 (-) r (coo_vec A (map2 (+) (ch_x s) (vscale alpha p)))"
    using residual_axpy [OF A r len(1) lp(2), of alpha] res by simp
  ultimately show ?thesis using len lp by (simp add: cheb_ok_def)
qed

lemma coo_row_zeros: "list_all (\<lambda>(r, c, v). c < n) es \<Longrightarrow> coo_row es (replicate n 0) i = 0"
proof (induction es)
  case (Cons e es)
  then show ?case by (cases e) (simp add: coo_row_def)
qed (simp add: coo_row_def)

lemma cheb_apply_ok:
  assumes "scipy_lib (sci.truncate sc)" and "coo_ok A" and "length r = fst A" and "length rD = fst A"
  shows "\<exists>s. cheb_apply sc A rD d0 c deg r = Inr s \<and> cheb_ok A r s"
proof -
  have "\<exists>t. foldR (cheb_step sc A rD d0 c) s is = Inr t \<and> cheb_ok A r t" if "cheb_ok A r s" for s "is"
    using that
  proof (induction "is" arbitrary: s)
    case (Cons i "is")
    from cheb_step_ok [OF assms Cons.prems, of d0 c i] Cons.IH show ?case by fastforce
  qed simp
  moreover have "coo_vec A (zeros (fst A)) = zeros (fst A)"
    using coo_row_zeros assms(2) by (auto simp: coo_vec_def zeros_def coo_ok_def intro!: nth_equalityI)
  moreover have "map2 (-) r (zeros (fst A)) = r" using assms(3) by (auto simp: zeros_def intro!: nth_equalityI)
  ultimately show ?thesis unfolding cheb_apply_def by (simp add: cheb_ok_def)
qed

subsection \<open>Properties\<close>

text \<open>C19: DILU on the red-black ordering eliminates one colour after the other: on a mesh whose faces all join the two colours, the
  forward step gives the red cells their scaled right-hand side and the black cells the solution of their rows with the
  red values, and the backward step gives the red cells the solution of their rows with the black values.\<close>

theorem red_black_dilu_eliminates:
  assumes "two_coloured l colour" and "ldu_ok l" and "length dg = ls_cells l" and "length r = ls_cells l"
  shows "\<exists>y w. prec_dilu_rb l dg colour r = Inr w \<and> length y = ls_cells l \<and> length w = ls_cells l \<and>
    list_all (\<lambda>u.
       y ! u = recip (rb_diag l dg colour) ! u * (r ! u - (if colour ! u = 0 then 0 else lower_sum l y u + upper_sum l y u)) \<and>
       w ! u = y ! u - recip (rb_diag l dg colour) ! u * (if colour ! u = 0 then lower_sum l w u + upper_sum l w u else 0))
      [0..<ls_cells l]"
  using prec_dilu_rb_eliminates [OF assms] by (simp only: list_all_upt)

theorem red_black_dilu_eliminates_witness:
  "\<exists>y w. prec_dilu_rb three_cells [2, 3, 4] [0, 1, 0] [1, 1, 1] = Inr w \<and> length y = 3 \<and> length w = 3 \<and>
    list_all (\<lambda>u.
       y ! u = recip (rb_diag three_cells [2, 3, 4] [0, 1, 0]) ! u *
         ([1, 1, 1] ! u - (if [0, 1, 0] ! u = (0::int) then 0 else lower_sum three_cells y u + upper_sum three_cells y u)) \<and>
       w ! u = y ! u - recip (rb_diag three_cells [2, 3, 4] [0, 1, 0]) ! u *
         (if [0, 1, 0] ! u = (0::int) then lower_sum three_cells w u + upper_sum three_cells w u else 0))
      [0..<3]"
  using red_black_dilu_eliminates [of three_cells "[0, 1, 0]" "[2, 3, 4]" "[1, 1, 1]"]
  by (simp add: three_cells_def two_coloured_def ldu_ok_def upt_rec)


definition ref_eps :: "rat sci_eps" where
  "ref_eps = sci.extend ref_sci (sci_eps.fields abs_sum (\<lambda>A b. Inr b) ones (\<lambda>_. []) (\<lambda>_. []) (\<lambda>_. []))"

lemma ref_eps_truncate: "sci.truncate ref_eps = ref_sci"
  by (simp add: ref_eps_def sci.defs sci_eps.defs)


text \<open>The solver of this script, with its own bound on the rounds, reports the residual of the iterate it returns too.\<close>

theorem eps_bicgstab_true_residual:
  assumes sc: "scipy_lib (sci.truncate sc)" and "coo_ok A" and "length b = fst A" and "length x0 = fst A" and "prec_ok (fst A) prec"
    and "length xExact = fst A"
  shows "\<exists>s line1. eps_bicgstab sc A b x0 prec nf relTol xExact label cost fld secs = Inr (s, line1) \<and>
    bicg_true A b nf s \<and> bc_n s \<le> EPS_MAXIT \<and>
    (bc_n s = EPS_MAXIT \<or> bc_res s = 0 \<or> bc_res s < relTol * (abs_sum (map2 (-) b (coo_vec A x0)) / nf))"
proof -
  obtain s0 where st: "bicg_start (sci.truncate sc) A b x0 nf = Inr s0" "bicg_ok A b nf s0" "bc_n s0 = 0" "bc_x s0 = x0"
    using scipy_lib.bicg_start_ok [OF sc assms(3,4)] by blast
  then have r0: "length (bc_r s0) = fst A" "bc_res s0 = abs_sum (map2 (-) b (coo_vec A x0)) / nf"
    using assms(3) by (simp_all add: bicg_ok_def)
  from scipy_lib.bicg_loop_ok [OF sc assms(2,3,5) r0(1) st(2), of EPS_MAXIT "relTol * bc_res s0"] obtain s where
    s: "bicg_loop EPS_MAXIT (sci.truncate sc) A prec nf (relTol * bc_res s0) (bc_r s0) s0 = Inr s" "bicg_true A b nf s"
    "bc_n s \<le> EPS_MAXIT" "bc_res s < relTol * bc_res s0 \<or> bc_n s = EPS_MAXIT" using st(3) by auto
  then have "length (bc_x s) = fst A" by (simp add: bicg_true_def)
  then show ?thesis using s st r0 bicg_ok_true [OF st(2)] assms(6)
    by (cases "bc_res s0 = 0") (auto simp: eps_bicgstab_def Let_def)
qed

end
