(* ===== verification/Amg_Tables.thy ===== *)
theory Amg_Tables
  imports Amg_Steps
begin

text \<open>
  The four files \<open>demo/amgpcg/make_steps.py\<close> writes: the rows of its tables as \<open>csv.DictWriter\<close> prints them.  The
  lemmas read such a file back by the names of its columns; each of the files is a \<open>csv_table\<close>.
\<close>

definition STEP_FIELDS :: "string list" where
  "STEP_FIELDS = [''solver'', ''step'', ''iter'', ''phase'', ''grid'', ''ngrid'', ''detail'', ''resnorm'']"

definition STATE_FIELDS :: "string list" where
  "STATE_FIELDS = [''solver'', ''step'', ''grid'', ''cell'', ''x'', ''r'']"

definition GRID_FIELDS :: "string list" where
  "GRID_FIELDS = [''solver'', ''grid'', ''row'', ''col'', ''value'']"

definition AGGREGATE_FIELDS :: "string list" where
  "AGGREGATE_FIELDS = [''solver'', ''grid'', ''finest_cell'', ''grid_cell'']"

definition frame_fields :: "frame \<Rightarrow> string list" where
  "frame_fields f = [f_solver f, show_nat (f_step f), show_nat (f_iter f), f_phase f, show_nat (f_grid f), show_nat (f_ngrid f),
     f_detail f, f_resnorm f]"

definition state_fields :: "state_row \<Rightarrow> string list" where
  "state_fields s = [s_solver s, show_nat (s_step s), show_nat (s_grid s), show_nat (s_cell s), s_x s, s_r s]"

definition grid_fields :: "grid_row \<Rightarrow> string list" where
  "grid_fields g = [g_solver g, show_nat (g_grid g), show_nat (g_row g), show_nat (g_col g), g_value g]"

definition aggregate_fields :: "aggregate_row \<Rightarrow> string list" where
  "aggregate_fields a = (case a of (name, grid, cell, gc) \<Rightarrow> [name, show_nat grid, show_nat cell, show_int gc])"

definition steps_csv :: "frame list \<Rightarrow> string" where
  "steps_csv fs = csv_write (STEP_FIELDS # map frame_fields fs)"

definition state_csv :: "state_row list \<Rightarrow> string" where
  "state_csv ss = csv_write (STATE_FIELDS # map state_fields ss)"

definition grids_csv :: "grid_row list \<Rightarrow> string" where
  "grids_csv gs = csv_write (GRID_FIELDS # map grid_fields gs)"

definition aggregates_csv :: "aggregate_row list \<Rightarrow> string" where
  "aggregates_csv as = csv_write (AGGREGATE_FIELDS # map aggregate_fields as)"

text \<open>What the command leaves in the directory of the trace.\<close>

definition written :: "'a tables \<Rightarrow> string \<Rightarrow> (string \<times> string) list" where
  "written tb trace =
     [(path_join trace ''grids.csv'', grids_csv (tb_grids tb)), (path_join trace ''aggregates.csv'', aggregates_csv (tb_aggregates tb)),
      (path_join trace ''steps.csv'', steps_csv (tb_steps tb)), (path_join trace ''state.csv'', state_csv (tb_state tb))]"

subsection \<open>Reading a written row\<close>

lemma py_int_nat [simp]: "py_int (show_nat n) = Inr (int n)"
proof -
  have d: "is_digit c" if "c \<in> set (show_nat n)" for c using that show_nat_digits by blast
  have ends: "hd (show_nat n) \<in> set (show_nat n)" "last (show_nat n) \<in> set (show_nat n)" by simp_all
  have nd: "\<not> is_space c" "c \<noteq> CHR ''-''" "c \<noteq> CHR ''+''" if "is_digit c" for c
    using that by (auto simp: is_digit_def is_space_def Let_def)
  have "strip (show_nat n) = show_nat n" using d nd(1) ends by (intro strip_idle) auto
  moreover have "list_all is_digit (show_nat n)" using d by (simp add: list_all_iff)
  ultimately show ?thesis using nd(2,3) [OF d [OF ends(1)]] by (simp add: py_int_def Let_def read_digits_show)
qed

lemma py_int_int [simp]: "0 \<le> i \<Longrightarrow> py_int (show_int i) = Inr i"
  by (simp add: show_int_def)

text \<open>The columns of a written row.\<close>

lemma csv_item_get: "csv_item row k = Inr v \<longleftrightarrow> dict_get row k = Some v"
  by (simp add: csv_item_def split: option.splits)

lemma frame_columns [simp]:
  "csv_item (csv_fields STEP_FIELDS (frame_fields f)) ''solver'' = Inr (Some (f_solver f))"
  "csv_item (csv_fields STEP_FIELDS (frame_fields f)) ''step'' = Inr (Some (show_nat (f_step f)))"
  "csv_item (csv_fields STEP_FIELDS (frame_fields f)) ''iter'' = Inr (Some (show_nat (f_iter f)))"
  "csv_item (csv_fields STEP_FIELDS (frame_fields f)) ''phase'' = Inr (Some (f_phase f))"
  "csv_item (csv_fields STEP_FIELDS (frame_fields f)) ''grid'' = Inr (Some (show_nat (f_grid f)))"
  "csv_item (csv_fields STEP_FIELDS (frame_fields f)) ''ngrid'' = Inr (Some (show_nat (f_ngrid f)))"
  "csv_item (csv_fields STEP_FIELDS (frame_fields f)) ''detail'' = Inr (Some (f_detail f))"
  "csv_item (csv_fields STEP_FIELDS (frame_fields f)) ''resnorm'' = Inr (Some (f_resnorm f))"
  by (simp_all add: csv_item_get csv_fields_def STEP_FIELDS_def frame_fields_def upt_rec dict_get_def)

lemma state_columns [simp]:
  "csv_item (csv_fields STATE_FIELDS (state_fields s)) ''solver'' = Inr (Some (s_solver s))"
  "csv_item (csv_fields STATE_FIELDS (state_fields s)) ''step'' = Inr (Some (show_nat (s_step s)))"
  "csv_item (csv_fields STATE_FIELDS (state_fields s)) ''cell'' = Inr (Some (show_nat (s_cell s)))"
  "csv_item (csv_fields STATE_FIELDS (state_fields s)) ''x'' = Inr (Some (s_x s))"
  "csv_item (csv_fields STATE_FIELDS (state_fields s)) ''r'' = Inr (Some (s_r s))"
  by (simp_all add: csv_item_get csv_fields_def STATE_FIELDS_def state_fields_def upt_rec dict_get_def)

lemma grid_columns [simp]:
  "csv_item (csv_fields GRID_FIELDS (grid_fields g)) ''solver'' = Inr (Some (g_solver g))"
  "csv_item (csv_fields GRID_FIELDS (grid_fields g)) ''grid'' = Inr (Some (show_nat (g_grid g)))"
  "csv_item (csv_fields GRID_FIELDS (grid_fields g)) ''row'' = Inr (Some (show_nat (g_row g)))"
  "csv_item (csv_fields GRID_FIELDS (grid_fields g)) ''col'' = Inr (Some (show_nat (g_col g)))"
  "csv_item (csv_fields GRID_FIELDS (grid_fields g)) ''value'' = Inr (Some (g_value g))"
  by (simp_all add: csv_item_get csv_fields_def GRID_FIELDS_def grid_fields_def upt_rec dict_get_def)

lemma aggregate_columns [simp]:
  "csv_item (csv_fields AGGREGATE_FIELDS (aggregate_fields (name, grid, cell, gc))) ''solver'' = Inr (Some name)"
  "csv_item (csv_fields AGGREGATE_FIELDS (aggregate_fields (name, grid, cell, gc))) ''grid'' = Inr (Some (show_nat grid))"
  "csv_item (csv_fields AGGREGATE_FIELDS (aggregate_fields (name, grid, cell, gc))) ''finest_cell'' = Inr (Some (show_nat cell))"
  "csv_item (csv_fields AGGREGATE_FIELDS (aggregate_fields (name, grid, cell, gc))) ''grid_cell'' = Inr (Some (show_int gc))"
  by (simp_all add: csv_item_get csv_fields_def AGGREGATE_FIELDS_def aggregate_fields_def upt_rec dict_get_def)

lemma csv_int_item: "csv_item row k = Inr (Some s) \<Longrightarrow> csv_int row k = py_int s"
  by (simp add: csv_int_def csv_text_def)

lemma csv_float_item: "csv_item row k = Inr (Some s) \<Longrightarrow> csv_float np row k = np_float np s"
  by (simp add: csv_float_def csv_text_def)

text \<open>The rows of a written file.\<close>

lemma no_cr_headers [simp]: "no_cr STEP_FIELDS" "no_cr STATE_FIELDS" "no_cr GRID_FIELDS" "no_cr AGGREGATE_FIELDS"
  by (simp_all add: no_cr_def cr_def STEP_FIELDS_def STATE_FIELDS_def GRID_FIELDS_def AGGREGATE_FIELDS_def)

interpretation steps_file: csv_table STEP_FIELDS frame_fields
  by unfold_locales (simp_all add: frame_fields_def)

interpretation state_file: csv_table STATE_FIELDS state_fields
  by unfold_locales (simp_all add: state_fields_def)

interpretation grids_file: csv_table GRID_FIELDS grid_fields
  by unfold_locales (simp_all add: grid_fields_def)

interpretation aggregates_file: csv_table AGGREGATE_FIELDS aggregate_fields
  by unfold_locales (auto simp: aggregate_fields_def)

end
