(* ===== verification/Amg_Replay.thy ===== *)
theory Amg_Replay
  imports Amg_Tables
begin

text \<open>
  \<open>demo/amgpcg/replay.py\<close>: the loaders of the trace, what each panel of a frame draws, and the frames of the two
  kinds of film.  A call on an axis is a value of \<open>draw\<close>, with the arguments that depend on the trace; fixed fonts,
  line widths and the layout of the figure are left out, and so is the encoding of the film.  A column
  that a row of a trace does not have is None, as in \<open>csv.DictReader\<close>.
\<close>

subsection \<open>Labels and colours\<close>

definition SOLVER_LABEL :: "(string, string) dict" where
  "SOLVER_LABEL =
     [(''of_gamg'', ''OpenFOAM GAMG''),
      (''amgx'', ''AMGX  (PCG + AGGREGATION)''),
      (''brae'', ''brae  AMG-PCG''),
      (''brae_cheb'', ''brae AMG-PCG (Chebyshev)''),
      (''brae_gs'', ''brae AMG-PCG (multicolor GS)''),
      (''brae_soc'', ''brae AMG-PCG (strength filter)'')]"

definition SOLVER_COLOUR :: "(string, string) dict" where
  "SOLVER_COLOUR = [(''of_gamg'', ''#e4572e''), (''amgx'', ''#76b900''), (''brae'', ''#3f8efc'')]"

definition PHASE_COLOUR :: "(string, string) dict" where
  "PHASE_COLOUR =
     [(''krylov_start'', ''#8d99ae''),
      (''presmooth'', ''#f4a259''),
      (''residual'', ''#8d99ae''),
      (''restrict'', ''#e4572e''),
      (''coarse_solve'', ''#9b5de5''),
      (''prolong'', ''#3f8efc''),
      (''postsmooth'', ''#f4a259''),
      (''krylov_update'', ''#43aa8b'')]"

definition PHASE_TEXT :: "(string, string) dict" where
  "PHASE_TEXT =
     [(''krylov_start'', ''iteration begins''),
      (''presmooth'', ''pre-smoothing sweep''),
      (''residual'', ''compute residual  r = b - A x''),
      (''restrict'', ''RESTRICT  r down to the coarse grid''),
      (''coarse_solve'', ''solve the coarsest grid''),
      (''prolong'', ''PROLONG  the correction back up''),
      (''postsmooth'', ''post-smoothing sweep''),
      (''krylov_update'', ''Krylov update  x += alpha p'')]"

text \<open>\<open>d.get(k, v)\<close> for a key that may be None, and a value that may be None in an f-string.\<close>

definition get_opt :: "(string, string) dict \<Rightarrow> string option \<Rightarrow> string \<Rightarrow> string" where
  "get_opt d k v = (case k of None \<Rightarrow> v | Some s \<Rightarrow> get_or d s v)"

definition show_opt :: "string option \<Rightarrow> string" where
  "show_opt s = (case s of None \<Rightarrow> ''None'' | Some t \<Rightarrow> t)"

subsection \<open>Loading\<close>

text \<open>
  Rounding to nine places, the exponent of a number, and the number formats of the labels are numpy's and
  Python's.
\<close>

record 'a plot =
  pl_round9 :: "'a \<Rightarrow> 'a"
  pl_log10 :: "'a \<Rightarrow> int"
  pl_e3 :: "'a \<Rightarrow> string"
  pl_f0 :: "'a \<Rightarrow> string"
  pl_f1 :: "'a \<Rightarrow> string"
  pl_f2 :: "'a \<Rightarrow> string"
  pl_g3 :: "'a \<Rightarrow> string"

record mesh =
  ms_n :: nat
  ms_col :: "nat list"
  ms_row :: "nat list"
  ms_ncol :: nat
  ms_nrow :: nat

definition unique :: "'a::linorder list \<Rightarrow> 'a list" where
  "unique xs = sort (remdups xs)"

definition searchsorted :: "'a::linorder list \<Rightarrow> 'a \<Rightarrow> nat" where
  "searchsorted us v = length (takeWhile (\<lambda>u. u < v) us)"

definition cell_row :: "'a numpy \<Rightarrow> (int, 'a \<times> 'a) dict \<Rightarrow> csv_row \<Rightarrow> (int, 'a \<times> 'a) dict res" where
  "cell_row np cells row =
     bindR (csv_float np row ''x'') (\<lambda>x.
     bindR (csv_float np row ''y'') (\<lambda>y.
     bindR (csv_int row ''cell'') (\<lambda>c. Inr (dict_set c (x, y) cells))))"

definition load_mesh :: "'a::linordered_field numpy \<Rightarrow> 'a plot \<Rightarrow> fsys \<Rightarrow> string \<Rightarrow> mesh res" where
  "load_mesh np pl fs trace =
     read_case fs trace ''mesh.csv'' (\<lambda>t.
     bindR (foldR (cell_row np) [] (csv_rows t)) (\<lambda>cells.
     let n = length cells in
     bindR (dense_array cells n) (\<lambda>ps.
     let xs = map (\<lambda>p. pl_round9 pl (fst p)) ps; ys = map (\<lambda>p. pl_round9 pl (snd p)) ps;
         ux = unique xs; uy = unique ys
     in Inr \<lparr>ms_n = n, ms_col = map (searchsorted ux) xs, ms_row = map (searchsorted uy) ys,
             ms_ncol = length ux, ms_nrow = length uy\<rparr>)))"

text \<open>A step of the trace; a residual norm that is empty is NaN.\<close>

record 'a step =
  st_step :: int
  st_iter :: int
  st_phase :: "string option"
  st_grid :: int
  st_ngrid :: int
  st_detail :: "string option"
  st_resnorm :: "'a option"

definition resnorm_of :: "'a numpy \<Rightarrow> string option \<Rightarrow> 'a option res" where
  "resnorm_of np s =
     (case s of None \<Rightarrow> Inr None
      | Some t \<Rightarrow> if t = [] then Inr None else bindR (np_float np t) (\<lambda>v. Inr (Some v)))"

definition add_to :: "'k \<Rightarrow> 'v \<Rightarrow> ('k, 'v list) dict \<Rightarrow> ('k, 'v list) dict" where
  "add_to k v d = dict_set k (get_or d k [] @ [v]) d"

definition step_row :: "'a numpy \<Rightarrow> (string option, 'a step list) dict \<Rightarrow> csv_row \<Rightarrow> (string option, 'a step list) dict res" where
  "step_row np steps row =
     bindR (csv_item row ''solver'') (\<lambda>solver.
     bindR (csv_int row ''step'') (\<lambda>st.
     bindR (csv_int row ''iter'') (\<lambda>it.
     bindR (csv_item row ''phase'') (\<lambda>phase.
     bindR (csv_int row ''grid'') (\<lambda>grid.
     bindR (csv_int row ''ngrid'') (\<lambda>ngrid.
     bindR (csv_item row ''detail'') (\<lambda>detail.
     bindR (csv_item row ''resnorm'') (\<lambda>rs.
     bindR (resnorm_of np rs) (\<lambda>resnorm.
       Inr (add_to solver \<lparr>st_step = st, st_iter = it, st_phase = phase, st_grid = grid, st_ngrid = ngrid,
              st_detail = detail, st_resnorm = resnorm\<rparr> steps))))))))))"

definition load_steps :: "'a numpy \<Rightarrow> fsys \<Rightarrow> string \<Rightarrow> (string option, 'a step list) dict res" where
  "load_steps np fs trace = read_case fs trace ''steps.csv'' (\<lambda>t. foldR (step_row np) [] (csv_rows t))"

text \<open>\<open>d[key][c] = v\<close> in a dictionary of dictionaries.\<close>

definition put_in :: "'k \<Rightarrow> 'c \<Rightarrow> 'v \<Rightarrow> ('k, ('c, 'v) dict) dict \<Rightarrow> ('k, ('c, 'v) dict) dict" where
  "put_in k c v d = dict_set k (dict_set c v (get_or d k [])) d"

type_synonym key = "string option \<times> int"

definition state_load_row :: "'a numpy \<Rightarrow> (key, (int, 'a \<times> 'a) dict) dict \<Rightarrow> csv_row \<Rightarrow> (key, (int, 'a \<times> 'a) dict) dict res" where
  "state_load_row np st row =
     bindR (csv_item row ''solver'') (\<lambda>solver.
     bindR (csv_int row ''step'') (\<lambda>step.
     bindR (csv_float np row ''x'') (\<lambda>x.
     bindR (csv_float np row ''r'') (\<lambda>r.
     bindR (csv_int row ''cell'') (\<lambda>c. Inr (put_in (solver, step) c (x, r) st))))))"

text \<open>A dictionary with its values replaced, where the replacement may raise.\<close>

definition map_dict :: "('v \<Rightarrow> 'w res) \<Rightarrow> ('k, 'v) dict \<Rightarrow> ('k, 'w) dict res" where
  "map_dict f d = mapR (\<lambda>(k, v). bindR (f v) (\<lambda>w. Inr (k, w))) d"

definition load_state :: "'a numpy \<Rightarrow> fsys \<Rightarrow> string \<Rightarrow> (key, 'a vec \<times> 'a vec) dict res" where
  "load_state np fs trace =
     read_case fs trace ''state.csv'' (\<lambda>t.
     bindR (foldR (state_load_row np) [] (csv_rows t)) (\<lambda>st.
       map_dict (\<lambda>cells. bindR (dense_array cells (length cells)) (\<lambda>ps. Inr (map fst ps, map snd ps))) st))"

definition grid_load_row :: "'a numpy \<Rightarrow> (key, (int \<times> int \<times> 'a) list) dict \<Rightarrow> csv_row \<Rightarrow> (key, (int \<times> int \<times> 'a) list) dict res" where
  "grid_load_row np d row =
     bindR (csv_item row ''solver'') (\<lambda>solver.
     bindR (csv_int row ''grid'') (\<lambda>grid.
     bindR (csv_int row ''row'') (\<lambda>r.
     bindR (csv_int row ''col'') (\<lambda>c.
     bindR (csv_float np row ''value'') (\<lambda>v. Inr (add_to (solver, grid) (r, c, v) d))))))"

text \<open>\<open>np.zeros((size, size))\<close>, filled with the entries.\<close>

definition fill_grid :: "(int \<times> int \<times> 'a::linordered_field) list \<Rightarrow> 'a mat res" where
  "fill_grid es =
     (let size = Max (set (map (\<lambda>(r, c, v). max r c) es)) + 1
      in if size < 0 then Inl ValueError
         else foldR (\<lambda>A (r, c, v). mat_set A r c v) (replicate (nat size) (zeros (nat size))) es)"

definition load_grids :: "'a::linordered_field numpy \<Rightarrow> fsys \<Rightarrow> string \<Rightarrow> (key, 'a mat) dict res" where
  "load_grids np fs trace =
     read_case fs trace ''grids.csv'' (\<lambda>t. bindR (foldR (grid_load_row np) [] (csv_rows t)) (map_dict fill_grid))"

definition aggregate_load_row :: "(key, (int, int) dict) dict \<Rightarrow> csv_row \<Rightarrow> (key, (int, int) dict) dict res" where
  "aggregate_load_row d row =
     bindR (csv_int row ''grid_cell'') (\<lambda>gc.
     bindR (csv_item row ''solver'') (\<lambda>solver.
     bindR (csv_int row ''grid'') (\<lambda>grid.
     bindR (csv_int row ''finest_cell'') (\<lambda>c. Inr (put_in (solver, grid) c gc d)))))"

definition load_aggregates :: "fsys \<Rightarrow> string \<Rightarrow> (key, int list) dict res" where
  "load_aggregates fs trace =
     read_case fs trace ''aggregates.csv'' (\<lambda>t.
     bindR (foldR aggregate_load_row [] (csv_rows t)) (map_dict (\<lambda>v. dense_array v (length v))))"

subsection \<open>The panels\<close>

datatype 'a colour_norm = Normalize | TwoSlopeNorm 'a

datatype 'a draw =
    Clear
  | SetTitle string
  | SetXlim 'a 'a
  | SetYlim 'a 'a
  | Rectangle 'a 'a "'a colour_norm" 'a
  | TextAt 'a 'a string
  | Segment 'a 'a 'a 'a
  | SetXlabel string
  | Imshow "'a mat" 'a
  | Polyline "('a \<times> 'a) list"
  | Scatter 'a 'a string
  | Curve string string bool "'a list"
  | Legend

text \<open>The numbers of the model have no infinities, so that \<open>np.isfinite\<close> holds.\<close>

definition diverging_norm :: "'a::linordered_field vec \<Rightarrow> 'a colour_norm res" where
  "diverging_norm values = bindR (abs_max values) (\<lambda>limit. Inr (if limit \<le> 0 then Normalize else TwoSlopeNorm limit))"

definition pow10 :: "int \<Rightarrow> 'a::linordered_field" where
  "pow10 e = (if 0 \<le> e then 10 ^ nat e else 1 / 10 ^ nat (- e))"

definition format_value :: "'a::linordered_field plot \<Rightarrow> 'a \<Rightarrow> 'a \<Rightarrow> string" where
  "format_value pl v scale =
     (if 1 / 100 \<le> scale then pl_f2 pl v
      else if scale \<le> 0 then ''0''
      else pl_f1 pl (v / pow10 (pl_log10 pl scale)))"

text \<open>A cell's square and, on a small mesh, its value.\<close>

definition draw_cell :: "'a::linordered_field plot \<Rightarrow> mesh \<Rightarrow> 'a vec \<Rightarrow> 'a colour_norm \<Rightarrow> 'a \<Rightarrow> nat \<Rightarrow> 'a draw list res" where
  "draw_cell pl ms values nrm scale cell =
     bindR (nth_or values cell) (\<lambda>v.
       let x = of_nat (ms_col ms ! cell); y = of_nat (ms_row ms ! cell)
       in Inr ([Rectangle (x - 1 / 2) (y - 1 / 2) nrm v]
               @ (if length (ms_col ms) \<le> 40 then [TextAt x y (format_value pl v scale)] else [])))"

definition place :: "mesh \<Rightarrow> nat \<Rightarrow> nat \<times> nat" where
  "place ms cell = (ms_col ms ! cell, ms_row ms ! cell)"

definition cell_lookup :: "mesh \<Rightarrow> (nat \<times> nat, nat) dict" where
  "cell_lookup ms = foldl (\<lambda>d c. dict_set (place ms c) c d) [] [0..<length (ms_col ms)]"

text \<open>The thick edge between a cell and its neighbour to the right or above.\<close>

definition edge_to :: "int list \<Rightarrow> mesh \<Rightarrow> nat \<Rightarrow> nat \<times> nat \<Rightarrow> 'a draw \<Rightarrow> 'a draw list res" where
  "edge_to agg ms cell there seg =
     (case dict_get (cell_lookup ms) there of None \<Rightarrow> Inr []
      | Some other \<Rightarrow>
          bindR (nth_or agg cell) (\<lambda>a. bindR (nth_or agg other) (\<lambda>b. Inr (if a \<noteq> b then [seg] else []))))"

definition draw_edges :: "int list \<Rightarrow> mesh \<Rightarrow> nat \<Rightarrow> 'a::linordered_field draw list res" where
  "draw_edges agg ms cell =
     (let i = ms_col ms ! cell; j = ms_row ms ! cell; x = of_nat i; y = of_nat j in
      bindR (edge_to agg ms cell (i + 1, j) (Segment (x + 1 / 2) (y - 1 / 2) (x + 1 / 2) (y + 1 / 2))) (\<lambda>right.
      bindR (edge_to agg ms cell (i, j + 1) (Segment (x - 1 / 2) (y + 1 / 2) (x + 1 / 2) (y + 1 / 2))) (\<lambda>above.
        Inr (right @ above))))"

definition mesh_label :: "'a::linordered_field plot \<Rightarrow> 'a \<Rightarrow> string" where
  "mesh_label pl scale =
     (if 0 < scale \<and> scale < 1 / 100 then ''cell labels in units of 1e'' @ show_int (pl_log10 pl scale)
      else ''max |value| = '' @ pl_g3 pl scale)"

definition draw_mesh_panel :: "'a::linordered_field plot \<Rightarrow> mesh \<Rightarrow> 'a vec \<Rightarrow> int list \<Rightarrow> string \<Rightarrow> 'a colour_norm \<Rightarrow> 'a draw list res" where
  "draw_mesh_panel pl ms values agg title nrm =
     bindR (abs_max values) (\<lambda>scale.
     let cells = [0..<length (ms_col ms)] in
     bindR (mapR (draw_cell pl ms values nrm scale) cells) (\<lambda>squares.
     bindR (mapR (draw_edges agg ms) cells) (\<lambda>edges.
       Inr ([Clear, SetTitle title, SetXlim (- 1 / 2) (of_nat (ms_ncol ms) - 1 / 2), SetYlim (- 1 / 2) (of_nat (ms_nrow ms) - 1 / 2)]
            @ concat squares @ concat edges @ [SetXlabel (mesh_label pl scale)]))))"

definition count_nonzero :: "'a::linordered_field mat \<Rightarrow> nat" where
  "count_nonzero A = length (filter (\<lambda>v. v \<noteq> 0) (concat A))"

definition entry_texts :: "'a::linordered_field plot \<Rightarrow> 'a mat \<Rightarrow> 'a draw list" where
  "entry_texts pl A =
     concat (map (\<lambda>i. concat (map (\<lambda>j.
       if A ! i ! j \<noteq> 0 then [TextAt (of_nat j) (of_nat i) (pl_f0 pl (A ! i ! j))] else []) [0..<length A])) [0..<length A])"

definition draw_matrix_panel :: "'a::linordered_field plot \<Rightarrow> 'a mat \<Rightarrow> string \<Rightarrow> 'a draw list res" where
  "draw_matrix_panel pl A title =
     bindR (abs_max (concat A)) (\<lambda>m.
     let size = length A in
       Inr ([Clear, SetTitle title, Imshow A (if m = 0 then 1 else m)]
            @ (if size \<le> 24 then entry_texts pl A else [])
            @ [SetXlabel (show_nat size @ '' x '' @ show_nat size @ '',  '' @ show_nat (count_nonzero A) @ '' nonzeros'')]))"

text \<open>The V of the cycle: down on the left, up on the right.\<close>

definition cycle_path :: "int \<Rightarrow> (int \<times> int) list" where
  "cycle_path n_levels =
     map (\<lambda>k. (k, - k)) [0..n_levels - 1] @ rev (map (\<lambda>k. (2 * n_levels - 2 - k, - k)) [0..n_levels - 1])"

definition descending :: "string option \<Rightarrow> bool" where
  "descending phase \<longleftrightarrow> phase \<in> set (map Some [''presmooth'', ''residual'', ''restrict'', ''krylov_start''])"

definition cycle_active :: "int \<Rightarrow> int \<Rightarrow> string option \<Rightarrow> int \<times> int" where
  "cycle_active n_levels grid phase = (if descending phase then (grid, - grid) else (2 * n_levels - 2 - grid, - grid))"

definition draw_cycle_panel :: "int \<Rightarrow> int \<Rightarrow> string option \<Rightarrow> int \<Rightarrow> 'a::linordered_field draw list" where
  "draw_cycle_panel n_levels grid phase ngrid =
     (let path = cycle_path n_levels; active = cycle_active n_levels grid phase
      in [Clear, SetTitle ''V-cycle position'',
          SetXlim (- 6 / 10) (of_int (2 * n_levels) - 14 / 10), SetYlim (of_int (- n_levels) + 4 / 10) (7 / 10),
          Polyline (map (\<lambda>(x, y). (of_int x, of_int y)) path)]
         @ map (\<lambda>(x, y). Scatter (of_int x) (of_int y) ''#ffffff'') path
         @ [Scatter (of_int (fst active)) (of_int (snd active)) (get_opt PHASE_COLOUR phase ''#333333'')]
         @ map (\<lambda>k. TextAt (- 45 / 100) (of_int (- k)) (CHR ''g'' # show_int k)) [0..n_levels - 1]
         @ [TextAt (of_int (fst active)) (of_int (snd active) + 32 / 100) (show_int ngrid @ '' cells'')])"

definition draw_residual_panel :: "(string, 'a::linordered_field list) dict \<Rightarrow> string \<Rightarrow> int \<Rightarrow> 'a draw list res" where
  "draw_residual_panel histories solver iteration =
     bindR (case dict_get histories solver of None \<Rightarrow> Inr []
            | Some h \<Rightarrow>
                if iteration < int (length h)
                then bindR (arr_get h iteration) (\<lambda>v. Inr [Scatter (of_int iteration) v (get_or SOLVER_COLOUR solver ''#333333'')])
                else Inr []) (\<lambda>marker.
       Inr ([Clear, SetTitle ''convergence  |b - A x| / |b|'', SetXlabel ''cycle'']
            @ map (\<lambda>(name, h). Curve (get_or SOLVER_LABEL name name) (get_or SOLVER_COLOUR name ''#888888'') (name = solver) h) histories
            @ marker @ [Legend, SetYlim (1 / 10 ^ 14) 5]))"

subsection \<open>The histories\<close>

definition compare_row :: "'a numpy \<Rightarrow> (string option, (int, 'a) dict) dict \<Rightarrow> csv_row \<Rightarrow> (string option, (int, 'a) dict) dict res" where
  "compare_row np h row =
     bindR (csv_float np row ''resnorm'') (\<lambda>v.
     bindR (csv_item row ''solver'') (\<lambda>solver.
     bindR (csv_int row ''cycle'') (\<lambda>c. Inr (put_in solver c v h))))"

definition truthy_opt :: "string option \<Rightarrow> bool" where
  "truthy_opt s \<longleftrightarrow> s \<noteq> None \<and> s \<noteq> Some []"

definition history_row :: "'a numpy \<Rightarrow> (string option, (int, 'a) dict) dict \<Rightarrow> csv_row \<Rightarrow> (string option, (int, 'a) dict) dict res" where
  "history_row np h row =
     bindR (csv_item row ''phase'') (\<lambda>phase.
       if phase \<noteq> Some ''krylov_update'' then Inr h
       else bindR (csv_item row ''resnorm'') (\<lambda>rs.
         if \<not> truthy_opt rs then Inr h
         else
           bindR (csv_float np row ''resnorm'') (\<lambda>v.
           bindR (csv_item row ''solver'') (\<lambda>solver.
           bindR (csv_int row ''iter'') (\<lambda>it. Inr (put_in solver it v h))))))"

definition setdefault :: "'k \<Rightarrow> 'v \<Rightarrow> ('k, 'v) dict \<Rightarrow> ('k, 'v) dict" where
  "setdefault k v d = (case dict_get d k of None \<Rightarrow> dict_set k v d | Some _ \<Rightarrow> d)"

definition in_order :: "(int, 'a::linordered_field) dict \<Rightarrow> 'a list" where
  "in_order d = map (\<lambda>k. get_or d k 0) (sort (keys d))"

definition shown_histories :: "(string option, (int, 'a::linordered_field) dict) dict \<Rightarrow> (string, 'a list) dict" where
  "shown_histories hs =
     concat (map (\<lambda>(name, d). case name of None \<Rightarrow> []
                   | Some s \<Rightarrow> if in_list s (keys SOLVER_COLOUR) then [(s, in_order d)] else []) hs)"

definition build_histories :: "'a::linordered_field numpy \<Rightarrow> fsys \<Rightarrow> string \<Rightarrow> (string, 'a list) dict res" where
  "build_histories np fs trace =
     (let path = path_join trace ''compare.csv'' in
      bindR (if fs_exists fs path
             then bindR (read_text fs path) (\<lambda>t. foldR (compare_row np) [] (csv_rows t))
             else read_case fs trace ''steps.csv'' (\<lambda>t.
               bindR (foldR (history_row np) [] (csv_rows t)) (\<lambda>h.
                 Inr (map (\<lambda>(name, d). (name, setdefault 0 1 d)) h)))) (\<lambda>h.
        Inr (shown_histories h)))"

subsection \<open>The film of one solver\<close>

datatype field_choice = FieldX | FieldR

definition field_name :: "field_choice \<Rightarrow> string" where
  "field_name f = (case f of FieldX \<Rightarrow> ''x'' | FieldR \<Rightarrow> ''r'')"

definition of_field :: "field_choice \<Rightarrow> 'a vec \<times> 'a vec \<Rightarrow> 'a vec" where
  "of_field f xr = (case f of FieldX \<Rightarrow> fst xr | FieldR \<Rightarrow> snd xr)"

definition at_key :: "(key, 'v) dict \<Rightarrow> string \<Rightarrow> int \<Rightarrow> 'v res" where
  "at_key d solver i =
     (case dict_get d (Some solver, i) of None \<Rightarrow> Inl (KeyError (solver @ '' '' @ show_int i)) | Some v \<Rightarrow> Inr v)"

definition norm_frame :: "(key, 'a::linordered_field vec \<times> 'a vec) dict \<Rightarrow> string \<Rightarrow> field_choice \<Rightarrow> (int, 'a) dict \<Rightarrow> 'a step \<Rightarrow> (int, 'a) dict res" where
  "norm_frame state solver field norms f =
     bindR (at_key state solver (st_step f)) (\<lambda>xr.
     bindR (abs_max (of_field field xr)) (\<lambda>limit.
       Inr (dict_set (st_grid f) (max (get_or norms (st_grid f) 0) limit) norms)))"

definition grid_norms :: "(key, 'a::linordered_field vec \<times> 'a vec) dict \<Rightarrow> string \<Rightarrow> field_choice \<Rightarrow> 'a step list \<Rightarrow> (int, 'a colour_norm) dict res" where
  "grid_norms state solver field frames =
     bindR (foldR (norm_frame state solver field) [] frames) (map_dict (\<lambda>limit. diverging_norm [- limit, limit]))"

text \<open>
  What a frame shows; a matrix panel that is None keeps what it showed before.  \<open>set_text\<close> with None is an
  empty text.
\<close>

record 'a picture =
  pc_mesh :: "'a draw list"
  pc_matrix :: "'a draw list option"
  pc_cycle :: "'a draw list"
  pc_residual :: "'a draw list"
  pc_title :: string
  pc_subtitle :: string
  pc_banner :: "string option"
  pc_banner_colour :: string

definition phase_text :: "string option \<Rightarrow> string option" where
  "phase_text phase = map_option (\<lambda>p. get_or PHASE_TEXT p p) phase"

definition banner_text :: "'a step \<Rightarrow> string option" where
  "banner_text f =
     (let pt = phase_text (st_phase f)
      in if st_detail f = Some [] \<or> st_detail f = pt then pt
         else Some (show_opt pt @ ''  --  '' @ show_opt (st_detail f)))"

definition show_e3 :: "'a plot \<Rightarrow> 'a option \<Rightarrow> string" where
  "show_e3 pl v = (case v of None \<Rightarrow> ''nan'' | Some x \<Rightarrow> pl_e3 pl x)"

record 'a loaded_trace =
  ld_mesh :: mesh
  ld_state :: "(key, 'a vec \<times> 'a vec) dict"
  ld_grids :: "(key, 'a mat) dict"
  ld_aggregates :: "(key, int list) dict"
  ld_histories :: "(string, 'a list) dict"

text \<open>The values of the active grid spread over the finest cells.\<close>

definition painted :: "'a loaded_trace \<Rightarrow> string \<Rightarrow> field_choice \<Rightarrow> 'a step \<Rightarrow> ('a vec \<times> int list) res" where
  "painted ld solver field f =
     bindR (at_key (ld_state ld) solver (st_step f)) (\<lambda>xr.
     bindR (at_key (ld_aggregates ld) solver (st_grid f)) (\<lambda>agg.
     bindR (mapR (arr_get (of_field field xr)) agg) (\<lambda>vs. Inr (vs, agg))))"

definition operator_title :: "int \<Rightarrow> string" where
  "operator_title grid = ''operator  A'' @ (if grid = 0 then [] else CHR ''_'' # show_int grid)"

definition update :: "'a::linordered_field plot \<Rightarrow> 'a loaded_trace \<Rightarrow> string \<Rightarrow> field_choice \<Rightarrow> (int, 'a colour_norm) dict \<Rightarrow> int \<Rightarrow> 'a step list \<Rightarrow>
    nat \<Rightarrow> 'a picture res" where
  "update pl ld solver field norms n_levels frames index =
     bindR (nth_or frames index) (\<lambda>f.
     let grid = st_grid f in
     bindR (painted ld solver field f) (\<lambda>(values, agg).
     bindR (case dict_get norms grid of None \<Rightarrow> Inl (KeyError (show_int grid)) | Some c \<Rightarrow> Inr c) (\<lambda>nrm.
     bindR (draw_mesh_panel pl (ld_mesh ld) values agg
         (''mesh, grid g'' @ show_int grid @ ''  ('' @ show_int (st_ngrid f) @ '' cells)   field = '' @ field_name field) nrm) (\<lambda>mesh_calls.
     bindR (case dict_get (ld_grids ld) (Some solver, grid) of None \<Rightarrow> Inr None
            | Some A \<Rightarrow> bindR (draw_matrix_panel pl A (operator_title grid)) (\<lambda>d. Inr (Some d))) (\<lambda>matrix_calls.
     bindR (draw_residual_panel (ld_histories ld) solver (st_iter f)) (\<lambda>residual_calls.
       Inr \<lparr>pc_mesh = mesh_calls, pc_matrix = matrix_calls,
            pc_cycle = draw_cycle_panel n_levels grid (st_phase f) (st_ngrid f), pc_residual = residual_calls,
            pc_title = get_or SOLVER_LABEL solver solver,
            pc_subtitle = ''cycle '' @ show_int (st_iter f) @ ''     residual '' @ show_e3 pl (st_resnorm f) @ ''     frame ''
              @ show_nat (index + 1) @ ''/'' @ show_nat (length frames),
            pc_banner = banner_text f,
            pc_banner_colour = get_opt PHASE_COLOUR (st_phase f) ''#333333''\<rparr>))))))"

record 'p movie =
  mv_path :: string
  mv_gif :: bool
  mv_pictures :: "'p list"
  mv_line :: string

datatype 'p render_outcome = NoTrace "string option list" | Film "'p movie"

definition wrote_line :: "'a::linordered_field plot \<Rightarrow> string \<Rightarrow> nat \<Rightarrow> int \<Rightarrow> string" where
  "wrote_line pl out_path n fps =
     ''wrote '' @ out_path @ ''  ('' @ show_nat n @ '' frames @ '' @ show_int fps @ '' fps = '' @ pl_f1 pl (of_nat n / of_int fps) @ '' s)''"

text \<open>\<open>animation.FuncAnimation\<close> is given the interval \<open>1000 / fps\<close>, which raises before a frame is drawn.\<close>

definition film :: "'a::linordered_field plot \<Rightarrow> string \<Rightarrow> int \<Rightarrow> bool \<Rightarrow> nat \<Rightarrow> (nat \<Rightarrow> 'p res) \<Rightarrow> 'p movie res" where
  "film pl out_path fps use_gif n draw =
     (if fps = 0 then Inl ZeroDivision
      else bindR (mapR draw [0..<n]) (\<lambda>ps.
        Inr \<lparr>mv_path = out_path, mv_gif = use_gif, mv_pictures = ps, mv_line = wrote_line pl out_path n fps\<rparr>))"

text \<open>\<open>sorted(steps)\<close>.\<close>

definition sorted_keys :: "string option list \<Rightarrow> string option list res" where
  "sorted_keys ks =
     (if length ks \<le> 1 then Inr ks
      else if in_list None ks then Inl TypeError
      else Inr (map Some (sort (map the ks))))"

definition render :: "'a::linordered_field numpy \<Rightarrow> 'a plot \<Rightarrow> fsys \<Rightarrow> string \<Rightarrow> string \<Rightarrow> string \<Rightarrow> int \<Rightarrow> bool \<Rightarrow> field_choice \<Rightarrow>
    'a picture render_outcome res" where
  "render np pl fs case_dir solver out_path fps use_gif field =
     (let trace = path_join case_dir ''trace'' in
      bindR (load_mesh np pl fs trace) (\<lambda>ms.
      bindR (load_steps np fs trace) (\<lambda>steps.
      bindR (load_state np fs trace) (\<lambda>state.
      bindR (load_grids np fs trace) (\<lambda>grids.
      bindR (load_aggregates fs trace) (\<lambda>aggregates.
      bindR (build_histories np fs trace) (\<lambda>histories.
      case dict_get steps (Some solver) of
        None \<Rightarrow> bindR (sorted_keys (keys steps)) (\<lambda>ks. Inr (NoTrace ks))
      | Some frames \<Rightarrow>
          let n_levels = Max (set (map st_grid frames)) + 1;
              ld = \<lparr>ld_mesh = ms, ld_state = state, ld_grids = grids, ld_aggregates = aggregates, ld_histories = histories\<rparr> in
          bindR (grid_norms state solver field frames) (\<lambda>norms.
          bindR (film pl out_path fps use_gif (length frames) (update pl ld solver field norms n_levels frames)) (\<lambda>m.
            Inr (Film m))))))))))"

subsection \<open>The film of three solvers\<close>

definition COMPARED :: "string list" where
  "COMPARED = [''of_gamg'', ''amgx'', ''brae'']"

definition compare_title :: "string \<Rightarrow> 'a step \<Rightarrow> string" where
  "compare_title solver f =
     get_or SOLVER_LABEL solver solver @ [nl] @ ''cycle '' @ show_int (st_iter f) @ ''  |  g'' @ show_int (st_grid f)
     @ '' ('' @ show_int (st_ngrid f) @ '' cells)  |  '' @ show_opt (phase_text (st_phase f))"

text \<open>The frame of a solver at an index of the film; the last one stays.\<close>

definition frame_at :: "'a step list \<Rightarrow> nat \<Rightarrow> 'a step res" where
  "frame_at frames index = py_nth frames (min (int index) (int (length frames) - 1))"

definition compare_mesh :: "'a::linordered_field plot \<Rightarrow> 'a loaded_trace \<Rightarrow> (string option, 'a step list) dict \<Rightarrow> field_choice \<Rightarrow> 'a colour_norm \<Rightarrow> nat \<Rightarrow>
    string \<Rightarrow> 'a draw list res" where
  "compare_mesh pl ld steps field nrm index solver =
     bindR (frame_at (get_or steps (Some solver) []) index) (\<lambda>f.
     bindR (painted ld solver field f) (\<lambda>(values, agg).
       draw_mesh_panel pl (ld_mesh ld) values agg (compare_title solver f) nrm))"

record 'a compare_picture =
  cp_meshes :: "'a draw list list"
  cp_residual :: "'a draw list"
  cp_subtitle :: string

definition update_compare :: "'a::linordered_field plot \<Rightarrow> 'a loaded_trace \<Rightarrow> (string option, 'a step list) dict \<Rightarrow> string list \<Rightarrow> field_choice \<Rightarrow>
    'a colour_norm \<Rightarrow> nat \<Rightarrow> nat \<Rightarrow> 'a compare_picture res" where
  "update_compare pl ld steps solvers field nrm n_frames index =
     bindR (mapR (compare_mesh pl ld steps field nrm index) solvers) (\<lambda>meshes.
     bindR (frame_at (get_or steps (Some ''brae'') []) index) (\<lambda>f.
     bindR (draw_residual_panel (ld_histories ld) ''brae'' (st_iter f)) (\<lambda>residual_calls.
       Inr \<lparr>cp_meshes = meshes, cp_residual = residual_calls,
            cp_subtitle = ''frame '' @ show_nat (index + 1) @ ''/'' @ show_nat n_frames
              @ ''   -- each solver stepping through its own cycle internals''\<rparr>)))"

definition solver_values :: "(key, 'a vec \<times> 'a vec) dict \<Rightarrow> (string option, 'a step list) dict \<Rightarrow> field_choice \<Rightarrow> string \<Rightarrow> 'a vec res" where
  "solver_values state steps field solver =
     bindR (mapR (\<lambda>f. bindR (at_key state solver (st_step f)) (\<lambda>xr. Inr (of_field field xr))) (get_or steps (Some solver) [])) (\<lambda>vs.
       Inr (concat vs))"

definition render_compare :: "'a::linordered_field numpy \<Rightarrow> 'a plot \<Rightarrow> fsys \<Rightarrow> string \<Rightarrow> string \<Rightarrow> int \<Rightarrow> bool \<Rightarrow> field_choice \<Rightarrow>
    'a compare_picture movie res" where
  "render_compare np pl fs case_dir out_path fps use_gif field =
     (let trace = path_join case_dir ''trace'' in
      bindR (load_mesh np pl fs trace) (\<lambda>ms.
      bindR (load_steps np fs trace) (\<lambda>steps.
      bindR (load_state np fs trace) (\<lambda>state.
      bindR (load_aggregates fs trace) (\<lambda>aggregates.
      bindR (build_histories np fs trace) (\<lambda>histories.
      let solvers = filter (\<lambda>s. in_list (Some s) (keys steps)) COMPARED;
          ld = \<lparr>ld_mesh = ms, ld_state = state, ld_grids = [], ld_aggregates = aggregates, ld_histories = histories\<rparr>
      in if solvers = [] then Inl ValueError
         else
           (let n_frames = Max (set (map (\<lambda>s. length (get_or steps (Some s) [])) solvers)) in
            bindR (mapR (solver_values state steps field) solvers) (\<lambda>vs.
            bindR (diverging_norm (concat vs)) (\<lambda>nrm.
              film pl out_path fps use_gif n_frames (update_compare pl ld steps solvers field nrm n_frames)))))))))) "

subsection \<open>The command\<close>

record replay_args =
  ra_case :: string
  ra_solver :: string
  ra_compare :: bool
  ra_field :: field_choice
  ra_output :: "string option"
  ra_fps :: int
  ra_gif :: bool

definition out_path_of :: "replay_args \<Rightarrow> string" where
  "out_path_of a =
     (let suffix = (if ra_gif a then ''.gif'' else ''.mp4'');
          default_name = (if ra_compare a then ''compare'' else ra_solver a)
      in if truthy_opt (ra_output a) then the (ra_output a) else path_join (ra_case a) (default_name @ suffix))"

datatype 'a replayed = One "'a picture render_outcome" | Three "'a compare_picture movie"

definition replay_main :: "'a::linordered_field numpy \<Rightarrow> 'a plot \<Rightarrow> fsys \<Rightarrow> replay_args \<Rightarrow> 'a replayed res" where
  "replay_main np pl fs a =
     (if ra_compare a
      then bindR (render_compare np pl fs (ra_case a) (out_path_of a) (ra_fps a) (ra_gif a) (ra_field a)) (\<lambda>m. Inr (Three m))
      else bindR (render np pl fs (ra_case a) (ra_solver a) (out_path_of a) (ra_fps a) (ra_gif a) (ra_field a)) (\<lambda>o1. Inr (One o1)))"

end
