(* ===== verification/Amg_Fit.thy ===== *)
theory Amg_Fit
  imports Amg_Tables
begin

text \<open>
  The frames that the solvers of \<open>make_steps.py\<close> record fit the levels they run on: every frame is of a grid of the
  hierarchy and has as many cells as that grid, every state row holds numbers as Python prints them, and the rows can be
  written as CSV.  This is what the replay of the trace relies on.
\<close>

subsection \<open>The invariant\<close>

text \<open>What Python says of its number formats: printed numbers are not empty, read back as numbers, and contain no carriage return.\<close>

definition numbers_read :: "'a numpy \<Rightarrow> bool" where
  "numbers_read np \<longleftrightarrow> (\<forall>v. (\<exists>w. np_float np (np_e12 np v) = Inr w) \<and> np_e12 np v \<noteq> []
     \<and> cr \<notin> set (np_e12 np v) \<and> cr \<notin> set (np_f4 np v) \<and> cr \<notin> set (np_f3 np v))"

definition readable :: "'a numpy \<Rightarrow> string \<Rightarrow> bool" where
  "readable np s \<longleftrightarrow> cr \<notin> set s \<and> (\<exists>w. np_float np s = Inr w)"

definition sizes :: "'a level list \<Rightarrow> nat list" where
  "sizes ls = map (\<lambda>l. length (fst l)) ls"

definition frame_fits :: "'a numpy \<Rightarrow> nat list \<Rightarrow> string \<Rightarrow> frame \<Rightarrow> bool" where
  "frame_fits np szs name f \<longleftrightarrow> f_solver f = name \<and> f_grid f < length szs \<and> f_ngrid f = szs ! f_grid f
     \<and> cr \<notin> set (f_phase f) \<and> cr \<notin> set (f_detail f) \<and> (f_resnorm f = [] \<or> readable np (f_resnorm f))"

definition row_fits :: "'a numpy \<Rightarrow> string \<Rightarrow> state_row \<Rightarrow> bool" where
  "row_fits np name s \<longleftrightarrow> s_solver s = name \<and> readable np (s_x s) \<and> readable np (s_r s)"

definition rec_fits :: "'a numpy \<Rightarrow> nat list \<Rightarrow> string \<Rightarrow> recorder \<Rightarrow> bool" where
  "rec_fits np szs name rec \<longleftrightarrow> r_solver rec = name \<and> rec_ok rec
     \<and> list_all (frame_fits np szs name) (r_steps rec) \<and> list_all (row_fits np name) (r_state rec)"

lemma new_recorder_fits: "rec_fits np szs name (new_recorder name n)"
  using new_recorder_ok [of name n] by (simp add: rec_fits_def new_recorder_def)

lemma cr_Char [simp]: "cr = Char a b c d e f g h \<longleftrightarrow> a \<and> \<not> b \<and> c \<and> d \<and> \<not> e \<and> \<not> f \<and> \<not> g \<and> \<not> h"
  by (simp add: cr_def)

lemma cr_show_nat [simp]: "cr \<notin> set (show_nat n)"
  using show_nat_digits [of cr n] by (auto simp: is_digit_def cr_def)

lemma state_rows_fit:
  assumes "numbers_read np" and "r_solver rec = name"
  shows "mapR (state_row_of np rec grid x r) cs = Inr rows \<Longrightarrow> list_all (row_fits np name) rows"
proof (induction cs arbitrary: rows)
  case (Cons c cs)
  then show ?case using assms by (auto simp: bindR_Inr_iff state_row_of_def row_fits_def readable_def numbers_read_def)
qed simp

lemma emit_fits:
  assumes np: "numbers_read np" and grid: "grid < length szs" and x: "length x = szs ! grid"
    and "cr \<notin> set phase" and "cr \<notin> set detail"
  shows "secures (rec_fits np szs name) (rec_emit np iteration phase grid x r detail resnorm) (\<lambda>_. True)"
  unfolding secures_def
proof (intro allI impI conjI)
  fix rec u rec'
  assume I: "rec_fits np szs name rec" and e: "rec_emit np iteration phase grid x r detail resnorm rec = Inr (u, rec')"
  then obtain rows where rows: "mapR (state_row_of np rec grid x r) [0..<length x] = Inr rows"
    and rec': "rec' = rec\<lparr>r_steps := r_steps rec @ [\<lparr>f_solver = r_solver rec, f_step = r_step rec, f_iter = iteration, f_phase = phase,
           f_grid = grid, f_ngrid = length x, f_detail = detail,
           f_resnorm = (case resnorm of None \<Rightarrow> [] | Some v \<Rightarrow> np_e12 np v)\<rparr>],
         r_state := r_state rec @ rows, r_step := r_step rec + 1\<rparr>"
    by (auto simp: rec_emit_def bindR_Inr_iff)
  have "rec_ok rec'" using keeps_rec_emit e I unfolding keeps_def rec_fits_def by blast
  moreover have "list_all (row_fits np name) rows" using state_rows_fit [OF np _ rows] I by (simp add: rec_fits_def)
  moreover have "readable np (np_e12 np v)" for v using np by (auto simp: numbers_read_def readable_def)
  ultimately show "rec_fits np szs name rec'"
    using I assms(2-5) by (auto simp: rec_fits_def rec' frame_fits_def split: option.splits)
qed simp

lemma emit_res_fits:
  "numbers_read np \<Longrightarrow> grid < length szs \<Longrightarrow> length x = szs ! grid \<Longrightarrow> cr \<notin> set phase \<Longrightarrow> cr \<notin> set detail \<Longrightarrow>
     secures (rec_fits np szs name) (emit_res np iteration phase grid A b x detail resnorm) (\<lambda>_. True)"
  unfolding emit_res_def by (intro secures_bind [OF secures_lift [where P = "\<lambda>_. True"]] emit_fits) simp_all

lemma smooth_loop_fits:
  assumes np: "numbers_read np" and grid: "grid < length szs" and n: "n = szs ! grid"
    and txts: "cr \<notin> set phase" "cr \<notin> set detail"
    and sweep: "\<And>x x'. length x = n \<Longrightarrow> sweep x = Inr x' \<Longrightarrow> length x' = n"
  shows "length x = n \<Longrightarrow>
    secures (rec_fits np szs name) (smooth_loop np sweep k iteration phase grid A b detail resnorm x) (\<lambda>x. length x = n)"
proof (induction k arbitrary: x)
  case 0
  then show ?case by (simp add: secures_ret)
next
  case (Suc k)
  show ?case unfolding smooth_loop.simps
    by (rule secures_bind [OF secures_lift [where P = "\<lambda>x. length x = n"]])
      (use Suc sweep in \<open>auto intro!: secures_bind [OF emit_res_fits [OF np grid _ txts]] simp: n\<close>)
qed

subsection \<open>The levels\<close>

lemma sizes_simps [simp]: "sizes [] = []" "sizes (l # ls) = length (fst l) # sizes ls" "length (sizes ls) = length ls" "sizes ls = [] \<longleftrightarrow> ls = []"
  by (simp_all add: sizes_def)

lemma levels_ok_hd: "levels_ok n ls \<Longrightarrow> ls \<noteq> [] \<and> sizes ls ! 0 = n"
  by (induction n ls rule: levels_ok.induct) (auto simp: mat_ok_def)

text \<open>A level by its index: a square matrix and, above the last one, the injection onto the next.\<close>

definition level_at :: "nat list \<Rightarrow> 'a::linordered_field level list \<Rightarrow> nat \<Rightarrow> bool" where
  "level_at szs ls k \<longleftrightarrow> 0 < szs ! k \<and> mat_ok (szs ! k) (szs ! k) (fst (ls ! k))
     \<and> (if Suc k < length ls
        then \<exists>m. snd (ls ! k) = Some (m, inj_mat (szs ! Suc k) m) \<and> length m = szs ! k \<and> set m = {0..<int (szs ! Suc k)}
        else snd (ls ! k) = None)"

lemma levels_ok_at: "levels_ok n ls \<Longrightarrow> 0 < n \<Longrightarrow> k < length ls \<Longrightarrow> level_at (sizes ls) ls k"
proof (induction n ls arbitrary: k rule: levels_ok.induct)
  case (2 n A ls)
  then show ?case by (simp add: level_at_def mat_ok_def)
next
  case (3 n A m P ls)
  then obtain nc where nc: "set m = {0..<int nc}" "P = inj_mat nc m" "levels_ok nc ls" and A: "mat_ok n n A" and m: "length m = n"
    by auto
  have "0 < nc" using labels_pos [OF nc(1)] m 3(3) by auto
  note hd = levels_ok_hd [OF nc(3)]
  show ?case
  proof (cases k)
    case 0
    then show ?thesis using hd A m nc 3(3) by (auto simp: level_at_def mat_ok_def)
  next
    case (Suc j)
    then have "level_at (sizes ls) ls j" using 3(1) [OF nc(3) \<open>0 < nc\<close>, of j] 3(4) by simp
    then show ?thesis using Suc by (simp add: level_at_def)
  qed
qed simp

lemma drop_nth: "drop k xs = ys \<Longrightarrow> j < length ys \<Longrightarrow> xs ! (k + j) = ys ! j \<and> k + j < length xs"
  by auto

lemma gauss_seidel_length: "gauss_seidel_sweep np A b x rv = Inr x' \<Longrightarrow> length x' = length x"
proof -
  have "length y = length x" if "foldR (gs_update np A b) x is = Inr y" for x y "is"
    using that by (induction "is" arbitrary: x) (auto simp: bindR_Inr_iff gs_update_def)
  then show "gauss_seidel_sweep np A b x rv = Inr x' \<Longrightarrow> ?thesis" by (simp add: gauss_seidel_sweep_def)
qed

context numpy_lib
begin

lemma matvec_lengths: "mat_ok r c A \<Longrightarrow> 0 < r \<Longrightarrow> np_matvec np A x = Inr y \<Longrightarrow> length x = c \<and> length y = r"
  using matvec [of r c A x] by (auto simp: mat_ok_def split: if_splits)

lemma jacobi_length:
  "mat_ok n n A \<Longrightarrow> 0 < n \<Longrightarrow> length b = n \<Longrightarrow> length x = n \<Longrightarrow> jacobi_sweep np A b x w = Inr x' \<Longrightarrow> length x' = n"
  using jacobi_returns [of n A b x w] by auto

lemma vcycle_fits:
  assumes nr: "numbers_read np"
    and coarse: "\<And>A b n x. mat_ok n n A \<Longrightarrow> 0 < n \<Longrightarrow> length b = n \<Longrightarrow> cy_coarse cy A b = Inr x \<Longrightarrow> length x = n"
    and txts: "cr \<notin> set (cy_text cy)" "cr \<notin> set (cy_coarse_text cy)"
  shows "levels_ok n ls \<Longrightarrow> 0 < n \<Longrightarrow> length b = n \<Longrightarrow> drop grid szs = sizes ls \<Longrightarrow>
    secures (rec_fits np szs name) (vcycle np cy ls grid b iteration resnorm) (\<lambda>x. length x = n)"
proof (induction ls arbitrary: n grid b)
  case (Cons l ls)
  obtain A mp where l: "l = (A, mp)" by (cases l)
  have A: "mat_ok n n A" using Cons.prems(1) l by (cases mp) auto
  then have lenA: "length A = n" by (simp add: mat_ok_def)
  have g: "grid < length szs" "szs ! grid = n" using drop_nth [OF Cons.prems(4), of 0] lenA l by auto
  note A' = A Cons.prems(2,3)
  show ?case
  proof (cases mp)
    case None
    show ?thesis unfolding l None vcycle.simps
      by (rule secures_bind [OF secures_lift [where P = "\<lambda>x. length x = n"]])
        (use coarse [OF A'] in \<open>auto intro!: secures_bind [OF emit_res_fits [OF nr g(1)]] secures_ret simp: g txts\<close>)
  next
    case (Some mP)
    obtain m P where mP: "mP = (m, P)" by (cases mP)
    from Cons.prems l Some mP obtain nc where m: "length m = n" "set m = {0..<int nc}"
      and P: "P = inj_mat nc m" and ls: "levels_ok nc ls" by auto
    have nc: "0 < nc" using labels_pos [OF m(2)] m(1) Cons.prems(2) by auto
    have Pok: "mat_ok n nc P" using inj_mat_ok [of m nc] m(1) P by simp
    have cols: "mat_cols P = nc" using mat_cols_ok [OF Pok Cons.prems(2)] .
    have d: "drop (grid + 1) szs = sizes ls" using Cons.prems(4) l by (metis Suc_eq_plus1 drop_Suc drop_tl list.sel(3) sizes_simps(2))
    have g1: "grid + 1 < length szs" "szs ! (grid + 1) = nc"
      using drop_nth [OF d, of 0] levels_ok_hd [OF ls] by auto
    have sw: "length x = n \<Longrightarrow> jacobi_sweep np A b x (cy_omega cy) = Inr x' \<Longrightarrow> length x' = n" for x x'
      using jacobi_length [OF A'] .
    have restr: "secures (rec_fits np szs name) (liftS (np_matvec np (transp nc P) r)) (\<lambda>c. length c = nc)" for r
      by (rule secures_lift) (use matvec_lengths [OF transp_ok [OF Pok] nc] in blast)
    have prol: "secures (rec_fits np szs name) (liftS (bindR (np_matvec np P xc) (vadd x))) (\<lambda>x. length x = n)"
      if "length x = n" for x xc
      by (rule secures_lift) (use that matvec_lengths [OF Pok Cons.prems(2)] in \<open>auto simp: bindR_Inr_iff\<close>)
    have resid: "secures (rec_fits np szs name) (liftS (residual np A b x)) (\<lambda>_. True)" for x by (rule secures_lift) simp
    show ?thesis unfolding l Some mP vcycle.simps cols
      by (intro secures_bind [OF smooth_loop_fits [OF nr g(1) g(2) [symmetric] _ _ sw]] secures_bind [OF resid]
          secures_bind [OF emit_fits [OF nr g(1)]] secures_bind [OF restr] secures_bind [OF emit_fits [OF nr g1(1)]]
          secures_bind [OF Cons.IH [OF ls nc]] secures_bind [OF prol] secures_bind [OF emit_res_fits [OF nr g(1)]]
          smooth_loop_fits [OF nr g(1) g(2) [symmetric] _ _ sw])
        (use Cons.prems(3) g1(2) d in \<open>simp_all add: g txts\<close>)
  qed
qed simp

end

subsection \<open>The conjugate-gradient solvers\<close>

definition cg_sized :: "nat \<Rightarrow> 'a cg \<Rightarrow> bool" where
  "cg_sized n s \<longleftrightarrow> length (cg_x s) = n \<and> length (cg_r s) = n \<and> (case cg_p s of None \<Rightarrow> True | Some (p, _) \<Rightarrow> length p = n)"

context numpy_lib
begin

lemma cg_step_fits:
  assumes nr: "numbers_read np" and A: "mat_ok n n A" and n: "0 < n" and szs: "szs \<noteq> []" "szs ! 0 = n"
    and prec: "\<And>r i v. length r = n \<Longrightarrow> secures (rec_fits np szs name) (prec r i v) (\<lambda>z. length z = n)"
    and s: "cg_sized n s"
  shows "secures (rec_fits np szs name) (cg_step np prec A nf s i) (cg_sized n)"
proof -
  note g = emit_fits [OF nr, of 0 szs]
  have dir: "secures (rec_fits np szs name) (liftS (cg_direction z rho (cg_p s))) (\<lambda>p. length p = n)" if "length z = n" for z rho
    by (rule secures_lift) (use that s cg_direction_length [where n = n] in \<open>auto simp: cg_sized_def\<close>)
  have Ap: "secures (rec_fits np szs name) (liftS (np_matvec np A p)) (\<lambda>y. length y = n)" for p
    by (rule secures_lift) (use matvec_lengths [OF A n] in blast)
  have sum: "secures (rec_fits np szs name) (liftS (vadd x (vscale a p))) (\<lambda>y. length y = n)"
    and diff: "secures (rec_fits np szs name) (liftS (vsub x (vscale a p))) (\<lambda>y. length y = n)"
    if "length x = n" "length p = n" for x p a
    by (rule secures_lift; use that in simp)+
  have num: "secures (rec_fits np szs name) (liftS (np_dot np z r)) (\<lambda>_. True)"
    "secures (rec_fits np szs name) (liftS (bindR (np_dot np z r) h)) (\<lambda>_. True)" for z r h
    by (rule secures_lift; simp)+
  have f4: "cr \<notin> set (np_f4 np v)" for v using nr by (simp add: numbers_read_def)
  show ?thesis unfolding cg_step_def Let_def
    by (intro secures_bind [OF g] secures_bind [OF prec] secures_bind [OF num(1)] secures_bind [OF dir] secures_bind [OF Ap]
        secures_bind [OF num(2)] secures_bind [OF sum] secures_bind [OF diff] secures_ret)
      (use s szs in \<open>simp_all add: cg_sized_def f4\<close>)
qed

lemma run_pcg_fits:
  assumes "numbers_read np" and "mat_ok n n A" and "0 < n" and "length b = n" and "szs \<noteq> []" and "szs ! 0 = n"
    and "\<And>r i v. length r = n \<Longrightarrow> secures (rec_fits np szs name) (prec r i v) (\<lambda>z. length z = n)"
  shows "secures (rec_fits np szs name) (run_pcg np prec A b k) (cg_sized n)"
proof -
  have "length A = n" using assms(2) by (simp add: mat_ok_def)
  then have "secures (rec_fits np szs name) (liftS (cg_start np A b)) (cg_sized n)"
    by (intro secures_lift) (use residual_eq [OF assms(2-4), of "zeros n"] assms(4) in \<open>auto simp: cg_start_def cg_sized_def\<close>)
  then show ?thesis unfolding run_pcg_def
    by (rule secures_bind) (intro secures_fold cg_step_fits [OF assms(1-3,5,6,7)])
qed

lemma vcycle_brae_fits:
  assumes "numbers_read np" and "levels_ok n ls" and "0 < n" and "length b = n"
  shows "secures (rec_fits np (sizes ls) name) (vcycle_brae np ls 0 b iteration resnorm) (\<lambda>x. length x = n)"
  unfolding vcycle_brae_def
proof (rule vcycle_fits [OF assms(1) _ _ _ assms(2-4)])
  fix A :: "'a mat" and b x :: "'a vec" and n
  assume "mat_ok n n A" "0 < n" "length b = n" "cy_coarse (brae_cycle np) A b = Inr x"
  then show "length x = n" using jacobi_solve_returns [of n A b "zeros n" 200] by (auto simp: brae_cycle_def)
qed (simp_all add: brae_cycle_def)

lemma vcycle_amgx_fits:
  assumes "numbers_read np" and "levels_ok n ls" and "0 < n" and "length b = n"
  shows "secures (rec_fits np (sizes ls) name) (vcycle_amgx np ls 0 b iteration resnorm) (\<lambda>x. length x = n)"
  unfolding vcycle_amgx_def
  by (rule vcycle_fits [OF assms(1) _ _ _ assms(2-4)]) (auto simp: amgx_cycle_def dest: solve_length)

end

subsection \<open>OpenFOAM's cycle\<close>

definition gamg_sized :: "nat \<Rightarrow> 'a gamg \<Rightarrow> bool" where
  "gamg_sized n s \<longleftrightarrow> length (ga_x s) = n \<and> length (ga_residual s) = n"

definition anchor_sized :: "nat \<Rightarrow> (int, 'a vec) dict option \<Rightarrow> bool" where
  "anchor_sized n ref \<longleftrightarrow> (case ref of None \<Rightarrow> True | Some d \<Rightarrow> list_all (\<lambda>(_, x). length x = n) d)"

context numpy_lib
begin

lemma grid_map_lengths:
  assumes "level_at szs ls k" and "Suc k < length ls" and "ls ! k = l"
  shows "bindR (grid_map l) (\<lambda>P. np_matvec np P x) = Inr y \<Longrightarrow> length y = szs ! k"
    and "bindR (grid_map l) (\<lambda>P. np_matvec np (transp (mat_cols P) P) x) = Inr y \<Longrightarrow> length y = szs ! Suc k"
proof -
  from assms obtain m where m: "snd l = Some (m, inj_mat (szs ! Suc k) m)" "length m = szs ! k" "set m = {0..<int (szs ! Suc k)}"
    and k: "0 < szs ! k" by (auto simp: level_at_def)
  let ?P = "inj_mat (szs ! Suc k) m :: 'a mat"
  have P: "mat_ok (szs ! k) (szs ! Suc k) ?P" using inj_mat_ok [of m "szs ! Suc k"] m(2) by simp
  have "m \<noteq> []" using m(2) k by (metis list.size(3) less_irrefl)
  then have k1: "0 < szs ! Suc k" using labels_pos [OF m(3)] by simp
  show "bindR (grid_map l) (\<lambda>P. np_matvec np P x) = Inr y \<Longrightarrow> length y = szs ! k"
    using m(1) matvec_lengths [OF P k] by (simp add: grid_map_def)
  show "bindR (grid_map l) (\<lambda>P. np_matvec np (transp (mat_cols P) P) x) = Inr y \<Longrightarrow> length y = szs ! Suc k"
    using m(1) matvec_lengths [OF transp_ok [OF P] k1] mat_cols_ok [OF P k] by (simp add: grid_map_def)
qed

lemma restrict_fits:
  assumes nr: "numbers_read np" and at: "\<And>k. k < length levels \<Longrightarrow> level_at (sizes levels) levels k"
  shows "ls = drop k levels \<Longrightarrow> k < length levels \<Longrightarrow>
    secures (rec_fits np (sizes levels) name) (restrict_down np iteration resnorm ls k current)
      (\<lambda>cs. map length cs = drop (Suc k) (sizes levels))"
proof (induction ls arbitrary: k current)
  case (Cons l ls)
  have ls: "ls = drop (Suc k) levels" and l: "levels ! k = l"
    using Cons.prems by (metis drop_Suc drop_tl list.sel(3), metis hd_drop_conv_nth list.sel(1))
  show ?case
  proof (cases ls)
    case Nil
    then have "length levels \<le> Suc k" using ls by simp
    then show ?thesis using Nil by (simp add: secures_ret)
  next
    case (Cons l' ls')
    then have k: "Suc k < length levels" using ls by (metis drop_eq_Nil list.distinct(1) not_le)
    then have restr: "secures (rec_fits np (sizes levels) name)
        (liftS (bindR (grid_map l) (\<lambda>P. np_matvec np (transp (mat_cols P) P) current))) (\<lambda>c. length c = sizes levels ! Suc k)"
      by (intro secures_lift) (use grid_map_lengths(2) [OF at k l] in auto)
    have d: "drop (Suc k) (sizes levels) = sizes levels ! Suc k # drop (Suc (Suc k)) (sizes levels)"
      using k by (simp add: Cons_nth_drop_Suc)
    show ?thesis unfolding Cons restrict_down.simps
      by (intro secures_bind [OF restr] secures_bind [OF emit_fits [OF nr]]
          secures_bind [OF Cons.IH [OF ls k, unfolded Cons Suc_eq_plus1]] secures_ret) (use k d in simp_all)
  qed
qed simp

lemma scale_correction_length:
  assumes A: "mat_ok n n A" and n: "0 < n" and src: "length source = n"
    and sc: "scale_correction np A field source = Inr (f, sf)"
  shows "length f = n"
proof -
  have lenA: "length A = n" using A by (simp add: mat_ok_def)
  from sc obtain Acf s d c where *: "np_matvec np A field = Inr Acf" "vsub source (vscale c Acf) = Inr s"
    "zip_with (/) s (diag_of A) = Inr d" "vadd (vscale c field) d = Inr f"
    unfolding scale_correction_def Let_def bindR_Inr_iff by auto
  with matvec_lengths [OF A n *(1)] show ?thesis using src lenA by auto
qed

lemma source_at_length:
  "map length srcs = drop 1 szs \<Longrightarrow> source_at srcs k = Inr s \<Longrightarrow> length s = szs ! k \<and> k < length szs"
proof -
  assume l: "map length srcs = drop 1 szs" and s: "source_at srcs k = Inr s"
  then have k: "1 \<le> k" "k \<le> length srcs" "s = srcs ! (k - 1)" by (auto simp: source_at_def split: if_splits)
  have "length srcs = length szs - 1" using l by (metis length_drop length_map)
  moreover have "length s = map length srcs ! (k - 1)" using k by simp
  ultimately show ?thesis using k(1,2) l by auto
qed

lemma of_prolong_fits:
  assumes nr: "numbers_read np" and at: "\<And>k. k < length levels \<Longrightarrow> level_at (sizes levels) levels k"
    and srcs: "map length srcs = drop 1 (sizes levels)" and k: "Suc k < length levels"
  shows "secures (rec_fits np (sizes levels) name) (of_prolong np iteration resnorm levels srcs corr k) (\<lambda>_. True)"
proof -
  let ?I = "rec_fits np (sizes levels) name" and ?n = "sizes levels ! k"
  have A: "mat_ok ?n ?n (fst (levels ! k))" "0 < ?n" using at [of k] k by (simp_all add: level_at_def)
  have lev: "secures ?I (liftS (nth_or levels k)) (\<lambda>l. l = levels ! k)" by (rule secures_lift) (use k in simp)
  have any: "secures ?I (liftS (bindR (grid_map l) (\<lambda>P. np_matvec np P corr))) (\<lambda>_. True)" for l by (rule secures_lift) simp
  have src: "secures ?I (liftS (source_at srcs k)) (\<lambda>s. length s = ?n)"
    by (rule secures_lift) (use source_at_length [OF srcs] in blast)
  have sc: "secures ?I (liftS (scale_correction np (fst (levels ! k)) f0 s)) (\<lambda>(f, sf). length f = ?n)" if "length s = ?n" for f0 s
    by (rule secures_lift) (use scale_correction_length [OF A that] in blast)
  have f3: "cr \<notin> set (np_f3 np v)" for v using nr by (simp add: numbers_read_def)
  have k': "k < length (sizes levels)" using k by simp
  have sm: "secures ?I (smooth_loop np (\<lambda>x. gauss_seidel_sweep np (fst (levels ! k)) s x False) NPOST_OF iteration ''postsmooth'' k
      (fst (levels ! k)) s ''Gauss-Seidel'' resnorm f) (\<lambda>_. True)" if "length f = ?n" for f s
    by (rule secures_weaken [OF smooth_loop_fits [OF nr k' refl]]) (use that in \<open>auto dest: gauss_seidel_length\<close>)
  show ?thesis unfolding of_prolong_def
    by (intro secures_bind [OF lev] secures_bind [OF any] secures_bind [OF src])
      (auto intro!: secures_bind [OF sc] secures_bind [OF emit_res_fits [OF nr k']] sm simp: scale_text_def f3)
qed

lemma of_anchor_sized:
  assumes "mat_ok n n A" and "0 < n" and "length b = n" and "anchor_sized n anchor" and "gamg_sized n s"
  shows "of_anchor np anchor A b s iteration = Inr s' \<Longrightarrow> gamg_sized n s'"
proof -
  have x: "length x = n" if "anchor = Some d" "dict_get d i = Some x" for d i x
    using that assms(4) dict_get_Some_mem [of d i x] by (auto simp: anchor_sized_def list_all_iff)
  have "length A = n" using assms(1) by (simp add: mat_ok_def)
  then show "of_anchor np anchor A b s iteration = Inr s' \<Longrightarrow> ?thesis"
    using assms(3,5) x residual_eq [OF assms(1-3)]
    by (auto simp: of_anchor_def gamg_sized_def bindR_Inr_iff split: option.splits)
qed

lemma of_cycle_fits:
  assumes nr: "numbers_read np" and A: "mat_ok n n A" and n: "0 < n" and b: "length b = n"
    and lv: "levels_ok n levels" and an: "anchor_sized n anchor" and s0: "gamg_sized n s0"
  shows "secures (rec_fits np (sizes levels) name) (of_cycle np levels A b nf anchor s0 iteration) (gamg_sized n)"
proof -
  let ?I = "rec_fits np (sizes levels) name" and ?c = "length levels - 1"
  have lenA: "length A = n" using A by (simp add: mat_ok_def)
  note at = levels_ok_at [OF lv n]
  have z: "levels \<noteq> []" "0 < length (sizes levels)" "sizes levels ! 0 = n" using levels_ok_hd [OF lv] by auto
  have c: "?c < length (sizes levels)" using z by simp
  have f3: "cr \<notin> set (np_f3 np v)" for v using nr by (simp add: numbers_read_def)
  have anch: "secures ?I (liftS (of_anchor np anchor A b s0 iteration)) (gamg_sized n)"
    by (rule secures_lift) (use of_anchor_sized [OF A n b an s0] in blast)
  have down: "secures ?I (restrict_down np iteration rn levels 0 cur) (\<lambda>cs. map length cs = drop 1 (sizes levels))" for rn cur
    using restrict_fits [OF nr at, of levels 0] z by simp
  have lev: "secures ?I (liftS (nth_or levels k)) (\<lambda>l. l = levels ! k \<and> k < length levels)" for k
    by (rule secures_lift) (auto simp: nth_or_def split: if_splits)
  have src: "secures ?I (liftS (source_at srcs k)) (\<lambda>s. length s = sizes levels ! k)"
    if "map length srcs = drop 1 (sizes levels)" for srcs k
    by (rule secures_lift) (use source_at_length [OF that] in blast)
  have solve: "secures ?I (liftS (np_solve np M s)) (\<lambda>x. length x = length s)" for M s
    by (rule secures_lift) (use solve_length in blast)
  have up: "secures ?I (foldS (of_prolong np iteration rn levels srcs) cc (rev [1..<?c])) (\<lambda>_. True)"
    if "map length srcs = drop 1 (sizes levels)" for rn srcs cc
    by (rule secures_fold) (use of_prolong_fits [OF nr at that] in auto)
  have any: "secures ?I (liftS (bindR (grid_map l) (\<lambda>P. np_matvec np P corr))) (\<lambda>_. True)" for l corr by (rule secures_lift) simp
  have sc: "secures ?I (liftS (scale_correction np A f0 s)) (\<lambda>(f, sf). length f = n)" if "length s = n" for f0 s
    by (rule secures_lift) (use scale_correction_length [OF A n that] in blast)
  have sum: "secures ?I (liftS (vadd x y)) (\<lambda>x. length x = n)" if "length x = n" "length y = n" for x y
    by (rule secures_lift) (use that in simp)
  have sm: "secures ?I (smooth_loop np (\<lambda>x. gauss_seidel_sweep np A b x False) NFINEST_OF iteration ''postsmooth'' 0 A b
      ''finest-grid Gauss-Seidel'' rn x) (\<lambda>x. length x = n)" if "length x = n" for x rn
    by (rule smooth_loop_fits [OF nr z(2) z(3) [symmetric]]) (use that in \<open>auto dest: gauss_seidel_length\<close>)
  have res: "secures ?I (liftS (residual np A b x)) (\<lambda>r. length r = n)" if "length x = n" for x
    by (rule secures_lift) (use residual_eq [OF A n b that] b lenA in auto)
  note e = emit_fits [OF nr z(2), unfolded z(3)] emit_res_fits [OF nr z(2), unfolded z(3)] emit_res_fits [OF nr c]
  show ?thesis unfolding of_cycle_def Let_def
    by (intro secures_bind [OF anch] secures_bind [OF e(1)] secures_bind [OF down] secures_bind [OF lev] secures_bind [OF src]
        secures_bind [OF solve] secures_bind [OF e(3)] secures_bind [OF up] secures_bind [OF any] secures_bind [OF sc] secures_pair
        secures_bind [OF sum] secures_bind [OF e(2)] secures_bind [OF sm] secures_bind [OF res] secures_ret)
      (auto simp: gamg_sized_def scale_text_def f3)
qed

end

context numpy_lib
begin

lemma run_of_fits:
  assumes "numbers_read np" and "mat_ok n n A" and "0 < n" and "length b = n" and "levels_ok n levels" and "anchor_sized n anchor"
  shows "secures (rec_fits np (sizes levels) name) (run_of np levels A b k anchor) (\<lambda>_. True)"
proof -
  have "length A = n" using assms(2) by (simp add: mat_ok_def)
  then have res: "secures (rec_fits np (sizes levels) name) (liftS (residual np A b (zeros (length b)))) (\<lambda>r. length r = n)"
    by (intro secures_lift) (use residual_eq [OF assms(2-4), of "zeros n"] assms(4) in auto)
  have loop: "secures (rec_fits np (sizes levels) name) (foldS (of_cycle np levels A b (abs_sum b) anchor)
      \<lparr>ga_x = zeros (length b), ga_residual = r, ga_history = hs\<rparr> is) (gamg_sized n)" if "length r = n" for r hs "is"
    by (rule secures_fold) (simp add: gamg_sized_def that assms(4), rule of_cycle_fits [OF assms])
  show ?thesis unfolding run_of_def by (intro secures_bind [OF res] secures_bind [OF loop] secures_ret) simp_all
qed

lemma run_brae_fits:
  assumes "numbers_read np" and "mat_ok n n A" and "0 < n" and "length b = n" and "levels_ok n levels"
  shows "secures (rec_fits np (sizes levels) name) (run_brae np levels A b k) (\<lambda>_. True)"
  unfolding run_brae_def using levels_ok_hd [OF assms(5)]
  by (intro secures_bind [OF run_pcg_fits [OF assms(1-4)]] vcycle_brae_fits [OF assms(1,5,3)] secures_ret) auto

lemma run_amgx_fits:
  assumes "numbers_read np" and "mat_ok n n A" and "0 < n" and "length b = n" and "levels_ok n levels"
  shows "secures (rec_fits np (sizes levels) name) (run_amgx np levels A b k) (\<lambda>_. True)"
  unfolding run_amgx_def using levels_ok_hd [OF assms(5)]
  by (intro secures_bind [OF run_pcg_fits [OF assms(1-4)]] vcycle_amgx_fits [OF assms(1,5,3)] secures_ret) auto

lemma run_config_fits:
  assumes "numbers_read np" and "mat_ok n n A" and "0 < n" and "length b = n" and "levels_ok n levels" and "anchor_sized n ref"
    and "run_config np A b iters ref (name, levels, runner) (new_recorder name n) = Inr (h, rec)"
  shows "rec_fits np (sizes levels) name rec"
proof -
  have "secures (rec_fits np (sizes levels) name) (run_config np A b iters ref (name, levels, runner)) (\<lambda>_. True)"
    using run_of_fits [OF assms(1-6)] run_brae_fits [OF assms(1-5)] run_amgx_fits [OF assms(1-5)]
    by (simp add: run_config_def split: runner.splits)
  from securesD [OF this new_recorder_fits assms(7)] show ?thesis by simp
qed

end

subsection \<open>The aggregates\<close>

text \<open>The cells of every grid that the finest cells belong to, as \<open>chain\<close> runs through them.\<close>

fun grid_chains :: "int list \<Rightarrow> 'a level list \<Rightarrow> int list list" where
  "grid_chains chain [] = []"
| "grid_chains chain ((A, mp) # ls) =
     chain # grid_chains (case mp of None \<Rightarrow> chain | Some (m, P) \<Rightarrow> map (\<lambda>c. m ! nat c) chain) ls"

definition chain_rows :: "string \<Rightarrow> nat \<Rightarrow> int list \<Rightarrow> aggregate_row list" where
  "chain_rows name grid chain = map (\<lambda>cell. (name, grid, cell, chain ! cell)) [0..<length chain]"

lemma chain_step:
  assumes "set chain \<subseteq> {0..<int n}" and "length m = n" and "set m = {0..<int nc}"
  shows "mapR (arr_get m) chain = Inr (map (\<lambda>c. m ! nat c) chain)" and "set (map (\<lambda>c. m ! nat c) chain) \<subseteq> {0..<int nc}"
proof -
  show "mapR (arr_get m) chain = Inr (map (\<lambda>c. m ! nat c) chain)" using assms(1,2) by (induction chain) auto
  have "m ! nat c \<in> set m" if "c \<in> set chain" for c proof (rule nth_mem)
    have "c \<in> {0..<int n}" using that assms(1) by blast
    then show "nat c < length m" using assms(2) by auto
  qed
  then show "set (map (\<lambda>c. m ! nat c) chain) \<subseteq> {0..<int nc}" using assms(3) by auto
qed

lemma aggregate_rows_chains:
  "levels_ok n ls \<Longrightarrow> set chain \<subseteq> {0..<int n} \<Longrightarrow>
     aggregate_rows_of name grid chain ls = Inr (concat (map (\<lambda>(g, ch). chain_rows name g ch) (enumerate grid (grid_chains chain ls))))"
proof (induction n ls arbitrary: grid chain rule: levels_ok.induct)
  case (2 n A ls)
  then show ?case by (simp add: chain_rows_def)
next
  case (3 n A m P ls)
  then obtain nc where nc: "set m = {0..<int nc}" "levels_ok nc ls" and m: "length m = n" by auto
  note step = chain_step [OF 3(3) m nc(1)]
  show ?case using step(1) 3(1) [OF nc(2) step(2), of "Suc grid"] by (simp add: chain_rows_def)
qed simp

lemma chains_fit:
  "levels_ok n ls \<Longrightarrow> set chain \<subseteq> {0..<int n} \<Longrightarrow> length (grid_chains chain ls) = length ls \<and>
     (\<forall>k < length ls. length (grid_chains chain ls ! k) = length chain \<and> set (grid_chains chain ls ! k) \<subseteq> {0..<int (sizes ls ! k)})"
proof (induction n ls arbitrary: chain rule: levels_ok.induct)
  case (2 n A ls)
  then show ?case by (simp add: mat_ok_def)
next
  case (3 n A m P ls)
  then obtain nc where nc: "set m = {0..<int nc}" "levels_ok nc ls" and m: "length m = n" and A: "length A = n" by (auto simp: mat_ok_def)
  note step = chain_step [OF 3(3) m nc(1)]
  have "\<forall>k < length ls. length (grid_chains (map (\<lambda>c. m ! nat c) chain) ls ! k) = length chain
      \<and> set (grid_chains (map (\<lambda>c. m ! nat c) chain) ls ! k) \<subseteq> {0..<int (sizes ls ! k)}"
    "length (grid_chains (map (\<lambda>c. m ! nat c) chain) ls) = length ls"
    using 3(1) [OF nc(2) step(2)] by auto
  then show ?case using 3(3) A by (simp add: All_less_Suc2)
qed simp

end
