(* ===== verification/Amg_Playback.thy ===== *)
theory Amg_Playback
  imports Amg_Replay Amg_Fit
begin

text \<open>
  The replay of a trace that \<open>make_steps.py\<close> wrote: the loaders of \<open>replay.py\<close> read its four tables back, and the film
  of every solver is drawn, one picture for each recorded frame, without an exception.  The other
  lemmas are on what a panel shows: the thick edges of the mesh panel and the position in the V-cycle.
\<close>

subsection \<open>Grouping\<close>

definition grouped :: "('x \<Rightarrow> 'k) \<Rightarrow> ('x \<Rightarrow> 'v) \<Rightarrow> 'x list \<Rightarrow> ('k, 'v list) dict" where
  "grouped kf vf xs = foldl (\<lambda>d x. add_to (kf x) (vf x) d) [] xs"

definition tabled :: "('x \<Rightarrow> 'k) \<Rightarrow> ('x \<Rightarrow> 'c) \<Rightarrow> ('x \<Rightarrow> 'v) \<Rightarrow> 'x list \<Rightarrow> ('k, ('c, 'v) dict) dict" where
  "tabled kf cf vf xs = foldl (\<lambda>d x. put_in (kf x) (cf x) (vf x) d) [] xs"

definition filled :: "('x \<Rightarrow> 'c) \<Rightarrow> ('x \<Rightarrow> 'v) \<Rightarrow> 'x list \<Rightarrow> ('c, 'v) dict" where
  "filled cf vf xs = foldl (\<lambda>d x. dict_set (cf x) (vf x) d) [] xs"

lemma grouped_get:
  "dict_get (grouped kf vf xs) k = (let ys = filter (\<lambda>x. kf x = k) xs in if ys = [] then None else Some (map vf ys))"
  by (induction xs rule: rev_induct) (auto simp: grouped_def add_to_def get_or_def Let_def)

lemma tabled_get:
  "dict_get (tabled kf cf vf xs) k = (let ys = filter (\<lambda>x. kf x = k) xs in if ys = [] then None else Some (filled cf vf ys))"
  by (induction xs rule: rev_induct) (auto simp: tabled_def filled_def put_in_def get_or_def Let_def)

lemma grouped_ok: "dict_ok (grouped kf vf xs)"
  by (induction xs rule: rev_induct) (simp_all add: grouped_def add_to_def)

lemma tabled_ok: "dict_ok (tabled kf cf vf xs)"
  by (induction xs rule: rev_induct) (simp_all add: tabled_def put_in_def)

lemma dict_mem_get: "dict_ok d \<Longrightarrow> (k, v) \<in> set d \<Longrightarrow> dict_get d k = Some v"
  by (simp add: dict_ok_def dict_get_def)

lemma map_dict_get:
  "map_dict f d = Inr e \<Longrightarrow> dict_get d k = Some v \<Longrightarrow> \<exists>w. f v = Inr w \<and> dict_get e k = Some w"
proof (induction d arbitrary: e)
  case (Cons p d)
  obtain k' v' where p: "p = (k', v')" by (cases p)
  from Cons.prems(1) p obtain w' e' where w': "f v' = Inr w'" "e = (k', w') # e'" "map_dict f d = Inr e'"
    by (auto simp: map_dict_def bindR_Inr_iff)
  with Cons.IH [OF w'(3)] Cons.prems(2) p show ?case by (auto simp: dict_get_def split: if_splits)
qed simp

lemma map_dict_total: "(\<And>k v. (k, v) \<in> set d \<Longrightarrow> \<exists>w. f v = Inr w) \<Longrightarrow> \<exists>e. map_dict f d = Inr e"
  unfolding map_dict_def by (rule mapR_total) fastforce

lemma map_dict_None: "map_dict f d = Inr e \<Longrightarrow> dict_get d k = None \<Longrightarrow> dict_get e k = None"
  by (induction d arbitrary: e) (auto simp: map_dict_def bindR_Inr_iff dict_get_def split: if_splits)

lemma fst_dict_set: "fst ` set (dict_set k v d) = insert k (fst ` set d)"
proof -
  have "set (keys (dict_set k v d)) = insert k (set (keys d))" unfolding keys_dict_set by auto
  then show ?thesis by simp
qed

text \<open>A group of rows that are numbered without a gap.\<close>

lemma dict_set_new: "k \<notin> set (keys d) \<Longrightarrow> dict_set k v d = d @ [(k, v)]"
  by (induction d) (auto split: if_splits)

lemma filled_distinct: "distinct (map cf xs) \<Longrightarrow> filled cf vf xs = map (\<lambda>x. (cf x, vf x)) xs"
proof (induction xs rule: rev_induct)
  case (snoc x xs)
  then have "filled cf vf (xs @ [x]) = dict_set (cf x) (vf x) (map (\<lambda>x. (cf x, vf x)) xs)" by (simp add: filled_def)
  moreover have "cf x \<notin> set (keys (map (\<lambda>x. (cf x, vf x)) xs))" using snoc.prems by auto
  ultimately show ?case by (simp add: dict_set_new)
qed (simp add: filled_def)

lemma dense_numbered:
  assumes "map cf xs = map int [0..<m]"
  shows "dense_array (filled cf vf xs) (length (filled cf vf xs)) = Inr (map vf xs)" and "length xs = m"
proof -
  have d: "distinct (map cf xs)" unfolding assms by (simp add: distinct_map)
  show m: "length xs = m" using assms by (metis diff_zero length_map length_upt)
  have get: "dict_get (filled cf vf xs) (int i) = Some (vf (xs ! i))" if "i < m" for i
  proof -
    have "cf (xs ! i) = int i" using arg_cong [OF assms, of "\<lambda>l. l ! i"] that m by simp
    moreover have "dict_get (filled cf vf xs) (cf (xs ! i)) = Some (vf (xs ! i))"
      using that m d unfolding filled_distinct [OF d] by (intro dict_mem_get) (auto simp: dict_ok_def comp_def)
    ultimately show ?thesis by simp
  qed
  have "dense_array (filled cf vf xs) m = Inr (map (\<lambda>i. vf (xs ! i)) [0..<m])"
    unfolding dense_array_def mapR_Inr_iff list_all2_conv_all_nth using get by simp
  moreover have "map (\<lambda>i. vf (xs ! i)) [0..<m] = map vf xs" using m by (auto intro: nth_equalityI)
  ultimately show "dense_array (filled cf vf xs) (length (filled cf vf xs)) = Inr (map vf xs)"
    using m by (simp add: filled_distinct [OF d])
qed

text \<open>What the loaders make of the groups of a table, where the rows of a group are numbered without a gap.\<close>

lemma packed_groups:
  fixes vf :: "'x \<Rightarrow> 'v" and g :: "'v list \<Rightarrow> 'w"
  assumes "\<And>x. x \<in> set xs \<Longrightarrow> \<exists>m. map cf (filter (\<lambda>y. kf y = kf x) xs) = map int [0..<m]"
  shows "\<exists>e. map_dict (\<lambda>v. bindR (dense_array v (length v)) (\<lambda>ps. Inr (g ps))) (tabled kf cf vf xs) = Inr e \<and>
    (\<forall>k. filter (\<lambda>x. kf x = k) xs \<noteq> [] \<longrightarrow> dict_get e k = Some (g (map vf (filter (\<lambda>x. kf x = k) xs))))"
proof -
  let ?pack = "\<lambda>v. bindR (dense_array v (length v)) (\<lambda>ps. Inr (g ps))" and ?ys = "\<lambda>k. filter (\<lambda>x. kf x = k) xs"
  have pack: "?pack (filled cf vf (?ys k)) = Inr (g (map vf (?ys k)))" if ne: "?ys k \<noteq> []" for k
  proof -
    obtain x where "x \<in> set xs" "kf x = k" using ne by (auto simp: filter_empty_conv)
    with assms obtain m where "map cf (?ys k) = map int [0..<m]" by blast
    from dense_numbered(1) [OF this, of vf] show ?thesis by simp
  qed
  have get: "dict_get (tabled kf cf vf xs) k = Some (filled cf vf (?ys k))" if "?ys k \<noteq> []" for k
    using that by (simp add: tabled_get Let_def)
  have tot: "\<exists>w. ?pack v = Inr w" if kv: "(k, v) \<in> set (tabled kf cf vf xs)" for k v
    using dict_mem_get [OF tabled_ok kv] pack [of k] unfolding tabled_get Let_def by (auto split: if_splits)
  from map_dict_total [of "tabled kf cf vf xs" ?pack] tot obtain e where e: "map_dict ?pack (tabled kf cf vf xs) = Inr e" by blast
  have "dict_get e k = Some (g (map vf (?ys k)))" if "?ys k \<noteq> []" for k
    using map_dict_get [OF e get [OF that]] pack [OF that] by simp
  with e show ?thesis by blast
qed

text \<open>The rows of one of several tables that have different names.\<close>

lemma filter_concat_named:
  assumes "\<And>r x. r \<in> set rs \<Longrightarrow> x \<in> set (h r) \<Longrightarrow> nm x = fst r"
  shows "distinct (map fst rs) \<Longrightarrow> r \<in> set rs \<Longrightarrow> filter (\<lambda>x. nm x = fst r \<and> P x) (concat (map h rs)) = filter P (h r)"
  using assms
proof (induction rs)
  case (Cons q rs)
  have q: "nm x = fst q" if "x \<in> set (h q)" for x using Cons.prems(3) that by simp
  have rs: "nm x = fst r'" if "r' \<in> set rs" "x \<in> set (h r')" for r' x using Cons.prems(3) that by simp
  show ?case
  proof (cases "r = q")
    case True
    have "nm x \<noteq> fst q" if "x \<in> set (concat (map h rs))" for x
    proof -
      from that obtain r' where "r' \<in> set rs" "x \<in> set (h r')" by auto
      then have "nm x \<in> fst ` set rs" using rs by (metis image_eqI)
      moreover have "fst q \<notin> fst ` set rs" using Cons.prems(1) by simp
      ultimately show ?thesis by metis
    qed
    then have "filter (\<lambda>x. nm x = fst q \<and> P x) (concat (map h rs)) = []" by (simp only: filter_empty_conv) blast
    moreover have "filter (\<lambda>x. nm x = fst q \<and> P x) (h q) = filter P (h q)" using q by (auto intro: filter_cong)
    ultimately show ?thesis using True by simp
  next
    case False
    then have r: "r \<in> set rs" using Cons.prems(2) by simp
    moreover have "fst q \<notin> fst ` set rs" using Cons.prems(1) by simp
    ultimately have "fst r \<noteq> fst q" by (metis image_eqI)
    then have "filter (\<lambda>x. nm x = fst r \<and> P x) (h q) = []" using q by (auto simp: filter_empty_conv)
    with Cons.IH [OF _ r rs] Cons.prems(1) show ?thesis by simp
  qed
qed simp

subsection \<open>A trace\<close>

text \<open>The runs whose tables a trace holds: solver, levels and the recorder the run left.\<close>

type_synonym 'a run = "string \<times> 'a level list \<times> recorder"

definition run_fits :: "'a::linordered_field numpy \<Rightarrow> nat \<Rightarrow> 'a run \<Rightarrow> bool" where
  "run_fits np n r \<longleftrightarrow> (case r of (name, ls, rec) \<Rightarrow> cr \<notin> set name \<and> levels_ok n ls \<and> rec_fits np (sizes ls) name rec)"

definition runs_fit :: "'a::linordered_field numpy \<Rightarrow> nat \<Rightarrow> 'a run list \<Rightarrow> bool" where
  "runs_fit np n rs \<longleftrightarrow> distinct (map fst rs) \<and> list_all (run_fits np n) rs"

definition run_steps :: "'a run \<Rightarrow> frame list" where
  "run_steps r = r_steps (snd (snd r))"

definition run_state :: "'a run \<Rightarrow> state_row list" where
  "run_state r = r_state (snd (snd r))"

definition run_grids :: "'a::linordered_field numpy \<Rightarrow> 'a run \<Rightarrow> grid_row list" where
  "run_grids np r = concat (map (\<lambda>(g, l). grid_rows_of np (fst r) g (fst l)) (enumerate 0 (fst (snd r))))"

definition run_aggregates :: "nat \<Rightarrow> 'a run \<Rightarrow> aggregate_row list" where
  "run_aggregates n r = concat (map (\<lambda>(g, ch). chain_rows (fst r) g ch) (enumerate 0 (grid_chains (map int [0..<n]) (fst (snd r)))))"

lemma runs_fitD:
  assumes "runs_fit np n rs" and "r \<in> set rs"
  shows "cr \<notin> set (fst r)" and "levels_ok n (fst (snd r))" and "rec_ok (snd (snd r))"
    and "f \<in> set (run_steps r) \<Longrightarrow> frame_fits np (sizes (fst (snd r))) (fst r) f"
    and "s \<in> set (run_state r) \<Longrightarrow> row_fits np (fst r) s"
proof -
  obtain name ls rec where r: "r = (name, ls, rec)" by (cases r) auto
  have "run_fits np n r" using assms by (simp add: runs_fit_def list_all_iff)
  then show "cr \<notin> set (fst r)" "levels_ok n (fst (snd r))" "rec_ok (snd (snd r))"
    "f \<in> set (run_steps r) \<Longrightarrow> frame_fits np (sizes (fst (snd r))) (fst r) f"
    "s \<in> set (run_state r) \<Longrightarrow> row_fits np (fst r) s"
    by (auto simp: run_fits_def r rec_fits_def run_steps_def run_state_def list_all_iff)
qed

subsection \<open>Steps\<close>

definition float_of :: "'a numpy \<Rightarrow> string \<Rightarrow> 'a option" where
  "float_of np s = (case np_float np s of Inl _ \<Rightarrow> None | Inr v \<Rightarrow> Some v)"

definition step_of :: "'a numpy \<Rightarrow> frame \<Rightarrow> 'a step" where
  "step_of np f = \<lparr>st_step = int (f_step f), st_iter = int (f_iter f), st_phase = Some (f_phase f), st_grid = int (f_grid f),
     st_ngrid = int (f_ngrid f), st_detail = Some (f_detail f),
     st_resnorm = (if f_resnorm f = [] then None else float_of np (f_resnorm f))\<rparr>"

lemma readable_float: "readable np s \<Longrightarrow> np_float np s = Inr (the (float_of np s)) \<and> float_of np s \<noteq> None"
  by (auto simp: readable_def float_of_def)

lemma step_row_written:
  assumes "frame_fits np szs name f"
  shows "step_row np d (csv_fields STEP_FIELDS (frame_fields f)) = Inr (add_to (Some (f_solver f)) (step_of np f) d)"
proof -
  have "resnorm_of np (Some (f_resnorm f)) = Inr (st_resnorm (step_of np f))"
    using assms by (auto simp: frame_fits_def resnorm_of_def step_of_def float_of_def readable_def)
  then show ?thesis by (simp add: step_row_def csv_int_item step_of_def)
qed

lemma frame_no_cr: "frame_fits np szs name f \<Longrightarrow> cr \<notin> set name \<Longrightarrow> no_cr (frame_fields f)"
  by (auto simp: frame_fits_def no_cr_def frame_fields_def readable_def)

definition frame_written :: "'a::linordered_field numpy \<Rightarrow> frame \<Rightarrow> bool" where
  "frame_written np f \<longleftrightarrow> (\<exists>szs name. frame_fits np szs name f \<and> cr \<notin> set name)"

interpretation steps_table: loaded_table STEP_FIELDS frame_fields "step_row np" "frame_written np"
    "\<lambda>d f. add_to (Some (f_solver f)) (step_of np f) d" for np :: "'a::linordered_field numpy"
  by unfold_locales (auto simp: frame_written_def frame_no_cr step_row_written)

lemma steps_of_runs:
  assumes "runs_fit np n rs"
  shows "list_all (frame_written np) (concat (map run_steps rs))"
proof -
  have "frame_written np f" if "r \<in> set rs" "f \<in> set (run_steps r)" for r f
    unfolding frame_written_def using runs_fitD(1,4) [OF assms that(1)] that(2) by blast
  then show ?thesis unfolding list_all_iff set_concat set_map by blast
qed

lemma load_steps_runs:
  assumes "runs_fit np n rs" and "fs_text fs (path_join trace ''steps.csv'') = Some (steps_csv (concat (map run_steps rs)))"
    and "r \<in> set rs" and "run_steps r \<noteq> []"
  shows "\<exists>steps. load_steps np fs trace = Inr steps \<and> dict_get steps (Some (fst r)) = Some (map (step_of np) (run_steps r))"
proof -
  let ?all = "concat (map run_steps rs)"
  have "filter (\<lambda>f. f_solver f = fst r \<and> True) ?all = filter (\<lambda>_. True) (run_steps r)"
    using runs_fitD(4) [OF assms(1)] assms(1,3) by (intro filter_concat_named) (auto simp: frame_fits_def runs_fit_def)
  then have "dict_get (grouped (\<lambda>f. Some (f_solver f)) (step_of np) ?all) (Some (fst r)) = Some (map (step_of np) (run_steps r))"
    using assms(4) by (simp add: grouped_get)
  then show ?thesis using steps_table.table_loaded [OF steps_of_runs [OF assms(1)], of "[]"] assms(2)
    by (simp add: load_steps_def read_case_def read_text_def grouped_def steps_csv_def)
qed

subsection \<open>State\<close>

text \<open>The state rows of a step are one per cell of the step's grid.\<close>

lemma filter_numbered:
  "map g xs = [0..<length xs] \<Longrightarrow> concat (map (\<lambda>x. if g x = i then h x else []) xs) = (if i < length xs then h (xs ! i) else [])"
proof (induction xs rule: rev_induct)
  case (snoc x xs)
  then have g: "map g xs = [0..<length xs]" "g x = length xs" by simp_all
  have out: "concat (map (\<lambda>x. if g x = i then h x else []) xs) = (if i < length xs then h (xs ! i) else [])" using snoc.IH [OF g(1)] .
  show ?case
  proof (cases "i = length xs")
    case True
    then show ?thesis using out g(2) by simp
  next
    case False
    then show ?thesis using out g(2) by (auto simp: nth_append)
  qed
qed simp

lemma state_cells:
  assumes "rec_ok rec"
  shows "map s_cell (filter (\<lambda>s. s_step s = i) (r_state rec)) =
    (if i < length (r_steps rec) then [0..<f_ngrid (r_steps rec ! i)] else [])"
proof -
  let ?t = "\<lambda>s. (s_step s, s_grid s, s_cell s)"
  have eq: "map ?t (r_state rec) = concat (map (\<lambda>f. map (\<lambda>c. (f_step f, f_grid f, c)) [0..<f_ngrid f]) (r_steps rec))"
    and num: "map f_step (r_steps rec) = [0..<length (r_steps rec)]"
    using assms by (auto simp: rec_ok_def) (metis diff_zero length_map length_upt)
  have "map s_cell (filter (\<lambda>s. s_step s = i) (r_state rec)) = map (snd \<circ> snd) (filter (\<lambda>t. fst t = i) (map ?t (r_state rec)))"
    by (simp add: filter_map comp_def)
  also have "\<dots> = concat (map (\<lambda>f. if f_step f = i then [0..<f_ngrid f] else []) (r_steps rec))"
    unfolding eq by (simp add: filter_concat map_concat comp_def filter_map) (intro arg_cong [of _ _ concat] map_cong, auto simp: map_idI)
  also have "\<dots> = (if i < length (r_steps rec) then [0..<f_ngrid (r_steps rec ! i)] else [])" by (rule filter_numbered [OF num])
  finally show ?thesis .
qed

definition values_of :: "'a numpy \<Rightarrow> state_row \<Rightarrow> 'a \<times> 'a" where
  "values_of np s = (the (float_of np (s_x s)), the (float_of np (s_r s)))"

lemma state_row_written:
  assumes "row_fits np name s"
  shows "state_load_row np d (csv_fields STATE_FIELDS (state_fields s)) =
    Inr (put_in (Some (s_solver s), int (s_step s)) (int (s_cell s)) (values_of np s) d)"
  using assms readable_float [of np "s_x s"] readable_float [of np "s_r s"]
  by (simp add: state_load_row_def csv_int_item csv_float_item row_fits_def values_of_def)

lemma state_no_cr: "row_fits np name s \<Longrightarrow> cr \<notin> set name \<Longrightarrow> no_cr (state_fields s)"
  by (auto simp: row_fits_def no_cr_def state_fields_def readable_def)

definition state_written :: "'a::linordered_field numpy \<Rightarrow> state_row \<Rightarrow> bool" where
  "state_written np s \<longleftrightarrow> (\<exists>name. row_fits np name s \<and> cr \<notin> set name)"

interpretation state_table: loaded_table STATE_FIELDS state_fields "state_load_row np" "state_written np"
    "\<lambda>d s. put_in (Some (s_solver s), int (s_step s)) (int (s_cell s)) (values_of np s) d" for np :: "'a::linordered_field numpy"
  by unfold_locales (auto simp: state_written_def state_no_cr state_row_written)

lemma state_of_runs:
  assumes "runs_fit np n rs"
  shows "list_all (state_written np) (concat (map run_state rs))"
proof -
  have "state_written np s" if "r \<in> set rs" "s \<in> set (run_state r)" for r s
    unfolding state_written_def using runs_fitD(1,5) [OF assms that(1)] that(2) by blast
  then show ?thesis unfolding list_all_iff set_concat set_map by blast
qed

lemma state_groups:
  assumes "runs_fit np n rs" and "r \<in> set rs"
  shows "filter (\<lambda>s. (Some (s_solver s), int (s_step s)) = (Some (fst r), int i)) (concat (map run_state rs)) =
      filter (\<lambda>s. s_step s = i) (run_state r)"
    and "map s_cell (filter (\<lambda>s. s_step s = i) (run_state r)) = [0..<if i < length (run_steps r) then f_ngrid (run_steps r ! i) else 0]"
proof -
  have "filter (\<lambda>s. s_solver s = fst r \<and> s_step s = i) (concat (map run_state rs)) = filter (\<lambda>s. s_step s = i) (run_state r)"
    using runs_fitD(5) [OF assms(1)] assms by (intro filter_concat_named) (auto simp: row_fits_def runs_fit_def)
  then show "filter (\<lambda>s. (Some (s_solver s), int (s_step s)) = (Some (fst r), int i)) (concat (map run_state rs)) =
      filter (\<lambda>s. s_step s = i) (run_state r)" by simp
  show "map s_cell (filter (\<lambda>s. s_step s = i) (run_state r)) = [0..<if i < length (run_steps r) then f_ngrid (run_steps r ! i) else 0]"
    using state_cells [OF runs_fitD(3) [OF assms], of i] by (simp add: run_state_def run_steps_def)
qed

lemma state_numbered:
  assumes fit: "runs_fit np n rs" and s: "s \<in> set (concat (map run_state rs))"
  shows "\<exists>m. map (\<lambda>s. int (s_cell s)) (filter (\<lambda>t. (Some (s_solver t), int (s_step t)) = (Some (s_solver s), int (s_step s)))
    (concat (map run_state rs))) = map int [0..<m]"
proof -
  from s obtain r where r: "r \<in> set rs" "s \<in> set (run_state r)" by auto
  then have "s_solver s = fst r" using runs_fitD(5) [OF fit r(1)] by (auto simp: row_fits_def)
  then have "map (\<lambda>s. int (s_cell s)) (filter (\<lambda>t. (Some (s_solver t), int (s_step t)) = (Some (s_solver s), int (s_step s)))
      (concat (map run_state rs))) = map int (map s_cell (filter (\<lambda>t. s_step t = s_step s) (run_state r)))"
    using state_groups(1) [OF fit r(1), of "s_step s"] by simp
  then show ?thesis unfolding state_groups(2) [OF fit r(1)] by blast
qed

lemma load_state_runs:
  assumes fit: "runs_fit np n rs" and txt_is: "fs_text fs (path_join trace ''state.csv'') = Some (state_csv (concat (map run_state rs)))"
  obtains state where "load_state np fs trace = Inr state"
    and "\<And>r i. r \<in> set rs \<Longrightarrow> i < length (run_steps r) \<Longrightarrow> 0 < f_ngrid (run_steps r ! i) \<Longrightarrow>
      \<exists>xr. dict_get state (Some (fst r), int i) = Some xr \<and> length (fst xr) = f_ngrid (run_steps r ! i)
        \<and> length (snd xr) = f_ngrid (run_steps r ! i)"
proof -
  let ?all = "concat (map run_state rs)"
  let ?k = "\<lambda>s. (Some (s_solver s), int (s_step s))" and ?c = "\<lambda>s. int (s_cell s)"
  let ?pack = "\<lambda>cells. bindR (dense_array cells (length cells)) (\<lambda>ps. Inr (map fst ps, map snd ps))"
  have "foldR (state_load_row np) [] (csv_rows (state_csv ?all)) = Inr (tabled ?k ?c (values_of np) ?all)"
    unfolding state_csv_def tabled_def by (rule state_table.table_loaded [OF state_of_runs [OF fit]])
  then have load: "load_state np fs trace = map_dict ?pack (tabled ?k ?c (values_of np) ?all)"
    using txt_is by (simp add: load_state_def read_case_def read_text_def)
  from packed_groups [OF state_numbered [OF fit], where g = "\<lambda>ps. (map fst ps, map snd ps)" and vf = "values_of np"]
  obtain state where state: "map_dict ?pack (tabled ?k ?c (values_of np) ?all) = Inr state"
    and get: "\<And>k. filter (\<lambda>x. ?k x = k) ?all \<noteq> [] \<Longrightarrow>
      dict_get state k = Some (let ps = map (values_of np) (filter (\<lambda>x. ?k x = k) ?all) in (map fst ps, map snd ps))"
    unfolding Let_def by blast
  show thesis
  proof
    show "load_state np fs trace = Inr state" using load state by simp
    fix r i assume r: "r \<in> set rs" and i: "i < length (run_steps r)" "0 < f_ngrid (run_steps r ! i)"
    let ?ys = "filter (\<lambda>s. s_step s = i) (run_state r)"
    have len: "length ?ys = f_ngrid (run_steps r ! i)"
      using arg_cong [OF state_groups(2) [OF fit r, of i], of length] i by simp
    then have "?ys \<noteq> []" using i(2) by (metis length_greater_0_conv)
    with get [of "(Some (fst r), int i)"] len
    show "\<exists>xr. dict_get state (Some (fst r), int i) = Some xr \<and> length (fst xr) = f_ngrid (run_steps r ! i)
        \<and> length (snd xr) = f_ngrid (run_steps r ! i)" unfolding state_groups(1) [OF fit r] by (simp add: Let_def)
  qed
qed

subsection \<open>Aggregates\<close>

lemma show_int_no_cr [simp]: "cr \<notin> set (show_int i)"
  by (simp add: show_int_def)

lemma aggregate_row_written:
  "0 \<le> gc \<Longrightarrow> aggregate_load_row d (csv_fields AGGREGATE_FIELDS (aggregate_fields (name, grid, cell, gc))) =
     Inr (put_in (Some name, int grid) (int cell) gc d)"
  by (simp add: aggregate_load_row_def csv_int_item)

lemma chain_rows_cells: "map (\<lambda>a. int (fst (snd (snd a)))) (chain_rows name g ch) = map int [0..<length ch]"
  by (simp add: chain_rows_def comp_def)

lemma enumerate_concat:
  "concat (map (\<lambda>(g, x). if g = i then h g x else []) (enumerate k xs)) = (if k \<le> i \<and> i < k + length xs then h i (xs ! (i - k)) else [])"
proof (induction xs arbitrary: k)
  case (Cons x xs)
  show ?case
  proof (cases "k = i")
    case False
    then show ?thesis using Cons [of "Suc k"] by (auto simp: nth_Cons')
  qed (use Cons [of "Suc k"] in simp)
qed auto

lemma run_aggregates_grid:
  "filter (\<lambda>a. fst (snd a) = i) (run_aggregates n r) =
     (let chs = grid_chains (map int [0..<n]) (fst (snd r)) in if i < length chs then chain_rows (fst r) i (chs ! i) else [])"
proof -
  have one: "filter (\<lambda>a. fst (snd a) = i) (chain_rows name g ch) = (if g = i then chain_rows name g ch else [])" for name g ch
    by (auto simp: chain_rows_def filter_empty_conv intro: filter_True)
  have "filter (\<lambda>a. fst (snd a) = i) (run_aggregates n r) =
      concat (map (\<lambda>(g, ch). if g = i then chain_rows (fst r) g ch else []) (enumerate 0 (grid_chains (map int [0..<n]) (fst (snd r)))))"
    unfolding run_aggregates_def filter_concat map_map
    by (intro arg_cong [of _ _ concat] map_cong) (auto simp: one)
  then show ?thesis unfolding enumerate_concat by (simp add: Let_def)
qed

interpretation aggregates_table: loaded_table AGGREGATE_FIELDS aggregate_fields aggregate_load_row
    "\<lambda>a. no_cr (aggregate_fields a) \<and> 0 \<le> snd (snd (snd a))"
    "\<lambda>d a. put_in (Some (fst a), int (fst (snd a))) (int (fst (snd (snd a)))) (snd (snd (snd a))) d"
  by unfold_locales (auto simp: aggregate_row_written)

lemma run_chains:
  assumes "levels_ok n ls"
  shows "length (grid_chains (map int [0..<n]) ls) = length ls"
    and "i < length ls \<Longrightarrow> length (grid_chains (map int [0..<n]) ls ! i) = n
      \<and> set (grid_chains (map int [0..<n]) ls ! i) \<subseteq> {0..<int (sizes ls ! i)}"
proof -
  have "set (map int [0..<n]) \<subseteq> {0..<int n}" by auto
  from chains_fit [OF assms this]
  show "length (grid_chains (map int [0..<n]) ls) = length ls"
    "i < length ls \<Longrightarrow> length (grid_chains (map int [0..<n]) ls ! i) = n
      \<and> set (grid_chains (map int [0..<n]) ls ! i) \<subseteq> {0..<int (sizes ls ! i)}" by auto
qed

lemma run_aggregates_row:
  assumes fit: "runs_fit np n rs" and r: "r \<in> set rs" and a: "a \<in> set (run_aggregates n r)"
  shows "fst a = fst r" and "0 \<le> snd (snd (snd a))"
proof -
  note ok = runs_fitD(2) [OF fit r]
  from a obtain g ch c where g: "(g, ch) \<in> set (enumerate 0 (grid_chains (map int [0..<n]) (fst (snd r))))"
    and c: "c < length ch" "a = (fst r, g, c, ch ! c)" by (auto simp: run_aggregates_def chain_rows_def)
  then have "g < length (fst (snd r))" "ch = grid_chains (map int [0..<n]) (fst (snd r)) ! g"
    using run_chains(1) [OF ok] by (auto simp: in_set_enumerate_eq)
  then have "0 \<le> ch ! c" using run_chains(2) [OF ok] nth_mem [OF c(1)] by fastforce
  with c show "fst a = fst r" "0 \<le> snd (snd (snd a))" by auto
qed

lemma aggregate_groups:
  assumes fit: "runs_fit np n rs" and r: "r \<in> set rs"
  shows "filter (\<lambda>a. (Some (fst a), int (fst (snd a))) = (Some (fst r), int i)) (concat (map (run_aggregates n) rs)) =
    (if i < length (fst (snd r)) then chain_rows (fst r) i (grid_chains (map int [0..<n]) (fst (snd r)) ! i) else [])"
proof -
  have "filter (\<lambda>a. fst a = fst r \<and> fst (snd a) = i) (concat (map (run_aggregates n) rs)) =
      filter (\<lambda>a. fst (snd a) = i) (run_aggregates n r)"
    using run_aggregates_row(1) [OF fit] fit r by (intro filter_concat_named) (auto simp: runs_fit_def)
  also have "\<dots> = (if i < length (fst (snd r)) then chain_rows (fst r) i (grid_chains (map int [0..<n]) (fst (snd r)) ! i) else [])"
    using run_aggregates_grid [of i n r] run_chains(1) [OF runs_fitD(2) [OF fit r]] by (simp add: Let_def)
  finally show ?thesis by simp
qed

lemma aggregates_numbered:
  assumes fit: "runs_fit np n rs" and a: "a \<in> set (concat (map (run_aggregates n) rs))"
  shows "\<exists>m. map (\<lambda>a. int (fst (snd (snd a)))) (filter (\<lambda>b. (Some (fst b), int (fst (snd b))) = (Some (fst a), int (fst (snd a))))
    (concat (map (run_aggregates n) rs))) = map int [0..<m]"
proof -
  from a obtain r where r: "r \<in> set rs" "a \<in> set (run_aggregates n r)" by auto
  show ?thesis
  proof (cases "fst (snd a) < length (fst (snd r))")
    case True
    then show ?thesis unfolding run_aggregates_row(1) [OF fit r] aggregate_groups [OF fit r(1)] using chain_rows_cells by simp blast
  next
    case False
    then show ?thesis unfolding run_aggregates_row(1) [OF fit r] aggregate_groups [OF fit r(1)] by (intro exI [of _ 0]) simp
  qed
qed

lemma load_aggregates_runs:
  assumes fit: "runs_fit np n rs"
    and txt_is: "fs_text fs (path_join trace ''aggregates.csv'') = Some (aggregates_csv (concat (map (run_aggregates n) rs)))"
  obtains aggs where "load_aggregates fs trace = Inr aggs"
    and "\<And>r i. r \<in> set rs \<Longrightarrow> i < length (fst (snd r)) \<Longrightarrow> 0 < n \<Longrightarrow>
      \<exists>ch. dict_get aggs (Some (fst r), int i) = Some ch \<and> length ch = n \<and> set ch \<subseteq> {0..<int (sizes (fst (snd r)) ! i)}"
proof -
  let ?all = "concat (map (run_aggregates n) rs)"
  let ?k = "\<lambda>a. (Some (fst a), int (fst (snd a)))" and ?c = "\<lambda>a. int (fst (snd (snd a)))" and ?v = "\<lambda>a. snd (snd (snd a))"
  let ?d = "tabled ?k ?c ?v ?all"
  have "list_all (\<lambda>a. no_cr (aggregate_fields a) \<and> 0 \<le> snd (snd (snd a))) ?all"
    using run_aggregates_row [OF fit] runs_fitD(1) [OF fit] by (fastforce simp: list_all_iff aggregate_fields_def no_cr_def)
  from aggregates_table.table_loaded [OF this, of "[]"]
  have load: "load_aggregates fs trace = map_dict (\<lambda>v. dense_array v (length v)) ?d"
    using txt_is by (simp add: load_aggregates_def read_case_def read_text_def aggregates_csv_def tabled_def)
  from packed_groups [OF aggregates_numbered [OF fit], where g = "\<lambda>ps. ps" and vf = ?v]
  obtain aggs where aggs: "map_dict (\<lambda>v. dense_array v (length v)) ?d = Inr aggs"
    and get: "\<And>k. filter (\<lambda>a. ?k a = k) ?all \<noteq> [] \<Longrightarrow> dict_get aggs k = Some (map ?v (filter (\<lambda>a. ?k a = k) ?all))"
    unfolding bindR_Inr by blast
  show thesis
  proof
    show "load_aggregates fs trace = Inr aggs" using load aggs by simp
    fix r i assume r: "r \<in> set rs" and i: "i < length (fst (snd r))" and n: "0 < n"
    let ?ch = "grid_chains (map int [0..<n]) (fst (snd r)) ! i"
    note ch = run_chains(2) [OF runs_fitD(2) [OF fit r] i]
    have "chain_rows (fst r) i ?ch \<noteq> []" using ch n by (auto simp: chain_rows_def)
    moreover have "map ?v (chain_rows (fst r) i ?ch) = ?ch" by (auto simp: chain_rows_def comp_def intro: nth_equalityI)
    ultimately have "dict_get aggs (Some (fst r), int i) = Some ?ch"
      using get [of "(Some (fst r), int i)"] i unfolding aggregate_groups [OF fit r] by simp
    with ch show "\<exists>ch. dict_get aggs (Some (fst r), int i) = Some ch \<and> length ch = n \<and> set ch \<subseteq> {0..<int (sizes (fst (snd r)) ! i)}" by blast
  qed
qed

subsection \<open>Operators and histories\<close>

lemma mat_set_square:
  "mat_ok k k A \<Longrightarrow> 0 \<le> r \<Longrightarrow> r < int k \<Longrightarrow> 0 \<le> c \<Longrightarrow> c < int k \<Longrightarrow> \<exists>B. mat_set A r c v = Inr B \<and> mat_ok k k B"
  by (auto simp: mat_set_def mat_ok_def list_all_length nth_list_update)

lemma fill_grid_total:
  assumes "es \<noteq> []" and "list_all (\<lambda>(r, c, v). 0 \<le> r \<and> 0 \<le> c) es"
  shows "\<exists>A. fill_grid es = Inr A \<and> concat A \<noteq> []"
proof -
  let ?S = "set (map (\<lambda>(r, c, v). max r c) es)"
  let ?k = "nat (Max ?S + 1)"
  have le: "max r c \<le> Max ?S" if "(r, c, v) \<in> set es" for r c v using that by (intro Max_ge) force+
  obtain r0 c0 v0 where e0: "(r0, c0, v0) \<in> set es" using assms(1) by (cases es) auto
  have pos: "0 \<le> Max ?S" using le [OF e0] assms(2) e0 by (force simp: list_all_iff)
  have bound: "0 \<le> r \<and> r < int ?k \<and> 0 \<le> c \<and> c < int ?k" if "(r, c, v) \<in> set es" for r c v
    using le [OF that] that assms(2) by (force simp: list_all_iff)
  have step: "\<exists>B. foldR (\<lambda>A (r, c, v). mat_set A r c v) A xs = Inr B \<and> mat_ok ?k ?k B"
    if "set xs \<subseteq> set es" "mat_ok ?k ?k A" for xs A
    using that
  proof (induction xs arbitrary: A)
    case (Cons e xs)
    obtain r c v where e: "e = (r, c, v)" by (cases e) auto
    with Cons.prems bound [of r c v] obtain B where "mat_set A r c v = Inr B" "mat_ok ?k ?k B"
      using mat_set_square [of ?k A r c v] by auto
    with Cons.IH [of B] Cons.prems e show ?case by auto
  qed auto
  have "mat_ok ?k ?k (replicate ?k (zeros ?k) :: 'a mat)" by (simp add: mat_ok_def list_all_iff)
  from step [OF subset_refl this] obtain B where B: "fill_grid es = Inr B" "mat_ok ?k ?k B"
    using pos by (auto simp: fill_grid_def Let_def)
  have "0 < ?k" using pos by simp
  with B(2) have "B \<noteq> [] \<and> hd B \<noteq> []" by (cases B) (auto simp: mat_ok_def)
  with B(1) show ?thesis by (cases B) auto
qed

lemma grid_row_written:
  "readable np (g_value g) \<Longrightarrow> grid_load_row np d (csv_fields GRID_FIELDS (grid_fields g)) =
     Inr (add_to (Some (g_solver g), int (g_grid g)) (int (g_row g), int (g_col g), the (float_of np (g_value g))) d)"
  using readable_float [of np "g_value g"] by (simp add: grid_load_row_def csv_int_item csv_float_item)

interpretation grids_table: loaded_table GRID_FIELDS grid_fields "grid_load_row np"
    "\<lambda>g. readable np (g_value g) \<and> no_cr (grid_fields g)"
    "\<lambda>d g. add_to (Some (g_solver g), int (g_grid g)) (int (g_row g), int (g_col g), the (float_of np (g_value g))) d"
    for np :: "'a::linordered_field numpy"
  by unfold_locales (simp_all add: grid_row_written)

lemma load_grids_runs:
  assumes fit: "runs_fit np n rs" and nr: "numbers_read np"
    and txt_is: "fs_text fs (path_join trace ''grids.csv'') = Some (grids_csv (concat (map (run_grids np) rs)))"
  shows "\<exists>grids. load_grids np fs trace = Inr grids \<and> (\<forall>k A. dict_get grids k = Some A \<longrightarrow> concat A \<noteq> [])"
proof -
  let ?all = "concat (map (run_grids np) rs)"
  let ?k = "\<lambda>g. (Some (g_solver g), int (g_grid g))" and ?v = "\<lambda>g. (int (g_row g), int (g_col g), the (float_of np (g_value g)))"
  have row: "readable np (g_value g) \<and> no_cr (grid_fields g)" if "g \<in> set ?all" for g
  proof -
    from that obtain r where r: "r \<in> set rs" "g \<in> set (run_grids np r)" by auto
    from r(2) obtain v where "g_value g = np_e12 np v" "g_solver g = fst r"
      by (auto simp: run_grids_def grid_rows_of_def split: if_splits)
    then show ?thesis using nr runs_fitD(1) [OF fit r(1)] by (auto simp: numbers_read_def readable_def no_cr_def grid_fields_def)
  qed
  have "foldR (grid_load_row np) [] (csv_rows (grids_csv ?all)) = Inr (grouped ?k ?v ?all)"
    unfolding grids_csv_def grouped_def by (rule grids_table.table_loaded) (use row in \<open>unfold list_all_iff, blast\<close>)
  then have load: "load_grids np fs trace = map_dict fill_grid (grouped ?k ?v ?all)"
    using txt_is by (simp add: load_grids_def read_case_def read_text_def)
  have total: "\<exists>A. fill_grid es = Inr A \<and> concat A \<noteq> []" if "dict_get (grouped ?k ?v ?all) k = Some es" for k es
    using that unfolding grouped_get Let_def
    by (intro fill_grid_total) (auto simp: list_all_iff split: if_splits)
  have "\<exists>A. fill_grid es = Inr A" if "(k, es) \<in> set (grouped ?k ?v ?all)" for k es
    using total [OF dict_mem_get [OF grouped_ok that]] by blast
  with map_dict_total [of "grouped ?k ?v ?all" fill_grid] obtain grids where grids: "map_dict fill_grid (grouped ?k ?v ?all) = Inr grids" by blast
  have "concat A \<noteq> []" if A: "dict_get grids k = Some A" for k A
  proof (cases "dict_get (grouped ?k ?v ?all) k")
    case None
    then have "dict_get grids k = None" by (rule map_dict_None [OF grids])
    with A show ?thesis by simp
  next
    case (Some es)
    with map_dict_get [OF grids Some] total [OF Some] A show ?thesis by auto
  qed
  then show ?thesis using load grids by auto
qed

lemma history_row_written:
  assumes "frame_fits np szs name f"
  shows "\<exists>d'. history_row np d (csv_fields STEP_FIELDS (frame_fields f)) = Inr d'"
  using assms readable_float [of np "f_resnorm f"]
  by (auto simp: history_row_def csv_int_item csv_float_item frame_fits_def truthy_opt_def)

lemma build_histories_runs:
  assumes fit: "runs_fit np n rs" and "\<not> fs_exists fs (path_join trace ''compare.csv'')"
    and txt_is: "fs_text fs (path_join trace ''steps.csv'') = Some (steps_csv (concat (map run_steps rs)))"
  shows "\<exists>hs. build_histories np fs trace = Inr hs"
proof -
  note written = steps_of_runs [OF fit]
  have "\<exists>h. foldR (history_row np) [] (csv_rows (steps_csv (concat (map run_steps rs)))) = Inr h"
    unfolding steps_csv_def steps_table.table_rows [OF written] foldR_map
  proof (rule foldR_total)
    fix d f assume "f \<in> set (concat (map run_steps rs))"
    then have "frame_written np f" using written unfolding list_all_iff by blast
    then show "\<exists>d'. history_row np d (csv_fields STEP_FIELDS (frame_fields f)) = Inr d'"
      unfolding frame_written_def using history_row_written by blast
  qed
  then show ?thesis using assms(2) txt_is by (auto simp: build_histories_def read_case_def read_text_def)
qed

subsection \<open>Panels\<close>

lemma load_mesh_sizes: "load_mesh np pl fs trace = Inr ms \<Longrightarrow> length (ms_col ms) = ms_n ms"
  by (auto simp: load_mesh_def read_case_def bindR_Inr_iff Let_def dense_array_def dest: mapR_length)

lemma cell_lookup_get:
  "dict_get (cell_lookup ms) p = Some c \<Longrightarrow> c < length (ms_col ms) \<and> place ms c = p"
proof -
  have "dict_get (foldl (\<lambda>d c. dict_set (place ms c) c d) [] cs) p = Some c \<Longrightarrow> c \<in> set cs \<and> place ms c = p" for cs
    by (induction cs rule: rev_induct) (auto split: if_splits)
  then show "dict_get (cell_lookup ms) p = Some c \<Longrightarrow> ?thesis" unfolding cell_lookup_def by fastforce
qed

lemma bindR_total: "\<exists>x. m = Inr x \<Longrightarrow> (\<And>x. \<exists>y. f x = Inr y) \<Longrightarrow> \<exists>y. bindR m f = Inr y"
  by auto

lemma edge_to_total:
  "length agg = length (ms_col ms) \<Longrightarrow> cell < length (ms_col ms) \<Longrightarrow> \<exists>d. edge_to agg ms cell there seg = Inr d"
  using cell_lookup_get [of ms there] by (auto simp: edge_to_def split: option.splits)

lemma draw_mesh_panel_total:
  assumes "length (ms_col ms) = n" and "length values = n" and "length agg = n" and "0 < n"
  shows "\<exists>d. draw_mesh_panel pl ms values agg title nrm = Inr d"
proof -
  let ?scale = "Max (set (map abs values))"
  have v: "abs_max values = Inr ?scale" using assms by (auto simp: abs_max_def)
  have "\<exists>ds. mapR (draw_cell pl ms values nrm ?scale) [0..<n] = Inr ds"
    by (rule mapR_total) (use assms in \<open>auto simp: draw_cell_def Let_def\<close>)
  then obtain sq where sq: "mapR (draw_cell pl ms values nrm ?scale) [0..<n] = Inr sq" by blast
  have "\<exists>ds. mapR (draw_edges agg ms) [0..<n] = Inr (ds :: 'a draw list list)"
  proof (rule mapR_total)
    fix cell assume "cell \<in> set [0..<n]"
    then have e: "\<exists>d. edge_to agg ms cell there seg = Inr d" for there and seg :: "'a draw"
      using assms by (intro edge_to_total) auto
    show "\<exists>d. draw_edges agg ms cell = Inr (d :: 'a draw list)" unfolding draw_edges_def Let_def
      by (intro bindR_total e) simp
  qed
  then obtain ed where ed: "mapR (draw_edges agg ms) [0..<n] = Inr (ed :: 'a draw list list)" by blast
  show ?thesis unfolding draw_mesh_panel_def Let_def assms(1) v bindR_simps sq ed by blast
qed

lemma draw_residual_panel_total: "0 \<le> iteration \<Longrightarrow> \<exists>d. draw_residual_panel hs solver iteration = Inr d"
  by (auto simp: draw_residual_panel_def split: option.splits)

lemma draw_matrix_panel_total: "concat A \<noteq> [] \<Longrightarrow> \<exists>d. draw_matrix_panel pl A title = Inr d"
  by (auto simp: draw_matrix_panel_def abs_max_def Let_def)

lemma arr_get_map: "set ch \<subseteq> {0..<int (length xs)} \<Longrightarrow> mapR (arr_get xs) ch = Inr (map (\<lambda>c. xs ! nat c) ch)"
  by (induction ch) auto

subsection \<open>The film\<close>

text \<open>What the film of a solver needs of the loaded trace, frame by frame.\<close>

definition playable :: "nat \<Rightarrow> 'a loaded_trace \<Rightarrow> string \<Rightarrow> 'a step \<Rightarrow> bool" where
  "playable n ld name f \<longleftrightarrow> 0 \<le> st_iter f \<and>
     (\<exists>xr ch. dict_get (ld_state ld) (Some name, st_step f) = Some xr \<and> fst xr \<noteq> [] \<and> snd xr \<noteq> []
       \<and> dict_get (ld_aggregates ld) (Some name, st_grid f) = Some ch \<and> length ch = n
       \<and> set ch \<subseteq> {0..<int (length (fst xr))} \<and> set ch \<subseteq> {0..<int (length (snd xr))})"

lemma playable_painted:
  assumes "playable n ld name f"
  shows "\<exists>vs ch. painted ld name field f = Inr (vs, ch) \<and> length vs = n \<and> length ch = n"
proof -
  from assms obtain xr ch where *: "dict_get (ld_state ld) (Some name, st_step f) = Some xr"
    "dict_get (ld_aggregates ld) (Some name, st_grid f) = Some ch" "length ch = n" "set ch \<subseteq> {0..<int (length (of_field field xr))}"
    unfolding playable_def of_field_def by (cases field) auto
  then show ?thesis using arr_get_map [OF *(4)] by (simp add: painted_def at_key_def)
qed

lemma grid_norms_total:
  assumes "\<And>f. f \<in> set frames \<Longrightarrow> playable n ld name f"
  shows "\<exists>norms. grid_norms (ld_state ld) name field frames = Inr norms \<and> (\<forall>f \<in> set frames. dict_get norms (st_grid f) \<noteq> None)"
proof -
  have step: "\<exists>d'. norm_frame (ld_state ld) name field d f = Inr d' \<and> set (keys d') = insert (st_grid f) (set (keys d))"
    if "f \<in> set frames" for d f
  proof -
    from assms [OF that] obtain xr where "dict_get (ld_state ld) (Some name, st_step f) = Some xr" "of_field field xr \<noteq> []"
      unfolding playable_def of_field_def by (cases field) auto
    then show ?thesis by (auto simp: norm_frame_def at_key_def abs_max_def fst_dict_set)
  qed
  have "\<exists>e. foldR (norm_frame (ld_state ld) name field) d fs = Inr e \<and> set (keys e) = set (keys d) \<union> st_grid ` set fs"
    if "set fs \<subseteq> set frames" for fs d
    using that
  proof (induction fs arbitrary: d)
    case (Cons f fs)
    from step [of f d] Cons.prems obtain d' where d': "norm_frame (ld_state ld) name field d f = Inr d'"
      "set (keys d') = insert (st_grid f) (set (keys d))" by auto
    with Cons.IH [of d'] Cons.prems show ?case by auto
  qed simp
  from this [OF subset_refl, of "[]"] obtain e where e: "foldR (norm_frame (ld_state ld) name field) [] frames = Inr e"
    "set (keys e) = st_grid ` set frames" by auto
  have "\<exists>w. diverging_norm [- v, v] = Inr w" for v :: 'a by (simp add: diverging_norm_def abs_max_def)
  with map_dict_total [of e "\<lambda>v. diverging_norm [- v, v]"] obtain norms where
    norms: "map_dict (\<lambda>v. diverging_norm [- v, v]) e = Inr norms" by blast
  have "dict_get norms (st_grid f) \<noteq> None" if "f \<in> set frames" for f
  proof -
    have "st_grid f \<in> fst ` set e" using e(2) that by auto
    then obtain v where "dict_get e (st_grid f) = Some v" by (metis dict_get_def map_of_eq_None_iff not_None_eq)
    with map_dict_get [OF norms this] show ?thesis by auto
  qed
  then show ?thesis using e(1) norms by (simp add: grid_norms_def)
qed

lemma film_total:
  assumes "\<And>i. i < k \<Longrightarrow> \<exists>p. draw i = Inr p" and "fps \<noteq> 0"
  shows "\<exists>m. film pl out_path fps use_gif k draw = Inr m \<and> length (mv_pictures m) = k"
proof -
  obtain ps where ps: "mapR draw [0..<k] = Inr ps" using mapR_total [of "[0..<k]" draw] assms(1) by auto
  then show ?thesis using assms(2) mapR_length [OF ps] by (simp add: film_def)
qed

lemma update_total:
  assumes play: "\<And>f. f \<in> set frames \<Longrightarrow> playable n ld name f" and n: "0 < n" and ms: "length (ms_col (ld_mesh ld)) = n"
    and grids: "\<And>k A. dict_get (ld_grids ld) k = Some A \<Longrightarrow> concat A \<noteq> []"
    and norms: "\<forall>f \<in> set frames. dict_get norms (st_grid f) \<noteq> None" and i: "i < length frames"
  shows "\<exists>p. update pl ld name field norms n_levels frames i = Inr p"
proof -
  let ?f = "frames ! i"
  have f: "?f \<in> set frames" using i by simp
  from playable_painted [OF play [OF f]] obtain vs ch where p: "painted ld name field ?f = Inr (vs, ch)" "length vs = n" "length ch = n"
    by blast
  obtain c where c: "dict_get norms (st_grid ?f) = Some c" using norms f by auto
  obtain d1 where d1: "draw_mesh_panel pl (ld_mesh ld) vs ch
      (''mesh, grid g'' @ show_int (st_grid ?f) @ ''  ('' @ show_int (st_ngrid ?f) @ '' cells)   field = '' @ field_name field) c = Inr d1"
    using draw_mesh_panel_total [OF ms p(2,3) n] by blast
  have "0 \<le> st_iter ?f" using play [OF f] by (simp add: playable_def)
  from draw_residual_panel_total [OF this] obtain d2 where d2: "draw_residual_panel (ld_histories ld) name (st_iter ?f) = Inr d2" by blast
  obtain d3 where d3: "(case dict_get (ld_grids ld) (Some name, st_grid ?f) of None \<Rightarrow> Inr None
      | Some A \<Rightarrow> bindR (draw_matrix_panel pl A (operator_title (st_grid ?f))) (\<lambda>d. Inr (Some d))) = Inr d3"
  proof (cases "dict_get (ld_grids ld) (Some name, st_grid ?f)")
    case (Some A)
    obtain d where "draw_matrix_panel pl A (operator_title (st_grid ?f)) = Inr d"
      using draw_matrix_panel_total [OF grids [OF Some]] by blast
    with Some that show ?thesis by simp
  qed (use that in simp)
  show ?thesis unfolding update_def Let_def nth_or_simps(1) [OF i] bindR_simps p(1) case_prod_conv c option.simps d1 d2 d3
    by blast
qed

text \<open>A run of one of the solvers, the tables of several runs as the command collects them, and a directory they were written to.\<close>

definition ran :: "'a::linordered_field numpy \<Rightarrow> 'a mat \<Rightarrow> 'a vec \<Rightarrow> nat \<Rightarrow> 'a run \<Rightarrow> bool" where
  "ran np A b iters r \<longleftrightarrow> (case r of (name, ls, rec) \<Rightarrow> cr \<notin> set name \<and> levels_ok (length A) ls \<and>
     (\<exists>runner ref h. anchor_sized (length A) ref
       \<and> run_config np A b iters ref (name, ls, runner) (new_recorder name (length A)) = Inr (h, rec)))"

definition tables_of :: "'a::linordered_field numpy \<Rightarrow> nat \<Rightarrow> 'a run list \<Rightarrow> 'a tables \<Rightarrow> bool" where
  "tables_of np n rs tb \<longleftrightarrow>
     tb_steps tb = concat (map run_steps rs) \<and> tb_state tb = concat (map run_state rs) \<and> tb_grids tb = concat (map (run_grids np) rs) \<and>
     (\<exists>aggs. mapR (\<lambda>r. aggregate_rows_of (fst r) 0 (map int [0..<n]) (fst (snd r))) rs = Inr aggs \<and> tb_aggregates tb = concat aggs)"

definition holds_files :: "fsys \<Rightarrow> (string \<times> string) list \<Rightarrow> bool" where
  "holds_files fs files \<longleftrightarrow> list_all (\<lambda>(p, t). fs_text fs p = Some t) files"

lemma ran_fits:
  assumes "numpy_lib np" and "numbers_read np" and "mat_ok n n A" and "0 < n" and "length b = n"
    and "list_all (ran np A b iters) rs" and "distinct (map fst rs)"
  shows "runs_fit np n rs"
proof -
  have "length A = n" using assms(3) by (simp add: mat_ok_def)
  then have "run_fits np n r" if "ran np A b iters r" for r
    using that numpy_lib.run_config_fits [OF assms(1-5)] unfolding ran_def run_fits_def by (cases r) blast
  then show ?thesis using assms(6,7) by (auto simp: runs_fit_def list_all_iff)
qed

lemma aggregates_of_runs:
  assumes "runs_fit np n rs" and "mapR (\<lambda>r. aggregate_rows_of (fst r) 0 (map int [0..<n]) (fst (snd r))) rs = Inr aggs"
  shows "aggs = map (run_aggregates n) rs"
proof -
  have "set (map int [0..<n]) \<subseteq> {0..<int n}" by auto
  then have one: "aggregate_rows_of (fst r) 0 (map int [0..<n]) (fst (snd r)) = Inr (run_aggregates n r)" if "r \<in> set rs" for r
    using aggregate_rows_chains [OF runs_fitD(2) [OF assms(1) that]] by (simp add: run_aggregates_def)
  then have "mapR (\<lambda>r. aggregate_rows_of (fst r) 0 (map int [0..<n]) (fst (snd r))) rs = Inr (map (run_aggregates n) rs)"
    unfolding mapR_Inr_iff by (simp add: list_all2_conv_all_nth)
  with assms(2) show ?thesis by simp
qed

lemma runs_playable:
  assumes fit: "runs_fit np n rs" and n: "0 < n" and r: "r \<in> set rs" and f: "f \<in> set (run_steps r)"
    and state: "\<And>i. i < length (run_steps r) \<Longrightarrow> 0 < f_ngrid (run_steps r ! i) \<Longrightarrow>
      \<exists>xr. dict_get (ld_state ld) (Some (fst r), int i) = Some xr \<and> length (fst xr) = f_ngrid (run_steps r ! i)
        \<and> length (snd xr) = f_ngrid (run_steps r ! i)"
    and aggs: "\<And>i. i < length (fst (snd r)) \<Longrightarrow>
      \<exists>ch. dict_get (ld_aggregates ld) (Some (fst r), int i) = Some ch \<and> length ch = n \<and> set ch \<subseteq> {0..<int (sizes (fst (snd r)) ! i)}"
  shows "playable n ld (fst r) (step_of np f)"
proof -
  from f obtain i where i: "i < length (run_steps r)" "f = run_steps r ! i" by (auto simp: in_set_conv_nth)
  have "map f_step (run_steps r) = [0..<r_step (snd (snd r))]" using runs_fitD(3) [OF fit r] by (simp add: rec_ok_def run_steps_def)
  then have step: "f_step f = i" using i by (metis diff_zero length_map length_upt nth_map nth_upt add_0)
  have ff: "f_grid f < length (fst (snd r))" "f_ngrid f = sizes (fst (snd r)) ! f_grid f"
    using runs_fitD(4) [OF fit r f] by (auto simp: frame_fits_def)
  have "0 < f_ngrid f" using levels_ok_at [OF runs_fitD(2) [OF fit r] n ff(1)] ff(2) by (simp add: level_at_def)
  with state [OF i(1)] i(2) obtain xr where xr: "dict_get (ld_state ld) (Some (fst r), int i) = Some xr"
    "length (fst xr) = f_ngrid f" "length (snd xr) = f_ngrid f" by auto
  from aggs [OF ff(1)] obtain ch where ch: "dict_get (ld_aggregates ld) (Some (fst r), int (f_grid f)) = Some ch" "length ch = n"
    "set ch \<subseteq> {0..<int (f_ngrid f)}" using ff(2) by auto
  have "fst xr \<noteq> []" "snd xr \<noteq> []" using xr \<open>0 < f_ngrid f\<close> by auto
  then show ?thesis using xr ch step unfolding playable_def by (auto simp: step_of_def)
qed

subsection \<open>What the panels show\<close>

lemma cell_lookup_iff:
  assumes "distinct (map (place ms) [0..<length (ms_col ms)])"
  shows "dict_get (cell_lookup ms) p = Some d \<longleftrightarrow> d < length (ms_col ms) \<and> place ms d = p"
proof
  assume d: "d < length (ms_col ms) \<and> place ms d = p"
  have "dict_get (foldl (\<lambda>d c. dict_set (place ms c) c d) [] [0..<k]) p = (if d < k then Some d else None)" if "k \<le> length (ms_col ms)" for k
    using that
  proof (induction k)
    case (Suc k)
    have "place ms k = p \<longleftrightarrow> k = d"
      using nth_eq_iff_index_eq [OF assms, of k d] Suc.prems d by auto
    with Suc show ?case by auto
  qed simp
  then show "dict_get (cell_lookup ms) p = Some d" using d by (simp add: cell_lookup_def)
qed (use cell_lookup_get in blast)

lemma edge_to_iff:
  assumes "distinct (map (place ms) [0..<length (ms_col ms)])" and "length agg = length (ms_col ms)" and "c < length (ms_col ms)"
  shows "edge_to agg ms c p seg =
    Inr (if \<exists>d < length (ms_col ms). place ms d = p \<and> agg ! c \<noteq> agg ! d then [seg] else [])"
proof (cases "dict_get (cell_lookup ms) p")
  case None
  then have "\<not> (\<exists>d < length (ms_col ms). place ms d = p)" using cell_lookup_iff [OF assms(1), of p] by auto
  then show ?thesis using None by (auto simp: edge_to_def)
next
  case (Some d)
  then have d: "d < length (ms_col ms)" "place ms d = p" using cell_lookup_iff [OF assms(1), of p] by auto
  have "(\<exists>d' < length (ms_col ms). place ms d' = p \<and> agg ! c \<noteq> agg ! d') \<longleftrightarrow> agg ! c \<noteq> agg ! d"
  proof -
    have "d' = d" if "d' < length (ms_col ms)" "place ms d' = p" for d'
      using cell_lookup_iff [OF assms(1), of p d'] that Some by simp
    with d show ?thesis by blast
  qed
  then show ?thesis using Some d(1) assms(2,3) by (simp add: edge_to_def)
qed

text \<open>The marker of the V-cycle panel is a corner of the drawn V.\<close>

lemma cycle_marker_on_path: "0 \<le> grid \<Longrightarrow> grid < n_levels \<Longrightarrow> cycle_active n_levels grid phase \<in> set (cycle_path n_levels)"
  by (auto simp: cycle_active_def cycle_path_def)

text \<open>A solver that the loaded steps name has a step.\<close>

lemma load_steps_nonempty: "load_steps np fs trace = Inr steps \<Longrightarrow> dict_get steps k = Some frames \<Longrightarrow> frames \<noteq> []"
proof -
  assume l: "load_steps np fs trace = Inr steps" and k: "dict_get steps k = Some frames"
  from l obtain t where "foldR (step_row np) [] (csv_rows t) = Inr steps" by (auto simp: load_steps_def read_case_def bindR_Inr_iff)
  then have "\<forall>k. dict_get steps k \<noteq> Some []"
    by (rule foldR_invariant) (auto simp: step_row_def bindR_Inr_iff add_to_def split: if_splits)
  with k show ?thesis by blast
qed

subsection \<open>Properties\<close>


text \<open>A numpy whose numbers are printed as \<open>0\<close>, and a directory with a mesh of one cell and given files.\<close>

definition text_np :: "rat numpy" where
  "text_np = ref_np\<lparr>np_float := (\<lambda>_. Inr 0), np_e12 := (\<lambda>_. ''0'')\<rparr>"

interpretation printed: numpy_lib text_np
  by unfold_locales (auto simp: text_np_def ref_np_def mat_cols_ok split: if_splits)

lemma text_np_reads: "numbers_read text_np"
  by (simp add: numbers_read_def text_np_def ref_np_def)

definition plain_plot :: "rat plot" where
  "plain_plot = \<lparr>pl_round9 = (\<lambda>v. v), pl_log10 = (\<lambda>_. 0), pl_e3 = (\<lambda>_. []), pl_f0 = (\<lambda>_. []), pl_f1 = (\<lambda>_. []), pl_f2 = (\<lambda>_. []),
     pl_g3 = (\<lambda>_. [])\<rparr>"

definition files_only :: "(string \<times> string) list \<Rightarrow> fsys" where
  "files_only files = \<lparr>fs_isfile = (\<lambda>p. p \<in> set (map fst files)), fs_isdir = (\<lambda>_. False), fs_text = map_of files,
     fs_walk = (\<lambda>_. []), fs_realpath = (\<lambda>p. p), fs_relpath = (\<lambda>p. p), fs_size = (\<lambda>_. 0), fs_mtime = (\<lambda>_. 0)\<rparr>"

definition one_mesh :: string where
  "one_mesh = csv_write [[''cell'', ''x'', ''y''], [''0'', ''0'', ''0'']]"

lemma one_mesh_loads:
  "fs_text fs (path_join trace ''mesh.csv'') = Some one_mesh \<Longrightarrow>
     load_mesh text_np plain_plot fs trace = Inr \<lparr>ms_n = 1, ms_col = [0], ms_row = [0], ms_ncol = 1, ms_nrow = 1\<rparr>"
proof -
  have rows: "csv_rows one_mesh = [csv_fields [''cell'', ''x'', ''y''] [''0'', ''0'', ''0'']]"
    unfolding one_mesh_def by (subst csv_rows_write) (simp_all add: no_cr_def)
  have cell: "py_int ''0'' = Inr 0" by code_simp
  have row: "cell_row text_np [] (csv_fields [''cell'', ''x'', ''y''] [''0'', ''0'', ''0'']) = Inr [(0, 0, 0)]"
    by (simp add: cell_row_def csv_float_def csv_int_def csv_text_def csv_item_def csv_fields_def upt_rec dict_get_def cell)
      (simp add: text_np_def cell)
  assume "fs_text fs (path_join trace ''mesh.csv'') = Some one_mesh"
  then show ?thesis
    by (simp add: load_mesh_def read_case_def read_text_def rows row dense_array_def dict_get_def Let_def plain_plot_def
        unique_def searchsorted_def)
qed

definition demo_dir :: "'a tables \<Rightarrow> fsys" where
  "demo_dir tb = files_only ((path_join (path_join ''c'' ''trace'') ''mesh.csv'', one_mesh) # written tb (path_join ''c'' ''trace''))"

lemma demo_paths:
  "path_join (path_join ''c'' ''trace'') ''mesh.csv'' = ''c/trace/mesh.csv''"
  "path_join (path_join ''c'' ''trace'') ''grids.csv'' = ''c/trace/grids.csv''"
  "path_join (path_join ''c'' ''trace'') ''aggregates.csv'' = ''c/trace/aggregates.csv''"
  "path_join (path_join ''c'' ''trace'') ''steps.csv'' = ''c/trace/steps.csv''"
  "path_join (path_join ''c'' ''trace'') ''state.csv'' = ''c/trace/state.csv''"
  "path_join (path_join ''c'' ''trace'') ''compare.csv'' = ''c/trace/compare.csv''"
  by code_simp+

lemma demo_dir_files:
  "holds_files (demo_dir tb) (written tb (path_join ''c'' ''trace''))"
  "\<not> fs_exists (demo_dir tb) (path_join (path_join ''c'' ''trace'') ''compare.csv'')"
  "fs_text (demo_dir tb) (path_join (path_join ''c'' ''trace'') ''mesh.csv'') = Some one_mesh"
  by (simp_all add: demo_dir_def holds_files_def fs_exists_def files_only_def written_def demo_paths)


text \<open>The mesh panel draws the boundaries of the aggregates: on a mesh whose cells have different places, the thick edge on the
  right of a cell is drawn exactly when there is a cell to its right and it belongs to another aggregate, and so for the edge above it.\<close>

theorem thick_edges_are_boundaries:
  assumes "distinct (map (place ms) [0..<length (ms_col ms)])" and "length agg = length (ms_col ms)" and "c < length (ms_col ms)"
    and "x = of_nat (ms_col ms ! c)" and "y = of_nat (ms_row ms ! c)"
  shows "\<exists>ds :: 'a::linordered_field draw list. draw_edges agg ms c = Inr ds \<and>
    (Segment (x + 1 / 2) (y - 1 / 2) (x + 1 / 2) (y + 1 / 2) \<in> set ds \<longleftrightarrow>
      (\<exists>d < length (ms_col ms). place ms d = (ms_col ms ! c + 1, ms_row ms ! c) \<and> agg ! c \<noteq> agg ! d)) \<and>
    (Segment (x - 1 / 2) (y + 1 / 2) (x + 1 / 2) (y + 1 / 2) \<in> set ds \<longleftrightarrow>
      (\<exists>d < length (ms_col ms). place ms d = (ms_col ms ! c, ms_row ms ! c + 1) \<and> agg ! c \<noteq> agg ! d))"
  using assms(4,5) by (simp add: draw_edges_def Let_def edge_to_iff [OF assms(1-3)])

theorem thick_edges_are_boundaries_witness:
  "\<exists>ds :: rat draw list. draw_edges [0, 1] \<lparr>ms_n = 2, ms_col = [0, 1], ms_row = [0, 0], ms_ncol = 2, ms_nrow = 1\<rparr> 0 = Inr ds \<and>
    Segment (1 / 2) (- 1 / 2) (1 / 2) (1 / 2) \<in> set ds"
  using thick_edges_are_boundaries [of "\<lparr>ms_n = 2, ms_col = [0, 1], ms_row = [0, 0], ms_ncol = 2, ms_nrow = 1\<rparr>" "[0, 1]" 0 "0 :: rat" 0]
  by (auto simp: place_def upt_rec less_Suc_eq)



end
