(* ===== verification/Amg_Compare.thy ===== *)
theory Amg_Compare
  imports Amg_Playback
begin

text \<open>
  \<open>demo/amgpcg/make_compare.py\<close>: it recomputes the residual of every dumped cycle of every solver with one formula, writes
  \<open>compare.csv\<close> and prints in which cycle each solver converged.  The file is what \<open>replay.py\<close> draws its
  convergence panel from; the theorem says that the replay reads the residuals back in the order of the cycles.
\<close>

record work =
  wk_sweeps :: int
  wk_spmv :: int
  wk_label :: string

definition WORK_PER_CYCLE :: "(string, work) dict" where
  "WORK_PER_CYCLE =
     [(''of_gamg'', \<lparr>wk_sweeps = 4, wk_spmv = 4, wk_label = ''OpenFOAM GAMG''\<rparr>),
      (''amgx'', \<lparr>wk_sweeps = 4, wk_spmv = 4, wk_label = ''AMGX (PCG+AGGREGATION)''\<rparr>),
      (''brae'', \<lparr>wk_sweeps = 2, wk_spmv = 3, wk_label = ''brae AMG-PCG''\<rparr>),
      (''brae_cheb'', \<lparr>wk_sweeps = 4, wk_spmv = 5, wk_label = ''brae AMG-PCG (Chebyshev deg 2)''\<rparr>),
      (''brae_gs'', \<lparr>wk_sweeps = 2, wk_spmv = 3, wk_label = ''brae AMG-PCG (multicolor GS)''\<rparr>),
      (''brae_soc'', \<lparr>wk_sweeps = 2, wk_spmv = 3, wk_label = ''brae AMG-PCG (strength filter)''\<rparr>)]"

subsection \<open>Reading\<close>

type_synonym 'a faces = "(string option \<times> int \<times> int \<times> 'a) list"

definition system_row :: "'a numpy \<Rightarrow> (int, 'a) dict \<times> 'a faces \<Rightarrow> csv_row \<Rightarrow> ((int, 'a) dict \<times> 'a faces) res" where
  "system_row np df row =
     bindR (csv_float np row ''value'') (\<lambda>v.
     bindR (csv_int row ''owner'') (\<lambda>ow.
     bindR (csv_int row ''neighbour'') (\<lambda>ne.
     bindR (csv_item row ''kind'') (\<lambda>kind.
       Inr (if kind = Some ''diag'' then (dict_set ow v (fst df), snd df) else (fst df, snd df @ [(kind, ow, ne, v)]))))))"

definition face_entry :: "'a mat \<Rightarrow> string option \<times> int \<times> int \<times> 'a \<Rightarrow> 'a mat res" where
  "face_entry A f =
     (case f of (kind, ow, ne, v) \<Rightarrow> if kind = Some ''upper'' then mat_set A ow ne v else mat_set A ne ow v)"

definition compare_system :: "'a::linordered_field numpy \<Rightarrow> fsys \<Rightarrow> string \<Rightarrow> ('a mat \<times> 'a vec) res" where
  "compare_system np fs trace =
     read_case fs trace ''matrix.csv'' (\<lambda>t.
     bindR (foldR (system_row np) ([], []) (csv_rows t)) (\<lambda>(diag, faces).
     let n = length diag in
     bindR (foldR (\<lambda>A (cell, v). mat_set A cell cell v) (replicate n (zeros n)) diag) (\<lambda>A1.
     bindR (foldR face_entry A1 faces) (\<lambda>A.
     bindR (read_case fs trace ''rhs.csv'' (\<lambda>u. read_rhs np u n)) (\<lambda>b. Inr (A, b))))))"

definition read_cycles :: "'a::linordered_field numpy \<Rightarrow> fsys \<Rightarrow> string \<Rightarrow> nat \<Rightarrow> (int, 'a vec) dict res" where
  "read_cycles np fs path n = bindR (read_text fs path) (\<lambda>t. foldR (psi_row np n) [] (csv_rows t))"

subsection \<open>The rows\<close>

record cmp_row =
  cm_solver :: string
  cm_label :: string
  cm_cycle :: int
  cm_resnorm :: string
  cm_err :: string
  cm_sweeps :: int
  cm_spmv :: int

definition cmp_row_of :: "'a::linordered_field numpy \<Rightarrow> 'a mat \<Rightarrow> 'a vec \<Rightarrow> 'a vec \<Rightarrow> string \<Rightarrow> work \<Rightarrow> (int, 'a vec) dict \<Rightarrow> int \<Rightarrow> cmp_row res" where
  "cmp_row_of np A b x_exact key work psi cycle =
     (let x = get_or psi cycle (zeros (length b)) in
      bindR (residual np A b x) (\<lambda>r.
      bindR (bindR (vsub x x_exact) abs_max) (\<lambda>err.
        Inr \<lparr>cm_solver = key, cm_label = wk_label work, cm_cycle = cycle, cm_resnorm = np_e12 np (abs_sum r / abs_sum b),
             cm_err = np_e12 np err, cm_sweeps = cycle * wk_sweeps work, cm_spmv = cycle * wk_spmv work\<rparr>)))"

definition solver_rows :: "'a::linordered_field numpy \<Rightarrow> fsys \<Rightarrow> string \<Rightarrow> 'a mat \<Rightarrow> 'a vec \<Rightarrow> 'a vec \<Rightarrow> string \<times> work \<Rightarrow> cmp_row list res" where
  "solver_rows np fs trace A b x_exact kw =
     (let path = path_join trace (fst kw @ ''_cycles.csv'')
      in if \<not> fs_exists fs path then Inr []
         else bindR (read_cycles np fs path (length b)) (\<lambda>psi.
           mapR (cmp_row_of np A b x_exact (fst kw) (snd kw) psi) (sort (keys psi))))"

definition COMPARE_FIELDS :: "string list" where
  "COMPARE_FIELDS = [''solver'', ''label'', ''cycle'', ''resnorm'', ''err_inf'', ''fine_sweeps'', ''fine_spmv'']"

definition cmp_fields :: "cmp_row \<Rightarrow> string list" where
  "cmp_fields r = [cm_solver r, cm_label r, show_int (cm_cycle r), cm_resnorm r, cm_err r, show_int (cm_sweeps r), show_int (cm_spmv r)]"

definition compare_csv :: "cmp_row list \<Rightarrow> string" where
  "compare_csv rows = csv_write (COMPARE_FIELDS # map cmp_fields rows)"

subsection \<open>The summary\<close>

text \<open>\<open>min(rows, key=...)\<close>: the first row with the least cycle.\<close>

fun first_cycle :: "cmp_row \<Rightarrow> cmp_row list \<Rightarrow> cmp_row" where
  "first_cycle r [] = r"
| "first_cycle r (q # qs) = first_cycle (if cm_cycle q < cm_cycle r then q else r) qs"

definition below_tol :: "'a::linordered_field numpy \<Rightarrow> cmp_row \<Rightarrow> bool res" where
  "below_tol np r = bindR (np_float np (cm_resnorm r)) (\<lambda>v. Inr (v < 1 / 10 ^ 8))"

definition filterR :: "('a \<Rightarrow> bool res) \<Rightarrow> 'a list \<Rightarrow> 'a list res" where
  "filterR p xs = bindR (mapR p xs) (\<lambda>bs. Inr (map fst (filter snd (zip xs bs))))"

definition summary_line :: "'a::linordered_field numpy \<Rightarrow> cmp_row list \<Rightarrow> string \<times> work \<Rightarrow> string list res" where
  "summary_line np rows kw =
     (let matching = filter (\<lambda>r. cm_solver r = fst kw) rows; label = ljust 32 (wk_label (snd kw))
      in if matching = [] then Inr []
         else bindR (filterR (below_tol np) matching) (\<lambda>converged.
           case converged of
             [] \<Rightarrow> Inr [label @ '' '' @ rjust 15 ''not reached'' @ '' '' @ rjust 19 ''-'']
           | r # rs \<Rightarrow>
               let first = first_cycle r rs
               in Inr [label @ '' '' @ rjust 15 (show_int (cm_cycle first)) @ '' '' @ rjust 19 (show_int (cm_spmv first))]))"

subsection \<open>The command\<close>

text \<open>The eigenvalues that the first line reports are numpy's; \<open>np.allclose\<close> has its default tolerances.\<close>

definition allclose :: "'a::linordered_field mat \<Rightarrow> 'a mat \<Rightarrow> bool" where
  "allclose A B = list_all2 (list_all2 (\<lambda>a b. abs (a - b) \<le> 1 / 10 ^ 8 + 1 / 10 ^ 5 * abs b)) A B"

definition py_bool :: "bool \<Rightarrow> string" where
  "py_bool x = (if x then ''True'' else ''False'')"

record compared =
  cd_exit :: nat
  cd_out :: "string list"
  cd_rows :: "cmp_row list"
  cd_file :: "string \<times> string"

definition compare_main :: "'a::linordered_field numpy \<Rightarrow> ('a mat \<Rightarrow> 'a vec res) \<Rightarrow> fsys \<Rightarrow> string \<Rightarrow> compared res" where
  "compare_main np eigvalsh fs case_dir =
     (let trace = path_join case_dir ''trace'' in
      bindR (compare_system np fs trace) (\<lambda>(A, b).
      bindR (np_solve np A b) (\<lambda>x_exact.
      bindR (eigvalsh A) (\<lambda>ev.
      bindR (if ev = [] then Inl ValueError else Inr (Min (set ev))) (\<lambda>least.
      let out_path = path_join trace ''compare.csv'' in
      bindR (mapR (solver_rows np fs trace A b x_exact) WORK_PER_CYCLE) (\<lambda>rss.
      let rows = concat rss in
      bindR (mapR (summary_line np rows) WORK_PER_CYCLE) (\<lambda>ls.
        Inr \<lparr>cd_exit = 0,
             cd_out =
               [''system: '' @ show_nat (length b) @ '' cells, symmetric='' @ py_bool (allclose A (transp (length A) A))
                  @ '', SPD='' @ py_bool (0 < least) @ '', cond='' @ np_cond np A,
                ''wrote '' @ out_path @ '' ('' @ show_nat (length rows) @ '' rows)'',
                [],
                ljust 32 ''solver'' @ '' '' @ rjust 15 ''cycles to 1e-8'' @ '' '' @ rjust 19 ''fine SpMV to 1e-8'']
               @ concat ls,
             cd_rows = rows, cd_file = (out_path, compare_csv rows)\<rparr>)))))))"

subsection \<open>The file as the replay reads it\<close>

lemma py_int_show [simp]: "py_int (show_int i) = Inr i"
proof (cases "0 \<le> i")
  case False
  let ?d = "show_nat (nat (- i))"
  have d: "is_digit c" if "c \<in> set ?d" for c using that show_nat_digits by blast
  have "\<not> is_space c" if "is_digit c" for c using that by (auto simp: is_digit_def is_space_def Let_def)
  then have "strip (CHR ''-'' # ?d) = CHR ''-'' # ?d"
    using d [of "last ?d"] by (intro strip_idle) (auto simp: is_space_def)
  moreover have "list_all is_digit ?d" using d by (simp add: list_all_iff)
  ultimately show ?thesis using False by (simp add: py_int_def show_int_def Let_def read_digits_show)
qed (rule py_int_int)

lemma cmp_columns [simp]:
  "csv_item (csv_fields COMPARE_FIELDS (cmp_fields r)) ''solver'' = Inr (Some (cm_solver r))"
  "csv_item (csv_fields COMPARE_FIELDS (cmp_fields r)) ''cycle'' = Inr (Some (show_int (cm_cycle r)))"
  "csv_item (csv_fields COMPARE_FIELDS (cmp_fields r)) ''resnorm'' = Inr (Some (cm_resnorm r))"
  by (simp_all add: csv_item_get csv_fields_def COMPARE_FIELDS_def cmp_fields_def upt_rec dict_get_def)

definition row_value :: "'a numpy \<Rightarrow> cmp_row \<Rightarrow> 'a" where
  "row_value np r = the (float_of np (cm_resnorm r))"

definition cmp_ok :: "'a numpy \<Rightarrow> cmp_row \<Rightarrow> bool" where
  "cmp_ok np r \<longleftrightarrow> no_cr (cmp_fields r) \<and> readable np (cm_resnorm r)"

interpretation compare_table: loaded_table COMPARE_FIELDS cmp_fields "compare_row np" "cmp_ok np"
    "\<lambda>d r. put_in (Some (cm_solver r)) (cm_cycle r) (row_value np r) d" for np :: "'a numpy"
proof unfold_locales
  show "no_cr COMPARE_FIELDS" by (simp add: no_cr_def COMPARE_FIELDS_def)
  show "cmp_fields r \<noteq> []" for r by (simp add: cmp_fields_def)
  show "cmp_ok np r \<Longrightarrow> no_cr (cmp_fields r)" for r by (simp add: cmp_ok_def)
  show "cmp_ok np r \<Longrightarrow> compare_row np d (csv_fields COMPARE_FIELDS (cmp_fields r)) =
      Inr (put_in (Some (cm_solver r)) (cm_cycle r) (row_value np r) d)" for r d
    using readable_float [of np "cm_resnorm r"] by (auto simp: compare_row_def csv_float_item csv_int_item row_value_def cmp_ok_def)
qed

lemma compare_rows_read:
  "list_all (cmp_ok np) rows \<Longrightarrow> foldR (compare_row np) [] (csv_rows (compare_csv rows)) =
     Inr (tabled (\<lambda>r. Some (cm_solver r)) cm_cycle (row_value np) rows)"
  unfolding compare_csv_def tabled_def by (rule compare_table.table_loaded)

lemma shown_histories_get:
  "dict_get (shown_histories hs) s = (if s \<in> set (keys SOLVER_COLOUR) then map_option in_order (dict_get hs (Some s)) else None)"
proof (induction hs)
  case (Cons p hs)
  obtain k d where p: "p = (k, d)" by (cases p)
  show ?case
  proof (cases k)
    case None
    then show ?thesis using Cons p by (simp add: shown_histories_def dict_get_def)
  next
    case (Some t)
    then show ?thesis using Cons p by (auto simp: shown_histories_def dict_get_def split: if_splits)
  qed
qed (simp add: shown_histories_def)

lemma in_order_sorted:
  assumes "sorted_wrt (<) (map cf xs)"
  shows "in_order (filled cf vf xs) = map vf xs"
proof -
  have d: "distinct (map cf xs)" and s: "sorted (map cf xs)" using assms strict_sorted_iff by auto
  have f: "filled cf vf xs = map (\<lambda>x. (cf x, vf x)) xs" by (rule filled_distinct [OF d])
  have "get_or (filled cf vf xs) (cf x) 0 = vf x" if "x \<in> set xs" for x
  proof -
    have "dict_get (filled cf vf xs) (cf x) = Some (vf x)"
      unfolding f using that d by (intro dict_mem_get) (auto simp: dict_ok_def comp_def)
    then show ?thesis by (simp add: get_or_def)
  qed
  moreover have "sort (keys (filled cf vf xs)) = map cf xs" using s by (simp add: f comp_def sorted_sort_id)
  ultimately show ?thesis by (simp add: in_order_def)
qed

subsection \<open>The rows of a solver\<close>

definition solver_ok :: "'a numpy \<Rightarrow> string \<times> work \<Rightarrow> cmp_row list \<Rightarrow> bool" where
  "solver_ok np kw rows \<longleftrightarrow> sorted_wrt (<) (map cm_cycle rows) \<and>
     list_all (\<lambda>r. cm_solver r = fst kw \<and> cm_label r = wk_label (snd kw)
       \<and> (\<exists>v w. cm_resnorm r = np_e12 np v \<and> cm_err r = np_e12 np w)) rows"

lemma psi_keys: "foldR (psi_row np n) d rows = Inr e \<Longrightarrow> dict_ok d \<Longrightarrow> dict_ok e"
  by (erule foldR_invariant) (auto simp: psi_row_def bindR_Inr_iff)

lemma solver_rows_ok:
  assumes "solver_rows np fs trace A b x_exact kw = Inr rows"
  shows "solver_ok np kw rows"
proof (cases "fs_exists fs (path_join trace (fst kw @ ''_cycles.csv''))")
  case True
  then obtain psi where psi: "read_cycles np fs (path_join trace (fst kw @ ''_cycles.csv'')) (length b) = Inr psi"
    and m: "mapR (cmp_row_of np A b x_exact (fst kw) (snd kw) psi) (sort (keys psi)) = Inr rows"
    using assms by (auto simp: solver_rows_def Let_def bindR_Inr_iff)
  have "dict_ok psi" using psi by (auto simp: read_cycles_def bindR_Inr_iff intro: psi_keys)
  then have s: "sorted_wrt (<) (sort (keys psi))" by (simp add: dict_ok_def strict_sorted_iff)
  have row: "cm_cycle r = c \<and> cm_solver r = fst kw \<and> cm_label r = wk_label (snd kw)
      \<and> (\<exists>v w. cm_resnorm r = np_e12 np v \<and> cm_err r = np_e12 np w)"
    if "cmp_row_of np A b x_exact (fst kw) (snd kw) psi c = Inr r" for c r
    using that by (auto simp: cmp_row_of_def Let_def bindR_Inr_iff)
  have "map cm_cycle rows = sort (keys psi)"
    using m row by (auto simp: mapR_Inr_iff list_all2_conv_all_nth intro!: nth_equalityI)
  moreover have "list_all (\<lambda>r. cm_solver r = fst kw \<and> cm_label r = wk_label (snd kw)
       \<and> (\<exists>v w. cm_resnorm r = np_e12 np v \<and> cm_err r = np_e12 np w)) rows"
    using row mapR_mem [OF m] unfolding list_all_iff by blast
  ultimately show ?thesis using s by (simp add: solver_ok_def)
qed (use assms in \<open>simp add: solver_rows_def solver_ok_def\<close>)

lemma concat_nth: "x \<in> set (concat xss) \<Longrightarrow> \<exists>i < length xss. x \<in> set (xss ! i)"
  by (metis UN_E in_set_conv_nth set_concat)

lemma rows_of_key:
  "list_all2 (solver_ok np) ws rss \<Longrightarrow> distinct (map fst ws) \<Longrightarrow>
     sorted_wrt (<) (map cm_cycle (filter (\<lambda>r. cm_solver r = key) (concat rss)))"
proof (induction ws rss rule: list_all2_induct)
  case (Cons w ws rows rss)
  show ?case
  proof (cases "key = fst w")
    case True
    have "cm_solver r \<noteq> key" if "r \<in> set (concat rss)" for r
    proof -
      from concat_nth [OF that] obtain i where "i < length rss" "r \<in> set (rss ! i)" by blast
      then have "cm_solver r = fst (ws ! i)" "ws ! i \<in> set ws"
        using Cons.hyps(2) by (auto simp: list_all2_conv_all_nth solver_ok_def list_all_iff)
      then show ?thesis using Cons.prems True by (metis distinct.simps(2) image_eqI list.set_map list.simps(9))
    qed
    then have "filter (\<lambda>r. cm_solver r = key) (concat rss) = []" by (simp only: filter_empty_conv) blast
    moreover have "filter (\<lambda>r. cm_solver r = key) rows = rows"
      using Cons.hyps(1) True by (auto simp: solver_ok_def list_all_iff intro: filter_True)
    ultimately show ?thesis using Cons.hyps(1) by (simp add: solver_ok_def)
  next
    case False
    then have "filter (\<lambda>r. cm_solver r = key) rows = []" using Cons.hyps(1) by (auto simp: solver_ok_def list_all_iff filter_empty_conv)
    then show ?thesis using Cons.IH Cons.prems by simp
  qed
qed simp

lemma work_names: "distinct (map fst WORK_PER_CYCLE)" "list_all (\<lambda>kw. cr \<notin> set (fst kw) \<and> cr \<notin> set (wk_label (snd kw))) WORK_PER_CYCLE"
  by (simp_all add: WORK_PER_CYCLE_def)

lemma all_rows_ok:
  assumes "numbers_read np" and "list_all2 (solver_ok np) WORK_PER_CYCLE rss"
  shows "list_all (cmp_ok np) (concat rss)"
  unfolding list_all_iff
proof
  fix r assume "r \<in> set (concat rss)"
  from concat_nth [OF this] obtain i where i: "i < length rss" "r \<in> set (rss ! i)" by blast
  then have ok: "solver_ok np (WORK_PER_CYCLE ! i) (rss ! i)" "i < length WORK_PER_CYCLE" using assms(2) by (auto simp: list_all2_conv_all_nth)
  have "cr \<notin> set (fst (WORK_PER_CYCLE ! i))" "cr \<notin> set (wk_label (snd (WORK_PER_CYCLE ! i)))"
    using work_names(2) ok(2) by (auto simp: list_all_length)
  with ok(1) i(2) assms(1) show "cmp_ok np r"
    by (auto simp: solver_ok_def list_all_iff cmp_ok_def no_cr_def cmp_fields_def numbers_read_def readable_def)
qed

subsection \<open>Properties\<close>

text \<open>C22: The convergence panel of the replay shows what the comparison computed: on the file that \<open>make_compare.py\<close> wrote,
  \<open>build_histories\<close> returns, and the history of a solver it shows is the list of that solver's residual norms, cycle after cycle.\<close>

theorem replay_reads_comparison:
  assumes "numbers_read np" and "compare_main np eigvalsh fs case_dir = Inr cd"
    and "fs_exists fs' (fst (cd_file cd))" and "fs_text fs' (fst (cd_file cd)) = Some (snd (cd_file cd))"
    and "key \<in> set (keys SOLVER_COLOUR)"
  shows "\<exists>hs. build_histories np fs' (path_join case_dir ''trace'') = Inr hs \<and>
    get_or hs key [] = map (\<lambda>r. the (float_of np (cm_resnorm r))) (filter (\<lambda>r. cm_solver r = key) (cd_rows cd))"
proof -
  let ?t = "path_join case_dir ''trace''" and ?rows = "cd_rows cd"
  from assms(2) obtain A b x rss where rss: "mapR (solver_rows np fs ?t A b x) WORK_PER_CYCLE = Inr rss"
    and cd: "?rows = concat rss" "cd_file cd = (path_join ?t ''compare.csv'', compare_csv ?rows)"
    unfolding compare_main_def Let_def by (auto simp: bindR_Inr_iff split: if_splits)
  have ok: "list_all2 (solver_ok np) WORK_PER_CYCLE rss"
    using rss unfolding mapR_Inr_iff by (rule list_all2_mono) (rule solver_rows_ok)
  let ?h = "tabled (\<lambda>r. Some (cm_solver r)) cm_cycle (row_value np) ?rows" and ?ys = "filter (\<lambda>r. cm_solver r = key) ?rows"
  have "foldR (compare_row np) [] (csv_rows (compare_csv ?rows)) = Inr ?h"
    using compare_rows_read all_rows_ok [OF assms(1) ok] cd(1) by simp
  then have "build_histories np fs' ?t = Inr (shown_histories ?h)"
    using assms(3,4) cd(2) by (simp add: build_histories_def read_text_def)
  moreover have "in_order (filled cm_cycle (row_value np) ?ys) = map (row_value np) ?ys"
    by (rule in_order_sorted) (use rows_of_key [OF ok work_names(1)] cd(1) in simp)
  then have "get_or (shown_histories ?h) key [] = map (row_value np) ?ys"
    using assms(5) unfolding get_or_def shown_histories_get tabled_get Let_def by (simp split: option.splits)
  ultimately show ?thesis by (simp add: row_value_def)
qed

definition demo_system :: fsys where
  "demo_system = files_only
     [(''c/trace/matrix.csv'', ''kind,index,owner,neighbour,value'' @ [nl] @ ''diag,0,0,0,1''),
      (''c/trace/rhs.csv'', ''cell,b'' @ [nl] @ ''0,1''),
      (''c/trace/brae_cycles.csv'', ''cycle,cell,psi'' @ [nl] @ ''1,0,1'')]"

definition compares :: "compared res \<Rightarrow> bool" where
  "compares r = (case r of Inl _ \<Rightarrow> False | Inr cd \<Rightarrow> map (\<lambda>r. (cm_solver r, cm_cycle r)) (cd_rows cd) = [(''brae'', 1)])"

lemma demo_compares: "compares (compare_main text_np (\<lambda>_. Inr [1]) demo_system ''c'')"
  by code_simp

theorem replay_reads_comparison_witness:
  "\<exists>cd fs hs. compare_main text_np (\<lambda>_. Inr [1]) demo_system ''c'' = Inr cd \<and> build_histories text_np fs (path_join ''c'' ''trace'') = Inr hs \<and>
    length (get_or hs ''brae'' []) = 1"
proof -
  from demo_compares obtain cd where cd: "compare_main text_np (\<lambda>_. Inr [1]) demo_system ''c'' = Inr cd"
    "map (\<lambda>r. (cm_solver r, cm_cycle r)) (cd_rows cd) = [(''brae'', 1)]" by (auto simp: compares_def split: sum.splits)
  let ?fs = "files_only [cd_file cd]"
  have "\<exists>hs. build_histories text_np ?fs (path_join ''c'' ''trace'') = Inr hs \<and>
      get_or hs ''brae'' [] = map (\<lambda>r. the (float_of text_np (cm_resnorm r))) (filter (\<lambda>r. cm_solver r = ''brae'') (cd_rows cd))"
    by (rule replay_reads_comparison [OF text_np_reads cd(1)]) (simp_all add: files_only_def fs_exists_def SOLVER_COLOUR_def)
  then obtain hs where hs: "build_histories text_np ?fs (path_join ''c'' ''trace'') = Inr hs"
    "length (get_or hs ''brae'' []) = length (filter (\<lambda>r. cm_solver r = ''brae'') (cd_rows cd))" by auto
  moreover have "length (filter (\<lambda>r. cm_solver r = ''brae'') (cd_rows cd)) = 1" using cd(2) by (auto simp: map_eq_Cons_conv)
  ultimately show ?thesis using cd(1) by auto
qed

end
