(* ===== verification/Stage_Compare.thy ===== *)
theory Stage_Compare
  imports Ldu_System Complex_Main
begin

text \<open>
  \<open>tools/dumpSimpleFoam/compare_stages.py\<close>: the comparison of two dumps of one SIMPLE iteration.  An array is an
  \<open>ndarray\<close> of \<open>Ldu_System\<close> over an ordered field; the parsing of numbers, \<open>np.loadtxt\<close>, the Euclidean norm,
  the order \<open>np.argsort\<close> gives, the content of compressed files, the text of an exception and the number formats
  are the fields of a record.  What is printed before an exception is caught stays printed: a section is a
  list of parts, and the lines of the parts before the first failure count.
\<close>

record 'a stage_lib =
  sg_float :: "string \<Rightarrow> 'a res"
  sg_numbers :: "string \<Rightarrow> 'a vec"
  sg_ints :: "string \<Rightarrow> int list"
  sg_load :: "string \<Rightarrow> 'a ndarray res"
  sg_norm :: "'a ndarray \<Rightarrow> 'a"
  sg_argsort :: "'a vec \<Rightarrow> nat list"
  sg_gz :: "string \<Rightarrow> string option"
  sg_show_exc :: "pyexc \<Rightarrow> string"
  sg_e3 :: "'a \<Rightarrow> string"
  sg_e6 :: "'a \<Rightarrow> string"
  sg_f4 :: "'a \<Rightarrow> string"

subsection \<open>Reading\<close>

definition read_maybe_gz :: "'a stage_lib \<Rightarrow> fsys \<Rightarrow> string \<Rightarrow> string res" where
  "read_maybe_gz sg fs p =
     (if fs_exists fs p then read_text fs p
      else if fs_exists fs (p @ ''.gz'')
      then (case sg_gz sg (p @ ''.gz'') of None \<Rightarrow> Inl (FileNotFound p) | Some t \<Rightarrow> Inr t)
      else Inl (FileNotFound p))"

text \<open>\<open>s.index(p)\<close>.\<close>

definition str_index :: "string \<Rightarrow> string \<Rightarrow> nat res" where
  "str_index s p = (case str_find s p of None \<Rightarrow> Inl ValueError | Some i \<Rightarrow> Inr i)"

text \<open>\<open>s.strip('()')\<close>.\<close>

definition strip_parens :: "string \<Rightarrow> string" where
  "strip_parens s = (let p = (\<lambda>c. c = CHR ''('' \<or> c = CHR '')'') in rev (dropWhile p (rev (dropWhile p s))))"

definition uniform_rx :: rx where
  "uniform_rx = RSeqs [RLit ''internalField'', RSp1, RLit ''uniform'', RSp1, RGrp 1 (RPlus (RSet (CNot (CS '';'')))), RLit '';'']"

definition nonuniform_rx :: rx where
  "nonuniform_rx = RSeqs [RLit ''internalField'', RSp1, RLit ''nonuniform'', RSp1, RLit ''List<'', RGrp 1 RName, RLit ''>'', RSp,
     ROpt (RLit [nl]), RSp, RGrp 2 (RPlus (RSet CDigit)), RSp, RLit ''('']"

definition body_of :: "string \<Rightarrow> string res" where
  "body_of s = bindR (str_index s [nl, CHR '')'']) (\<lambda>k. Inr (take k s))"

text \<open>\<open>a.reshape(n, 3)\<close>.\<close>

definition rows_of_three :: "nat \<Rightarrow> 'a vec \<Rightarrow> 'a mat" where
  "rows_of_three n a = map (\<lambda>i. take 3 (drop (3 * i) a)) [0..<n]"

definition uniform_field :: "'a stage_lib \<Rightarrow> string \<Rightarrow> 'a ndarray res" where
  "uniform_field sg tok =
     (if startswith tok ''('' then bindR (mapR (sg_float sg) (split_ws (strip_parens tok))) (\<lambda>v. Inr (Dim2 [v]))
      else bindR (sg_float sg tok) (\<lambda>v. Inr (Dim1 [v])))"

definition list_field :: "'a stage_lib \<Rightarrow> string \<Rightarrow> nat \<Rightarrow> string \<Rightarrow> 'a ndarray res" where
  "list_field sg kind n body =
     (if kind = ''scalar'' then
        let a = sg_numbers sg (replace_char nl '' '' body)
        in if length a = n then Inr (Dim1 a) else Inl AssertionError
      else
        let a = sg_numbers sg (replace_char nl '' '' (replace_char (CHR '')'') '' '' (replace_char (CHR ''('') '' '' body)))
        in if length a = 3 * n then Inr (Dim2 (rows_of_three n a)) else Inl AssertionError)"

definition of_internal :: "'a stage_lib \<Rightarrow> fsys \<Rightarrow> string \<Rightarrow> 'a ndarray res" where
  "of_internal sg fs path =
     bindR (read_maybe_gz sg fs path) (\<lambda>s.
     bindR (str_index s ''internalField'') (\<lambda>k.
     let tail = drop k s in
     case re_match uniform_rx tail of
       Some m \<Rightarrow> uniform_field sg (strip (group_text tail m 1))
     | None \<Rightarrow>
         (case re_match nonuniform_rx tail of
            None \<Rightarrow> Inl ValueError
          | Some m \<Rightarrow>
              bindR (body_of (drop (m_end m) tail)) (\<lambda>body.
                list_field sg (group_text tail m 1) (read_digits (group_text tail m 2)) body))))"

definition list_rx :: rx where
  "list_rx = RSeqs [RLit [nl], RGrp 1 (RPlus (RSet CDigit)), RSp, RLit [nl, CHR ''('']]"

definition of_list :: "'a stage_lib \<Rightarrow> fsys \<Rightarrow> string \<Rightarrow> int list res" where
  "of_list sg fs path =
     bindR (read_maybe_gz sg fs path) (\<lambda>s.
       case re_search list_rx s of None \<Rightarrow> Inl AttributeError
       | Some m \<Rightarrow> bindR (body_of (drop (m_end m) s)) (\<lambda>body. Inr (sg_ints sg (replace_char nl '' '' body))))"

subsection \<open>Patches\<close>

record patch =
  pa_name :: string
  pa_type :: string
  pa_nfaces :: nat
  pa_start :: nat

definition patch_rx :: rx where
  "patch_rx = RSeqs [RGrp 1 RName, RSp, RLit ''{'', RGrp 2 (RStar (RSet (CNot (CS ''}'')))), RLit ''}'']"

definition type_rx :: rx where
  "type_rx = RSeqs [RWordB, RLit ''type'', RSp1, RGrp 1 RName, RSp, RLit '';'']"

definition number_rx :: "string \<Rightarrow> rx" where
  "number_rx key = RSeqs [RLit key, RSp1, RGrp 1 (RPlus (RSet CDigit)), RSp, RLit '';'']"

definition patch_of :: "string \<Rightarrow> string \<Rightarrow> patch list" where
  "patch_of name d =
     (case (re_search (number_rx ''nFaces'') d, re_search (number_rx ''startFace'') d) of
        (Some nf, Some sf) \<Rightarrow>
          [\<lparr>pa_name = name, pa_type = (case re_search type_rx d of None \<Rightarrow> ''?'' | Some t \<Rightarrow> group_text d t 1),
            pa_nfaces = read_digits (group_text d nf 1), pa_start = read_digits (group_text d sf 1)\<rparr>]
      | _ \<Rightarrow> [])"

definition patches_of :: "'a stage_lib \<Rightarrow> fsys \<Rightarrow> string \<Rightarrow> patch list res" where
  "patches_of sg fs meshdir =
     bindR (read_maybe_gz sg fs (path_join meshdir ''boundary'')) (\<lambda>s0.
     bindR (str_index s0 ''// * * *'') (\<lambda>k.
     let s = drop k s0
     in Inr (concat (map (\<lambda>m. patch_of (group_text s m 1) (group_text s m 2)) (finditer patch_rx s)))))"

text \<open>\<open>own[sf:sf+nf]\<close>, and the cells they mark.\<close>

definition patch_faces :: "int list \<Rightarrow> patch \<Rightarrow> int list" where
  "patch_faces own p = take (pa_nfaces p) (drop (pa_start p) own)"

definition mark_cells :: "bool list \<Rightarrow> int list \<Rightarrow> bool list res" where
  "mark_cells marks cs = foldR (\<lambda>m c. arr_set m c True) marks cs"

definition mark_patch :: "int list \<Rightarrow> bool list \<times> bool list \<Rightarrow> patch \<Rightarrow> (bool list \<times> bool list) res" where
  "mark_patch own tw p =
     (if pa_type p = ''empty'' then Inr tw
      else
        bindR (mark_cells (fst tw) (patch_faces own p)) (\<lambda>touched.
          if pa_type p = ''wall'' then bindR (mark_cells (snd tw) (patch_faces own p)) (\<lambda>wall. Inr (touched, wall))
          else Inr (touched, snd tw)))"

definition mark_patches :: "int list \<Rightarrow> nat \<Rightarrow> patch list \<Rightarrow> (bool list \<times> bool list) res" where
  "mark_patches own nCells pats = foldR (mark_patch own) (replicate nCells False, replicate nCells False) pats"

subsection \<open>Arrays\<close>

fun nd_shape :: "'a ndarray \<Rightarrow> nat list" where
  "nd_shape (Dim0 v) = []"
| "nd_shape (Dim1 v) = [length v]"
| "nd_shape (Dim2 m) = [length m, mat_cols m]"

definition nd_ndim :: "'a ndarray \<Rightarrow> nat" where
  "nd_ndim a = length (nd_shape a)"

definition shape0 :: "'a ndarray \<Rightarrow> nat res" where
  "shape0 a = nth_or (nd_shape a) 0"

text \<open>Element-wise operations with broadcasting: a vector meets a matrix as one row.\<close>

definition zip_rows :: "('a \<Rightarrow> 'b \<Rightarrow> 'c) \<Rightarrow> 'a mat \<Rightarrow> 'b mat \<Rightarrow> 'c mat res" where
  "zip_rows f A B = bindR (zip_with (zip_with f) A B) (\<lambda>rows. mapR id rows)"

fun nd_zip :: "('a \<Rightarrow> 'b \<Rightarrow> 'c) \<Rightarrow> 'a ndarray \<Rightarrow> 'b ndarray \<Rightarrow> 'c ndarray res" where
  "nd_zip f (Dim0 a) (Dim0 b) = Inr (Dim0 (f a b))"
| "nd_zip f (Dim0 a) (Dim1 y) = Inr (Dim1 (map (f a) y))"
| "nd_zip f (Dim0 a) (Dim2 B) = Inr (Dim2 (map (map (f a)) B))"
| "nd_zip f (Dim1 x) (Dim0 b) = Inr (Dim1 (map (\<lambda>a. f a b) x))"
| "nd_zip f (Dim2 A) (Dim0 b) = Inr (Dim2 (map (map (\<lambda>a. f a b)) A))"
| "nd_zip f (Dim1 x) (Dim1 y) = bindR (zip_with f x y) (\<lambda>v. Inr (Dim1 v))"
| "nd_zip f (Dim1 x) (Dim2 B) = bindR (zip_rows f [x] B) (\<lambda>m. Inr (Dim2 m))"
| "nd_zip f (Dim2 A) (Dim1 y) = bindR (zip_rows f A [y]) (\<lambda>m. Inr (Dim2 m))"
| "nd_zip f (Dim2 A) (Dim2 B) = bindR (zip_rows f A B) (\<lambda>m. Inr (Dim2 m))"

abbreviation nd_sub :: "'a::linordered_field ndarray \<Rightarrow> 'a ndarray \<Rightarrow> 'a ndarray res" where
  "nd_sub \<equiv> nd_zip (-)"

text \<open>\<open>np.repeat(o, k, axis=0)\<close> of an array with one row, \<open>a[:n]\<close> and \<open>a[mask]\<close>.\<close>

fun nd_repeat :: "'a ndarray \<Rightarrow> nat \<Rightarrow> 'a ndarray" where
  "nd_repeat (Dim0 v) k = Dim0 v"
| "nd_repeat (Dim1 v) k = Dim1 (concat (map (replicate k) v))"
| "nd_repeat (Dim2 m) k = Dim2 (concat (map (replicate k) m))"

fun nd_take :: "nat \<Rightarrow> 'a ndarray \<Rightarrow> 'a ndarray res" where
  "nd_take n (Dim0 v) = Inl IndexError"
| "nd_take n (Dim1 v) = Inr (Dim1 (take n v))"
| "nd_take n (Dim2 m) = Inr (Dim2 (take n m))"

definition masked :: "bool list \<Rightarrow> 'b list \<Rightarrow> 'b list res" where
  "masked sel xs = (if length sel = length xs then Inr (map snd (filter fst (zip sel xs))) else Inl IndexError)"

fun nd_mask :: "bool list \<Rightarrow> 'a ndarray \<Rightarrow> 'a ndarray res" where
  "nd_mask sel (Dim0 v) = Inl IndexError"
| "nd_mask sel (Dim1 v) = bindR (masked sel v) (\<lambda>w. Inr (Dim1 w))"
| "nd_mask sel (Dim2 m) = bindR (masked sel m) (\<lambda>w. Inr (Dim2 w))"

fun nd_list :: "'a ndarray \<Rightarrow> 'a list" where
  "nd_list (Dim0 v) = [v]"
| "nd_list (Dim1 v) = v"
| "nd_list (Dim2 m) = concat m"

subsection \<open>Comparison\<close>

definition CELLS :: "(string, char) dict" where
  "CELLS =
     [(''stage_Uass'', CHR ''v''), (''stage_V'', CHR ''s''), (''stage_nuEff'', CHR ''s''), (''stage_UDiag0'', CHR ''s''),
      (''stage_UDiag'', CHR ''s''), (''stage_USrc'', CHR ''v''), (''stage_rAU'', CHR ''s''), (''stage_rAtU'', CHR ''s''),
      (''stage_HbyA'', CHR ''v''), (''stage_Upred'', CHR ''v''), (''stage_pOut'', CHR ''s''), (''stage_Uout'', CHR ''v'')]"

definition FACES :: "(string, char) dict" where
  "FACES =
     [(''stage_phiU'', CHR ''s''), (''stage_UUpper'', CHR ''s''), (''stage_ULower'', CHR ''s''), (''stage_phiHbyA'', CHR ''s''),
      (''stage_phiOut'', CHR ''s'')]"

definition BASE :: "(string, string) dict" where
  "BASE =
     [(''stage_Uass'', ''U''), (''stage_HbyA'', ''U''), (''stage_Upred'', ''U''), (''stage_Uout'', ''U''), (''stage_pOut'', ''p''),
      (''stage_phiU'', ''phi''), (''stage_phiHbyA'', ''phi''), (''stage_phiOut'', ''phi'')]"

definition stage_brae :: "'a stage_lib \<Rightarrow> string \<Rightarrow> string \<Rightarrow> char \<Rightarrow> 'a ndarray res" where
  "stage_brae sg brdir name kind =
     bindR (sg_load sg (path_join brdir name)) (\<lambda>a.
       if kind = CHR ''v'' then Inr a
       else case a of Dim2 m \<Rightarrow> bindR (mapR (\<lambda>row. nth_or row 0) m) (\<lambda>v. Inr (Dim1 v)) | _ \<Rightarrow> Inr a)"

definition stage_rel :: "'a::linordered_field stage_lib \<Rightarrow> 'a ndarray \<Rightarrow> 'a ndarray \<Rightarrow> 'a res" where
  "stage_rel sg a b = bindR (nd_sub a b) (\<lambda>d. Inr (sg_norm sg d / max (sg_norm sg a) (1 / 10 ^ 300)))"

fun show_shape :: "nat list \<Rightarrow> string" where
  "show_shape [] = ''()''"
| "show_shape [n] = ''('' @ show_nat n @ '',)''"
| "show_shape ns = ''('' @ join '', '' (map show_nat ns) @ '')''"

type_synonym subset = "string \<times> bool list option"

definition subset_part :: "'a::linordered_field stage_lib \<Rightarrow> 'a ndarray \<Rightarrow> 'a ndarray \<Rightarrow> subset \<Rightarrow> string list res" where
  "subset_part sg a b s =
     bindR (case snd s of None \<Rightarrow> Inr (a, b)
            | Some sel \<Rightarrow> bindR (nd_mask sel a) (\<lambda>x. bindR (nd_mask sel b) (\<lambda>y. Inr (x, y)))) (\<lambda>(x, y).
       if nd_size x = 0 then Inr []
       else bindR (stage_rel sg x y) (\<lambda>v. Inr [fst s @ '' '' @ sg_e3 sg v]))"

text \<open>A field that OpenFOAM writes as uniform is one row.\<close>

definition spread :: "'a ndarray \<Rightarrow> 'a ndarray \<Rightarrow> 'a ndarray" where
  "spread a b =
     (if nd_ndim a = nd_ndim b \<and> take 1 (nd_shape a) = [1] \<and> nd_ndim b \<noteq> 0 \<and> 1 < hd (nd_shape b)
      then nd_repeat a (hd (nd_shape b)) else a)"

definition stage_line :: "'a::linordered_field stage_lib \<Rightarrow> string \<Rightarrow> 'a ndarray \<Rightarrow> 'a ndarray \<Rightarrow> 'a ndarray option \<Rightarrow> subset list \<Rightarrow> string list res" where
  "stage_line sg name o1 b base subsets =
     (let a = spread o1 b in
      if nd_shape a \<noteq> nd_shape b
      then Inr [''  '' @ ljust 22 name @ '' SHAPE '' @ show_shape (nd_shape a) @ '' vs '' @ show_shape (nd_shape b)]
      else
        bindR (mapR (subset_part sg a b) subsets) (\<lambda>parts.
        let out = ''  '' @ ljust 22 name @ '' state '' @ join ''  '' (concat parts) in
        case base of
          None \<Rightarrow> Inr [out]
        | Some bs \<Rightarrow>
            bindR (nd_sub a bs) (\<lambda>da.
            bindR (nd_sub b bs) (\<lambda>db.
            bindR (stage_rel sg da db) (\<lambda>v.
              Inr [out @ ''   | INCREMENT '' @ sg_e3 sg v @ '' (|d_OF| '' @ sg_e3 sg (sg_norm sg da) @ '')'']))))) "

definition missing_line :: "string \<Rightarrow> string \<Rightarrow> string" where
  "missing_line name side = ''  '' @ ljust 22 name @ '' MISSING ('' @ side @ '' side)''"

definition base_of :: "(string, 'a ndarray) dict \<Rightarrow> string \<Rightarrow> 'a ndarray option" where
  "base_of bases name = (case dict_get BASE name of None \<Rightarrow> None | Some f \<Rightarrow> dict_get bases f)"

definition load_bases :: "'a stage_lib \<Rightarrow> fsys \<Rightarrow> string option \<Rightarrow> (string, 'a ndarray) dict" where
  "load_bases sg fs basedir =
     (case basedir of None \<Rightarrow> []
      | Some d \<Rightarrow>
          if d = [] then []
          else concat (map (\<lambda>f. case of_internal sg fs (path_join d f) of Inl _ \<Rightarrow> [] | Inr a \<Rightarrow> [(f, a)]) [''U'', ''p'', ''phi'']))"

definition cell_field :: "'a::linordered_field stage_lib \<Rightarrow> fsys \<Rightarrow> string \<Rightarrow> string \<Rightarrow> (string, 'a ndarray) dict \<Rightarrow> subset list \<Rightarrow>
    string \<times> char \<Rightarrow> string list res" where
  "cell_field sg fs ofdir brdir bases sets nk =
     (case of_internal sg fs (path_join ofdir (fst nk)) of
        Inl _ \<Rightarrow> Inr [missing_line (fst nk) ''OpenFOAM'']
      | Inr a \<Rightarrow>
          if \<not> fs_exists fs (path_join brdir (fst nk)) then Inr [missing_line (fst nk) ''brae'']
          else bindR (stage_brae sg brdir (fst nk) (snd nk)) (\<lambda>b. stage_line sg (fst nk) a b (base_of bases (fst nk)) sets))"

definition face_field :: "'a::linordered_field stage_lib \<Rightarrow> fsys \<Rightarrow> string \<Rightarrow> string \<Rightarrow> (string, 'a ndarray) dict \<Rightarrow>
    string \<times> char \<Rightarrow> string list res" where
  "face_field sg fs ofdir brdir bases nk =
     (case of_internal sg fs (path_join ofdir (fst nk)) of
        Inl _ \<Rightarrow> Inr [missing_line (fst nk) ''OpenFOAM'']
      | Inr a \<Rightarrow>
          if \<not> fs_exists fs (path_join brdir (fst nk)) then Inr [missing_line (fst nk) ''brae'']
          else
            bindR (stage_brae sg brdir (fst nk) (snd nk)) (\<lambda>b.
            bindR (shape0 a) (\<lambda>na.
            bindR (shape0 b) (\<lambda>nb.
            let n = min na nb in
            bindR (nd_take n a) (\<lambda>a1.
            bindR (nd_take n b) (\<lambda>b1.
            bindR (case base_of bases (fst nk) of None \<Rightarrow> Inr None | Some bs \<Rightarrow> bindR (nd_take n bs) (\<lambda>x. Inr (Some x))) (\<lambda>bs.
              stage_line sg (fst nk) a1 b1 bs [(''all'', None)])))))))"

subsection \<open>SIMPLEC\<close>

text \<open>The lines of the parts up to the first one that raises, and what it raised.\<close>

fun lines_until :: "string list res list \<Rightarrow> string list \<times> pyexc option" where
  "lines_until [] = ([], None)"
| "lines_until (Inl e # ps) = ([], Some e)"
| "lines_until (Inr ls # ps) = (let r = lines_until ps in (ls @ fst r, snd r))"

definition nd_range :: "('a \<Rightarrow> string) \<Rightarrow> 'a::linordered_field ndarray \<Rightarrow> string res" where
  "nd_range sh a =
     (if nd_list a = [] then Inl ValueError
      else Inr (''['' @ sh (Min (set (nd_list a))) @ '', '' @ sh (Max (set (nd_list a))) @ '']''))"

definition show_names :: "string list \<Rightarrow> string" where
  "show_names ns = ''['' @ join '', '' (map (\<lambda>n. [squote] @ n @ [squote]) ns) @ '']''"

definition worst_line :: "'a::linordered_field stage_lib \<Rightarrow> patch list \<Rightarrow> int list \<Rightarrow> 'a vec \<Rightarrow> 'a vec \<Rightarrow> 'a vec \<Rightarrow> nat \<Rightarrow> string list res" where
  "worst_line sg pats own ro rb d c =
     bindR (nth_or ro c) (\<lambda>vo. bindR (nth_or rb c) (\<lambda>vb. bindR (nth_or d c) (\<lambda>dc.
       Inr [''    cell '' @ rjust 7 (show_nat c) @ ''  OF '' @ sg_e6 sg vo @ ''  brae '' @ sg_e6 sg vb @ ''  rel '' @ sg_e3 sg dc @ ''  ''
            @ show_names (map pa_name (filter (\<lambda>p. in_list (int c) (patch_faces own p)) pats))])))"

definition simplec_parts :: "'a::linordered_field stage_lib \<Rightarrow> fsys \<Rightarrow> string \<Rightarrow> string \<Rightarrow> patch list \<Rightarrow> int list \<Rightarrow> subset list \<Rightarrow>
    'a ndarray \<Rightarrow> 'a ndarray \<Rightarrow> 'a ndarray \<Rightarrow> 'a ndarray \<Rightarrow> string list res list" where
  "simplec_parts sg fs ofdir brdir pats own sets rowOF rAtUb rAtUo rAUo =
     (let diff = bindR (nd_sub rAtUo rAtUb) (\<lambda>e. nd_zip (\<lambda>x y. abs x / max (abs y) (1 / 10 ^ 300)) e rAtUo);
          d = bindR diff nd_vec
      in [Inr [[nl] @ ''SIMPLEC''],
          bindR (nd_zip (/) (Dim0 1) rAtUb) (\<lambda>q. stage_line sg ''rowSum == 1/rAtU'' rowOF q None sets),
          bindR (nd_zip (/) rAtUo rAUo) (\<lambda>q. bindR (nd_range (sg_f4 sg) q) (\<lambda>x.
          bindR (stage_brae sg brdir ''stage_rAU'' (CHR ''s'')) (\<lambda>rAUb.
          bindR (nd_zip (/) rAtUb rAUb) (\<lambda>q2. bindR (nd_range (sg_f4 sg) q2) (\<lambda>y.
            Inr [''  rAtU/rAU   OF   '' @ x @ ''   brae '' @ y]))))),
          bindR (nd_range (sg_e6 sg) rAtUo) (\<lambda>x. bindR (nd_range (sg_e6 sg) rAtUb) (\<lambda>y.
            Inr [''  rAtU       OF   '' @ x @ ''   brae '' @ y @ ''   negatives ''
                 @ show_nat (length (filter (\<lambda>v. v < 0) (nd_list rAtUb)))])),
          bindR diff (\<lambda>_. Inr [''  worst cells by relative rAtU error, with the patches each touches:''])]
         @ (case d of Inl e \<Rightarrow> [Inl e]
            | Inr dv \<Rightarrow>
                map (\<lambda>c. bindR (nd_vec rAtUo) (\<lambda>ro. bindR (nd_vec rAtUb) (\<lambda>rb. worst_line sg pats own ro rb dv c)))
                  (take 8 (sg_argsort sg (map uminus dv)))))"

definition simplec :: "'a::linordered_field stage_lib \<Rightarrow> fsys \<Rightarrow> string \<Rightarrow> string \<Rightarrow> patch list \<Rightarrow> int list \<Rightarrow> subset list \<Rightarrow> string list" where
  "simplec sg fs ofdir brdir pats own sets =
     (let loads =
            bindR (of_internal sg fs (path_join ofdir ''stage_rowSum'')) (\<lambda>rowOF.
            bindR (stage_brae sg brdir ''stage_rAtU'' (CHR ''s'')) (\<lambda>rAtUb.
            bindR (of_internal sg fs (path_join ofdir ''stage_rAtU'')) (\<lambda>rAtUo.
            bindR (of_internal sg fs (path_join ofdir ''stage_rAU'')) (\<lambda>rAUo. Inr (rowOF, rAtUb, rAtUo, rAUo)))));
          r = (case loads of Inl e \<Rightarrow> ([], Some e)
               | Inr (rowOF, rAtUb, rAtUo, rAUo) \<Rightarrow> lines_until (simplec_parts sg fs ofdir brdir pats own sets rowOF rAtUb rAtUo rAUo))
      in fst r @ (case snd r of None \<Rightarrow> [] | Some e \<Rightarrow> [[nl] @ ''SIMPLEC: not comparable -- '' @ sg_show_exc sg e]))"

subsection \<open>The command\<close>

definition count_true :: "bool list \<Rightarrow> nat" where
  "count_true bs = length (filter id bs)"

definition subset_masks :: "bool list \<Rightarrow> bool list \<Rightarrow> subset list" where
  "subset_masks touched wall =
     [(''all'', None), (''interior'', Some (map Not touched)), (''patch-adj'', Some touched), (''wall-adj'', Some wall)]"

definition stages_main :: "'a::linordered_field stage_lib \<Rightarrow> fsys \<Rightarrow> string list \<Rightarrow> string list res" where
  "stages_main sg fs argv =
     bindR (nth_or argv 1) (\<lambda>ofdir. bindR (nth_or argv 2) (\<lambda>brdir. bindR (nth_or argv 3) (\<lambda>meshdir.
     let basedir = (if 4 < length argv then Some (argv ! 4) else None) in
     bindR (of_list sg fs (path_join meshdir ''owner'')) (\<lambda>own.
     bindR (of_list sg fs (path_join meshdir ''neighbour'')) (\<lambda>nei.
     bindR (arr_max own) (\<lambda>mo. bindR (arr_max nei) (\<lambda>mn.
     let nCells = nat (max mo mn + 1) in
     bindR (patches_of sg fs meshdir) (\<lambda>pats.
     bindR (mark_patches own nCells pats) (\<lambda>(touched, wall).
     let sets = subset_masks touched wall; bases = load_bases sg fs basedir in
     bindR (mapR (cell_field sg fs ofdir brdir bases sets) CELLS) (\<lambda>cells.
     bindR (mapR (face_field sg fs ofdir brdir bases) FACES) (\<lambda>faces.
       Inr ([''mesh: '' @ show_nat nCells @ '' cells, '' @ show_nat (length nei) @ '' internal faces; ''
               @ show_nat (count_true (map Not touched)) @ '' interior, '' @ show_nat (count_true touched) @ '' patch-adjacent, ''
               @ show_nat (count_true wall) @ '' wall-adjacent'']
            @ map (\<lambda>p. ''   patch '' @ ljust 16 (pa_name p) @ '' '' @ ljust 10 (pa_type p) @ '' '' @ show_nat (pa_nfaces p) @ '' faces'') pats
            @ [[nl] @ ''CELL FIELDS''] @ concat cells @ [[nl] @ ''INTERNAL-FACE FIELDS''] @ concat faces
            @ simplec sg fs ofdir brdir pats own sets))))))))))))"

subsection \<open>The cells a patch touches\<close>

definition cell_on :: "(string \<Rightarrow> bool) \<Rightarrow> int list \<Rightarrow> patch list \<Rightarrow> nat \<Rightarrow> bool" where
  "cell_on P own pats c = list_ex (\<lambda>p. P (pa_type p) \<and> in_list (int c) (patch_faces own p)) pats"

definition cells_within :: "nat \<Rightarrow> int list \<Rightarrow> bool" where
  "cells_within n cs = list_all (\<lambda>c. 0 \<le> c \<and> c < int n) cs"

lemma cells_within_faces: "cells_within n own \<Longrightarrow> cells_within n (patch_faces own p)"
  unfolding cells_within_def list_all_iff patch_faces_def by (meson in_set_dropD in_set_takeD)

lemma mark_cells_marks:
  "cells_within (length m) cs \<Longrightarrow> mark_cells m cs = Inr (map (\<lambda>i. m ! i \<or> in_list (int i) cs) [0..<length m])"
proof (induction cs arbitrary: m)
  case Nil
  show ?case using map_nth [of m] by (simp add: mark_cells_def in_list_def)
next
  case (Cons c cs)
  have c: "0 \<le> c" "c < int (length m)" and cs: "cells_within (length (m[nat c := True])) cs"
    using Cons.prems by (simp_all add: cells_within_def)
  have "mark_cells m (c # cs) = mark_cells (m[nat c := True]) cs"
    using c by (simp add: mark_cells_def)
  also have "\<dots> = Inr (map (\<lambda>i. m[nat c := True] ! i \<or> in_list (int i) cs) [0..<length m])"
    using Cons.IH [OF cs] by simp
  also have "\<dots> = Inr (map (\<lambda>i. m ! i \<or> in_list (int i) (c # cs)) [0..<length m])"
    using c by (auto simp: in_list_def nth_list_update)
  finally show ?case .
qed

lemma mark_patch_marks:
  assumes "cells_within n own" and "length t = n" and "length w = n"
  shows "mark_patch own (t, w) p =
           Inr (map (\<lambda>c. t ! c \<or> cell_on (\<lambda>ty. ty \<noteq> ''empty'') own [p] c) [0..<n],
                map (\<lambda>c. w ! c \<or> cell_on (\<lambda>ty. ty = ''wall'') own [p] c) [0..<n])"
proof -
  have within: "cells_within (length t) (patch_faces own p)" "cells_within (length w) (patch_faces own p)"
    using assms by (simp_all add: cells_within_faces)
  have same: "map ((!) t) [0..<n] = t" "map ((!) w) [0..<n] = w"
    using map_nth [of t] map_nth [of w] assms by simp_all
  show ?thesis
    using mark_cells_marks [OF within(1)] mark_cells_marks [OF within(2)] assms(2,3) same
    by (simp add: mark_patch_def cell_on_def)
qed

lemma mark_patches_fold:
  assumes "cells_within n own" and "length t = n" and "length w = n"
  shows "foldR (mark_patch own) (t, w) pats =
           Inr (map (\<lambda>c. t ! c \<or> cell_on (\<lambda>ty. ty \<noteq> ''empty'') own pats c) [0..<n],
                map (\<lambda>c. w ! c \<or> cell_on (\<lambda>ty. ty = ''wall'') own pats c) [0..<n])"
  using assms(2,3)
proof (induction pats arbitrary: t w)
  case Nil
  then show ?case using map_nth [of t] map_nth [of w] by (simp add: cell_on_def)
next
  case (Cons p pats)
  have split: "cell_on P own (p # pats) c \<longleftrightarrow> cell_on P own [p] c \<or> cell_on P own pats c" for P c
    by (simp add: cell_on_def)
  show ?case
    using mark_patch_marks [OF assms(1) Cons.prems, of p] Cons.IH
    by (simp add: split disj_assoc)
qed

text \<open>C25: The comparison splits the cells by the patches they touch: with the owners in range, a cell counts as patch-adjacent
  exactly when it owns a face of a patch that is not \<open>empty\<close>, as wall-adjacent exactly when it owns a face of a
  \<open>wall\<close> patch, no wall-adjacent cell is interior, and the interior and the patch-adjacent cells are together all
  the cells.\<close>

theorem patches_mark_their_cells:
  assumes "cells_within nCells own"
  shows "\<exists>touched wall. mark_patches own nCells pats = Inr (touched, wall) \<and>
           touched = map (cell_on (\<lambda>ty. ty \<noteq> ''empty'') own pats) [0..<nCells] \<and>
           wall = map (cell_on (\<lambda>ty. ty = ''wall'') own pats) [0..<nCells] \<and>
           list_all2 (\<lambda>w t. w \<longrightarrow> t) wall touched \<and>
           count_true (map Not touched) + count_true touched = nCells"
proof -
  define touched where "touched = map (cell_on (\<lambda>ty. ty \<noteq> ''empty'') own pats) [0..<nCells]"
  define wall where "wall = map (cell_on (\<lambda>ty. ty = ''wall'') own pats) [0..<nCells]"
  have fold: "mark_patches own nCells pats = Inr (touched, wall)"
    using mark_patches_fold [OF assms, of "replicate nCells False" "replicate nCells False" pats]
    by (simp add: mark_patches_def touched_def wall_def)
  have sub: "list_all2 (\<lambda>w t. w \<longrightarrow> t) wall touched"
    by (force simp: touched_def wall_def list_all2_conv_all_nth cell_on_def list_ex_iff)
  have count: "count_true (map Not bs) + count_true bs = length bs" for bs
    by (induction bs) (simp_all add: count_true_def)
  show ?thesis
    using fold sub count [of touched] by (auto simp: touched_def wall_def)
qed

text \<open>Two cells, one with a wall face and both with an \<open>empty\<close> face.\<close>

theorem patches_mark_their_cells_witness:
  "\<exists>touched wall. mark_patches [0, 0, 0, 1] 2
       [\<lparr>pa_name = ''floor'', pa_type = ''wall'', pa_nfaces = 1, pa_start = 1\<rparr>,
        \<lparr>pa_name = ''front'', pa_type = ''empty'', pa_nfaces = 2, pa_start = 2\<rparr>] = Inr (touched, wall) \<and>
     touched = [True, False] \<and> wall = [True, False] \<and> count_true (map Not touched) + count_true touched = 2"
proof -
  have "cells_within 2 [0, 0, 0, 1]"
    by (simp add: cells_within_def)
  from patches_mark_their_cells [OF this, of
      "[\<lparr>pa_name = ''floor'', pa_type = ''wall'', pa_nfaces = 1, pa_start = 1\<rparr>,
        \<lparr>pa_name = ''front'', pa_type = ''empty'', pa_nfaces = 2, pa_start = 2\<rparr>]"]
  show ?thesis
    by (auto simp: cell_on_def patch_faces_def in_list_def numeral_2_eq_2)
qed

subsection \<open>A uniform field\<close>

text \<open>A field that OpenFOAM writes as uniform is compared with every row of the other side, as if it had been written out.\<close>

lemma uniform_cells_are_spread:
  "1 < length ws \<Longrightarrow> stage_line sg name (Dim1 [v]) (Dim1 ws) base sets =
     stage_line sg name (Dim1 (replicate (length ws) v)) (Dim1 ws) base sets"
  by (simp add: stage_line_def spread_def nd_ndim_def Let_def)


text \<open>A dump whose second face is off by 7 while the first agrees: the line shows no difference.\<close>

definition flux_lib :: "rat stage_lib" where
  "flux_lib =
     \<lparr>sg_float = (\<lambda>s. Inr (rat_of_nat (read_digits s))), sg_numbers = (\<lambda>_. []), sg_ints = (\<lambda>_. []),
      sg_load = (\<lambda>_. Inr (Dim1 [0, 7])), sg_norm = (\<lambda>a. sum_list (map abs (nd_list a))), sg_argsort = (\<lambda>v. [0..<length v]),
      sg_gz = (\<lambda>_. None), sg_show_exc = (\<lambda>_. []), sg_e3 = (\<lambda>v. if v = 0 then ''0.000e+00'' else ''more''),
      sg_e6 = (\<lambda>_. []), sg_f4 = (\<lambda>_. [])\<rparr>"

definition flux_text :: string where
  "flux_text = ''internalField   uniform 0;''"

definition flux_system :: fsys where
  "flux_system =
     \<lparr>fs_isfile = (\<lambda>p. p = ''of/stage_phiU'' \<or> p = ''br/stage_phiU''), fs_isdir = (\<lambda>_. False),
      fs_text = (\<lambda>p. if p = ''of/stage_phiU'' then Some flux_text else None), fs_walk = (\<lambda>_. []), fs_realpath = id,
      fs_relpath = id, fs_size = (\<lambda>_. 0), fs_mtime = (\<lambda>_. 0)\<rparr>"


end
