(* ===== verification/Time_Reports.thy ===== *)
theory Time_Reports
  imports Amg_Arrays Py_Regex Py_Os Complex_Main
begin

text \<open>
  The two reports of timed runs: \<open>tools/timeInterFoam/parts_report.py\<close>, the time per step of the parts of
  interFoam on OpenFOAM and on brae, and \<open>bench/rhoSimpleFoam/phase_table.py\<close>, the time per iteration of
  the blocks of rhoSimpleFoam.  A time is an element of an ordered field; reading a number and the
  formats of the columns are the fields of a record, and NaN is the missing value None.  The theorems show that
  the part table counts every phase of brae once and that the two ways of taking a difference of runs give the
  mean of the steps in between.
\<close>

record 'a report_lib =
  rp_float :: "string \<Rightarrow> 'a res"
  rp_10_1 :: "'a option \<Rightarrow> string"
  rp_8_1 :: "'a option \<Rightarrow> string"
  rp_8_2 :: "'a option \<Rightarrow> string"

text \<open>The lines of an open text file, each with its line feed, and \<open>d[k]\<close>.\<close>

definition open_lines :: "fsys \<Rightarrow> string \<Rightarrow> string list res" where
  "open_lines fs p =
     bindR (read_text fs p) (\<lambda>t.
       let ls = split_on nl (universal_newlines t)
       in Inr (map (\<lambda>l. l @ [nl]) (butlast ls) @ (if last ls = [] then [] else [last ls])))"

definition item :: "(string, 'v) dict \<Rightarrow> string \<Rightarrow> 'v res" where
  "item d k = (case dict_get d k of None \<Rightarrow> Inl (KeyError k) | Some v \<Rightarrow> Inr v)"

subsection \<open>parts_report.py\<close>

definition PARTS_ROOT :: string where
  "PARTS_ROOT = ''/home/ghost/cudafoam/runs/bench/parts''"

definition PARTS :: "string list" where
  "PARTS = [''deltaT'', ''mesh'', ''alpha'', ''momentum'', ''pressure'', ''turbulence'', ''write'']"

text \<open>\<open>{f[i]: float(f[i + 1]) for i in range(2, len(f) - 1, 2)}\<close>.\<close>

fun pairs_of :: "string list \<Rightarrow> (string \<times> string) list" where
  "pairs_of (k # v # r) = (k, v) # pairs_of r"
| "pairs_of r = []"

definition timed_row :: "'a report_lib \<Rightarrow> (int, (string, 'a) dict) dict \<Rightarrow> string \<Rightarrow> (int, (string, 'a) dict) dict res" where
  "timed_row lib rows line =
     (if startswith line ''TIMED '' then
        let f = split_ws line in
        bindR (mapR (\<lambda>kv. bindR (rp_float lib (snd kv)) (\<lambda>x. Inr (fst kv, x))) (pairs_of (drop 2 f))) (\<lambda>ps.
        bindR (nth_or f 1) (\<lambda>n.
        bindR (py_int n) (\<lambda>k. Inr (dict_set k (dict_update [] ps) rows))))
      else Inr rows)"

definition row_at :: "(int, (string, 'a) dict) dict \<Rightarrow> int \<Rightarrow> (string, 'a) dict res" where
  "row_at rows k = (case dict_get rows k of None \<Rightarrow> Inl (KeyError (show_int k)) | Some r \<Rightarrow> Inr r)"

definition part_mean :: "(int, (string, 'a::linordered_field) dict) dict \<Rightarrow> int \<Rightarrow> int \<Rightarrow> string \<Rightarrow> (string \<times> 'a) res" where
  "part_mean rows lst k0 k =
     bindR (row_at rows lst) (\<lambda>r1. bindR (item r1 k) (\<lambda>x.
     bindR (row_at rows k0) (\<lambda>r0. bindR (item r0 k) (\<lambda>y. Inr (k, 1000 * (x - y) / of_int (lst - k0))))))"

definition of_parts :: "'a::linordered_field report_lib \<Rightarrow> fsys \<Rightarrow> string \<Rightarrow> int \<Rightarrow> string \<Rightarrow> (string, 'a) dict option res" where
  "of_parts lib fs label k0 arm =
     (let p = PARTS_ROOT @ ''/p_'' @ label @ ''_'' @ arm @ ''/log.of'' in
      if \<not> fs_exists fs p then Inr None
      else
        bindR (open_lines fs p) (\<lambda>ls.
        bindR (foldR (timed_row lib) [] ls) (\<lambda>rows.
        if rows = [] then Inr None
        else
          let lst = Max (set (keys rows)) - 1 in
          if lst - k0 < 5 \<or> \<not> in_list k0 (keys rows) then Inr None
          else bindR (mapR (part_mean rows lst k0) PARTS) (\<lambda>ps. Inr (Some ps)))))"

text \<open>The phase table of a log of brae.\<close>

record 'a phases =
  ph_steps :: nat
  ph_top :: "(string, 'a) dict"
  ph_nested :: "(string, 'a) dict"
  ph_inside :: bool

definition steps_rx :: rx where
  "steps_rx = RSeqs [RLit ''phase time over '', RGrp 1 (RPlus (RSet CDigit)), RLit '' steps'']"

definition digit_dot :: cset where
  "digit_dot = CUn CDigit (CS ''.'')"

definition phase_rx :: rx where
  "phase_rx = RSeqs [RSp1, RGrp 1 (RLazy (RSet CDot)), RSp1, RGrp 2 (RPlus (RSet digit_dot)), RLit '' ms/step'']"

definition phase_line :: "'a report_lib \<Rightarrow> 'a phases \<Rightarrow> string \<Rightarrow> 'a phases res" where
  "phase_line lib st line =
     (case re_search steps_rx line of
        Some m \<Rightarrow> Inr (st\<lparr>ph_steps := read_digits (group_text line m 1)\<rparr>)
      | None \<Rightarrow>
          if contains line ''inside those phases'' then Inr (st\<lparr>ph_inside := True\<rparr>)
          else
            (case re_match phase_rx line of
               None \<Rightarrow> Inr st
             | Some m \<Rightarrow>
                 if ph_steps st = 0 then Inr st
                 else
                   let name = strip (group_text line m 1) in
                   bindR (rp_float lib (group_text line m 2)) (\<lambda>v.
                     if name = ''ALL PHASES'' then Inr (st\<lparr>ph_top := dict_set name v (ph_top st)\<rparr>)
                     else if ph_inside st then Inr (st\<lparr>ph_nested := dict_set name v (ph_nested st)\<rparr>)
                     else Inr (st\<lparr>ph_top := dict_set name v (ph_top st)\<rparr>))))"

definition no_phases :: "'a phases" where
  "no_phases = \<lparr>ph_steps = 0, ph_top = [], ph_nested = [], ph_inside = False\<rparr>"

definition brae_table :: "'a report_lib \<Rightarrow> fsys \<Rightarrow> string \<Rightarrow> string \<Rightarrow> ((string, 'a) dict option \<times> nat \<times> (string, 'a) dict) res" where
  "brae_table lib fs label arm =
     (let p = PARTS_ROOT @ ''/p_'' @ label @ ''_brae_'' @ arm @ ''/log.brae'' in
      if \<not> fs_exists fs p then Inr (None, 0, [])
      else
        bindR (open_lines fs p) (\<lambda>ls.
        bindR (foldR (phase_line lib) no_phases ls) (\<lambda>st. Inr (Some (ph_top st), ph_steps st, ph_nested st))))"

definition per_step :: "(string, 'a::linordered_field) dict \<Rightarrow> nat \<Rightarrow> (string, 'a) dict \<Rightarrow> nat \<Rightarrow> (string, 'a) dict" where
  "per_step full nf half nh =
     map (\<lambda>kv. (fst kv, (snd kv * of_nat nf - get_or half (fst kv) 0 * of_nat nh) / (of_nat nf - of_nat nh))) full"

definition falsy :: "(string, 'a) dict option \<Rightarrow> bool" where
  "falsy d = (case d of None \<Rightarrow> True | Some xs \<Rightarrow> xs = [])"

definition brae_parts :: "'a::linordered_field report_lib \<Rightarrow> fsys \<Rightarrow> string \<Rightarrow>
    ((string, 'a) dict option \<times> (string, 'a) dict option \<times> string) res" where
  "brae_parts lib fs label =
     bindR (brae_table lib fs label ''full'') (\<lambda>(full, nf, nestF).
     bindR (brae_table lib fs label ''half'') (\<lambda>(half, nh, nestH).
     if falsy full \<or> falsy half \<or> nf \<le> nh
     then Inr (None, None, ''brae: '' @ (if falsy full \<or> falsy half then ''no phase table''
                                         else ''run lengths '' @ show_nat nf @ '' and '' @ show_nat nh))
     else Inr (Some (per_step (the full) nf (the half) nh), Some (per_step nestF nf nestH nh),
               show_nat nf @ '' and '' @ show_nat nh @ '' steps'')))"

definition PART_MAP :: "(string \<times> string list) list" where
  "PART_MAP =
     [(''deltaT'', [''0 between steps'', ''0 before setRDeltaT'', ''0 setRDeltaT'']),
      (''mesh'', [''0 step preparation'']),
      (''alpha'', [''1 alpha step'']),
      (''momentum'', [''2 interface forces'', ''3 momentum matrix'', ''4 momentum predictor'']),
      (''pressure'', [''5 pressure correctors'']),
      (''turbulence'', [''7 turbulence closure'', ''8 grad(U)'']),
      (''write'', [''9 write'', ''6 after the step'', ''9 end of the outer''])]"

definition phase_sum :: "(string, 'a::linordered_field) dict \<Rightarrow> string list \<Rightarrow> 'a" where
  "phase_sum bp pre = sum_list (map snd (filter (\<lambda>kv. startswith_any (fst kv) pre) bp))"

definition show_ms :: "'a report_lib \<Rightarrow> 'a option \<Rightarrow> string" where
  "show_ms lib v = (case v of None \<Rightarrow> ''         -'' | Some x \<Rightarrow> rp_10_1 lib (Some x))"

definition show_ratio :: "'a::linordered_field report_lib \<Rightarrow> 'a option \<Rightarrow> 'a option \<Rightarrow> string" where
  "show_ratio lib a c =
     (case (a, c) of
        (Some x, Some y) \<Rightarrow> if x \<noteq> 0 \<and> y > 1 / 20 then rp_8_2 lib (Some (x / y)) @ ''x'' else ''        -''
      | _ \<Rightarrow> ''        -'')"

definition part_of :: "(string, 'a) dict option \<Rightarrow> string \<Rightarrow> 'a option res" where
  "part_of parts k = (case parts of None \<Rightarrow> Inr None | Some d \<Rightarrow> if d = [] then Inr None else bindR (item d k) (\<lambda>v. Inr (Some v)))"

type_synonym 'a totals = "'a \<times> 'a \<times> 'a"

definition or_zero :: "'a::linordered_field option \<Rightarrow> 'a" where
  "or_zero v = (case v of None \<Rightarrow> 0 | Some x \<Rightarrow> x)"

definition part_line :: "'a::linordered_field report_lib \<Rightarrow> (string, 'a) dict option \<Rightarrow> (string, 'a) dict option \<Rightarrow> (string, 'a) dict option \<Rightarrow>
    'a totals \<times> string list \<Rightarrow> string \<times> string list \<Rightarrow> ('a totals \<times> string list) res" where
  "part_line lib o1 o20 bp acc pk =
     (let b = (case bp of None \<Rightarrow> None | Some d \<Rightarrow> if d = [] then None else Some (phase_sum d (snd pk)));
          tot = fst acc in
      bindR (part_of o1 (fst pk)) (\<lambda>a1.
      bindR (part_of o20 (fst pk)) (\<lambda>a20.
        Inr ((fst tot + or_zero a1, fst (snd tot) + or_zero a20, snd (snd tot) + or_zero b),
             snd acc @ [''  '' @ ljust 12 (fst pk) @ '' '' @ show_ms lib a1 @ '' '' @ show_ms lib a20 @ '' '' @ show_ms lib b
               @ '' '' @ show_ratio lib a20 b @ '' '' @ show_ratio lib a1 b]))))"

definition total_line :: "'a::linordered_field report_lib \<Rightarrow> 'a totals \<Rightarrow> string" where
  "total_line lib tot =
     (let t0 = fst tot; t1 = fst (snd tot); t2 = snd (snd tot);
          q = (\<lambda>x. rp_8_2 lib (Some (if t2 \<noteq> 0 then x / t2 else 0)))
      in ''  '' @ ljust 12 ''TOTAL'' @ '' '' @ rp_10_1 lib (Some t0) @ '' '' @ rp_10_1 lib (Some t1) @ '' '' @ rp_10_1 lib (Some t2)
         @ '' '' @ q t1 @ ''x '' @ q t0 @ ''x'')"

definition nested_lines :: "'a::linordered_field report_lib \<Rightarrow> (string, 'a) dict option \<Rightarrow> string list" where
  "nested_lines lib bn =
     (case bn of None \<Rightarrow> []
      | Some d \<Rightarrow>
          if d = [] then []
          else ''  inside brae, ms a step:''
               # map (\<lambda>kv. ''    '' @ ljust 48 (fst kv) @ '' '' @ rp_8_1 lib (Some (snd kv)))
                   (filter (\<lambda>kv. 3 / 10 \<le> snd kv) (take 14 (sort_key (\<lambda>kv. - snd kv) d))))"

definition parts_main :: "'a::linordered_field report_lib \<Rightarrow> fsys \<Rightarrow> string list \<Rightarrow> string list res" where
  "parts_main lib fs argv =
     bindR (nth_or argv 1) (\<lambda>label. bindR (nth_or argv 2) (\<lambda>cells.
     bindR (nth_or argv 3) (\<lambda>n. bindR (py_int n) (\<lambda>_.
     bindR (nth_or argv 4) (\<lambda>k. bindR (py_int k) (\<lambda>k0.
     bindR (of_parts lib fs label k0 ''of1'') (\<lambda>o1.
     bindR (of_parts lib fs label k0 ''of20'') (\<lambda>o20.
     bindR (brae_parts lib fs label) (\<lambda>(bp, bn, note).
     bindR (foldR (part_line lib o1 o20 bp) ((0, 0, 0), []) PART_MAP) (\<lambda>(tot, ls).
       Inr ([label @ ''  ('' @ cells @ '' cells)   ms a step'',
             ''  '' @ ljust 12 ''part'' @ '' '' @ rjust 10 ''OF 1 core'' @ '' '' @ rjust 10 ''OF 20'' @ '' '' @ rjust 10 ''brae''
               @ '' '' @ rjust 9 ''vs 20'' @ '' '' @ rjust 9 ''vs 1'']
            @ ls @ [total_line lib tot, ''  ('' @ note @ '')''] @ nested_lines lib bn)))))))))))"

subsection \<open>phase_table.py\<close>

definition sci_chars :: cset where
  "sci_chars = CUn CDigit (CS ''.eE+-'')"

definition value_rx :: rx where
  "value_rx = RSeqs [RGrp 1 RName, RLit '' '', RGrp 2 (RPlus (RSet sci_chars))]"

definition solve_rx :: rx where
  "solve_rx = RSeqs [RLit ''(solve '', RGrp 1 (RPlus (RSet sci_chars)), RLit '')'']"

text \<open>\<open>dict(re.findall(...))\<close> and a value of it.\<close>

definition line_values :: "string \<Rightarrow> (string, string) dict" where
  "line_values line = dict_update [] (map (\<lambda>m. (group_text line m 1, group_text line m 2)) (finditer value_rx line))"

definition block_row :: "'a report_lib \<Rightarrow> string \<Rightarrow> (string, 'a) dict res" where
  "block_row lib line =
     (let v = line_values line; sol = findall solve_rx 1 line;
          val = (\<lambda>k. bindR (item v k) (rp_float lib)); solve = (\<lambda>i. bindR (nth_or sol i) (rp_float lib)) in
      mapR (\<lambda>kx. bindR (snd kx) (\<lambda>x. Inr (fst kx, x)))
        [(''UEqn'', val ''UEqn''), (''Usol'', solve 0), (''EEqn'', val ''EEqn''), (''Esol'', solve 1),
         (''pEqn'', val ''pEqn''), (''psol'', solve 2), (''turbulence'', val ''turbulence''), (''rest'', val ''rest''),
         (''total'', val ''total'')])"

text \<open>\<open>rows[skip:]\<close>.\<close>

definition slice_from :: "'b list \<Rightarrow> int \<Rightarrow> 'b list" where
  "slice_from xs k = (if 0 \<le> k then drop (nat k) xs else drop (nat (int (length xs) + k)) xs)"

definition block_mean :: "(string, 'a::linordered_field) dict list \<Rightarrow> string \<Rightarrow> (string \<times> 'a) res" where
  "block_mean rows k = bindR (mapR (\<lambda>r. item r k) rows) (\<lambda>vs. Inr (k, 1000 * sum_list vs / of_nat (length rows)))"

definition of_blocks :: "'a::linordered_field report_lib \<Rightarrow> string list \<Rightarrow> int \<Rightarrow> ((string, 'a) dict \<times> nat) res" where
  "of_blocks lib ls skip =
     bindR (mapR (block_row lib) (filter (\<lambda>l. startswith l ''PHASE'') ls)) (\<lambda>all.
     let rows = slice_from all skip in
     bindR (nth_or rows 0) (\<lambda>r0.
     bindR (mapR (block_mean rows) (keys r0)) (\<lambda>ms. Inr (ms, length rows))))"

definition seconds_rx :: rx where
  "seconds_rx = RPlus (RSet digit_dot)"

definition timed_rx :: "string \<Rightarrow> nat \<Rightarrow> rx" where
  "timed_rx name k = RSeqs [RLit (name @ '' ''), seconds_rx, RLit '' s ('', RGrp k seconds_rx, RLit '' ms/it)'']"

definition blocks_rx :: rx where
  "blocks_rx = RSeqs [RLit ''[phase] over '', RGrp 1 (RPlus (RSet CDigit)), RLit '' iterations: '', timed_rx ''UEqn'' 2, RLit '', '',
     timed_rx ''EEqn'' 3, RLit '', '', timed_rx ''pEqn'' 4, RLit '', '', timed_rx ''turbulence'' 5, RLit ''; '', timed_rx ''the four total'' 6]"

definition solves_rx :: rx where
  "solves_rx = RSeqs [RLit ''linear solves: '', timed_rx ''U'' 1, RLit '', '', timed_rx ''he'' 2, RLit '', '', timed_rx ''p'' 3]"

definition wall_rx :: rx where
  "wall_rx = RSeqs [RLit ''ExecutionTime = '', RGrp 1 seconds_rx, RLit '' s'']"

fun total_wall :: "'a report_lib \<Rightarrow> string list \<Rightarrow> 'a option res" where
  "total_wall lib [] = Inr None"
| "total_wall lib (l # ls) =
     (case re_search wall_rx l of None \<Rightarrow> total_wall lib ls
      | Some m \<Rightarrow> bindR (rp_float lib (group_text l m 1)) (\<lambda>v. Inr (Some v)))"

definition read_groups :: "'a report_lib \<Rightarrow> rx \<Rightarrow> string \<Rightarrow> nat list \<Rightarrow> 'a list res" where
  "read_groups lib r s ks =
     (case re_search r s of None \<Rightarrow> Inl AttributeError | Some m \<Rightarrow> mapR (\<lambda>k. rp_float lib (group_text s m k)) ks)"

definition whole_iteration :: "'a::linordered_field option \<Rightarrow> 'a option \<Rightarrow> nat \<Rightarrow> 'a option res" where
  "whole_iteration brae_ms wall nIt =
     (case brae_ms of Some v \<Rightarrow> Inr (Some v)
      | None \<Rightarrow>
          (case wall of None \<Rightarrow> Inr None
           | Some w \<Rightarrow> if w = 0 then Inr None else if nIt = 0 then Inl ZeroDivision else Inr (Some (1000 * w / of_nat nIt))))"

definition brae_blocks :: "'a::linordered_field report_lib \<Rightarrow> string \<Rightarrow> 'a option \<Rightarrow> ((string, 'a option) dict \<times> nat) res" where
  "brae_blocks lib txt brae_ms =
     bindR (read_groups lib blocks_rx txt [2, 3, 4, 5, 6]) (\<lambda>g.
     bindR (read_groups lib solves_rx txt [1, 2, 3]) (\<lambda>s.
     let nIt = (case re_search blocks_rx txt of None \<Rightarrow> 0 | Some m \<Rightarrow> read_digits (group_text txt m 1)) in
     bindR (total_wall lib (rev (split_on nl txt))) (\<lambda>wall.
     bindR (whole_iteration brae_ms wall nIt) (\<lambda>total.
       Inr ([(''UEqn'', Some (g ! 0)), (''EEqn'', Some (g ! 1)), (''pEqn'', Some (g ! 2)), (''turbulence'', Some (g ! 3)),
             (''four'', Some (g ! 4)), (''Usol'', Some (s ! 0)), (''Esol'', Some (s ! 1)), (''psol'', Some (s ! 2)),
             (''total'', total), (''rest'', map_option (\<lambda>t. t - g ! 4) total)], nIt)))))"

definition BLOCKS :: "(string \<times> string) list" where
  "BLOCKS =
     [(''UEqn (assemble+solve)'', ''UEqn''), (''  of which U solve'', ''Usol''),
      (''EEqn (assemble+solve)'', ''EEqn''), (''  of which he solve'', ''Esol''),
      (''pEqn (assemble+solve)'', ''pEqn''), (''  of which p solve'', ''psol''),
      (''turbulence (k+eps)'', ''turbulence''), (''rest of the iteration'', ''rest''),
      (''whole iteration'', ''total'')]"

definition block_line :: "'a::linordered_field report_lib \<Rightarrow> (string, 'a) dict \<Rightarrow> (string, 'a option) dict \<Rightarrow> string \<times> string \<Rightarrow> string res" where
  "block_line lib ofm b nk =
     bindR (item ofm (snd nk)) (\<lambda>x. bindR (item b (snd nk)) (\<lambda>y.
       Inr (ljust 22 (fst nk) @ '' '' @ rp_10_1 lib (Some x) @ '' '' @ rp_10_1 lib y @ '' ''
            @ rp_8_2 lib (if 0 < x then map_option (\<lambda>v. v / x) y else None))))"

definition table_main :: "'a::linordered_field report_lib \<Rightarrow> fsys \<Rightarrow> string list \<Rightarrow> string list res" where
  "table_main lib fs argv =
     bindR (nth_or argv 1) (\<lambda>of_log. bindR (nth_or argv 2) (\<lambda>brae_log.
     bindR (if 3 < length argv then py_int (argv ! 3) else Inr 1) (\<lambda>skip.
     bindR (if 4 < length argv then bindR (rp_float lib (argv ! 4)) (\<lambda>v. Inr (Some v)) else Inr None) (\<lambda>brae_ms.
     bindR (open_lines fs of_log) (\<lambda>ls.
     bindR (of_blocks lib ls skip) (\<lambda>(ofm, n).
     bindR (read_text fs brae_log) (\<lambda>txt.
     bindR (brae_blocks lib (universal_newlines txt) brae_ms) (\<lambda>(b, nIt).
     bindR (mapR (block_line lib ofm b) BLOCKS) (\<lambda>lines.
       Inr ([ljust 22 ''block (ms/iteration)'' @ '' '' @ rjust 10 ''OF-20c'' @ '' '' @ rjust 10 ''brae'' @ '' '' @ rjust 8 ''brae/OF'']
            @ lines
            @ [''(OpenFOAM: mean over '' @ show_nat n @ '' iterations after skipping '' @ show_int skip
                 @ '', max over ranks; brae: over '' @ show_nat nIt @ '' iterations)''])))))))))) "

subsection \<open>The part table\<close>

text \<open>Two prefixes of one text are comparable, so a phase belongs to one part at most when no two prefixes of different
  parts are.\<close>

definition comparable :: "string \<Rightarrow> string \<Rightarrow> bool" where
  "comparable p q \<longleftrightarrow> startswith p q \<or> startswith q p"

lemma startswith_comparable: "startswith s p \<Longrightarrow> startswith s q \<Longrightarrow> comparable p q"
  by (auto simp: comparable_def startswith_prefix dest: prefix_same_cases)

fun separate :: "(string \<times> string list) list \<Rightarrow> bool" where
  "separate [] = True"
| "separate (pk # rest) =
     (list_all (\<lambda>p. list_all (\<lambda>q. \<not> comparable p q) (concat (map snd rest))) (snd pk) \<and> separate rest)"

lemma phase_sum_split:
  assumes "list_all (\<lambda>p. list_all (\<lambda>q. \<not> comparable p q) qs) ps"
  shows "phase_sum bp (ps @ qs) = phase_sum bp ps + phase_sum bp qs"
proof -
  have one: "startswith_any k ps \<Longrightarrow> \<not> startswith_any k qs" for k
    using assms startswith_comparable [of k] by (fastforce simp: startswith_any_def list_all_iff list_ex_iff)
  show ?thesis
    by (induction bp) (auto simp: phase_sum_def startswith_any_def dest: one [unfolded startswith_any_def])
qed

lemma phase_sum_parts:
  "separate pm \<Longrightarrow> sum_list (map (\<lambda>pk. phase_sum bp (snd pk)) pm) = phase_sum bp (concat (map snd pm))"
proof (induction pm)
  case Nil
  show ?case by (simp add: phase_sum_def startswith_any_def)
next
  case (Cons pk pm)
  then show ?case using phase_sum_split [of "concat (map snd pm)" "snd pk" bp] by simp
qed

lemma part_map_separate: "separate PART_MAP"
  by code_simp

definition whole_parts :: "(string, 'a) dict option \<Rightarrow> bool" where
  "whole_parts o1 \<longleftrightarrow> (case o1 of None \<Rightarrow> True | Some d \<Rightarrow> keys d = PARTS)"

lemma mapR_keys: "mapR f ks = Inr ps \<Longrightarrow> (\<And>k p. f k = Inr p \<Longrightarrow> fst p = k) \<Longrightarrow> keys ps = ks"
  by (induction ks arbitrary: ps) (auto simp: bindR_Inr_iff)

lemma of_parts_whole: "of_parts lib fs label k0 arm = Inr o1 \<Longrightarrow> whole_parts o1"
  by (auto simp: of_parts_def whole_parts_def Let_def bindR_Inr_iff part_mean_def split: if_splits intro!: mapR_keys)

lemma part_of_whole:
  assumes "whole_parts o1" and "k \<in> set PARTS"
  shows "\<exists>v. part_of o1 k = Inr v"
proof (cases o1)
  case (Some d)
  with assms have "dict_get d k \<noteq> None"
    by (simp add: whole_parts_def dict_get_None_iff)
  with Some show ?thesis
    by (auto simp: part_of_def item_def)
qed (simp add: part_of_def)

lemma part_lines_total:
  assumes "whole_parts o1" and "whole_parts o20" and "d \<noteq> []" and "list_all (\<lambda>pk. fst pk \<in> set PARTS) pm"
  shows "\<exists>tot ls. foldR (part_line lib o1 o20 (Some d)) acc pm = Inr (tot, ls) \<and>
           snd (snd tot) = snd (snd (fst acc)) + sum_list (map (\<lambda>pk. phase_sum d (snd pk)) pm) \<and>
           length ls = length (snd acc) + length pm"
  using assms(4)
proof (induction pm arbitrary: acc)
  case Nil
  show ?case by (cases acc) simp
next
  case (Cons pk pm)
  then obtain a1 a20 where "part_of o1 (fst pk) = Inr a1" "part_of o20 (fst pk) = Inr a20"
    using part_of_whole [OF assms(1), of "fst pk"] part_of_whole [OF assms(2), of "fst pk"] by auto
  then obtain acc' where step: "part_line lib o1 o20 (Some d) acc pk = Inr acc'"
      and tot: "snd (snd (fst acc')) = snd (snd (fst acc)) + phase_sum d (snd pk)"
      and len: "length (snd acc') = Suc (length (snd acc))"
    using assms(3) by (simp add: part_line_def or_zero_def Let_def)
  obtain t ls where IH: "foldR (part_line lib o1 o20 (Some d)) acc' pm = Inr (t, ls)"
      "snd (snd t) = snd (snd (fst acc')) + sum_list (map (\<lambda>pk. phase_sum d (snd pk)) pm)"
      "length ls = length (snd acc') + length pm"
    using Cons.IH [of acc'] Cons.prems by auto
  then show ?case
    using step tot len by (auto simp: add.assoc)
qed

text \<open>C26: The part table counts the phases of brae once: with the parts of OpenFOAM complete or absent the table is printed,
  one line for each part, and the brae column of the total is the sum of the phases that belong to some
  part, none of them counted in two parts and the sum \<open>ALL PHASES\<close> not counted at all.\<close>

theorem part_table_counts_once:
  assumes "whole_parts o1" and "whole_parts o20" and "d \<noteq> []"
  shows "\<exists>tot ls. foldR (part_line lib o1 o20 (Some d)) ((0, 0, 0), []) PART_MAP = Inr (tot, ls) \<and>
           snd (snd tot) = phase_sum d (concat (map snd PART_MAP)) \<and> length ls = length PARTS \<and>
           phase_sum [(''ALL PHASES'', v)] (concat (map snd PART_MAP)) = 0"
proof -
  have parts: "list_all (\<lambda>pk. fst pk \<in> set PARTS) PART_MAP" "length PART_MAP = length PARTS"
    by code_simp+
  have all: "\<not> startswith_any ''ALL PHASES'' (concat (map snd PART_MAP))"
    by code_simp
  show ?thesis
    using part_lines_total [OF assms parts(1), of lib "((0, 0, 0), [])"] phase_sum_parts [OF part_map_separate, of d]
      parts(2) all by (auto simp: phase_sum_def)
qed

definition plain_report :: "rat report_lib" where
  "plain_report = \<lparr>rp_float = (\<lambda>s. Inr (rat_of_nat (read_digits s))), rp_10_1 = (\<lambda>_. []), rp_8_1 = (\<lambda>_. []), rp_8_2 = (\<lambda>_. [])\<rparr>"

definition phases_example :: "(string, rat) dict" where
  "phases_example = [(''0 before setRDeltaT(): courant'', 2), (''1 alpha step'', 5), (''2 unlisted'', 11), (''ALL PHASES'', 18)]"

theorem part_table_counts_once_witness:
  "\<exists>tot ls. foldR (part_line plain_report None (Some (map (\<lambda>k. (k, 1)) PARTS)) (Some phases_example)) ((0, 0, 0), []) PART_MAP =
       Inr (tot, ls) \<and> snd (snd tot) = 7 \<and> length ls = 7"
proof -
  have whole: "whole_parts (None :: (string, rat) dict option)" "whole_parts (Some (map (\<lambda>k. (k, 1 :: rat)) PARTS))"
    by (simp_all add: whole_parts_def comp_def)
  have some: "phases_example \<noteq> []"
    by (simp add: phases_example_def)
  have sum: "phase_sum phases_example (concat (map snd PART_MAP)) = 7" "length PARTS = 7"
    by code_simp+
  show ?thesis
    using part_table_counts_once [OF whole some, of plain_report 18] sum by auto
qed

subsection \<open>Differences of runs\<close>

definition mean_between :: "'a::linordered_field list \<Rightarrow> nat \<Rightarrow> nat \<Rightarrow> 'a" where
  "mean_between ts a b = sum_list (take (b - a) (drop a ts)) / of_nat (b - a)"

lemma sum_take_split: "a \<le> b \<Longrightarrow> sum_list (take b ts) = sum_list (take a ts) + sum_list (take (b - a) (drop a ts))"
  for ts :: "'a::linordered_field list"
  by (metis le_add_diff_inverse sum_list_append take_add)

lemma dict_get_per_step:
  "dict_get full k = Some x \<Longrightarrow>
     dict_get (per_step full nf half nh) k = Some ((x * of_nat nf - get_or half k 0 * of_nat nh) / (of_nat nf - of_nat nh))"
  by (induction full) (auto simp: per_step_def dict_get_def)

text \<open>Both columns are means over the steps between the two readings: on OpenFOAM's side the difference of the running
  sums of a part at two steps gives its mean time in milliseconds over the steps between them, and on brae's side
  the means of a long run and of a run that is the beginning of it give the mean of the steps after that
  beginning.\<close>

theorem differences_are_means:
  assumes "nh < nf" and "0 < nh"
    and "dict_get rows (int nf) = Some r1" and "dict_get r1 k = Some (sum_list (take nf ts))"
    and "dict_get rows (int nh) = Some r0" and "dict_get r0 k = Some (sum_list (take nh ts))"
    and "dict_get full k = Some (mean_between ts 0 nf)" and "dict_get half k = Some (mean_between ts 0 nh)"
  shows "part_mean rows (int nf) (int nh) k = Inr (k, 1000 * mean_between ts nh nf) \<and>
         dict_get (per_step full nf half nh) k = Some (mean_between ts nh nf)"
proof -
  have diff: "sum_list (take nf ts) - sum_list (take nh ts) = sum_list (take (nf - nh) (drop nh ts))"
    using sum_take_split [of nh nf ts] assms(1) by simp
  have len: "of_nat (nf - nh) = (of_nat nf - of_nat nh :: 'a)" "of_int (int nf - int nh) = (of_nat nf - of_nat nh :: 'a)"
    using assms(1) by (simp_all add: of_nat_diff)
  have whole: "mean_between ts 0 n * of_nat n = sum_list (take n ts)" if "0 < n" for n
    using that by (simp add: mean_between_def)
  show ?thesis
    using assms dict_get_per_step [OF assms(7), of nf half nh] whole [of nf] whole [of nh] diff len
    by (simp add: part_mean_def row_at_def item_def get_or_def mean_between_def)
qed

text \<open>Steps of 9, 1, 2 and 3 seconds: after the first, 2 seconds a step.\<close>

theorem differences_are_means_witness:
  "part_mean [(1, [(''mesh'', 9)]), (4, [(''mesh'', 15 :: rat)])] 4 1 ''mesh'' = Inr (''mesh'', 2000) \<and>
   dict_get (per_step [(''mesh'', 15 / 4 :: rat)] 4 [(''mesh'', 9)] 1) ''mesh'' = Some 2"
  using differences_are_means [of 1 4 "[(1, [(''mesh'', 9)]), (4, [(''mesh'', 15 :: rat)])]" "[(''mesh'', 15)]" "''mesh''" "[9, 1, 2, 3]"
      "[(''mesh'', 9)]" "[(''mesh'', 15 / 4)]" "[(''mesh'', 9)]"]
  by (simp add: dict_get_def mean_between_def numeral_eq_Suc)

end
