(* ===== verification/Bench_Plots.thy ===== *)
theory Bench_Plots
  imports Py_Os Complex_Main
begin

text \<open>
  The figures of the benchmarks: \<open>bench/rhoSimpleFoam/plot_benchmark.py\<close> (the arms at one mesh size and the throughput
  over the sizes) and \<open>bench/results/simpleFoam/plot_runtime.py\<close> (the bars of the runtimes).  A decimal of the
  tables is the rational it writes; a call on an axis is a value of \<open>chart\<close> with its data, its colour and, where
  there is one, its label, and fonts, sizes and the layout of the canvas are left out.  The formats of
  numbers and the square root that places two of the labels are the fields of a record.  The theorems show what
  the marks, the labels and the axes of the figures have to do with the numbers of the tables.
\<close>

record chart_lib =
  ct_f0 :: "rat \<Rightarrow> string"
  ct_f1 :: "rat \<Rightarrow> string"
  ct_sqrt :: "rat \<Rightarrow> rat"

datatype chart =
    Plot "rat list" "rat list" string
  | Marker "rat \<times> rat" string
  | Annotate string "rat \<times> rat" string
  | Bar rat rat rat string "string option"
  | ChartText string "rat \<times> rat"
  | XLim rat rat
  | YLim rat rat
  | XTicks "(rat \<times> string) list"
  | YTicks "(rat \<times> string) list"
  | Legend "string list"
  | Title string

subsection \<open>The tables of plot_benchmark.py\<close>

definition SERIES :: "(string \<times> string) list" where
  "SERIES = [(''brae'', ''#2a78d6''), (''OpenFOAM 64c'', ''#eb6834''), (''AMGX'', ''#1baf7a''),
             (''PETSc'', ''#eda100''), (''spuma'', ''#e87ba4'')]"

abbreviation INK :: string where "INK \<equiv> ''#0b0b0b''"
abbreviation INK3 :: string where "INK3 \<equiv> ''#86847d''"
abbreviation GRID :: string where "GRID \<equiv> ''#e6e4de''"
abbreviation SURF :: string where "SURF \<equiv> ''#fcfcfb''"

record panel_row =
  pr_case :: string
  pr_cells :: nat
  pr_vals :: "rat list"
  pr_warm :: rat

definition PANEL :: "panel_row list" where
  "PANEL =
     [\<lparr>pr_case = ''aerofoilNACA0012'', pr_cells = 1024000, pr_vals = [111 / 10, 446 / 10, 1277 / 10, 1327 / 10, 14952 / 10], pr_warm = 43 / 10\<rparr>,
      \<lparr>pr_case = ''squareBend'', pr_cells = 7168000, pr_vals = [509 / 10, 1072 / 10, 12299 / 10, 12785 / 10, 15701 / 10], pr_warm = 101 / 10\<rparr>,
      \<lparr>pr_case = ''squareBendLiq'', pr_cells = 7168000, pr_vals = [476 / 10, 933 / 10, 13542 / 10, 13896 / 10, 6194 / 10], pr_warm = 89 / 10\<rparr>,
      \<lparr>pr_case = ''squareBendLiqNoNewtonian'', pr_cells = 7168000, pr_vals = [390 / 10, 680 / 10, 9365 / 10, 9722 / 10, 4991 / 10], pr_warm = 102 / 10\<rparr>,
      \<lparr>pr_case = ''injectorPipe'', pr_cells = 2576294, pr_vals = [215 / 10, 338 / 10, 5874 / 10, 5802 / 10, 2234 / 10], pr_warm = 52 / 10\<rparr>,
      \<lparr>pr_case = ''angledDuct'', pr_cells = 3500000, pr_vals = [230 / 10, 341 / 10, 4454 / 10, 4673 / 10, 2175 / 10], pr_warm = 50 / 10\<rparr>]"

definition TREND :: "(string, (nat \<times> rat) list) dict" where
  "TREND =
     [(''aerofoilNACA0012'', [(14938, 199 / 100), (64000, 238 / 100), (1024000, 401 / 100), (10000000, 846 / 100)]),
      (''squareBend'', [(14200, 148 / 100), (896000, 135 / 100), (7168000, 211 / 100)]),
      (''squareBendLiq'', [(112000, 98 / 100), (896000, 123 / 100), (7168000, 196 / 100), (24192000, 202 / 100)]),
      (''squareBendLiqNoNewtonian'', [(112000, 101 / 100), (896000, 116 / 100), (7168000, 174 / 100), (24192000, 185 / 100)]),
      (''angledDuct'', [(28000, 121 / 100), (437500, 96 / 100), (3500000, 148 / 100)]),
      (''injectorPipe'', [(74650, 109 / 100), (573858, 109 / 100), (2576294, 157 / 100)])]"

definition TREND_WARM :: "(string, (nat \<times> rat) list) dict" where
  "TREND_WARM =
     [(''aerofoilNACA0012'', [(14938, 400 / 100), (64000, 700 / 100), (1024000, 1037 / 100), (10000000, 2303 / 100)]),
      (''squareBend'', [(14200, 400 / 100), (896000, 452 / 100), (7168000, 1061 / 100)]),
      (''squareBendLiq'', [(112000, 425 / 100), (896000, 560 / 100), (7168000, 1048 / 100)]),
      (''squareBendLiqNoNewtonian'', [(112000, 300 / 100), (896000, 477 / 100), (7168000, 667 / 100)]),
      (''angledDuct'', [(28000, 300 / 100), (437500, 378 / 100), (3500000, 682 / 100)]),
      (''injectorPipe'', [(74650, 300 / 100), (573858, 367 / 100), (2576294, 650 / 100)])]"

definition cells :: "chart_lib \<Rightarrow> nat \<Rightarrow> string" where
  "cells ct n =
     (if 1000000 \<le> n then replace (ct_f1 ct (rat_of_nat n / 1000000) @ ''M'') ''.0M'' ''M'' else show_nat (n div 1000) @ ''k'')"

subsection \<open>Saving\<close>

text \<open>
  The files that are written, in order: the SVG, the PNG and, with the imaging library there and a picture that has an
  alpha channel, the PNG again without it.
\<close>

definition save_figure :: "(string \<Rightarrow> string) option \<Rightarrow> string \<Rightarrow> string list \<times> string" where
  "save_figure pil out =
     ([out @ ''.svg'', out @ ''.png'']
        @ (case pil of None \<Rightarrow> []
           | Some mode \<Rightarrow> if in_list (mode (out @ ''.png'')) [''RGBA'', ''LA''] then [out @ ''.png''] else []),
      ''wrote '' @ out @ ''.png / .svg'')"

subsection \<open>The arms\<close>

definition DODGE :: "rat list" where
  "DODGE = [2 / 10, 1 / 10, 0, - (1 / 10), - (2 / 10)]"

definition brae_colour :: string where
  "brae_colour = snd (SERIES ! 0)"

text \<open>The marks of one arm, the labels of a row, and \<open>vals.index(v)\<close>.\<close>

definition arm_marks :: "rat \<Rightarrow> (string \<times> string) \<times> rat \<times> rat \<Rightarrow> chart list" where
  "arm_marks y a =
     (let col = snd (fst a); v = fst (snd a); dy = snd (snd a)
      in [Plot [v, v] [y, y + dy] GRID, Marker (v, y + dy) col])"

definition list_index :: "'a list \<Rightarrow> 'a \<Rightarrow> nat" where
  "list_index xs v = length (takeWhile (\<lambda>x. x \<noteq> v) xs)"

definition row_charts :: "chart_lib \<Rightarrow> rat \<Rightarrow> panel_row \<Rightarrow> chart list" where
  "row_charts ct y r =
     (let vals = pr_vals r; warm = pr_warm r; y0 = y + DODGE ! 0; slow = Max (set vals) in
      [Plot [min (Min (set vals)) warm, slow] [y, y] GRID,
       Plot [warm, vals ! 0] [y0, y0] brae_colour,
       Marker (warm, y0) brae_colour]
      @ concat (map (arm_marks y) (zip SERIES (zip vals DODGE)))
      @ [Annotate (ct_f0 ct (vals ! 0) @ ''s'') (vals ! 0, y0) INK,
         Annotate (ct_f0 ct warm @ ''s'') (warm, y0) brae_colour,
         Annotate (ct_f0 ct slow @ ''s'') (slow, y + DODGE ! list_index vals slow) INK3])"

definition panel_rows :: "panel_row list \<Rightarrow> (rat \<times> panel_row) list" where
  "panel_rows panel = zip (map rat_of_nat (rev [0..<length panel])) panel"

text \<open>\<open>threads[i]\<close>: the marks of arm i over the rows.\<close>

definition thread :: "nat \<Rightarrow> chart" where
  "thread i = Plot (map (\<lambda>yr. pr_vals (snd yr) ! i) (panel_rows PANEL)) (map (\<lambda>yr. fst yr + DODGE ! i) (panel_rows PANEL)) (snd (SERIES ! i))"

definition warm_thread :: chart where
  "warm_thread = Plot (map (\<lambda>yr. pr_warm (snd yr)) (panel_rows PANEL)) (map (\<lambda>yr. fst yr + DODGE ! 0) (panel_rows PANEL)) brae_colour"

definition frame_title :: string where
  "frame_title = ''brae - rhoSimpleFoam, re-ported to CUDA''"

definition fig_arms :: "chart_lib \<Rightarrow> chart list" where
  "fig_arms ct =
     concat (map (\<lambda>yr. row_charts ct (fst yr) (snd yr)) (panel_rows PANEL))
     @ map thread [0..<length SERIES]
     @ [warm_thread,
        YTicks (map (\<lambda>yr. (fst yr, pr_case (snd yr) @ [nl] @ cells ct (pr_cells (snd yr)) @ '' cells'')) (panel_rows PANEL)),
        XLim (32 / 10) 4200,
        XTicks [(5, ''5s''), (10, ''10s''), (30, ''30s''), (100, ''100s''), (300, ''300s''), (1000, ''1000s''), (3000, ''3000s'')],
        Title frame_title,
        Title ''15k to 24M cells, 100 fixed SIMPLE iterations, on a GH200 against all 64 Grace cores.'',
        Legend (take 1 (map fst SERIES) @ [''brae warm''] @ drop 1 (map fst SERIES)),
        Title (''brae'' @ [squote] @ ''s timer includes that start-up, OpenFOAM'' @ [squote] @ ''s excludes decomposePar.'')]"

subsection \<open>The throughput\<close>

record run_row =
  rr_cells :: nat
  rr_cold :: rat
  rr_warm :: rat
  rr_cpu :: rat

definition RUNS :: "(string, run_row list) dict" where
  "RUNS =
     [(''aerofoilNACA0012'',
        [\<lparr>rr_cells = 14938, rr_cold = 80 / 100, rr_warm = 44 / 100, rr_cpu = 159 / 100\<rparr>,
         \<lparr>rr_cells = 64000, rr_cold = 149 / 100, rr_warm = 52 / 100, rr_cpu = 355 / 100\<rparr>,
         \<lparr>rr_cells = 1024000, rr_cold = 1113 / 100, rr_warm = 431 / 100, rr_cpu = 4462 / 100\<rparr>,
         \<lparr>rr_cells = 10000000, rr_cold = 10886 / 100, rr_warm = 4000 / 100, rr_cpu = 92095 / 100\<rparr>]),
      (''squareBend'',
        [\<lparr>rr_cells = 14200, rr_cold = 79 / 100, rr_warm = 34 / 100, rr_cpu = 117 / 100\<rparr>,
         \<lparr>rr_cells = 896000, rr_cold = 703 / 100, rr_warm = 207 / 100, rr_cpu = 950 / 100\<rparr>,
         \<lparr>rr_cells = 7168000, rr_cold = 5094 / 100, rr_warm = 1013 / 100, rr_cpu = 10723 / 100\<rparr>])]"

definition tp :: "nat \<Rightarrow> rat \<Rightarrow> rat" where
  "tp n w = rat_of_nat n * 100 / w / 1000000"

definition curve :: "(run_row \<Rightarrow> rat) \<Rightarrow> run_row list \<Rightarrow> rat list" where
  "curve arm runs = map (\<lambda>r. tp (rr_cells r) (arm r)) runs"

definition run_xs :: "run_row list \<Rightarrow> rat list" where
  "run_xs runs = map (\<lambda>r. rat_of_nat (rr_cells r)) runs"

definition size_labels :: "chart_lib \<Rightarrow> run_row \<Rightarrow> chart list" where
  "size_labels ct r =
     (let x = rat_of_nat (rr_cells r); val = (\<lambda>arm. tp (rr_cells r) (arm r)); oc = snd (SERIES ! 1)
      in [Annotate (ct_f1 ct (val rr_warm)) (x, val rr_warm) brae_colour,
          Annotate (ct_f1 ct (val rr_cold)) (x, val rr_cold) brae_colour,
          Annotate (ct_f1 ct (val rr_cpu)) (x, val rr_cpu) oc])"

definition scaling_charts :: "chart_lib \<Rightarrow> string \<Rightarrow> run_row list \<Rightarrow> chart list" where
  "scaling_charts ct case_name runs =
     (let xs = run_xs runs; cold = curve rr_cold runs; warm = curve rr_warm runs; cpu = curve rr_cpu runs in
      [Plot xs cold brae_colour, Plot xs warm brae_colour, Plot xs cpu (snd (SERIES ! 1))]
      @ concat (map (size_labels ct) runs)
      @ [Annotate (ct_f1 ct (last cold / last cpu) @ ''x faster'') (last xs, ct_sqrt ct (last cold * last cpu)) INK,
         Annotate (ct_f0 ct (last warm / last cpu) @ ''x warm'') (last xs, ct_sqrt ct (last warm * last cold)) brae_colour,
         XLim 11000 32000000, YLim (6 / 10) 45,
         YTicks [(1, ''1''), (2, ''2''), (5, ''5''), (10, ''10''), (20, ''20''), (40, ''40'')],
         Legend [''brae, one GPU (whole run)'', ''brae, one GPU (warm, iterations 101-200)'', ''OpenFOAM, 64 Grace cores''],
         Title frame_title,
         Title (case_name @ '', 15k to 10M cells.  One GH200 against all 64 Grace cores.'')])"

definition fig_scaling :: "chart_lib \<Rightarrow> string \<Rightarrow> chart list res" where
  "fig_scaling ct case_name =
     (case dict_get RUNS case_name of None \<Rightarrow> Inl (KeyError case_name)
      | Some runs \<Rightarrow> Inr (scaling_charts ct case_name runs))"

text \<open>The command: the figures with the files they are written to.\<close>

definition plot_main :: "chart_lib \<Rightarrow> (string \<Rightarrow> string) option \<Rightarrow> string list \<Rightarrow> ((string list \<times> string) \<times> chart list) list res" where
  "plot_main ct pil argv =
     (let out = (if 1 < length argv then argv ! 1 else ''brae_benchmark'') in
      bindR (fig_scaling ct ''aerofoilNACA0012'') (\<lambda>scaling.
        Inr [(save_figure pil (out @ ''_arms''), fig_arms ct), (save_figure pil (out @ ''_scaling''), scaling)]))"

subsection \<open>plot_runtime.py\<close>

definition meshes :: "string list" where
  "meshes = [''990k'', ''4.9M'', ''15M'', ''35.6M'']"

definition runtime_series :: "(string \<times> nat option list \<times> string) list" where
  "runtime_series =
     [(''brae (Blackwell GPU)'', [Some 22, Some 108, Some 340, Some 877], ''#76B900''),
      (''OpenFOAM (20 Grace cores)'', [Some 16, Some 107, Some 354, Some 990], ''#3E86C9''),
      (''OpenFOAM + AMGX (same GPU)'', [Some 80, Some 573, Some 1696, Some 4111], ''#CE7E2A''),
      (''OpenFOAM + PETSc-GPU (same GPU)'', [Some 89, Some 602, Some 1790, None], ''#9A63C9''),
      (''SPUMA (OpenFOAM-GPU port, same GPU)'', [Some 92, Some 623, Some 1359, None], ''#D1495B'')]"

definition bar_width :: rat where
  "bar_width = 15 / 100"

definition bar_offset :: "nat \<Rightarrow> rat" where
  "bar_offset si = (rat_of_nat si - (rat_of_nat (length runtime_series) - 1) / 2) * (bar_width + 10 / 1000)"

text \<open>One bar from \<open>bottom\<close> by its height, and the number over it.\<close>

definition bar_charts :: "nat \<Rightarrow> string \<Rightarrow> string \<Rightarrow> nat \<Rightarrow> nat option \<Rightarrow> chart list" where
  "bar_charts si name col gi v =
     (let xp = rat_of_nat gi + bar_offset si in
      case v of None \<Rightarrow> [ChartText ''n/a'' (xp, 125 / 10)]
      | Some n \<Rightarrow> [Bar xp (rat_of_nat n) 10 col (if gi = 0 then Some name else None),
                   ChartText (show_nat n) (xp, rat_of_nat n * (104 / 100))])"

definition runtime_charts :: "chart list" where
  "runtime_charts =
     concat (map (\<lambda>(si, name, vals, col). concat (map (\<lambda>(gi, v). bar_charts si name col gi v) (enumerate 0 vals)))
       (enumerate 0 runtime_series))
     @ [YLim 10 7000, YTicks [(10, ''10''), (100, ''100''), (1000, ''1000'')],
        XTicks (map (\<lambda>(i, m). (rat_of_nat i, m)) (enumerate 0 meshes)),
        Title ''Solver runtime comparison'', Title ''Lower is better.'', Legend (map fst runtime_series),
        Title ''brae is ~4-5x faster than every GPU alternative here (AMGX, PETSc, SPUMA) on the same GPU.'']"

text \<open>Where the drawn bar ends.\<close>

fun bar_top :: "chart \<Rightarrow> rat" where
  "bar_top (Bar x h b col lab) = b + h"
| "bar_top _ = 0"

subsection \<open>The ranking\<close>

lemma tp_antimono: "0 < n \<Longrightarrow> 0 < w \<Longrightarrow> w < w' \<Longrightarrow> tp n w' < tp n w"
  by (simp add: tp_def divide_strict_right_mono divide_strict_left_mono)

definition ranked :: "run_row list \<Rightarrow> bool" where
  "ranked runs = list_all (\<lambda>r. 0 < rr_cells r \<and> 0 < rr_warm r \<and> rr_warm r < rr_cold r \<and> rr_cold r < rr_cpu r) runs"

lemma ranked_curves:
  assumes "ranked runs"
  shows "list_all2 (<) (curve rr_cpu runs) (curve rr_cold runs)" and "list_all2 (<) (curve rr_cold runs) (curve rr_warm runs)"
proof -
  have r: "0 < rr_cells r" "0 < rr_warm r" "rr_warm r < rr_cold r" "rr_cold r < rr_cpu r" if "r \<in> set runs" for r
    using assms that by (simp_all add: ranked_def list_all_iff)
  have "tp (rr_cells r) (rr_cpu r) < tp (rr_cells r) (rr_cold r)" if "r \<in> set runs" for r
    by (rule tp_antimono) (use r [OF that] in auto)
  then show "list_all2 (<) (curve rr_cpu runs) (curve rr_cold runs)"
    by (simp add: curve_def list_all2_conv_all_nth)
  have "tp (rr_cells r) (rr_cold r) < tp (rr_cells r) (rr_warm r)" if "r \<in> set runs" for r
    by (rule tp_antimono) (use r [OF that] in auto)
  then show "list_all2 (<) (curve rr_cold runs) (curve rr_warm runs)"
    by (simp add: curve_def list_all2_conv_all_nth)
qed

lemma runs_ranked: "dict_get RUNS c = Some runs \<Longrightarrow> ranked runs"
  by (auto simp: dict_get_def RUNS_def ranked_def split: if_splits)

text \<open>The points of a figure, and the limits of its axes.\<close>

fun points_of :: "chart \<Rightarrow> (rat \<times> rat) list" where
  "points_of (Plot xs ys col) = zip xs ys"
| "points_of (Marker p col) = [p]"
| "points_of _ = []"

fun within_limits :: "chart \<Rightarrow> rat \<times> rat \<Rightarrow> bool" where
  "within_limits (XLim a b) p = (a \<le> fst p \<and> fst p \<le> b)"
| "within_limits (YLim a b) p = (a \<le> snd p \<and> snd p \<le> b)"
| "within_limits _ p = True"

definition on_axes :: "chart list \<Rightarrow> bool" where
  "on_axes cs = list_all (\<lambda>lim. list_all (within_limits lim) (concat (map points_of cs))) cs"

lemma zip_curves: "zip (run_xs runs) (curve arm runs) = map (\<lambda>r. (rat_of_nat (rr_cells r), tp (rr_cells r) (arm r))) runs"
  by (induction runs) (simp_all add: run_xs_def curve_def)

lemma size_labels_free: "list_all (\<lambda>lim. points_of lim = [] \<and> (\<forall>p. within_limits lim p)) (concat (map (size_labels ct) runs))"
  by (simp add: list_all_iff size_labels_def Let_def)

lemma no_points: "list_all (\<lambda>lim. points_of lim = [] \<and> Q lim) cs \<Longrightarrow> concat (map points_of cs) = []"
  by (simp add: list_all_iff)

lemma limits_free [simp]:
  "list_all (within_limits (Plot xs ys col)) ps" "list_all (within_limits (Annotate t p col)) ps"
  "list_all (within_limits (YTicks ts)) ps" "list_all (within_limits (Legend ls)) ps" "list_all (within_limits (Title t)) ps"
  by (simp_all add: list_all_iff)

lemma scaling_on_axes:
  "on_axes (scaling_charts ct c runs) \<longleftrightarrow>
     list_all (\<lambda>r. list_all (\<lambda>arm. list_all (\<lambda>lim. within_limits lim (rat_of_nat (rr_cells r), tp (rr_cells r) (arm r)))
       [XLim 11000 32000000, YLim (6 / 10) 45]) [rr_cold, rr_warm, rr_cpu]) runs"
  (is "_ = ?r")
proof -
  let ?p = "\<lambda>arm. map (\<lambda>r. (rat_of_nat (rr_cells r), tp (rr_cells r) (arm r))) runs"
  have points: "concat (map points_of (scaling_charts ct c runs)) = ?p rr_cold @ ?p rr_warm @ ?p rr_cpu"
    using no_points [OF size_labels_free, of ct runs] by (simp add: scaling_charts_def Let_def zip_curves)
  have free: "list_all (\<lambda>lim. list_all (within_limits lim) ps) (concat (map (size_labels ct) runs))" for ps
    using size_labels_free [of ct runs] unfolding list_all_iff by blast
  have limits: "list_all (\<lambda>lim. list_all (within_limits lim) ps) (scaling_charts ct c runs) \<longleftrightarrow>
      list_all (within_limits (XLim 11000 32000000)) ps \<and> list_all (within_limits (YLim (6 / 10) 45)) ps" for ps
    using free [of ps] by (simp add: scaling_charts_def Let_def)
  have "on_axes (scaling_charts ct c runs) \<longleftrightarrow>
      list_all (within_limits (XLim 11000 32000000)) (?p rr_cold @ ?p rr_warm @ ?p rr_cpu) \<and>
      list_all (within_limits (YLim (6 / 10) 45)) (?p rr_cold @ ?p rr_warm @ ?p rr_cpu)"
    unfolding on_axes_def points limits ..
  also have "\<dots> = ?r"
    by (induction runs) (auto simp del: within_limits.simps)
  finally show ?thesis .
qed

text \<open>The other case of the table leaves the axes: its warm run at the largest mesh has a throughput of more than 70.\<close>

lemma square_bend_off_axes: "fig_scaling ct ''squareBend'' = Inr charts \<Longrightarrow> \<not> on_axes charts"
  by (auto simp: fig_scaling_def dict_get_def RUNS_def scaling_on_axes tp_def)

text \<open>The throughput figure ranks the arms as the seconds do: for each case it can be asked for, the curve of the warm run lies
  over the one of the whole run and that one over the curve of OpenFOAM at every mesh size; every point of the case that is
  drawn by default lies within the limits of the axes.\<close>

theorem scaling_figure_ranks_the_arms:
  assumes "fig_scaling ct c = Inr charts"
  shows "\<exists>xs cold warm cpu rest.
           charts = Plot xs cold brae_colour # Plot xs warm brae_colour # Plot xs cpu (snd (SERIES ! 1)) # rest \<and>
           list_all2 (<) cpu cold \<and> list_all2 (<) cold warm \<and> length cold = length xs \<and>
           (c = ''aerofoilNACA0012'' \<longrightarrow> on_axes charts)"
proof -
  obtain runs where runs: "dict_get RUNS c = Some runs" and charts: "charts = scaling_charts ct c runs"
    using assms by (auto simp: fig_scaling_def split: option.splits)
  have axes: "on_axes charts" if "c = ''aerofoilNACA0012''"
    using runs unfolding charts scaling_on_axes that by (simp add: dict_get_def RUNS_def) (auto simp: tp_def)
  show ?thesis
    using ranked_curves [OF runs_ranked [OF runs]] axes unfolding charts
    by (auto simp: scaling_charts_def Let_def curve_def run_xs_def)
qed

theorem scaling_figure_ranks_the_arms_witness:
  "\<exists>xs cold warm cpu rest.
     scaling_charts \<lparr>ct_f0 = (\<lambda>_. []), ct_f1 = (\<lambda>_. []), ct_sqrt = id\<rparr> ''squareBend'' (snd (RUNS ! 1)) =
       Plot xs cold brae_colour # Plot xs warm brae_colour # Plot xs cpu (snd (SERIES ! 1)) # rest \<and>
     list_all2 (<) cpu cold \<and> list_all2 (<) cold warm \<and> length cold = length xs"
proof -
  have "fig_scaling \<lparr>ct_f0 = (\<lambda>_. []), ct_f1 = (\<lambda>_. []), ct_sqrt = id\<rparr> ''squareBend'' =
      Inr (scaling_charts \<lparr>ct_f0 = (\<lambda>_. []), ct_f1 = (\<lambda>_. []), ct_sqrt = id\<rparr> ''squareBend'' (snd (RUNS ! 1)))"
    by (simp add: fig_scaling_def dict_get_def RUNS_def)
  from scaling_figure_ranks_the_arms [OF this] show ?thesis by blast
qed

text \<open>The ratios of \<open>TREND\<close> are those of the runs to two decimals; the ratios of \<open>TREND_WARM\<close> are not.\<close>

definition ratio_close :: "rat \<Rightarrow> rat \<Rightarrow> bool" where
  "ratio_close q r \<longleftrightarrow> abs (q - r) \<le> 6 / 1000"

definition trend_agrees :: "(run_row \<Rightarrow> rat) \<Rightarrow> (string, (nat \<times> rat) list) dict \<Rightarrow> bool" where
  "trend_agrees arm trend =
     list_all (\<lambda>cr. list_all2 (\<lambda>r t. rr_cells r = fst t \<and> ratio_close (snd t) (rr_cpu r / arm r)) (snd cr) (get_or trend (fst cr) [])) RUNS"

lemma trend_is_the_ratio: "trend_agrees rr_cold TREND"
  by (simp add: trend_agrees_def RUNS_def TREND_def get_or_def dict_get_def ratio_close_def)

lemma warm_trend_is_not: "\<not> trend_agrees rr_warm TREND_WARM"
  by (simp add: trend_agrees_def RUNS_def TREND_WARM_def get_or_def dict_get_def ratio_close_def)

subsection \<open>The labels\<close>

definition markers :: "chart list \<Rightarrow> (rat \<times> rat) list" where
  "markers cs = concat (map (\<lambda>c. case c of Marker p col \<Rightarrow> [p] | _ \<Rightarrow> []) cs)"

definition labelled :: "chart list \<Rightarrow> (rat \<times> rat) list" where
  "labelled cs = concat (map (\<lambda>c. case c of Annotate t p col \<Rightarrow> [p] | _ \<Rightarrow> []) cs)"

text \<open>Of the six marks of a row, the two of brae and the slowest one carry a label.\<close>

lemma three_marks_labelled:
  "list_all (\<lambda>yr. let cs = row_charts ct (fst yr) (snd yr)
     in length (markers cs) = 6 \<and> length (filter (\<lambda>p. p \<in> set (labelled cs)) (markers cs)) = 3) (panel_rows PANEL)"
  by (simp add: panel_rows_def PANEL_def row_charts_def arm_marks_def SERIES_def DODGE_def list_index_def markers_def labelled_def
      Let_def upt_rec)

lemma arm_row_within:
  "list_all (\<lambda>yr. list_all (within_limits (XLim (32 / 10) 4200)) (concat (map points_of (row_charts ct (fst yr) (snd yr))))) (panel_rows PANEL)"
  by (simp add: panel_rows_def PANEL_def row_charts_def arm_marks_def SERIES_def DODGE_def list_index_def Let_def upt_rec)

text \<open>A bar starts at 10 and is as high as its time: it ends 10 seconds too high, and the number that should stand over a bar
  stands in it up to 250 seconds.\<close>

lemma bar_ends_too_high:
  "\<exists>b x y. bar_charts si name col gi (Some n) = [b, ChartText (show_nat n) (x, y)] \<and>
     bar_top b = rat_of_nat n + 10 \<and> (bar_top b < y \<longleftrightarrow> 250 < n)"
proof -
  have "10 + rat_of_nat n < rat_of_nat n * (104 / 100) \<longleftrightarrow> rat_of_nat 250 < rat_of_nat n"
    by simp
  also have "\<dots> \<longleftrightarrow> 250 < n"
    by (simp only: of_nat_less_iff)
  finally have over: "10 + rat_of_nat n < rat_of_nat n * (104 / 100) \<longleftrightarrow> 250 < n" .
  have "bar_charts si name col gi (Some n) =
      [Bar (rat_of_nat gi + bar_offset si) (rat_of_nat n) 10 col (if gi = 0 then Some name else None),
       ChartText (show_nat n) (rat_of_nat gi + bar_offset si, rat_of_nat n * (104 / 100))]"
    by (simp add: bar_charts_def Let_def)
  with over show ?thesis
    by (metis add.commute bar_top.simps(1))
qed

end
