(* ===== verification/F16_Render.thy ===== *)
theory F16_Render
  imports Amg_Arrays Py_Os Complex_Main
begin

text \<open>
  \<open>demo/f16/render.py\<close>: the three films of one simulation, with the cameras fitted to the points they show.  A number is an
  element of an ordered field.  Reading the case, the contours and their smoothing are pyvista's, the
  trigonometric functions, the norm, the cube root and the percentiles numpy's, and parsing and formatting
  numbers Python's: they are the fields of a record.  A picture is a value with what it shows and where its
  camera stands; the window, the lighting, the colours and the lines that show the time a frame took are left out.  The
  theorems show that a fitted camera has all points within its view until the last recentring and before it
  after that, that no more than the bound of the points are fitted, and which pictures are written.
\<close>

subsection \<open>Vectors\<close>

type_synonym 'a vec3 = "'a \<times> 'a \<times> 'a"

definition v3_add :: "'a::linordered_field vec3 \<Rightarrow> 'a vec3 \<Rightarrow> 'a vec3" where
  "v3_add a b = (fst a + fst b, fst (snd a) + fst (snd b), snd (snd a) + snd (snd b))"

definition v3_sub :: "'a::linordered_field vec3 \<Rightarrow> 'a vec3 \<Rightarrow> 'a vec3" where
  "v3_sub a b = (fst a - fst b, fst (snd a) - fst (snd b), snd (snd a) - snd (snd b))"

definition v3_scale :: "'a::linordered_field \<Rightarrow> 'a vec3 \<Rightarrow> 'a vec3" where
  "v3_scale k a = (k * fst a, k * fst (snd a), k * snd (snd a))"

definition v3_dot :: "'a::linordered_field vec3 \<Rightarrow> 'a vec3 \<Rightarrow> 'a" where
  "v3_dot a b = fst a * fst b + fst (snd a) * fst (snd b) + snd (snd a) * snd (snd b)"

definition v3_cross :: "'a::linordered_field vec3 \<Rightarrow> 'a vec3 \<Rightarrow> 'a vec3" where
  "v3_cross a b =
     (fst (snd a) * snd (snd b) - snd (snd a) * fst (snd b), snd (snd a) * fst b - fst a * snd (snd b),
      fst a * fst (snd b) - fst (snd a) * fst b)"

lemmas v3_defs = v3_add_def v3_sub_def v3_scale_def v3_dot_def v3_cross_def

subsection \<open>What pyvista and numpy provide\<close>

record 'a iso =
  is_cells :: nat
  is_points :: "'a vec3 list"
  is_mag :: "'a list"

record 'a scene_lib =
  sc_float :: "string \<Rightarrow> 'a res"
  sc_json :: "string \<Rightarrow> 'a list res"
  sc_radians :: "'a \<Rightarrow> 'a"
  sc_cos :: "'a \<Rightarrow> 'a"
  sc_sin :: "'a \<Rightarrow> 'a"
  sc_tan :: "'a \<Rightarrow> 'a"
  sc_pi :: 'a
  sc_norm :: "'a vec3 \<Rightarrow> 'a"
  sc_cbrt :: "'a \<Rightarrow> 'a"
  sc_percentile :: "'a list \<Rightarrow> nat \<Rightarrow> 'a"
  sc_times :: "string \<Rightarrow> 'a list"
  sc_body :: "string \<Rightarrow> string \<Rightarrow> 'a \<Rightarrow> 'a vec3 list res"
  sc_centers :: "string \<Rightarrow> 'a \<Rightarrow> 'a vec3 list"
  sc_volumes :: "string \<Rightarrow> 'a \<Rightarrow> 'a list"
  sc_contour :: "string \<Rightarrow> nat list \<Rightarrow> 'a \<Rightarrow> 'a \<Rightarrow> 'a iso"
  sc_smooth :: "'a iso \<Rightarrow> 'a iso"
  sc_f1 :: "'a \<Rightarrow> string"
  sc_f2 :: "'a \<Rightarrow> string"
  sc_f4 :: "'a \<Rightarrow> string"

subsection \<open>The configuration\<close>

record 'a scene =
  sn_case :: string
  sn_patch :: string
  sn_box :: "'a list"
  sn_cell_l :: 'a
  sn_levels :: "('a \<times> 'a) list"
  sn_label :: string
  sn_win :: "'a list"
  sn_nfit :: int
  sn_az0 :: 'a
  sn_bodyc :: "'a list"

definition env_item :: "(string, string) dict \<Rightarrow> string \<Rightarrow> string res" where
  "env_item env k = (case dict_get env k of None \<Rightarrow> Inl (KeyError k) | Some v \<Rightarrow> Inr v)"

definition read_levels :: "'a scene_lib \<Rightarrow> (string, string) dict \<Rightarrow> ('a \<times> 'a) list res" where
  "read_levels sc env =
     bindR (env_item env ''QLEV'') (\<lambda>q.
     bindR (mapR (sc_float sc) (split_on (CHR '','') (get_or env ''OPAC'' ''0.14,0.38,1.0''))) (\<lambda>ops.
     mapR (\<lambda>vo. bindR (sc_float sc (fst vo)) (\<lambda>v. Inr (v, snd vo))) (zip (split_on (CHR '','') q) ops)))"

definition read_scene :: "'a::linordered_field scene_lib \<Rightarrow> (string, string) dict \<Rightarrow> 'a scene res" where
  "read_scene sc env =
     bindR (env_item env ''CASE'') (\<lambda>c.
     bindR (bindR (env_item env ''BOX'') (sc_json sc)) (\<lambda>box.
     bindR (bindR (env_item env ''CELL_L_MAX'') (sc_float sc)) (\<lambda>cl.
     bindR (read_levels sc env) (\<lambda>levels.
     bindR (sc_json sc (get_or env ''WIN'' ''[1500,860]'')) (\<lambda>win.
     bindR (case dict_get env ''NFIT'' of None \<Rightarrow> Inr 10 | Some s \<Rightarrow> py_int s) (\<lambda>nfit.
     bindR (case dict_get env ''AZ0'' of None \<Rightarrow> Inr (- 125) | Some s \<Rightarrow> sc_float sc s) (\<lambda>az0.
     bindR (sc_json sc (get_or env ''BODYC'' ''[0.62,0.64,0.70]'')) (\<lambda>bodyc.
       Inr \<lparr>sn_case = c, sn_patch = get_or env ''PATCH'' ''f16'', sn_box = box, sn_cell_l = cl, sn_levels = levels,
            sn_label = get_or env ''LABEL'' [], sn_win = win, sn_nfit = nfit, sn_az0 = az0, sn_bodyc = bodyc\<rparr>))))))))"

subsection \<open>The views and the camera\<close>

text \<open>The azimuth and the elevation of a view at a fraction of the film.\<close>

definition orbit_view :: "'a::linordered_field scene_lib \<Rightarrow> 'a \<Rightarrow> 'a \<Rightarrow> 'a \<times> 'a" where
  "orbit_view sc az0 f = (az0 + 360 * f, 30 + (- 20 - 30) * (1 / 2) * (1 - sc_cos sc (2 * sc_pi sc * f)))"

definition VIEWS :: "'a::linordered_field scene_lib \<Rightarrow> 'a \<Rightarrow> (string \<times> ('a \<Rightarrow> 'a \<times> 'a)) list" where
  "VIEWS sc az0 = [(''orbit'', orbit_view sc az0), (''top'', \<lambda>f. (az0, 72)), (''corner'', \<lambda>f. (az0, 22))]"

definition view_dir :: "'a::linordered_field scene_lib \<Rightarrow> 'a \<Rightarrow> 'a \<Rightarrow> 'a vec3" where
  "view_dir sc az el =
     (let a = sc_radians sc az; e = sc_radians sc el
      in (sc_cos sc e * sc_cos sc a, sc_cos sc e * sc_sin sc a, sc_sin sc e))"

record 'a camera_frame =
  cf_dir :: "'a vec3"
  cf_right :: "'a vec3"
  cf_up :: "'a vec3"
  cf_tv :: 'a
  cf_th :: 'a

definition cf_fwd :: "'a::linordered_field camera_frame \<Rightarrow> 'a vec3" where
  "cf_fwd fr = v3_scale (- 1) (cf_dir fr)"

definition right_of :: "'a::linordered_field scene_lib \<Rightarrow> 'a vec3 \<Rightarrow> 'a vec3" where
  "right_of sc fwd =
     (let right = v3_cross fwd (0, 0, 1); n = sc_norm sc right
      in if n < 1 / 1000000 then (1, 0, 0) else v3_scale (1 / n) right)"

definition camera_basis :: "'a::linordered_field scene_lib \<Rightarrow> 'a \<Rightarrow> 'a \<Rightarrow> 'a list \<Rightarrow> 'a \<Rightarrow> 'a camera_frame res" where
  "camera_basis sc az el win angle =
     (let d = view_dir sc az el; fwd = v3_scale (- 1) d; right = right_of sc fwd; tv = sc_tan sc (sc_radians sc angle / 2) in
      bindR (nth_or win 0) (\<lambda>w0. bindR (nth_or win 1) (\<lambda>w1.
        if w1 = 0 then Inl ZeroDivision
        else Inr \<lparr>cf_dir = d, cf_right = right, cf_up = v3_cross right fwd, cf_tv = tv, cf_th = tv * (w0 / w1)\<rparr>)))"

text \<open>One coordinate of the middle of the bounding box, and the box.\<close>

definition middle :: "'a::linordered_field list \<Rightarrow> 'a" where
  "middle xs = 1 / 2 * (Min (set xs) + Max (set xs))"

definition box_centre :: "'a::linordered_field vec3 list \<Rightarrow> 'a vec3" where
  "box_centre pts = (middle (map fst pts), middle (map (\<lambda>p. fst (snd p)) pts), middle (map (\<lambda>p. snd (snd p)) pts))"

text \<open>How far from the centre the camera has to be for a point to lie on the border of the view, and for all points within it.\<close>

definition reach_one :: "'a::linordered_field camera_frame \<Rightarrow> 'a vec3 \<Rightarrow> 'a vec3 \<Rightarrow> 'a \<Rightarrow> 'a vec3 \<Rightarrow> 'a" where
  "reach_one fr c axis t p = (let v = v3_sub p c in v3_dot v (cf_dir fr) + abs (v3_dot v axis) / t)"

definition cam_reach :: "'a::linordered_field camera_frame \<Rightarrow> 'a vec3 list \<Rightarrow> 'a vec3 \<Rightarrow> 'a" where
  "cam_reach fr pts c =
     max (Max (set (map (reach_one fr c (cf_up fr) (cf_tv fr)) pts))) (Max (set (map (reach_one fr c (cf_right fr) (cf_th fr)) pts)))"

definition from_camera :: "'a::linordered_field camera_frame \<Rightarrow> 'a vec3 \<Rightarrow> 'a \<Rightarrow> 'a vec3 \<Rightarrow> 'a vec3" where
  "from_camera fr c away p = v3_sub p (v3_add c (v3_scale away (cf_dir fr)))"

definition depth :: "'a::linordered_field camera_frame \<Rightarrow> 'a vec3 \<Rightarrow> 'a \<Rightarrow> 'a vec3 \<Rightarrow> 'a" where
  "depth fr c away p = v3_dot (from_camera fr c away p) (cf_fwd fr)"

definition screen :: "'a::linordered_field camera_frame \<Rightarrow> 'a vec3 \<Rightarrow> 'a \<Rightarrow> 'a vec3 \<Rightarrow> 'a vec3 \<Rightarrow> 'a" where
  "screen fr c away axis p = v3_dot (from_camera fr c away p) axis / max (depth fr c away p) (1 / 1000000000)"

definition fit_step :: "'a::linordered_field camera_frame \<Rightarrow> 'a \<Rightarrow> 'a vec3 list \<Rightarrow> 'a vec3 \<times> 'a \<Rightarrow> 'a vec3 \<times> 'a" where
  "fit_step fr pad pts cd =
     (let c = fst cd; away = cam_reach fr pts c * pad;
          pu = map (screen fr c away (cf_up fr)) pts; ph = map (screen fr c away (cf_right fr)) pts
      in (v3_add (v3_add c (v3_scale (middle pu * away) (cf_up fr))) (v3_scale (middle ph * away) (cf_right fr)), away))"

fun fit_loop :: "nat \<Rightarrow> 'a::linordered_field camera_frame \<Rightarrow> 'a \<Rightarrow> 'a vec3 list \<Rightarrow> 'a vec3 \<times> 'a \<Rightarrow> 'a vec3 \<times> 'a" where
  "fit_loop 0 fr pad pts cd = cd"
| "fit_loop (Suc n) fr pad pts cd = fit_loop n fr pad pts (fit_step fr pad pts cd)"

definition fit_camera :: "'a::linordered_field scene_lib \<Rightarrow> 'a vec3 list \<Rightarrow> 'a \<Rightarrow> 'a \<Rightarrow> 'a list \<Rightarrow> 'a \<Rightarrow> 'a \<Rightarrow> nat \<Rightarrow> ('a vec3 \<times> 'a) res" where
  "fit_camera sc pts az el win angle pad iters =
     bindR (camera_basis sc az el win angle) (\<lambda>fr.
       if pts = [] then Inl ValueError else Inr (fit_loop iters fr pad pts (box_centre pts, 1)))"

subsection \<open>Isosurfaces and the points to fit\<close>

definition build_iso :: "'a scene_lib \<Rightarrow> 'a scene \<Rightarrow> nat list \<Rightarrow> 'a \<Rightarrow> ('a iso \<times> 'a) list" where
  "build_iso sc sn ids t =
     map (\<lambda>lo. let iso = sc_contour sc (sn_case sn) ids t (fst lo)
               in (if 0 < is_cells iso then sc_smooth sc iso else iso, snd lo)) (sn_levels sn)"

definition shown :: "('a iso \<times> 'a) list \<Rightarrow> ('a iso \<times> 'a) list" where
  "shown isos = filter (\<lambda>io. 0 < is_cells (fst io)) isos"

text \<open>\<open>P[::step]\<close>, and the points that are fitted: about 400000 of them at most.\<close>

fun every :: "nat \<Rightarrow> nat \<Rightarrow> 'b list \<Rightarrow> 'b list" where
  "every k n [] = []"
| "every k 0 (x # xs) = x # every k (k - 1) xs"
| "every k (Suc n) (x # xs) = every k n xs"

definition MAX_POINTS :: nat where
  "MAX_POINTS = 400000"

definition thinned :: "'b list \<Rightarrow> 'b list" where
  "thinned ps = (if MAX_POINTS < length ps then every (length ps div MAX_POINTS + 1) 0 ps else ps)"

text \<open>The cells in the box that are small enough.\<close>

definition in_box :: "'a::linordered_field list \<Rightarrow> 'a vec3 \<Rightarrow> bool" where
  "in_box box p \<longleftrightarrow> box ! 0 \<le> fst p \<and> fst p \<le> box ! 1 \<and> box ! 2 \<le> fst (snd p) \<and> fst (snd p) \<le> box ! 3 \<and>
     box ! 4 \<le> snd (snd p) \<and> snd (snd p) \<le> box ! 5"

definition kept_cells :: "'a::linordered_field scene_lib \<Rightarrow> 'a scene \<Rightarrow> 'a vec3 list \<Rightarrow> 'a list \<Rightarrow> nat list res" where
  "kept_cells sc sn cc vols =
     (if length (sn_box sn) < 6 then Inl IndexError
      else if length cc \<noteq> length vols then Inl ValueError
      else Inr (map fst (filter (\<lambda>ipv. in_box (sn_box sn) (fst (snd ipv)) \<and> sc_cbrt sc (abs (snd (snd ipv))) < sn_cell_l sn)
                  (enumerate 0 (zip cc vols)))))"

subsection \<open>The times to draw and to fit\<close>

definition draw_indices :: "(string, string) dict \<Rightarrow> nat \<Rightarrow> int list res" where
  "draw_indices env nt =
     bindR (case dict_get env ''K0'' of None \<Rightarrow> Inr 0 | Some s \<Rightarrow> py_int s) (\<lambda>k0.
     bindR (case dict_get env ''K1'' of None \<Rightarrow> Inr (int nt - 1) | Some s \<Rightarrow> py_int s) (\<lambda>k1.
     case dict_get env ''ONLY'' of
       None \<Rightarrow> Inr [k0..k1]
     | Some s \<Rightarrow> if s = [] then Inr [k0..k1] else mapR py_int (split_on (CHR '','') s)))"

text \<open>\<open>np.unique(np.linspace(a, b, n).astype(int))\<close>.\<close>

definition trunc_div :: "int \<Rightarrow> int \<Rightarrow> int" where
  "trunc_div x m = (if 0 \<le> x then x div m else - ((- x) div m))"

definition sample_indices :: "int \<Rightarrow> int \<Rightarrow> int \<Rightarrow> int list res" where
  "sample_indices a b n =
     (if n < 0 then Inl ValueError
      else if n = 1 then Inr [a]
      else Inr (sorted_set (map (\<lambda>i. trunc_div (a * (n - 1) + i * (b - a)) (n - 1)) [0..n - 1])))"

definition frac :: "nat \<Rightarrow> int \<Rightarrow> 'a::linordered_field" where
  "frac nt k = of_int k / of_nat (max 1 (nt - 1))"

subsection \<open>The camera track\<close>

record 'a fitted =
  ft_cameras :: "('a vec3 \<times> 'a) list"
  ft_mags :: "'a list list"

definition fit_time :: "'a::linordered_field scene_lib \<Rightarrow> 'a scene \<Rightarrow> 'a list \<Rightarrow> 'a vec3 list \<Rightarrow> nat list \<Rightarrow> int \<Rightarrow> 'a fitted res" where
  "fit_time sc sn ts body ids j =
     bindR (py_nth ts j) (\<lambda>t.
     let isos = shown (build_iso sc sn ids t);
         P = thinned (body @ concat (map (\<lambda>io. is_points (fst io)) isos)) in
     bindR (mapR (\<lambda>nv. let ae = snd nv (frac (length ts) j) in fit_camera sc P (fst ae) (snd ae) (sn_win sn) 30 (106 / 100) 6)
              (VIEWS sc (sn_az0 sn))) (\<lambda>cams.
       Inr \<lparr>ft_cameras = cams, ft_mags = map (\<lambda>io. is_mag (fst io)) isos\<rparr>))"

text \<open>\<open>np.interp\<close>: linear between the samples, constant beyond them.\<close>

fun interp_from :: "int \<times> 'a::linordered_field \<Rightarrow> (int \<times> 'a) list \<Rightarrow> int \<Rightarrow> 'a" where
  "interp_from p [] x = snd p"
| "interp_from p (q # qs) x =
     (if x \<le> fst p then snd p
      else if x < fst q then snd p + (snd q - snd p) * of_int (x - fst p) / of_int (fst q - fst p)
      else interp_from q qs x)"

fun interp :: "(int \<times> 'a::linordered_field) list \<Rightarrow> int \<Rightarrow> 'a" where
  "interp [] x = 0"
| "interp (p # ps) x = interp_from p ps x"

definition track_at :: "(int \<times> 'a::linordered_field vec3 \<times> 'a) list \<Rightarrow> int \<Rightarrow> 'a vec3 \<times> 'a" where
  "track_at samples k =
     (let coord = (\<lambda>g. interp (map (\<lambda>s. (fst s, g (snd s))) samples) k)
      in ((coord (\<lambda>cd. fst (fst cd)), coord (\<lambda>cd. fst (snd (fst cd))), coord (\<lambda>cd. snd (snd (fst cd)))), coord snd))"

definition view_track :: "int list \<Rightarrow> 'a::linordered_field fitted list \<Rightarrow> nat \<Rightarrow> nat \<Rightarrow> ('a vec3 \<times> 'a) list" where
  "view_track fit_idx fits nt v =
     map (track_at (zip fit_idx (map (\<lambda>f. ft_cameras f ! v) fits))) (map int [0..<nt])"

definition track_line :: "'a::linordered_field scene_lib \<Rightarrow> string \<Rightarrow> 'a list \<Rightarrow> string" where
  "track_line sc nm ds = ''  '' @ ljust 7 nm @ '' camera dist '' @ sc_f2 sc (Min (set ds)) @ ''-'' @ sc_f2 sc (Max (set ds)) @ '' m''"

subsection \<open>Drawing\<close>

record 'a render_pic =
  pc_path :: string
  pc_body :: "'a list"
  pc_isos :: "('a iso \<times> 'a) list"
  pc_clim :: "'a \<times> 'a"
  pc_camera :: "'a vec3 \<times> 'a vec3 \<times> 'a vec3"
  pc_text :: string

text \<open>\<open>f"{k:04d}"\<close>.\<close>

definition pad4 :: "int \<Rightarrow> string" where
  "pad4 k =
     (if 0 \<le> k then replicate (4 - length (show_nat (nat k))) (CHR ''0'') @ show_nat (nat k)
      else ''-'' @ replicate (3 - length (show_nat (nat (- k)))) (CHR ''0'') @ show_nat (nat (- k)))"

definition frame_path :: "string \<Rightarrow> int \<Rightarrow> string" where
  "frame_path nm k = ''frames_'' @ nm @ ''/v'' @ pad4 k @ ''.png''"

definition draw_view :: "'a::linordered_field scene_lib \<Rightarrow> 'a scene \<Rightarrow> 'a list \<Rightarrow> 'a \<times> 'a \<Rightarrow> ('a iso \<times> 'a) list \<Rightarrow> int \<Rightarrow> 'a \<Rightarrow>
    (string \<times> ('a \<Rightarrow> 'a \<times> 'a)) \<times> ('a vec3 \<times> 'a) list \<Rightarrow> 'a render_pic res" where
  "draw_view sc sn ts clim isos k t vt =
     (let ae = snd (fst vt) (frac (length ts) k) in
      bindR (py_nth (snd vt) k) (\<lambda>cd.
        Inr \<lparr>pc_path = frame_path (fst (fst vt)) k, pc_body = sn_bodyc sn, pc_isos = shown isos, pc_clim = clim,
             pc_camera = (v3_add (fst cd) (v3_scale (snd cd) (view_dir sc (fst ae) (snd ae))), fst cd, (0, 0, 1)),
             pc_text = sn_label sn @ ''   t='' @ sc_f4 sc t @ ''s''\<rparr>))"

definition draw_time :: "'a::linordered_field scene_lib \<Rightarrow> 'a scene \<Rightarrow> 'a list \<Rightarrow> nat list \<Rightarrow> 'a \<times> 'a \<Rightarrow>
    ((string \<times> ('a \<Rightarrow> 'a \<times> 'a)) \<times> ('a vec3 \<times> 'a) list) list \<Rightarrow> int \<Rightarrow> 'a render_pic list res" where
  "draw_time sc sn ts ids clim tracks k =
     bindR (py_nth ts k) (\<lambda>t. mapR (draw_view sc sn ts clim (build_iso sc sn ids t) k t) tracks)"

subsection \<open>The command\<close>

record 'a films =
  fm_lines :: "string list"
  fm_pictures :: "'a render_pic list"

definition render_main :: "'a::linordered_field scene_lib \<Rightarrow> (string, string) dict \<Rightarrow> 'a films res" where
  "render_main sc env =
     bindR (read_scene sc env) (\<lambda>sn.
     let ts = sort (sc_times sc (sn_case sn)) in
     bindR (py_nth ts (- 1)) (\<lambda>t_last.
     bindR (sc_body sc (sn_case sn) (sn_patch sn) t_last) (\<lambda>body.
     let cc = sc_centers sc (sn_case sn) t_last in
     bindR (kept_cells sc sn cc (sc_volumes sc (sn_case sn) t_last)) (\<lambda>ids.
     bindR (draw_indices env (length ts)) (\<lambda>idx.
     bindR (py_nth idx 0) (\<lambda>a. bindR (py_nth idx (- 1)) (\<lambda>b.
     bindR (sample_indices a b (sn_nfit sn)) (\<lambda>fit_idx.
     bindR (mapR (fit_time sc sn ts body ids) fit_idx) (\<lambda>fits.
     if fits = [] then Inl IndexError
     else
       let views = VIEWS sc (sn_az0 sn);
           tracks = map (\<lambda>v. (views ! v, view_track fit_idx fits (length ts) v)) [0..<length views];
           mags = concat (map ft_mags fits) in
       if mags = [] then Inl ValueError
       else
         let vv = concat mags; clim = (sc_percentile sc vv 2, sc_percentile sc vv 98) in
         bindR (mapR (draw_time sc sn ts ids clim tracks) idx) (\<lambda>pics.
           Inr \<lparr>fm_lines = [''cells kept '' @ show_nat (length ids) @ '' / '' @ show_nat (length cc) @ ''   times '' @ show_nat (length ts)]
                  @ map (\<lambda>v. track_line sc (fst (views ! v)) (map (\<lambda>f. snd (ft_cameras f ! v)) fits)) [0..<length views]
                  @ [''auto clim = ['' @ sc_f1 sc (fst clim) @ '', '' @ sc_f1 sc (snd clim) @ ''] m/s'', ''MULTIVIEW_DONE''],
                fm_pictures = concat pics\<rparr>))))))))))"

subsection \<open>The points that are fitted\<close>

lemma length_every: "0 < k \<Longrightarrow> length (every k n xs) = (if length xs \<le> n then 0 else (length xs - n + k - 1) div k)"
proof (induction k n xs rule: every.induct)
  case (2 k x xs)
  have "(length xs + k) div k = length xs div k + 1"
    using "2.prems" by (simp add: div_add_self2)
  moreover have "length xs \<le> k - 1 \<Longrightarrow> length xs div k = 0"
    using "2.prems" by simp
  ultimately show ?case
    using 2 by auto
qed auto

lemma set_every: "set (every k n xs) \<subseteq> set xs"
  by (induction k n xs rule: every.induct) auto

text \<open>C27: The cameras are fitted to no more than 400000 points, all of them points of the scene, and to all of the points when they
  are no more than that; a scene that has a point keeps one.\<close>

theorem thinned_bound:
  "length (thinned ps) \<le> 400000 \<and> set (thinned ps) \<subseteq> set ps \<and> (length ps \<le> 400000 \<longrightarrow> thinned ps = ps) \<and>
   (ps \<noteq> [] \<longrightarrow> thinned ps \<noteq> [])"
proof (cases "MAX_POINTS < length ps")
  case True
  define n k where "n = length ps" and "k = n div MAX_POINTS + 1"
  have thin: "thinned ps = every k 0 ps"
    using True by (simp add: thinned_def n_def k_def)
  have len: "length (every k 0 ps) = (n + k - 1) div k"
    using True by (simp add: length_every k_def n_def)
  have "n < MAX_POINTS * k"
    using dividend_less_times_div [of MAX_POINTS n] by (simp add: k_def MAX_POINTS_def)
  then have "n + k - 1 < Suc MAX_POINTS * k"
    unfolding mult_Suc by linarith
  then have upper: "(n + k - 1) div k \<le> MAX_POINTS"
    by (rule less_Suc_eq_le [THEN iffD1, OF less_mult_imp_div_less])
  have "k \<le> n + k - 1"
    using True by (simp add: n_def)
  then have "0 < (n + k - 1) div k"
    by (simp add: k_def div_greater_zero_iff)
  then show ?thesis
    using upper len True set_every [of k 0 ps] unfolding thin by (auto simp: MAX_POINTS_def)
qed (simp add: thinned_def MAX_POINTS_def)

theorem thinned_bound_witness: "thinned [1, 2 :: nat] = [1, 2] \<and> length (thinned (replicate 5 (0 :: nat))) \<le> 400000"
  using thinned_bound [of "[1, 2 :: nat]"] thinned_bound [of "replicate 5 (0 :: nat)"] by simp

subsection \<open>What the camera sees\<close>

definition in_view :: "'a::linordered_field camera_frame \<Rightarrow> 'a vec3 \<Rightarrow> 'a \<Rightarrow> 'a vec3 \<Rightarrow> bool" where
  "in_view fr c away p \<longleftrightarrow>
     abs (v3_dot (from_camera fr c away p) (cf_up fr)) \<le> cf_tv fr * depth fr c away p \<and>
     abs (v3_dot (from_camera fr c away p) (cf_right fr)) \<le> cf_th fr * depth fr c away p"

definition frame_ok :: "'a::linordered_field camera_frame \<Rightarrow> bool" where
  "frame_ok fr \<longleftrightarrow> v3_dot (cf_dir fr) (cf_dir fr) = 1 \<and> v3_dot (cf_up fr) (cf_dir fr) = 0 \<and> v3_dot (cf_right fr) (cf_dir fr) = 0 \<and>
     0 < cf_tv fr \<and> 0 < cf_th fr"

lemma v3_dot_linear:
  "v3_dot (v3_add a b) c = v3_dot a c + v3_dot b c" "v3_dot (v3_sub a b) c = v3_dot a c - v3_dot b c"
  "v3_dot (v3_scale k a) c = k * v3_dot a c" "v3_dot a (v3_scale k c) = k * v3_dot a c" "v3_dot a c = v3_dot c a"
  by (simp_all add: v3_defs algebra_simps)

lemma cross_orthogonal: "v3_dot (v3_cross a b) a = 0" "v3_dot (v3_cross a b) b = 0"
  by (simp_all add: v3_defs algebra_simps)

lemma depth_is: "frame_ok fr \<Longrightarrow> depth fr c away p = away - v3_dot (v3_sub p c) (cf_dir fr)"
  by (simp add: depth_def from_camera_def cf_fwd_def frame_ok_def v3_dot_linear(1-4))

lemma from_camera_across:
  "v3_dot axis (cf_dir fr) = 0 \<Longrightarrow> v3_dot (from_camera fr c away p) axis = v3_dot (v3_sub p c) axis"
  using v3_dot_linear(5) [of axis "cf_dir fr"] by (simp add: from_camera_def v3_dot_linear(1-4))

lemma reach_covers:
  assumes "p \<in> set pts"
  shows "reach_one fr c (cf_up fr) (cf_tv fr) p \<le> cam_reach fr pts c" and "reach_one fr c (cf_right fr) (cf_th fr) p \<le> cam_reach fr pts c"
  unfolding cam_reach_def using assms by (simp_all add: le_max_iff_disj)

lemma reach_in_front:
  assumes "frame_ok fr" and "p \<in> set pts"
  shows "v3_dot (v3_sub p c) (cf_dir fr) \<le> cam_reach fr pts c"
proof -
  have "0 \<le> abs (v3_dot (v3_sub p c) (cf_up fr)) / cf_tv fr"
    using assms(1) by (simp add: frame_ok_def)
  then show ?thesis
    using reach_covers(1) [OF assms(2), of fr c] by (simp add: reach_one_def Let_def)
qed

lemma across_within:
  assumes "0 < (t :: 'a::linordered_field)" and "s + abs x / t \<le> M" and "M \<le> away"
  shows "abs x \<le> t * (away - s)"
proof -
  have "abs x / t \<le> away - s" using assms(2,3) by linarith
  then show ?thesis using assms(1) by (simp add: pos_divide_le_eq mult.commute)
qed

lemma reach_in_view:
  assumes "frame_ok fr" and "1 \<le> pad" and "0 \<le> cam_reach fr pts c" and "p \<in> set pts"
  shows "in_view fr c (cam_reach fr pts c * pad) p"
proof -
  have away: "cam_reach fr pts c \<le> cam_reach fr pts c * pad"
    using mult_left_mono [OF assms(2,3)] by simp
  have up: "reach_one fr c (cf_up fr) (cf_tv fr) p \<le> cam_reach fr pts c" and right: "reach_one fr c (cf_right fr) (cf_th fr) p \<le> cam_reach fr pts c"
    using reach_covers [OF assms(4)] by blast+
  show ?thesis
    using across_within [OF _ up [unfolded reach_one_def Let_def] away] across_within [OF _ right [unfolded reach_one_def Let_def] away]
      assms(1) by (simp add: in_view_def frame_ok_def depth_is [OF assms(1)] from_camera_across)
qed

text \<open>A recentring moves the centre across the view, so the depths stay as they are.\<close>

lemma fit_step_across:
  assumes "frame_ok fr"
  shows "v3_dot (fst (fit_step fr pad pts cd)) (cf_dir fr) = v3_dot (fst cd) (cf_dir fr)"
  using assms by (simp add: fit_step_def Let_def frame_ok_def v3_dot_linear(1-4))

lemma fit_loop_across:
  "frame_ok fr \<Longrightarrow> v3_dot (fst (fit_loop n fr pad pts cd)) (cf_dir fr) = v3_dot (fst cd) (cf_dir fr)"
  by (induction n arbitrary: cd) (simp_all add: fit_step_across)

lemma fit_loop_last: "fit_loop (Suc n) fr pad pts cd = fit_step fr pad pts (fit_loop n fr pad pts cd)"
  by (induction n arbitrary: cd) simp_all

definition some_ahead :: "'a::linordered_field vec3 \<Rightarrow> 'a vec3 list \<Rightarrow> bool" where
  "some_ahead d pts = list_ex (\<lambda>p. 0 < v3_dot (v3_sub p (box_centre pts)) d) pts"

lemma fit_loop_sees:
  assumes ok: "frame_ok fr" and pad: "1 < pad" and ahead: "some_ahead (cf_dir fr) pts"
    and fit: "fit_loop (Suc n) fr pad pts (box_centre pts, 1) = (c, away)"
  shows "\<exists>c0. v3_dot (v3_sub c c0) (cf_dir fr) = 0 \<and>
           (\<forall>p\<in>set pts. in_view fr c0 away p \<and> 0 < depth fr c away p)"
proof -
  define c0 where "c0 = fst (fit_loop n fr pad pts (box_centre pts, 1))"
  have c0: "v3_dot c0 (cf_dir fr) = v3_dot (box_centre pts) (cf_dir fr)"
    using fit_loop_across [OF ok] by (simp add: c0_def)
  have away: "away = cam_reach fr pts c0 * pad" and c: "v3_dot c (cf_dir fr) = v3_dot c0 (cf_dir fr)"
    using fit fit_step_across [OF ok, of pad pts "fit_loop n fr pad pts (box_centre pts, 1)"]
    unfolding fit_loop_last c0_def [symmetric] by (auto simp: fit_step_def Let_def c0_def)
  obtain q where q: "q \<in> set pts" "0 < v3_dot (v3_sub q (box_centre pts)) (cf_dir fr)"
    using ahead by (auto simp: some_ahead_def list_ex_iff)
  have "0 < v3_dot (v3_sub q c0) (cf_dir fr)"
    using q(2) c0 by (simp add: v3_dot_linear(1-4))
  then have pos: "0 < cam_reach fr pts c0"
    using reach_in_front [OF ok q(1), of c0] by linarith
  have more: "cam_reach fr pts c0 < away"
    using mult_strict_left_mono [OF pad pos] by (simp add: away)
  have "in_view fr c0 away p \<and> 0 < depth fr c away p" if "p \<in> set pts" for p
  proof
    show "in_view fr c0 away p"
      using reach_in_view [OF ok _ _ that, of pad c0] pad pos by (simp add: away)
    have "v3_dot (v3_sub p c) (cf_dir fr) = v3_dot (v3_sub p c0) (cf_dir fr)"
      using c by (simp add: v3_dot_linear(2))
    then show "0 < depth fr c away p"
      using reach_in_front [OF ok that, of c0] more by (simp add: depth_is [OF ok])
  qed
  moreover have "v3_dot (v3_sub c c0) (cf_dir fr) = 0"
    using c by (simp add: v3_dot_linear(1-4))
  ultimately show ?thesis by blast
qed

text \<open>The angles obey the law of the circle, the view is not along the vertical, and the window and the angle of view are positive.\<close>

definition circle :: "'a::linordered_field scene_lib \<Rightarrow> 'a \<Rightarrow> bool" where
  "circle sc x \<longleftrightarrow> sc_cos sc (sc_radians sc x) * sc_cos sc (sc_radians sc x) + sc_sin sc (sc_radians sc x) * sc_sin sc (sc_radians sc x) = 1"

definition lens_ok :: "'a::linordered_field scene_lib \<Rightarrow> 'a \<Rightarrow> 'a \<Rightarrow> 'a list \<Rightarrow> 'a \<Rightarrow> bool" where
  "lens_ok sc az el win angle \<longleftrightarrow>
     circle sc az \<and> circle sc el \<and> 1 / 1000000 \<le> sc_norm sc (v3_cross (v3_scale (- 1) (view_dir sc az el)) (0, 0, 1)) \<and>
     2 \<le> length win \<and> 0 < win ! 0 \<and> 0 < win ! 1 \<and> 0 < sc_tan sc (sc_radians sc angle / 2)"

lemma view_dir_unit: "circle sc az \<Longrightarrow> circle sc el \<Longrightarrow> v3_dot (view_dir sc az el) (view_dir sc az el) = 1"
proof -
  assume az: "circle sc az" and el: "circle sc el"
  let ?a = "sc_radians sc az" and ?e = "sc_radians sc el"
  have "v3_dot (view_dir sc az el) (view_dir sc az el) =
      sc_cos sc ?e * sc_cos sc ?e * (sc_cos sc ?a * sc_cos sc ?a + sc_sin sc ?a * sc_sin sc ?a) + sc_sin sc ?e * sc_sin sc ?e"
    by (simp add: view_dir_def v3_dot_def Let_def algebra_simps)
  then show ?thesis using az el by (simp add: circle_def)
qed

lemma camera_basis_ok:
  assumes "lens_ok sc az el win angle"
  shows "\<exists>fr. camera_basis sc az el win angle = Inr fr \<and> frame_ok fr \<and> cf_dir fr = view_dir sc az el"
proof -
  let ?d = "view_dir sc az el"
  let ?right = "right_of sc (v3_scale (- 1) ?d)"
  have scaled: "?right = v3_scale (1 / sc_norm sc (v3_cross (v3_scale (- 1) ?d) (0, 0, 1))) (v3_cross (v3_scale (- 1) ?d) (0, 0, 1))"
    using assms by (simp add: lens_ok_def right_of_def Let_def)
  have right: "v3_dot ?right ?d = 0"
    using cross_orthogonal(1) [of "v3_scale (- 1) ?d" "(0, 0, 1)"] unfolding scaled by (simp add: v3_dot_linear(3,4))
  have up: "v3_dot (v3_cross ?right (v3_scale (- 1) ?d)) ?d = 0"
    using cross_orthogonal(2) [of ?right "v3_scale (- 1) ?d"] by (simp add: v3_dot_linear(4))
  have win: "nth_or win 0 = Inr (win ! 0)" "nth_or win 1 = Inr (win ! 1)"
    using assms by (auto simp: lens_ok_def nth_or_def)
  show ?thesis
    using assms right up win view_dir_unit [of sc az el]
    by (simp add: camera_basis_def Let_def frame_ok_def lens_ok_def)
qed

text \<open>C23: A fitted camera sees what it was fitted to: for points of which one lies ahead of the middle of their bounding box, in any
  number of rounds but none, the camera stands so far away that every point lies before it, and within the angle of
  view as seen from the centre before the last recentring, which moves the centre only across the view.\<close>

theorem fitted_camera_sees_points:
  assumes "lens_ok sc az el win angle" and "1 < pad" and "0 < iters" and "some_ahead (view_dir sc az el) pts"
  shows "\<exists>fr c away c0. camera_basis sc az el win angle = Inr fr \<and>
           fit_camera sc pts az el win angle pad iters = Inr (c, away) \<and>
           list_all (\<lambda>p. 0 < depth fr c away p) pts \<and> list_all (in_view fr c0 away) pts \<and>
           v3_dot (v3_sub c c0) (view_dir sc az el) = 0"
proof -
  obtain fr where fr: "camera_basis sc az el win angle = Inr fr" "frame_ok fr" "cf_dir fr = view_dir sc az el"
    using camera_basis_ok [OF assms(1)] by blast
  obtain n where n: "iters = Suc n"
    using assms(3) by (cases iters) auto
  have pts: "pts \<noteq> []"
    using assms(4) by (auto simp: some_ahead_def)
  obtain c away where fit: "fit_loop (Suc n) fr pad pts (box_centre pts, 1) = (c, away)"
    by (cases "fit_loop (Suc n) fr pad pts (box_centre pts, 1)") blast
  have camera: "fit_camera sc pts az el win angle pad iters = Inr (c, away)"
    using pts by (simp add: fit_camera_def fr(1) n fit del: fit_loop.simps)
  obtain c0 where "v3_dot (v3_sub c c0) (cf_dir fr) = 0"
      and "\<forall>p\<in>set pts. in_view fr c0 away p \<and> 0 < depth fr c away p"
    using fit_loop_sees [OF fr(2) assms(2) _ fit] assms(4) fr(3) by auto
  then have "list_all (\<lambda>p. 0 < depth fr c away p) pts" "list_all (in_view fr c0 away) pts"
      "v3_dot (v3_sub c c0) (view_dir sc az el) = 0"
    unfolding list_all_iff fr(3) by blast+
  then show ?thesis
    using fr(1) camera by blast
qed

text \<open>A view from the front at an elevation whose cosine is 3/5.\<close>

definition front_lib :: "rat scene_lib" where
  "front_lib =
     \<lparr>sc_float = (\<lambda>s. Inr (rat_of_nat (read_digits s))), sc_json = (\<lambda>s. Inr [15, 9, 0, 9, 0, 9]), sc_radians = id,
      sc_cos = (\<lambda>x. if x = 0 then 1 else 3 / 5), sc_sin = (\<lambda>x. if x = 0 then 0 else 4 / 5), sc_tan = (\<lambda>_. 1 / 4), sc_pi = 3,
      sc_norm = (\<lambda>v. abs (fst v) + abs (fst (snd v)) + abs (snd (snd v))), sc_cbrt = id, sc_percentile = (\<lambda>vs q. hd vs),
      sc_times = (\<lambda>_. [0]), sc_body = (\<lambda>_ _ _. Inr [(0, 0, 0), (2, 1, 1)]), sc_centers = (\<lambda>_ _. [(1, 1, 1)]),
      sc_volumes = (\<lambda>_ _. [1]), sc_contour = (\<lambda>_ _ _ lev. \<lparr>is_cells = 1, is_points = [(1, 1, 2)], is_mag = [7]\<rparr>), sc_smooth = id,
      sc_f1 = (\<lambda>_. []), sc_f2 = (\<lambda>_. []), sc_f4 = (\<lambda>_. [])\<rparr>"

theorem fitted_camera_sees_points_witness:
  "\<exists>fr c away c0. camera_basis front_lib 0 1 [1500, 860] 30 = Inr fr \<and>
     fit_camera front_lib [(0, 0, 0), (2, 1, 1)] 0 1 [1500, 860] 30 (106 / 100) 6 = Inr (c, away) \<and>
     0 < depth fr c away (0, 0, 0) \<and> in_view fr c0 away (2, 1, 1)"
proof -
  have "lens_ok front_lib 0 1 [1500, 860] 30" "some_ahead (view_dir front_lib 0 1) [(0, 0, 0), (2, 1, 1)]"
    by (simp_all add: lens_ok_def circle_def front_lib_def view_dir_def v3_defs Let_def some_ahead_def box_centre_def middle_def)
  from fitted_camera_sees_points [OF this(1) _ _ this(2), of "106 / 100" 6] obtain fr c away c0
    where "camera_basis front_lib 0 1 [1500, 860] 30 = Inr fr"
      and "fit_camera front_lib [(0, 0, 0), (2, 1, 1)] 0 1 [1500, 860] 30 (106 / 100) 6 = Inr (c, away)"
      and "list_all (\<lambda>p. 0 < depth fr c away p) [(0, 0, 0), (2, 1, 1)]" and "list_all (in_view fr c0 away) [(0, 0, 0), (2, 1, 1)]"
    by auto
  then show ?thesis
    unfolding list.pred_inject by blast
qed

subsection \<open>The track and the pictures\<close>

text \<open>Between the samples the track is interpolated; at a sample it is the fitted camera.\<close>

lemma interp_from_hit:
  assumes "sorted_wrt (\<lambda>a b. fst a < fst b) (p # qs)" and "(x, v) \<in> set (p # qs)"
  shows "interp_from p qs x = v"
  using assms
proof (induction p qs x rule: interp_from.induct)
  case (2 p q qs x)
  then show ?case by (cases "(x, v) = p"; cases "x < fst q") auto
qed auto

lemma interp_hit: "sorted_wrt (\<lambda>a b. fst a < fst b) ps \<Longrightarrow> (x, v) \<in> set ps \<Longrightarrow> interp ps x = v"
  by (cases ps) (simp_all only: interp.simps interp_from_hit list.set(1) empty_iff)

lemma track_hits_samples:
  assumes "sorted_wrt (<) (map fst samples)" and "(k, cd) \<in> set samples"
  shows "track_at samples k = cd"
proof -
  have hit: "interp (map (\<lambda>s. (fst s, g (snd s))) samples) k = g cd" for g :: "_ \<Rightarrow> 'a"
    by (rule interp_hit) (use assms in \<open>auto simp: sorted_wrt_map comp_def intro: rev_image_eqI\<close>)
  show ?thesis by (simp add: track_at_def Let_def hit)
qed

definition view_names :: "string list" where
  "view_names = [''orbit'', ''top'', ''corner'']"

lemma draw_view_path:
  "draw_view sc sn ts clim isos k t vt = Inr pic \<Longrightarrow> pc_path pic = frame_path (fst (fst vt)) k \<and> pc_isos pic = shown isos"
  by (auto simp: draw_view_def Let_def bindR_Inr_iff)

lemma mapR_images: "mapR f xs = Inr ys \<Longrightarrow> (\<And>x y. x \<in> set xs \<Longrightarrow> f x = Inr y \<Longrightarrow> g y = h x) \<Longrightarrow> map g ys = map h xs"
  by (induction xs arbitrary: ys) (auto simp: bindR_Inr_iff)

lemma draw_time_paths:
  assumes "draw_time sc sn ts ids clim tracks k = Inr pics"
  shows "map pc_path pics = map (\<lambda>vt. frame_path (fst (fst vt)) k) tracks"
    and "\<exists>isos. list_all (\<lambda>pic. pc_isos pic = isos) pics"
proof -
  obtain t where t: "mapR (draw_view sc sn ts clim (build_iso sc sn ids t) k t) tracks = Inr pics"
    using assms by (auto simp: draw_time_def bindR_Inr_iff)
  show "map pc_path pics = map (\<lambda>vt. frame_path (fst (fst vt)) k) tracks"
    by (rule mapR_images [OF t]) (simp add: draw_view_path)
  have "map pc_isos pics = map (\<lambda>_. shown (build_iso sc sn ids t)) tracks"
    by (rule mapR_images [OF t]) (simp add: draw_view_path)
  then have "set (map pc_isos pics) \<subseteq> {shown (build_iso sc sn ids t)}"
    by auto
  then show "\<exists>isos. list_all (\<lambda>pic. pc_isos pic = isos) pics"
    by (auto simp: list_all_iff)
qed

lemma render_frames:
  assumes "render_main sc env = Inr films" and "read_scene sc env = Inr sn" and "draw_indices env (length (sc_times sc (sn_case sn))) = Inr idx"
  shows "\<exists>frames. fm_pictures films = concat frames \<and>
           map (map pc_path) frames = map (\<lambda>k. map (\<lambda>nm. frame_path nm k) view_names) idx \<and>
           list_all (\<lambda>pics. \<exists>isos. list_all (\<lambda>pic. pc_isos pic = isos) pics) frames"
proof -
  obtain frames ts ids clim tracks
    where frames: "mapR (draw_time sc sn ts ids clim tracks) idx = Inr frames" and films: "fm_pictures films = concat frames"
      and tracks: "map (\<lambda>vt. fst (fst vt)) tracks = view_names"
    using assms unfolding render_main_def Let_def bindR_Inr_iff
    by (auto simp: bindR_Inr_iff view_names_def VIEWS_def upt_rec split: if_splits)
  have names: "map (map pc_path) frames = map (\<lambda>k. map (\<lambda>nm. frame_path nm k) view_names) idx"
    by (rule mapR_images [OF frames]) (simp add: draw_time_paths(1) tracks [symmetric] comp_def)
  have same: "list_all (\<lambda>pics. \<exists>isos. list_all (\<lambda>pic. pc_isos pic = isos) pics) frames"
    using frames draw_time_paths(2) [of sc sn ts ids clim tracks] by (induction idx arbitrary: frames) (auto simp: bindR_Inr_iff)
  show ?thesis
    using films names same by blast
qed

text \<open>The indices to fit lie between the first and the last index to draw.\<close>

lemma trunc_div_between:
  assumes "0 \<le> l" and "0 < m" and "l * m \<le> x" and "x \<le> u * m"
  shows "l \<le> trunc_div x m \<and> trunc_div x m \<le> u"
proof -
  have x: "0 \<le> x" using assms by (smt (verit) mult_nonneg_nonneg)
  have "l * m div m \<le> x div m" "x div m \<le> u * m div m"
    using assms by (simp_all only: zdiv_mono1)
  then show ?thesis using assms(2) x by (simp add: trunc_div_def)
qed

lemma sample_indices_between:
  assumes "0 < n" and "0 \<le> a" and "0 \<le> b" and "sample_indices a b n = Inr js" and "j \<in> set js"
  shows "min a b \<le> j \<and> j \<le> max a b" and "js \<noteq> []"
proof -
  show "js \<noteq> []" using assms by auto
  show "min a b \<le> j \<and> j \<le> max a b"
  proof (cases "n = 1")
    case False
    then obtain i where i: "0 \<le> i" "i \<le> n - 1" and j: "j = trunc_div (a * (n - 1) + i * (b - a)) (n - 1)"
      using assms by (auto simp: sample_indices_def)
    have eq: "a * (n - 1) + i * (b - a) = a * (n - 1 - i) + b * i"
      by (simp add: algebra_simps)
    have "min a b * (n - 1 - i) + min a b * i \<le> a * (n - 1 - i) + b * i" "a * (n - 1 - i) + b * i \<le> max a b * (n - 1 - i) + max a b * i"
      using i by (intro add_mono mult_right_mono; simp)+
    then have "min a b * (n - 1) \<le> a * (n - 1) + i * (b - a)" "a * (n - 1) + i * (b - a) \<le> max a b * (n - 1)"
      unfolding eq by (simp_all add: algebra_simps)
    then show ?thesis
      unfolding j using assms(1-3) False by (intro trunc_div_between) auto
  qed (use assms in \<open>auto simp: sample_indices_def\<close>)
qed

lemma sample_indices_ends: "0 < n \<Longrightarrow> \<exists>js. sample_indices a b n = Inr js \<and> js \<noteq> []"
proof (cases "n = 1")
  case False
  assume "0 < n"
  then have "set (sorted_set (map (\<lambda>i. trunc_div (a * (n - 1) + i * (b - a)) (n - 1)) [0..n - 1])) \<noteq> {}"
    unfolding sorted_set_props by simp
  with \<open>0 < n\<close> False show ?thesis by (auto simp: sample_indices_def simp del: sorted_set_props)
qed (simp add: sample_indices_def)

lemma py_nth_within: "0 \<le> k \<Longrightarrow> k < int (length xs) \<Longrightarrow> \<exists>x. py_nth xs k = Inr x \<and> x \<in> set xs"
  by (auto simp: py_nth_def nth_or_def nat_less_iff)

definition window_ok :: "'a::linordered_field list \<Rightarrow> bool" where
  "window_ok win \<longleftrightarrow> 2 \<le> length win \<and> win ! 1 \<noteq> 0"

lemma fit_camera_ends: "window_ok win \<Longrightarrow> pts \<noteq> [] \<Longrightarrow> \<exists>cd. fit_camera sc pts az el win angle pad iters = Inr cd"
proof -
  assume "window_ok win" and pts: "pts \<noteq> []"
  then have "nth_or win 0 = Inr (win ! 0)" "nth_or win 1 = Inr (win ! 1)" "win ! 1 \<noteq> 0"
    by (auto simp: window_ok_def nth_or_def)
  then obtain fr where "camera_basis sc az el win angle = Inr fr"
    by (simp add: camera_basis_def Let_def)
  then show ?thesis using pts by (simp add: fit_camera_def del: split_paired_Ex)
qed

lemma fit_time_ends:
  assumes "window_ok (sn_win sn)" and "body \<noteq> []" and "0 \<le> j" and "j < int (length ts)"
    and "list_all (\<lambda>t. shown (build_iso sc sn ids t) \<noteq> []) ts"
  shows "\<exists>ft. fit_time sc sn ts body ids j = Inr ft \<and> ft_mags ft \<noteq> []"
proof -
  obtain t where t: "py_nth ts j = Inr t" "t \<in> set ts"
    using py_nth_within [OF assms(3,4)] by blast
  have pts: "thinned (body @ qs) \<noteq> []" for qs
    using assms(2) by (auto simp: thinned_def MAX_POINTS_def) (cases body, simp_all)
  obtain cams where "mapR (\<lambda>nv. let ae = snd nv (frac (length ts) j)
        in fit_camera sc (thinned (body @ concat (map (\<lambda>io. is_points (fst io)) (shown (build_iso sc sn ids t))))) (fst ae) (snd ae)
             (sn_win sn) 30 (106 / 100) 6) (VIEWS sc (sn_az0 sn)) = Inr cams"
    using mapR_total [of "VIEWS sc (sn_az0 sn)"] fit_camera_ends [OF assms(1) pts] by (metis (no_types, lifting))
  then show ?thesis
    using t assms(5) by (simp add: fit_time_def Let_def list_all_iff)
qed

lemma draw_time_ends:
  assumes "0 \<le> k" and "k < int (length ts)" and "\<And>vt. vt \<in> set tracks \<Longrightarrow> length (snd vt) = length ts"
  shows "\<exists>pics. draw_time sc sn ts ids clim tracks k = Inr pics"
proof -
  obtain t where t: "py_nth ts k = Inr t"
    using py_nth_within [OF assms(1,2)] by blast
  have "\<exists>pic. draw_view sc sn ts clim (build_iso sc sn ids t) k t vt = Inr pic" if vt: "vt \<in> set tracks" for vt
  proof -
    obtain cd where "py_nth (snd vt) k = Inr cd"
      using py_nth_within [of k "snd vt"] assms(1,2) assms(3) [OF vt] by auto
    then show ?thesis by (simp add: draw_view_def Let_def)
  qed
  then show ?thesis
    using t mapR_total [of tracks "draw_view sc sn ts clim (build_iso sc sn ids t) k t"] by (simp add: draw_time_def)
qed

text \<open>What the command needs: a configuration that is read, a time, a body with points, a box of six numbers, indices of times to draw,
  a time to fit, a window, and isosurfaces at every time.\<close>

definition scene_ok :: "'a::linordered_field scene_lib \<Rightarrow> (string, string) dict \<Rightarrow> 'a scene \<Rightarrow> int list \<Rightarrow> bool" where
  "scene_ok sc env sn idx \<longleftrightarrow>
     read_scene sc env = Inr sn \<and>
     (let ts = sort (sc_times sc (sn_case sn)); t_last = last ts; cc = sc_centers sc (sn_case sn) t_last;
          ids = kept_cells sc sn cc (sc_volumes sc (sn_case sn) t_last) in
      ts \<noteq> [] \<and> (case sc_body sc (sn_case sn) (sn_patch sn) t_last of Inl e \<Rightarrow> False | Inr body \<Rightarrow> body \<noteq> []) \<and>
      draw_indices env (length ts) = Inr idx \<and> idx \<noteq> [] \<and> list_all (\<lambda>k. 0 \<le> k \<and> k < int (length ts)) idx \<and>
      0 < sn_nfit sn \<and> window_ok (sn_win sn) \<and>
      (case ids of Inl e \<Rightarrow> False | Inr is1 \<Rightarrow> list_all (\<lambda>t. shown (build_iso sc sn is1 t) \<noteq> []) ts))"

lemma render_ends:
  assumes "scene_ok sc env sn idx"
  shows "\<exists>films. render_main sc env = Inr films"
proof -
  define ts where "ts = sort (sc_times sc (sn_case sn))"
  obtain body ids where
        sn: "read_scene sc env = Inr sn" and ts: "ts \<noteq> []" and body: "sc_body sc (sn_case sn) (sn_patch sn) (last ts) = Inr body" "body \<noteq> []"
    and ids: "kept_cells sc sn (sc_centers sc (sn_case sn) (last ts)) (sc_volumes sc (sn_case sn) (last ts)) = Inr ids"
    and idx: "draw_indices env (length ts) = Inr idx" "idx \<noteq> []" and range: "\<And>k. k \<in> set idx \<Longrightarrow> 0 \<le> k \<and> k < int (length ts)"
    and fit: "0 < sn_nfit sn" "window_ok (sn_win sn)" and isos: "list_all (\<lambda>t. shown (build_iso sc sn ids t) \<noteq> []) ts"
    using assms unfolding scene_ok_def Let_def ts_def [symmetric] by (auto simp: list_all_iff split: sum.splits)
  have firsts: "py_nth ts (- 1) = Inr (last ts)" "py_nth idx 0 = Inr (hd idx)" "py_nth idx (- 1) = Inr (last idx)"
    using ts idx(2) by (simp_all add: py_nth_def nth_or_def hd_conv_nth last_conv_nth Suc_le_eq)
  have ends: "0 \<le> hd idx \<and> hd idx < int (length ts)" "0 \<le> last idx \<and> last idx < int (length ts)"
    using idx(2) range by simp_all
  obtain js where js: "sample_indices (hd idx) (last idx) (sn_nfit sn) = Inr js" "js \<noteq> []"
    using sample_indices_ends [OF fit(1)] by blast
  have one: "\<exists>ft. fit_time sc sn ts body ids j = Inr ft \<and> ft_mags ft \<noteq> []" if "j \<in> set js" for j
  proof -
    have "min (hd idx) (last idx) \<le> j \<and> j \<le> max (hd idx) (last idx)"
      using sample_indices_between(1) [OF fit(1) _ _ js(1) that] ends by blast
    then show ?thesis
      using ends by (intro fit_time_ends [OF fit(2) body(2) _ _ isos]) linarith+
  qed
  obtain fits where fits: "mapR (fit_time sc sn ts body ids) js = Inr fits"
    using mapR_total [of js "fit_time sc sn ts body ids"] one by blast
  have some: "fits \<noteq> []" "concat (map ft_mags fits) \<noteq> []"
    using fits js(2) one by (cases js; fastforce simp: bindR_Inr_iff)+
  define tracks where "tracks = map (\<lambda>v. (VIEWS sc (sn_az0 sn) ! v, view_track js fits (length ts) v)) [0..<length (VIEWS sc (sn_az0 sn))]"
  define clim where "clim = (sc_percentile sc (concat (concat (map ft_mags fits))) 2, sc_percentile sc (concat (concat (map ft_mags fits))) 98)"
  have long: "length (snd vt) = length ts" if "vt \<in> set tracks" for vt
    using that by (auto simp: tracks_def view_track_def)
  obtain pics where pics: "mapR (draw_time sc sn ts ids clim tracks) idx = Inr pics"
    using mapR_total [of idx "draw_time sc sn ts ids clim tracks"] draw_time_ends [of _ ts tracks sc sn ids clim, OF _ _ long] range by blast
  show ?thesis
    unfolding render_main_def sn bindR_simps Let_def ts_def [symmetric] firsts body(1) ids idx(1) js(1) fits
    using some pics by (simp add: tracks_def clim_def)
qed

text \<open>C24: The command ends and writes the three films frame by frame: on a configuration, a case and indices it can work with, the
  pictures are, for each index to be drawn in its order, one for the orbit, one for the top and one for the corner view, under
  the names of the view and the index, and the three of an index show the same isosurfaces.\<close>

theorem films_have_every_frame:
  assumes "scene_ok sc env sn idx"
  shows "\<exists>films frames. render_main sc env = Inr films \<and> fm_pictures films = concat frames \<and>
           map (map pc_path) frames = map (\<lambda>k. map (\<lambda>nm. frame_path nm k) view_names) idx \<and>
           list_all (\<lambda>pics. \<exists>isos. list_all (\<lambda>pic. pc_isos pic = isos) pics) frames"
proof -
  obtain films where films: "render_main sc env = Inr films"
    using render_ends [OF assms] by blast
  have "read_scene sc env = Inr sn" "draw_indices env (length (sc_times sc (sn_case sn))) = Inr idx"
    using assms by (simp_all add: scene_ok_def Let_def)
  from render_frames [OF films this] show ?thesis
    using films by blast
qed

definition front_env :: "(string, string) dict" where
  "front_env = [(''CASE'', ''f16''), (''BOX'', ''[15,9,0,9,0,9]''), (''CELL_L_MAX'', ''2''), (''QLEV'', ''5'')]"

definition front_scene :: "rat scene" where
  "front_scene =
     \<lparr>sn_case = ''f16'', sn_patch = ''f16'', sn_box = [15, 9, 0, 9, 0, 9], sn_cell_l = 2, sn_levels = [(5, rat_of_nat (read_digits ''0.14''))],
      sn_label = [], sn_win = [15, 9, 0, 9, 0, 9], sn_nfit = 10, sn_az0 = - 125, sn_bodyc = [15, 9, 0, 9, 0, 9]\<rparr>"

theorem films_have_every_frame_witness:
  "\<exists>films. render_main front_lib front_env = Inr films \<and>
     map pc_path (fm_pictures films) = [''frames_orbit/v0000.png'', ''frames_top/v0000.png'', ''frames_corner/v0000.png'']"
proof -
  have split: "split_on (CHR '','') ''0.14,0.38,1.0'' = [''0.14'', ''0.38'', ''1.0'']" "split_on (CHR '','') ''5'' = [''5'']"
      "read_digits ''5'' = 5" "read_digits ''2'' = 2"
    by code_simp+
  have scene: "read_scene front_lib front_env = Inr front_scene"
    by (simp add: read_scene_def read_levels_def env_item_def front_env_def front_lib_def front_scene_def get_or_def dict_get_def split)
  have zero: "draw_indices front_env 1 = Inr [0]"
    by code_simp
  have ok: "scene_ok front_lib front_env front_scene [0]"
    unfolding scene_ok_def using zero
    by (simp add: scene) (simp add: front_lib_def front_scene_def kept_cells_def build_iso_def shown_def window_ok_def Let_def)
  have paths: "map (\<lambda>nm. frame_path nm 0) view_names = [''frames_orbit/v0000.png'', ''frames_top/v0000.png'', ''frames_corner/v0000.png'']"
    by code_simp
  obtain films frames where "render_main front_lib front_env = Inr films" "fm_pictures films = concat frames"
      "map (map pc_path) frames = map (\<lambda>k. map (\<lambda>nm. frame_path nm k) view_names) [0]"
    using films_have_every_frame [OF ok] by blast
  then show ?thesis
    using paths by (auto simp: map_concat)
qed

end
