(* ===== verification/Spec2Isabelle.thy ===== *)
theory Spec2Isabelle
  imports Py_Prelude Py_Regex Py_Os Cxx_Scan Cache_Key_Audit Header_Odr_Audit Resize_Audit Default_Audit
    Elf_Hash Ctest_Inputs Ctest_Cached Of_Manifest
    Slice_Provenance Mirror_Coverage Py_Float Pimple_Coverage Foam_Compare Amg_Steps Ldu_System Ldu_Precond Eps_Precond
    Py_Csv Amg_Tables Amg_Replay Amg_Fit Amg_Playback Amg_Compare Stage_Compare Time_Reports Bench_Plots F16_Render
begin

text \<open>
  A verification library of the Python tools of brae, a GPU port of OpenFOAM solvers.  The solvers
  themselves are C++ and CUDA; what decides whether a change to them is accepted is Python: a test
  driver that skips tests whose inputs have not changed, audits over the C++ sources, manifests that
  tie the port to OpenFOAM, comparisons of fields, a reference implementation of three multigrid
  solvers with the films of it, experiments with preconditioners, and the reports and figures of the benchmarks.
  Each of these is a theory here, translated function by function from the script.

  \<^bold>\<open>The language.\<close>
  \<^item> \<open>Py_Prelude\<close>: exceptions as the left side of a sum (\<open>res\<close>), operations with state
    (\<open>op\<close>), strings, dictionaries in insertion order, \<open>sorted(set(...))\<close>, paths.  Its
    predicates \<open>refines\<close>, \<open>keeps\<close>, \<open>returns\<close>, \<open>yields\<close> and \<open>raises\<close> have one
    rule per combinator; the component proofs compose them.
  \<^item> \<open>Py_Regex\<close>: a backtracking matcher with the order of Python's \<open>re\<close>, and its
    denotation by sets of end positions; a search is leftmost, a scan is disjoint and in order, and
    the scan of the lines a \<open>grep -o\<close> prints gives the names back.
  \<^item> \<open>Py_Os\<close>: the file system as a record of answers, walks, ledgers and their contract, the
    locale \<open>ledger\<close>.
  \<^item> \<open>Py_Float\<close>: floats with infinities and NaN over exact rationals.
  \<^item> \<open>Py_Csv\<close>: the reader of the \<open>csv\<close> module as a state machine over characters, \<open>DictReader\<close>, and the
    writer with its quoting; the reader gives back what the writer wrote.  The locales \<open>csv_table\<close> and \<open>loaded_table\<close> are the
    contract between a script that writes a file and a script that reads it; the five files of the multigrid demonstration are
    interpretations of them.

  \<^bold>\<open>The test driver\<close>, \<open>tools/ctest_cached.py\<close>.
  \<^item> \<open>Elf_Hash\<close>: \<open>loadedBytesHash\<close>, which fingerprints a binary by its loaded sections.
    Two files have the same fingerprint exactly when they load the same sections; nothing else
    influences it; the block loop reads the section.
  \<^item> \<open>Ctest_Inputs\<close>: the classes \<open>Inputs\<close> and \<open>Closure\<close>: the memo of file digests,
    the closure of what a script can read, trees, embedded paths.  The worklist ends and computes
    reachability, the memo and the caches change no answer, the order of hashing does not matter.
  \<^item> \<open>Ctest_Cached\<close>: \<open>fingerprint\<close>, the split of the command line and \<open>main\<close>, as
    a transition of a store of passes.  Over every sequence of runs a recorded pass is genuine, and
    a test that is held back has passed with the fingerprint it has now.

  \<^bold>\<open>The audits.\<close>
  \<^item> \<open>Cxx_Scan\<close>: the comment strippers and bracket counters that the audits share in copies,
    under the locales \<open>text_filter\<close>, \<open>line_filter\<close> and \<open>blanking_filter\<close>.
  \<^item> \<open>Cache_Key_Audit\<close>, \<open>Header_Odr_Audit\<close>, \<open>Resize_Audit\<close>, \<open>Default_Audit\<close>:
    the scripts of the same names under \<open>tools/\<close>.  Each is shown to report exactly the findings
    its patterns and its ledger define; the fixpoint of \<open>default_audit\<close> is the least closed table.
  \<^item> \<open>Slice_Provenance\<close>, \<open>Mirror_Coverage\<close>, \<open>Pimple_Coverage\<close>: the scripts of the
    same names: copies are their donors, files fall into components, registered types are missing
    or accounted for.

  \<^bold>\<open>The manifest\<close>, \<open>tools/of_manifest.py\<close>.
  \<^item> \<open>Manifest_Data\<close> and \<open>Manifest_SimpleFoam\<close>, \<open>Manifest_InterFoam1\<close>,
    \<open>Manifest_InterFoam2\<close>, \<open>Manifest_RhoSimpleFoam\<close>: every row of the curated tables,
    literal by literal, each with the check that it has the keys the emitter needs.
  \<^item> \<open>Of_Manifest\<close>: the emitter, the YAML scalar printer, provenance and \<open>--check\<close>.
    The emitter fails on no row of the tables, a scalar reads back, and a manifest that one run
    prints is accepted by the next.

  \<^bold>\<open>Comparison and reference numerics.\<close>
  \<^item> \<open>Foam_Compare\<close>: \<open>tools/foam_time_compare.py\<close>: tokens, the dictionary parser and its
    round trip, the comparison and the bound its worst difference gives, NaN excepted.
  \<^item> \<open>Amg_Arrays\<close>, \<open>Amg_Hierarchy\<close>, \<open>Amg_Cycles\<close>, \<open>Amg_Steps\<close>:
    \<open>demo/amgpcg/make_steps.py\<close>: reading the system, pairwise aggregation, Galerkin products, the
    levels, recorder, V-cycles, the three solvers and the command.  Aggregation partitions the
    cells, the coarse operator sums over aggregates, the levels fit and the loop ends, the
    conjugate-gradient residual is the true one, frames are numbered without gaps.
  \<^item> \<open>Amg_Tables\<close>: the four files \<open>make_steps.py\<close> writes, as text.  \<open>Amg_Replay\<close>: \<open>demo/amgpcg/replay.py\<close>,
    its loaders, its panels as lists of drawing calls, the frames and the two kinds of film.  \<open>Amg_Fit\<close>: the
    recorded states have the lengths of the levels they belong to.  \<open>Amg_Playback\<close>: composed, every frame that
    was recorded is drawn, and the film of the three solvers needs the trace of \<open>brae\<close>.
  \<^item> \<open>Amg_Compare\<close>: \<open>demo/amgpcg/make_compare.py\<close>; what it writes is what the convergence panel of the replay reads.
  \<^item> \<open>Ldu_System\<close>, \<open>Ldu_Precond\<close>, \<open>Eps_Precond\<close>: \<open>bench/rhoSimpleFoam/u_precond_experiment.py\<close> and
    \<open>eps_precond_experiment.py\<close>: reading the dumped matrix, two-colouring its graph, the preconditioners and
    BiCGStab.  The colouring ends and decides, the sweeps of DILU and of the red-black ordering solve their triangular
    systems, BiCGStab returns and its residual is the true one, and so for Chebyshev.
  \<^item> \<open>Stage_Compare\<close>: \<open>tools/dumpSimpleFoam/compare_stages.py\<close>: the parsing of fields and patches, the cells
    that a patch touches, and the lines that compare the stages of one iteration.

  \<^bold>\<open>Reports, figures and films.\<close>
  \<^item> \<open>Time_Reports\<close>: \<open>tools/timeInterFoam/parts_report.py\<close> and \<open>bench/rhoSimpleFoam/phase_table.py\<close>: the logs and
    the tables; a phase is counted once, and a difference of runs gives the mean of the steps between.
  \<^item> \<open>Bench_Plots\<close>: \<open>bench/rhoSimpleFoam/plot_benchmark.py\<close> and \<open>bench/results/simpleFoam/plot_runtime.py\<close>: their
    tables and what they draw; the curves rank the arms as the seconds do, and which marks carry a label.
  \<^item> \<open>F16_Render\<close>: \<open>demo/f16/render.py\<close>: the configuration, the fit of a camera, the track and the pictures.  The
    fitted camera sees its points, the number of points is bounded, and on a scene it can work with the
    command ends with a picture for each index and view.

  \<^bold>\<open>Parameters.\<close>  Code outside the repository is an argument: the digest, the answers of
  ctest, git, \<open>nvidia-smi\<close> and the clock, ofscan's queries, the output of shell commands, the
  content of compressed files, number formats, JSON text, and numpy's products and solver with their
  documented laws in the locale \<open>numpy_lib\<close>, which is interpreted on the textbook definitions.  Scipy's sparse
  product and norms, \<open>np.loadtxt\<close>, \<open>eigvalsh\<close>, the trigonometric functions, and the contours of pyvista are fields of
  records (\<open>sci\<close>, \<open>stage_lib\<close>, \<open>scene_lib\<close>), as are the number formats of reports and labels (\<open>report_lib\<close>,
  \<open>chart_lib\<close>, \<open>plot\<close>).

  \<^bold>\<open>Bounds.\<close>  \<open>closure_fuel\<close> counts the scripts a worklist can still push and is shown
  sufficient; \<open>filler_fuel\<close> bounds the rounds of the fixpoint by the fields that can still be
  added; \<open>level_fuel\<close> is the number of dumped maps, or of cells, since each level has fewer; the dictionary parser
  is given as many steps as it has tokens; the colouring has one round more than cells; the walk of a tree is bounded by the number of files.  For each of
  them it is proved that the bound is enough.  \<open>recursion_limit\<close> is Python's own and running
  into it is the exception Python raises.

  \<^bold>\<open>Not modelled.\<close>  The C++ and CUDA sources; argparse, whose result is an argument; rounding of floats
  (an ordered field in the numerical theories, exact rationals in the comparison and the figures); of the
  drawing scripts the fonts, line widths, colour maps, layouts and the encoding of films: a call that draws is a
  value with the data it shows; lines that print the time a frame took; \<open>ctest_cached_last.json\<close>; the Python
  helpers of single tests under \<open>tests/\<close>.
\<close>

end
